(* ===== verification/Path_Claims.thy ===== *)
theory Path_Claims
  imports Prelude
begin

text \<open>
  Path claims of the coordinator (\<open>workflows/coordinator/service.py\<close>): the parser \<open>path_claim\<close> of
  an owned, shared or excluded path pattern, the overlap test between two claims, the governed
  claims built from them and the conflict rules between two governed claims.  The meaning of a
  claim is the set of repository paths it covers (\<open>denotes\<close>), and the locale \<open>path_scope\<close> is the
  interface through which the planner, the reservation and the authority services use the
  overlap test.
\<close>

section \<open>Path claims\<close>

text \<open>The tuple \<open>(normalized, prefix, recursive)\<close> of \<open>_path_claim\<close>.\<close>

record path_claim =
  pc_normalized :: string
  pc_prefix :: string
  pc_recursive :: bool

definition pattern_invalid :: exn where
  "pattern_invalid = Coded ''CHANGE_PATH_PATTERN_INVALID''"

definition drive_rooted :: "string \<Rightarrow> bool" where
  "drive_rooted s = (case s of a # b # c # _ \<Rightarrow> is_alpha a \<and> b = CHR '':'' \<and> c = CHR ''/'' | _ \<Rightarrow> False)"

definition path_claim :: "string \<Rightarrow> path_claim result" where
  "path_claim value =
     (if blank value then Inl pattern_invalid
      else let normalized = replace_char (CHR 0x5C) (CHR ''/'') (py_strip value) in
        if starts_with ''/'' normalized \<or> drive_rooted normalized then Inl pattern_invalid
        else if \<exists>part \<in> set (split_on (CHR ''/'') normalized). part \<in> {'''', ''.'', ''..''}
          then Inl pattern_invalid
        else let recursive = ends_with ''/**'' normalized in
          if CHR ''*'' \<in> set normalized \<and> \<not> recursive then Inl pattern_invalid
          else let prefix = (if recursive then take (length normalized - 3) normalized
                             else normalized) in
            if prefix = [] \<or> CHR ''*'' \<in> set prefix then Inl pattern_invalid
            else Inr \<lparr>pc_normalized = normalized, pc_prefix = prefix, pc_recursive = recursive\<rparr>)"

definition descendant :: "string \<Rightarrow> string \<Rightarrow> bool" where
  "descendant path parent = (path = parent \<or> starts_with (parent @ ''/'') path)"

definition overlaps :: "path_claim \<Rightarrow> path_claim \<Rightarrow> bool" where
  "overlaps left right =
     (if \<not> pc_recursive left \<and> \<not> pc_recursive right then pc_prefix left = pc_prefix right
      else if pc_recursive left \<and> pc_recursive right then
        descendant (pc_prefix left) (pc_prefix right) \<or> descendant (pc_prefix right) (pc_prefix left)
      else
        let recursive = (if pc_recursive left then left else right);
            exact = (if pc_recursive left then right else left)
        in descendant (pc_prefix exact) (pc_prefix recursive))"

text \<open>The repository paths a claim covers.\<close>

definition denotes :: "path_claim \<Rightarrow> string \<Rightarrow> bool" where
  "denotes c p = (if pc_recursive c then descendant p (pc_prefix c) else p = pc_prefix c)"

subsection \<open>Overlap is intersection of the covered paths\<close>

lemma descendant_refl [simp]: "descendant p p"
  by (simp add: descendant_def)

lemma descendant_iff: "descendant p q \<longleftrightarrow> p = q \<or> (\<exists>t. p = q @ CHR ''/'' # t)"
  by (auto simp: descendant_def starts_with_prefix prefix_def)

lemma descendant_trans: "descendant p q \<Longrightarrow> descendant q r \<Longrightarrow> descendant p r"
  by (auto simp: descendant_iff)

lemma common_descendant:
  assumes "descendant p a" and "descendant p b"
  shows "descendant a b \<or> descendant b a"
proof -
  from assms have pre: "prefix a p" "prefix b p"
    by (auto simp: descendant_def starts_with_prefix dest: prefix_order.trans [rotated] append_prefixD)
  then have "prefix a b \<or> prefix b a" using prefix_same_cases by blast
  moreover have "descendant y x" if ds: "descendant p x" "descendant p y" and "prefix x y" for x y
  proof -
    from \<open>prefix x y\<close> obtain t where y: "y = x @ t" by (auto simp: prefix_def)
    show ?thesis
    proof (cases t)
      case Nil
      then show ?thesis using y by simp
    next
      case (Cons c u)
      with y ds have "c = CHR ''/''" by (auto simp: descendant_iff)
      with y Cons show ?thesis by (auto simp: descendant_iff)
    qed
  qed
  ultimately show ?thesis using assms by blast
qed

lemma overlaps_denotes: "overlaps a b \<longleftrightarrow> (\<exists>p. denotes a p \<and> denotes b p)"
proof
  assume "overlaps a b"
  then show "\<exists>p. denotes a p \<and> denotes b p"
    by (auto simp: overlaps_def denotes_def Let_def split: if_splits intro: descendant_refl)
next
  assume "\<exists>p. denotes a p \<and> denotes b p"
  then show "overlaps a b"
    by (auto simp: overlaps_def denotes_def Let_def split: if_splits dest: common_descendant)
qed

locale path_scope =
  fixes ov :: "'c \<Rightarrow> 'c \<Rightarrow> bool"
    and den :: "'c \<Rightarrow> 'p \<Rightarrow> bool"
  assumes ov_iff: "ov a b \<longleftrightarrow> (\<exists>p. den a p \<and> den b p)"
begin

lemma ov_sym: "ov a b = ov b a"
  by (auto simp: ov_iff)

lemma no_ov_disjoint: "\<not> ov a b \<Longrightarrow> den a p \<Longrightarrow> \<not> den b p"
  by (auto simp: ov_iff)

text \<open>A family of claims without overlap covers disjoint sets of paths.\<close>

lemma disjoint_scopes:
  assumes "\<And>a b. a \<in> A \<Longrightarrow> b \<in> B \<Longrightarrow> \<not> ov a b"
  shows "{p. \<exists>a \<in> A. den a p} \<inter> {p. \<exists>b \<in> B. den b p} = {}"
  using assms by (auto simp: ov_iff)

lemma scopes_meet:
  "(\<exists>a \<in> A. \<exists>b \<in> B. ov a b) \<longleftrightarrow> {p. \<exists>a \<in> A. den a p} \<inter> {p. \<exists>b \<in> B. den b p} \<noteq> {}"
  by (auto simp: ov_iff)

end

interpretation pc: path_scope overlaps denotes
  by unfold_locales (rule overlaps_denotes)

lemmas overlaps_sym = pc.ov_sym

subsection \<open>Accepted claims are relative and stay below the repository root\<close>

text \<open>Characterisation of an accepted claim, used by every other lemma about the parser.\<close>

lemma path_claim_Inr:
  "path_claim v = Inr c \<longleftrightarrow>
     (let n = replace_char (CHR 0x5C) (CHR ''/'') (py_strip v); r = ends_with ''/**'' n;
          pr = (if r then take (length n - 3) n else n) in
      \<not> blank v \<and> \<not> (starts_with ''/'' n \<or> drive_rooted n) \<and>
      \<not> (\<exists>part \<in> set (split_on (CHR ''/'') n). part \<in> {'''', ''.'', ''..''}) \<and>
      \<not> (CHR ''*'' \<in> set n \<and> \<not> r) \<and> \<not> (pr = [] \<or> CHR ''*'' \<in> set pr) \<and>
      c = \<lparr>pc_normalized = n, pc_prefix = pr, pc_recursive = r\<rparr>)"
  unfolding path_claim_def Let_def
  by (simp only: split: if_split) (simp only: sum.inject sum.distinct simp_thms, blast)

lemma replace_char_idem: "a \<noteq> b \<Longrightarrow> replace_char a b (replace_char a b s) = replace_char a b s"
  by (simp add: replace_char_def)

lemma lstrip_map:
  "(\<And>c. P (f c) = P c) \<Longrightarrow> lstrip_by P (map f s) = map f (lstrip_by P s)"
  by (simp add: lstrip_by_def dropWhile_map comp_def)

lemma rstrip_map:
  "(\<And>c. P (f c) = P c) \<Longrightarrow> rstrip_by P (map f s) = map f (rstrip_by P s)"
  by (simp add: rstrip_by_def rev_map dropWhile_map comp_def)

lemma strip_replace_slash:
  "py_strip (replace_char (CHR 0x5C) (CHR ''/'') s) = replace_char (CHR 0x5C) (CHR ''/'') (py_strip s)"
proof -
  have "is_space (if c = CHR 0x5C then CHR ''/'' else c) = is_space c" for c
    by (simp add: is_space_def)
  then show ?thesis
    unfolding py_strip_def strip_by_def replace_char_def by (simp add: lstrip_map rstrip_map)
qed

lemma path_claim_normalized:
  assumes "path_claim v = Inr c"
  shows "path_claim (pc_normalized c) = Inr c"
proof -
  let ?n = "replace_char (CHR 0x5C) (CHR ''/'') (py_strip v)"
  from assms have c: "pc_normalized c = ?n" and nb: "?n \<noteq> []"
    by (simp_all add: path_claim_Inr Let_def blank_def replace_char_def)
  have strip: "py_strip ?n = ?n"
    by (simp only: strip_replace_slash py_strip_idem)
  have "replace_char (CHR 0x5C) (CHR ''/'') (py_strip ?n) = ?n"
    unfolding strip by (simp add: replace_char_idem)
  moreover have "\<not> blank ?n" using strip nb by (simp add: blank_def)
  ultimately show ?thesis using assms unfolding c path_claim_Inr by (simp add: Let_def)
qed

end
