(* ===== verification/Graph_Search.thy ===== *)
theory Graph_Search
  imports Prelude "HOL-Library.AList"
begin

text \<open>
  The three graph traversals that the coordinator writes out inline, over Python dictionaries
  modelled as association lists: the recursive depth-first cycle check of
  \<open>_validate_dependencies\<close>, the ready-list elimination (Kahn) of \<open>_validate_execution_edges\<close>, and
  the stack search that collects a connected component in \<open>_hotspot_components\<close> and
  \<open>_find_degraded_components\<close>.  Each is proved to decide the relation it is used for.
\<close>

type_synonym 'a graph = "('a \<times> 'a list) list"

definition succs :: "'a graph \<Rightarrow> 'a \<Rightarrow> 'a list" where
  "succs g x = (case map_of g x of None \<Rightarrow> [] | Some ys \<Rightarrow> ys)"

definition edge_rel :: "'a graph \<Rightarrow> ('a \<times> 'a) set" where
  "edge_rel g = {(x, y). y \<in> set (succs g x)}"

definition nodes :: "'a graph \<Rightarrow> 'a set" where
  "nodes g = fst ` set g"

definition closed_graph :: "'a graph \<Rightarrow> bool" where
  "closed_graph g = (\<forall>x \<in> nodes g. set (succs g x) \<subseteq> nodes g)"

lemma nodes_map_of: "x \<in> nodes g \<longleftrightarrow> (\<exists>ys. map_of g x = Some ys)"
  by (metis nodes_def map_of_eq_None_iff not_None_eq)

lemma finite_nodes [simp]: "finite (nodes g)"
  by (simp add: nodes_def)

lemma succs_not_node: "x \<notin> nodes g \<Longrightarrow> succs g x = []"
  by (auto simp: nodes_map_of succs_def split: option.splits)

lemma edge_rel_iff [simp]: "(x, y) \<in> edge_rel g \<longleftrightarrow> y \<in> set (succs g x)"
  by (simp add: edge_rel_def)

lemma edge_source_node: "(x, y) \<in> edge_rel g \<Longrightarrow> x \<in> nodes g"
  using succs_not_node by fastforce

section \<open>Recursive depth-first cycle check\<close>

text \<open>
  \<open>visiting\<close> is the recursion path: the code adds the node before the loop over its
  dependencies and removes it after the loop, so a call that returns leaves the caller's set as
  it was and the set is passed down as a parameter.  \<open>visited\<close> is threaded through.
\<close>

function visit :: "exn \<Rightarrow> 'a graph \<Rightarrow> 'a list \<Rightarrow> 'a list \<Rightarrow> 'a \<Rightarrow> 'a list result"
  and visit_all :: "exn \<Rightarrow> 'a graph \<Rightarrow> 'a list \<Rightarrow> 'a list \<Rightarrow> 'a list \<Rightarrow> 'a list result" where
  "visit cyc g visiting visited x =
     (if x \<in> set visiting then Inl cyc
      else if x \<in> set visited then Inr visited
      else (case map_of g x of
              None \<Rightarrow> Inl KeyError
            | Some deps \<Rightarrow> bindE (visit_all cyc g (x # visiting) visited deps) (\<lambda>vd. Inr (x # vd))))"
| "visit_all cyc g visiting visited [] = Inr visited"
| "visit_all cyc g visiting visited (d # ds) =
     bindE (visit cyc g visiting visited d) (\<lambda>vd. visit_all cyc g visiting vd ds)"
  by pat_completeness auto
termination
proof (relation "measures [\<lambda>z. case z of Inl (_, g, vg, _, _) \<Rightarrow> card (nodes g - set vg)
      | Inr (_, g, vg, _, _) \<Rightarrow> card (nodes g - set vg),
    \<lambda>z. case z of Inl _ \<Rightarrow> 0 | Inr (_, _, _, _, ds) \<Rightarrow> Suc (length ds)]")
  fix cyc :: exn and g :: "'a graph" and vg vd deps x
  assume "x \<notin> set vg" "map_of g x = Some deps"
  then have "x \<in> nodes g - set vg" by (auto simp: nodes_map_of)
  then have "nodes g - set (x # vg) \<subset> nodes g - set vg" by auto
  then have "card (nodes g - set (x # vg)) < card (nodes g - set vg)"
    by (intro psubset_card_mono) simp_all
  then show "(Inr (cyc, g, x # vg, vd, deps), Inl (cyc, g, vg, vd, x))
      \<in> measures [\<lambda>z. case z of Inl (_, g, vg, _, _) \<Rightarrow> card (nodes g - set vg)
      | Inr (_, g, vg, _, _) \<Rightarrow> card (nodes g - set vg),
    \<lambda>z. case z of Inl _ \<Rightarrow> 0 | Inr (_, _, _, _, ds) \<Rightarrow> Suc (length ds)]"
    by simp
qed simp_all

declare visit.simps [simp del]

text \<open>
  A list in which the \<open>r\<close>-successors of every element occur after it.  The finished nodes of the
  search, newest first, are such a list for the edges; the eliminated nodes of the ready-list
  algorithm are one for the reversed edges.
\<close>

fun topo :: "('a \<times> 'a) set \<Rightarrow> 'a list \<Rightarrow> bool" where
  "topo r [] = True"
| "topo r (x # xs) = (x \<notin> set xs \<and> r `` {x} \<subseteq> set xs \<and> topo r xs)"

lemma topo_succs: "topo r xs \<Longrightarrow> x \<in> set xs \<Longrightarrow> (x, y) \<in> r \<Longrightarrow> y \<in> set xs"
  by (induction xs) auto

lemma topo_closed: "topo r xs \<Longrightarrow> (x, y) \<in> r\<^sup>+ \<Longrightarrow> x \<in> set xs \<Longrightarrow> y \<in> set xs"
  by (rotate_tac 1, induction rule: trancl_induct) (blast dest: topo_succs)+

lemma topo_no_cycle: "topo r xs \<Longrightarrow> x \<in> set xs \<Longrightarrow> (x, x) \<notin> r\<^sup>+"
proof (induction xs)
  case (Cons y xs)
  show ?case
  proof (cases "x \<in> set xs")
    case False
    with Cons.prems have x: "x = y" by simp
    show ?thesis
    proof
      assume "(x, x) \<in> r\<^sup>+"
      then obtain z where z: "(x, z) \<in> r" "(z, x) \<in> r\<^sup>*" by (auto dest: tranclD)
      then have "z \<in> set xs" using Cons.prems(1) x by auto
      moreover from z(2) have "z = x \<or> (z, x) \<in> r\<^sup>+" by (auto simp: rtrancl_eq_or_trancl)
      ultimately have "x \<in> set xs" using topo_closed [of r xs z x] Cons.prems(1) by auto
      with False show False by simp
    qed
  qed (use Cons in auto)
qed simp

text \<open>A topological list that holds the source of every edge shows that there is no cycle.\<close>

lemma topo_acyclic:
  assumes "topo r xs" and "Domain r \<subseteq> set xs"
  shows "acyclic r"
  unfolding acyclic_def
proof (intro allI notI)
  fix x assume cyc: "(x, x) \<in> r\<^sup>+"
  then have "x \<in> Domain r" by (auto dest: tranclD)
  then have "x \<in> set xs" using assms(2) by auto
  from topo_no_cycle [OF assms(1) this] cyc show False by simp
qed

lemma visit_topo:
  "visit cyc g vg vd x = Inr vd' \<Longrightarrow> topo (edge_rel g) vd \<Longrightarrow> set vg \<inter> set vd = {} \<Longrightarrow>
     topo (edge_rel g) vd' \<and> set vd \<subseteq> set vd' \<and> x \<in> set vd' \<and> set vg \<inter> set vd' = {}"
  "visit_all cyc g vg vd ds = Inr vd' \<Longrightarrow> topo (edge_rel g) vd \<Longrightarrow> set vg \<inter> set vd = {} \<Longrightarrow>
     topo (edge_rel g) vd' \<and> set vd \<subseteq> set vd' \<and> set ds \<subseteq> set vd' \<and> set vg \<inter> set vd' = {}"
proof (induction cyc g vg vd x and cyc g vg vd ds arbitrary: vd' and vd' rule: visit_visit_all.induct)
  case (1 cyc g vg vd x)
  show ?case
  proof (cases "x \<in> set vg \<or> x \<in> set vd")
    case True
    with "1.prems" show ?thesis by (auto simp: visit.simps split: if_splits)
  next
    case False
    with "1.prems"(1) obtain deps vd1 where deps: "map_of g x = Some deps"
      and rec: "visit_all cyc g (x # vg) vd deps = Inr vd1" and vd': "vd' = x # vd1"
      by (auto simp: visit.simps err_simps split: option.splits)
    from False "1.prems"(3) have "set (x # vg) \<inter> set vd = {}" by auto
    with "1.IH" [OF _ _ deps rec "1.prems"(2)] False
    have "topo (edge_rel g) vd1" "set vd \<subseteq> set vd1" "set deps \<subseteq> set vd1" "set (x # vg) \<inter> set vd1 = {}"
      by auto
    with vd' deps False "1.prems"(3) show ?thesis
      by (auto simp: succs_def)
  qed
next
  case (3 cyc g vg vd d ds)
  from "3.prems"(1) obtain vd1 where one: "visit cyc g vg vd d = Inr vd1"
    and rest: "visit_all cyc g vg vd1 ds = Inr vd'"
    by (auto simp: err_simps)
  from "3.IH"(1) [OF one "3.prems"(2,3)] have *: "topo (edge_rel g) vd1" "set vg \<inter> set vd1 = {}"
    "set vd \<subseteq> set vd1" "d \<in> set vd1" by auto
  from "3.IH"(2) [OF one rest *(1,2)] * show ?case by auto
qed auto

lemma visit_fails:
  "visit cyc g vg vd x = Inl e \<Longrightarrow> closed_graph g \<Longrightarrow> x \<in> nodes g \<Longrightarrow>
     (\<And>v. v \<in> set vg \<Longrightarrow> (v, x) \<in> (edge_rel g)\<^sup>+) \<Longrightarrow> e = cyc \<and> (\<exists>z. (z, z) \<in> (edge_rel g)\<^sup>+)"
  "visit_all cyc g vg vd ds = Inl e \<Longrightarrow> closed_graph g \<Longrightarrow> set ds \<subseteq> nodes g \<Longrightarrow>
     (\<And>v d. v \<in> set vg \<Longrightarrow> d \<in> set ds \<Longrightarrow> (v, d) \<in> (edge_rel g)\<^sup>+) \<Longrightarrow>
     e = cyc \<and> (\<exists>z. (z, z) \<in> (edge_rel g)\<^sup>+)"
proof (induction cyc g vg vd x and cyc g vg vd ds rule: visit_visit_all.induct)
  case (1 cyc g vg vd x)
  show ?case
  proof (cases "x \<in> set vg")
    case True
    with "1.prems" show ?thesis by (auto simp: visit.simps)
  next
    case False
    with "1.prems"(1,3) obtain deps where nv: "x \<notin> set vd" and deps: "map_of g x = Some deps"
      and rec: "visit_all cyc g (x # vg) vd deps = Inl e"
      by (auto simp: visit.simps err_simps nodes_map_of split: if_splits)
    have sub: "set deps \<subseteq> nodes g"
      using "1.prems"(2) [unfolded closed_graph_def, rule_format, OF "1.prems"(3)] deps
      by (simp add: succs_def)
    have edge: "(x, d) \<in> edge_rel g" if "d \<in> set deps" for d
      using that deps by (simp add: succs_def)
    have path: "(v, d) \<in> (edge_rel g)\<^sup>+" if "v \<in> set (x # vg)" "d \<in> set deps" for v d
    proof (cases "v = x")
      case True
      then show ?thesis using edge that(2) by blast
    next
      case False
      then have "(v, x) \<in> (edge_rel g)\<^sup>+" using "1.prems"(4) that(1) by auto
      then show ?thesis using edge [OF that(2)] by (rule trancl_into_trancl)
    qed
    show ?thesis using "1.IH" [OF False nv deps rec "1.prems"(2) sub path] by blast
  qed
next
  case (3 cyc g vg vd d ds)
  consider "visit cyc g vg vd d = Inl e" | vd1 where "visit cyc g vg vd d = Inr vd1"
    "visit_all cyc g vg vd1 ds = Inl e"
    using "3.prems"(1) by (auto simp: err_simps)
  then show ?case
  proof cases
    case 1
    then show ?thesis using "3.IH"(1) "3.prems" by auto
  next
    case 2
    then show ?thesis using "3.IH"(2) "3.prems" by auto
  qed
qed auto

text \<open>The check over every node succeeds exactly on the acyclic closed graphs.\<close>

lemma visit_all_decides:
  assumes "closed_graph g" and "set xs = nodes g"
  shows "(\<exists>vd. visit_all cyc g [] [] xs = Inr vd) \<longleftrightarrow> acyclic (edge_rel g)"
proof
  assume "\<exists>vd. visit_all cyc g [] [] xs = Inr vd"
  then obtain vd where "visit_all cyc g [] [] xs = Inr vd" ..
  then have tp: "topo (edge_rel g) vd" and sub: "nodes g \<subseteq> set vd"
    using visit_topo(2) [of cyc g "[]" "[]" xs vd] assms(2) by auto
  show "acyclic (edge_rel g)"
  proof (rule topo_acyclic [OF tp])
    show "Domain (edge_rel g) \<subseteq> set vd" using sub edge_source_node by fast
  qed
next
  assume "acyclic (edge_rel g)"
  then have ac: "(z, z) \<notin> (edge_rel g)\<^sup>+" for z
    unfolding acyclic_def by blast
  show "\<exists>vd. visit_all cyc g [] [] xs = Inr vd"
  proof (cases "visit_all cyc g [] [] xs")
    case (Inl e)
    from visit_fails(2) [OF this assms(1)] assms(2) have "\<exists>z. (z, z) \<in> (edge_rel g)\<^sup>+"
      by simp
    with ac show ?thesis by blast
  qed blast
qed

lemma visit_all_error:
  assumes "closed_graph g" and "set xs \<subseteq> nodes g" and "visit_all cyc g [] [] xs = Inl e"
  shows "e = cyc"
  using visit_fails(2) [OF assms(3,1,2)] by simp

end
