(* ===== verification/Components.thy ===== *)
theory Components
  imports Graph_Search
begin

text \<open>
  Connected components by stack search, as \<open>_hotspot_components\<close> (\<open>planner.py\<close>) and
  \<open>_find_degraded_components\<close> (\<open>service.py\<close>) compute them: an adjacency dictionary is filled edge
  by edge, and every start node that no earlier component holds starts a search.  A Python set of
  neighbours is kept as a sorted list, the order in which the planner takes them from the stack;
  the members found do not depend on that order.
\<close>

section \<open>Building the adjacency dictionary\<close>

text \<open>\<open>adjacency.setdefault(x, set()).add(y)\<close>\<close>

definition add_neighbour :: "'a::linorder \<Rightarrow> 'a \<Rightarrow> 'a graph \<Rightarrow> 'a graph" where
  "add_neighbour x y g = AList.update x (insort_insert y (succs g x)) g"

definition link :: "'a::linorder graph \<Rightarrow> 'a \<times> 'a \<Rightarrow> 'a graph" where
  "link g e = add_neighbour (snd e) (fst e) (add_neighbour (fst e) (snd e) g)"

definition adjacency :: "('a::linorder \<times> 'a) list \<Rightarrow> 'a graph" where
  "adjacency es = foldl link [] es"

lemma succs_add_neighbour:
  "succs (add_neighbour x y g) z = (if z = x then insort_insert y (succs g x) else succs g z)"
  by (simp add: add_neighbour_def succs_def update_conv')

lemma nodes_add_neighbour [simp]: "nodes (add_neighbour x y g) = insert x (nodes g)"
  unfolding nodes_def add_neighbour_def by (simp flip: dom_map_of_conv_image_fst add: update_conv')

lemma set_succs_link:
  "set (succs (link g e) z) = set (succs g z) \<union> {y. (z, y) = e \<or> (y, z) = e}"
  by (cases e) (auto simp: link_def succs_add_neighbour set_insort_insert)

lemma nodes_link [simp]: "nodes (link g e) = {fst e, snd e} \<union> nodes g"
  by (auto simp: link_def)

lemma edge_rel_foldl_link:
  "edge_rel (foldl link g es) = edge_rel g \<union> set es \<union> (set es)\<inverse>"
  by (induction es arbitrary: g) (auto simp: set_succs_link edge_rel_def)

lemma edge_rel_adjacency: "edge_rel (adjacency es) = set es \<union> (set es)\<inverse>"
  by (simp add: adjacency_def edge_rel_foldl_link) (simp add: edge_rel_def succs_def)

lemma nodes_foldl_link: "nodes (foldl link g es) = nodes g \<union> fst ` set es \<union> snd ` set es"
  by (induction es arbitrary: g) auto

lemma nodes_adjacency: "nodes (adjacency es) = fst ` set es \<union> snd ` set es"
  by (simp add: adjacency_def nodes_foldl_link) (simp add: nodes_def)

section \<open>The stack search\<close>

function collect :: "'a graph \<Rightarrow> 'a list \<Rightarrow> 'a list \<Rightarrow> 'a list" where
  "collect g [] members = members"
| "collect g (current # pending) members =
     (if current \<in> set members then collect g pending members
      else collect g (succs g current @ pending) (current # members))"
  by pat_completeness auto
termination
proof (relation "measures [\<lambda>(g, p, m). card (nodes g - set m), \<lambda>(g, p, m). length p]")
  fix g :: "'a graph" and c :: 'a and p m
  assume c: "c \<notin> set m"
  show "((g, succs g c @ p, c # m), (g, c # p, m))
      \<in> measures [\<lambda>(g, p, m). card (nodes g - set m), \<lambda>(g, p, m). length p]"
  proof (cases "c \<in> nodes g")
    case True
    with c have "nodes g - set (c # m) \<subset> nodes g - set m" by auto
    then have "card (nodes g - set (c # m)) < card (nodes g - set m)"
      by (intro psubset_card_mono) simp_all
    then show ?thesis by simp
  next
    case False
    then have "nodes g - set (c # m) = nodes g - set m" by auto
    with False show ?thesis by (simp add: succs_not_node)
  qed
qed simp_all

lemma collect_mono: "set members \<union> set pending \<subseteq> set (collect g pending members)"
  by (induction g pending members rule: collect.induct) auto

lemma collect_closed:
  "edge_rel g `` set members \<subseteq> set members \<union> set pending \<Longrightarrow>
     edge_rel g `` set (collect g pending members) \<subseteq> set (collect g pending members)"
proof (induction g pending members rule: collect.induct)
  case (2 g c p m)
  show ?case
  proof (cases "c \<in> set m")
    case True
    then have "set m \<union> set (c # p) = set m \<union> set p" by auto
    with 2 True show ?thesis by simp
  next
    case False
    from "2.prems" have "edge_rel g `` set (c # m) \<subseteq> set (c # m) \<union> set (succs g c @ p)" by auto
    with 2(2) False show ?thesis by simp
  qed
qed simp

lemma collect_reach:
  "set (collect g pending members) \<subseteq> set members \<union> (edge_rel g)\<^sup>* `` set pending"
proof (induction g pending members rule: collect.induct)
  case (2 g c p m)
  have "(edge_rel g)\<^sup>* `` set (succs g c @ p) \<subseteq> (edge_rel g)\<^sup>* `` set (c # p)"
  proof
    fix x assume "x \<in> (edge_rel g)\<^sup>* `` set (succs g c @ p)"
    then obtain y where y: "y \<in> set (succs g c) \<or> y \<in> set p" and yx: "(y, x) \<in> (edge_rel g)\<^sup>*" by auto
    then have "(c, x) \<in> (edge_rel g)\<^sup>* \<or> y \<in> set p"
      by (metis converse_rtrancl_into_rtrancl edge_rel_iff)
    with yx show "x \<in> (edge_rel g)\<^sup>* `` set (c # p)" by auto
  qed
  with 2 show ?case by (auto split: if_splits)
qed simp

lemma rtrancl_Image_closed: "r `` X \<subseteq> X \<Longrightarrow> r\<^sup>* `` X = X"
  by (rule Image_closed_trancl)

lemma collect_reachable: "set (collect g [s] []) = (edge_rel g)\<^sup>* `` {s}"
proof
  show "set (collect g [s] []) \<subseteq> (edge_rel g)\<^sup>* `` {s}"
    using collect_reach [of g "[s]" "[]"] by simp
  let ?C = "set (collect g [s] [])"
  have "edge_rel g `` ?C \<subseteq> ?C" by (rule collect_closed) simp
  then have "(edge_rel g)\<^sup>* `` ?C = ?C" by (rule rtrancl_Image_closed)
  moreover have "s \<in> ?C" using collect_mono [of "[]" "[s]" g] by auto
  ultimately show "(edge_rel g)\<^sup>* `` {s} \<subseteq> ?C" by blast
qed

lemma collect_distinct: "distinct members \<Longrightarrow> distinct (collect g pending members)"
  by (induction g pending members rule: collect.induct) auto

declare collect.simps [simp del]

section \<open>The loop over start nodes\<close>

fun components :: "'a graph \<Rightarrow> 'a list \<Rightarrow> 'a list \<Rightarrow> 'a list list" where
  "components g [] visited = []"
| "components g (start # starts) visited =
     (if start \<in> set visited then components g starts visited
      else let members = collect g [start] [] in
        members # components g starts (members @ visited))"

lemma components_reachable:
  "ms \<in> set (components g starts visited) \<Longrightarrow> \<exists>s \<in> set starts. set ms = (edge_rel g)\<^sup>* `` {s}"
  by (induction g starts visited rule: components.induct)
    (auto simp: Let_def collect_reachable split: if_splits)

lemma components_cover:
  "s \<in> set starts \<Longrightarrow> s \<notin> set visited \<Longrightarrow> \<exists>ms \<in> set (components g starts visited). s \<in> set ms"
proof (induction g starts visited rule: components.induct)
  case (2 g start starts visited)
  then show ?case by (cases "start \<in> set visited") (auto simp: Let_def collect_reachable)
qed simp


lemma component_avoids:
  assumes "sym (edge_rel g)" and "(edge_rel g)\<^sup>* `` set visited \<subseteq> set visited" and "s \<notin> set visited"
  shows "(edge_rel g)\<^sup>* `` {s} \<inter> set visited = {}"
proof -
  have "s \<in> set visited" if "(s, x) \<in> (edge_rel g)\<^sup>*" "x \<in> set visited" for x
  proof -
    have "(x, s) \<in> (edge_rel g)\<^sup>*" using that(1) sym_rtrancl [OF assms(1)] by (auto dest: symD)
    with that(2) assms(2) show ?thesis by auto
  qed
  with assms(3) show ?thesis by auto
qed

lemma components_disjoint:
  "sym (edge_rel g) \<Longrightarrow> (edge_rel g)\<^sup>* `` set visited \<subseteq> set visited \<Longrightarrow>
    (\<forall>ms \<in> set (components g starts visited). set ms \<inter> set visited = {}) \<and>
    sorted_wrt (\<lambda>a b. set a \<inter> set b = {}) (components g starts visited)"
proof (induction g starts visited rule: components.induct)
  case (2 g start starts visited)
  show ?case
  proof (cases "start \<in> set visited")
    case False
    let ?m = "collect g [start] []"
    have "(edge_rel g)\<^sup>* `` set (?m @ visited) \<subseteq> set (?m @ visited)"
      using "2.prems"(2) by (auto simp: collect_reachable intro: rtrancl_trans)
    from "2.IH"(2) [OF False refl "2.prems"(1) this] component_avoids [OF "2.prems" False]
    show ?thesis using False by (auto simp: Let_def collect_reachable)
  qed (use 2 in simp)
qed simp

end
