(* ===== verification/Json_Text.thy ===== *)
theory Json_Text
  imports Prelude
begin

text \<open>
  The JSON text that the code uses as a sort and identity key
  (\<open>json.dumps(value, sort_keys=True, separators=(",", ":"), ensure_ascii=False)\<close>): string
  literals with Python's escapes, arrays and objects with fixed keys.  A literal can be read back
  from any text that starts with it, so keys built from literals identify their values.
\<close>

definition hex_digit :: "nat \<Rightarrow> char" where
  "hex_digit n = char_of (if n < 10 then 48 + n else 87 + n)"

definition json_char :: "char \<Rightarrow> string" where
  "json_char c =
     (let n = (of_char c :: nat) in
      if n = 34 then [CHR 0x5C, CHR 0x22]
      else if n = 92 then [CHR 0x5C, CHR 0x5C]
      else if n = 8 then [CHR 0x5C, CHR ''b'']
      else if n = 12 then [CHR 0x5C, CHR ''f'']
      else if n = 10 then [CHR 0x5C, CHR ''n'']
      else if n = 13 then [CHR 0x5C, CHR ''r'']
      else if n = 9 then [CHR 0x5C, CHR ''t'']
      else if n < 32 then [CHR 0x5C, CHR ''u'', CHR ''0'', CHR ''0'', hex_digit (n div 16), hex_digit (n mod 16)]
      else [c])"

definition json_string :: "string \<Rightarrow> string" where
  "json_string s = CHR 0x22 # concat (map json_char s) @ [CHR 0x22]"

text \<open>The same with \<open>ensure_ascii=True\<close>: every character outside the printable ASCII range is escaped.\<close>

definition short_escape :: "char \<Rightarrow> char option" where
  "short_escape c =
     map_of [(34, CHR 0x22), (92, CHR 0x5C), (8, CHR ''b''), (12, CHR ''f''), (10, CHR ''n''),
             (13, CHR ''r''), (9, CHR ''t'')] (of_char c :: nat)"

definition escape_char :: "(nat \<Rightarrow> bool) \<Rightarrow> char \<Rightarrow> string" where
  "escape_char unprintable c =
     (case short_escape c of
        Some d \<Rightarrow> [CHR 0x5C, d]
      | None \<Rightarrow> if unprintable (of_char c)
          then [CHR 0x5C, CHR ''u'', CHR ''0'', CHR ''0'', hex_digit (of_char c div 16), hex_digit (of_char c mod 16)]
          else [c])"

definition ascii_char :: "char \<Rightarrow> string" where
  "ascii_char c = escape_char (\<lambda>n. n < 32 \<or> 127 \<le> n) c"

definition quoted :: "(char \<Rightarrow> string) \<Rightarrow> string \<Rightarrow> string" where
  "quoted esc s = CHR 0x22 # concat (map esc s) @ [CHR 0x22]"

definition ascii_string :: "string \<Rightarrow> string" where
  "ascii_string s = quoted ascii_char s"

definition json_array :: "string list \<Rightarrow> string" where
  "json_array xs = CHR ''['' # join_with '','' xs @ '']''"

definition json_field :: "string \<Rightarrow> string \<Rightarrow> string" where
  "json_field k v = json_string k @ CHR '':'' # v"

definition json_object :: "(string \<times> string) list \<Rightarrow> string" where
  "json_object fs = CHR ''{'' # join_with '','' (map (\<lambda>(k, v). json_field k v) fs) @ ''}''"

section \<open>A string literal can be read back\<close>

lemma hex_digit_inj: "n < 16 \<Longrightarrow> m < 16 \<Longrightarrow> hex_digit n = hex_digit m \<Longrightarrow> n = m"
proof -
  assume *: "n < 16" "m < 16" "hex_digit n = hex_digit m"
  then have "(of_char (hex_digit n) :: nat) = of_char (hex_digit m)" by simp
  with * show ?thesis by (auto simp: hex_digit_def split: if_splits)
qed

lemma json_char_shape: "json_char c = escape_char (\<lambda>n. n < 32) c"
  by (simp add: json_char_def escape_char_def short_escape_def Let_def)

lemma short_escape_inj: "short_escape c = Some d \<Longrightarrow> short_escape c' = Some d \<Longrightarrow> c = c'"
  by (auto simp: short_escape_def split: if_splits)
    (metis (no_types) char_of_char)+

lemma short_escape_not_u: "short_escape c \<noteq> Some (CHR ''u'')"
  by (auto simp: short_escape_def)

lemma escape_char_read:
  assumes "escape_char P c @ s = escape_char P d @ t"
  shows "c = d \<and> s = t"
proof -
  have bs: "short_escape (CHR 0x5C) \<noteq> None" by (simp add: short_escape_def)
  have small: "(of_char c :: nat) div 16 < 16" for c :: char
  proof -
    have "(of_char c :: nat) \<in> {0..<256}" using range_nat_of_char by blast
    then show ?thesis by (simp add: less_mult_imp_div_less)
  qed
  have hex: "c = d" if "hex_digit (of_char c div 16) = hex_digit (of_char d div 16)"
    "hex_digit (of_char c mod 16) = hex_digit (of_char d mod 16)"
  proof -
    have "(of_char c :: nat) div 16 = of_char d div 16" "(of_char c :: nat) mod 16 = of_char d mod 16"
      using that small by (auto intro!: hex_digit_inj)
    then have "(of_char c :: nat) = of_char d" by (metis div_mult_mod_eq)
    then show ?thesis by simp
  qed
  show ?thesis
    using assms bs hex short_escape_inj short_escape_not_u
    unfolding escape_char_def
    by (auto split: option.splits if_splits)
qed

lemma escape_char_not_quote: "escape_char P c \<noteq> [] \<and> hd (escape_char P c) \<noteq> CHR 0x22"
  by (auto simp: escape_char_def short_escape_def split: option.splits if_splits)

text \<open>What the reading lemmas need of an escape function.\<close>

locale json_escape =
  fixes esc :: "char \<Rightarrow> string"
  assumes esc_read: "esc c @ s = esc d @ t \<Longrightarrow> c = d \<and> s = t"
    and esc_not_quote: "esc c \<noteq> [] \<and> hd (esc c) \<noteq> CHR 0x22"
begin

lemma body_read:
  "concat (map esc s) @ CHR 0x22 # r = concat (map esc t) @ CHR 0x22 # r' \<Longrightarrow> s = t \<and> r = r'"
proof (induction s arbitrary: t)
  case Nil
  then show ?case
  proof (cases t)
    case (Cons c u)
    with Nil esc_not_quote [of c] show ?thesis by (cases "esc c") auto
  qed simp
next
  case (Cons c s)
  show ?case
  proof (cases t)
    case Nil
    with Cons.prems esc_not_quote [of c] show ?thesis by (cases "esc c") auto
  next
    case (Cons d u)
    with Cons.prems have "esc c @ concat (map esc s) @ CHR 0x22 # r = esc d @ concat (map esc u) @ CHR 0x22 # r'" by simp
    then have "c = d" "concat (map esc s) @ CHR 0x22 # r = concat (map esc u) @ CHR 0x22 # r'"
      using esc_read by blast+
    with Cons.IH [of u] \<open>t = d # u\<close> show ?thesis by simp
  qed
qed

lemma quoted_read: "quoted esc s @ r = quoted esc t @ r' \<Longrightarrow> s = t \<and> r = r'"
  by (rule body_read) (simp add: quoted_def)

lemma quoted_inj: "quoted esc s = quoted esc t \<longleftrightarrow> s = t"
  using quoted_read [of s "[]" t "[]"] by auto

lemma items_read:
  "join_with '','' (map (quoted esc) xs) @ CHR '']'' # r = join_with '','' (map (quoted esc) ys) @ CHR '']'' # r' \<Longrightarrow>
     xs = ys \<and> r = r'"
proof (induction xs arbitrary: ys rule: induct_list012)
  case 1
  then show ?case
    by (cases ys rule: remdups_adj.cases) (auto simp: quoted_def)
next
  case (2 x)
  then show ?case
  proof (cases ys rule: remdups_adj.cases)
    case (2 y)
    with \<open>join_with _ (map (quoted esc) [x]) @ _ = _\<close> show ?thesis
      by (auto dest: quoted_read)
  next
    case (3 y z zs)
    with \<open>join_with _ (map (quoted esc) [x]) @ _ = _\<close> show ?thesis
      by (auto dest: quoted_read)
  qed (auto simp: quoted_def)
next
  case (3 x x' xs)
  then show ?case
  proof (cases ys rule: remdups_adj.cases)
    case (2 y)
    with "3.prems" show ?thesis by (auto dest: quoted_read)
  next
    case (3 y y' zs)
    with "3.prems" have "quoted esc x @ CHR '','' # join_with '','' (map (quoted esc) (x' # xs)) @ CHR '']'' # r =
        quoted esc y @ CHR '','' # join_with '','' (map (quoted esc) (y' # zs)) @ CHR '']'' # r'" by simp
    from quoted_read [OF this] have "x = y"
      "join_with '','' (map (quoted esc) (x' # xs)) @ CHR '']'' # r = join_with '','' (map (quoted esc) (y' # zs)) @ CHR '']'' # r'"
      by auto
    with "3.IH"(2) [of "y' # zs"] \<open>ys = y # y' # zs\<close> show ?thesis by simp
  qed (auto simp: quoted_def)
qed

lemma array_read:
  "json_array (map (quoted esc) xs) @ r = json_array (map (quoted esc) ys) @ r' \<Longrightarrow> xs = ys \<and> r = r'"
  using items_read [of xs r ys r'] by (simp add: json_array_def)

end

interpretation utf8: json_escape json_char
  by unfold_locales (simp_all add: json_char_shape escape_char_not_quote, blast dest: escape_char_read)

interpretation ascii: json_escape ascii_char
  by unfold_locales (simp_all add: ascii_char_def escape_char_not_quote, blast dest: escape_char_read)

lemma json_string_quoted: "json_string = quoted json_char"
  by (rule ext) (simp add: json_string_def quoted_def)

lemma ascii_string_quoted: "ascii_string = quoted ascii_char"
  by (rule ext) (simp add: ascii_string_def)

lemma json_string_read: "json_string s @ r = json_string t @ r' \<Longrightarrow> s = t \<and> r = r'"
  unfolding json_string_quoted by (rule utf8.quoted_read)

lemma json_string_inj [simp]: "json_string s = json_string t \<longleftrightarrow> s = t"
  unfolding json_string_quoted by (rule utf8.quoted_inj)

lemma json_array_read:
  "json_array (map json_string xs) @ r = json_array (map json_string ys) @ r' \<Longrightarrow> xs = ys \<and> r = r'"
  unfolding json_string_quoted by (rule utf8.array_read)

lemma ascii_string_read: "ascii_string s @ r = ascii_string t @ r' \<Longrightarrow> s = t \<and> r = r'"
  unfolding ascii_string_quoted by (rule ascii.quoted_read)

lemma ascii_string_inj [simp]: "ascii_string s = ascii_string t \<longleftrightarrow> s = t"
  unfolding ascii_string_quoted by (rule ascii.quoted_inj)

lemma ascii_array_read:
  "json_array (map ascii_string xs) @ r = json_array (map ascii_string ys) @ r' \<Longrightarrow> xs = ys \<and> r = r'"
  unfolding ascii_string_quoted by (rule ascii.array_read)

end
