(* ===== verification/Claims.thy ===== *)
theory Claims
  imports Path_Claims Components Json_Text
begin

text \<open>
  Governed change claims and the rules between them (\<open>workflows/coordinator/service.py\<close>):
  coordination of two claims, the path-conflict check and the conflict-path collection, the
  candidate check against the active claims, and the degraded components of conflicting claims.
  A claim object is the typed view of the JSON object that the governed-change list returns;
  the SHA-256 hex digest is a parameter.
\<close>

section \<open>Claims and their coordination\<close>

record governed_claim =
  c_change_id :: string
  c_branch :: string
  c_worktree :: string
  c_outcome :: string
  c_owned :: "string list"
  c_shared :: "string list"
  c_excluded :: "string list option"
  c_dependencies :: "string list"
  c_owner :: "string option"
  c_base_evidence :: "(string option \<times> string option) option"

text \<open>An exact Git identity, and the pattern \<open>[0-9a-f]{40}\<close> its two fields must match.\<close>

record git_id =
  commit_sha :: string
  tree_sha :: string

definition is_hex40 :: "string \<Rightarrow> bool" where
  "is_hex40 s = (length s = 40 \<and> (\<forall>c \<in> set s. c \<in> set ''0123456789abcdef''))"

definition normalize_outcome :: "string \<Rightarrow> string" where
  "normalize_outcome v = join_with '' '' (split_ws (casefold v))"

text \<open>\<open>left_owner and left_owner == right_owner\<close>: an empty owner is false.\<close>

definition same_owner :: "string option \<Rightarrow> string option \<Rightarrow> bool" where
  "same_owner a b = (a \<noteq> None \<and> a \<noteq> Some [] \<and> a = b)"

definition coordinated :: "governed_claim \<Rightarrow> governed_claim \<Rightarrow> bool" where
  "coordinated left right =
     (if c_change_id left \<in> set (c_dependencies right) \<or> c_change_id right \<in> set (c_dependencies left)
        then True
      else if same_owner (c_owner left) (c_owner right) then True
      else c_owner left = Some (c_change_id right) \<or> c_owner right = Some (c_change_id left))"

lemma coordinated_sym: "coordinated a b = coordinated b a"
  by (auto simp: coordinated_def same_owner_def)

section \<open>Path conflicts between two claims\<close>

text \<open>The four parsed path lists, in the order in which the code parses them.\<close>

type_synonym parsed_four = "path_claim list \<times> path_claim list \<times> path_claim list \<times> path_claim list"

definition parse_four ::
  "string list \<Rightarrow> string list \<Rightarrow> string list \<Rightarrow> string list \<Rightarrow> parsed_four result" where
  "parse_four left_owned left_shared right_owned right_shared =
     bindE (mapE path_claim left_owned) (\<lambda>lo.
     bindE (mapE path_claim left_shared) (\<lambda>ls.
     bindE (mapE path_claim right_owned) (\<lambda>ro.
     bindE (mapE path_claim right_shared) (\<lambda>rs.
       Inr (lo, ls, ro, rs)))))"

definition parse_pair :: "governed_claim \<Rightarrow> governed_claim \<Rightarrow> parsed_four result" where
  "parse_pair left right = parse_four (c_owned left) (c_shared left) (c_owned right) (c_shared right)"

definition validate_path_conflicts :: "governed_claim \<Rightarrow> governed_claim \<Rightarrow> unit result" where
  "validate_path_conflicts left right =
     bindE (parse_pair left right) (\<lambda>(lo, ls, ro, rs).
     bindE (forE (\<lambda>owned. raise_if (\<exists>item \<in> set (ro @ rs). overlaps owned item)
                    (Coded ''EXCLUSIVE_PATH_OVERLAP'')) lo) (\<lambda>_.
     bindE (forE (\<lambda>owned. raise_if (\<exists>item \<in> set ls. overlaps owned item)
                    (Coded ''EXCLUSIVE_PATH_OVERLAP'')) ro) (\<lambda>_.
     forE (\<lambda>shared. forE (\<lambda>other. raise_if (overlaps shared other \<and> \<not> coordinated left right)
                    (Coded ''UNCOORDINATED_SHARED_PATH'')) rs) ls)))"

definition overlap_paths :: "path_claim list \<Rightarrow> path_claim list \<Rightarrow> string list" where
  "overlap_paths xs ys =
     concat (map (\<lambda>x. concat (map (\<lambda>y. if overlaps x y then [pc_normalized x, pc_normalized y] else []) ys)) xs)"

text \<open>The returned list stands for the Python set of conflicting paths.\<close>

definition claim_conflict_paths :: "governed_claim \<Rightarrow> governed_claim \<Rightarrow> string list result" where
  "claim_conflict_paths left right =
     bindE (parse_pair left right) (\<lambda>(lo, ls, ro, rs).
       Inr (overlap_paths lo (ro @ rs) @ overlap_paths ro ls @
            (if coordinated left right then [] else overlap_paths ls rs)))"

text \<open>What the absence of a conflict means for the paths the two claims cover.\<close>

definition scope :: "path_claim list \<Rightarrow> string set" where
  "scope cs = {p. \<exists>c \<in> set cs. denotes c p}"

definition parsed_scope :: "string list \<Rightarrow> string set" where
  "parsed_scope ps = {p. \<exists>v \<in> set ps. \<exists>c. path_claim v = Inr c \<and> denotes c p}"

definition compatible :: "governed_claim \<Rightarrow> governed_claim \<Rightarrow> bool" where
  "compatible l r \<longleftrightarrow>
     parsed_scope (c_owned l) \<inter> parsed_scope (c_owned r @ c_shared r) = {} \<and>
     parsed_scope (c_owned r) \<inter> parsed_scope (c_shared l) = {} \<and>
     (parsed_scope (c_shared l) \<inter> parsed_scope (c_shared r) \<noteq> {} \<longrightarrow> coordinated l r)"

lemma parsed_scope_append [simp]: "parsed_scope (xs @ ys) = parsed_scope xs \<union> parsed_scope ys"
  by (auto simp: parsed_scope_def)

lemma compatible_sym: "compatible l r \<Longrightarrow> compatible r l"
  by (auto simp: compatible_def coordinated_sym)

lemma scope_append [simp]: "scope (xs @ ys) = scope xs \<union> scope ys"
  by (auto simp: scope_def)

lemma parsed_scope_mapE:
  assumes "mapE path_claim ps = Inr cs"
  shows "parsed_scope ps = scope cs"
proof (rule set_eqI)
  fix p
  show "p \<in> parsed_scope ps \<longleftrightarrow> p \<in> scope cs"
  proof
    assume "p \<in> parsed_scope ps"
    then obtain v c where "v \<in> set ps" "path_claim v = Inr c" "denotes c p"
      by (auto simp: parsed_scope_def)
    with mapE_set' [OF assms] show "p \<in> scope cs" by (fastforce simp: scope_def)
  next
    assume "p \<in> scope cs"
    with mapE_set [OF assms] show "p \<in> parsed_scope ps" by (fastforce simp: scope_def parsed_scope_def)
  qed
qed

lemma overlaps_scope: "(\<exists>x \<in> set xs. \<exists>y \<in> set ys. overlaps x y) \<longleftrightarrow> scope xs \<inter> scope ys \<noteq> {}"
  unfolding scope_def by (rule pc.scopes_meet)

lemma overlap_paths_Nil: "overlap_paths xs ys = [] \<longleftrightarrow> scope xs \<inter> scope ys = {}"
proof -
  have "overlap_paths xs ys = [] \<longleftrightarrow> \<not> (\<exists>x \<in> set xs. \<exists>y \<in> set ys. overlaps x y)"
    by (auto simp: overlap_paths_def)
  then show ?thesis by (simp add: overlaps_scope)
qed

lemma parse_four_scopes:
  assumes "parse_four a b c d = Inr (lo, ls, ro, rs)"
  shows "parsed_scope a = scope lo" "parsed_scope b = scope ls"
    "parsed_scope c = scope ro" "parsed_scope d = scope rs"
  using assms by (auto simp: parse_four_def err_simps dest!: parsed_scope_mapE)

lemma parse_pair_scopes:
  assumes "parse_pair l r = Inr (lo, ls, ro, rs)"
  shows "parsed_scope (c_owned l) = scope lo" "parsed_scope (c_shared l) = scope ls"
    "parsed_scope (c_owned r) = scope ro" "parsed_scope (c_shared r) = scope rs"
  using parse_four_scopes [OF assms [unfolded parse_pair_def]] by simp_all

lemma validate_path_conflicts_iff:
  assumes p: "parse_pair l r = Inr (lo, ls, ro, rs)"
  shows "validate_path_conflicts l r = Inr () \<longleftrightarrow> compatible l r"
proof -
  have "validate_path_conflicts l r = Inr () \<longleftrightarrow>
      \<not> (\<exists>x \<in> set lo. \<exists>y \<in> set (ro @ rs). overlaps x y) \<and>
      \<not> (\<exists>x \<in> set ro. \<exists>y \<in> set ls. overlaps x y) \<and>
      (coordinated l r \<or> \<not> (\<exists>x \<in> set ls. \<exists>y \<in> set rs. overlaps x y))"
    unfolding validate_path_conflicts_def p by (auto simp: err_simps)
  also have "\<dots> \<longleftrightarrow> compatible l r"
    unfolding overlaps_scope by (auto simp: compatible_def parse_pair_scopes [OF p])
  finally show ?thesis .
qed

lemma claim_conflict_paths_iff:
  assumes p: "parse_pair l r = Inr (lo, ls, ro, rs)"
  shows "claim_conflict_paths l r = Inr [] \<longleftrightarrow> compatible l r"
  unfolding claim_conflict_paths_def p
  by (auto simp: overlap_paths_Nil compatible_def parse_pair_scopes [OF p])

lemma parse_pair_of_validate:
  "validate_path_conflicts l r = Inr u \<Longrightarrow> \<exists>lo ls ro rs. parse_pair l r = Inr (lo, ls, ro, rs)"
  by (auto simp: validate_path_conflicts_def err_simps)

lemma parse_pair_of_conflicts:
  "claim_conflict_paths l r = Inr ps \<Longrightarrow> \<exists>lo ls ro rs. parse_pair l r = Inr (lo, ls, ro, rs)"
  by (auto simp: claim_conflict_paths_def err_simps)

lemma validate_compatible: "validate_path_conflicts l r = Inr u \<Longrightarrow> compatible l r"
  using validate_path_conflicts_iff parse_pair_of_validate by (metis (full_types) old.unit.exhaust)

section \<open>The candidate check\<close>

definition validate_against :: "governed_claim \<Rightarrow> governed_claim \<Rightarrow> unit result" where
  "validate_against candidate current =
     bindE (raise_if (c_change_id candidate = c_change_id current) (Coded ''DUPLICATE_CHANGE_ID'')) (\<lambda>_.
     bindE (raise_if (c_branch candidate = c_branch current) (Coded ''DUPLICATE_ACTIVE_BRANCH'')) (\<lambda>_.
     bindE (raise_if (c_worktree candidate = c_worktree current) (Coded ''DUPLICATE_ACTIVE_WORKTREE'')) (\<lambda>_.
     bindE (raise_if (normalize_outcome (c_outcome candidate) = normalize_outcome (c_outcome current))
              (Coded ''DUPLICATE_ACTIVE_OUTCOME'')) (\<lambda>_.
     validate_path_conflicts candidate current))))"

definition validate_candidate :: "governed_claim \<Rightarrow> governed_claim list \<Rightarrow> unit result" where
  "validate_candidate candidate existing = forE (validate_against candidate) existing"

definition separate :: "governed_claim \<Rightarrow> governed_claim \<Rightarrow> bool" where
  "separate a b \<longleftrightarrow>
     c_change_id a \<noteq> c_change_id b \<and> c_branch a \<noteq> c_branch b \<and> c_worktree a \<noteq> c_worktree b \<and>
     normalize_outcome (c_outcome a) \<noteq> normalize_outcome (c_outcome b) \<and> compatible a b"

lemma validate_candidate_separate:
  "validate_candidate c existing = Inr u \<Longrightarrow> e \<in> set existing \<Longrightarrow> separate c e"
  by (auto simp: validate_candidate_def validate_against_def err_simps separate_def
      dest: validate_compatible)

section \<open>Degraded components\<close>

record degraded_component =
  dg_id :: string
  dg_change_ids :: "string list"
  dg_affected :: "string list"

definition index_pairs :: "nat \<Rightarrow> (nat \<times> nat) list" where
  "index_pairs n = concat (map (\<lambda>i. map (\<lambda>j. (i, j)) [Suc i ..< n]) [0 ..< n])"

definition conflict_edges ::
  "governed_claim list \<Rightarrow> ((nat \<times> nat) \<times> string list) list result" where
  "conflict_edges claims =
     bindE (mapE (\<lambda>(i, j). bindE (claim_conflict_paths (claims ! i) (claims ! j)) (\<lambda>ps. Inr ((i, j), ps)))
              (index_pairs (length claims)))
       (\<lambda>es. Inr (filter (\<lambda>e. snd e \<noteq> []) es))"

definition component_paths :: "((nat \<times> nat) \<times> string list) list \<Rightarrow> nat list \<Rightarrow> string list" where
  "component_paths es members =
     sort (remdups (concat (map snd (filter (\<lambda>((i, j), _). i \<in> set members \<and> j \<in> set members) es))))"

definition degraded_of ::
  "(string \<Rightarrow> string) \<Rightarrow> governed_claim list \<Rightarrow> ((nat \<times> nat) \<times> string list) list \<Rightarrow> nat list
     \<Rightarrow> degraded_component" where
  "degraded_of sha256_hex claims es members =
     (let change_ids = sort (map (\<lambda>i. c_change_id (claims ! i)) members);
          affected = component_paths es members;
          stable = json_object [(''affected_paths'', json_array (map ascii_string affected)),
                                (''change_ids'', json_array (map ascii_string change_ids))]
      in \<lparr>dg_id = ''cmp-'' @ take 16 (sha256_hex stable), dg_change_ids = change_ids, dg_affected = affected\<rparr>)"

definition find_degraded_components ::
  "(string \<Rightarrow> string) \<Rightarrow> governed_claim list \<Rightarrow> degraded_component list result" where
  "find_degraded_components sha256_hex claims =
     bindE (conflict_edges claims) (\<lambda>es.
       let adj = adjacency (map fst es);
           found = components adj (sort (map fst adj)) []
       in Inr (sort_key dg_id (map (degraded_of sha256_hex claims es) found)))"

fun first_degraded ::
  "path_claim list \<Rightarrow> degraded_component list \<Rightarrow> degraded_component option result" where
  "first_degraded paths [] = Inr None"
| "first_degraded paths (component # rest) =
     bindE (mapE path_claim (dg_affected component)) (\<lambda>affected.
       if \<exists>p \<in> set paths. \<exists>a \<in> set affected. overlaps p a then Inr (Some component)
       else first_degraded paths rest)"

definition candidate_degraded_component ::
  "governed_claim \<Rightarrow> degraded_component list \<Rightarrow> degraded_component option result" where
  "candidate_degraded_component candidate comps =
     bindE (mapE path_claim (c_owned candidate @ c_shared candidate)) (\<lambda>paths. first_degraded paths comps)"

lemma first_degraded_None:
  "first_degraded paths comps = Inr None \<Longrightarrow> dc \<in> set comps \<Longrightarrow>
     scope paths \<inter> parsed_scope (dg_affected dc) = {}"
proof (induction comps)
  case (Cons c comps)
  from Cons.prems(1) obtain affected where a: "mapE path_claim (dg_affected c) = Inr affected"
    "\<not> (\<exists>p \<in> set paths. \<exists>a \<in> set affected. overlaps p a)" "first_degraded paths comps = Inr None"
    by (auto simp: bindE_eq_Inr split: if_splits)
  show ?case
  proof (cases "dc = c")
    case True
    with a(2) show ?thesis unfolding overlaps_scope by (simp add: parsed_scope_mapE [OF a(1)])
  qed (use Cons a(3) in simp)
qed simp

lemma candidate_degraded_None:
  assumes "candidate_degraded_component c comps = Inr None" "dc \<in> set comps"
  shows "parsed_scope (c_owned c @ c_shared c) \<inter> parsed_scope (dg_affected dc) = {}"
proof -
  from assms(1) obtain paths where p: "mapE path_claim (c_owned c @ c_shared c) = Inr paths"
    "first_degraded paths comps = Inr None" by (auto simp: candidate_degraded_component_def bindE_eq_Inr)
  from first_degraded_None [OF p(2) assms(2)] show ?thesis unfolding parsed_scope_mapE [OF p(1)] .
qed

lemma set_index_pairs: "set (index_pairs n) = {(i, j). i < j \<and> j < n}"
  by (force simp: index_pairs_def)

lemma conflict_edges_iff:
  assumes "conflict_edges claims = Inr es"
  shows "(\<exists>ps. ((i, j), ps) \<in> set es) \<longleftrightarrow>
    i < j \<and> j < length claims \<and> \<not> compatible (claims ! i) (claims ! j)"
proof -
  let ?f = "\<lambda>(i, j). bindE (claim_conflict_paths (claims ! i) (claims ! j)) (\<lambda>ps. Inr ((i, j), ps))"
  from assms obtain all where all: "mapE ?f (index_pairs (length claims)) = Inr all"
    and es: "es = filter (\<lambda>e. snd e \<noteq> []) all" by (auto simp: conflict_edges_def err_simps)
  have *: "claim_conflict_paths (claims ! i) (claims ! j) = Inr ps \<Longrightarrow>
      ps = [] \<longleftrightarrow> compatible (claims ! i) (claims ! j)" for ps
    using parse_pair_of_conflicts claim_conflict_paths_iff by fastforce
  show ?thesis
  proof
    assume "\<exists>ps. ((i, j), ps) \<in> set es"
    then obtain ps where ps: "((i, j), ps) \<in> set all" "ps \<noteq> []" by (auto simp: es)
    with mapE_set [OF all ps(1)] have "(i, j) \<in> set (index_pairs (length claims))"
      "claim_conflict_paths (claims ! i) (claims ! j) = Inr ps" by (auto simp: err_simps)
    with * ps(2) show "i < j \<and> j < length claims \<and> \<not> compatible (claims ! i) (claims ! j)"
      by (auto simp: set_index_pairs)
  next
    assume a: "i < j \<and> j < length claims \<and> \<not> compatible (claims ! i) (claims ! j)"
    then have "(i, j) \<in> set (index_pairs (length claims))" by (simp add: set_index_pairs)
    from mapE_set' [OF all this] obtain e where e: "e \<in> set all" "?f (i, j) = Inr e" by auto
    then obtain ps where "claim_conflict_paths (claims ! i) (claims ! j) = Inr ps" "e = ((i, j), ps)"
      by (auto simp: err_simps)
    with * a e(1) show "\<exists>ps. ((i, j), ps) \<in> set es" by (auto simp: es)
  qed
qed

end
