(* ===== verification/Ready_List.thy ===== *)
theory Ready_List
  imports Graph_Search
begin

text \<open>
  The ready-list elimination of \<open>_validate_execution_edges\<close> (\<open>workflows/coordinator/planner.py\<close>):
  the construction of the adjacency and in-degree dictionaries, the elimination loop, its
  termination, and the theorem that it eliminates every node exactly on acyclic edge lists.
\<close>

section \<open>Dictionaries and the elimination loop\<close>

type_synonym 'a indegree = "('a \<times> int) list"

definition add_edge :: "'a graph \<times> 'a indegree \<Rightarrow> 'a \<times> 'a \<Rightarrow> ('a graph \<times> 'a indegree) result" where
  "add_edge st e =
     (case map_of (fst st) (fst e) of
        None \<Rightarrow> Inl KeyError
      | Some ts \<Rightarrow>
          if snd e \<in> set ts then Inr st
          else (case map_of (snd st) (snd e) of
                  None \<Rightarrow> Inl KeyError
                | Some n \<Rightarrow> Inr (AList.update (fst e) (ts @ [snd e]) (fst st),
                                 AList.update (snd e) (n + 1) (snd st))))"

definition relax :: "'a::linorder indegree \<times> 'a list \<Rightarrow> 'a \<Rightarrow> ('a indegree \<times> 'a list) result" where
  "relax st t =
     (case map_of (fst st) t of
        None \<Rightarrow> Inl KeyError
      | Some n \<Rightarrow> Inr (AList.update t (n - 1) (fst st),
                       if n - 1 = 0 then sort (snd st @ [t]) else snd st))"

definition positives :: "'a indegree \<Rightarrow> nat" where
  "positives d = length (filter (\<lambda>p. 0 < snd p) d)"

lemma positives_update:
  "map_of d k = Some v \<Longrightarrow>
     positives (AList.update k w d) + (if 0 < v then 1 else 0) = positives d + (if 0 < w then 1 else 0)"
  by (induction d) (auto simp: positives_def split: if_splits)

lemma relax_measure:
  "foldE relax st ts = Inr st' \<Longrightarrow>
     positives (fst st') + length (snd st') \<le> positives (fst st) + length (snd st)"
proof (induction ts arbitrary: st)
  case (Cons t ts)
  from Cons.prems obtain s1 where one: "relax st t = Inr s1" and rest: "foldE relax s1 ts = Inr st'"
    by (auto simp: err_simps)
  from one obtain n where n: "map_of (fst st) t = Some n"
    and s1: "s1 = (AList.update t (n - 1) (fst st), if n - 1 = 0 then sort (snd st @ [t]) else snd st)"
    by (auto simp: relax_def split: option.splits)
  have "positives (fst s1) + length (snd s1) \<le> positives (fst st) + length (snd st)"
    using positives_update [OF n, of "n - 1"] s1 by (auto split: if_splits)
  with Cons.IH [OF rest] show ?case by simp
qed simp

function eliminate ::
  "'a::linorder graph \<Rightarrow> 'a indegree \<Rightarrow> 'a list \<Rightarrow> nat \<Rightarrow> nat result" where
  "eliminate adj indeg [] n = Inr n"
| "eliminate adj indeg (current # ready) n =
     (case map_of adj current of
        None \<Rightarrow> Inl KeyError
      | Some ts \<Rightarrow> bindE (foldE relax (indeg, ready) (sort ts))
          (\<lambda>st. eliminate adj (fst st) (snd st) (Suc n)))"
  by pat_completeness auto
termination
  by (relation "measure (\<lambda>(adj, indeg, ready, n). positives indeg + length ready)")
    (use relax_measure in fastforce)+

definition zero_ready :: "'a::linorder indegree \<Rightarrow> 'a list" where
  "zero_ready indeg = sort (map fst (filter (\<lambda>p. snd p = 0) indeg))"

text \<open>The number of eliminated nodes.\<close>

definition eliminated :: "'a::linorder list \<Rightarrow> ('a \<times> 'a) list \<Rightarrow> nat result" where
  "eliminated ids es =
     bindE (foldE add_edge (map (\<lambda>x. (x, [])) ids, map (\<lambda>x. (x, 0)) ids) es)
       (\<lambda>st. eliminate (fst st) (snd st) (zero_ready (snd st)) 0)"

section \<open>The dictionaries describe the edge list\<close>

definition preds :: "('a \<times> 'a) set \<Rightarrow> 'a \<Rightarrow> 'a set" where
  "preds F t = {s. (s, t) \<in> F}"

definition built :: "'a list \<Rightarrow> ('a \<times> 'a) set \<Rightarrow> 'a graph \<times> 'a indegree \<Rightarrow> bool" where
  "built ids F st \<longleftrightarrow>
     (\<forall>x \<in> set ids. \<exists>ts. map_of (fst st) x = Some ts \<and> set ts = F `` {x} \<and> distinct ts) \<and>
     map fst (snd st) = ids \<and>
     (\<forall>t \<in> set ids. map_of (snd st) t = Some (int (card (preds F t))))"

lemma preds_insert [simp]: "preds (insert (s, t) F) u = (if u = t then insert s (preds F u) else preds F u)"
  by (auto simp: preds_def)

lemma finite_preds: "finite F \<Longrightarrow> finite (preds F t)"
  by (rule finite_subset [of _ "fst ` F"]) (force simp: preds_def)+

lemma built_init: "distinct ids \<Longrightarrow> built ids {} (map (\<lambda>x. (x, [])) ids, map (\<lambda>x. (x, 0)) ids)"
  by (auto simp: built_def preds_def map_of_map_restrict restrict_map_def comp_def split: if_splits)

lemma built_adjacency:
  "built ids F st \<Longrightarrow> x \<in> set ids \<Longrightarrow>
     \<exists>ts. map_of (fst st) x = Some ts \<and> set ts = F `` {x} \<and> distinct ts"
  unfolding built_def by (elim conjE) (erule bspec)

lemma add_edge_built:
  assumes "built ids F st" and "finite F" and "distinct ids" and "s \<in> set ids" and "t \<in> set ids"
  shows "\<exists>st'. add_edge st (s, t) = Inr st' \<and> built ids (insert (s, t) F) st'"
proof -
  from built_adjacency [OF assms(1,4)] obtain ts
    where ts: "map_of (fst st) s = Some ts" "set ts = F `` {s}" "distinct ts" by blast
  have n: "map_of (snd st) t = Some (int (card (preds F t)))"
    using assms(1,5) by (simp add: built_def)
  show ?thesis
  proof (cases "t \<in> set ts")
    case True
    then have "insert (s, t) F = F" using ts(2) by auto
    with True ts n assms(1) show ?thesis by (simp add: add_edge_def)
  next
    case False
    then have "s \<notin> preds F t" using ts(2) by (auto simp: preds_def)
    then have "int (card (insert s (preds F t))) = int (card (preds F t)) + 1"
      using finite_preds [OF assms(2)] by simp
    moreover have "t \<in> fst ` set (snd st)" using assms(1,5) by (metis built_def list.set_map)
    ultimately show ?thesis using False ts n assms(1,4,5)
      by (auto simp: add_edge_def built_def update_conv' update_keys split: if_splits)
  qed
qed

lemma add_edges_built:
  assumes "distinct ids" and "set es \<subseteq> set ids \<times> set ids" and "built ids F st" and "finite F"
  shows "\<exists>st'. foldE add_edge st es = Inr st' \<and> built ids (F \<union> set es) st'"
  using assms(2-)
proof (induction es arbitrary: st F)
  case (Cons e es)
  obtain s t where e: "e = (s, t)" by (cases e)
  with Cons.prems add_edge_built [OF Cons.prems(2,3) assms(1), of s t]
  obtain st1 where one: "add_edge st e = Inr st1" and b: "built ids (insert e F) st1" by auto
  from Cons.IH [OF _ b] Cons.prems obtain st' where
    "foldE add_edge st1 es = Inr st'" "built ids (insert e F \<union> set es) st'" by auto
  with one show ?case by auto
qed auto

section \<open>The elimination loop\<close>

text \<open>
  The invariant of the loop: \<open>D\<close> is the eliminated nodes, newest first; the in-degree of a node
  counts its predecessors that are not eliminated; the ready list holds exactly the remaining
  nodes of in-degree zero.
\<close>

definition elim_inv ::
  "'a::linorder list \<Rightarrow> ('a \<times> 'a) set \<Rightarrow> 'a indegree \<Rightarrow> 'a list \<Rightarrow> 'a list \<Rightarrow> bool" where
  "elim_inv ids F indeg ready D \<longleftrightarrow>
     topo (F\<inverse>) D \<and> set D \<subseteq> set ids \<and> distinct ready \<and>
     (\<forall>t \<in> set ids. map_of indeg t = Some (int (card (preds F t - set D)))) \<and>
     set ready = {t \<in> set ids. t \<notin> set D \<and> preds F t \<subseteq> set D}"

lemma relax_all:
  assumes "distinct ts" and "\<And>t. t \<in> set ts \<Longrightarrow> \<exists>n. map_of indeg t = Some n"
    and "distinct ready" and "\<And>t. t \<in> set ts \<Longrightarrow> t \<notin> set ready"
  shows "\<exists>st'. foldE relax (indeg, ready) ts = Inr st' \<and>
    (\<forall>t. map_of (fst st') t =
       (if t \<in> set ts then map_option (\<lambda>n. n - 1) (map_of indeg t) else map_of indeg t)) \<and>
    set (snd st') = set ready \<union> {t \<in> set ts. map_of indeg t = Some 1} \<and> distinct (snd st')"
  using assms
proof (induction ts arbitrary: indeg ready)
  case (Cons t ts)
  from Cons.prems(2) obtain n where n: "map_of indeg t = Some n" by auto
  define indeg1 where "indeg1 = AList.update t (n - 1) indeg"
  define ready1 where "ready1 = (if n - 1 = 0 then sort (ready @ [t]) else ready)"
  have one: "relax (indeg, ready) t = Inr (indeg1, ready1)"
    by (simp add: relax_def n indeg1_def ready1_def)
  have m1: "map_of indeg1 = (map_of indeg)(t \<mapsto> n - 1)"
    by (simp add: indeg1_def update_conv')
  have r1: "set ready1 = set ready \<union> (if n = 1 then {t} else {})" "distinct ready1"
    using Cons.prems(3,4) by (auto simp: ready1_def)
  have t: "t \<notin> set ts" using Cons.prems(1) by simp
  have "\<exists>st'. foldE relax (indeg1, ready1) ts = Inr st' \<and>
    (\<forall>u. map_of (fst st') u =
       (if u \<in> set ts then map_option (\<lambda>n. n - 1) (map_of indeg1 u) else map_of indeg1 u)) \<and>
    set (snd st') = set ready1 \<union> {u \<in> set ts. map_of indeg1 u = Some 1} \<and> distinct (snd st')"
  proof (rule Cons.IH)
    show "\<exists>n. map_of indeg1 u = Some n" if "u \<in> set ts" for u
      using Cons.prems(2) [of u] that t unfolding m1 by auto
    show "u \<notin> set ready1" if "u \<in> set ts" for u
      using Cons.prems(4) [of u] that t r1 by auto
  qed (use Cons.prems(1) r1 in simp_all)
  then obtain st' where st': "foldE relax (indeg1, ready1) ts = Inr st'"
    "\<And>u. map_of (fst st') u =
       (if u \<in> set ts then map_option (\<lambda>n. n - 1) (map_of indeg1 u) else map_of indeg1 u)"
    "set (snd st') = set ready1 \<union> {u \<in> set ts. map_of indeg1 u = Some 1}" "distinct (snd st')"
    by blast
  have "map_of (fst st') u =
       (if u \<in> set (t # ts) then map_option (\<lambda>n. n - 1) (map_of indeg u) else map_of indeg u)" for u
    using st'(2) [of u] t n by (simp add: m1)
  moreover have "{u \<in> set ts. map_of indeg1 u = Some 1} = {u \<in> set ts. map_of indeg u = Some 1}"
    using t by (auto simp: m1)
  then have "set (snd st') = set ready \<union> {u \<in> set (t # ts). map_of indeg u = Some 1}"
    using st'(3) r1(1) n by auto
  ultimately show ?case using one st'(1,4) by simp
qed simp

lemma card_eq_one_diff:
  "finite A \<Longrightarrow> c \<in> A \<Longrightarrow> c \<notin> D \<Longrightarrow> int (card (A - insert c D)) = int (card (A - D)) - 1"
proof -
  assume A: "finite A" "c \<in> A" "c \<notin> D"
  then have "0 < card (A - D)" by (auto simp: card_gt_0_iff)
  with A show ?thesis by simp
qed

lemma elim_step:
  assumes inv: "elim_inv ids F indeg (c # ready) D"
    and fin: "finite F" and sub: "F \<subseteq> set ids \<times> set ids"
    and ts: "distinct ts" "set ts = F `` {c}"
  shows "\<exists>st. foldE relax (indeg, ready) (sort ts) = Inr st \<and> elim_inv ids F (fst st) (snd st) (c # D)"
proof -
  from inv have c: "c \<in> set ids" "c \<notin> set D" "preds F c \<subseteq> set D" "distinct ready" "c \<notin> set ready"
    and D: "topo (F\<inverse>) D" "set D \<subseteq> set ids"
    and cnt: "\<And>t. t \<in> set ids \<Longrightarrow> map_of indeg t = Some (int (card (preds F t - set D)))"
    and rdy: "insert c (set ready) = {t \<in> set ids. t \<notin> set D \<and> preds F t \<subseteq> set D}"
    by (auto simp: elim_inv_def)
  have ts_ids: "set ts \<subseteq> set ids" using sub ts by auto
  have fresh: "t \<notin> set ready \<and> c \<in> preds F t \<and> t \<noteq> c" if "t \<in> set ts" for t
  proof -
    from that ts have "c \<in> preds F t" by (auto simp: preds_def)
    then show ?thesis using c rdy by blast
  qed
  have "\<exists>st. foldE relax (indeg, ready) (sort ts) = Inr st \<and>
    (\<forall>t. map_of (fst st) t =
       (if t \<in> set (sort ts) then map_option (\<lambda>n. n - 1) (map_of indeg t) else map_of indeg t)) \<and>
    set (snd st) = set ready \<union> {t \<in> set (sort ts). map_of indeg t = Some 1} \<and> distinct (snd st)"
    using ts(1) ts_ids cnt c(4) fresh by (intro relax_all) auto
  then obtain st where st: "foldE relax (indeg, ready) (sort ts) = Inr st"
    and m: "\<And>t. map_of (fst st) t =
       (if t \<in> set ts then map_option (\<lambda>n. n - 1) (map_of indeg t) else map_of indeg t)"
    and r: "set (snd st) = set ready \<union> {t \<in> set ts. map_of indeg t = Some 1}" "distinct (snd st)"
    by auto
  have dec: "int (card (preds F t - insert c (set D))) = int (card (preds F t - set D)) - 1"
    if "t \<in> set ts" for t
    using fresh [OF that] c(2) finite_preds [OF fin] by (intro card_eq_one_diff) auto
  have keep: "preds F t - insert c (set D) = preds F t - set D" if "t \<notin> set ts" for t
    using that ts by (auto simp: preds_def)
  have cnt': "map_of (fst st) t = Some (int (card (preds F t - set (c # D))))" if "t \<in> set ids" for t
    using that cnt m dec keep by auto
  have zero: "map_of indeg t = Some 1 \<longleftrightarrow> preds F t \<subseteq> set (c # D)" if "t \<in> set ts" for t
  proof -
    from that ts_ids have "t \<in> set ids" by auto
    then have "map_of indeg t = Some 1 \<longleftrightarrow> card (preds F t - insert c (set D)) = 0"
      using cnt dec [OF that] by auto
    also have "\<dots> \<longleftrightarrow> preds F t \<subseteq> set (c # D)"
      using finite_preds [OF fin] by (auto simp: card_eq_0_iff)
    finally show ?thesis .
  qed
  have "set (snd st) = {t \<in> set ids. t \<notin> set (c # D) \<and> preds F t \<subseteq> set (c # D)}"
  proof (rule set_eqI)
    fix t
    show "t \<in> set (snd st) \<longleftrightarrow> t \<in> {t \<in> set ids. t \<notin> set (c # D) \<and> preds F t \<subseteq> set (c # D)}"
    proof (cases "t \<in> set ts")
      case True
      then have "t \<notin> set D"
      proof -
        from True have "(t, c) \<in> F\<inverse>" using ts by auto
        with topo_succs [OF D(1)] c(2) show ?thesis by blast
      qed
      with True r(1) zero fresh ts_ids show ?thesis by auto
    next
      case False
      with keep have "preds F t \<subseteq> set (c # D) \<longleftrightarrow> preds F t \<subseteq> set D" by auto
      with False r(1) rdy c(5) show ?thesis by auto
    qed
  qed
  moreover have "topo (F\<inverse>) (c # D)" using c D(1) by (auto simp: preds_def)
  ultimately have "elim_inv ids F (fst st) (snd st) (c # D)"
    using cnt' r(2) c(1) D(2) by (auto simp: elim_inv_def)
  with st show ?thesis by blast
qed

definition describes :: "'a list \<Rightarrow> ('a \<times> 'a) set \<Rightarrow> 'a graph \<Rightarrow> bool" where
  "describes ids F adj \<longleftrightarrow>
     (\<forall>x \<in> set ids. \<exists>ts. map_of adj x = Some ts \<and> set ts = F `` {x} \<and> distinct ts)"

lemma eliminate_inv:
  assumes "finite F" and "F \<subseteq> set ids \<times> set ids"
  shows "elim_inv ids F indeg ready D \<Longrightarrow> describes ids F adj \<Longrightarrow>
    \<exists>indeg' D'. elim_inv ids F indeg' [] D' \<and> length D \<le> length D' \<and>
      eliminate adj indeg ready n = Inr (n + (length D' - length D))"
proof (induction adj indeg ready n arbitrary: D rule: eliminate.induct)
  case (1 adj indeg n)
  then show ?case by auto
next
  case (2 adj indeg c ready n)
  have "c \<in> set ids" using "2.prems"(1) unfolding elim_inv_def by auto
  then obtain ts where ts: "map_of adj c = Some ts" "set ts = F `` {c}" "distinct ts"
    using "2.prems"(2) unfolding describes_def by blast
  from elim_step [OF "2.prems"(1) assms ts(3,2)] obtain st
    where st: "foldE relax (indeg, ready) (sort ts) = Inr st"
      and inv: "elim_inv ids F (fst st) (snd st) (c # D)" by blast
  from "2.IH" [OF ts(1) st inv "2.prems"(2)] obtain indeg' D' where
    "elim_inv ids F indeg' [] D'" "Suc (length D) \<le> length D'"
    "eliminate adj (fst st) (snd st) (Suc n) = Inr (Suc n + (length D' - Suc (length D)))" by auto
  with ts(1) st show ?case by (intro exI [of _ indeg'] exI [of _ D']) auto
qed

section \<open>Elimination decides acyclicity\<close>

lemma topo_distinct: "topo r xs \<Longrightarrow> distinct xs"
  by (induction xs) auto

text \<open>A non-empty finite set of nodes each of which has a predecessor in the set has a cycle.\<close>

lemma predecessors_cycle:
  assumes "finite U" and "u \<in> U" and "\<And>t. t \<in> U \<Longrightarrow> \<exists>s \<in> U. (s, t) \<in> F"
  shows "\<not> acyclic F"
proof
  assume "acyclic F"
  then have "acyclic (F \<inter> U \<times> U)" by (rule acyclic_subset) auto
  moreover have "finite (F \<inter> U \<times> U)" using assms(1) by simp
  ultimately have "wf (F \<inter> U \<times> U)" by (simp add: finite_acyclic_wf)
  with assms(2) obtain z where "z \<in> U" "\<And>y. (y, z) \<in> F \<inter> U \<times> U \<Longrightarrow> y \<notin> U"
    by (metis wfE_min)
  with assms(3) show False by blast
qed

lemma elim_inv_init:
  assumes "built ids F st" and "distinct ids" and "finite F"
  shows "elim_inv ids F (snd st) (zero_ready (snd st)) []"
proof -
  have keys: "map fst (snd st) = ids"
    and cnt: "\<And>t. t \<in> set ids \<Longrightarrow> map_of (snd st) t = Some (int (card (preds F t)))"
    using assms(1) unfolding built_def by blast+
  have d: "distinct (map fst (snd st))" using keys assms(2) by simp
  then have "distinct (zero_ready (snd st))"
    by (simp add: zero_ready_def distinct_map_filter)
  moreover have "t \<in> set (zero_ready (snd st)) \<longleftrightarrow> t \<in> set ids \<and> preds F t = {}" for t
  proof -
    have "t \<in> set (zero_ready (snd st)) \<longleftrightarrow> map_of (snd st) t = Some 0"
      using d by (force simp: zero_ready_def map_of_eq_Some_iff)
    also have "\<dots> \<longleftrightarrow> t \<in> set ids \<and> card (preds F t) = 0"
      using cnt keys by (metis map_of_eq_None_iff list.set_map not_None_eq of_nat_eq_0_iff option.inject)
    finally show ?thesis using finite_preds [OF assms(3)] by simp
  qed
  ultimately show ?thesis using cnt by (auto simp: elim_inv_def)
qed

lemma elim_exit:
  assumes "elim_inv ids F indeg [] D" and "distinct ids" and "F \<subseteq> set ids \<times> set ids"
  shows "length D = length ids \<longleftrightarrow> acyclic F"
proof
  have D: "topo (F\<inverse>) D" "set D \<subseteq> set ids"
    and stuck: "\<And>t. t \<in> set ids \<Longrightarrow> t \<notin> set D \<Longrightarrow> \<not> preds F t \<subseteq> set D"
    using assms(1) by (auto simp: elim_inv_def)
  show "acyclic F" if "length D = length ids"
  proof -
    have "card (set D) = card (set ids)"
      using that topo_distinct [OF D(1)] assms(2) by (simp add: distinct_card)
    then have "set D = set ids" using D(2) by (simp add: card_subset_eq)
    then have "acyclic (F\<inverse>)" using assms(3) by (intro topo_acyclic [OF D(1)]) auto
    then show ?thesis by simp
  qed
  show "length D = length ids" if "acyclic F"
  proof -
    have "set ids - set D = {}"
    proof (rule ccontr)
      assume "set ids - set D \<noteq> {}"
      then obtain u where u: "u \<in> set ids - set D" by blast
      have "\<exists>s \<in> set ids - set D. (s, t) \<in> F" if "t \<in> set ids - set D" for t
        using stuck [of t] that assms(3) by (auto simp: preds_def)
      from predecessors_cycle [OF _ u this] \<open>acyclic F\<close> show False by simp
    qed
    then have "set D = set ids" using D(2) by auto
    then show ?thesis using topo_distinct [OF D(1)] assms(2) by (metis distinct_card)
  qed
qed

lemma eliminated_decides:
  assumes "distinct ids" and "set es \<subseteq> set ids \<times> set ids"
  shows "\<exists>n. eliminated ids es = Inr n \<and> (n = length ids \<longleftrightarrow> acyclic (set es))"
proof -
  from add_edges_built [OF assms built_init [OF assms(1)]] obtain st
    where st: "foldE add_edge (map (\<lambda>x. (x, [])) ids, map (\<lambda>x. (x, 0)) ids) es = Inr st"
      and b: "built ids (set es) st" by auto
  have "describes ids (set es) (fst st)"
    unfolding describes_def using built_adjacency [OF b] by blast
  from eliminate_inv [OF _ assms(2) elim_inv_init [OF b assms(1)] this, of 0] obtain indeg D
    where "elim_inv ids (set es) indeg [] D"
      "eliminate (fst st) (snd st) (zero_ready (snd st)) 0 = Inr (length D)" by auto
  with elim_exit [OF _ assms] st show ?thesis by (auto simp: eliminated_def)
qed

end
