(* ===== verification/Numbers.thy ===== *)
theory Numbers
  imports Prelude "HOL-Library.Product_Lexorder"
begin

text \<open>
  Decimal numbers as Python reads and writes them: \<open>f"{n:03d}"\<close> for the sequence numbers and journal
  ordinals, and \<open>int(text)\<close>, which accepts surrounding white space, a sign, leading zeros and single
  underscores between digits.
\<close>

definition digit_char :: "nat \<Rightarrow> char" where
  "digit_char n = char_of (48 + n)"

definition digit_value :: "char \<Rightarrow> nat" where
  "digit_value c = of_char c - 48"

fun decimal :: "nat \<Rightarrow> string" where
  "decimal n = (if n < 10 then [digit_char n] else decimal (n div 10) @ [digit_char (n mod 10)])"

declare decimal.simps [simp del]

text \<open>\<open>f"{n:03d}"\<close>\<close>

definition pad3 :: "nat \<Rightarrow> string" where
  "pad3 n = replicate (3 - length (decimal n)) (CHR ''0'') @ decimal n"

text \<open>The digits after the sign; \<open>prev\<close> tells whether the character before was a digit.\<close>

fun read_digits :: "bool \<Rightarrow> nat \<Rightarrow> string \<Rightarrow> nat option" where
  "read_digits prev acc [] = (if prev then Some acc else None)"
| "read_digits prev acc (c # s) =
     (if is_digit c then read_digits True (10 * acc + digit_value c) s
      else if c = CHR ''_'' \<and> prev then read_digits False acc s
      else None)"

definition py_int :: "string \<Rightarrow> int option" where
  "py_int text =
     (case py_strip text of
        [] \<Rightarrow> None
      | c # s \<Rightarrow>
          if c = CHR ''-'' then map_option (\<lambda>n. - int n) (read_digits False 0 s)
          else if c = CHR ''+'' then map_option int (read_digits False 0 s)
          else map_option int (read_digits False 0 (c # s)))"

section \<open>Round trip\<close>

lemma digit_char_facts:
  assumes "n < 10"
  shows "is_digit (digit_char n)" "digit_value (digit_char n) = n" "\<not> is_space (digit_char n)"
    "digit_char n \<noteq> CHR ''-''" "digit_char n \<noteq> CHR ''+''"
proof -
  have c: "(of_char (digit_char n) :: nat) = 48 + n" using assms by (simp add: digit_char_def)
  then show "is_digit (digit_char n)" "digit_value (digit_char n) = n" "\<not> is_space (digit_char n)"
    using assms by (simp_all add: is_digit_def digit_value_def is_space_def Let_def)
  have "of_char (CHR ''-'') = (45 :: nat)" "of_char (CHR ''+'') = (43 :: nat)" by simp_all
  with c show "digit_char n \<noteq> CHR ''-''" "digit_char n \<noteq> CHR ''+''" by (metis add_leD1 order_refl numeral_le_iff semiring_norm)+
qed

lemma decimal_digits: "c \<in> set (decimal n) \<Longrightarrow> \<exists>m < 10. c = digit_char m"
proof (induction n rule: decimal.induct)
  case (1 n)
  show ?case
  proof (cases "n < 10")
    case False
    with 1 have "c \<in> set (decimal (n div 10)) \<or> c = digit_char (n mod 10)"
      by (auto simp: decimal.simps [of n])
    with 1(1) [OF False] show ?thesis by (auto intro: exI [of _ "n mod 10"])
  qed (use 1 in \<open>auto simp: decimal.simps [of n]\<close>)
qed

lemma decimal_nonempty [simp]: "decimal n \<noteq> []"
  by (simp add: decimal.simps [of n])

lemma read_digits_append:
  "(\<forall>c \<in> set s. is_digit c) \<Longrightarrow> s \<noteq> [] \<Longrightarrow>
     read_digits b acc (s @ t) = read_digits True (foldl (\<lambda>a c. 10 * a + digit_value c) acc s) t"
  by (induction s arbitrary: b acc) (auto, metis append_Nil foldl_Nil)

lemma foldl_decimal: "foldl (\<lambda>a c. 10 * a + digit_value c) 0 (decimal n) = n"
proof (induction n rule: decimal.induct)
  case (1 n)
  then show ?case by (auto simp: decimal.simps [of n] digit_char_facts)
qed

lemma foldl_zeros: "foldl (\<lambda>a c. 10 * a + digit_value c) 0 (replicate k (CHR ''0'') @ s) =
    foldl (\<lambda>a c. 10 * a + digit_value c) 0 s"
  by (induction k) (auto simp: digit_value_def)

lemma pad3_digits:
  assumes "c \<in> set (pad3 n)"
  shows "\<exists>m < 10. c = digit_char m"
proof -
  have "digit_char 0 = CHR ''0''" by code_simp
  with assms have "c = digit_char 0 \<or> c \<in> set (decimal n)" by (auto simp: pad3_def)
  then show ?thesis using decimal_digits by fastforce
qed

lemma pad3_nonempty [simp]: "pad3 n \<noteq> []"
  by (simp add: pad3_def)

lemma strip_no_space:
  assumes "\<forall>c \<in> set s. \<not> is_space c"
  shows "py_strip s = s"
proof -
  have *: "dropWhile is_space t = t" if "set t = set s" for t
    using assms that by (cases t) auto
  from * [of s] * [of "rev s"] show ?thesis
    by (simp add: py_strip_def strip_by_def lstrip_by_def rstrip_by_def)
qed

lemma py_int_pad3: "py_int (pad3 n) = Some (int n)"
proof -
  have d: "\<forall>c \<in> set (pad3 n). is_digit c" "\<forall>c \<in> set (pad3 n). \<not> is_space c"
    "\<forall>c \<in> set (pad3 n). c \<noteq> CHR ''-'' \<and> c \<noteq> CHR ''+''"
    using pad3_digits digit_char_facts by metis+
  have "read_digits False 0 (pad3 n) = Some n"
    using read_digits_append [of "pad3 n" False 0 "[]"] d(1) foldl_zeros [of "3 - length (decimal n)" "decimal n"]
    by (simp add: foldl_decimal pad3_def)
  then show ?thesis
    using d(3) strip_no_space [OF d(2)] by (cases "pad3 n") (auto simp: py_int_def)
qed

lemma pad3_inj: "pad3 m = pad3 n \<longleftrightarrow> m = n"
  by (metis py_int_pad3 option.inject of_nat_eq_iff)

lemma pad3_no_dash: "CHR ''-'' \<notin> set (pad3 n)"
  using pad3_digits digit_char_facts by metis

end
