(* ===== verification/Json_Value.thy ===== *)
theory Json_Value
  imports Json_Text Numbers "HOL-Library.AList"
begin

text \<open>
  The values that \<open>json.loads\<close> returns and the Python operations the code applies to them.  An
  object is a dictionary in insertion order; numbers are integers (no file of the modelled modules
  holds another number).  \<open>stored\<close> is what is read back after \<open>json.dumps(value, sort_keys=True)\<close>;
  \<open>ascii_json\<close> is the text itself, from which the value can be read.
\<close>

datatype json =
    JNull
  | JBool bool
  | JInt int
  | JStr string
  | JArr "json list"
  | JObj "(string \<times> json) list"

type_synonym obj = "(string \<times> json) list"

section \<open>Dictionaries\<close>

definition field_or :: "obj \<Rightarrow> string \<Rightarrow> json \<Rightarrow> json" where
  "field_or d k v = (case map_of d k of None \<Rightarrow> v | Some x \<Rightarrow> x)"

text \<open>\<open>d.get(k)\<close>\<close>

definition field :: "obj \<Rightarrow> string \<Rightarrow> json" where
  "field d k = field_or d k JNull"

text \<open>\<open>{**d, **e}\<close> and \<open>d.update(e)\<close>\<close>

definition dict_update :: "obj \<Rightarrow> obj \<Rightarrow> obj" where
  "dict_update d e = foldl (\<lambda>a (k, v). AList.update k v a) d e"

definition is_obj :: "json \<Rightarrow> bool" where
  "is_obj v = (case v of JObj _ \<Rightarrow> True | _ \<Rightarrow> False)"

text \<open>\<open>dict(v) if isinstance(v, Mapping) else {}\<close>\<close>

definition obj_or_empty :: "json \<Rightarrow> obj" where
  "obj_or_empty v = (case v of JObj d \<Rightarrow> d | _ \<Rightarrow> [])"

section \<open>Conversions\<close>

fun truthy :: "json \<Rightarrow> bool" where
  "truthy JNull = False"
| "truthy (JBool b) = b"
| "truthy (JInt n) = (n \<noteq> 0)"
| "truthy (JStr s) = (s \<noteq> [])"
| "truthy (JArr xs) = (xs \<noteq> [])"
| "truthy (JObj d) = (d \<noteq> [])"

text \<open>\<open>a or b\<close>\<close>

definition py_or :: "json \<Rightarrow> json \<Rightarrow> json" where
  "py_or a b = (if truthy a then a else b)"

definition json_int :: "int \<Rightarrow> string" where
  "json_int n = (if n < 0 then CHR ''-'' # decimal (nat (- n)) else decimal (nat n))"

text \<open>\<open>int(v)\<close>\<close>

definition to_int :: "json \<Rightarrow> int result" where
  "to_int v =
     (case v of
        JBool b \<Rightarrow> Inr (if b then 1 else 0)
      | JInt n \<Rightarrow> Inr n
      | JStr s \<Rightarrow> (case py_int s of None \<Rightarrow> Inl ValueError | Some n \<Rightarrow> Inr n)
      | _ \<Rightarrow> Inl TypeError)"

text \<open>\<open>repr\<close> of a string with characters up to U+00FF.\<close>

definition repr_char :: "char \<Rightarrow> char \<Rightarrow> string" where
  "repr_char quote c =
     (let n = (of_char c :: nat) in
      if c = quote \<or> n = 92 then [CHR 0x5C, c]
      else if n = 10 then [CHR 0x5C, CHR ''n'']
      else if n = 13 then [CHR 0x5C, CHR ''r'']
      else if n = 9 then [CHR 0x5C, CHR ''t'']
      else if n < 32 \<or> (127 \<le> n \<and> n \<le> 160) \<or> n = 173
        then [CHR 0x5C, CHR ''x'', hex_digit (n div 16), hex_digit (n mod 16)]
      else [c])"

definition repr_string :: "string \<Rightarrow> string" where
  "repr_string s =
     (let quote = (if CHR 0x27 \<in> set s \<and> CHR 0x22 \<notin> set s then CHR 0x22 else CHR 0x27)
      in quote # concat (map (repr_char quote) s) @ [quote])"

primrec py_repr :: "json \<Rightarrow> string" where
  "py_repr JNull = ''None''"
| "py_repr (JBool b) = (if b then ''True'' else ''False'')"
| "py_repr (JInt n) = json_int n"
| "py_repr (JStr s) = repr_string s"
| "py_repr (JArr xs) = CHR ''['' # join_with '', '' (map py_repr xs) @ '']''"
| "py_repr (JObj d) =
     CHR ''{'' # join_with '', '' (map (\<lambda>(k, t). repr_string k @ '': '' @ t) (map (map_prod id py_repr) d)) @ ''}''"

text \<open>\<open>str(v)\<close>\<close>

definition py_text :: "json \<Rightarrow> string" where
  "py_text v = (case v of JStr s \<Rightarrow> s | _ \<Rightarrow> py_repr v)"

text \<open>\<open>tuple(v)\<close> and \<open>for item in v\<close>\<close>

definition py_iter :: "json \<Rightarrow> json list result" where
  "py_iter v =
     (case v of
        JArr xs \<Rightarrow> Inr xs
      | JStr s \<Rightarrow> Inr (map (\<lambda>c. JStr [c]) s)
      | JObj d \<Rightarrow> Inr (map (\<lambda>(k, _). JStr k) d)
      | _ \<Rightarrow> Inl TypeError)"

text \<open>
  \<open>dict(v)\<close>: besides a mapping, Python accepts an iterable of pairs; here the pairs must have a
  string as their first component.
\<close>

definition pair_of :: "json \<Rightarrow> (string \<times> json) result" where
  "pair_of v =
     bindE (py_iter v) (\<lambda>xs.
       (case xs of
          [k, x] \<Rightarrow> (case k of JStr s \<Rightarrow> Inr (s, x) | _ \<Rightarrow> Inl TypeError)
        | _ \<Rightarrow> Inl ValueError))"

definition py_dict :: "json \<Rightarrow> obj result" where
  "py_dict v =
     (case v of
        JObj d \<Rightarrow> Inr d
      | _ \<Rightarrow> bindE (py_iter v) (\<lambda>xs. bindE (mapE pair_of xs) (\<lambda>ps. Inr (dict_update [] ps))))"

text \<open>\<open>d[k]\<close>\<close>

definition item :: "obj \<Rightarrow> string \<Rightarrow> json result" where
  "item d k = dict_get d k"

section \<open>Equality, storage and the text\<close>

text \<open>\<open>a == b\<close>: the order of keys does not matter and a truth value equals its number.\<close>

primrec canon :: "json \<Rightarrow> json" where
  "canon JNull = JNull"
| "canon (JBool b) = JInt (if b then 1 else 0)"
| "canon (JInt n) = JInt n"
| "canon (JStr s) = JStr s"
| "canon (JArr xs) = JArr (map canon xs)"
| "canon (JObj d) = JObj (sort_key fst (map (map_prod id canon) d))"

definition py_eq :: "json \<Rightarrow> json \<Rightarrow> bool" where
  "py_eq a b = (canon a = canon b)"

primrec stored :: "json \<Rightarrow> json" where
  "stored JNull = JNull"
| "stored (JBool b) = JBool b"
| "stored (JInt n) = JInt n"
| "stored (JStr s) = JStr s"
| "stored (JArr xs) = JArr (map stored xs)"
| "stored (JObj d) = JObj (sort_key fst (map (map_prod id stored) d))"

definition ascii_field :: "string \<Rightarrow> string \<Rightarrow> string" where
  "ascii_field k v = ascii_string k @ CHR '':'' # v"

definition ascii_object :: "(string \<times> string) list \<Rightarrow> string" where
  "ascii_object fs = CHR ''{'' # join_with '','' (map (\<lambda>(k, v). ascii_field k v) fs) @ ''}''"

primrec render :: "json \<Rightarrow> string" where
  "render JNull = ''null''"
| "render (JBool b) = (if b then ''true'' else ''false'')"
| "render (JInt n) = json_int n"
| "render (JStr s) = ascii_string s"
| "render (JArr xs) = json_array (map render xs)"
| "render (JObj d) = ascii_object (map (map_prod id render) d)"

definition ascii_json :: "json \<Rightarrow> string" where
  "ascii_json v = render (stored v)"

text \<open>\<open>fingerprint\<close>; \<open>sha\<close> is the hexadecimal SHA-256 digest of a text.\<close>

definition fingerprint :: "(string \<Rightarrow> string) \<Rightarrow> json \<Rightarrow> string" where
  "fingerprint sha v = sha (ascii_json v)"

section \<open>Facts about dictionaries\<close>

lemma map_of_dict_update: "map_of (dict_update d e) = map_of d ++ map_of (rev e)"
proof (induction e arbitrary: d)
  case (Cons p e)
  then show ?case
    by (cases p) (simp add: dict_update_def update_conv map_add_def fun_eq_iff split: option.splits)
qed (simp add: dict_update_def)

lemma field_update: "field (AList.update k v d) k' = (if k' = k then v else field d k')"
  by (simp add: field_def field_or_def update_conv')

lemma field_dict_update:
  "field (dict_update d e) k = (case map_of (rev e) k of Some v \<Rightarrow> v | None \<Rightarrow> field d k)"
  "field_or (dict_update d e) k w = (case map_of (rev e) k of Some v \<Rightarrow> v | None \<Rightarrow> field_or d k w)"
  by (simp_all add: field_def field_or_def map_of_dict_update map_add_def split: option.splits)

lemma field_simps [simp]:
  "field [] k = JNull" "field ((k', v) # d) k = (if k' = k then v else field d k)"
  by (simp_all add: field_def field_or_def)

lemma field_or_Cons [simp]: "field_or ((k', v) # d) k x = (if k' = k then v else field_or d k x)"
  by (simp add: field_or_def)

lemma field_or_Nil [simp]: "field_or [] k x = x"
  by (simp add: field_or_def)

lemma py_text_simps [simp]: "py_text (JStr s) = s"
  by (simp add: py_text_def)

section \<open>Facts about stored values\<close>

abbreviation stored_obj :: "obj \<Rightarrow> obj" where
  "stored_obj d \<equiv> sort_key fst (map (map_prod id stored) d)"

lemma map_of_sort_key:
  assumes "distinct (map fst d)"
  shows "map_of (sort_key fst d) = map_of d"
proof -
  have "distinct (map fst (sort_key fst d))"
    using assms by (metis distinct_map distinct_sort set_sort)
  with assms show ?thesis by (subst map_of_inject_set) simp_all
qed

lemma map_of_stored:
  assumes "distinct (map fst d)"
  shows "map_of (stored_obj d) k = map_option stored (map_of d k)"
proof -
  have "map_of (map (map_prod id stored) d) k = map_option stored (map_of d k)" for k
    by (induction d) auto
  moreover have "distinct (map fst (map (map_prod id stored) d))"
    using assms by (simp add: comp_def)
  ultimately show ?thesis by (metis map_of_sort_key)
qed

lemma field_or_stored: "distinct (map fst d) \<Longrightarrow> field_or (stored_obj d) k (stored v) = stored (field_or d k v)"
  by (simp add: field_or_def map_of_stored split: option.splits)

lemma field_stored: "distinct (map fst d) \<Longrightarrow> field (stored_obj d) k = stored (field d k)"
  unfolding field_def by (metis field_or_stored stored.simps(1))

text \<open>Sorting by key is stable, so lookups do not need distinct keys.\<close>

lemma map_of_filter: "map_of d k = map_of (filter (\<lambda>p. fst p = k) d) k"
  by (induction d) auto

lemma map_of_sort_stable: "map_of (sort_key fst d) = map_of d"
  by (rule ext) (metis map_of_filter sort_key_stable)

lemma map_of_stored_any: "map_of (stored_obj d) k = map_option stored (map_of d k)"
proof -
  have "map_of (map (map_prod id stored) d) k = map_option stored (map_of d k)"
    by (induction d) auto
  then show ?thesis by (simp add: map_of_sort_stable)
qed

lemma field_or_stored_any: "stored v = v \<Longrightarrow> field_or (stored_obj d) k v = stored (field_or d k v)"
  by (simp add: field_or_def map_of_stored_any split: option.splits)

lemma field_stored_any: "field (stored_obj d) k = stored (field d k)"
  by (simp add: field_def field_or_stored_any)

section \<open>The text determines the value\<close>

definition delimited :: "string \<Rightarrow> bool" where
  "delimited r = (r = [] \<or> \<not> is_digit (hd r))"

lemma decimal_read:
  assumes "decimal m @ r = decimal n @ r'" and "delimited r" "delimited r'"
  shows "m = n \<and> r = r'"
proof -
  have d: "takeWhile is_digit (decimal k @ s) = decimal k" "dropWhile is_digit (decimal k @ s) = s"
    if "delimited s" for k s
  proof -
    have all: "\<And>c. c \<in> set (decimal k) \<Longrightarrow> is_digit c"
      using decimal_digits digit_char_facts(1) by blast
    with that show "takeWhile is_digit (decimal k @ s) = decimal k" "dropWhile is_digit (decimal k @ s) = s"
      by (cases s; simp add: takeWhile_append2 dropWhile_append2 delimited_def)+
  qed
  from d [OF assms(2), of m] d [OF assms(3), of n] assms(1)
  have "decimal m = decimal n" "r = r'" by simp_all
  then show ?thesis by (metis foldl_decimal)
qed

lemma decimal_head: "\<exists>c s. decimal n = c # s \<and> is_digit c"
  using decimal_digits [of _ n] digit_char_facts(1) by (cases "decimal n") fastforce+

lemma json_int_head:
  obtains c s where "json_int n = c # s" "c = CHR ''-'' \<or> is_digit c"
proof (cases "n < 0")
  case True
  then show ?thesis using that by (simp add: json_int_def)
next
  case False
  then show ?thesis using that decimal_head [of "nat n"] by (auto simp: json_int_def)
qed

lemma minus_not_digit: "\<not> is_digit (CHR ''-'')"
  by code_simp

lemma json_int_text_read:
  assumes "json_int m @ r = json_int n @ r'" and "delimited r" "delimited r'"
  shows "m = n \<and> r = r'"
proof (cases "m < 0 \<longleftrightarrow> n < 0")
  case True
  then show ?thesis
  proof (cases "m < 0")
    case neg: True
    with True assms(1) have "decimal (nat (- m)) @ r = decimal (nat (- n)) @ r'" by (simp add: json_int_def)
    from decimal_read [OF this assms(2,3)] neg True show ?thesis by auto
  next
    case pos: False
    with True assms(1) have "decimal (nat m) @ r = decimal (nat n) @ r'" by (simp add: json_int_def)
    from decimal_read [OF this assms(2,3)] pos True show ?thesis by auto
  qed
next
  case False
  have no: "decimal k @ s \<noteq> CHR ''-'' # t" for k s t
    using decimal_head [of k] minus_not_digit by auto
  from False assms(1) no no [symmetric] show ?thesis
    by (cases "m < 0"; cases "n < 0") (simp_all add: json_int_def)
qed

text \<open>The first character of a rendered value tells its constructor.\<close>

fun kind_of :: "json \<Rightarrow> nat" where
  "kind_of JNull = 0"
| "kind_of (JBool b) = (if b then 1 else 2)"
| "kind_of (JInt _) = 3"
| "kind_of (JStr _) = 4"
| "kind_of (JArr _) = 5"
| "kind_of (JObj _) = 6"

definition head_kind :: "char \<Rightarrow> nat" where
  "head_kind c =
     (if c = CHR ''n'' then 0 else if c = CHR ''t'' then 1 else if c = CHR ''f'' then 2
      else if c = CHR 0x22 then 4 else if c = CHR ''['' then 5 else if c = CHR ''{'' then 6 else 3)"

lemma head_kind_digit: "c = CHR ''-'' \<or> is_digit c \<Longrightarrow> head_kind c = 3"
  by (auto simp: head_kind_def is_digit_def)

lemma render_head: "\<exists>c s. render v = c # s \<and> head_kind c = kind_of v"
proof (cases v)
  case (JInt n)
  then show ?thesis using json_int_head [of n] head_kind_digit by (metis kind_of.simps(3) render.simps(3))
qed (auto simp: head_kind_def ascii_string_def quoted_def json_array_def ascii_object_def)

lemma render_not_bracket: "render v \<noteq> CHR '']'' # s"
proof (cases v)
  case (JInt n)
  obtain c t where "json_int n = c # t" "c = CHR ''-'' \<or> is_digit c" by (rule json_int_head)
  moreover have "\<not> is_digit (CHR '']'')" by code_simp
  ultimately show ?thesis using JInt by auto
qed (auto simp: ascii_string_def quoted_def json_array_def ascii_object_def)

lemma render_kind: "render v @ r = render w @ r' \<Longrightarrow> kind_of v = kind_of w"
  using render_head [of v] render_head [of w] by auto

lemma delimited_simps [simp]:
  "delimited []" "delimited (CHR '','' # s)" "delimited (CHR '']'' # s)" "delimited (CHR ''}'' # s)"
  by (simp_all add: delimited_def is_digit_def)

text \<open>Reading a list of parts, each of which can be read, up to a closing bracket.\<close>

lemma parts_read:
  assumes one: "\<And>x y s t. x \<in> set xs \<Longrightarrow> f x @ s = f y @ t \<Longrightarrow> delimited s \<Longrightarrow> delimited t \<Longrightarrow> x = y \<and> s = t"
    and head: "\<And>x. \<exists>c s. f x = c # s \<and> c \<noteq> z"
    and z: "z = CHR '']'' \<or> z = CHR ''}''"
    and eq: "join_with '','' (map f xs) @ z # r = join_with '','' (map f ys) @ z # r'"
  shows "xs = ys \<and> r = r'"
proof -
  have dz: "delimited (z # s)" and cz: "CHR '','' \<noteq> z" for s using z by auto
  have hz: "f x @ s \<noteq> z # t" for x s t using head [of x] by auto
  from one eq show ?thesis
  proof (induction xs arbitrary: ys rule: induct_list012)
    case 1
    then show ?case
      using hz hz [symmetric] by (cases ys rule: remdups_adj.cases) auto
  next
    case (2 x)
    show ?case
    proof (cases ys rule: remdups_adj.cases)
      case 1
      with "2.prems"(2) hz show ?thesis by auto
    next
      case (2 y)
      with "2.prems"(2) have "f x @ z # r = f y @ z # r'" by simp
      from "2.prems"(1) [OF _ this] dz 2 show ?thesis by simp
    next
      case (3 y y' zs)
      with "2.prems"(2) have "f x @ z # r = f y @ CHR '','' # join_with '','' (map f (y' # zs)) @ z # r'" by simp
      from "2.prems"(1) [OF _ this] dz cz show ?thesis by simp
    qed
  next
    case (3 x x' xs)
    show ?case
    proof (cases ys rule: remdups_adj.cases)
      case 1
      with "3.prems"(2) hz show ?thesis by auto
    next
      case (2 y)
      with "3.prems"(2) have "f x @ CHR '','' # join_with '','' (map f (x' # xs)) @ z # r = f y @ z # r'" by simp
      from "3.prems"(1) [OF _ this] dz cz show ?thesis by auto
    next
      case ys: (3 y y' zs)
      with "3.prems"(2) have eq: "f x @ CHR '','' # join_with '','' (map f (x' # xs)) @ z # r
          = f y @ CHR '','' # join_with '','' (map f (y' # zs)) @ z # r'" by simp
      have "x \<in> set (x # x' # xs)" by simp
      from "3.prems"(1) [OF this eq] have "x = y \<and>
          CHR '','' # join_with '','' (map f (x' # xs)) @ z # r = CHR '','' # join_with '','' (map f (y' # zs)) @ z # r'"
        by (simp only: delimited_simps)
      then have xy: "x = y"
        and tl: "join_with '','' (map f (x' # xs)) @ z # r = join_with '','' (map f (y' # zs)) @ z # r'" by simp_all
      have "x' # xs = y' # zs \<and> r = r'"
        by (rule "3.IH"(2) [OF _ tl], rule "3.prems"(1)) simp_all
      with xy ys show ?thesis by simp
    qed
  qed
qed

lemma ascii_field_read:
  assumes "ascii_field k v @ s = ascii_field l w @ t"
  shows "k = l \<and> v @ s = w @ t"
proof -
  from assms have "ascii_string k @ (CHR '':'' # v @ s) = ascii_string l @ (CHR '':'' # w @ t)"
    by (simp only: ascii_field_def append.assoc append_Cons)
  from ascii_string_read [OF this] show ?thesis by simp
qed

theorem render_read:
  "render v @ r = render w @ r' \<Longrightarrow> delimited r \<Longrightarrow> delimited r' \<Longrightarrow> v = w \<and> r = r'"
proof (induction v arbitrary: w r r')
  case JNull
  then show ?case using render_kind [OF JNull(1)] by (cases w) (simp_all split: if_splits)
next
  case (JBool b)
  then show ?case using render_kind [OF JBool(1)] by (cases w) (simp_all split: if_splits)
next
  case (JInt n)
  then show ?case
    using render_kind [OF JInt(1)] json_int_text_read [of n r _ r'] by (cases w) (simp_all split: if_splits)
next
  case (JStr s)
  then show ?case
    using render_kind [OF JStr(1)] ascii_string_read [of s r _ r'] by (cases w) (simp_all split: if_splits)
next
  case (JArr xs)
  then obtain ys where w: "w = JArr ys" using render_kind [OF JArr(2)] by (cases w) (simp_all split: if_splits)
  have "xs = ys \<and> r = r'"
  proof (rule parts_read [where f = render and z = "CHR '']''"])
    show "\<exists>c s. render x = c # s \<and> c \<noteq> CHR '']''" for x
      using render_not_bracket [of x] render_head [of x] by auto
    show "join_with '','' (map render xs) @ CHR '']'' # r = join_with '','' (map render ys) @ CHR '']'' # r'"
      using JArr.prems(1) w by (simp add: json_array_def)
  qed (use JArr.IH in auto)
  with w show ?case by simp
next
  case (JObj d)
  then obtain e where w: "w = JObj e" using render_kind [OF JObj(2)] by (cases w) (simp_all split: if_splits)
  let ?f = "\<lambda>(k, v). ascii_field k (render v)"
  have "d = e \<and> r = r'"
  proof (rule parts_read [where f = ?f and z = "CHR ''}''"])
    show "\<exists>c s. ?f x = c # s \<and> c \<noteq> CHR ''}''" for x
      by (cases x) (simp add: ascii_field_def ascii_string_def quoted_def)
    show "join_with '','' (map ?f d) @ CHR ''}'' # r = join_with '','' (map ?f e) @ CHR ''}'' # r'"
      using JObj.prems(1) w by (simp add: ascii_object_def comp_def case_prod_unfold)
    fix x y s t
    assume x: "x \<in> set d" and eq: "?f x @ s = ?f y @ t" and "delimited s" "delimited t"
    obtain k v l u where xy: "x = (k, v)" "y = (l, u)" by fastforce
    from eq xy have "ascii_field k (render v) @ s = ascii_field l (render u) @ t" by simp
    from ascii_field_read [OF this] have kl: "k = l" and vu: "render v @ s = render u @ t" by simp_all
    have "v \<in> Basic_BNFs.snds x" using xy by simp
    from JObj.IH [OF x this vu \<open>delimited s\<close> \<open>delimited t\<close>] kl xy show "x = y \<and> s = t" by simp
  qed simp
  with w show ?case by simp
qed

lemma ascii_json_inj: "ascii_json v = ascii_json w \<longleftrightarrow> stored v = stored w"
  using render_read [of "stored v" "[]" "stored w" "[]"] by (auto simp: ascii_json_def)

end
