(* ===== verification/Planner.thy ===== *)
theory Planner
  imports Claims Ready_List Json_Value
begin

text \<open>
  The dependency planner of the coordinator (\<open>workflows/coordinator/planner.py\<close> with the request
  types of \<open>models.py\<close>): task and request validation, the dependency and scope checks, the
  integration hotspots, the execution edges, the ready frontier and the recommended concurrency.
\<close>

section \<open>Tasks and requests\<close>

record planner_task =
  pt_id :: string
  pt_outcome :: string
  pt_owned :: "string list"
  pt_checks :: "string list"
  pt_shared :: "string list"
  pt_dependencies :: "string list"
  pt_capabilities :: "string list"
  pt_owner :: "string option"
  pt_kind :: string

text \<open>\<open>len(set(values)) != len(values) or any(not item.strip() for item in values)\<close>\<close>

definition bad_values :: "string list \<Rightarrow> bool" where
  "bad_values vs = (\<not> distinct vs \<or> (\<exists>v \<in> set vs. blank v))"

definition planner_task_init :: "planner_task \<Rightarrow> planner_task result" where
  "planner_task_init t =
     (if blank (pt_id t) \<or> blank (pt_outcome t) then Inl ValueError
      else if pt_kind t \<notin> {''change'', ''slice'', ''task''} then Inl ValueError
      else if \<exists>vs \<in> {pt_owned t, pt_shared t, pt_dependencies t, pt_checks t, pt_capabilities t}. bad_values vs
        then Inl ValueError
      else if pt_owned t = [] \<and> pt_shared t = [] then Inl ValueError
      else if pt_checks t = [] then Inl ValueError
      else if (case pt_owner t of None \<Rightarrow> False | Some w \<Rightarrow> blank w) then Inl ValueError
      else Inr t)"

record planner_request =
  pr_project :: string
  pr_change :: string
  pr_work :: string
  pr_slice :: string
  pr_revision :: int
  pr_exact_base :: "(string \<times> string) list"
  pr_tasks :: "planner_task list"
  pr_root :: string
  pr_worktree :: string
  pr_phase :: string
  pr_references :: "string list"
  pr_work_management :: "obj option"
  pr_provenance :: "obj option"
  pr_verification_ids :: "string list"

definition planner_request_init :: "planner_request \<Rightarrow> planner_request result" where
  "planner_request_init r =
     (if \<exists>v \<in> {pr_project r, pr_change r, pr_work r, pr_slice r}. blank v then Inl ValueError
      else if pr_revision r < 1 then Inl ValueError
      else if \<exists>v \<in> {pr_root r, pr_worktree r, pr_phase r}. blank v then Inl ValueError
      else if bad_values (pr_references r) then Inl ValueError
      else if pr_tasks r = [] then Inl ValueError
      else if \<not> distinct (map pt_id (pr_tasks r)) then Inl ValueError
      else if \<not> distinct (pr_verification_ids r) then Inl ValueError
      else if \<exists>v \<in> set (pr_verification_ids r). blank v then Inl ValueError
      else Inr r)"

type_synonym task_dict = "(string \<times> planner_task) list"

text \<open>\<open>{task.task_id: task for task in tasks}\<close>\<close>

definition task_dict :: "planner_task list \<Rightarrow> task_dict" where
  "task_dict ts = foldl (\<lambda>d t. AList.update (pt_id t) t d) [] ts"

definition sha_field :: "(string \<times> string) list \<Rightarrow> string \<Rightarrow> string result" where
  "sha_field v f =
     (case map_of v f of
        None \<Rightarrow> Inl (Coded ''PLANNER_BASE_INVALID'')
      | Some s \<Rightarrow> if is_hex40 s then Inr s else Inl (Coded ''PLANNER_BASE_INVALID''))"

definition git_identity :: "(string \<times> string) list \<Rightarrow> git_id result" where
  "git_identity v =
     bindE (sha_field v ''commit_sha'') (\<lambda>c.
     bindE (sha_field v ''tree_sha'') (\<lambda>t.
       Inr \<lparr>commit_sha = c, tree_sha = t\<rparr>))"

section \<open>Dependencies\<close>

definition dependency_graph :: "task_dict \<Rightarrow> string graph" where
  "dependency_graph tasks = map (\<lambda>(k, t). (k, pt_dependencies t)) tasks"

definition check_dependencies :: "task_dict \<Rightarrow> planner_task \<Rightarrow> unit result" where
  "check_dependencies tasks task =
     forE (\<lambda>d. bindE (raise_if (d = pt_id task) (Coded ''PLANNER_DEPENDENCY_SELF'')) (\<lambda>_.
               raise_if (d \<notin> set (map fst tasks)) (Coded ''PLANNER_DEPENDENCY_NOT_FOUND'')))
       (pt_dependencies task)"

definition validate_dependencies :: "task_dict \<Rightarrow> unit result" where
  "validate_dependencies tasks =
     bindE (forE (check_dependencies tasks) (map snd tasks)) (\<lambda>_.
     bindE (visit_all (Coded ''PLANNER_DEPENDENCY_CYCLE'') (dependency_graph tasks) [] []
              (sort (map fst tasks))) (\<lambda>_. Inr ()))"

section \<open>Scope topology\<close>

definition owner_text :: "string option \<Rightarrow> string" where
  "owner_text w = (case w of None \<Rightarrow> ''None'' | Some s \<Rightarrow> s)"

record hot_edge =
  he_left :: string
  he_right :: string
  he_left_path :: string
  he_right_path :: string
  he_owner :: string

record hotspot =
  hs_paths :: "string list"
  hs_owner :: string
  hs_tasks :: "string list"

definition check_task_scope :: "task_dict \<Rightarrow> planner_task \<Rightarrow> unit result" where
  "check_task_scope tasks task =
     bindE (mapE path_claim (pt_owned task)) (\<lambda>owned.
     bindE (mapE path_claim (pt_shared task)) (\<lambda>shared.
     bindE (raise_if (shared \<noteq> [] \<and> pt_owner task = None) (Coded ''PLANNER_INTEGRATION_OWNER_REQUIRED'')) (\<lambda>_.
     bindE (raise_if (case pt_owner task of None \<Rightarrow> False | Some w \<Rightarrow> w \<notin> set (map fst tasks))
              (Coded ''PLANNER_INTEGRATION_OWNER_NOT_FOUND'')) (\<lambda>_.
     raise_if (\<exists>l \<in> set owned. \<exists>r \<in> set shared. overlaps l r) (Coded ''PLANNER_TASK_SCOPE_CONTRADICTION'')))))"

definition validate_exclusive_pair :: "planner_task \<Rightarrow> planner_task \<Rightarrow> unit result" where
  "validate_exclusive_pair left right =
     bindE (parse_four (pt_owned left) (pt_shared left) (pt_owned right) (pt_shared right))
       (\<lambda>(lo, ls, ro, rs).
     bindE (forE (\<lambda>owned. raise_if (\<exists>other \<in> set (ro @ rs). overlaps owned other)
                    (Coded ''PLANNER_OWNERSHIP_UNRESOLVED'')) lo) (\<lambda>_.
     forE (\<lambda>owned. raise_if (\<exists>other \<in> set ls. overlaps owned other)
                    (Coded ''PLANNER_OWNERSHIP_UNRESOLVED'')) ro))"

definition claim_overlap :: "string \<Rightarrow> string \<Rightarrow> bool result" where
  "claim_overlap left_path right_path =
     bindE (path_claim left_path) (\<lambda>l. bindE (path_claim right_path) (\<lambda>r. Inr (overlaps l r)))"

text \<open>The shared edge that one pair of shared paths contributes, if any.\<close>

definition shared_edge ::
  "string \<Rightarrow> string \<Rightarrow> planner_task \<Rightarrow> planner_task \<Rightarrow> string \<Rightarrow> string \<Rightarrow> hot_edge list result" where
  "shared_edge left_id right_id left right left_path right_path =
     bindE (claim_overlap left_path right_path) (\<lambda>o'.
       if \<not> o' then Inr []
       else if pt_owner left \<noteq> pt_owner right then Inl (Coded ''PLANNER_INTEGRATION_OWNER_AMBIGUOUS'')
       else Inr [\<lparr>he_left = left_id, he_right = right_id, he_left_path = left_path,
                  he_right_path = right_path, he_owner = owner_text (pt_owner left)\<rparr>])"

definition pair_edges :: "task_dict \<Rightarrow> string \<times> string \<Rightarrow> hot_edge list result" where
  "pair_edges tasks ids =
     bindE (dict_get tasks (fst ids)) (\<lambda>left.
     bindE (dict_get tasks (snd ids)) (\<lambda>right.
     bindE (validate_exclusive_pair left right) (\<lambda>_.
     bindE (mapE (\<lambda>lp. mapE (shared_edge (fst ids) (snd ids) left right lp) (pt_shared right)) (pt_shared left))
       (\<lambda>ess. Inr (concat (concat ess))))))"

definition canonical_hotspot :: "hotspot \<Rightarrow> string" where
  "canonical_hotspot h =
     json_object [(''integration_owner'', json_string (hs_owner h)),
                  (''paths'', json_array (map json_string (hs_paths h))),
                  (''task_ids'', json_array (map json_string (hs_tasks h)))]"

definition hotspot_of :: "hot_edge list \<Rightarrow> string list \<Rightarrow> hotspot result" where
  "hotspot_of evidence members =
     (let component_edges = filter (\<lambda>e. he_left e \<in> set members \<and> he_right e \<in> set members) evidence;
          owners = remdups (map he_owner component_edges);
          paths = sort (remdups (concat (map (\<lambda>e. [he_left_path e, he_right_path e]) component_edges)))
      in case owners of
           [w] \<Rightarrow> Inr \<lparr>hs_paths = paths, hs_owner = w, hs_tasks = sort members\<rparr>
         | _ \<Rightarrow> Inl (Coded ''PLANNER_INTEGRATION_OWNER_AMBIGUOUS''))"

definition hotspot_components :: "hot_edge list \<Rightarrow> hotspot list result" where
  "hotspot_components es =
     (let adj = adjacency (map (\<lambda>e. (he_left e, he_right e)) es);
          found = components adj (sort (map fst adj)) []
      in bindE (mapE (hotspot_of es) found) (\<lambda>hs. Inr (sort_key canonical_hotspot hs)))"

definition validate_scope_topology :: "task_dict \<Rightarrow> hotspot list result" where
  "validate_scope_topology tasks =
     bindE (forE (check_task_scope tasks) (map snd tasks)) (\<lambda>_.
     bindE (mapE (pair_edges tasks) (pairs (sort (map fst tasks)))) (\<lambda>ess.
     hotspot_components (concat ess)))"

section \<open>Execution edges, ready frontier and concurrency\<close>

datatype edge_kind = Depends_on | Integrates_with

record plan_edge =
  e_from :: string
  e_to :: string
  e_kind :: edge_kind

definition edge_kind_text :: "edge_kind \<Rightarrow> string" where
  "edge_kind_text k = (case k of Depends_on \<Rightarrow> ''depends_on'' | Integrates_with \<Rightarrow> ''integrates_with'')"

definition canonical_edge :: "plan_edge \<Rightarrow> string" where
  "canonical_edge e =
     json_object [(''from'', json_string (e_from e)), (''kind'', json_string (edge_kind_text (e_kind e))),
                  (''to'', json_string (e_to e))]"

definition raw_edges :: "task_dict \<Rightarrow> hotspot list \<Rightarrow> plan_edge list" where
  "raw_edges tasks hotspots =
     concat (map (\<lambda>(k, t). map (\<lambda>d. \<lparr>e_from = d, e_to = k, e_kind = Depends_on\<rparr>) (sort (pt_dependencies t)))
               (sort_key fst tasks)) @
     concat (map (\<lambda>h. map (\<lambda>k. \<lparr>e_from = k, e_to = hs_owner h, e_kind = Integrates_with\<rparr>)
                        (filter (\<lambda>k. k \<noteq> hs_owner h) (hs_tasks h))) hotspots)"

text \<open>\<open>unique = {_canonical(edge): edge for edge in edges}\<close>, read in the order of the keys.\<close>

definition plan_edges :: "task_dict \<Rightarrow> hotspot list \<Rightarrow> plan_edge list" where
  "plan_edges tasks hotspots =
     map snd (sort_key fst (foldl (\<lambda>d e. AList.update (canonical_edge e) e d) [] (raw_edges tasks hotspots)))"

definition validate_execution_edges :: "task_dict \<Rightarrow> plan_edge list \<Rightarrow> unit result" where
  "validate_execution_edges tasks es =
     bindE (eliminated (map fst tasks) (map (\<lambda>e. (e_from e, e_to e)) es)) (\<lambda>visited.
       raise_if (visited \<noteq> length tasks) (Coded ''PLANNER_EXECUTION_CYCLE''))"

definition shared_overlap :: "planner_task \<Rightarrow> planner_task \<Rightarrow> bool result" where
  "shared_overlap left right =
     anyE (\<lambda>lp. anyE (claim_overlap lp) (pt_shared right)) (pt_shared left)"

definition select_task :: "task_dict \<Rightarrow> planner_task list \<Rightarrow> string \<Rightarrow> planner_task list result" where
  "select_task tasks selected task_id =
     bindE (dict_get tasks task_id) (\<lambda>candidate.
     bindE (anyE (shared_overlap candidate) selected) (\<lambda>clash.
       if clash then Inr selected else Inr (selected @ [candidate])))"

definition recommended_concurrency :: "string list \<Rightarrow> task_dict \<Rightarrow> nat result" where
  "recommended_concurrency ready_frontier tasks =
     bindE (foldE (select_task tasks) [] (sort ready_frontier)) (\<lambda>selected.
       Inr (max 1 (length selected)))"

record plan_node =
  nd_kind :: string
  nd_outcome :: string
  nd_owned :: "string list"
  nd_shared :: "string list"
  nd_owner :: "string option"
  nd_checks :: "string list"
  nd_capabilities :: "string list"

definition plan_node :: "planner_task \<Rightarrow> plan_node" where
  "plan_node t =
     \<lparr>nd_kind = pt_kind t, nd_outcome = pt_outcome t, nd_owned = sort (pt_owned t),
      nd_shared = sort (pt_shared t), nd_owner = pt_owner t, nd_checks = sort (pt_checks t),
      nd_capabilities = sort (pt_capabilities t)\<rparr>"

record plan =
  pl_project :: string
  pl_change :: string
  pl_revision :: int
  pl_nodes :: "(string \<times> plan_node) list"
  pl_edges :: "plan_edge list"
  pl_ready :: "string list"
  pl_hotspots :: "hotspot list"
  pl_concurrency :: nat
  pl_base_evidence :: string

definition ready_frontier :: "task_dict \<Rightarrow> plan_edge list \<Rightarrow> string list" where
  "ready_frontier tasks es = sort (filter (\<lambda>k. k \<notin> e_to ` set es) (map fst tasks))"

definition plan :: "planner_request \<Rightarrow> plan result" where
  "plan request =
     (let tasks = task_dict (pr_tasks request) in
      bindE (git_identity (pr_exact_base request)) (\<lambda>exact_base.
      bindE (validate_dependencies tasks) (\<lambda>_.
      bindE (validate_scope_topology tasks) (\<lambda>hotspots.
        let es = plan_edges tasks hotspots in
        bindE (validate_execution_edges tasks es) (\<lambda>_.
          let ready = ready_frontier tasks es in
          bindE (recommended_concurrency ready tasks) (\<lambda>n.
            Inr \<lparr>pl_project = pr_project request, pl_change = pr_change request,
                 pl_revision = pr_revision request,
                 pl_nodes = map (\<lambda>(k, t). (k, plan_node t)) (sort_key fst tasks),
                 pl_edges = es, pl_ready = ready, pl_hotspots = hotspots, pl_concurrency = n,
                 pl_base_evidence = commit_sha exact_base\<rparr>))))))"

end
