(* ===== verification/Planner_Facts.thy ===== *)
theory Planner_Facts
  imports Planner
begin

text \<open>
  What the planner of \<open>Planner\<close> guarantees: the dependency check decides acyclicity, an accepted
  topology has disjoint exclusive scopes, overlapping shared scopes meet in one hotspot with one
  owner, the execution edges are acyclic, the ready frontier is not empty and the recommended
  concurrency is the size of a selection of ready tasks with disjoint shared scopes.
\<close>

section \<open>The task dictionary\<close>

definition wf_tasks :: "task_dict \<Rightarrow> bool" where
  "wf_tasks tasks = (distinct (map fst tasks) \<and> (\<forall>(k, t) \<in> set tasks. pt_id t = k))"

lemma wf_tasks_update: "wf_tasks d \<Longrightarrow> wf_tasks (AList.update (pt_id t) t d)"
proof (unfold wf_tasks_def, intro conjI ballI)
  assume wf: "distinct (map fst d) \<and> (\<forall>(k, t) \<in> set d. pt_id t = k)"
  then show "distinct (map fst (AList.update (pt_id t) t d))" by (simp add: distinct_update)
  fix x assume "x \<in> set (AList.update (pt_id t) t d)"
  then have "x \<in> set d \<or> x = (pt_id t, t)" by (induction d) (auto split: if_splits)
  with wf show "case x of (k, t) \<Rightarrow> pt_id t = k" by auto
qed

lemma wf_task_dict: "wf_tasks (task_dict ts)"
proof -
  have "wf_tasks d \<Longrightarrow> wf_tasks (foldl (\<lambda>d t. AList.update (pt_id t) t d) d ts)" for d
    by (induction ts arbitrary: d) (simp_all add: wf_tasks_update)
  then have "wf_tasks [] \<Longrightarrow> ?thesis" by (simp add: task_dict_def)
  then show ?thesis by (simp add: wf_tasks_def)
qed

lemma task_dict_keys: "fst ` set (task_dict ts) = pt_id ` set ts"
proof -
  have "fst ` set (foldl (\<lambda>d t. AList.update (pt_id t) t d) d ts) = fst ` set d \<union> pt_id ` set ts" for d
    by (induction ts arbitrary: d) (auto simp: dom_update)
  then show ?thesis by (simp add: task_dict_def)
qed

lemma task_dict_distinct:
  "distinct (map pt_id ts) \<Longrightarrow> task_dict ts = map (\<lambda>t. (pt_id t, t)) ts"
proof (induction ts rule: rev_induct)
  case (snoc t ts)
  have "AList.update k v d = d @ [(k, v)]" if "k \<notin> fst ` set d" for k v and d :: task_dict
    using that by (induction d) auto
  with snoc show ?case by (force simp: task_dict_def image_image)
qed (simp add: task_dict_def)

lemma wf_tasks_map_of: "wf_tasks tasks \<Longrightarrow> map_of tasks k = Some t \<longleftrightarrow> (k, t) \<in> set tasks"
  by (simp add: wf_tasks_def)

lemma wf_tasks_id: "wf_tasks tasks \<Longrightarrow> (k, t) \<in> set tasks \<Longrightarrow> pt_id t = k"
  by (auto simp: wf_tasks_def)

section \<open>Dependencies\<close>

definition dependency_rel :: "task_dict \<Rightarrow> (string \<times> string) set" where
  "dependency_rel tasks = {(k, d). \<exists>t. (k, t) \<in> set tasks \<and> d \<in> set (pt_dependencies t)}"

lemma succs_dependency:
  "succs (dependency_graph tasks) k = (case map_of tasks k of None \<Rightarrow> [] | Some t \<Rightarrow> pt_dependencies t)"
  by (simp add: dependency_graph_def succs_def map_of_map split: option.splits)

lemma edge_rel_dependency:
  assumes "wf_tasks tasks"
  shows "edge_rel (dependency_graph tasks) = dependency_rel tasks"
proof -
  have "y \<in> set (succs (dependency_graph tasks) x) \<longleftrightarrow> (x, y) \<in> dependency_rel tasks" for x y
    unfolding succs_dependency dependency_rel_def wf_tasks_map_of [OF assms, symmetric]
    by (cases "map_of tasks x") auto
  then show ?thesis unfolding edge_rel_def by simp
qed

lemma nodes_dependency: "nodes (dependency_graph tasks) = fst ` set tasks"
  by (force simp: nodes_def dependency_graph_def)

lemma check_dependencies_iff:
  "check_dependencies tasks t = Inr () \<longleftrightarrow>
     (\<forall>d \<in> set (pt_dependencies t). d \<noteq> pt_id t \<and> d \<in> fst ` set tasks)"
  by (auto simp: check_dependencies_def err_simps)

lemma closed_dependency:
  assumes "wf_tasks tasks" "dependency_rel tasks \<subseteq> UNIV \<times> fst ` set tasks"
  shows "closed_graph (dependency_graph tasks)"
proof -
  have "y \<in> fst ` set tasks" if "y \<in> set (succs (dependency_graph tasks) x)" for x y
  proof -
    from that have "(x, y) \<in> dependency_rel tasks"
      unfolding edge_rel_dependency [OF assms(1), symmetric] by simp
    with assms(2) show ?thesis by blast
  qed
  then show ?thesis unfolding closed_graph_def nodes_dependency by blast
qed

lemma check_all_dependencies:
  assumes "wf_tasks tasks"
  shows "forE (check_dependencies tasks) (map snd tasks) = Inr () \<longleftrightarrow>
    dependency_rel tasks \<subseteq> UNIV \<times> fst ` set tasks \<and> (\<forall>k. (k, k) \<notin> dependency_rel tasks)"
proof -
  have "forE (check_dependencies tasks) (map snd tasks) = Inr () \<longleftrightarrow>
    (\<forall>(k, t) \<in> set tasks. \<forall>d \<in> set (pt_dependencies t). d \<noteq> k \<and> d \<in> fst ` set tasks)"
    using assms unfolding forE_eq_Inr check_dependencies_iff wf_tasks_def by fastforce
  then show ?thesis unfolding dependency_rel_def by fast
qed

lemma validate_dependencies_wf:
  assumes "wf_tasks tasks"
  shows "validate_dependencies tasks = Inr () \<longleftrightarrow>
    dependency_rel tasks \<subseteq> UNIV \<times> fst ` set tasks \<and> acyclic (dependency_rel tasks)"
proof (cases "dependency_rel tasks \<subseteq> UNIV \<times> fst ` set tasks")
  case True
  have "(\<exists>vd. visit_all e (dependency_graph tasks) [] [] (sort (map fst tasks)) = Inr vd)
      \<longleftrightarrow> acyclic (dependency_rel tasks)" for e
    using visit_all_decides [OF closed_dependency [OF assms True], of "sort (map fst tasks)" e]
      edge_rel_dependency [OF assms] by (simp add: nodes_dependency)
  moreover have "acyclic (dependency_rel tasks) \<Longrightarrow> (k, k) \<notin> dependency_rel tasks" for k
    unfolding acyclic_def by blast
  ultimately show ?thesis
    using check_all_dependencies [OF assms] True unfolding validate_dependencies_def
    by (auto simp: bindE_eq_Inr)
next
  case False
  with check_all_dependencies [OF assms] show ?thesis
    unfolding validate_dependencies_def bindE_eq_Inr by auto
qed


section \<open>Exclusive scopes\<close>

definition owned_scope :: "planner_task \<Rightarrow> string set" where
  "owned_scope t = parsed_scope (pt_owned t)"

definition shared_scope :: "planner_task \<Rightarrow> string set" where
  "shared_scope t = parsed_scope (pt_shared t)"

lemma check_task_scope_Inr:
  assumes "check_task_scope tasks t = Inr u"
  shows "owned_scope t \<inter> shared_scope t = {}"
    and "pt_shared t \<noteq> [] \<Longrightarrow> \<exists>w. pt_owner t = Some w"
    and "pt_owner t = Some w \<Longrightarrow> w \<in> fst ` set tasks"
proof -
  from assms obtain owned shared where p: "mapE path_claim (pt_owned t) = Inr owned"
    "mapE path_claim (pt_shared t) = Inr shared"
    and c: "shared \<noteq> [] \<Longrightarrow> pt_owner t \<noteq> None"
      "case pt_owner t of None \<Rightarrow> True | Some w \<Rightarrow> w \<in> fst ` set tasks"
      "\<not> (\<exists>l \<in> set owned. \<exists>r \<in> set shared. overlaps l r)"
    by (auto simp: check_task_scope_def err_simps split: option.splits)
  show "owned_scope t \<inter> shared_scope t = {}"
    using c(3) unfolding overlaps_scope owned_scope_def shared_scope_def
    by (simp add: parsed_scope_mapE [OF p(1)] parsed_scope_mapE [OF p(2)])
  show "\<exists>w. pt_owner t = Some w" if "pt_shared t \<noteq> []"
    using that p(2) c(1) by (cases "pt_shared t") (auto simp: err_simps)
  show "pt_owner t = Some w \<Longrightarrow> w \<in> fst ` set tasks" using c(2) by simp
qed

definition exclusive :: "planner_task \<Rightarrow> planner_task \<Rightarrow> bool" where
  "exclusive l r \<longleftrightarrow> owned_scope l \<inter> (owned_scope r \<union> shared_scope r) = {} \<and>
     owned_scope r \<inter> shared_scope l = {}"

lemma exclusive_sym: "exclusive l r \<Longrightarrow> exclusive r l"
  by (auto simp: exclusive_def)

lemma validate_exclusive_pair_Inr:
  assumes "validate_exclusive_pair l r = Inr u"
  shows "exclusive l r"
proof -
  from assms obtain lo ls ro rs
    where p: "parse_four (pt_owned l) (pt_shared l) (pt_owned r) (pt_shared r) = Inr (lo, ls, ro, rs)"
      and c: "\<not> (\<exists>x \<in> set lo. \<exists>y \<in> set (ro @ rs). overlaps x y)"
        "\<not> (\<exists>x \<in> set ro. \<exists>y \<in> set ls. overlaps x y)"
    by (auto simp: validate_exclusive_pair_def err_simps)
  show ?thesis
    using c unfolding overlaps_scope exclusive_def owned_scope_def shared_scope_def
    by (simp add: parse_four_scopes [OF p] del: Int_Un_distrib)
qed

section \<open>Shared edges\<close>

text \<open>What one recorded edge says about the two tasks.\<close>

definition edge_fact :: "task_dict \<Rightarrow> hot_edge \<Rightarrow> bool" where
  "edge_fact tasks e \<longleftrightarrow> (\<exists>l r. map_of tasks (he_left e) = Some l \<and> map_of tasks (he_right e) = Some r \<and>
     pt_owner l = pt_owner r \<and> he_owner e = owner_text (pt_owner l) \<and>
     he_left_path e \<in> set (pt_shared l) \<and> he_right_path e \<in> set (pt_shared r) \<and>
     claim_overlap (he_left_path e) (he_right_path e) = Inr True)"

lemma claim_overlap_scopes:
  assumes "claim_overlap p q = Inr b"
  shows "b \<longleftrightarrow> parsed_scope [p] \<inter> parsed_scope [q] \<noteq> {}"
  using assms by (auto simp: claim_overlap_def err_simps parsed_scope_def overlaps_denotes)

lemma shared_edge_Inr:
  assumes "shared_edge li ri l r lp rp = Inr es"
  shows "\<exists>b. claim_overlap lp rp = Inr b \<and> (b \<longrightarrow> pt_owner l = pt_owner r) \<and>
    es = (if b then [\<lparr>he_left = li, he_right = ri, he_left_path = lp, he_right_path = rp,
                      he_owner = owner_text (pt_owner l)\<rparr>] else [])"
proof (cases "claim_overlap lp rp")
  case (Inr b)
  with assms show ?thesis
    by (intro exI [of _ b]) (cases b; cases "pt_owner l = pt_owner r"; simp add: shared_edge_def)
qed (use assms in \<open>simp add: shared_edge_def\<close>)

lemma pair_edges_Inr:
  assumes "pair_edges tasks (li, ri) = Inr es"
  obtains l r ess where "map_of tasks li = Some l" "map_of tasks ri = Some r" "exclusive l r"
    "mapE (\<lambda>lp. mapE (shared_edge li ri l r lp) (pt_shared r)) (pt_shared l) = Inr ess"
    "es = concat (concat ess)"
proof -
  from assms obtain l r u ess where *: "map_of tasks li = Some l" "map_of tasks ri = Some r"
      "validate_exclusive_pair l r = Inr u"
      "mapE (\<lambda>lp. mapE (shared_edge li ri l r lp) (pt_shared r)) (pt_shared l) = Inr ess"
      "es = concat (concat ess)"
    by (simp add: pair_edges_def bindE_eq_Inr dict_get_Inr) metis
  from that [OF *(1,2) validate_exclusive_pair_Inr [OF *(3)] *(4,5)] show ?thesis .
qed

lemma pair_edges_sound:
  assumes "pair_edges tasks ids = Inr es" "e \<in> set es"
  shows "edge_fact tasks e \<and> he_left e = fst ids \<and> he_right e = snd ids"
proof -
  obtain li ri where ids: "ids = (li, ri)" by (cases ids)
  from assms(1) [unfolded ids] obtain l r ess
    where m: "map_of tasks li = Some l" "map_of tasks ri = Some r"
      and ess: "mapE (\<lambda>lp. mapE (shared_edge li ri l r lp) (pt_shared r)) (pt_shared l) = Inr ess"
      and es: "es = concat (concat ess)" by (rule pair_edges_Inr)
  from assms(2) es obtain xs ys where "ys \<in> set ess" "xs \<in> set ys" "e \<in> set xs" by auto
  with mapE_set [OF ess] obtain lp where lp: "lp \<in> set (pt_shared l)"
    "mapE (shared_edge li ri l r lp) (pt_shared r) = Inr ys" by blast
  from mapE_set [OF lp(2) \<open>xs \<in> set ys\<close>] obtain rp where rp: "rp \<in> set (pt_shared r)"
    "shared_edge li ri l r lp rp = Inr xs" by blast
  from shared_edge_Inr [OF rp(2)] \<open>e \<in> set xs\<close> m lp rp ids show ?thesis
    by (auto simp: edge_fact_def split: if_splits)
qed

lemma pair_edges_complete:
  assumes "pair_edges tasks (li, ri) = Inr es" "map_of tasks li = Some l" "map_of tasks ri = Some r"
    and "shared_scope l \<inter> shared_scope r \<noteq> {}"
  shows "\<exists>e \<in> set es. he_left e = li \<and> he_right e = ri"
proof -
  from pair_edges_Inr [OF assms(1)] assms(2,3) obtain ess
    where ess: "mapE (\<lambda>lp. mapE (shared_edge li ri l r lp) (pt_shared r)) (pt_shared l) = Inr ess"
      and es: "es = concat (concat ess)" by (metis option.inject)
  from assms(4) obtain lp rp where lp: "lp \<in> set (pt_shared l)" and rp: "rp \<in> set (pt_shared r)"
    and ov: "parsed_scope [lp] \<inter> parsed_scope [rp] \<noteq> {}"
    by (fastforce simp: shared_scope_def parsed_scope_def)
  from mapE_set' [OF ess lp] obtain ys where ys: "ys \<in> set ess"
    "mapE (shared_edge li ri l r lp) (pt_shared r) = Inr ys" by blast
  from mapE_set' [OF ys(2) rp] obtain xs where xs: "xs \<in> set ys" "shared_edge li ri l r lp rp = Inr xs"
    by blast
  from shared_edge_Inr [OF xs(2)] claim_overlap_scopes ov have "xs = [\<lparr>he_left = li, he_right = ri,
    he_left_path = lp, he_right_path = rp, he_owner = owner_text (pt_owner l)\<rparr>]" by (metis (full_types))
  moreover have "set xs \<subseteq> set es" using xs(1) ys(1) by (auto simp: es)
  ultimately show ?thesis by (metis hot_edge.select_convs(1,2) list.set_intros(1) subsetD)
qed


section \<open>Hotspot components\<close>

definition link_rel :: "hot_edge list \<Rightarrow> (string \<times> string) set" where
  "link_rel es = (let r = (\<lambda>e. (he_left e, he_right e)) ` set es in r \<union> r\<inverse>)"

lemma edge_rel_links: "edge_rel (adjacency (map (\<lambda>e. (he_left e, he_right e)) es)) = link_rel es"
  by (simp add: edge_rel_adjacency link_rel_def Let_def)

lemma link_relI:
  "e \<in> set es \<Longrightarrow> (he_left e, he_right e) \<in> link_rel es"
  "e \<in> set es \<Longrightarrow> (he_right e, he_left e) \<in> link_rel es"
  by (simp_all add: link_rel_def Let_def)

lemma sym_link_rel: "sym (link_rel es)"
  by (auto simp: link_rel_def sym_def Let_def)

text \<open>A component has one owner when the owner of an edge is a function of its end points.\<close>

lemma owner_constant:
  assumes "\<And>e. e \<in> set es \<Longrightarrow> f (he_left e) = f (he_right e)" and "(s, x) \<in> (link_rel es)\<^sup>*"
  shows "f x = f s"
  using assms(2)
proof (induction rule: rtrancl_induct)
  case (step y z)
  then show ?case using assms(1) by (auto simp: link_rel_def Let_def)
qed simp

lemma remdups_constant:
  assumes "xs \<noteq> []" and "\<And>x. x \<in> set xs \<Longrightarrow> x = c"
  shows "remdups xs = [c]"
proof -
  have "xs = replicate (length xs) c" using assms(2) by (simp add: replicate_length_same)
  moreover have "remdups (replicate (Suc n) c) = [c]" for n by (induction n) auto
  ultimately show ?thesis using assms(1) by (metis Suc_pred length_greater_0_conv)
qed

lemma hotspot_of_total:
  assumes f: "\<And>e. e \<in> set es \<Longrightarrow> he_owner e = f (he_left e) \<and> f (he_left e) = f (he_right e)"
    and ms: "set ms = (link_rel es)\<^sup>* `` {s}"
    and s: "s \<in> he_left ` set es \<union> he_right ` set es"
  shows "\<exists>h. hotspot_of es ms = Inr h \<and> hs_owner h = f s \<and> hs_tasks h = sort ms"
proof -
  let ?ce = "filter (\<lambda>e. he_left e \<in> set ms \<and> he_right e \<in> set ms) es"
  from s obtain e where e: "e \<in> set es" "he_left e = s \<or> he_right e = s" by auto
  then have "he_left e \<in> set ms \<and> he_right e \<in> set ms"
    unfolding ms using link_relI [of e es] by auto
  with e(1) have ne: "map he_owner ?ce \<noteq> []" by (auto simp: filter_empty_conv)
  have "w = f s" if w: "w \<in> set (map he_owner ?ce)" for w
  proof -
    from w obtain e' where e': "e' \<in> set es" "he_left e' \<in> set ms" "w = he_owner e'" by auto
    have "f (he_left e') = f s"
      by (rule owner_constant [of es]) (use f e' ms in auto)
    with f [OF e'(1)] e'(3) show ?thesis by simp
  qed
  from remdups_constant [OF ne this] show ?thesis by (simp add: hotspot_of_def Let_def)
qed

lemma mapE_total: "(\<And>x. x \<in> set xs \<Longrightarrow> \<exists>y. f x = Inr y) \<Longrightarrow> \<exists>ys. mapE f xs = Inr ys"
proof (induction xs)
  case (Cons x xs)
  then obtain y ys where "f x = Inr y" "mapE f xs = Inr ys" by (metis list.set_intros)
  then show ?case by simp
qed simp

definition hot_nodes :: "hot_edge list \<Rightarrow> string set" where
  "hot_nodes es = he_left ` set es \<union> he_right ` set es"

definition found_components :: "hot_edge list \<Rightarrow> string list list" where
  "found_components es =
     (let adj = adjacency (map (\<lambda>e. (he_left e, he_right e)) es)
      in components adj (sort (map fst adj)) [])"

lemma found_components_facts:
  shows "ms \<in> set (found_components es) \<Longrightarrow> \<exists>s \<in> hot_nodes es. set ms = (link_rel es)\<^sup>* `` {s}"
    and "x \<in> hot_nodes es \<Longrightarrow> \<exists>ms \<in> set (found_components es). x \<in> set ms"
    and "sorted_wrt (\<lambda>a b. set a \<inter> set b = {}) (found_components es)"
proof -
  let ?adj = "adjacency (map (\<lambda>e. (he_left e, he_right e)) es)"
  have n: "fst ` set ?adj = hot_nodes es"
    using nodes_adjacency [of "map (\<lambda>e. (he_left e, he_right e)) es"]
    by (simp add: nodes_def hot_nodes_def image_image)
  show "\<exists>s \<in> hot_nodes es. set ms = (link_rel es)\<^sup>* `` {s}" if "ms \<in> set (found_components es)"
  proof -
    from that have "ms \<in> set (components ?adj (sort (map fst ?adj)) [])"
      by (simp add: found_components_def Let_def)
    from components_reachable [OF this] show ?thesis unfolding edge_rel_links by (simp add: n)
  qed
  show "\<exists>ms \<in> set (found_components es). x \<in> set ms" if "x \<in> hot_nodes es"
    using components_cover [of x "sort (map fst ?adj)" "[]" ?adj] that
    by (simp add: found_components_def Let_def n)
  show "sorted_wrt (\<lambda>a b. set a \<inter> set b = {}) (found_components es)"
    using components_disjoint [of ?adj "[]"] sym_link_rel
    by (simp add: found_components_def Let_def edge_rel_links)
qed

lemma sorted_wrt_disjoint:
  "sorted_wrt (\<lambda>a b. set a \<inter> set b = {}) xss \<Longrightarrow> a \<in> set xss \<Longrightarrow> b \<in> set xss \<Longrightarrow>
     x \<in> set a \<Longrightarrow> x \<in> set b \<Longrightarrow> a = b"
  by (induction xss) auto

lemma hotspot_components_total:
  assumes f: "\<And>e. e \<in> set es \<Longrightarrow> he_owner e = f (he_left e) \<and> f (he_left e) = f (he_right e)"
  shows "\<exists>hs. hotspot_components es = Inr hs \<and>
    (\<forall>h \<in> set hs. \<exists>s \<in> hot_nodes es. set (hs_tasks h) = (link_rel es)\<^sup>* `` {s} \<and> hs_owner h = f s) \<and>
    (\<forall>x \<in> hot_nodes es. \<exists>!h. h \<in> set hs \<and> x \<in> set (hs_tasks h))"
proof -
  let ?found = "found_components es"
  have one: "\<exists>h. hotspot_of es ms = Inr h \<and> (\<exists>s \<in> hot_nodes es.
      set (hs_tasks h) = (link_rel es)\<^sup>* `` {s} \<and> hs_owner h = f s) \<and> set (hs_tasks h) = set ms"
    if "ms \<in> set ?found" for ms
  proof -
    from found_components_facts(1) [OF that] obtain s
      where s: "s \<in> hot_nodes es" "set ms = (link_rel es)\<^sup>* `` {s}" ..
    from hotspot_of_total [OF f s(2) s(1) [unfolded hot_nodes_def]] s show ?thesis by auto
  qed
  then have "\<exists>ys. mapE (hotspot_of es) ?found = Inr ys" by (intro mapE_total) blast
  then obtain hs where hs: "mapE (hotspot_of es) ?found = Inr hs" ..
  have fact: "\<exists>ms \<in> set ?found. hotspot_of es ms = Inr h \<and> set (hs_tasks h) = set ms \<and>
      (\<exists>s \<in> hot_nodes es. set (hs_tasks h) = (link_rel es)\<^sup>* `` {s} \<and> hs_owner h = f s)"
    if h: "h \<in> set hs" for h
  proof -
    from mapE_set [OF hs h] obtain ms where ms: "ms \<in> set ?found" "hotspot_of es ms = Inr h" by blast
    with one [OF ms(1)] show ?thesis by auto
  qed
  have ex1: "\<exists>!h. h \<in> set hs \<and> x \<in> set (hs_tasks h)" if x: "x \<in> hot_nodes es" for x
  proof (rule ex_ex1I)
    from found_components_facts(2) [OF x] obtain ms where ms: "ms \<in> set ?found" "x \<in> set ms" ..
    from mapE_set' [OF hs ms(1)] one [OF ms(1)] ms(2) show "\<exists>h. h \<in> set hs \<and> x \<in> set (hs_tasks h)" by auto
  next
    fix h h' assume *: "h \<in> set hs \<and> x \<in> set (hs_tasks h)" "h' \<in> set hs \<and> x \<in> set (hs_tasks h')"
    then obtain ms ms' where "ms \<in> set ?found" "hotspot_of es ms = Inr h" "x \<in> set ms"
      "ms' \<in> set ?found" "hotspot_of es ms' = Inr h'" "x \<in> set ms'" using fact by blast
    with sorted_wrt_disjoint [OF found_components_facts(3)] show "h = h'" by (metis sum.inject(2))
  qed
  have "hotspot_components es = Inr (sort_key canonical_hotspot hs)"
    using hs by (simp add: hotspot_components_def found_components_def Let_def)
  with fact ex1 show ?thesis by (intro exI [of _ "sort_key canonical_hotspot hs"]) auto
qed


section \<open>An accepted topology\<close>

definition task_owner :: "task_dict \<Rightarrow> string \<Rightarrow> string" where
  "task_owner tasks k = owner_text (case map_of tasks k of None \<Rightarrow> None | Some t \<Rightarrow> pt_owner t)"

lemma edge_fact_owner:
  "edge_fact tasks e \<Longrightarrow> he_owner e = task_owner tasks (he_left e) \<and>
     task_owner tasks (he_left e) = task_owner tasks (he_right e)"
  by (auto simp: edge_fact_def task_owner_def)

lemma topology_Inr:
  assumes "validate_scope_topology tasks = Inr hs"
  obtains ess where "\<forall>t \<in> snd ` set tasks. check_task_scope tasks t = Inr ()"
    and "mapE (pair_edges tasks) (pairs (sort (map fst tasks))) = Inr ess"
    and "hotspot_components (concat ess) = Inr hs"
    and "\<forall>e \<in> set (concat ess). edge_fact tasks e"
proof -
  from assms obtain ess where *: "\<forall>t \<in> snd ` set tasks. check_task_scope tasks t = Inr ()"
    "mapE (pair_edges tasks) (pairs (sort (map fst tasks))) = Inr ess"
    "hotspot_components (concat ess) = Inr hs"
    by (auto simp: validate_scope_topology_def bindE_eq_Inr forE_eq_Inr)
  have "edge_fact tasks e" if "e \<in> set (concat ess)" for e
  proof -
    from that obtain es where "es \<in> set ess" "e \<in> set es" by auto
    with mapE_set [OF *(2)] pair_edges_sound show ?thesis by blast
  qed
  with that [OF *] show ?thesis by blast
qed

lemma topology_pair:
  assumes "mapE (pair_edges tasks) (pairs (sort (map fst tasks))) = Inr ess"
    and "map_of tasks k = Some l" "map_of tasks k' = Some r" "k \<noteq> k'"
  shows "exclusive l r \<and> (shared_scope l \<inter> shared_scope r \<noteq> {} \<longrightarrow>
    (k, k') \<in> link_rel (concat ess) \<and> k \<in> hot_nodes (concat ess))"
proof -
  have *: "exclusive l r \<and> (shared_scope l \<inter> shared_scope r \<noteq> {} \<longrightarrow>
      (\<exists>e \<in> set (concat ess). he_left e = k \<and> he_right e = k'))"
    if p: "(k, k') \<in> set (pairs (sort (map fst tasks)))"
      and m: "map_of tasks k = Some l" "map_of tasks k' = Some r" for k k' l r
  proof -
    from mapE_set' [OF assms(1) p] obtain es where es: "es \<in> set ess" "pair_edges tasks (k, k') = Inr es"
      by blast
    from pair_edges_Inr [OF es(2)] m have "exclusive l r" by (metis option.inject)
    moreover have "\<exists>e \<in> set (concat ess). he_left e = k \<and> he_right e = k'"
      if "shared_scope l \<inter> shared_scope r \<noteq> {}"
      using pair_edges_complete [OF es(2) m that] es(1) by auto
    ultimately show ?thesis by blast
  qed
  have links: "(k, k') \<in> link_rel (concat ess) \<and> k \<in> hot_nodes (concat ess)"
    if "e \<in> set (concat ess)" "(he_left e = k \<and> he_right e = k') \<or> (he_left e = k' \<and> he_right e = k)" for e
    using that link_relI [OF that(1)] by (auto simp: hot_nodes_def simp del: set_concat)
  have "k \<in> set (sort (map fst tasks))" "k' \<in> set (sort (map fst tasks))"
    using assms(2,3) by (auto dest: map_of_SomeD intro: rev_image_eqI)
  from pairs_cover [OF this assms(4)] show ?thesis
  proof
    assume "(k, k') \<in> set (pairs (sort (map fst tasks)))"
    from * [OF this assms(2,3)] links show ?thesis by blast
  next
    assume "(k', k) \<in> set (pairs (sort (map fst tasks)))"
    from * [OF this assms(3,2)] links exclusive_sym show ?thesis by (metis Int_commute)
  qed
qed

lemma component_nodes: "s \<in> hot_nodes es \<Longrightarrow> (link_rel es)\<^sup>* `` {s} \<subseteq> hot_nodes es"
proof -
  assume "s \<in> hot_nodes es"
  moreover have "link_rel es `` hot_nodes es \<subseteq> hot_nodes es"
    by (auto simp: link_rel_def hot_nodes_def Let_def)
  ultimately show ?thesis using Image_closed_trancl by blast
qed

lemma hot_node_task:
  assumes "\<And>e. e \<in> set es \<Longrightarrow> edge_fact tasks e" and "s \<in> hot_nodes es"
  shows "\<exists>t. map_of tasks s = Some t \<and> pt_shared t \<noteq> []"
  using assms by (force simp: hot_nodes_def edge_fact_def)

lemma hotspot_components_Inr:
  assumes hc: "hotspot_components es = Inr hs" and ef: "\<And>e. e \<in> set es \<Longrightarrow> edge_fact tasks e"
  shows "h \<in> set hs \<Longrightarrow> \<exists>s \<in> hot_nodes es. set (hs_tasks h) = (link_rel es)\<^sup>* `` {s} \<and> hs_owner h = task_owner tasks s"
    and "x \<in> hot_nodes es \<Longrightarrow> \<exists>!h. h \<in> set hs \<and> x \<in> set (hs_tasks h)"
proof -
  from hotspot_components_total [OF edge_fact_owner [OF ef]] obtain hs'
    where "hotspot_components es = Inr hs'"
      and a: "\<forall>h \<in> set hs'. \<exists>s \<in> hot_nodes es. set (hs_tasks h) = (link_rel es)\<^sup>* `` {s} \<and> hs_owner h = task_owner tasks s"
      and b: "\<forall>x \<in> hot_nodes es. \<exists>!h. h \<in> set hs' \<and> x \<in> set (hs_tasks h)" by blast
  with hc have "hs' = hs" by simp
  show "\<exists>s \<in> hot_nodes es. set (hs_tasks h) = (link_rel es)\<^sup>* `` {s} \<and> hs_owner h = task_owner tasks s"
    if "h \<in> set hs" by (rule a [rule_format]) (simp add: \<open>hs' = hs\<close> that)
  show "\<exists>!h. h \<in> set hs \<and> x \<in> set (hs_tasks h)" if "x \<in> hot_nodes es"
    using b that unfolding \<open>hs' = hs\<close> by (rule bspec)
qed

text \<open>The hotspots of an accepted topology.\<close>

lemma topology_hotspots:
  assumes "validate_scope_topology tasks = Inr hs" and "h \<in> set hs"
  shows "hs_owner h \<in> fst ` set tasks \<and> set (hs_tasks h) \<noteq> {} \<and>
    (\<forall>k \<in> set (hs_tasks h). \<exists>t. map_of tasks k = Some t \<and> pt_owner t = Some (hs_owner h))"
proof -
  obtain ess where *: "\<forall>t \<in> snd ` set tasks. check_task_scope tasks t = Inr ()"
      "mapE (pair_edges tasks) (pairs (sort (map fst tasks))) = Inr ess"
      and hc: "hotspot_components (concat ess) = Inr hs" and ef': "\<forall>e \<in> set (concat ess). edge_fact tasks e"
    using topology_Inr [OF assms(1)] .
  note ef = bspec [OF ef']
  have sc: "check_task_scope tasks t = Inr ()" if "(k, t) \<in> set tasks" for k t
    using *(1) that by force
  from hotspot_components_Inr(1) [OF hc ef assms(2)]
  obtain s where s: "s \<in> hot_nodes (concat ess)" "set (hs_tasks h) = (link_rel (concat ess))\<^sup>* `` {s}"
    "hs_owner h = task_owner tasks s" by blast
  have each: "\<exists>t. map_of tasks k = Some t \<and> pt_owner t = Some (hs_owner h)" if "k \<in> set (hs_tasks h)" for k
  proof -
    from that s component_nodes have kn: "k \<in> hot_nodes (concat ess)" by blast
    from hot_node_task [OF ef kn] obtain t where t: "map_of tasks k = Some t" "pt_shared t \<noteq> []" by blast
    from check_task_scope_Inr(2) [OF sc [OF map_of_SomeD [OF t(1)]] t(2)] obtain w where w: "pt_owner t = Some w" ..
    have "task_owner tasks k = task_owner tasks s"
      by (rule owner_constant [of "concat ess"]) (use edge_fact_owner [OF ef] that s(2) in auto)
    with t(1) w s(3) show ?thesis by (simp add: task_owner_def owner_text_def)
  qed
  have ss: "s \<in> set (hs_tasks h)" using s(2) by simp
  from each [OF ss] obtain t where t: "map_of tasks s = Some t" "pt_owner t = Some (hs_owner h)" by blast
  have "set (hs_tasks h) \<noteq> {}" using ss by auto
  with check_task_scope_Inr(3) [OF sc [OF map_of_SomeD [OF t(1)]] t(2)] ballI [OF each]
  show ?thesis by simp
qed



section \<open>Execution edges\<close>

lemma canonical_edge_inj: "canonical_edge e = canonical_edge e' \<longleftrightarrow> e = e'"
proof
  assume *: "canonical_edge e = canonical_edge e'"
  then have "json_string (e_from e) @ CHR '','' # json_field ''kind'' (json_string (edge_kind_text (e_kind e))) @
      CHR '','' # json_field ''to'' (json_string (e_to e)) @ ''}'' =
    json_string (e_from e') @ CHR '','' # json_field ''kind'' (json_string (edge_kind_text (e_kind e'))) @
      CHR '','' # json_field ''to'' (json_string (e_to e')) @ ''}''"
    by (simp add: canonical_edge_def json_object_def json_field_def)
  from json_string_read [OF this] have f: "e_from e = e_from e'"
    and r: "json_string (edge_kind_text (e_kind e)) @ CHR '','' # json_field ''to'' (json_string (e_to e)) @ ''}'' =
      json_string (edge_kind_text (e_kind e')) @ CHR '','' # json_field ''to'' (json_string (e_to e')) @ ''}''"
    by (simp_all add: json_field_def)
  from json_string_read [OF r] have k: "edge_kind_text (e_kind e) = edge_kind_text (e_kind e')"
    and t: "json_string (e_to e) @ ''}'' = json_string (e_to e') @ ''}''"
    by (simp_all add: json_field_def)
  from k have "e_kind e = e_kind e'" by (auto simp: edge_kind_text_def split: edge_kind.splits)
  with f json_string_read [OF t] show "e = e'" by simp
qed simp

lemma dict_values:
  assumes inj: "\<And>x y. key x = key y \<longleftrightarrow> x = y" and d: "\<forall>(k, v) \<in> set d. k = key v"
  shows "snd ` set (foldl (\<lambda>d e. AList.update (key e) e d) d xs) = snd ` set d \<union> set xs"
  using d
proof (induction xs arbitrary: d)
  case (Cons x xs)
  from Cons.prems have "snd ` set (AList.update (key x) x d) = insert x (snd ` set d) \<and>
      (\<forall>(k, v) \<in> set (AList.update (key x) x d). k = key v)"
    by (induction d) (auto simp: inj)
  with Cons.IH [of "AList.update (key x) x d"] show ?case by simp
qed simp

lemma set_plan_edges: "set (plan_edges tasks hs) = set (raw_edges tasks hs)"
  using dict_values [of canonical_edge "[]" "raw_edges tasks hs", OF canonical_edge_inj]
  by (simp add: plan_edges_def)

definition execution_rel :: "plan_edge list \<Rightarrow> (string \<times> string) set" where
  "execution_rel es = (\<lambda>e. (e_from e, e_to e)) ` set es"

lemma plan_edges_rel:
  "execution_rel (plan_edges tasks hs) = (dependency_rel tasks)\<inverse> \<union>
     {(k, hs_owner h) | k h. h \<in> set hs \<and> k \<in> set (hs_tasks h) \<and> k \<noteq> hs_owner h}"
  (is "?L = ?R")
proof (rule set_eqI)
  fix p :: "string \<times> string"
  obtain a b where p: "p = (a, b)" by (cases p)
  have "(a, b) \<in> ?L \<longleftrightarrow> (\<exists>e \<in> set (raw_edges tasks hs). e_from e = a \<and> e_to e = b)"
    by (auto simp: execution_rel_def set_plan_edges)
  also have "\<dots> \<longleftrightarrow> (a, b) \<in> ?R"
    unfolding raw_edges_def set_append bex_Un by (auto simp: dependency_rel_def) force
  finally show "p \<in> ?L \<longleftrightarrow> p \<in> ?R" by (simp add: p)
qed

lemma execution_endpoints:
  assumes "wf_tasks tasks" "validate_dependencies tasks = Inr ()" "validate_scope_topology tasks = Inr hs"
  shows "execution_rel (plan_edges tasks hs) \<subseteq> fst ` set tasks \<times> fst ` set tasks"
proof -
  have "dependency_rel tasks \<subseteq> fst ` set tasks \<times> fst ` set tasks"
    using assms(2) unfolding validate_dependencies_wf [OF assms(1)] by (force simp: dependency_rel_def)
  moreover have "(k, hs_owner h) \<in> fst ` set tasks \<times> fst ` set tasks"
    if h: "h \<in> set hs" and k: "k \<in> set (hs_tasks h)" for k h
  proof -
    from topology_hotspots [OF assms(3) h] k obtain t where "map_of tasks k = Some t"
      and w: "hs_owner h \<in> fst ` set tasks" by auto
    then have "k \<in> fst ` set tasks" by (auto dest: map_of_SomeD intro: rev_image_eqI)
    with w show ?thesis by simp
  qed
  ultimately show ?thesis unfolding plan_edges_rel by auto
qed

lemma validate_execution_edges_wf:
  assumes "distinct (map fst tasks)" "execution_rel es \<subseteq> fst ` set tasks \<times> fst ` set tasks"
  shows "validate_execution_edges tasks es = (if acyclic (execution_rel es) then Inr ()
           else Inl (Coded ''PLANNER_EXECUTION_CYCLE''))"
proof -
  let ?ps = "map (\<lambda>e. (e_from e, e_to e)) es"
  have s: "set ?ps = execution_rel es" by (simp add: execution_rel_def)
  from eliminated_decides [of "map fst tasks" ?ps] assms
  obtain n where "eliminated (map fst tasks) ?ps = Inr n"
    "n = length tasks \<longleftrightarrow> acyclic (execution_rel es)" unfolding s by auto
  then show ?thesis by (simp add: validate_execution_edges_def)
qed

section \<open>The ready frontier\<close>

lemma acyclic_source:
  assumes "finite V" "V \<noteq> {}" "acyclic r" "r \<subseteq> V \<times> V"
  shows "\<exists>x \<in> V. \<forall>y. (y, x) \<notin> r"
proof -
  from assms(1,4) have "finite r" by (meson finite_SigmaI finite_subset)
  with assms(3) have "wf r" by (simp add: finite_acyclic_wf)
  with assms(2) obtain x where "x \<in> V" "\<forall>y. (y, x) \<in> r \<longrightarrow> y \<notin> V" by (meson all_not_in_conv wf_eq_minimal)
  with assms(4) show ?thesis by blast
qed

lemma set_ready_frontier:
  "set (ready_frontier tasks es) = {k \<in> fst ` set tasks. \<forall>y. (y, k) \<notin> execution_rel es}"
  by (auto simp: ready_frontier_def execution_rel_def)

lemma ready_frontier_sorted:
  "distinct (map fst tasks) \<Longrightarrow> distinct (ready_frontier tasks es) \<and> sorted (ready_frontier tasks es)"
  by (simp add: ready_frontier_def)

section \<open>Recommended concurrency\<close>

definition task_of :: "task_dict \<Rightarrow> string \<Rightarrow> planner_task" where
  "task_of tasks k = the (map_of tasks k)"

definition shares :: "task_dict \<Rightarrow> string \<Rightarrow> string \<Rightarrow> bool" where
  "shares tasks k k' = (shared_scope (task_of tasks k) \<inter> shared_scope (task_of tasks k') \<noteq> {})"

definition parses :: "planner_task \<Rightarrow> bool" where
  "parses t = (\<forall>p \<in> set (pt_shared t). \<exists>c. path_claim p = Inr c)"

lemma check_task_scope_parses:
  assumes "check_task_scope tasks t = Inr u"
  shows "parses t"
proof -
  from assms obtain cs where "mapE path_claim (pt_shared t) = Inr cs"
    by (auto simp: check_task_scope_def bindE_eq_Inr)
  from mapE_set' [OF this] show ?thesis unfolding parses_def by blast
qed

lemma parsed_scope_iff_single: "x \<in> parsed_scope ps \<longleftrightarrow> (\<exists>p \<in> set ps. x \<in> parsed_scope [p])"
  by (auto simp: parsed_scope_def)

lemma shared_overlap_parses:
  assumes "parses l" "parses r"
  shows "shared_overlap l r = Inr (shared_scope l \<inter> shared_scope r \<noteq> {})"
proof -
  have c: "claim_overlap p q = Inr (parsed_scope [p] \<inter> parsed_scope [q] \<noteq> {})"
    if "p \<in> set (pt_shared l)" "q \<in> set (pt_shared r)" for p q
  proof -
    from assms that obtain b where "claim_overlap p q = Inr b"
      unfolding parses_def claim_overlap_def by (metis bindE_Inr)
    with claim_overlap_scopes [OF this] show ?thesis by simp
  qed
  have "anyE (claim_overlap p) (pt_shared r) =
      Inr (\<exists>q \<in> set (pt_shared r). parsed_scope [p] \<inter> parsed_scope [q] \<noteq> {})"
    if "p \<in> set (pt_shared l)" for p by (rule anyE_Inr) (rule c [OF that])
  then have "shared_overlap l r = Inr (\<exists>p \<in> set (pt_shared l). \<exists>q \<in> set (pt_shared r).
      parsed_scope [p] \<inter> parsed_scope [q] \<noteq> {})"
    unfolding shared_overlap_def by (rule anyE_Inr)
  also have "(\<exists>p \<in> set (pt_shared l). \<exists>q \<in> set (pt_shared r). parsed_scope [p] \<inter> parsed_scope [q] \<noteq> {})
      \<longleftrightarrow> shared_scope l \<inter> shared_scope r \<noteq> {}"
    unfolding shared_scope_def disjoint_iff parsed_scope_iff_single [of _ "pt_shared l"]
      parsed_scope_iff_single [of _ "pt_shared r"] by blast
  finally show ?thesis .
qed


lemma select_fold:
  assumes "\<forall>k \<in> set sel \<union> set ks. \<exists>t. map_of tasks k = Some t \<and> parses t"
  shows "\<exists>S. foldE (select_task tasks) (map (task_of tasks) sel) ks = Inr (map (task_of tasks) (sel @ S)) \<and>
    subseq S ks \<and>
    (sorted_wrt (\<lambda>a b. \<not> shares tasks a b) sel \<longrightarrow> sorted_wrt (\<lambda>a b. \<not> shares tasks a b) (sel @ S)) \<and>
    (\<forall>k \<in> set ks. k \<in> set S \<or> (\<exists>s \<in> set (sel @ S). shares tasks k s))"
  using assms
proof (induction ks arbitrary: sel)
  case (Cons k ks)
  from Cons.prems obtain t where t: "map_of tasks k = Some t" "parses t" by auto
  have "anyE (shared_overlap t) (map (task_of tasks) sel) = Inr (\<exists>u \<in> set (map (task_of tasks) sel).
      shared_scope t \<inter> shared_scope u \<noteq> {})"
  proof (rule anyE_Inr)
    fix u assume "u \<in> set (map (task_of tasks) sel)"
    then obtain s where s: "s \<in> set sel" "u = task_of tasks s" by auto
    with Cons.prems obtain t' where "map_of tasks s = Some t'" "parses t'" by auto
    with s have "parses u" by (simp add: task_of_def)
    then show "shared_overlap t u = Inr (shared_scope t \<inter> shared_scope u \<noteq> {})"
      by (rule shared_overlap_parses [OF t(2)])
  qed
  also have "(\<exists>u \<in> set (map (task_of tasks) sel). shared_scope t \<inter> shared_scope u \<noteq> {}) =
      (\<exists>s \<in> set sel. shares tasks k s)"
    using t(1) by (simp add: shares_def task_of_def)
  finally have step: "select_task tasks (map (task_of tasks) sel) k =
      Inr (if \<exists>s \<in> set sel. shares tasks k s then map (task_of tasks) sel else map (task_of tasks) (sel @ [k]))"
    using t(1) task_of_def [of tasks k] by (simp add: select_task_def dict_get_def)
  show ?case
  proof (cases "\<exists>s \<in> set sel. shares tasks k s")
    case True
    from Cons.IH [of sel] Cons.prems obtain S where
      "foldE (select_task tasks) (map (task_of tasks) sel) ks = Inr (map (task_of tasks) (sel @ S))" "subseq S ks"
      "sorted_wrt (\<lambda>a b. \<not> shares tasks a b) sel \<longrightarrow> sorted_wrt (\<lambda>a b. \<not> shares tasks a b) (sel @ S)"
      "\<forall>k \<in> set ks. k \<in> set S \<or> (\<exists>s \<in> set (sel @ S). shares tasks k s)" by auto
    with step True show ?thesis by (intro exI [of _ S]) auto
  next
    case False
    from Cons.IH [of "sel @ [k]"] Cons.prems obtain S where
      "foldE (select_task tasks) (map (task_of tasks) (sel @ [k])) ks = Inr (map (task_of tasks) ((sel @ [k]) @ S))"
      "subseq S ks"
      "sorted_wrt (\<lambda>a b. \<not> shares tasks a b) (sel @ [k]) \<longrightarrow>
         sorted_wrt (\<lambda>a b. \<not> shares tasks a b) ((sel @ [k]) @ S)"
      "\<forall>k' \<in> set ks. k' \<in> set S \<or> (\<exists>s \<in> set ((sel @ [k]) @ S). shares tasks k' s)" by auto
    moreover have "\<not> shares tasks s k" if "s \<in> set sel" for s
      using False that by (auto simp: shares_def)
    ultimately show ?thesis using step False
      by (intro exI [of _ "k # S"]) (auto simp: sorted_wrt_append)
  qed
qed simp

lemma recommended_concurrency_greedy:
  assumes "\<forall>k \<in> set ready. \<exists>t. map_of tasks k = Some t \<and> parses t" and "sorted ready"
  shows "\<exists>S. recommended_concurrency ready tasks = Inr (max 1 (length S)) \<and> subseq S ready \<and>
    (ready \<noteq> [] \<longrightarrow> S \<noteq> []) \<and> sorted_wrt (\<lambda>a b. \<not> shares tasks a b) S \<and>
    (\<forall>k \<in> set ready. k \<in> set S \<or> (\<exists>s \<in> set S. shares tasks k s))"
proof -
  from select_fold [of "[]" ready tasks] assms(1) obtain S
    where S: "foldE (select_task tasks) [] ready = Inr (map (task_of tasks) S)" "subseq S ready"
      "sorted_wrt (\<lambda>a b. \<not> shares tasks a b) S"
      "\<forall>k \<in> set ready. k \<in> set S \<or> (\<exists>s \<in> set S. shares tasks k s)" by auto
  moreover have "sort ready = ready" using assms(2) by (rule sorted_sort_id)
  ultimately show ?thesis by (intro exI [of _ S]) (auto simp: recommended_concurrency_def)
qed

section \<open>The composed planner\<close>

definition request_tasks :: "planner_request \<Rightarrow> task_dict" where
  "request_tasks r = task_dict (pr_tasks r)"

lemma plan_Inr:
  assumes "plan r = Inr p"
  obtains hs where "validate_dependencies (request_tasks r) = Inr ()"
    "validate_scope_topology (request_tasks r) = Inr hs"
    "pl_hotspots p = hs" "pl_edges p = plan_edges (request_tasks r) hs"
    "validate_execution_edges (request_tasks r) (pl_edges p) = Inr ()"
    "pl_ready p = ready_frontier (request_tasks r) (pl_edges p)"
    "recommended_concurrency (pl_ready p) (request_tasks r) = Inr (pl_concurrency p)"
    "pl_nodes p = map (\<lambda>(k, t). (k, plan_node t)) (sort_key fst (request_tasks r))"
  using assms unfolding plan_def Let_def request_tasks_def [symmetric]
  by (elim bindE_InrE) (rule that, auto)

lemma wf_request_tasks: "wf_tasks (request_tasks r)"
  by (simp add: request_tasks_def wf_task_dict)

lemma topology_parses:
  assumes "validate_scope_topology tasks = Inr hs" and "k \<in> fst ` set tasks"
  shows "\<exists>t. map_of tasks k = Some t \<and> parses t"
proof -
  from assms(2) obtain t where t: "map_of tasks k = Some t"
    by (metis map_of_eq_None_iff not_None_eq)
  then have "t \<in> snd ` set tasks" by (force dest: map_of_SomeD)
  with topology_Inr [OF assms(1)] have "check_task_scope tasks t = Inr ()" by blast
  with t check_task_scope_parses show ?thesis by blast
qed

lemma ready_frontier_nonempty:
  assumes "tasks \<noteq> []" "acyclic (execution_rel es)" "execution_rel es \<subseteq> fst ` set tasks \<times> fst ` set tasks"
  shows "ready_frontier tasks es \<noteq> []"
proof -
  have "fst ` set tasks \<noteq> {}" using assms(1) by simp
  from acyclic_source [OF _ this assms(2,3)] obtain x where "x \<in> set (ready_frontier tasks es)"
    unfolding set_ready_frontier by blast
  then show ?thesis by auto
qed

lemma request_tasks_nonempty: "pr_tasks r \<noteq> [] \<Longrightarrow> request_tasks r \<noteq> []"
  using task_dict_keys [of "pr_tasks r"] by (auto simp: request_tasks_def)

lemma topology_concurrency:
  assumes "wf_tasks tasks" "validate_scope_topology tasks = Inr hs"
  shows "\<exists>S. recommended_concurrency (ready_frontier tasks es) tasks = Inr (max 1 (length S)) \<and>
    subseq S (ready_frontier tasks es) \<and> (ready_frontier tasks es \<noteq> [] \<longrightarrow> S \<noteq> []) \<and>
    sorted_wrt (\<lambda>a b. \<not> shares tasks a b) S \<and>
    (\<forall>k \<in> set (ready_frontier tasks es). k \<in> set S \<or> (\<exists>s \<in> set S. shares tasks k s))"
proof (rule recommended_concurrency_greedy)
  show "\<forall>k \<in> set (ready_frontier tasks es). \<exists>t. map_of tasks k = Some t \<and> parses t"
    using topology_parses [OF assms(2)] by (simp add: set_ready_frontier)
  show "sorted (ready_frontier tasks es)" by (simp add: ready_frontier_def)
qed


section \<open>A concrete plan\<close>

definition sample_task :: "string \<Rightarrow> string list \<Rightarrow> string list \<Rightarrow> string list \<Rightarrow> string option \<Rightarrow> planner_task" where
  "sample_task i owned shared deps w =
     \<lparr>pt_id = i, pt_outcome = ''o'', pt_owned = owned, pt_checks = [''t''], pt_shared = shared,
      pt_dependencies = deps, pt_capabilities = [], pt_owner = w, pt_kind = ''task''\<rparr>"

definition sample_sha :: string where
  "sample_sha = replicate 40 (CHR ''a'')"

definition sample_request :: planner_request where
  "sample_request =
     \<lparr>pr_project = ''p'', pr_change = ''c'', pr_work = ''w'', pr_slice = ''s'', pr_revision = 1,
      pr_exact_base = [(''commit_sha'', sample_sha), (''tree_sha'', sample_sha)],
      pr_tasks = [sample_task ''a'' [''a/**''] [''x''] [] (Some ''c''), sample_task ''b'' [''b/**''] [''x''] [] (Some ''c''),
                  sample_task ''c'' [''c''] [] [''a''] None],
      pr_root = ''r'', pr_worktree = ''w'', pr_phase = ''i'', pr_references = [], pr_work_management = None, pr_provenance = None,
      pr_verification_ids = []\<rparr>"

definition sample_plan :: plan where
  "sample_plan =
     \<lparr>pl_project = ''p'', pl_change = ''c'', pl_revision = 1,
      pl_nodes = map (\<lambda>t. (pt_id t, plan_node t)) (pr_tasks sample_request),
      pl_edges = [\<lparr>e_from = ''a'', e_to = ''c'', e_kind = Depends_on\<rparr>,
                  \<lparr>e_from = ''a'', e_to = ''c'', e_kind = Integrates_with\<rparr>,
                  \<lparr>e_from = ''b'', e_to = ''c'', e_kind = Integrates_with\<rparr>],
      pl_ready = [''a'', ''b''],
      pl_hotspots = [\<lparr>hs_paths = [''x''], hs_owner = ''c'', hs_tasks = [''a'', ''b'']\<rparr>],
      pl_concurrency = 1, pl_base_evidence = sample_sha\<rparr>"

lemma sample_plan_result: "plan sample_request = Inr sample_plan"
  by code_simp

lemma sample_task_of:
  "map_of (request_tasks sample_request) ''a'' = Some (sample_task ''a'' [''a/**''] [''x''] [] (Some ''c''))"
  "map_of (request_tasks sample_request) ''b'' = Some (sample_task ''b'' [''b/**''] [''x''] [] (Some ''c''))"
  by (simp_all add: request_tasks_def task_dict_def sample_request_def sample_task_def)


section \<open>Properties\<close>

text \<open>C1: a plan is produced exactly for the requests whose base names two exact Git SHAs, whose
  dependencies resolve without a cycle, whose scopes pass the topology check and whose combined
  dependency and integration edges are acyclic; no other error, in particular no lookup of a
  missing key, is possible after these checks.\<close>

theorem plan_accepts_iff:
  "(\<exists>p. plan r = Inr p) \<longleftrightarrow>
     (\<exists>g. git_identity (pr_exact_base r) = Inr g) \<and>
     dependency_rel (request_tasks r) \<subseteq> UNIV \<times> fst ` set (request_tasks r) \<and>
     acyclic (dependency_rel (request_tasks r)) \<and>
     (\<exists>hs. validate_scope_topology (request_tasks r) = Inr hs \<and>
           acyclic (execution_rel (plan_edges (request_tasks r) hs)))"
proof -
  let ?T = "request_tasks r"
  have wf: "wf_tasks ?T" by (rule wf_request_tasks)
  then have d: "distinct (map fst ?T)" by (simp add: wf_tasks_def)
  have ends: "execution_rel (plan_edges ?T hs) \<subseteq> fst ` set ?T \<times> fst ` set ?T"
    if "validate_dependencies ?T = Inr ()" "validate_scope_topology ?T = Inr hs" for hs
    by (rule execution_endpoints [OF wf that])
  show ?thesis
  proof
    assume "\<exists>p. plan r = Inr p"
    then obtain p where p: "plan r = Inr p" ..
    then obtain g where g: "git_identity (pr_exact_base r) = Inr g"
      unfolding plan_def Let_def by (elim bindE_InrE) auto
    from plan_Inr [OF p] obtain hs where h: "validate_dependencies ?T = Inr ()"
      "validate_scope_topology ?T = Inr hs" "validate_execution_edges ?T (plan_edges ?T hs) = Inr ()" by metis
    with validate_execution_edges_wf [OF d ends] have "acyclic (execution_rel (plan_edges ?T hs))"
      by (metis sum.distinct(1))
    with g h show "(\<exists>g. git_identity (pr_exact_base r) = Inr g) \<and>
        dependency_rel ?T \<subseteq> UNIV \<times> fst ` set ?T \<and> acyclic (dependency_rel ?T) \<and>
        (\<exists>hs. validate_scope_topology ?T = Inr hs \<and> acyclic (execution_rel (plan_edges ?T hs)))"
      using validate_dependencies_wf [OF wf] by blast
  next
    assume "(\<exists>g. git_identity (pr_exact_base r) = Inr g) \<and>
        dependency_rel ?T \<subseteq> UNIV \<times> fst ` set ?T \<and> acyclic (dependency_rel ?T) \<and>
        (\<exists>hs. validate_scope_topology ?T = Inr hs \<and> acyclic (execution_rel (plan_edges ?T hs)))"
    then obtain g hs where *: "git_identity (pr_exact_base r) = Inr g" "validate_dependencies ?T = Inr ()"
      "validate_scope_topology ?T = Inr hs" "acyclic (execution_rel (plan_edges ?T hs))"
      using validate_dependencies_wf [OF wf] by blast
    have "validate_execution_edges ?T (plan_edges ?T hs) = Inr ()"
      using validate_execution_edges_wf [OF d ends [OF *(2,3)]] *(4) by simp
    moreover obtain n where "recommended_concurrency (ready_frontier ?T (plan_edges ?T hs)) ?T = Inr n"
      using topology_concurrency [OF wf *(3)] by blast
    ultimately show "\<exists>p. plan r = Inr p"
      using *(1-3) unfolding plan_def request_tasks_def Let_def by simp
  qed
qed

text \<open>C2: in an accepted plan the exclusive (owned) paths of a task are disjoint from every path,
  owned or shared, of every other task, and from the shared paths of the task itself.\<close>

theorem plan_exclusive_scopes:
  assumes "plan r = Inr p" and "map_of (request_tasks r) k = Some l" "map_of (request_tasks r) k' = Some t"
    and "k \<noteq> k'"
  shows "owned_scope l \<inter> (owned_scope t \<union> shared_scope t) = {} \<and> owned_scope l \<inter> shared_scope l = {}"
proof -
  from plan_Inr [OF assms(1)] obtain hs where hs: "validate_scope_topology (request_tasks r) = Inr hs" by blast
  obtain ess where sc: "\<forall>t \<in> snd ` set (request_tasks r). check_task_scope (request_tasks r) t = Inr ()"
    and pe: "mapE (pair_edges (request_tasks r)) (pairs (sort (map fst (request_tasks r)))) = Inr ess"
    and "hotspot_components (concat ess) = Inr hs" "\<forall>e \<in> set (concat ess). edge_fact (request_tasks r) e"
    using topology_Inr [OF hs] .
  from assms(2) have "l \<in> snd ` set (request_tasks r)" by (force dest: map_of_SomeD)
  with sc have "owned_scope l \<inter> shared_scope l = {}" by (blast dest: check_task_scope_Inr(1))
  with topology_pair [OF pe assms(2-4)] show ?thesis by (simp add: exclusive_def)
qed

theorem plan_exclusive_scopes_witness:
  "owned_scope (sample_task ''a'' [''a/**''] [''x''] [] (Some ''c'')) \<inter>
     (owned_scope (sample_task ''b'' [''b/**''] [''x''] [] (Some ''c'')) \<union>
      shared_scope (sample_task ''b'' [''b/**''] [''x''] [] (Some ''c''))) = {}"
  using plan_exclusive_scopes [OF sample_plan_result sample_task_of] by simp




text \<open>C4: in an accepted plan the execution edges (dependencies and integration edges) are exactly
  the inverted dependencies and one edge per non-owner of a hotspot, they are acyclic, and the ready
  frontier lists, sorted and without repetition, exactly the tasks without an incoming edge; it is
  never empty.\<close>

theorem plan_schedule:
  assumes "plan r = Inr p" and "pr_tasks r \<noteq> []"
  shows "execution_rel (pl_edges p) = (dependency_rel (request_tasks r))\<inverse> \<union>
      {(k, hs_owner h) | k h. h \<in> set (pl_hotspots p) \<and> k \<in> set (hs_tasks h) \<and> k \<noteq> hs_owner h} \<and>
    acyclic (execution_rel (pl_edges p)) \<and>
    set (pl_ready p) = pt_id ` set (pr_tasks r) - Range (execution_rel (pl_edges p)) \<and>
    sorted (pl_ready p) \<and> distinct (pl_ready p) \<and> pl_ready p \<noteq> []"
proof -
  let ?T = "request_tasks r"
  have wf: "wf_tasks ?T" by (rule wf_request_tasks)
  then have d: "distinct (map fst ?T)" by (simp add: wf_tasks_def)
  obtain hs where hs: "validate_dependencies ?T = Inr ()" "validate_scope_topology ?T = Inr hs"
    "pl_hotspots p = hs" "pl_edges p = plan_edges ?T hs"
    "validate_execution_edges ?T (pl_edges p) = Inr ()" "pl_ready p = ready_frontier ?T (pl_edges p)"
    using plan_Inr [OF assms(1)] by metis
  have ends: "execution_rel (pl_edges p) \<subseteq> fst ` set ?T \<times> fst ` set ?T"
    using execution_endpoints [OF wf hs(1,2)] hs(4) by simp
  from validate_execution_edges_wf [OF d ends] hs(5) have ac: "acyclic (execution_rel (pl_edges p))"
    by (metis sum.distinct(1))
  have keys: "fst ` set ?T = pt_id ` set (pr_tasks r)" by (simp add: request_tasks_def task_dict_keys)
  have ready: "set (pl_ready p) = pt_id ` set (pr_tasks r) - Range (execution_rel (pl_edges p))"
    unfolding hs(6) set_ready_frontier keys by blast
  have "pl_ready p \<noteq> []" unfolding hs(6)
    by (rule ready_frontier_nonempty [OF request_tasks_nonempty [OF assms(2)] ac ends])
  with ready ac hs(3,4,6) plan_edges_rel ready_frontier_sorted [OF d] show ?thesis by metis
qed

theorem plan_schedule_witness:
  "acyclic (execution_rel (pl_edges sample_plan)) \<and> pl_ready sample_plan \<noteq> []"
proof -
  have "pr_tasks sample_request \<noteq> []" by (simp add: sample_request_def)
  from plan_schedule [OF sample_plan_result this] show ?thesis by blast
qed

text \<open>The recommended concurrency of an accepted plan is the size of a selection of ready tasks,
  in frontier order, whose shared scopes are pairwise disjoint and which is maximal: every other
  ready task shares a path with a selected one.\<close>

theorem plan_concurrency_selection:
  assumes "plan r = Inr p" and "pr_tasks r \<noteq> []"
  shows "\<exists>S. subseq S (pl_ready p) \<and> pl_concurrency p = length S \<and> 1 \<le> pl_concurrency p \<and>
    pl_concurrency p \<le> length (pl_ready p) \<and>
    sorted_wrt (\<lambda>a b. \<not> shares (request_tasks r) a b) S \<and>
    (\<forall>k \<in> set (pl_ready p). k \<in> set S \<or> (\<exists>s \<in> set S. shares (request_tasks r) k s))"
proof -
  let ?T = "request_tasks r"
  obtain hs where hs: "validate_dependencies ?T = Inr ()" "validate_scope_topology ?T = Inr hs"
    "pl_edges p = plan_edges ?T hs" "validate_execution_edges ?T (pl_edges p) = Inr ()"
    "pl_ready p = ready_frontier ?T (pl_edges p)"
    "recommended_concurrency (pl_ready p) ?T = Inr (pl_concurrency p)"
    using plan_Inr [OF assms(1)] by metis
  obtain S where S: "recommended_concurrency (pl_ready p) ?T = Inr (max 1 (length S))"
    "subseq S (pl_ready p)" "pl_ready p \<noteq> [] \<longrightarrow> S \<noteq> []" "sorted_wrt (\<lambda>a b. \<not> shares ?T a b) S"
    "\<forall>k \<in> set (pl_ready p). k \<in> set S \<or> (\<exists>s \<in> set S. shares ?T k s)"
    using topology_concurrency [OF wf_request_tasks hs(2), of "pl_edges p"]
    unfolding hs(5) [symmetric] by (elim exE conjE) (rule that)
  have wf: "wf_tasks ?T" by (rule wf_request_tasks)
  then have d: "distinct (map fst ?T)" by (simp add: wf_tasks_def)
  have ends: "execution_rel (pl_edges p) \<subseteq> fst ` set ?T \<times> fst ` set ?T"
    using execution_endpoints [OF wf hs(1,2)] hs(3) by simp
  from validate_execution_edges_wf [OF d ends] hs(4) have ac: "acyclic (execution_rel (pl_edges p))"
    by (metis sum.distinct(1))
  have "pl_ready p \<noteq> []" unfolding hs(5)
    by (rule ready_frontier_nonempty [OF request_tasks_nonempty [OF assms(2)] ac ends])
  with S(3) have "1 \<le> length S" by (cases S) auto
  moreover have "pl_concurrency p = max 1 (length S)" using S(1) hs(6) by simp
  moreover have "length S \<le> length (pl_ready p)" using S(2) by (rule list_emb_length)
  ultimately show ?thesis using S(2,4,5) by (intro exI [of _ S]) simp
qed

theorem plan_concurrency_selection_witness:
  "1 \<le> pl_concurrency sample_plan \<and> pl_concurrency sample_plan \<le> length (pl_ready sample_plan)"
proof -
  have "pr_tasks sample_request \<noteq> []" by (simp add: sample_request_def)
  from plan_concurrency_selection [OF sample_plan_result this] show ?thesis by blast
qed

text \<open>C5: the dependency check accepts exactly the task sets whose dependencies name tasks of the set
  and form no cycle; when the endpoints are known and no task depends on itself, the only possible
  error is the cycle error, and it is raised exactly for the cyclic graphs.\<close>

theorem validate_dependencies_decides:
  "(validate_dependencies (task_dict ts) = Inr () \<longleftrightarrow>
      dependency_rel (task_dict ts) \<subseteq> UNIV \<times> pt_id ` set ts \<and> acyclic (dependency_rel (task_dict ts))) \<and>
   (validate_dependencies (task_dict ts) = Inl (Coded ''PLANNER_DEPENDENCY_CYCLE'') \<longleftrightarrow>
      dependency_rel (task_dict ts) \<subseteq> UNIV \<times> pt_id ` set ts \<and> irrefl (dependency_rel (task_dict ts)) \<and>
      \<not> acyclic (dependency_rel (task_dict ts)))"
proof -
  let ?T = "task_dict ts" and ?cyc = "Coded ''PLANNER_DEPENDENCY_CYCLE''"
  have wf: "wf_tasks ?T" by (rule wf_task_dict)
  have keys: "fst ` set ?T = pt_id ` set ts" by (rule task_dict_keys)
  have chk: "forE (check_dependencies ?T) (map snd ?T) = Inr () \<longleftrightarrow>
      dependency_rel ?T \<subseteq> UNIV \<times> pt_id ` set ts \<and> irrefl (dependency_rel ?T)"
    using check_all_dependencies [OF wf] by (simp add: keys irrefl_def)
  have not_cyc: "forE (check_dependencies ?T) (map snd ?T) \<noteq> Inl ?cyc"
  proof
    assume "forE (check_dependencies ?T) (map snd ?T) = Inl ?cyc"
    then obtain t where "check_dependencies ?T t = Inl ?cyc" by (blast dest: forE_eq_Inl)
    then show False unfolding check_dependencies_def
      by (auto dest!: forE_eq_Inl simp: err_simps)
  qed
  have "validate_dependencies ?T = Inl ?cyc \<longleftrightarrow>
      forE (check_dependencies ?T) (map snd ?T) = Inr () \<and>
      visit_all ?cyc (dependency_graph ?T) [] [] (sort (map fst ?T)) = Inl ?cyc"
    unfolding validate_dependencies_def bindE_eq_Inl using not_cyc by (auto split: sum.splits)
  also have "\<dots> \<longleftrightarrow> dependency_rel ?T \<subseteq> UNIV \<times> pt_id ` set ts \<and> irrefl (dependency_rel ?T) \<and>
      \<not> acyclic (dependency_rel ?T)"
  proof (cases "dependency_rel ?T \<subseteq> UNIV \<times> pt_id ` set ts")
    case True
    have cl: "closed_graph (dependency_graph ?T)"
      using closed_dependency [OF wf] True by (simp add: keys)
    have "visit_all ?cyc (dependency_graph ?T) [] [] (sort (map fst ?T)) = Inl ?cyc \<longleftrightarrow>
        \<not> (\<exists>vd. visit_all ?cyc (dependency_graph ?T) [] [] (sort (map fst ?T)) = Inr vd)"
      using visit_all_error [OF cl, of "sort (map fst ?T)" ?cyc]
      by (cases "visit_all ?cyc (dependency_graph ?T) [] [] (sort (map fst ?T))") (auto simp: nodes_dependency)
    also have "\<dots> \<longleftrightarrow> \<not> acyclic (dependency_rel ?T)"
      using visit_all_decides [OF cl, of "sort (map fst ?T)" ?cyc] edge_rel_dependency [OF wf]
      by (simp add: nodes_dependency)
    finally show ?thesis using chk True by blast
  qed (use chk in blast)
  finally show ?thesis using validate_dependencies_wf [OF wf] unfolding keys by blast
qed

text \<open>Once the pairwise scope checks have passed, collecting the hotspots cannot fail: the
  branch that reports several integration owners in one component is never taken there, because
  the owner of every recorded edge is the owner of both its tasks.\<close>

theorem hotspot_components_never_ambiguous:
  assumes "mapE (pair_edges tasks) (pairs (sort (map fst tasks))) = Inr ess"
  shows "\<exists>hs. hotspot_components (concat ess) = Inr hs"
proof -
  have "edge_fact tasks e" if "e \<in> set (concat ess)" for e
  proof -
    from that obtain es where "es \<in> set ess" "e \<in> set es" by auto
    with mapE_set [OF assms] pair_edges_sound show ?thesis by blast
  qed
  from hotspot_components_total [OF edge_fact_owner [OF this]] show ?thesis by blast
qed

theorem hotspot_components_never_ambiguous_witness:
  "\<exists>hs. hotspot_components [\<lparr>he_left = ''a'', he_right = ''b'', he_left_path = ''x'', he_right_path = ''x'',
     he_owner = ''c''\<rparr>] = Inr hs"
proof -
  have "mapE (pair_edges (request_tasks sample_request)) (pairs (sort (map fst (request_tasks sample_request)))) =
    Inr [[\<lparr>he_left = ''a'', he_right = ''b'', he_left_path = ''x'', he_right_path = ''x'', he_owner = ''c''\<rparr>], [], []]"
    by code_simp
  from hotspot_components_never_ambiguous [OF this] show ?thesis by simp
qed

end
