(* ===== verification/Provenance.thy ===== *)
theory Provenance
  imports Claims Json_Value
begin

text \<open>
  Provenance of work that came from GitHub (\<open>workflows/coordinator/provenance.py\<close>): claims are normalised,
  compared with what the provider says and turned into evidence with a digest; many claims are
  aggregated so that contradicting identities of one pull request are quarantined.  The provider's answer
  to a normalised claim and SHA-256 are parameters; reasons of exceptions are not modelled.
\<close>

section \<open>Canonical text\<close>

text \<open>\<open>json.dumps(value, sort_keys=True, separators=(",", ":"), ensure_ascii=False)\<close>\<close>

primrec plain_render :: "json \<Rightarrow> string" where
  "plain_render JNull = ''null''"
| "plain_render (JBool b) = (if b then ''true'' else ''false'')"
| "plain_render (JInt n) = json_int n"
| "plain_render (JStr s) = json_string s"
| "plain_render (JArr xs) = json_array (map plain_render xs)"
| "plain_render (JObj d) = json_object (map (map_prod id plain_render) d)"

definition plain_json :: "json \<Rightarrow> string" where
  "plain_json v = plain_render (stored v)"

section \<open>Claims\<close>

record provenance =
  gp_repository :: string
  gp_issue :: int
  gp_pull :: int
  gp_head :: string
  gp_merge :: "string option"

definition provenance_keys :: "string list" where
  "provenance_keys = [''provider'', ''repository'', ''issue_number'', ''pull_number'', ''head_sha'', ''merge_sha'']"

definition optional_json :: "string option \<Rightarrow> json" where
  "optional_json v = (case v of None \<Rightarrow> JNull | Some s \<Rightarrow> JStr s)"

definition provenance_fields :: "provenance \<Rightarrow> obj" where
  "provenance_fields p =
     [(''provider'', JStr ''github''), (''repository'', JStr (gp_repository p)), (''issue_number'', JInt (gp_issue p)),
      (''pull_number'', JInt (gp_pull p)), (''head_sha'', JStr (gp_head p)), (''merge_sha'', optional_json (gp_merge p))]"

definition invalid_claim :: "'a result" where
  "invalid_claim = Inl (Coded ''GITHUB_PROVENANCE_INVALID'')"

definition claimed_repository :: "json \<Rightarrow> string result" where
  "claimed_repository v =
     (case v of
        JStr r \<Rightarrow>
          (case map (\<lambda>part. casefold (py_strip part)) (split_on (CHR ''/'') r) of
             [owner, repo] \<Rightarrow> if owner = [] \<or> repo = [] then invalid_claim else Inr (owner @ CHR ''/'' # repo)
           | _ \<Rightarrow> invalid_claim)
      | _ \<Rightarrow> invalid_claim)"

definition claimed_number :: "json \<Rightarrow> int result" where
  "claimed_number v = (case v of JInt n \<Rightarrow> if n < 1 then invalid_claim else Inr n | _ \<Rightarrow> invalid_claim)"

definition claimed_sha :: "json \<Rightarrow> string result" where
  "claimed_sha v =
     (case v of JStr s \<Rightarrow> if is_hex40 (casefold s) then Inr (casefold s) else invalid_claim | _ \<Rightarrow> invalid_claim)"

definition normalize_github_provenance :: "json \<Rightarrow> provenance result" where
  "normalize_github_provenance v =
     (case v of
        JObj d \<Rightarrow>
          bindE (raise_if (\<not> set (map fst d) \<subseteq> set provenance_keys) (Coded ''GITHUB_PROVENANCE_INVALID'')) (\<lambda>_.
          bindE (raise_if (field d ''provider'' \<noteq> JStr ''github'') (Coded ''GITHUB_PROVENANCE_INVALID'')) (\<lambda>_.
          bindE (claimed_repository (field d ''repository'')) (\<lambda>repo.
          bindE (claimed_number (field d ''issue_number'')) (\<lambda>issue.
          bindE (claimed_number (field d ''pull_number'')) (\<lambda>pull.
          bindE (claimed_sha (field d ''head_sha'')) (\<lambda>head.
          bindE (case field d ''merge_sha'' of JNull \<Rightarrow> Inr None | m \<Rightarrow> bindE (claimed_sha m) (\<lambda>s. Inr (Some s))) (\<lambda>merge.
            Inr \<lparr>gp_repository = repo, gp_issue = issue, gp_pull = pull, gp_head = head, gp_merge = merge\<rparr>)))))))
      | _ \<Rightarrow> invalid_claim)"

section \<open>Evidence\<close>

record provenance_evidence =
  ge_claim :: provenance
  ge_digest :: string

definition evidence_object :: "provenance_evidence \<Rightarrow> obj" where
  "evidence_object e =
     [(''schema_version'', JInt 1), (''contract'', JStr ''github-provenance-evidence-v1''), (''status'', JStr ''verified''),
      (''tuple'', JObj (provenance_fields (ge_claim e))), (''claim_sha256'', JStr (ge_digest e))]"

definition is_digest :: "string \<Rightarrow> bool" where
  "is_digest s = (length s = 64 \<and> (\<forall>c \<in> set s. c \<in> set ''0123456789abcdef''))"

definition claim_digest :: "(string \<Rightarrow> string) \<Rightarrow> provenance \<Rightarrow> string" where
  "claim_digest sha p = sha (plain_json (JObj (provenance_fields p)))"

definition invalid_evidence :: exn where
  "invalid_evidence = Coded ''GITHUB_PROVENANCE_EVIDENCE_INVALID''"

text \<open>\<open>value == 1\<close>, which the truth value true passes.\<close>

definition equals_one :: "json \<Rightarrow> bool" where
  "equals_one v = (v \<in> {JInt 1, JBool True})"

definition validate_provenance_evidence :: "(string \<Rightarrow> string) \<Rightarrow> json \<Rightarrow> provenance_evidence option result" where
  "validate_provenance_evidence sha v =
     (case v of
        JNull \<Rightarrow> Inr None
      | JObj d \<Rightarrow>
          bindE (raise_if (\<not> set (map fst d) \<subseteq> {''schema_version'', ''contract'', ''status'', ''tuple'', ''claim_sha256''})
            invalid_evidence) (\<lambda>_.
          bindE (raise_if (\<not> equals_one (field d ''schema_version'') \<or>
                   field d ''contract'' \<noteq> JStr ''github-provenance-evidence-v1'' \<or> field d ''status'' \<noteq> JStr ''verified'')
            invalid_evidence) (\<lambda>_.
          bindE (case field d ''claim_sha256'' of
                   JStr s \<Rightarrow> if is_digest s then Inr s else Inl invalid_evidence | _ \<Rightarrow> Inl invalid_evidence) (\<lambda>digest.
          bindE (raise_if (\<not> is_obj (field d ''tuple'')) invalid_evidence) (\<lambda>_.
          bindE (normalize_github_provenance (field d ''tuple'')) (\<lambda>p.
          bindE (raise_if (digest \<noteq> claim_digest sha p) invalid_evidence) (\<lambda>_.
            Inr (Some \<lparr>ge_claim = p, ge_digest = digest\<rparr>)))))))
      | _ \<Rightarrow> Inl invalid_evidence)"

definition validate_external_provenance :: "(string \<Rightarrow> string) \<Rightarrow> json \<Rightarrow> obj option result" where
  "validate_external_provenance sha v =
     (case v of
        JNull \<Rightarrow> Inr None
      | JObj d \<Rightarrow>
          if field d ''contract'' = JStr ''github-provenance-evidence-v1''
          then bindE (validate_provenance_evidence sha v) (\<lambda>e. Inr (map_option evidence_object e))
          else if field d ''provider'' = JStr ''github'' then Inl invalid_evidence
          else Inr (Some d)
      | _ \<Rightarrow> Inl (Coded ''EXTERNAL_PROVENANCE_INVALID''))"

definition github_provenance_evidence :: "(string \<Rightarrow> string) \<Rightarrow> json \<Rightarrow> provenance_evidence option result" where
  "github_provenance_evidence sha v =
     bindE (validate_external_provenance sha v) (\<lambda>n.
       (case n of
          None \<Rightarrow> Inr None
        | Some d \<Rightarrow>
            if field d ''contract'' \<noteq> JStr ''github-provenance-evidence-v1'' then Inr None
            else validate_provenance_evidence sha (JObj d)))"

section \<open>Delivery\<close>

text \<open>\<open>_CORE_FIELDS\<close>: everything but the merge commit.\<close>

definition core_fields :: "provenance \<Rightarrow> string \<times> int \<times> int \<times> string" where
  "core_fields p = (gp_repository p, gp_issue p, gp_pull p, gp_head p)"

definition delivery_object :: "string \<Rightarrow> provenance \<Rightarrow> obj" where
  "delivery_object digest p =
     [(''schema_version'', JInt 1), (''contract'', JStr ''github-provenance-delivery-v1''), (''status'', JStr ''verified''),
      (''frozen_claim_sha256'', JStr digest), (''tuple'', JObj (provenance_fields p))]"

definition validate_delivery_provenance :: "(string \<Rightarrow> string) \<Rightarrow> json \<Rightarrow> json \<Rightarrow> obj result" where
  "validate_delivery_provenance sha frozen seen =
     bindE (validate_provenance_evidence sha frozen) (\<lambda>evidence.
       (case evidence of
          None \<Rightarrow> Inl invalid_evidence
        | Some e \<Rightarrow>
            bindE (normalize_github_provenance seen) (\<lambda>p.
            bindE (raise_if (core_fields (ge_claim e) \<noteq> core_fields p) (Coded ''GITHUB_PROVENANCE_DELIVERY_MISMATCH'')) (\<lambda>_.
            bindE (raise_if (gp_merge p = None) (Coded ''GITHUB_PROVENANCE_MERGE_SHA_REQUIRED'')) (\<lambda>_.
            bindE (raise_if (gp_merge (ge_claim e) \<notin> {None, gp_merge p}) (Coded ''GITHUB_PROVENANCE_DELIVERY_MISMATCH'')) (\<lambda>_.
              Inr (delivery_object (ge_digest e) p)))))))"

section \<open>Verification against the provider\<close>

definition verify_claim :: "(string \<Rightarrow> string) \<Rightarrow> (obj \<Rightarrow> json result) \<Rightarrow> json \<Rightarrow> provenance_evidence result" where
  "verify_claim sha resolve claim =
     bindE (normalize_github_provenance claim) (\<lambda>p.
     bindE (resolve (provenance_fields p)) (\<lambda>answer.
     bindE (raise_if (\<not> is_obj answer) (Coded ''GITHUB_PROVENANCE_PROVIDER_INVALID'')) (\<lambda>_.
     bindE (normalize_github_provenance answer) (\<lambda>q.
     bindE (raise_if (p \<noteq> q) (Coded ''GITHUB_PROVENANCE_MISMATCH'')) (\<lambda>_.
       Inr \<lparr>ge_claim = q, ge_digest = claim_digest sha p\<rparr>)))))"

record quarantined =
  qt_code :: string
  qt_claim :: obj

record aggregation =
  ag_accepted :: "(string \<times> provenance_evidence) list"
  ag_conflicted :: "string list"
  ag_quarantined :: "quarantined list"

definition best_effort_claim :: "obj \<Rightarrow> obj" where
  "best_effort_claim d =
     (case normalize_github_provenance (JObj d) of Inr p \<Rightarrow> provenance_fields p | Inl _ \<Rightarrow> d)"

definition conflict_record :: "provenance \<Rightarrow> quarantined" where
  "conflict_record p = \<lparr>qt_code = ''GITHUB_PROVENANCE_CONFLICT'', qt_claim = provenance_fields p\<rparr>"

definition pull_identity :: "provenance \<Rightarrow> string" where
  "pull_identity p =
     plain_json (JObj [(''repository'', JStr (gp_repository p)), (''pull_number'', JInt (gp_pull p))])"

text \<open>One claim of the loop; only an admission error is caught.\<close>

definition aggregate_verified :: "aggregation \<Rightarrow> provenance_evidence \<Rightarrow> aggregation" where
  "aggregate_verified a e =
     (let key = pull_identity (ge_claim e) in
      if key \<in> set (ag_conflicted a)
      then a\<lparr>ag_quarantined := ag_quarantined a @ [conflict_record (ge_claim e)]\<rparr>
      else (case map_of (ag_accepted a) key of
              None \<Rightarrow> a\<lparr>ag_accepted := AList.update key e (ag_accepted a)\<rparr>
            | Some old \<Rightarrow>
                if ge_claim old = ge_claim e then a
                else a\<lparr>ag_accepted := AList.delete key (ag_accepted a), ag_conflicted := key # ag_conflicted a,
                       ag_quarantined := ag_quarantined a @ [conflict_record (ge_claim old), conflict_record (ge_claim e)]\<rparr>))"

definition aggregate_claim ::
  "(string \<Rightarrow> string) \<Rightarrow> (obj \<Rightarrow> json result) \<Rightarrow> aggregation \<Rightarrow> obj \<Rightarrow> aggregation result" where
  "aggregate_claim sha resolve a claim =
     (case verify_claim sha resolve (JObj claim) of
        Inr e \<Rightarrow> Inr (aggregate_verified a e)
      | Inl (Coded code) \<Rightarrow>
          Inr (a\<lparr>ag_quarantined := ag_quarantined a @ [\<lparr>qt_code = code, qt_claim = best_effort_claim claim\<rparr>]\<rparr>)
      | Inl e \<Rightarrow> Inl e)"

definition quarantined_object :: "quarantined \<Rightarrow> obj" where
  "quarantined_object q =
     [(''status'', JStr ''quarantined''), (''code'', JStr (qt_code q)), (''claim'', JObj (qt_claim q))]"

text \<open>
  \<open>aggregate\<close>.  The reason is not modelled, so the order among quarantined entries with the same claim and
  code is that of their discovery.
\<close>

definition aggregate ::
  "(string \<Rightarrow> string) \<Rightarrow> (obj \<Rightarrow> json result) \<Rightarrow> obj list \<Rightarrow> (provenance_evidence list \<times> quarantined list) result" where
  "aggregate sha resolve claims =
     bindE (foldE (aggregate_claim sha resolve)
              \<lparr>ag_accepted = [], ag_conflicted = [], ag_quarantined = []\<rparr>
              (sort_key (\<lambda>d. plain_json (JObj d)) claims)) (\<lambda>a.
       Inr (sort_key (\<lambda>e. plain_json (JObj (evidence_object e))) (map snd (ag_accepted a)),
            sort_key (\<lambda>q. plain_json (JObj (quarantined_object q))) (ag_quarantined a)))"

end
