(* ===== verification/Provenance_Facts.thy ===== *)
theory Provenance_Facts
  imports Provenance "HOL-Library.Multiset"
begin

text \<open>
  Facts about provenance claims (\<open>workflows/coordinator/provenance.py\<close>): normalised claims are fixed points of
  normalisation, evidence validates back, and aggregation accepts exactly the uncontradicted evidence.
\<close>

section \<open>The text of a pull request identity\<close>

lemma two_sorted: "sort_key fst [(''repository'', a), (''pull_number'', b)] = [(''pull_number'', b), (''repository'', a :: json)]"
  by code_simp

lemma pull_identity_text:
  "pull_identity p = ''{'' @ json_string ''pull_number'' @ '':'' @ json_int (gp_pull p) @ '','' @
     json_string ''repository'' @ '':'' @ json_string (gp_repository p) @ ''}''"
  by (simp add: pull_identity_def plain_json_def two_sorted json_object_def json_field_def)

lemma comma_delimited: "delimited (CHR '','' # s)"
  by (simp add: delimited_def is_digit_def)

lemma pull_identity_inj: "pull_identity p = pull_identity q \<longleftrightarrow> gp_repository p = gp_repository q \<and> gp_pull p = gp_pull q"
proof
  assume "pull_identity p = pull_identity q"
  then have t: "json_int (gp_pull p) @ CHR '','' # json_string ''repository'' @ CHR '':'' # json_string (gp_repository p) @ ''}'' =
      json_int (gp_pull q) @ CHR '','' # json_string ''repository'' @ CHR '':'' # json_string (gp_repository q) @ ''}''"
    by (simp add: pull_identity_text)
  from json_int_text_read [OF this comma_delimited comma_delimited]
  have "gp_pull p = gp_pull q" "json_string (gp_repository p) @ ''}'' = json_string (gp_repository q) @ ''}''" by simp_all
  then show "gp_repository p = gp_repository q \<and> gp_pull p = gp_pull q" by simp
qed (simp add: pull_identity_text)

section \<open>Normalised claims\<close>

lemma fold_char_space: "is_space (fold_char c) = is_space c"
  by (auto simp: is_space_def fold_char_def Let_def)

lemma fold_char_idem: "fold_char (fold_char c) = fold_char c"
  by (auto simp: fold_char_def Let_def)

lemma casefold_idem [simp]: "casefold (casefold s) = casefold s"
  by (simp add: casefold_def fold_char_idem)

lemma fold_char_slash: "fold_char c = CHR ''/'' \<longleftrightarrow> c = CHR ''/''"
proof
  assume f: "fold_char c = CHR ''/''"
  then have "(of_char (fold_char c) :: nat) = 47" by simp
  then have "(of_char c :: nat) = of_char (CHR ''/'')" by (auto simp: fold_char_def Let_def split: if_splits)
  then show "c = CHR ''/''" by (simp only: of_char_eq_iff)
qed (simp add: fold_char_def)

lemma strip_casefold: "py_strip (casefold s) = casefold (py_strip s)"
proof -
  have "is_space \<circ> fold_char = is_space" by (auto simp: fold_char_space)
  then show ?thesis
    by (simp add: py_strip_def strip_by_def lstrip_by_def rstrip_by_def casefold_def dropWhile_map rev_map)
qed

lemma strip_subset: "set (py_strip s) \<subseteq> set s"
proof -
  have "set (dropWhile P (xs :: string)) \<subseteq> set xs" for P xs by (auto dest: set_dropWhileD)
  then show ?thesis unfolding py_strip_def strip_by_def lstrip_by_def rstrip_by_def
    by (metis (no_types, lifting) set_rev subset_trans)
qed

lemma no_slash: "CHR ''/'' \<notin> set x \<Longrightarrow> CHR ''/'' \<notin> set (casefold (py_strip x))"
proof
  assume x: "CHR ''/'' \<notin> set x" and "CHR ''/'' \<in> set (casefold (py_strip x))"
  then obtain c where "CHR ''/'' = fold_char c" "c \<in> set (py_strip x)" unfolding casefold_def by (auto simp only: set_map image_iff)
  with fold_char_slash [of c] strip_subset [of x] x show False by auto
qed

lemma claimed_repository_again:
  assumes "claimed_repository v = Inr r"
  shows "claimed_repository (JStr r) = Inr r"
proof -
  obtain owner repo where r: "r = owner @ CHR ''/'' # repo" and o: "owner \<noteq> []" "repo \<noteq> []"
    and ex: "\<exists>a b s. v = JStr s \<and> split_on (CHR ''/'') s = [a, b] \<and> owner = casefold (py_strip a) \<and> repo = casefold (py_strip b)"
    using assms
    by (auto simp: claimed_repository_def invalid_claim_def map_eq_Cons_conv split: json.splits list.splits if_splits)
  from ex obtain a b s where s: "split_on (CHR ''/'') s = [a, b]" and ab: "owner = casefold (py_strip a)" "repo = casefold (py_strip b)"
    by blast
  have "CHR ''/'' \<notin> set a" "CHR ''/'' \<notin> set b" using split_on_no_sep [of _ "CHR ''/''" s] s by auto
  then have no: "CHR ''/'' \<notin> set owner" "CHR ''/'' \<notin> set repo"
    unfolding ab by (simp_all add: no_slash)
  have "split_on (CHR ''/'') r = [owner, repo]"
    unfolding r by (simp add: split_on_append no(1) split_on_no_sep_id no(2))
  moreover have "casefold (py_strip owner) = owner" "casefold (py_strip repo) = repo"
    by (simp_all add: ab strip_casefold)
  ultimately show ?thesis using o by (simp add: claimed_repository_def r)
qed

lemma claimed_sha_again: "claimed_sha v = Inr s \<Longrightarrow> claimed_sha (JStr s) = Inr s"
  by (auto simp: claimed_sha_def invalid_claim_def split: json.splits if_splits)

text \<open>The claims that normalisation returns.\<close>

definition normal_claim :: "provenance \<Rightarrow> bool" where
  "normal_claim p =
     (claimed_repository (JStr (gp_repository p)) = Inr (gp_repository p) \<and> 1 \<le> gp_issue p \<and> 1 \<le> gp_pull p \<and>
      claimed_sha (JStr (gp_head p)) = Inr (gp_head p) \<and>
      (\<forall>m. gp_merge p = Some m \<longrightarrow> claimed_sha (JStr m) = Inr m))"

lemma normalized_normal:
  assumes "normalize_github_provenance v = Inr p"
  shows "normal_claim p"
proof -
  from assms obtain d where v: "v = JObj d" by (auto simp: normalize_github_provenance_def invalid_claim_def split: json.splits)
  from assms [unfolded v normalize_github_provenance_def json.case] obtain repo issue pull head merge
    where f: "claimed_repository (field d ''repository'') = Inr repo" "claimed_number (field d ''issue_number'') = Inr issue"
      "claimed_number (field d ''pull_number'') = Inr pull" "claimed_sha (field d ''head_sha'') = Inr head"
    and m: "(case field d ''merge_sha'' of JNull \<Rightarrow> Inr None | m \<Rightarrow> bindE (claimed_sha m) (\<lambda>s. Inr (Some s))) = Inr merge"
    and p: "p = \<lparr>gp_repository = repo, gp_issue = issue, gp_pull = pull, gp_head = head, gp_merge = merge\<rparr>"
    by (elim bindE_InrE) auto
  have n: "1 \<le> issue" "1 \<le> pull"
    using f(2,3) by (auto simp: claimed_number_def invalid_claim_def split: json.splits if_splits)
  have "claimed_sha (JStr x) = Inr x" if "merge = Some x" for x
    using m that by (auto simp: err_simps split: json.splits intro: claimed_sha_again)
  then show ?thesis
    using claimed_repository_again [OF f(1)] claimed_sha_again [OF f(4)] n by (simp add: normal_claim_def p)
qed

lemma normalize_normal:
  assumes "normal_claim p"
  shows "normalize_github_provenance (JObj (provenance_fields p)) = Inr p"
proof -
  have m: "(case optional_json (gp_merge p) of JNull \<Rightarrow> Inr None | m \<Rightarrow> bindE (claimed_sha m) (\<lambda>s. Inr (Some s))) = Inr (gp_merge p)"
    using assms by (cases "gp_merge p") (simp_all add: optional_json_def normal_claim_def)
  have "claimed_number (JInt (gp_issue p)) = Inr (gp_issue p)" "claimed_number (JInt (gp_pull p)) = Inr (gp_pull p)"
    using assms by (simp_all add: claimed_number_def normal_claim_def)
  with assms m show ?thesis
    by (simp add: normalize_github_provenance_def provenance_fields_def provenance_keys_def normal_claim_def)
qed

section \<open>Aggregation\<close>

abbreviation pull_of :: "provenance_evidence \<Rightarrow> string" where
  "pull_of e \<equiv> pull_identity (ge_claim e)"

text \<open>Verified evidence that no other evidence for the same pull request contradicts.\<close>

definition agrees :: "provenance_evidence set \<Rightarrow> provenance_evidence \<Rightarrow> bool" where
  "agrees W e = (e \<in> W \<and> (\<forall>x \<in> W. pull_of x = pull_of e \<longrightarrow> ge_claim x = ge_claim e))"

definition one_evidence :: "provenance_evidence set \<Rightarrow> bool" where
  "one_evidence W = (\<forall>x \<in> W. \<forall>y \<in> W. ge_claim x = ge_claim y \<longrightarrow> x = y)"

definition aggregated :: "provenance_evidence set \<Rightarrow> aggregation \<Rightarrow> bool" where
  "aggregated W a =
     ((\<forall>k e. map_of (ag_accepted a) k = Some e \<longleftrightarrow> agrees W e \<and> pull_of e = k) \<and>
      (\<forall>k. k \<in> set (ag_conflicted a) \<longleftrightarrow> (\<exists>e \<in> W. pull_of e = k \<and> \<not> agrees W e)) \<and>
      distinct (map fst (ag_accepted a)) \<and>
      (\<forall>e \<in> W. \<not> agrees W e \<longrightarrow> conflict_record (ge_claim e) \<in> set (ag_quarantined a)))"

lemma aggregatedD:
  assumes "aggregated W a"
  shows "map_of (ag_accepted a) k = Some e \<longleftrightarrow> agrees W e \<and> pull_of e = k"
    "k \<in> set (ag_conflicted a) \<longleftrightarrow> (\<exists>e \<in> W. pull_of e = k \<and> \<not> agrees W e)"
    "distinct (map fst (ag_accepted a))"
    "e \<in> W \<Longrightarrow> \<not> agrees W e \<Longrightarrow> conflict_record (ge_claim e) \<in> set (ag_quarantined a)"
  using assms unfolding aggregated_def by blast+

lemma aggregatedI:
  assumes "\<And>k e. map_of (ag_accepted a) k = Some e \<longleftrightarrow> agrees W e \<and> pull_of e = k"
    "\<And>k. k \<in> set (ag_conflicted a) \<longleftrightarrow> (\<exists>e \<in> W. pull_of e = k \<and> \<not> agrees W e)"
    "distinct (map fst (ag_accepted a))"
    "\<And>e. e \<in> W \<Longrightarrow> \<not> agrees W e \<Longrightarrow> conflict_record (ge_claim e) \<in> set (ag_quarantined a)"
  shows "aggregated W a"
  using assms unfolding aggregated_def by blast

lemma agrees_other: "pull_of x \<noteq> pull_of e \<Longrightarrow> agrees (insert e W) x \<longleftrightarrow> agrees W x"
  by (auto simp: agrees_def)

lemma agrees_unique: "agrees W x \<Longrightarrow> agrees W y \<Longrightarrow> pull_of x = pull_of y \<Longrightarrow> one_evidence W \<Longrightarrow> x = y"
  by (simp add: agrees_def one_evidence_def)

text \<open>Evidence for a pull request that is already contradicted.\<close>

lemma aggregate_conflicted:
  assumes "aggregated W a" and "pull_of e \<in> set (ag_conflicted a)"
  shows "aggregated (insert e W) (aggregate_verified a e)"
proof -
  from assms obtain x where x: "x \<in> W" "pull_of x = pull_of e" "\<not> agrees W x" using aggregatedD(2) by blast
  then obtain y where y: "y \<in> W" "pull_of y = pull_of x" "ge_claim y \<noteq> ge_claim x" by (auto simp: agrees_def)
  have none: "\<not> agrees (insert e W) z" "\<not> agrees W z" if z: "pull_of z = pull_of e" for z
    using x y z unfolding agrees_def by (metis insertI2)+
  have same: "agrees (insert e W) z \<longleftrightarrow> agrees W z" for z
    using none agrees_other by (cases "pull_of z = pull_of e") blast+
  have a: "aggregate_verified a e = a\<lparr>ag_quarantined := ag_quarantined a @ [conflict_record (ge_claim e)]\<rparr>"
    using assms(2) by (simp add: aggregate_verified_def)
  show ?thesis
    unfolding a
    by (rule aggregatedI)
      (use aggregatedD [OF assms(1)] assms(2) none in \<open>auto simp: same\<close>)
qed

text \<open>The first evidence for a pull request.\<close>

lemma aggregate_fresh:
  assumes "aggregated W a" and "pull_of e \<notin> set (ag_conflicted a)" and "map_of (ag_accepted a) (pull_of e) = None"
  shows "aggregated (insert e W) (aggregate_verified a e)"
proof -
  have none: "pull_of x \<noteq> pull_of e" if "x \<in> W" for x
    using aggregatedD(1,2) [OF assms(1)] assms(2,3) that by (metis option.distinct(1))
  then have e: "agrees (insert e W) e" by (auto simp: agrees_def)
  have a: "aggregate_verified a e = a\<lparr>ag_accepted := AList.update (pull_of e) e (ag_accepted a)\<rparr>"
    using assms(2,3) by (simp add: aggregate_verified_def Let_def)
  have other: "agrees (insert e W) x \<longleftrightarrow> agrees W x" if "x \<noteq> e" for x
    using none that agrees_other [of x e W] by (cases "x \<in> W") (auto simp: agrees_def)
  have not_old: "e \<notin> W" using none by blast
  have inW: "agrees (insert e W) x \<longleftrightarrow> agrees W x" if "x \<in> W" for x using other [of x] not_old that by auto
  show ?thesis
    unfolding a
  proof (rule aggregatedI)
    fix k x
    show "map_of (ag_accepted (a\<lparr>ag_accepted := AList.update (pull_of e) e (ag_accepted a)\<rparr>)) k = Some x \<longleftrightarrow>
        agrees (insert e W) x \<and> pull_of x = k"
      using aggregatedD(1) [OF assms(1)] e other none by (cases "x = e") (auto simp: update_conv' agrees_def)
  next
    fix k
    show "k \<in> set (ag_conflicted (a\<lparr>ag_accepted := AList.update (pull_of e) e (ag_accepted a)\<rparr>)) \<longleftrightarrow>
        (\<exists>x \<in> insert e W. pull_of x = k \<and> \<not> agrees (insert e W) x)"
      using aggregatedD(2) [OF assms(1), of k] e inW by auto
  next
    show "distinct (map fst (ag_accepted (a\<lparr>ag_accepted := AList.update (pull_of e) e (ag_accepted a)\<rparr>)))"
      using aggregatedD(3) [OF assms(1)] by (simp add: distinct_update)
  next
    fix x assume x: "x \<in> insert e W" "\<not> agrees (insert e W) x"
    then have "x \<in> W" using e by blast
    with x(2) inW aggregatedD(4) [OF assms(1)]
    show "conflict_record (ge_claim x) \<in> set (ag_quarantined (a\<lparr>ag_accepted := AList.update (pull_of e) e (ag_accepted a)\<rparr>))"
      by simp
  qed
qed

text \<open>Evidence that contradicts the one accepted so far.\<close>

lemma aggregate_contradiction:
  assumes "aggregated W a" and "pull_of e \<notin> set (ag_conflicted a)" and "map_of (ag_accepted a) (pull_of e) = Some old"
    and "ge_claim old \<noteq> ge_claim e" and "one_evidence (insert e W)"
  shows "aggregated (insert e W) (aggregate_verified a e)"
proof -
  have old: "agrees W old" "pull_of old = pull_of e" using aggregatedD(1) [OF assms(1)] assms(3) by auto
  have group: "x = old" if "x \<in> W" "pull_of x = pull_of e" for x
  proof -
    have "agrees W x" using aggregatedD(2) [OF assms(1)] assms(2) that by blast
    moreover have "one_evidence W" using assms(5) by (simp add: one_evidence_def)
    ultimately show ?thesis using agrees_unique old that by metis
  qed
  have none: "\<not> agrees (insert e W) x" if "pull_of x = pull_of e" for x
    using old assms(4) that unfolding agrees_def by (metis insertCI)
  have a: "aggregate_verified a e = a\<lparr>ag_accepted := AList.delete (pull_of e) (ag_accepted a),
      ag_conflicted := pull_of e # ag_conflicted a,
      ag_quarantined := ag_quarantined a @ [conflict_record (ge_claim old), conflict_record (ge_claim e)]\<rparr>"
    using assms(2-4) by (simp add: aggregate_verified_def Let_def)
  let ?b = "aggregate_verified a e"
  show ?thesis
  proof (rule aggregatedI)
    fix k x
    show "map_of (ag_accepted ?b) k = Some x \<longleftrightarrow> agrees (insert e W) x \<and> pull_of x = k"
      using aggregatedD(1) [OF assms(1), of k x] none agrees_other [of x e W]
      by (cases "k = pull_of e") (auto simp: a delete_conv')
  next
    fix k
    show "k \<in> set (ag_conflicted ?b) \<longleftrightarrow> (\<exists>x \<in> insert e W. pull_of x = k \<and> \<not> agrees (insert e W) x)"
      using aggregatedD(2) [OF assms(1), of k] none agrees_other [of _ e W]
      by (cases "k = pull_of e") (auto simp: a)
  next
    show "distinct (map fst (ag_accepted ?b))"
      using aggregatedD(3) [OF assms(1)] by (simp add: a distinct_delete)
  next
    fix x assume x: "x \<in> insert e W" "\<not> agrees (insert e W) x"
    show "conflict_record (ge_claim x) \<in> set (ag_quarantined ?b)"
    proof (cases "x = e \<or> pull_of x = pull_of e")
      case True
      with x group show ?thesis by (auto simp: a)
    next
      case False
      with x agrees_other [of x e W] aggregatedD(4) [OF assms(1), of x] show ?thesis by (auto simp: a)
    qed
  qed
qed

lemma aggregate_step:
  assumes "aggregated W a" and "one_evidence (insert e W)"
  shows "aggregated (insert e W) (aggregate_verified a e)"
proof (cases "pull_of e \<in> set (ag_conflicted a)")
  case True
  with aggregate_conflicted [OF assms(1)] show ?thesis by blast
next
  case False
  show ?thesis
  proof (cases "map_of (ag_accepted a) (pull_of e)")
    case None
    with aggregate_fresh [OF assms(1) False] show ?thesis by blast
  next
    case (Some old)
    show ?thesis
    proof (cases "ge_claim old = ge_claim e")
      case True
      have "old \<in> W" using aggregatedD(1) [OF assms(1)] Some by (simp add: agrees_def)
      with True assms(2) have "insert e W = W" by (auto simp: one_evidence_def)
      moreover have "aggregate_verified a e = a" using True Some False by (simp add: aggregate_verified_def Let_def)
      ultimately show ?thesis using assms(1) by simp
    next
      case differ: False
      from aggregate_contradiction [OF assms(1) False Some differ assms(2)] show ?thesis .
    qed
  qed
qed

definition verified :: "(string \<Rightarrow> string) \<Rightarrow> (obj \<Rightarrow> json result) \<Rightarrow> obj set \<Rightarrow> provenance_evidence set" where
  "verified sha resolve cs = {e. \<exists>c \<in> cs. verify_claim sha resolve (JObj c) = Inr e}"

lemma verify_digest: "verify_claim sha resolve v = Inr e \<Longrightarrow> ge_digest e = claim_digest sha (ge_claim e)"
  by (auto simp: verify_claim_def err_simps)

lemma verified_one: "one_evidence (verified sha resolve cs)"
  unfolding one_evidence_def verified_def
  by (auto intro!: provenance_evidence.equality dest!: verify_digest)

lemma verified_insert:
  "verified sha resolve (insert c cs) =
     (case verify_claim sha resolve (JObj c) of Inr e \<Rightarrow> insert e (verified sha resolve cs) | Inl _ \<Rightarrow> verified sha resolve cs)"
  by (auto simp: verified_def split: sum.splits)

lemma one_evidence_subset: "one_evidence W \<Longrightarrow> V \<subseteq> W \<Longrightarrow> one_evidence V"
  by (auto simp: one_evidence_def)

lemma agrees_less: "agrees (insert e W) x \<Longrightarrow> x \<in> W \<Longrightarrow> agrees W x"
  by (simp add: agrees_def)

text \<open>The claims that fail with an admission error, and what is recorded for them.\<close>

definition failed_claims :: "(string \<Rightarrow> string) \<Rightarrow> (obj \<Rightarrow> json result) \<Rightarrow> obj set \<Rightarrow> quarantined set" where
  "failed_claims sha resolve cs =
     {q. \<exists>c \<in> cs. \<exists>code. verify_claim sha resolve (JObj c) = Inl (Coded code) \<and>
        q = \<lparr>qt_code = code, qt_claim = best_effort_claim c\<rparr>}"

definition contradicted :: "provenance_evidence set \<Rightarrow> quarantined set" where
  "contradicted W = {q. \<exists>e \<in> W. \<not> agrees W e \<and> q = conflict_record (ge_claim e)}"

lemma contradicted_insert: "contradicted W \<subseteq> contradicted (insert e W)"
  using agrees_less unfolding contradicted_def by blast

lemma contradicting:
  assumes "x \<in> W" "y \<in> W" "pull_of x = pull_of y" "ge_claim x \<noteq> ge_claim y"
  shows "conflict_record (ge_claim x) \<in> contradicted W"
proof -
  have "\<not> agrees W x" using assms unfolding agrees_def by metis
  with assms(1) show ?thesis unfolding contradicted_def by blast
qed

lemma aggregate_quarantines:
  assumes "aggregated W a"
  shows "set (ag_quarantined (aggregate_verified a e)) \<subseteq> set (ag_quarantined a) \<union> contradicted (insert e W)"
proof (cases "pull_of e \<in> set (ag_conflicted a)")
  case True
  then obtain x where x: "x \<in> W" "pull_of x = pull_of e" "\<not> agrees W x" using aggregatedD(2) [OF assms] by blast
  then obtain y where y: "y \<in> W" "pull_of y = pull_of x" "ge_claim y \<noteq> ge_claim x" by (auto simp: agrees_def)
  then have "conflict_record (ge_claim e) \<in> contradicted (insert e W)"
    using x contradicting [of e "insert e W" x] contradicting [of e "insert e W" y]
    by (metis insertI1 insertI2)
  with True show ?thesis by (auto simp: aggregate_verified_def Let_def)
next
  case False
  show ?thesis
  proof (cases "map_of (ag_accepted a) (pull_of e)")
    case (Some old)
    then have old: "old \<in> W" "pull_of old = pull_of e" using aggregatedD(1) [OF assms] by (auto simp: agrees_def)
    show ?thesis
    proof (cases "ge_claim old = ge_claim e")
      case False
      with old contradicting [of e "insert e W" old] contradicting [of old "insert e W" e]
      have "conflict_record (ge_claim e) \<in> contradicted (insert e W)" "conflict_record (ge_claim old) \<in> contradicted (insert e W)"
        by auto
      with Some \<open>pull_of e \<notin> _\<close> False show ?thesis by (simp add: aggregate_verified_def Let_def)
    qed (use Some False in \<open>auto simp: aggregate_verified_def Let_def\<close>)
  qed (use False in \<open>auto simp: aggregate_verified_def Let_def\<close>)
qed

lemma aggregate_verified_grows: "set (ag_quarantined a) \<subseteq> set (ag_quarantined (aggregate_verified a e))"
  by (auto simp: aggregate_verified_def Let_def split: option.splits)

lemma failed_claims_insert:
  "failed_claims sha resolve (insert c cs) =
     (case verify_claim sha resolve (JObj c) of
        Inl (Coded code) \<Rightarrow> insert \<lparr>qt_code = code, qt_claim = best_effort_claim c\<rparr> (failed_claims sha resolve cs)
      | _ \<Rightarrow> failed_claims sha resolve cs)"
  by (auto simp: failed_claims_def split: sum.splits exn.splits)

text \<open>What the loop has established after the claims \<open>P\<close>.\<close>

definition settled :: "(string \<Rightarrow> string) \<Rightarrow> (obj \<Rightarrow> json result) \<Rightarrow> obj set \<Rightarrow> aggregation \<Rightarrow> bool" where
  "settled sha resolve P a =
     (aggregated (verified sha resolve P) a \<and> failed_claims sha resolve P \<subseteq> set (ag_quarantined a) \<and>
      set (ag_quarantined a) \<subseteq> failed_claims sha resolve P \<union> contradicted (verified sha resolve P))"

lemma settled_step:
  assumes "settled sha resolve P a" and "aggregate_claim sha resolve a c = Inr b"
  shows "settled sha resolve (insert c P) b"
proof (cases "verify_claim sha resolve (JObj c)")
  case (Inr e)
  have agg: "aggregated (verified sha resolve P) a" using assms(1) by (simp add: settled_def)
  have b: "b = aggregate_verified a e" using assms(2) Inr by (simp add: aggregate_claim_def)
  have v: "verified sha resolve (insert c P) = insert e (verified sha resolve P)" using Inr by (simp add: verified_insert)
  have f: "failed_claims sha resolve (insert c P) = failed_claims sha resolve P" using Inr by (simp add: failed_claims_insert)
  have "one_evidence (insert e (verified sha resolve P))" using verified_one [of sha resolve "insert c P"] v by simp
  from aggregate_step [OF agg this] have "aggregated (insert e (verified sha resolve P)) b" using b by simp
  moreover have "set (ag_quarantined b) \<subseteq> set (ag_quarantined a) \<union> contradicted (insert e (verified sha resolve P))"
    using aggregate_quarantines [OF agg] b by simp
  moreover have "set (ag_quarantined a) \<subseteq> set (ag_quarantined b)" using aggregate_verified_grows b by simp
  ultimately show ?thesis
    using assms(1) contradicted_insert [of "verified sha resolve P" e] unfolding settled_def v f by blast
next
  case (Inl x)
  with assms(2) obtain code where x: "x = Coded code" and b: "b = a\<lparr>ag_quarantined := ag_quarantined a @
      [\<lparr>qt_code = code, qt_claim = best_effort_claim c\<rparr>]\<rparr>"
    by (auto simp: aggregate_claim_def split: exn.splits)
  have v: "verified sha resolve (insert c P) = verified sha resolve P" using Inl by (simp add: verified_insert)
  have f: "failed_claims sha resolve (insert c P) =
      insert \<lparr>qt_code = code, qt_claim = best_effort_claim c\<rparr> (failed_claims sha resolve P)"
    using Inl x by (simp add: failed_claims_insert)
  have "aggregated (verified sha resolve P) b" using assms(1) unfolding settled_def aggregated_def b by auto
  with assms(1) show ?thesis unfolding settled_def v f b by auto
qed

lemma settled_loop:
  "foldE (aggregate_claim sha resolve) a cs = Inr b \<Longrightarrow> settled sha resolve P a \<Longrightarrow> settled sha resolve (P \<union> set cs) b"
proof (induction cs arbitrary: a P)
  case (Cons c cs)
  from Cons.prems(1) obtain a1 where step: "aggregate_claim sha resolve a c = Inr a1"
    and rest: "foldE (aggregate_claim sha resolve) a1 cs = Inr b" by (auto simp: err_simps)
  from Cons.IH [OF rest settled_step [OF Cons.prems(2) step]] show ?case by simp
qed simp

lemma aggregate_result:
  assumes "aggregate sha resolve claims = Inr (accepted, refused)"
  shows "set accepted = {e. agrees (verified sha resolve (set claims)) e}" "distinct (map pull_of accepted)"
    "set refused = failed_claims sha resolve (set claims) \<union> contradicted (verified sha resolve (set claims))"
proof -
  let ?V = "verified sha resolve (set claims)"
  from assms obtain a where loop: "foldE (aggregate_claim sha resolve) \<lparr>ag_accepted = [], ag_conflicted = [], ag_quarantined = []\<rparr>
      (sort_key (\<lambda>d. plain_json (JObj d)) claims) = Inr a"
    and acc: "accepted = sort_key (\<lambda>e. plain_json (JObj (evidence_object e))) (map snd (ag_accepted a))"
    and ref: "refused = sort_key (\<lambda>q. plain_json (JObj (quarantined_object q))) (ag_quarantined a)"
    unfolding aggregate_def by (auto simp: err_simps)
  have "settled sha resolve {} \<lparr>ag_accepted = [], ag_conflicted = [], ag_quarantined = []\<rparr>"
    by (simp add: settled_def aggregated_def verified_def agrees_def failed_claims_def)
  from settled_loop [OF loop this] have s: "settled sha resolve (set claims) a" by simp
  then have g: "aggregated ?V a" by (simp add: settled_def)
  have keys: "pull_of e = k" if "(k, e) \<in> set (ag_accepted a)" for k e
    using that aggregatedD(1) [OF g, of k e] aggregatedD(3) [OF g] by (simp add: map_of_is_SomeI)
  have "e \<in> snd ` set (ag_accepted a) \<longleftrightarrow> agrees ?V e" for e
    using aggregatedD(1) [OF g, of "pull_of e" e] aggregatedD(3) [OF g] keys
    by (force simp: map_of_is_SomeI dest: map_of_SomeD)
  then show "set accepted = {e. agrees ?V e}" unfolding acc by auto
  have "map (\<lambda>q. pull_of (snd q)) (ag_accepted a) = map fst (ag_accepted a)" using keys by (auto intro!: map_cong)
  then have "map pull_of (map snd (ag_accepted a)) = map fst (ag_accepted a)" by (simp only: map_map comp_def)
  then have d: "distinct (map pull_of (map snd (ag_accepted a)))" using aggregatedD(3) [OF g] by (simp only:)
  have "mset (map pull_of accepted) = image_mset pull_of (mset (map snd (ag_accepted a)))" unfolding acc by simp
  then have "mset (map pull_of accepted) = mset (map pull_of (map snd (ag_accepted a)))" by (simp only: mset_map)
  from mset_eq_imp_distinct_iff [OF this] d show "distinct (map pull_of accepted)" by (simp only:)
  have "contradicted ?V \<subseteq> set (ag_quarantined a)" using aggregatedD(4) [OF g] by (auto simp: contradicted_def)
  with s show "set refused = failed_claims sha resolve (set claims) \<union> contradicted ?V" by (auto simp: ref settled_def)
qed

section \<open>Claims about provenance\<close>

text \<open>Two verified claims are about the same pull request.\<close>

abbreviation same_pull :: "provenance_evidence \<Rightarrow> provenance_evidence \<Rightarrow> bool" where
  "same_pull x y \<equiv> gp_repository (ge_claim x) = gp_repository (ge_claim y) \<and> gp_pull (ge_claim x) = gp_pull (ge_claim y)"

text \<open>C17: Aggregation accepts exactly the evidence that some claim verifies to and that no verified claim for the
  same pull request contradicts, once for each pull request; the quarantined entries are exactly the claims that fail
  verification, with their error code, and every evidence of a contradicted pull request.\<close>

theorem aggregate_accepts:
  assumes "aggregate sha resolve claims = Inr (accepted, refused)"
    and "V = {e. \<exists>c \<in> set claims. verify_claim sha resolve (JObj c) = Inr e}"
  shows "set accepted = {e \<in> V. \<forall>x \<in> V. same_pull x e \<longrightarrow> ge_claim x = ge_claim e} \<and>
    distinct (map (\<lambda>e. (gp_repository (ge_claim e), gp_pull (ge_claim e))) accepted) \<and>
    set refused =
      {q. \<exists>c \<in> set claims. \<exists>code. verify_claim sha resolve (JObj c) = Inl (Coded code) \<and>
         q = \<lparr>qt_code = code, qt_claim = best_effort_claim c\<rparr>} \<union>
      {conflict_record (ge_claim e) | e. e \<in> V \<and> (\<exists>x \<in> V. same_pull x e \<and> ge_claim x \<noteq> ge_claim e)}"
proof (intro conjI)
  have V: "verified sha resolve (set claims) = V" by (simp add: verified_def assms(2))
  have agr: "agrees V e \<longleftrightarrow> e \<in> V \<and> (\<forall>x \<in> V. same_pull x e \<longrightarrow> ge_claim x = ge_claim e)" for e
    by (auto simp: agrees_def pull_identity_inj)
  show "set accepted = {e \<in> V. \<forall>x \<in> V. same_pull x e \<longrightarrow> ge_claim x = ge_claim e}"
    using aggregate_result(1) [OF assms(1)] by (simp add: V agr)
  have "distinct (map (\<lambda>e. (gp_repository (ge_claim e), gp_pull (ge_claim e))) es)" if "distinct (map pull_of es)" for es
    using that by (induction es) (auto simp: pull_identity_inj)
  with aggregate_result(2) [OF assms(1)]
  show "distinct (map (\<lambda>e. (gp_repository (ge_claim e), gp_pull (ge_claim e))) accepted)" by simp
  show "set refused =
      {q. \<exists>c \<in> set claims. \<exists>code. verify_claim sha resolve (JObj c) = Inl (Coded code) \<and>
         q = \<lparr>qt_code = code, qt_claim = best_effort_claim c\<rparr>} \<union>
      {conflict_record (ge_claim e) | e. e \<in> V \<and> (\<exists>x \<in> V. same_pull x e \<and> ge_claim x \<noteq> ge_claim e)}"
    using aggregate_result(3) [OF assms(1)] by (auto simp: V agr failed_claims_def contradicted_def)
qed

text \<open>An uncontradicted claim and two claims that contradict each other.\<close>

definition demo_claim :: "string \<Rightarrow> int \<Rightarrow> char \<Rightarrow> obj" where
  "demo_claim repo pull c =
     [(''provider'', JStr ''github''), (''repository'', JStr repo), (''issue_number'', JInt 7), (''pull_number'', JInt pull),
      (''head_sha'', JStr (replicate 40 c))]"

definition demo_claims :: "obj list" where
  "demo_claims = [demo_claim ''Owner/Repo'' 1 (CHR ''A''), demo_claim ''owner/repo'' 2 (CHR ''c''),
     demo_claim ''owner/repo'' 2 (CHR ''b'')]"

definition demo_sha :: "string \<Rightarrow> string" where
  "demo_sha s = replicate 64 (CHR ''0'')"

definition demo_pull :: "int \<Rightarrow> char \<Rightarrow> provenance" where
  "demo_pull pull c = \<lparr>gp_repository = ''owner/repo'', gp_issue = 7, gp_pull = pull, gp_head = replicate 40 c, gp_merge = None\<rparr>"

lemma demo_texts:
  "take 14 (plain_json (JObj (demo_claim ''Owner/Repo'' 1 (CHR ''A'')))) = ''{\"head_sha\":\"A''"
  "take 14 (plain_json (JObj (demo_claim ''owner/repo'' 2 (CHR ''c'')))) = ''{\"head_sha\":\"c''"
  "take 14 (plain_json (JObj (demo_claim ''owner/repo'' 2 (CHR ''b'')))) = ''{\"head_sha\":\"b''"
  by code_simp+

lemma less_take: "take n s < take n t \<Longrightarrow> s < (t :: string)"
proof (induction n arbitrary: s t)
  case (Suc n)
  then show ?case by (cases s; cases t) auto
qed simp

lemma demo_order:
  "sort_key (\<lambda>d. plain_json (JObj d)) demo_claims =
     [demo_claim ''Owner/Repo'' 1 (CHR ''A''), demo_claim ''owner/repo'' 2 (CHR ''b''), demo_claim ''owner/repo'' 2 (CHR ''c'')]"
proof -
  have "plain_json (JObj (demo_claim ''Owner/Repo'' 1 (CHR ''A''))) < plain_json (JObj (demo_claim ''owner/repo'' 2 (CHR ''b'')))"
    "plain_json (JObj (demo_claim ''owner/repo'' 2 (CHR ''b''))) < plain_json (JObj (demo_claim ''owner/repo'' 2 (CHR ''c'')))"
    by (rule less_take [of 14], simp add: demo_texts less_char_def)+
  then show ?thesis by (auto simp: demo_claims_def not_le)
qed

lemma demo_loop:
  "foldE (aggregate_claim demo_sha (\<lambda>d. Inr (JObj d))) \<lparr>ag_accepted = [], ag_conflicted = [], ag_quarantined = []\<rparr>
     [demo_claim ''Owner/Repo'' 1 (CHR ''A''), demo_claim ''owner/repo'' 2 (CHR ''b''), demo_claim ''owner/repo'' 2 (CHR ''c'')] =
   Inr \<lparr>ag_accepted = [(pull_identity (demo_pull 1 (CHR ''a'')),
        \<lparr>ge_claim = demo_pull 1 (CHR ''a''), ge_digest = replicate 64 (CHR ''0'')\<rparr>)],
     ag_conflicted = [pull_identity (demo_pull 2 (CHR ''b''))],
     ag_quarantined = [conflict_record (demo_pull 2 (CHR ''b'')), conflict_record (demo_pull 2 (CHR ''c''))]\<rparr>"
  by code_simp

lemma demo_aggregate:
  "\<exists>refused. aggregate demo_sha (\<lambda>d. Inr (JObj d)) demo_claims =
     Inr ([\<lparr>ge_claim = demo_pull 1 (CHR ''a''), ge_digest = replicate 64 (CHR ''0'')\<rparr>], refused) \<and>
     set refused = {conflict_record (demo_pull 2 (CHR ''b'')), conflict_record (demo_pull 2 (CHR ''c''))}"
  unfolding aggregate_def demo_order demo_loop by (simp add: insert_commute)

theorem aggregate_accepts_witness:
  "\<exists>V. V = {e. \<exists>c \<in> set demo_claims. verify_claim demo_sha (\<lambda>d. Inr (JObj d)) (JObj c) = Inr e} \<and>
     {\<lparr>ge_claim = demo_pull 1 (CHR ''a''), ge_digest = replicate 64 (CHR ''0'')\<rparr>} =
       {e \<in> V. \<forall>x \<in> V. same_pull x e \<longrightarrow> ge_claim x = ge_claim e}"
proof -
  from demo_aggregate obtain refused where "aggregate demo_sha (\<lambda>d. Inr (JObj d)) demo_claims =
     Inr ([\<lparr>ge_claim = demo_pull 1 (CHR ''a''), ge_digest = replicate 64 (CHR ''0'')\<rparr>], refused)" by blast
  from aggregate_accepts [OF this refl] show ?thesis by auto
qed

section \<open>Evidence and delivery\<close>

lemma evidence_normal: "verify_claim sha resolve v = Inr e \<Longrightarrow> normal_claim (ge_claim e)"
  by (auto simp: verify_claim_def err_simps dest: normalized_normal)

lemma evidence_valid:
  assumes "normal_claim p" "is_digest (claim_digest sha p)"
  shows "validate_provenance_evidence sha (JObj (evidence_object \<lparr>ge_claim = p, ge_digest = claim_digest sha p\<rparr>)) =
    Inr (Some \<lparr>ge_claim = p, ge_digest = claim_digest sha p\<rparr>)"
  using assms normalize_normal [OF assms(1)]
  by (simp add: validate_provenance_evidence_def evidence_object_def equals_one_def is_obj_def)

lemma normalize_stored: "normalize_github_provenance (stored v) = normalize_github_provenance v"
proof (cases v)
  case (JObj d)
  have keys: "set (map fst (stored_obj d)) = set (map fst d)" by force
  have repo: "claimed_repository (stored x) = claimed_repository x" "claimed_number (stored x) = claimed_number x"
    "claimed_sha (stored x) = claimed_sha x" "stored x = JStr s \<longleftrightarrow> x = JStr s" for x s
    by (cases x; simp add: claimed_repository_def claimed_number_def claimed_sha_def)+
  have merge: "(case stored x of JNull \<Rightarrow> Inr None | m \<Rightarrow> bindE (claimed_sha m) (\<lambda>s. Inr (Some s))) =
      (case x of JNull \<Rightarrow> Inr None | m \<Rightarrow> bindE (claimed_sha m) (\<lambda>s. Inr (Some s)))" for x
    by (cases x) (simp_all add: claimed_sha_def)
  show ?thesis
    unfolding JObj stored.simps normalize_github_provenance_def json.case
    by (simp only: keys field_stored_any repo merge)
qed (simp_all add: normalize_github_provenance_def)

lemma validate_stored: "validate_provenance_evidence sha (stored v) = validate_provenance_evidence sha v"
proof (cases v)
  case (JObj d)
  have keys: "set (map fst (stored_obj d)) = set (map fst d)" by force
  have f: "equals_one (stored x) = equals_one x" "is_obj (stored x) = is_obj x" "stored x = JStr s \<longleftrightarrow> x = JStr s" for x s
    by (cases x; simp add: equals_one_def is_obj_def)+
  have digest: "(case stored x of JStr s \<Rightarrow> if is_digest s then Inr s else Inl invalid_evidence | _ \<Rightarrow> Inl invalid_evidence) =
      (case x of JStr s \<Rightarrow> if is_digest s then Inr s else Inl invalid_evidence | _ \<Rightarrow> Inl invalid_evidence)" for x
    by (cases x) simp_all
  show ?thesis
    unfolding JObj stored.simps validate_provenance_evidence_def json.case
    by (simp only: keys field_stored_any f digest normalize_stored)
qed (simp_all add: validate_provenance_evidence_def)

lemma core_equal: "core_fields p = core_fields q \<longleftrightarrow> p = q\<lparr>gp_merge := gp_merge p\<rparr>"
  by (cases p; cases q) (simp add: core_fields_def)

lemma delivery_accepts:
  "validate_delivery_provenance sha frozen seen = Inr d \<longleftrightarrow>
     (\<exists>e p m. validate_provenance_evidence sha frozen = Inr (Some e) \<and> normalize_github_provenance seen = Inr p \<and>
        gp_merge p = Some m \<and> ge_claim e \<in> {p, p\<lparr>gp_merge := None\<rparr>} \<and> d = delivery_object (ge_digest e) p)"
proof -
  have same: "core_fields q = core_fields p \<and> gp_merge q \<in> {None, gp_merge p} \<longleftrightarrow> q \<in> {p, p\<lparr>gp_merge := None\<rparr>}" for p q
    by (cases p; cases q) (auto simp: core_fields_def)
  show ?thesis
    unfolding validate_delivery_provenance_def
    using same by (fastforce simp: err_simps split: option.splits)
qed

text \<open>C18: Verified evidence, stored and read back, validates as the same evidence; and a delivery is recorded for it
  exactly when the provider reports the verified claim with its merge commit, under the digest of the frozen claim.\<close>

theorem verified_evidence_delivers:
  assumes "verify_claim sha resolve claim = Inr e" and "is_digest (ge_digest e)"
  shows "github_provenance_evidence sha (stored (JObj (evidence_object e))) = Inr (Some e) \<and>
    (validate_delivery_provenance sha (stored (JObj (evidence_object e))) seen = Inr d \<longleftrightarrow>
       (\<exists>p m. normalize_github_provenance seen = Inr p \<and> gp_merge p = Some m \<and>
          ge_claim e \<in> {p, p\<lparr>gp_merge := None\<rparr>} \<and> d = delivery_object (claim_digest sha (ge_claim e)) p))"
proof -
  have digest: "ge_digest e = claim_digest sha (ge_claim e)" by (rule verify_digest [OF assms(1)])
  then have e: "e = \<lparr>ge_claim = ge_claim e, ge_digest = claim_digest sha (ge_claim e)\<rparr>" by simp
  have valid: "validate_provenance_evidence sha (JObj (evidence_object e)) = Inr (Some e)"
    using evidence_valid [OF evidence_normal [OF assms(1)], of sha] assms(2) digest e by simp
  then have reread: "validate_provenance_evidence sha (stored (JObj (evidence_object e))) = Inr (Some e)"
    by (simp only: validate_stored)
  have "field (stored_obj (evidence_object e)) ''contract'' = JStr ''github-provenance-evidence-v1''"
    "field (evidence_object e) ''contract'' = JStr ''github-provenance-evidence-v1''"
    by (simp_all add: field_stored_any evidence_object_def)
  then have "github_provenance_evidence sha (stored (JObj (evidence_object e))) = Inr (Some e)"
    using reread valid by (simp add: github_provenance_evidence_def validate_external_provenance_def)
  with reread digest show ?thesis by (auto simp: delivery_accepts)
qed

theorem verified_evidence_delivers_witness:
  "\<exists>e. verify_claim demo_sha (\<lambda>d. Inr (JObj d)) (JObj (demo_claim ''Owner/Repo'' 1 (CHR ''a''))) = Inr e \<and>
     github_provenance_evidence demo_sha (stored (JObj (evidence_object e))) = Inr (Some e) \<and>
     validate_delivery_provenance demo_sha (stored (JObj (evidence_object e)))
       (JObj (demo_claim ''owner/repo'' 1 (CHR ''a'') @ [(''merge_sha'', JStr (replicate 40 (CHR ''F'')))])) =
       Inr (delivery_object (replicate 64 (CHR ''0''))
         \<lparr>gp_repository = ''owner/repo'', gp_issue = 7, gp_pull = 1, gp_head = replicate 40 (CHR ''a''),
          gp_merge = Some (replicate 40 (CHR ''f''))\<rparr>)"
proof -
  let ?p = "\<lparr>gp_repository = ''owner/repo'', gp_issue = 7, gp_pull = 1, gp_head = replicate 40 (CHR ''a''),
    gp_merge = Some (replicate 40 (CHR ''f''))\<rparr>"
  have v: "verify_claim demo_sha (\<lambda>d. Inr (JObj d)) (JObj (demo_claim ''Owner/Repo'' 1 (CHR ''a''))) =
      Inr \<lparr>ge_claim = demo_pull 1 (CHR ''a''), ge_digest = replicate 64 (CHR ''0'')\<rparr>" by code_simp
  have d: "is_digest (ge_digest \<lparr>ge_claim = demo_pull 1 (CHR ''a''), ge_digest = replicate 64 (CHR ''0'')\<rparr>)" by code_simp
  have n: "normalize_github_provenance (JObj (demo_claim ''owner/repo'' 1 (CHR ''a'') @ [(''merge_sha'', JStr (replicate 40 (CHR ''F'')))])) =
      Inr ?p" by code_simp
  show ?thesis
    using verified_evidence_delivers [OF v d] v n
    by (simp add: demo_pull_def claim_digest_def demo_sha_def)
qed

end
