(* ===== verification/Work_Packets.thy ===== *)
theory Work_Packets
  imports Planner Provenance
begin

text \<open>
  The work packets of the coordinator (\<open>WorkPacketService\<close> of \<open>workflows/coordinator/planner.py\<close>): a task of a
  validated plan is issued once, with the authority and the runtime it is bound to, and its assignment
  is handed on by reassignments, each of which names the run it succeeds.  The state is one directory of
  evidence files for each packet, the recorded runtime bindings and the world of the adapters: runtime
  discovery, the provenance provider, the key factory and the clock.  A packet is named by one path
  component.  Only the check whether a text is a timestamp with a time zone is a parameter of its own.
\<close>

section \<open>State and adapters\<close>

datatype evidence_file = Garbled | Held json

type_synonym packet_dir = "(string \<times> evidence_file) list"

record 'w packets =
  ps_packets :: "(string \<times> packet_dir) list"
  ps_bindings :: "((string \<times> string) \<times> evidence_file) list"
  ps_world :: 'w

text \<open>The clock returns the text of an aware instant, or \<open>None\<close> for one without a time zone.\<close>

record 'w packet_adapters =
  pk_runtime :: "string list \<Rightarrow> ('w, json list) op"
  pk_provenance :: "('w \<Rightarrow> obj \<Rightarrow> json result) option"
  pk_token :: "('w, string) op"
  pk_clock :: "('w, string option) op"
  pk_sha :: "string \<Rightarrow> string"
  pk_aware :: "string \<Rightarrow> bool"

definition in_world :: "('w, 'a) op \<Rightarrow> ('w packets, 'a) op" where
  "in_world m st = (case m (ps_world st) of (r, w) \<Rightarrow> (r, st\<lparr>ps_world := w\<rparr>))"

definition packet_dir :: "string \<Rightarrow> 'w packets \<Rightarrow> packet_dir" where
  "packet_dir packet_id st = (case map_of (ps_packets st) packet_id of None \<Rightarrow> [] | Some d \<Rightarrow> d)"

text \<open>\<open>_write_json_once\<close>, for the two kinds of files\<close>

definition collision :: exn where
  "collision = Coded ''COORDINATOR_EVIDENCE_COLLISION''"

definition write_packet_once :: "string \<Rightarrow> string \<Rightarrow> json \<Rightarrow> ('w packets, unit) op" where
  "write_packet_once packet_id name v st =
     (if name \<in> fst ` set (packet_dir packet_id st) then (Inl collision, st)
      else (Inr (), st\<lparr>ps_packets :=
        AList.update packet_id (packet_dir packet_id st @ [(name, Held (stored v))]) (ps_packets st)\<rparr>))"

definition write_binding_once :: "string \<times> string \<Rightarrow> json \<Rightarrow> ('w packets, unit) op" where
  "write_binding_once key v st =
     (if key \<in> fst ` set (ps_bindings st) then (Inl collision, st)
      else (Inr (), st\<lparr>ps_bindings := AList.update key (Held (stored v)) (ps_bindings st)\<rparr>))"

definition stable_id :: "(string \<Rightarrow> string) \<Rightarrow> string \<Rightarrow> obj \<Rightarrow> string" where
  "stable_id sha kind v = kind @ CHR ''-'' # take 24 (sha (plain_json (JObj v)))"

definition texts :: "string list \<Rightarrow> json" where
  "texts xs = JArr (map JStr xs)"

definition optional_object :: "obj option \<Rightarrow> json" where
  "optional_object v = (case v of None \<Rightarrow> JNull | Some d \<Rightarrow> JObj d)"

section \<open>The plan as a packet refers to it\<close>

definition git_object :: "git_id \<Rightarrow> obj" where
  "git_object g = [(''commit_sha'', JStr (commit_sha g)), (''tree_sha'', JStr (tree_sha g))]"

definition node_object :: "plan_node \<Rightarrow> obj" where
  "node_object n =
     [(''kind'', JStr (nd_kind n)), (''outcome'', JStr (nd_outcome n)), (''owned_paths'', texts (nd_owned n)),
      (''shared_paths'', texts (nd_shared n)), (''integration_owner'', optional_json (nd_owner n)),
      (''acceptance_checks'', texts (nd_checks n)), (''required_capabilities'', texts (nd_capabilities n))]"

definition edge_object :: "plan_edge \<Rightarrow> obj" where
  "edge_object e =
     [(''from'', JStr (e_from e)), (''to'', JStr (e_to e)), (''kind'', JStr (edge_kind_text (e_kind e)))]"

definition hotspot_object :: "hotspot \<Rightarrow> obj" where
  "hotspot_object h =
     [(''paths'', texts (hs_paths h)), (''integration_owner'', JStr (hs_owner h)), (''task_ids'', texts (hs_tasks h))]"

text \<open>The object that \<open>PlannerService.plan\<close> returns.\<close>

definition plan_object :: "plan \<Rightarrow> obj" where
  "plan_object p =
     [(''schema_version'', JInt 1), (''contract'', JStr ''coordinator-dependency-dag-v1''),
      (''project_id'', JStr (pl_project p)), (''change_id'', JStr (pl_change p)), (''revision'', JInt (pl_revision p)),
      (''nodes'', JObj (map (\<lambda>(k, n). (k, JObj (node_object n))) (pl_nodes p))),
      (''edges'', JArr (map (JObj \<circ> edge_object) (pl_edges p))), (''ready_frontier'', texts (pl_ready p)),
      (''integration_hotspots'', JArr (map (JObj \<circ> hotspot_object) (pl_hotspots p))),
      (''recommended_concurrency'', JInt (int (pl_concurrency p))),
      (''validation'', JObj [(''status'', JStr ''validated''),
         (''evidence'', texts [''dependency endpoints resolved'', ''dependency graph acyclic'',
            ''exclusive ownership unambiguous'', ''shared hotspots have one integration owner'',
            ''exact base '' @ pl_base_evidence p])])]"

definition validate_plan_identity :: "planner_request \<Rightarrow> obj \<Rightarrow> unit result" where
  "validate_plan_identity r plan_obj =
     bindE (raise_if (field plan_obj ''contract'' \<noteq> JStr ''coordinator-dependency-dag-v1'' \<or>
              field plan_obj ''project_id'' \<noteq> JStr (pr_project r) \<or> field plan_obj ''change_id'' \<noteq> JStr (pr_change r) \<or>
              \<not> py_eq (field plan_obj ''revision'') (JInt (pr_revision r))) (Coded ''WORK_PACKET_PLAN_MISMATCH'')) (\<lambda>_.
       (case field plan_obj ''validation'' of
          JObj d \<Rightarrow> raise_if (field d ''status'' \<noteq> JStr ''validated'') (Coded ''WORK_PACKET_PLAN_UNVALIDATED'')
        | _ \<Rightarrow> Inl (Coded ''WORK_PACKET_PLAN_UNVALIDATED'')))"

definition planned_task :: "planner_request \<Rightarrow> obj \<Rightarrow> string \<Rightarrow> planner_task result" where
  "planned_task r plan_obj task_id =
     (case map_of (task_dict (pr_tasks r)) task_id of
        None \<Rightarrow> Inl (Coded ''WORK_PACKET_TASK_NOT_FOUND'')
      | Some task \<Rightarrow>
          (case field plan_obj ''nodes'' of
             JObj d \<Rightarrow> if task_id \<in> fst ` set d then Inr task else Inl (Coded ''WORK_PACKET_PLAN_MISMATCH'')
           | _ \<Rightarrow> Inl (Coded ''WORK_PACKET_PLAN_MISMATCH'')))"

section \<open>Authority\<close>

record packet_authority =
  pa_reservation :: string
  pa_revision :: int
  pa_lease :: string
  pa_fence :: int

definition authority_invalid :: "'a result" where
  "authority_invalid = Inl (Coded ''PLANNER_AUTHORITY_INVALID'')"

definition authority_text :: "json \<Rightarrow> string result" where
  "authority_text v = (case v of JStr s \<Rightarrow> if blank s then authority_invalid else Inr s | _ \<Rightarrow> authority_invalid)"

definition positive_int :: "json \<Rightarrow> int result" where
  "positive_int v = (case v of JInt n \<Rightarrow> if n < 1 then authority_invalid else Inr n | _ \<Rightarrow> authority_invalid)"

definition authority_identity :: "obj \<Rightarrow> packet_authority result" where
  "authority_identity v =
     bindE (authority_text (field v ''reservation_id'')) (\<lambda>reservation.
     bindE (authority_text (field v ''lease_id'')) (\<lambda>lease.
     bindE (positive_int (field v ''authority_revision'')) (\<lambda>revision.
     bindE (positive_int (field v ''fence_token'')) (\<lambda>fence.
       Inr \<lparr>pa_reservation = reservation, pa_revision = revision, pa_lease = lease, pa_fence = fence\<rparr>))))"

definition authority_object :: "packet_authority \<Rightarrow> obj" where
  "authority_object a =
     [(''reservation_id'', JStr (pa_reservation a)), (''authority_revision'', JInt (pa_revision a)),
      (''lease_id'', JStr (pa_lease a)), (''fence_token'', JInt (pa_fence a))]"

text \<open>The condition under which a reassignment is refused, negated.\<close>

definition authority_advanced :: "packet_authority \<Rightarrow> packet_authority \<Rightarrow> bool" where
  "authority_advanced old new =
     (pa_reservation new = pa_reservation old \<and> pa_revision old < pa_revision new \<and> pa_fence old < pa_fence new \<and>
      pa_lease new \<noteq> pa_lease old)"

section \<open>Runtime binding\<close>

definition binding_invalid :: exn where
  "binding_invalid = Coded ''RUNTIME_BINDING_INVALID''"

text \<open>A sequence of non-empty strings.\<close>

definition text_items :: "json \<Rightarrow> string list option" where
  "text_items v =
     (case v of
        JArr xs \<Rightarrow>
          if list_all (\<lambda>x. case x of JStr s \<Rightarrow> \<not> blank s | _ \<Rightarrow> False) xs
          then Some (map (\<lambda>x. case x of JStr s \<Rightarrow> s | _ \<Rightarrow> []) xs) else None
      | _ \<Rightarrow> None)"

definition candidate_texts :: "string list" where
  "candidate_texts =
     [''binding_id'', ''worker_id'', ''worker_revision'', ''runtime_id'', ''tool_id'', ''tool_revision'', ''protocol'',
      ''interface'', ''endpoint'', ''binding'', ''transport'', ''observed_at'']"

definition candidate_text :: "obj \<Rightarrow> string \<Rightarrow> (string \<times> json) result" where
  "candidate_text d f =
     (case field d f of
        JStr s \<Rightarrow> if blank s then Inl binding_invalid else Inr (f, JStr s)
      | _ \<Rightarrow> Inl binding_invalid)"

definition normalize_runtime_candidate :: "(string \<Rightarrow> bool) \<Rightarrow> obj \<Rightarrow> string list \<Rightarrow> obj result" where
  "normalize_runtime_candidate aware d capabilities =
     bindE (mapE (candidate_text d) candidate_texts) (\<lambda>normalized.
     bindE (case field d ''runtime_revision'' of
              JStr s \<Rightarrow> if is_hex40 s then Inr s else Inl binding_invalid | _ \<Rightarrow> Inl binding_invalid) (\<lambda>revision.
     bindE (raise_if (field normalized ''transport'' \<notin> JStr ` {''mcp'', ''a2a'', ''local-process'', ''other''})
       binding_invalid) (\<lambda>_.
     bindE (raise_if (\<not> aware (py_text (field normalized ''observed_at''))) binding_invalid) (\<lambda>_.
       Inr ([(''schema_version'', JInt 1), (''contract'', JStr ''coordinator-runtime-binding-v1'')] @ normalized @
            [(''runtime_revision'', JStr revision), (''capabilities'', texts capabilities),
             (''grants_mutation_authority'', JBool False)])))))"

text \<open>One candidate of the loop, with the valid ones so far and whether one claimed authority.\<close>

definition consider_candidate ::
  "(string \<Rightarrow> bool) \<Rightarrow> string list \<Rightarrow> obj list \<times> bool \<Rightarrow> json \<Rightarrow> (obj list \<times> bool) result" where
  "consider_candidate aware required acc candidate =
     (case candidate of
        JObj d \<Rightarrow>
          (case text_items (field_or d ''capabilities'' (JArr [])) of
             None \<Rightarrow> Inl binding_invalid
           | Some raw \<Rightarrow>
               let capabilities = sort (remdups raw) in
               if \<not> set required \<subseteq> set capabilities then Inr acc
               else if field d ''grants_mutation_authority'' \<noteq> JBool False then Inr (fst acc, True)
               else bindE (normalize_runtime_candidate aware d capabilities) (\<lambda>n. Inr (fst acc @ [n], snd acc)))
      | _ \<Rightarrow> Inl binding_invalid)"

definition choose_binding :: "(string \<Rightarrow> string) \<Rightarrow> obj list \<times> bool \<Rightarrow> obj result" where
  "choose_binding sha found =
     (case sort_key (\<lambda>d. plain_json (JObj d)) (fst found) of
        [] \<Rightarrow> Inl (Coded (if snd found then ''RUNTIME_DISCOVERY_AUTHORITY_CONFLICT'' else ''RUNTIME_BINDING_NOT_FOUND''))
      | chosen # _ \<Rightarrow> Inr (dict_update chosen [(''binding_fingerprint'', JStr (sha (plain_json (JObj chosen))))]))"

definition runtime_binding :: "'w packet_adapters \<Rightarrow> string list \<Rightarrow> ('w packets, obj) op" where
  "runtime_binding ad capabilities =
     (let required = sort capabilities in
      bindS (in_world (pk_runtime ad required)) (\<lambda>candidates.
      liftE (bindE (foldE (consider_candidate (pk_aware ad) required) ([], False) candidates) (choose_binding (pk_sha ad)))))"

text \<open>\<open>[A-Za-z0-9][A-Za-z0-9._-]*\<close>\<close>

definition is_binding_id :: "string \<Rightarrow> bool" where
  "is_binding_id s =
     (case s of
        [] \<Rightarrow> False
      | c # r \<Rightarrow> is_alnum c \<and> (\<forall>x \<in> set r. is_alnum x \<or> x = CHR ''.'' \<or> x = CHR ''_'' \<or> x = CHR ''-''))"

definition persist_runtime_binding :: "obj \<Rightarrow> ('w packets, unit) op" where
  "persist_runtime_binding binding st =
     (let binding_id = py_text (field binding ''binding_id'');
          key = (binding_id, py_text (field binding ''binding_fingerprint'')) in
      if \<not> is_binding_id binding_id then (Inl binding_invalid, st)
      else (case map_of (ps_bindings st) key of
              None \<Rightarrow> write_binding_once key (JObj binding) st
            | Some Garbled \<Rightarrow> (Inl (Coded ''RUNTIME_BINDING_EVIDENCE_INVALID''), st)
            | Some (Held v) \<Rightarrow>
                if py_eq v (JObj binding) then (Inr (), st)
                else (Inl (Coded ''RUNTIME_BINDING_EVIDENCE_CONFLICT''), st)))"

definition binding_reference :: "obj \<Rightarrow> json" where
  "binding_reference binding =
     JObj [(''binding_id'', field binding ''binding_id''), (''binding_fingerprint'', field binding ''binding_fingerprint'')]"

definition executor :: "obj \<Rightarrow> json" where
  "executor binding =
     JObj [(''worker_id'', field binding ''worker_id''), (''profile'', field binding ''binding''),
           (''runtime_id'', field binding ''runtime_id'')]"

section \<open>Provenance, key and time\<close>

definition verified_provenance :: "'w packet_adapters \<Rightarrow> 'w \<Rightarrow> obj option \<Rightarrow> obj option result" where
  "verified_provenance ad w claim =
     (case claim of
        None \<Rightarrow> Inr None
      | Some d \<Rightarrow>
          if field d ''provider'' \<noteq> JStr ''github'' then Inr (Some d)
          else (case pk_provenance ad of
                  None \<Rightarrow> Inl (Coded ''GITHUB_PROVENANCE_RESOLVER_REQUIRED'')
                | Some resolve \<Rightarrow>
                    bindE (verify_claim (pk_sha ad) (resolve w) (JObj d)) (\<lambda>e. Inr (Some (evidence_object e)))))"

definition assignment_key :: "'w packet_adapters \<Rightarrow> ('w packets, string) op" where
  "assignment_key ad =
     bindS (in_world (pk_token ad)) (\<lambda>key.
       if blank key then failS (Coded ''ASSIGNMENT_KEY_INVALID'') else returnS key)"

definition timestamp :: "'w packet_adapters \<Rightarrow> ('w packets, string) op" where
  "timestamp ad =
     bindS (in_world (pk_clock ad)) (\<lambda>t. case t of None \<Rightarrow> failS ValueError | Some s \<Rightarrow> returnS s)"

definition run_identity :: "(string \<Rightarrow> string) \<Rightarrow> string \<Rightarrow> int \<Rightarrow> string \<Rightarrow> string" where
  "run_identity sha packet_id generation digest =
     stable_id sha ''run''
       [(''packet_id'', JStr packet_id), (''assignment_generation'', JInt generation),
        (''assignment_key_sha256'', JStr digest)]"

text \<open>The recorded assignment; it holds the digest of the key only.\<close>

definition assignment_object :: "int \<Rightarrow> string \<Rightarrow> string option \<Rightarrow> string \<Rightarrow> obj" where
  "assignment_object generation run predecessor digest =
     [(''generation'', JInt generation), (''run_id'', JStr run), (''predecessor_run_id'', optional_json predecessor),
      (''key_sha256'', JStr digest), (''state'', JStr ''active'')]"

definition without_assignment :: "obj \<Rightarrow> obj" where
  "without_assignment packet = filter (\<lambda>(k, _). k \<noteq> ''assignment'') packet"

text \<open>
  The end that \<open>issue\<close> and \<open>reassign\<close> share: a fresh key, the run it identifies, the packet with the key for the
  caller and the evidence without it.
\<close>

definition assign_packet ::
  "'w packet_adapters \<Rightarrow> string \<Rightarrow> string \<Rightarrow> int \<Rightarrow> obj \<Rightarrow> (string \<Rightarrow> string \<Rightarrow> string \<Rightarrow> obj) \<Rightarrow>
     (obj \<Rightarrow> string \<Rightarrow> string \<Rightarrow> string \<Rightarrow> obj) \<Rightarrow> ('w packets, obj \<times> obj) op" where
  "assign_packet ad packet_id name generation binding packet_of evidence_of =
     bindS (assignment_key ad) (\<lambda>key.
     let digest = pk_sha ad key;
         run = run_identity (pk_sha ad) packet_id generation digest in
     bindS (timestamp ad) (\<lambda>issued_at.
     let packet = packet_of run key issued_at in
     bindS (persist_runtime_binding binding) (\<lambda>_.
     bindS (write_packet_once packet_id name (JObj (evidence_of packet run digest issued_at))) (\<lambda>_.
       returnS (packet, binding)))))"

section \<open>Issue\<close>

definition required_handoff_fields :: "string list" where
  "required_handoff_fields =
     sort [''assignment_generation'', ''attempt_id'', ''authority_revision'', ''changed_paths'', ''evidence'', ''exact_head'',
       ''execution_id'', ''external_provenance'', ''run_id'', ''project_id'', ''change_id'', ''governed_worktree'',
       ''lifecycle_phase'', ''fence_token'', ''handoff_id'', ''observed_at'', ''packet_id'', ''reservation_id'',
       ''residual_state'', ''result_id'', ''runtime_binding'', ''status'', ''task_id'', ''worker_id'']"

definition stable_identity :: "planner_request \<Rightarrow> planner_task \<Rightarrow> git_id \<Rightarrow> obj option \<Rightarrow> obj" where
  "stable_identity r task base provenance =
     [(''project_id'', JStr (pr_project r)), (''change_id'', JStr (pr_change r)), (''work_id'', JStr (pr_work r)),
      (''slice_id'', JStr (pr_slice r)), (''task_id'', JStr (pt_id task)), (''outcome'', JStr (pt_outcome task)),
      (''required_capabilities'', texts (sort (pt_capabilities task))),
      (''scope'', JObj [(''owned_paths'', texts (sort (pt_owned task))), (''shared_paths'', texts (sort (pt_shared task))),
         (''integration_owner'', optional_json (pt_owner task))]),
      (''dependencies'', texts (sort (pt_dependencies task))),
      (''acceptance_checks'', texts (sort (pt_checks task))),
      (''exact_base'', JObj (git_object base)),
      (''governed'', JObj [(''root'', JStr (pr_root r)), (''worktree'', JStr (pr_worktree r)),
         (''base_revision'', JObj (git_object base))]),
      (''lifecycle_phase'', JStr (pr_phase r)),
      (''authority_references'', texts (sort (pr_references r))),
      (''work_management'', optional_object (pr_work_management r)),
      (''external_provenance'', optional_object provenance),
      (''verification_requirement_ids'', texts (sort (pr_verification_ids r))),
      (''required_handoff_fields'', texts required_handoff_fields)]"

text \<open>The packet of the first assignment, with the key that only the caller receives.\<close>

definition issued_packet ::
  "string \<Rightarrow> string \<Rightarrow> obj \<Rightarrow> packet_authority \<Rightarrow> obj \<Rightarrow> string \<Rightarrow> string \<Rightarrow> obj" where
  "issued_packet packet_id run identity authority binding key issued_at =
     [(''schema_version'', JInt 3), (''contract'', JStr ''coordinator-work-packet-v3''), (''packet_id'', JStr packet_id),
      (''run_id'', JStr run), (''predecessor_run_id'', JNull)] @
     map (\<lambda>k. (k, field identity k))
       [''work_id'', ''project_id'', ''change_id'', ''slice_id'', ''task_id'', ''outcome'', ''required_capabilities'', ''scope'',
        ''dependencies'', ''acceptance_checks'', ''exact_base'', ''governed'', ''lifecycle_phase'', ''authority_references'',
        ''work_management'', ''external_provenance''] @
     [(''authority'', JObj (authority_object authority)), (''executor'', executor binding),
      (''runtime_binding'', binding_reference binding),
      (''verification_requirement_ids'', field identity ''verification_requirement_ids''),
      (''required_handoff_fields'', texts required_handoff_fields),
      (''assignment'', JObj [(''generation'', JInt 1), (''key'', JStr key)]), (''issued_at'', JStr issued_at)]"

definition issued_name :: string where
  "issued_name = ''001-issued.json''"

definition issued_evidence :: "string \<Rightarrow> obj \<Rightarrow> string \<Rightarrow> string \<Rightarrow> string \<Rightarrow> obj" where
  "issued_evidence packet_id packet run digest issued_at =
     [(''schema_version'', JInt 1), (''contract'', JStr ''coordinator-work-packet-issued-v1''),
      (''packet_id'', JStr packet_id), (''packet'', JObj (without_assignment packet)),
      (''assignment'', JObj (assignment_object 1 run None digest)), (''issued_at'', JStr issued_at)]"

definition issue_packet ::
  "'w packet_adapters \<Rightarrow> planner_request \<Rightarrow> obj \<Rightarrow> string \<Rightarrow> obj \<Rightarrow> ('w packets, obj \<times> obj) op" where
  "issue_packet ad r plan_obj task_id authority =
     bindS (liftE (validate_plan_identity r plan_obj)) (\<lambda>_.
     bindS (liftE (planned_task r plan_obj task_id)) (\<lambda>task.
     bindS (liftE (git_identity (pr_exact_base r))) (\<lambda>base.
     bindS (liftE (authority_identity authority)) (\<lambda>normalized.
     bindS (runtime_binding ad (pt_capabilities task)) (\<lambda>binding.
     bindS (readE (\<lambda>st. verified_provenance ad (ps_world st) (pr_provenance r))) (\<lambda>provenance.
     let identity = stable_identity r task base provenance;
         packet_id = stable_id (pk_sha ad) ''packet'' identity in
     bindS (readE (\<lambda>st. raise_if (issued_name \<in> fst ` set (packet_dir packet_id st))
              (Coded ''WORK_PACKET_ALREADY_ISSUED''))) (\<lambda>_.
     assign_packet ad packet_id issued_name 1 binding
       (\<lambda>run key issued_at. issued_packet packet_id run identity normalized binding key issued_at)
       (\<lambda>packet run digest issued_at. issued_evidence packet_id packet run digest issued_at))))))))"

section \<open>Reassignment\<close>

text \<open>\<open>glob("[0-9][0-9][0-9]-*.json")\<close>\<close>

definition is_packet_event :: "string \<Rightarrow> bool" where
  "is_packet_event name =
     (case name of
        a # b # c # d # s \<Rightarrow> is_digit a \<and> is_digit b \<and> is_digit c \<and> d = CHR ''-'' \<and> ends_with ''.json'' s
      | _ \<Rightarrow> False)"

definition packet_events :: "packet_dir \<Rightarrow> (string \<times> evidence_file) list" where
  "packet_events d = sort_key fst (filter (\<lambda>(name, _). is_packet_event name) d)"

definition evidence_invalid :: exn where
  "evidence_invalid = Coded ''WORK_PACKET_EVIDENCE_INVALID''"

text \<open>The packet and the assignment of the latest evidence.\<close>

definition latest_assignment :: "string \<Rightarrow> 'w packets \<Rightarrow> (obj \<times> obj) result" where
  "latest_assignment packet_id st =
     (let events = packet_events (packet_dir packet_id st) in
      if events = [] then Inl (Coded ''WORK_PACKET_NOT_FOUND'')
      else (case snd (last events) of
              Garbled \<Rightarrow> Inl evidence_invalid
            | Held (JObj previous) \<Rightarrow>
                (case (field previous ''packet'', field previous ''assignment'') of
                   (JObj packet, JObj assignment) \<Rightarrow> Inr (packet, assignment)
                 | _ \<Rightarrow> Inl evidence_invalid)
            | Held _ \<Rightarrow> Inl AttributeError))"

definition check_current :: "obj \<Rightarrow> int \<Rightarrow> string \<Rightarrow> unit result" where
  "check_current assignment generation predecessor =
     bindE (raise_if (field assignment ''state'' \<noteq> JStr ''active'') (Coded ''WORK_PACKET_ASSIGNMENT_NOT_ACTIVE'')) (\<lambda>_.
     bindE (raise_if (\<not> py_eq (field assignment ''generation'') (JInt generation)) (Coded ''STALE_ASSIGNMENT_GENERATION'')) (\<lambda>_.
     raise_if (field assignment ''run_id'' \<noteq> JStr predecessor) (Coded ''STALE_RUN_ID'')))"

definition advanced_authority :: "obj \<Rightarrow> obj \<Rightarrow> packet_authority result" where
  "advanced_authority packet authority =
     (case field packet ''authority'' of
        JObj d \<Rightarrow>
          bindE (authority_identity d) (\<lambda>old.
          bindE (authority_identity authority) (\<lambda>new.
          bindE (raise_if (\<not> authority_advanced old new) (Coded ''REASSIGNMENT_AUTHORITY_NOT_ADVANCED'')) (\<lambda>_.
            Inr new)))
      | _ \<Rightarrow> Inl evidence_invalid)"

definition required_capabilities :: "obj \<Rightarrow> string list result" where
  "required_capabilities packet =
     (case text_items (field packet ''required_capabilities'') of None \<Rightarrow> Inl evidence_invalid | Some xs \<Rightarrow> Inr xs)"

definition reassigned_packet ::
  "obj \<Rightarrow> string \<Rightarrow> string \<Rightarrow> packet_authority \<Rightarrow> obj \<Rightarrow> int \<Rightarrow> string \<Rightarrow> string \<Rightarrow> obj" where
  "reassigned_packet previous run predecessor authority binding generation key issued_at =
     dict_update previous
       [(''run_id'', JStr run), (''predecessor_run_id'', JStr predecessor), (''authority'', JObj (authority_object authority)),
        (''executor'', executor binding), (''runtime_binding'', binding_reference binding),
        (''assignment'', JObj [(''generation'', JInt generation), (''key'', JStr key)]), (''issued_at'', JStr issued_at)]"

definition reassigned_name :: "nat \<Rightarrow> string" where
  "reassigned_name ordinal = pad3 ordinal @ ''-reassigned.json''"

definition reassigned_evidence ::
  "string \<Rightarrow> obj \<Rightarrow> obj \<Rightarrow> int \<Rightarrow> string \<Rightarrow> string \<Rightarrow> string \<Rightarrow> string \<Rightarrow> obj" where
  "reassigned_evidence packet_id packet assignment generation run predecessor digest issued_at =
     [(''schema_version'', JInt 1), (''contract'', JStr ''coordinator-work-packet-assigned-v1''),
      (''packet_id'', JStr packet_id), (''packet'', JObj (without_assignment packet)),
      (''previous_assignment'', JObj (dict_update assignment [(''state'', JStr ''revoked'')])),
      (''assignment'', JObj (assignment_object generation run (Some predecessor) digest)), (''issued_at'', JStr issued_at)]"

definition reassign_packet ::
  "'w packet_adapters \<Rightarrow> string \<Rightarrow> obj \<Rightarrow> int \<Rightarrow> string \<Rightarrow> ('w packets, obj \<times> obj) op" where
  "reassign_packet ad packet_id authority expected predecessor =
     bindS (liftE (raise_if (blank packet_id \<or> blank predecessor \<or> expected < 1) ValueError)) (\<lambda>_.
     bindS (readE (\<lambda>st. bindE (latest_assignment packet_id st) (\<lambda>l.
              Inr (l, length (packet_events (packet_dir packet_id st)))))) (\<lambda>((previous, assignment), count).
     bindS (liftE (check_current assignment expected predecessor)) (\<lambda>_.
     bindS (liftE (advanced_authority previous authority)) (\<lambda>normalized.
     bindS (liftE (required_capabilities previous)) (\<lambda>capabilities.
     bindS (runtime_binding ad capabilities) (\<lambda>binding.
     assign_packet ad packet_id (reassigned_name (count + 1)) (expected + 1) binding
       (\<lambda>run key issued_at. reassigned_packet previous run predecessor normalized binding (expected + 1) key issued_at)
       (\<lambda>packet run digest issued_at.
          reassigned_evidence packet_id packet assignment (expected + 1) run predecessor digest issued_at)))))))"

end
