(* ===== verification/Work_Packet_Facts.thy ===== *)
theory Work_Packet_Facts
  imports Work_Packets
begin

text \<open>
  Facts about work packets: the numbered evidence files of a packet and their order, the operations that leave the
  packets alone, the assignment that a piece of evidence describes, and the invariant of the reachable states that
  every packet holds a chain of assignments.
\<close>

section \<open>Names of the evidence files\<close>

definition packet_name :: "nat \<Rightarrow> string" where
  "packet_name n = (if n = 1 then issued_name else reassigned_name n)"

lemma pad3_short: "n < 1000 \<Longrightarrow> pad3 n = [digit_char (n div 100), digit_char (n div 10 mod 10), digit_char (n mod 10)]"
proof -
  assume n: "n < 1000"
  have z: "digit_char 0 = CHR ''0''" by code_simp
  consider "n < 10" | "10 \<le> n" "n < 100" | "100 \<le> n" by linarith
  then show ?thesis
  proof cases
    case 1
    then show ?thesis by (simp add: pad3_def decimal.simps [of n] z numeral_3_eq_3)
  next
    case 2
    then have "n div 10 < 10" "n div 100 = 0" "\<not> n < 10" by simp_all
    then show ?thesis
      by (simp add: pad3_def decimal.simps [of n] decimal.simps [of "n div 10"] z numeral_3_eq_3)
  next
    case 3
    with n have d: "n div 100 < 10" "\<not> n div 10 < 10" "\<not> n < 10" "n div 10 div 10 = n div 100" by (simp_all add: div_mult2_eq [symmetric])
    then show ?thesis
      by (simp add: pad3_def decimal.simps [of n] decimal.simps [of "n div 10"] decimal.simps [of "n div 100"])
  qed
qed

lemma digit_char_less: "m < 10 \<Longrightarrow> n < 10 \<Longrightarrow> digit_char m < digit_char n \<longleftrightarrow> m < n"
  by (simp add: digit_char_def less_char_def)

lemma digit_char_inj: "m < 10 \<Longrightarrow> n < 10 \<Longrightarrow> digit_char m = digit_char n \<longleftrightarrow> m = n"
  using digit_char_facts(2) by metis

lemma pad3_less:
  assumes "m < n" "n < 1000"
  shows "pad3 m @ s < pad3 n @ t"
proof -
  define a b c where m: "a = m div 100" "b = m div 10 mod 10" "c = m mod 10"
  define x y z where n: "x = n div 100" "y = n div 10 mod 10" "z = n mod 10"
  have lt: "a < 10" "b < 10" "c < 10" "x < 10" "y < 10" "z < 10"
    unfolding m n using assms by simp_all
  have "k = 100 * (k div 100) + 10 * (k div 10 mod 10) + k mod 10" for k :: nat
  proof -
    have "k = 10 * (k div 10) + k mod 10" "k div 10 = 10 * (k div 10 div 10) + k div 10 mod 10" by simp_all
    moreover have "k div 10 div 10 = k div 100" by (simp add: div_mult2_eq [symmetric])
    ultimately show ?thesis by linarith
  qed
  then have e: "m = 100 * a + 10 * b + c" "n = 100 * x + 10 * y + z" unfolding m n by blast+
  have "a < x \<or> a = x \<and> (b < y \<or> b = y \<and> c < z)"
    using assms(1) lt e by linarith
  moreover have "pad3 m = [digit_char a, digit_char b, digit_char c]" "pad3 n = [digit_char x, digit_char y, digit_char z]"
    using assms by (simp_all add: pad3_short m n)
  ultimately show ?thesis
  proof (elim disjE conjE)
    assume "a < x"
    with lt have "digit_char a < digit_char x" by (simp only: digit_char_less)
    then show ?thesis by (simp only: \<open>pad3 m = _\<close> \<open>pad3 n = _\<close> append_Cons Cons_less_Cons) simp
  next
    assume "a = x" "b < y"
    with lt have "digit_char b < digit_char y" by (simp only: digit_char_less)
    then show ?thesis by (simp only: \<open>pad3 m = _\<close> \<open>pad3 n = _\<close> append_Cons Cons_less_Cons \<open>a = x\<close>) simp
  next
    assume "a = x" "b = y" "c < z"
    with lt have "digit_char c < digit_char z" by (simp only: digit_char_less)
    then show ?thesis
      by (simp only: \<open>pad3 m = _\<close> \<open>pad3 n = _\<close> append_Cons Cons_less_Cons \<open>a = x\<close> \<open>b = y\<close>) simp
  qed
qed

lemma issued_name_pad: "issued_name = pad3 1 @ ''-issued.json''"
  by code_simp

lemma packet_name_less:
  assumes "m < n" "n < 1000"
  shows "packet_name m < packet_name n"
  using pad3_less [OF assms] by (simp only: packet_name_def reassigned_name_def issued_name_pad split: if_splits) blast

lemma is_packet_event_name: "n < 1000 \<Longrightarrow> is_packet_event (packet_name n)"
proof -
  assume n: "n < 1000"
  have e: "ends_with ''.json'' ''issued.json''" "ends_with ''.json'' ''reassigned.json''" by code_simp+
  have "n div 100 < 10" "n div 10 mod 10 < 10" "n mod 10 < 10" using n by simp_all
  then have "is_digit (digit_char (n div 100))" "is_digit (digit_char (n div 10 mod 10))" "is_digit (digit_char (n mod 10))"
    by (simp_all only: digit_char_facts)
  then have "is_packet_event (pad3 n @ ''-issued.json'')" "is_packet_event (pad3 n @ ''-reassigned.json'')"
    using n e by (simp_all add: pad3_short is_packet_event_def)
  then show ?thesis by (cases "n = 1") (simp_all only: packet_name_def reassigned_name_def issued_name_pad refl if_True if_False)
qed

lemma beyond_events: "\<not> is_packet_event (packet_name 1000)"
  by code_simp

section \<open>The evidence of a packet\<close>

text \<open>A directory that holds the first \<open>n\<close> evidence files.\<close>

definition numbered :: "packet_dir \<Rightarrow> bool" where
  "numbered d = (length d \<le> 1000 \<and> map fst d = map packet_name [1..<Suc (length d)])"

lemma numbered_Nil [simp]: "numbered []"
  by (simp add: numbered_def)

lemma sorted_names: "n < 1000 \<Longrightarrow> sorted (map packet_name [1..<Suc n])"
proof (induction n)
  case (Suc n)
  have "packet_name x \<le> packet_name (Suc n)" if "x < Suc n" for x
    using packet_name_less [of x "Suc n"] that Suc.prems by simp
  with Suc show ?case by (simp add: sorted_append less_imp_le del: upt_Suc add: upt_Suc_append)
qed simp

lemma sort_key_id: "sorted (map f xs) \<Longrightarrow> sort_key f xs = xs"
  by (rule sort_key_id_if_sorted)

lemma numbered_take:
  assumes "numbered d"
  shows "map fst (take 999 d) = map packet_name [1..<Suc (min 999 (length d))]"
proof -
  have "map fst (take 999 d) = take 999 (map packet_name [1..<Suc (length d)])"
    using assms by (simp add: numbered_def take_map [symmetric])
  also have "\<dots> = map packet_name (take 999 [1..<Suc (length d)])" by (simp only: take_map)
  also have "take 999 [1..<Suc (length d)] = [1..<Suc (min 999 (length d))]"
    by (simp add: take_upt min_def del: upt_Suc)
  finally show ?thesis .
qed

lemma packet_events_numbered:
  assumes "numbered d"
  shows "packet_events d = take 999 d"
proof -
  have front: "filter (\<lambda>(name, _). is_packet_event name) (take 999 d) = take 999 d"
  proof (rule filter_True)
    show "\<forall>x \<in> set (take 999 d). case x of (name, _) \<Rightarrow> is_packet_event name"
    proof
      fix x assume "x \<in> set (take 999 d)"
      then have "fst x \<in> set (map fst (take 999 d))" by simp
      then have "fst x \<in> packet_name ` {1..<Suc (min 999 (length d))}" unfolding numbered_take [OF assms] by (simp del: upt_Suc)
      then show "case x of (name, _) \<Rightarrow> is_packet_event name" using is_packet_event_name by (auto simp: case_prod_beta)
    qed
  qed
  have rest: "filter (\<lambda>(name, _). is_packet_event name) (drop 999 d) = []"
  proof (cases "length d \<le> 999")
    case False
    with assms have l: "length d = 1000" by (simp add: numbered_def)
    have "map fst (drop 999 d) = drop 999 (map packet_name [1..<Suc (length d)])"
      using assms by (simp add: numbered_def drop_map [symmetric] del: upt_Suc)
    also have "\<dots> = [packet_name 1000]" by (simp add: l drop_map del: upt_Suc) 
    finally have "set (map fst (drop 999 d)) = {packet_name 1000}" by simp
    then have "fst x = packet_name 1000" if "x \<in> set (drop 999 d)" for x using that by auto
    then show ?thesis using beyond_events by (auto simp: filter_empty_conv case_prod_beta)
  qed simp
  have "filter (\<lambda>(name, _). is_packet_event name) d = take 999 d"
    using front rest filter_append [of "\<lambda>(name, _). is_packet_event name" "take 999 d" "drop 999 d"] by simp
  moreover have "sorted (map fst (take 999 d))"
    unfolding numbered_take [OF assms] by (rule sorted_names) simp
  ultimately show ?thesis by (simp add: packet_events_def sort_key_id)
qed

lemma packet_name_fresh:
  assumes "numbered d" "length d < 999"
  shows "packet_name (Suc (length d)) \<notin> fst ` set d"
proof
  assume "packet_name (Suc (length d)) \<in> fst ` set d"
  then have "packet_name (Suc (length d)) \<in> set (map fst d)" by simp
  also have "map fst d = map packet_name [1..<Suc (length d)]" using assms(1) by (simp add: numbered_def del: upt_Suc)
  finally obtain k where "k < Suc (length d)" "packet_name k = packet_name (Suc (length d))"
    by (auto simp del: upt_Suc)
  with packet_name_less [of k "Suc (length d)"] assms(2) show False by simp
qed

lemma numbered_append:
  "numbered d \<Longrightarrow> length d < 1000 \<Longrightarrow> numbered (d @ [(packet_name (Suc (length d)), f)])"
  by (simp add: numbered_def)

section \<open>Operations that keep the packets\<close>

definition keeps_packets :: "('w packets, 'a) op \<Rightarrow> bool" where
  "keeps_packets m = (\<forall>st. ps_packets (snd (m st)) = ps_packets st)"

definition fails_clean :: "('w packets, 'a) op \<Rightarrow> bool" where
  "fails_clean m = (\<forall>st e st'. m st = (Inl e, st') \<longrightarrow> ps_packets st' = ps_packets st)"

named_theorems packet_intros \<open>operations that keep the packets\<close>

lemma keeps_packetsD: "keeps_packets m \<Longrightarrow> m st = (r, st') \<Longrightarrow> ps_packets st' = ps_packets st"
  by (metis keeps_packets_def snd_conv)

lemma keeps_liftE [packet_intros]: "keeps_packets (liftE r)"
  and keeps_readE [packet_intros]: "keeps_packets (readE g)"
  and keeps_returnS [packet_intros]: "keeps_packets (returnS x)"
  and keeps_failS [packet_intros]: "keeps_packets (failS e)"
  and keeps_in_world [packet_intros]: "keeps_packets (in_world w)"
  by (simp_all add: keeps_packets_def in_world_def split: prod.split)

lemma keeps_bindS [packet_intros]:
  "keeps_packets m \<Longrightarrow> (\<And>x. keeps_packets (f x)) \<Longrightarrow> keeps_packets (bindS m f)"
  by (auto simp: keeps_packets_def bindS_def split: prod.split sum.split) (metis snd_conv)+

lemma keeps_runtime_binding [packet_intros]: "keeps_packets (runtime_binding ad cs)"
  by (simp add: runtime_binding_def Let_def packet_intros)

lemma keeps_assignment_key [packet_intros]: "keeps_packets (assignment_key ad)"
  by (simp add: assignment_key_def packet_intros)

lemma keeps_timestamp [packet_intros]: "keeps_packets (timestamp ad)"
  by (auto simp: timestamp_def split: option.split intro!: packet_intros)

lemma keeps_persist [packet_intros]: "keeps_packets (persist_runtime_binding b)"
  by (simp add: keeps_packets_def persist_runtime_binding_def write_binding_once_def Let_def
      split: option.split evidence_file.split)

lemma clean_bindS: "keeps_packets m \<Longrightarrow> (\<And>x. fails_clean (f x)) \<Longrightarrow> fails_clean (bindS m f)"
  unfolding fails_clean_def by (auto simp: bindS_eq) (metis keeps_packetsD)+

lemma clean_write: "fails_clean (bindS (write_packet_once p n v) (\<lambda>_. returnS x))"
  by (auto simp: fails_clean_def bindS_eq write_packet_once_def split: if_splits)

lemma clean_assign: "fails_clean (assign_packet ad p n g b f h)"
  unfolding assign_packet_def Let_def by (intro clean_bindS clean_write packet_intros)

lemma clean_issue: "fails_clean (issue_packet ad r plan_obj t a)"
  unfolding issue_packet_def Let_def by (intro clean_bindS clean_assign packet_intros)

lemma clean_reassign: "fails_clean (reassign_packet ad p a n q)"
  unfolding reassign_packet_def Let_def split_def by (intro clean_bindS clean_assign packet_intros)

lemma packet_dir_cong: "ps_packets st' = ps_packets st \<Longrightarrow> packet_dir p st' = packet_dir p st"
  by (simp add: packet_dir_def)

lemma write_packet_InrE:
  assumes "write_packet_once p n v st = (Inr u, st')"
  obtains "n \<notin> fst ` set (packet_dir p st)" "packet_dir p st' = packet_dir p st @ [(n, Held (stored v))]"
    "\<And>q. q \<noteq> p \<Longrightarrow> packet_dir q st' = packet_dir q st"
proof -
  from assms have st': "st' = st\<lparr>ps_packets := AList.update p (packet_dir p st @ [(n, Held (stored v))]) (ps_packets st)\<rparr>"
    and n: "n \<notin> fst ` set (packet_dir p st)"
    by (auto simp: write_packet_once_def split: if_splits)
  have "packet_dir q st' = (if q = p then packet_dir p st @ [(n, Held (stored v))] else packet_dir q st)" for q
    by (simp add: st' packet_dir_def update_conv')
  then show ?thesis using that n by auto
qed

lemma key_not_blank: "assignment_key ad st = (Inr key, st') \<Longrightarrow> \<not> blank key"
  by (auto simp: assignment_key_def err_simps split: if_splits)

lemma assign_success:
  assumes "assign_packet ad p n g b packet_of evidence_of st = (Inr (packet, binding), st')"
  obtains key issued_at where "\<not> blank key" "binding = b"
    "packet = packet_of (run_identity (pk_sha ad) p g (pk_sha ad key)) key issued_at"
    "n \<notin> fst ` set (packet_dir p st)"
    "packet_dir p st' = packet_dir p st @ [(n, Held (stored (JObj (evidence_of packet
       (run_identity (pk_sha ad) p g (pk_sha ad key)) (pk_sha ad key) issued_at))))]"
    "\<And>q. q \<noteq> p \<Longrightarrow> packet_dir q st' = packet_dir q st"
proof -
  from assms obtain key s1 issued_at s2 s3 u v s4 where key: "assignment_key ad st = (Inr key, s1)"
    and time: "timestamp ad s1 = (Inr issued_at, s2)" and persist: "persist_runtime_binding b s2 = (Inr u, s3)"
    and packet: "packet = packet_of (run_identity (pk_sha ad) p g (pk_sha ad key)) key issued_at" "binding = b" "s4 = st'"
    and written: "write_packet_once p n (JObj (evidence_of packet
       (run_identity (pk_sha ad) p g (pk_sha ad key)) (pk_sha ad key) issued_at)) s3 = (Inr v, s4)"
    unfolding assign_packet_def Let_def by (elim bindS_InrE) auto
  have "ps_packets s3 = ps_packets st"
    using keeps_packetsD [OF keeps_assignment_key key] keeps_packetsD [OF keeps_timestamp time]
      keeps_packetsD [OF keeps_persist persist] by simp
  then have dir: "packet_dir q s3 = packet_dir q st" for q by (rule packet_dir_cong)
  from written show ?thesis
  proof (rule write_packet_InrE)
    assume w: "n \<notin> fst ` set (packet_dir p s3)" "packet_dir p s4 = packet_dir p s3 @ [(n, Held (stored (JObj (evidence_of packet
       (run_identity (pk_sha ad) p g (pk_sha ad key)) (pk_sha ad key) issued_at))))]"
      "\<And>q. q \<noteq> p \<Longrightarrow> packet_dir q s4 = packet_dir q s3"
    show ?thesis
      by (rule that [OF key_not_blank [OF key] packet(2,1)]) (use w dir packet(3) in auto)
  qed
qed

text \<open>What a successful issue has done.\<close>

lemma issue_success:
  assumes "issue_packet ad r plan_obj t a st = (Inr (packet, binding), st')"
  obtains task base normalized provenance key issued_at packet_id run st1 where
    "validate_plan_identity r plan_obj = Inr ()" "planned_task r plan_obj t = Inr task"
    "git_identity (pr_exact_base r) = Inr base" "authority_identity a = Inr normalized"
    "runtime_binding ad (pt_capabilities task) st = (Inr binding, st1)"
    "packet_id = stable_id (pk_sha ad) ''packet'' (stable_identity r task base provenance)"
    "\<not> blank key" "run = run_identity (pk_sha ad) packet_id 1 (pk_sha ad key)"
    "packet = issued_packet packet_id run (stable_identity r task base provenance) normalized binding key issued_at"
    "issued_name \<notin> fst ` set (packet_dir packet_id st)"
    "packet_dir packet_id st' = packet_dir packet_id st @
       [(issued_name, Held (stored (JObj (issued_evidence packet_id packet run (pk_sha ad key) issued_at))))]"
    "\<And>q. q \<noteq> packet_id \<Longrightarrow> packet_dir q st' = packet_dir q st"
proof -
  from assms obtain u task base normalized b s1 provenance where v: "validate_plan_identity r plan_obj = Inr u"
    "planned_task r plan_obj t = Inr task" "git_identity (pr_exact_base r) = Inr base" "authority_identity a = Inr normalized"
    and b: "runtime_binding ad (pt_capabilities task) st = (Inr b, s1)"
    and rest: "assign_packet ad (stable_id (pk_sha ad) ''packet'' (stable_identity r task base provenance)) issued_name 1 b
       (\<lambda>run key issued_at. issued_packet (stable_id (pk_sha ad) ''packet'' (stable_identity r task base provenance)) run
          (stable_identity r task base provenance) normalized b key issued_at)
       (\<lambda>packet run digest issued_at. issued_evidence (stable_id (pk_sha ad) ''packet'' (stable_identity r task base provenance))
          packet run digest issued_at) s1 = (Inr (packet, binding), st')"
    unfolding issue_packet_def Let_def by (elim lift_bindS_InrE readE_bindS_InrE bindS_InrE)
  have dir: "packet_dir q s1 = packet_dir q st" for q
    by (rule packet_dir_cong, rule keeps_packetsD [OF keeps_runtime_binding b])
  from rest show ?thesis
  proof (rule assign_success)
    fix key issued_at
    assume w: "\<not> blank key" "binding = b"
      "packet = issued_packet (stable_id (pk_sha ad) ''packet'' (stable_identity r task base provenance))
         (run_identity (pk_sha ad) (stable_id (pk_sha ad) ''packet'' (stable_identity r task base provenance)) 1 (pk_sha ad key))
         (stable_identity r task base provenance) normalized b key issued_at"
      "issued_name \<notin> fst ` set (packet_dir (stable_id (pk_sha ad) ''packet'' (stable_identity r task base provenance)) s1)"
      "packet_dir (stable_id (pk_sha ad) ''packet'' (stable_identity r task base provenance)) st' =
         packet_dir (stable_id (pk_sha ad) ''packet'' (stable_identity r task base provenance)) s1 @
         [(issued_name, Held (stored (JObj (issued_evidence (stable_id (pk_sha ad) ''packet'' (stable_identity r task base provenance))
            packet (run_identity (pk_sha ad) (stable_id (pk_sha ad) ''packet'' (stable_identity r task base provenance)) 1 (pk_sha ad key))
            (pk_sha ad key) issued_at))))]"
      "\<And>q. q \<noteq> stable_id (pk_sha ad) ''packet'' (stable_identity r task base provenance) \<Longrightarrow> packet_dir q st' = packet_dir q s1"
    show ?thesis
      by (rule that [OF _ v(2,3,4) _ refl w(1) refl]) (use v b w dir in auto)
  qed
qed

lemma reassign_success:
  assumes "reassign_packet ad p authority expected predecessor st = (Inr (packet, binding), st')"
  obtains previous assignment normalized capabilities key issued_at run st1 where
    "1 \<le> expected" "latest_assignment p st = Inr (previous, assignment)"
    "check_current assignment expected predecessor = Inr ()"
    "advanced_authority previous authority = Inr normalized" "required_capabilities previous = Inr capabilities"
    "runtime_binding ad capabilities st = (Inr binding, st1)"
    "\<not> blank key" "run = run_identity (pk_sha ad) p (expected + 1) (pk_sha ad key)"
    "packet = reassigned_packet previous run predecessor normalized binding (expected + 1) key issued_at"
    "reassigned_name (Suc (length (packet_events (packet_dir p st)))) \<notin> fst ` set (packet_dir p st)"
    "packet_dir p st' = packet_dir p st @ [(reassigned_name (Suc (length (packet_events (packet_dir p st)))),
       Held (stored (JObj (reassigned_evidence p packet assignment (expected + 1) run predecessor (pk_sha ad key) issued_at))))]"
    "\<And>q. q \<noteq> p \<Longrightarrow> packet_dir q st' = packet_dir q st"
proof -
  from assms obtain u previous assignment count v normalized capabilities b s1 where
    pos: "raise_if (blank p \<or> blank predecessor \<or> expected < 1) ValueError = Inr u"
    and latest: "latest_assignment p st = Inr (previous, assignment)" "count = length (packet_events (packet_dir p st))"
    and f: "check_current assignment expected predecessor = Inr v" "advanced_authority previous authority = Inr normalized"
      "required_capabilities previous = Inr capabilities"
    and b: "runtime_binding ad capabilities st = (Inr b, s1)"
    and rest: "assign_packet ad p (reassigned_name (count + 1)) (expected + 1) b
       (\<lambda>run key issued_at. reassigned_packet previous run predecessor normalized b (expected + 1) key issued_at)
       (\<lambda>packet run digest issued_at.
          reassigned_evidence p packet assignment (expected + 1) run predecessor digest issued_at) s1 = (Inr (packet, binding), st')"
    unfolding reassign_packet_def Let_def split_def
    by (elim lift_bindS_InrE readE_bindS_InrE bindS_InrE bindE_InrE) (auto)
  have dir: "packet_dir q s1 = packet_dir q st" for q
    by (rule packet_dir_cong, rule keeps_packetsD [OF keeps_runtime_binding b])
  from rest show ?thesis
  proof (rule assign_success)
    fix key issued_at
    let ?run = "run_identity (pk_sha ad) p (expected + 1) (pk_sha ad key)"
    assume w: "\<not> blank key" "binding = b"
      "packet = reassigned_packet previous ?run predecessor normalized b (expected + 1) key issued_at"
      "reassigned_name (count + 1) \<notin> fst ` set (packet_dir p s1)"
      "packet_dir p st' = packet_dir p s1 @ [(reassigned_name (count + 1),
        Held (stored (JObj (reassigned_evidence p packet assignment (expected + 1) ?run predecessor (pk_sha ad key) issued_at))))]"
      "\<And>q. q \<noteq> p \<Longrightarrow> packet_dir q st' = packet_dir q s1"
    have "1 \<le> expected" using pos by (auto simp: err_simps)
    then show ?thesis
      by (rule that [OF _ latest(1) _ f(2,3) _ w(1) refl]) (use f b w dir latest(2) in auto)
  qed
qed

section \<open>Assignments\<close>

record assignment =
  as_generation :: int
  as_run :: string
  as_predecessor :: "string option"
  as_digest :: string
  as_authority :: packet_authority
  as_capabilities :: "string list"

definition json_text :: "json \<Rightarrow> string option" where
  "json_text v = (case v of JStr s \<Rightarrow> Some s | _ \<Rightarrow> None)"

definition json_number :: "json \<Rightarrow> int option" where
  "json_number v = (case v of JInt n \<Rightarrow> Some n | _ \<Rightarrow> None)"

definition json_authority :: "json \<Rightarrow> packet_authority option" where
  "json_authority v =
     (case v of JObj d \<Rightarrow> (case authority_identity d of Inr a \<Rightarrow> Some a | Inl _ \<Rightarrow> None) | _ \<Rightarrow> None)"

text \<open>The active assignment that a packet and its assignment record describe.\<close>

definition assignment_in :: "obj \<Rightarrow> obj \<Rightarrow> assignment option" where
  "assignment_in packet a =
     (if field a ''state'' \<noteq> JStr ''active'' then None
      else Option.bind (json_number (field a ''generation'')) (\<lambda>g.
           Option.bind (json_text (field a ''run_id'')) (\<lambda>r.
           Option.bind (json_text (field a ''key_sha256'')) (\<lambda>k.
           Option.bind (json_authority (field packet ''authority'')) (\<lambda>u.
           Option.bind (text_items (field packet ''required_capabilities'')) (\<lambda>cs.
             Some \<lparr>as_generation = g, as_run = r, as_predecessor = json_text (field a ''predecessor_run_id''),
                   as_digest = k, as_authority = u, as_capabilities = cs\<rparr>))))))"

definition held_assignment :: "evidence_file \<Rightarrow> assignment option" where
  "held_assignment f =
     (case f of
        Held (JObj d) \<Rightarrow>
          (case (field d ''packet'', field d ''assignment'') of
             (JObj packet, JObj a) \<Rightarrow> assignment_in packet a
           | _ \<Rightarrow> None)
      | _ \<Rightarrow> None)"

definition succeeds :: "assignment \<Rightarrow> assignment \<Rightarrow> bool" where
  "succeeds a b =
     (as_generation b = as_generation a + 1 \<and> as_predecessor b = Some (as_run a) \<and>
      authority_advanced (as_authority a) (as_authority b) \<and> as_capabilities b = as_capabilities a)"

text \<open>The first assignment has generation one and no predecessor; every other one succeeds the one before.\<close>

definition linked :: "assignment list \<Rightarrow> bool" where
  "linked xs =
     ((case xs of [] \<Rightarrow> True | a # _ \<Rightarrow> as_generation a = 1 \<and> as_predecessor a = None) \<and> successively succeeds xs)"

lemma linked_Nil [simp]: "linked []"
  by (simp add: linked_def)

lemma linked_snoc:
  assumes "linked xs" "xs \<noteq> []" "succeeds (last xs) a"
  shows "linked (xs @ [a])"
proof -
  have "successively succeeds (xs @ [a])" using assms by (simp add: linked_def successively_append_iff)
  with assms(1,2) show ?thesis by (cases xs) (simp_all add: linked_def)
qed

lemma linked_prefix:
  assumes "linked (xs @ ys)"
  shows "linked xs"
proof -
  have "successively succeeds xs" using assms by (simp add: linked_def successively_append_iff)
  with assms show ?thesis by (cases xs) (simp_all add: linked_def)
qed

lemma linked_generation: "linked xs \<Longrightarrow> i < length xs \<Longrightarrow> as_generation (xs ! i) = int i + 1"
proof (induction i)
  case 0
  then show ?case by (cases xs) (simp_all add: linked_def)
next
  case (Suc i)
  then have "succeeds (xs ! i) (xs ! Suc i)" by (simp add: linked_def successively_conv_nth)
  with Suc show ?case by (simp add: succeeds_def)
qed

lemma linked_last: "linked xs \<Longrightarrow> xs \<noteq> [] \<Longrightarrow> as_generation (last xs) = int (length xs)"
  using linked_generation [of xs "length xs - 1"] by (cases xs rule: rev_cases) simp_all

section \<open>What the evidence says\<close>

lemma text_items_texts: "list_all (\<lambda>s. \<not> blank s) xs \<Longrightarrow> text_items (texts xs) = Some xs"
  by (simp add: text_items_def texts_def list_all_iff map_idI)

lemma text_items_stored: "text_items (stored v) = text_items v"
proof -
  have "(case stored x of JStr s \<Rightarrow> \<not> blank s | _ \<Rightarrow> False) = (case x of JStr s \<Rightarrow> \<not> blank s | _ \<Rightarrow> False)"
    "(case stored x of JStr s \<Rightarrow> s | _ \<Rightarrow> []) = (case x of JStr s \<Rightarrow> s | _ \<Rightarrow> [])" for x
    by (cases x; simp)+
  then show ?thesis by (cases v) (simp_all add: text_items_def list_all_iff)
qed

lemma authority_stored: "authority_identity (stored_obj d) = authority_identity d"
proof -
  have "authority_text (stored x) = authority_text x" "positive_int (stored x) = positive_int x" for x
    by (cases x; simp add: authority_text_def positive_int_def)+
  then show ?thesis by (simp only: authority_identity_def field_stored_any)
qed

lemma authority_again: "authority_identity d = Inr a \<Longrightarrow> authority_identity (authority_object a) = Inr a"
  by (auto simp: authority_identity_def authority_object_def authority_text_def positive_int_def authority_invalid_def
      err_simps split: json.splits if_splits)

lemma json_authority_stored: "authority_identity d = Inr a \<Longrightarrow> json_authority (stored (JObj (authority_object a))) = Some a"
  by (simp add: json_authority_def authority_stored [unfolded comp_def] authority_again)

lemma field_without: "k \<noteq> ''assignment'' \<Longrightarrow> field (without_assignment d) k = field d k"
  by (induction d) (auto simp: without_assignment_def)

text \<open>What evidence describes once it is stored.\<close>

lemma held_stored:
  "field d ''packet'' = JObj packet \<Longrightarrow> field d ''assignment'' = JObj a \<Longrightarrow>
     held_assignment (Held (stored (JObj d))) = assignment_in (stored_obj packet) (stored_obj a)"
  by (simp add: held_assignment_def field_stored_any)

lemma assignment_stored:
  assumes "text_items (field packet ''required_capabilities'') = Some cs" and "authority_identity d = Inr u"
    and "field packet ''authority'' = JObj (authority_object u)"
  shows "assignment_in (stored_obj (without_assignment packet)) (stored_obj (assignment_object g r q k)) =
    Some \<lparr>as_generation = g, as_run = r, as_predecessor = q, as_digest = k, as_authority = u, as_capabilities = cs\<rparr>"
  using assms json_authority_stored [OF assms(2)]
  by (cases q) (simp_all add: assignment_in_def field_stored_any field_without text_items_stored assignment_object_def
      json_number_def json_text_def optional_json_def)


text \<open>A directory whose evidence is numbered and describes a chain of assignments.\<close>

definition chained :: "(string \<Rightarrow> string) \<Rightarrow> string \<Rightarrow> packet_dir \<Rightarrow> assignment list \<Rightarrow> bool" where
  "chained sha p d xs =
     (numbered d \<and> map (\<lambda>f. held_assignment (snd f)) d = map Some xs \<and> linked xs \<and>
      (\<forall>a \<in> set xs. as_run a = run_identity sha p (as_generation a) (as_digest a)))"

lemma chained_length: "chained sha p d xs \<Longrightarrow> length xs = length d"
  unfolding chained_def by (metis length_map)

lemma chained_Nil [simp]: "chained sha p [] xs \<longleftrightarrow> xs = []"
  by (auto simp: chained_def)

lemma chained_events:
  assumes "chained sha p d xs"
  shows "packet_events d = take 999 d" "length (packet_events d) = min 999 (length d)"
    "map (\<lambda>f. held_assignment (snd f)) (packet_events d) = map Some (take 999 xs)" "linked (take 999 xs)"
proof -
  show e: "packet_events d = take 999 d" using assms by (auto simp: chained_def intro: packet_events_numbered)
  then show "length (packet_events d) = min 999 (length d)" by (simp add: min.commute)
  show "map (\<lambda>f. held_assignment (snd f)) (packet_events d) = map Some (take 999 xs)"
    using assms by (simp add: e chained_def take_map [symmetric])
  show "linked (take 999 xs)"
    using assms linked_prefix [of "take 999 xs" "drop 999 xs"] by (simp add: chained_def)
qed

lemma chained_latest:
  assumes "chained sha p (packet_dir p st) xs" "xs \<noteq> []"
  obtains packet a where "latest_assignment p st = Inr (packet, a)" "assignment_in packet a = Some (last (take 999 xs))"
proof -
  let ?e = "packet_events (packet_dir p st)"
  have m: "map (\<lambda>f. held_assignment (snd f)) ?e = map Some (take 999 xs)" by (rule chained_events(3) [OF assms(1)])
  have ne: "take 999 xs \<noteq> []" using assms(2) by simp
  then have ne': "?e \<noteq> []" using m by (metis map_is_Nil_conv)
  have "held_assignment (snd (last ?e)) = Some (last (take 999 xs))"
    using arg_cong [OF m, of last] unfolding last_map [OF ne] last_map [OF ne'] .
  then obtain d packet a where "snd (last ?e) = Held (JObj d)" "field d ''packet'' = JObj packet"
    "field d ''assignment'' = JObj a" "assignment_in packet a = Some (last (take 999 xs))"
    by (auto simp: held_assignment_def split: evidence_file.splits json.splits)
  with ne' that show ?thesis by (simp add: latest_assignment_def)
qed

lemma assignment_in_fields:
  assumes "assignment_in packet a = Some x"
  shows "field a ''state'' = JStr ''active''" "field a ''generation'' = JInt (as_generation x)"
    "field a ''run_id'' = JStr (as_run x)" "field packet ''authority'' = JObj (obj_or_empty (field packet ''authority''))"
    "authority_identity (obj_or_empty (field packet ''authority'')) = Inr (as_authority x)"
    "text_items (field packet ''required_capabilities'') = Some (as_capabilities x)"
  using assms
  by (auto simp: assignment_in_def json_number_def json_text_def json_authority_def obj_or_empty_def bind_eq_Some_conv
      split: if_splits json.splits sum.splits)

lemma check_current_accepts:
  "assignment_in packet a = Some x \<Longrightarrow>
     check_current a n q = Inr u \<longleftrightarrow> n = as_generation x \<and> q = as_run x"
  using assignment_in_fields [of packet a x] by (auto simp: check_current_def err_simps py_eq_def)

lemma advanced_authority_accepts:
  "assignment_in packet a = Some x \<Longrightarrow>
     advanced_authority packet d = Inr new \<longleftrightarrow> authority_identity d = Inr new \<and> authority_advanced (as_authority x) new"
  using assignment_in_fields(4,5) [of packet a x]
  by (cases "field packet ''authority''") (auto simp: advanced_authority_def err_simps obj_or_empty_def evidence_invalid_def)

lemma required_capabilities_of:
  "assignment_in packet a = Some x \<Longrightarrow> required_capabilities packet = Inr (as_capabilities x)"
  using assignment_in_fields(6) [of packet a x] by (simp add: required_capabilities_def)

text \<open>Extending a chain.\<close>

lemma chained_first:
  assumes "as_generation x = 1" "as_predecessor x = None" "as_run x = run_identity sha p 1 (as_digest x)"
    and "held_assignment f = Some x"
  shows "chained sha p [(issued_name, f)] [x]"
  using assms by (simp add: chained_def numbered_def packet_name_def linked_def)

lemma chained_more:
  assumes "chained sha p d xs" "xs \<noteq> []" "length xs < 1000" "succeeds (last xs) x"
    and "as_run x = run_identity sha p (as_generation x) (as_digest x)" "held_assignment f = Some x"
  shows "chained sha p (d @ [(packet_name (Suc (length d)), f)]) (xs @ [x])"
  using assms linked_snoc [OF _ assms(2,4)] chained_length [OF assms(1)]
  by (auto simp: chained_def intro!: numbered_append)

lemma names_of: "numbered d \<Longrightarrow> fst ` set d = packet_name ` {1..<Suc (length d)}"
  by (metis numbered_def set_map set_upt)

lemma issued_first: "numbered d \<Longrightarrow> issued_name \<notin> fst ` set d \<Longrightarrow> d = []"
proof (rule ccontr)
  assume d: "numbered d" "issued_name \<notin> fst ` set d" "d \<noteq> []"
  then have "1 \<in> {1..<Suc (length d)}" by (cases d) auto
  then have "packet_name 1 \<in> fst ` set d" unfolding names_of [OF d(1)] by (rule imageI)
  with d(2) show False by (simp add: packet_name_def)
qed

lemma thousandth:
  assumes "numbered d" "length d = 1000"
  shows "reassigned_name 1000 \<in> fst ` set d"
proof -
  have "1000 \<in> {1..<Suc (length d)}" using assms(2) by simp
  then have "packet_name 1000 \<in> fst ` set d" unfolding names_of [OF assms(1)] by (rule imageI)
  then show ?thesis by (simp add: packet_name_def)
qed

section \<open>Reachable states\<close>

text \<open>An operation with any adapters that use the same digest, and any change of the world in between.\<close>

inductive packet_step :: "(string \<Rightarrow> string) \<Rightarrow> 'w packets \<Rightarrow> 'w packets \<Rightarrow> bool" for sha where
  issued: "pk_sha ad = sha \<Longrightarrow> planner_request_init r = Inr r \<Longrightarrow> (\<forall>task \<in> set (pr_tasks r). planner_task_init task = Inr task) \<Longrightarrow>
     packet_step sha st (snd (issue_packet ad r plan_obj t authority st))"
| reassigned: "pk_sha ad = sha \<Longrightarrow> packet_step sha st (snd (reassign_packet ad p authority expected predecessor st))"
| elsewhere: "packet_step sha st (st\<lparr>ps_world := w\<rparr>)"

inductive packets_reachable :: "(string \<Rightarrow> string) \<Rightarrow> 'w packets \<Rightarrow> bool" for sha where
  empty: "ps_packets st = [] \<Longrightarrow> packets_reachable sha st"
| step: "packets_reachable sha st \<Longrightarrow> packet_step sha st st' \<Longrightarrow> packets_reachable sha st'"

definition packets_chained :: "(string \<Rightarrow> string) \<Rightarrow> 'w packets \<Rightarrow> bool" where
  "packets_chained sha st = (\<forall>p. \<exists>xs. chained sha p (packet_dir p st) xs)"

lemma planned_task_in: "planned_task r plan_obj t = Inr task \<Longrightarrow> map_of (task_dict (pr_tasks r)) t = Some task"
  by (auto simp: planned_task_def split: option.splits json.splits if_splits)

lemma task_dict_in: "map_of (task_dict ts) t = Some task \<Longrightarrow> task \<in> set ts \<and> pt_id task = t"
proof -
  have "map_of (foldl (\<lambda>d x. AList.update (pt_id x) x d) d ts) t = Some task \<Longrightarrow>
      (task \<in> set ts \<and> pt_id task = t) \<or> map_of d t = Some task" for d
    by (induction ts arbitrary: d) (fastforce simp: update_conv' split: if_splits)+
  then show "map_of (task_dict ts) t = Some task \<Longrightarrow> task \<in> set ts \<and> pt_id task = t"
    by (fastforce simp: task_dict_def)
qed

text \<open>A successful issue starts the chain of its packet.\<close>

lemma issue_chain:
  assumes "issue_packet ad r plan_obj t authority st = (Inr (packet, binding), st')"
    and "\<forall>task \<in> set (pr_tasks r). planner_task_init task = Inr task" and "packets_chained (pk_sha ad) st"
  obtains p x task new key where "field packet ''packet_id'' = JStr p" "packet_dir p st = []"
    "chained (pk_sha ad) p (packet_dir p st') [x]" "\<And>q. q \<noteq> p \<Longrightarrow> packet_dir q st' = packet_dir q st"
    "planned_task r plan_obj t = Inr task" "authority_identity authority = Inr new"
    "x = \<lparr>as_generation = 1, as_run = run_identity (pk_sha ad) p 1 (pk_sha ad key), as_predecessor = None,
       as_digest = pk_sha ad key, as_authority = new, as_capabilities = sort (pt_capabilities task)\<rparr>"
    "field packet ''assignment'' = JObj [(''generation'', JInt 1), (''key'', JStr key)]"
  using assms(1)
proof (rule issue_success)
  fix task base normalized provenance key issued_at p run st1
  let ?id = "stable_identity r task base provenance"
  assume i: "planned_task r plan_obj t = Inr task" "authority_identity authority = Inr normalized"
    "run = run_identity (pk_sha ad) p 1 (pk_sha ad key)"
    "packet = issued_packet p run ?id normalized binding key issued_at"
    "issued_name \<notin> fst ` set (packet_dir p st)"
    "packet_dir p st' = packet_dir p st @ [(issued_name, Held (stored (JObj (issued_evidence p packet run (pk_sha ad key) issued_at))))]"
    "\<And>q. q \<noteq> p \<Longrightarrow> packet_dir q st' = packet_dir q st"
  obtain xs where "chained (pk_sha ad) p (packet_dir p st) xs" using assms(3) by (auto simp: packets_chained_def)
  then have empty: "packet_dir p st = []" using issued_first i(5) by (auto simp: chained_def)
  from task_dict_in [OF planned_task_in [OF i(1)]] assms(2) have "planner_task_init task = Inr task" by blast
  then have caps: "list_all (\<lambda>s. \<not> blank s) (sort (pt_capabilities task))"
    by (auto simp: planner_task_init_def bad_values_def list_all_iff split: if_splits)
  let ?x = "\<lparr>as_generation = 1, as_run = run, as_predecessor = None, as_digest = pk_sha ad key, as_authority = normalized,
    as_capabilities = sort (pt_capabilities task)\<rparr>"
  have pf: "field packet ''required_capabilities'' = texts (sort (pt_capabilities task))"
    "field packet ''authority'' = JObj (authority_object normalized)" "field packet ''packet_id'' = JStr p"
    "field packet ''assignment'' = JObj [(''generation'', JInt 1), (''key'', JStr key)]"
    by (simp_all add: i(4) issued_packet_def stable_identity_def)
  have "text_items (field packet ''required_capabilities'') = Some (sort (pt_capabilities task))"
    unfolding pf(1) by (rule text_items_texts [OF caps])
  from assignment_stored [OF this i(2) pf(2), of 1 run None "pk_sha ad key"]
  have "held_assignment (Held (stored (JObj (issued_evidence p packet run (pk_sha ad key) issued_at)))) = Some ?x"
    by (subst held_stored) (simp_all add: issued_evidence_def)
  then have "chained (pk_sha ad) p (packet_dir p st') [?x]"
    unfolding i(6) empty append_Nil by (intro chained_first) (simp_all add: i(3))
  then show ?thesis using that [OF pf(3) empty _ i(7) i(1,2) _ pf(4)] i(3) by simp
qed

text \<open>A successful reassignment extends the chain.\<close>

lemma reassign_chain:
  assumes "reassign_packet ad p authority expected predecessor st = (Inr (packet, binding), st')"
    and "packets_chained (pk_sha ad) st"
  obtains xs x new key where "chained (pk_sha ad) p (packet_dir p st) xs" "xs \<noteq> []" "length xs \<le> 999"
    "expected = int (length xs)" "predecessor = as_run (last xs)" "authority_identity authority = Inr new"
    "authority_advanced (as_authority (last xs)) new"
    "chained (pk_sha ad) p (packet_dir p st') (xs @ [x])" "\<And>q. q \<noteq> p \<Longrightarrow> packet_dir q st' = packet_dir q st"
    "x = \<lparr>as_generation = expected + 1, as_run = run_identity (pk_sha ad) p (expected + 1) (pk_sha ad key),
       as_predecessor = Some predecessor, as_digest = pk_sha ad key, as_authority = new,
       as_capabilities = as_capabilities (last xs)\<rparr>"
    "field packet ''assignment'' = JObj [(''generation'', JInt (expected + 1)), (''key'', JStr key)]"
  using assms(1)
proof (rule reassign_success)
  fix previous assignment normalized capabilities key issued_at run st1
  assume r: "latest_assignment p st = Inr (previous, assignment)"
    "check_current assignment expected predecessor = Inr ()" "advanced_authority previous authority = Inr normalized"
    "required_capabilities previous = Inr capabilities"
    "run = run_identity (pk_sha ad) p (expected + 1) (pk_sha ad key)"
    "packet = reassigned_packet previous run predecessor normalized binding (expected + 1) key issued_at"
    "reassigned_name (Suc (length (packet_events (packet_dir p st)))) \<notin> fst ` set (packet_dir p st)"
    "packet_dir p st' = packet_dir p st @ [(reassigned_name (Suc (length (packet_events (packet_dir p st)))),
       Held (stored (JObj (reassigned_evidence p packet assignment (expected + 1) run predecessor (pk_sha ad key) issued_at))))]"
    "\<And>q. q \<noteq> p \<Longrightarrow> packet_dir q st' = packet_dir q st"
  obtain xs where xs: "chained (pk_sha ad) p (packet_dir p st) xs" using assms(2) by (auto simp: packets_chained_def)
  have nd: "numbered (packet_dir p st)" using xs by (simp add: chained_def)
  have len: "length (packet_dir p st) = length xs" using chained_length [OF xs] by simp
  have ne: "xs \<noteq> []"
  proof
    assume "xs = []"
    with len have "packet_dir p st = []" by simp
    with r(1) show False by (simp add: latest_assignment_def packet_events_def)
  qed
  have "length xs \<noteq> 1000"
    using thousandth [OF nd] r(7) len chained_events(2) [OF xs] by auto
  moreover have "length xs \<le> 1000" using nd len by (simp add: numbered_def)
  ultimately have short: "length xs \<le> 999" by linarith
  then have full: "take 999 xs = xs" "length (packet_events (packet_dir p st)) = length xs"
    using chained_events(2) [OF xs] len by simp_all
  from chained_latest [OF xs ne] r(1) have a: "assignment_in previous assignment = Some (last xs)"
    unfolding full by (metis prod.inject sum.inject(2))
  have cur: "expected = as_generation (last xs)" "predecessor = as_run (last xs)"
    using r(2) check_current_accepts [OF a] by auto
  have adv: "authority_identity authority = Inr normalized" "authority_advanced (as_authority (last xs)) normalized"
    using r(3) advanced_authority_accepts [OF a] by auto
  have gen: "expected = int (length xs)" using cur(1) linked_last [of xs] xs ne by (simp add: chained_def)
  let ?x = "\<lparr>as_generation = expected + 1, as_run = run, as_predecessor = Some predecessor, as_digest = pk_sha ad key,
    as_authority = normalized, as_capabilities = as_capabilities (last xs)\<rparr>"
  have pf: "field packet ''required_capabilities'' = field previous ''required_capabilities''"
    "field packet ''authority'' = JObj (authority_object normalized)"
    "field packet ''assignment'' = JObj [(''generation'', JInt (expected + 1)), (''key'', JStr key)]"
    by (simp_all add: r(6) reassigned_packet_def field_dict_update)
  have "text_items (field packet ''required_capabilities'') = Some (as_capabilities (last xs))"
    unfolding pf(1) by (rule assignment_in_fields(6) [OF a])
  from assignment_stored [OF this adv(1) pf(2), of "expected + 1" run "Some predecessor" "pk_sha ad key"]
  have held: "held_assignment (Held (stored (JObj (reassigned_evidence p packet assignment (expected + 1) run predecessor
      (pk_sha ad key) issued_at)))) = Some ?x"
    by (subst held_stored) (simp_all add: reassigned_evidence_def)
  have next_: "succeeds (last xs) ?x" using cur adv(2) by (simp add: succeeds_def)
  have name: "reassigned_name (Suc (length xs)) = packet_name (Suc (length (packet_dir p st)))"
    using len ne by (simp add: packet_name_def)
  have "chained (pk_sha ad) p (packet_dir p st') (xs @ [?x])"
    unfolding r(8) full name by (rule chained_more [OF xs ne _ next_ _ held]) (use short r(5) in simp_all)
  with that [OF xs ne short gen cur(2) adv _ r(9) _ pf(3)] r(5) show ?thesis by simp
qed

lemma packets_chained_step:
  assumes "packet_step sha st st'" "packets_chained sha st"
  shows "packets_chained sha st'"
  using assms(1)
proof cases
  case (issued ad r plan_obj t authority)
  show ?thesis
  proof (cases "issue_packet ad r plan_obj t authority st")
    case (Pair res s)
    show ?thesis
    proof (cases res)
      case (Inl e)
      then have "ps_packets st' = ps_packets st"
        using clean_issue [of ad r plan_obj t authority] Pair issued(1) by (simp add: fails_clean_def)
      from packet_dir_cong [OF this] assms(2) show ?thesis by (simp add: packets_chained_def)
    next
      case (Inr v)
      then have ok: "issue_packet ad r plan_obj t authority st = (Inr (fst v, snd v), st')" using Pair issued(1) by simp
      from issue_chain [OF ok issued(4)] assms(2) issued(2) obtain p x where "chained sha p (packet_dir p st') [x]"
        "\<And>q. q \<noteq> p \<Longrightarrow> packet_dir q st' = packet_dir q st" by metis
      with assms(2) show ?thesis unfolding packets_chained_def by metis
    qed
  qed
next
  case (reassigned ad p authority expected predecessor)
  show ?thesis
  proof (cases "reassign_packet ad p authority expected predecessor st")
    case (Pair res s)
    show ?thesis
    proof (cases res)
      case (Inl e)
      then have "ps_packets st' = ps_packets st"
        using clean_reassign [of ad p authority expected predecessor] Pair reassigned(1) by (simp add: fails_clean_def)
      from packet_dir_cong [OF this] assms(2) show ?thesis by (simp add: packets_chained_def)
    next
      case (Inr v)
      then have ok: "reassign_packet ad p authority expected predecessor st = (Inr (fst v, snd v), st')"
        using Pair reassigned(1) by simp
      from reassign_chain [OF ok] assms(2) reassigned(2) obtain ys where "chained sha p (packet_dir p st') ys"
        "\<And>q. q \<noteq> p \<Longrightarrow> packet_dir q st' = packet_dir q st" by metis
      with assms(2) show ?thesis unfolding packets_chained_def by metis
    qed
  qed
next
  case (elsewhere w)
  with assms(2) show ?thesis by (simp add: packets_chained_def packet_dir_def)
qed

lemma reachable_chained: "packets_reachable sha st \<Longrightarrow> packets_chained sha st"
proof (induction rule: packets_reachable.induct)
  case (empty st)
  then have "packet_dir p st = []" for p by (simp add: packet_dir_def)
  then show ?case by (simp add: packets_chained_def)
qed (rule packets_chained_step)

text \<open>No evidence is removed or replaced.\<close>

lemma packet_step_grows:
  assumes "packet_step sha st st'"
  shows "prefix (packet_dir p st) (packet_dir p st')"
  using assms
proof cases
  case (issued ad r plan_obj t authority)
  show ?thesis
  proof (cases "issue_packet ad r plan_obj t authority st")
    case (Pair res s)
    show ?thesis
    proof (cases res)
      case (Inl e)
      then have "ps_packets st' = ps_packets st"
        using clean_issue [of ad r plan_obj t authority] Pair issued(1) by (simp add: fails_clean_def)
      from packet_dir_cong [OF this] show ?thesis by simp
    next
      case (Inr v)
      then have "issue_packet ad r plan_obj t authority st = (Inr (fst v, snd v), st')" using Pair issued(1) by simp
      then show ?thesis by (rule issue_success) (metis prefixI prefix_order.order_refl)
    qed
  qed
next
  case (reassigned ad q authority expected predecessor)
  show ?thesis
  proof (cases "reassign_packet ad q authority expected predecessor st")
    case (Pair res s)
    show ?thesis
    proof (cases res)
      case (Inl e)
      then have "ps_packets st' = ps_packets st"
        using clean_reassign [of ad q authority expected predecessor] Pair reassigned(1) by (simp add: fails_clean_def)
      from packet_dir_cong [OF this] show ?thesis by simp
    next
      case (Inr v)
      then have "reassign_packet ad q authority expected predecessor st = (Inr (fst v, snd v), st')"
        using Pair reassigned(1) by simp
      then show ?thesis by (rule reassign_success) (metis prefixI prefix_order.order_refl)
    qed
  qed
next
  case (elsewhere w)
  then show ?thesis by (simp add: packet_dir_def)
qed

lemma packet_steps_grow: "(packet_step sha)\<^sup>*\<^sup>* st st' \<Longrightarrow> prefix (packet_dir p st) (packet_dir p st')"
  by (induction rule: rtranclp_induct) (use packet_step_grows prefix_order.order_trans in blast)+

end
