(* ===== verification/Work_Packet_Claims.thy ===== *)
theory Work_Packet_Claims
  imports Work_Packet_Facts
begin

text \<open>
  What the work packets promise: the evidence of a packet is a chain of assignments, a reassignment is accepted from
  the current assignment only, a packet is issued once, and the runtime it is bound to was discovered, covers the
  capabilities and grants no authority.
\<close>

section \<open>Claims about work packets\<close>

text \<open>C14: In every reachable state the evidence of a packet is a chain of assignments: the first has generation one
  and no predecessor, every later one has the next generation, names the run before it, and moves the authority of the
  same reservation to a higher revision, a higher fence and another lease for the same capabilities; each run is
  identified by the packet, the generation and the digest of its key.\<close>

theorem packet_assignment_chain:
  assumes "packets_reachable sha st"
  shows "\<exists>xs. map (\<lambda>f. held_assignment (snd f)) (packet_events (packet_dir p st)) = map Some xs \<and> linked xs \<and>
    (\<forall>a \<in> set xs. as_run a = run_identity sha p (as_generation a) (as_digest a))"
proof -
  obtain xs where xs: "chained sha p (packet_dir p st) xs"
    using reachable_chained [OF assms] by (auto simp: packets_chained_def)
  show ?thesis
  proof (intro exI conjI)
    show "\<forall>a \<in> set (take 999 xs). as_run a = run_identity sha p (as_generation a) (as_digest a)"
      using xs by (auto simp: chained_def dest: in_set_takeD)
  qed (rule chained_events [OF xs])+
qed

text \<open>C15: A reassignment in a reachable state succeeds only for the current generation and run, with an authority that
  has moved on; it adds exactly one assignment, with a run and digest of the key that only its caller receives, and
  leaves every other packet alone.\<close>

theorem reassignment_succeeds_current:
  assumes "packets_reachable (pk_sha ad) st"
    and "map (\<lambda>f. held_assignment (snd f)) (packet_events (packet_dir p st)) = map Some xs"
    and "length xs < 999"
    and "reassign_packet ad p authority expected predecessor st = (Inr (packet, binding), st')"
  shows "\<exists>new key. xs \<noteq> [] \<and> expected = int (length xs) \<and> predecessor = as_run (last xs) \<and>
    authority_identity authority = Inr new \<and> authority_advanced (as_authority (last xs)) new \<and>
    field packet ''assignment'' = JObj [(''generation'', JInt (expected + 1)), (''key'', JStr key)] \<and>
    map (\<lambda>f. held_assignment (snd f)) (packet_events (packet_dir p st')) =
      map Some (xs @ [\<lparr>as_generation = expected + 1,
        as_run = run_identity (pk_sha ad) p (expected + 1) (pk_sha ad key), as_predecessor = Some predecessor,
        as_digest = pk_sha ad key, as_authority = new, as_capabilities = as_capabilities (last xs)\<rparr>]) \<and>
    (\<forall>q. q \<noteq> p \<longrightarrow> packet_dir q st' = packet_dir q st)"
  using assms(4) reachable_chained [OF assms(1)]
proof (rule reassign_chain)
  fix ys x new key
  assume c: "chained (pk_sha ad) p (packet_dir p st) ys" "ys \<noteq> []" "length ys \<le> 999" "expected = int (length ys)"
    "predecessor = as_run (last ys)" "authority_identity authority = Inr new"
    "authority_advanced (as_authority (last ys)) new" "chained (pk_sha ad) p (packet_dir p st') (ys @ [x])"
    "\<And>q. q \<noteq> p \<Longrightarrow> packet_dir q st' = packet_dir q st"
    "x = \<lparr>as_generation = expected + 1, as_run = run_identity (pk_sha ad) p (expected + 1) (pk_sha ad key),
       as_predecessor = Some predecessor, as_digest = pk_sha ad key, as_authority = new,
       as_capabilities = as_capabilities (last ys)\<rparr>"
    "field packet ''assignment'' = JObj [(''generation'', JInt (expected + 1)), (''key'', JStr key)]"
  have "map Some xs = map Some (take 999 ys)" using assms(2) chained_events(3) [OF c(1)] by simp
  then have xs: "xs = ys" using c(3) by (simp add: inj_map_eq_map)
  have "map (\<lambda>f. held_assignment (snd f)) (packet_events (packet_dir p st')) = map Some (xs @ [x])"
    using chained_events(3) [OF c(8)] assms(3) xs by simp
  with c xs show ?thesis by blast
qed



text \<open>C16: A packet is issued once: after an issue has succeeded no later issue, with any adapters that use the same
  digest and after any further operations, returns a packet of the same identity; the issued packet carries the task,
  the scope and the exact base of the request.\<close>

theorem packet_issued_once:
  assumes "issue_packet ad r plan_obj t authority st = (Inr (packet, binding), st')"
    and "(packet_step (pk_sha ad))\<^sup>*\<^sup>* st' st2" and "pk_sha ad2 = pk_sha ad"
  shows "(case fst (issue_packet ad2 r2 plan_obj2 t2 authority2 st2) of
       Inr (packet2, _) \<Rightarrow> field packet2 ''packet_id'' \<noteq> field packet ''packet_id'' | Inl _ \<Rightarrow> True) \<and>
    (\<exists>task base. planned_task r plan_obj t = Inr task \<and> git_identity (pr_exact_base r) = Inr base \<and>
       field packet ''task_id'' = JStr (pt_id task) \<and> field packet ''exact_base'' = JObj (git_object base) \<and>
       field packet ''scope'' = JObj [(''owned_paths'', texts (sort (pt_owned task))),
         (''shared_paths'', texts (sort (pt_shared task))), (''integration_owner'', optional_json (pt_owner task))])"
proof -
  have id: "\<exists>p. field packet ''packet_id'' = JStr p \<and> issued_name \<in> fst ` set (packet_dir p st') \<and>
      (\<exists>task base. planned_task r plan_obj t = Inr task \<and> git_identity (pr_exact_base r) = Inr base \<and>
       field packet ''task_id'' = JStr (pt_id task) \<and> field packet ''exact_base'' = JObj (git_object base) \<and>
       field packet ''scope'' = JObj [(''owned_paths'', texts (sort (pt_owned task))),
         (''shared_paths'', texts (sort (pt_shared task))), (''integration_owner'', optional_json (pt_owner task))])"
    using assms(1) by (rule issue_success) (auto simp: issued_packet_def stable_identity_def)
  then obtain p where p: "field packet ''packet_id'' = JStr p" "issued_name \<in> fst ` set (packet_dir p st')" by blast
  have "prefix (packet_dir p st') (packet_dir p st2)" by (rule packet_steps_grow [OF assms(2)])
  then have old: "issued_name \<in> fst ` set (packet_dir p st2)" using p(2) by (auto simp: prefix_def)
  have "field packet2 ''packet_id'' \<noteq> field packet ''packet_id''"
    if "issue_packet ad2 r2 plan_obj2 t2 authority2 st2 = (Inr (packet2, binding2), st3)" for packet2 binding2 st3
  proof -
    have "\<exists>q. field packet2 ''packet_id'' = JStr q \<and> issued_name \<notin> fst ` set (packet_dir q st2)"
      using that by (rule issue_success) (auto simp: issued_packet_def stable_identity_def)
    with old p(1) show ?thesis by auto
  qed
  then have "case fst (issue_packet ad2 r2 plan_obj2 t2 authority2 st2) of
       Inr (packet2, _) \<Rightarrow> field packet2 ''packet_id'' \<noteq> field packet ''packet_id'' | Inl _ \<Rightarrow> True"
    by (cases "issue_packet ad2 r2 plan_obj2 t2 authority2 st2") (auto split: sum.split)
  with id show ?thesis by blast
qed

section \<open>The choice of the runtime\<close>

text \<open>A discovered candidate that covers the capabilities, grants no mutation authority, and its normal form.\<close>

definition offers :: "(string \<Rightarrow> bool) \<Rightarrow> string list \<Rightarrow> obj \<Rightarrow> obj \<Rightarrow> bool" where
  "offers aware required d n =
     (case text_items (field_or d ''capabilities'' (JArr [])) of
        None \<Rightarrow> False
      | Some raw \<Rightarrow> set required \<subseteq> set raw \<and> field d ''grants_mutation_authority'' = JBool False \<and>
          normalize_runtime_candidate aware d (sort (remdups raw)) = Inr n)"

lemma considered:
  "foldE (consider_candidate aware required) acc cs = Inr found \<Longrightarrow>
     set (fst found) = set (fst acc) \<union> {n. \<exists>d. JObj d \<in> set cs \<and> offers aware required d n}"
proof (induction cs arbitrary: acc)
  case (Cons c cs)
  from Cons.prems obtain acc' where step: "consider_candidate aware required acc c = Inr acc'"
    and rest: "foldE (consider_candidate aware required) acc' cs = Inr found" by (auto simp: err_simps)
  have "set (fst acc') = set (fst acc) \<union> {n. \<exists>d. JObj d = c \<and> offers aware required d n}"
    using step
    by (auto simp: consider_candidate_def offers_def Let_def err_simps split: json.splits option.splits if_splits)
  with Cons.IH [OF rest] show ?case by auto
qed simp

lemma normalized_grants: "normalize_runtime_candidate aware d cs = Inr n \<Longrightarrow> field n ''grants_mutation_authority'' = JBool False"
proof -
  assume "normalize_runtime_candidate aware d cs = Inr n"
  then obtain fs revision where fs: "mapE (candidate_text d) candidate_texts = Inr fs"
    and n: "n = [(''schema_version'', JInt 1), (''contract'', JStr ''coordinator-runtime-binding-v1'')] @ fs @
       [(''runtime_revision'', JStr revision), (''capabilities'', texts cs), (''grants_mutation_authority'', JBool False)]"
    by (auto simp: normalize_runtime_candidate_def err_simps)
  have "fst y = f" if "candidate_text d f = Inr y" for f y
    using that by (cases "field d f") (auto simp: candidate_text_def split: if_splits)
  then have "fst y \<in> set candidate_texts" if "y \<in> set fs" for y
    using mapE_set [OF fs that] by blast
  then have "''grants_mutation_authority'' \<notin> fst ` set fs" by (force simp: candidate_texts_def)
  then have "map_of fs ''grants_mutation_authority'' = None" by (simp add: map_of_eq_None_iff)
  then show ?thesis by (simp add: n field_def field_or_def map_add_def)
qed

text \<open>The runtime that a packet is bound to is one of the discovered candidates; it covers the required
  capabilities, it grants no mutation authority, and its canonical text is the least one, so that the choice does not
  depend on the order of discovery.\<close>

theorem runtime_binding_least:
  assumes "runtime_binding ad capabilities st = (Inr binding, st')"
    and "fst (pk_runtime ad (sort capabilities) (ps_world st)) = Inr candidates"
  shows "\<exists>d n. JObj d \<in> set candidates \<and> offers (pk_aware ad) capabilities d n \<and>
    binding = dict_update n [(''binding_fingerprint'', JStr (pk_sha ad (plain_json (JObj n))))] \<and>
    field binding ''grants_mutation_authority'' = JBool False \<and>
    (\<forall>d' n'. JObj d' \<in> set candidates \<longrightarrow> offers (pk_aware ad) capabilities d' n' \<longrightarrow>
       plain_json (JObj n) \<le> plain_json (JObj n'))"
proof -
  from assms obtain found where found: "foldE (consider_candidate (pk_aware ad) (sort capabilities)) ([], False) candidates = Inr found"
    and chosen: "choose_binding (pk_sha ad) found = Inr binding"
    by (auto simp: runtime_binding_def Let_def in_world_def err_simps split: prod.splits)
  have "offers aware (sort cs) d n = offers aware cs d n" for aware cs d n by (simp add: offers_def split: option.split)
  with considered [OF found] have set_: "set (fst found) = {n. \<exists>d. JObj d \<in> set candidates \<and> offers (pk_aware ad) capabilities d n}"
    by simp
  let ?text = "\<lambda>d. plain_json (JObj d)"
  from chosen obtain n rest where n: "sort_key ?text (fst found) = n # rest"
    and b: "binding = dict_update n [(''binding_fingerprint'', JStr (pk_sha ad (plain_json (JObj n))))]"
    by (auto simp: choose_binding_def split: list.splits)
  have mem: "set (n # rest) = set (fst found)" unfolding n [symmetric] by simp
  have "sorted (map ?text (n # rest))" unfolding n [symmetric] by simp
  then have least: "?text n \<le> ?text m" if "m \<in> set (fst found)" for m using that mem by auto
  from mem set_ obtain d where d: "JObj d \<in> set candidates" "offers (pk_aware ad) capabilities d n" by auto
  then have "field n ''grants_mutation_authority'' = JBool False"
    by (auto simp: offers_def dest: normalized_grants split: option.splits)
  then have "field binding ''grants_mutation_authority'' = JBool False" by (simp add: b field_dict_update)
  with d b least set_ show ?thesis by blast
qed

section \<open>A concrete packet\<close>

definition demo_task :: planner_task where
  "demo_task = \<lparr>pt_id = ''t'', pt_outcome = ''o'', pt_owned = [''a''], pt_checks = [''c''], pt_shared = [], pt_dependencies = [],
     pt_capabilities = [''x''], pt_owner = None, pt_kind = ''task''\<rparr>"

definition demo_request :: planner_request where
  "demo_request =
     \<lparr>pr_project = ''p'', pr_change = ''c'', pr_work = ''w'', pr_slice = ''s'', pr_revision = 1,
      pr_exact_base = [(''commit_sha'', replicate 40 (CHR ''a'')), (''tree_sha'', replicate 40 (CHR ''a''))],
      pr_tasks = [demo_task], pr_root = ''.'', pr_worktree = ''.'', pr_phase = ''i'', pr_references = [],
      pr_work_management = None, pr_provenance = None, pr_verification_ids = []\<rparr>"

definition demo_plan :: obj where
  "demo_plan = (case plan demo_request of Inr p \<Rightarrow> plan_object p | Inl _ \<Rightarrow> [])"

definition demo_candidate :: "string \<Rightarrow> obj" where
  "demo_candidate b = map (\<lambda>f. (f, JStr (if f = ''transport'' then ''mcp'' else b))) candidate_texts @
     [(''runtime_revision'', JStr (replicate 40 (CHR ''a''))), (''capabilities'', texts [''x'']),
      (''grants_mutation_authority'', JBool False)]"

text \<open>The world counts the keys; every text has the same digest.\<close>

definition demo_adapters :: "string \<Rightarrow> nat packet_adapters" where
  "demo_adapters b =
     \<lparr>pk_runtime = (\<lambda>_ w. (Inr [JObj (demo_candidate b)], w)), pk_provenance = None,
      pk_token = (\<lambda>w. (Inr (replicate (Suc w) (CHR ''k'')), Suc w)), pk_clock = (\<lambda>w. (Inr (Some ''now''), w)),
      pk_sha = (\<lambda>_. ''h''), pk_aware = (\<lambda>_. True)\<rparr>"

definition demo_authority :: "int \<Rightarrow> string \<Rightarrow> obj" where
  "demo_authority n l =
     [(''reservation_id'', JStr ''r''), (''lease_id'', JStr l), (''authority_revision'', JInt n), (''fence_token'', JInt n)]"

definition demo_start :: "nat packets" where
  "demo_start = \<lparr>ps_packets = [], ps_bindings = [], ps_world = 0\<rparr>"

definition demo_issue :: "(obj \<times> obj) result \<times> nat packets" where
  "demo_issue = issue_packet (demo_adapters ''b'') demo_request demo_plan ''t'' (demo_authority 1 ''l'') demo_start"

text \<open>The sorted field names, once and for all.\<close>

lemma handoff_fields_sorted [code]:
  "required_handoff_fields =
     [''assignment_generation'', ''attempt_id'', ''authority_revision'', ''change_id'', ''changed_paths'', ''evidence'',
      ''exact_head'', ''execution_id'', ''external_provenance'', ''fence_token'', ''governed_worktree'', ''handoff_id'',
      ''lifecycle_phase'', ''observed_at'', ''packet_id'', ''project_id'', ''reservation_id'', ''residual_state'',
      ''result_id'', ''run_id'', ''runtime_binding'', ''status'', ''task_id'', ''worker_id'']"
  by code_simp

definition demo_first :: assignment where
  "demo_first = \<lparr>as_generation = 1, as_run = ''run-h'', as_predecessor = None, as_digest = ''h'',
     as_authority = \<lparr>pa_reservation = ''r'', pa_revision = 1, pa_lease = ''l'', pa_fence = 1\<rparr>, as_capabilities = [''x'']\<rparr>"

definition demo_reassign :: "(obj \<times> obj) result \<times> nat packets" where
  "demo_reassign = reassign_packet (demo_adapters ''c'') ''packet-h'' (demo_authority 2 ''m'') 1 ''run-h'' (snd demo_issue)"

definition issued_ok :: "(obj \<times> obj) result \<Rightarrow> bool" where
  "issued_ok r = (case r of Inr (packet, _) \<Rightarrow> field packet ''packet_id'' = JStr ''packet-h'' | Inl _ \<Rightarrow> False)"

lemma demo_issued: "issued_ok (fst demo_issue)"
  by code_simp

lemma demo_bindings: "map fst (ps_bindings (snd demo_issue)) = [(''b'', ''h'')]"
  by code_simp

lemma demo_valid: "planner_request_init demo_request = Inr demo_request" "planner_task_init demo_task = Inr demo_task"
  by code_simp+

lemma demo_held:
  "map (\<lambda>f. held_assignment (snd f)) (packet_events (packet_dir ''packet-h'' (snd demo_issue))) = map Some [demo_first]"
proof -
  obtain packet binding where i: "fst demo_issue = Inr (packet, binding)" "field packet ''packet_id'' = JStr ''packet-h''"
    using demo_issued by (auto simp: issued_ok_def split: sum.splits)
  then have ok: "issue_packet (demo_adapters ''b'') demo_request demo_plan ''t'' (demo_authority 1 ''l'') demo_start =
      (Inr (packet, binding), snd demo_issue)"
    unfolding demo_issue_def by (metis prod.collapse)
  have valid: "\<forall>task \<in> set (pr_tasks demo_request). planner_task_init task = Inr task"
    using demo_valid(2) by (simp add: demo_request_def)
  have "packets_chained (pk_sha (demo_adapters ''b'')) demo_start"
    by (simp add: packets_chained_def packet_dir_def demo_start_def)
  from issue_chain [OF ok valid this] obtain x task new key where c: "chained (pk_sha (demo_adapters ''b'')) ''packet-h'' (packet_dir ''packet-h'' (snd demo_issue)) [x]"
    and t: "planned_task demo_request demo_plan ''t'' = Inr task" and new: "authority_identity (demo_authority 1 ''l'') = Inr new"
    and x: "x = \<lparr>as_generation = 1, as_run = run_identity (pk_sha (demo_adapters ''b'')) ''packet-h'' 1 (pk_sha (demo_adapters ''b'') key),
       as_predecessor = None, as_digest = pk_sha (demo_adapters ''b'') key, as_authority = new,
       as_capabilities = sort (pt_capabilities task)\<rparr>"
    using i(2) by (metis json.inject(3))
  have "task = demo_task" using task_dict_in [OF planned_task_in [OF t]] by (simp add: demo_request_def)
  moreover have "new = \<lparr>pa_reservation = ''r'', pa_revision = 1, pa_lease = ''l'', pa_fence = 1\<rparr>"
  proof -
    have "authority_identity (demo_authority 1 ''l'') = Inr \<lparr>pa_reservation = ''r'', pa_revision = 1, pa_lease = ''l'', pa_fence = 1\<rparr>"
      by code_simp
    with new show ?thesis by simp
  qed
  ultimately have "x = demo_first"
    by (simp add: x demo_first_def demo_adapters_def demo_task_def run_identity_def stable_id_def)
  with chained_events(3) [OF c] show ?thesis by simp
qed

lemma demo_reachable: "packets_reachable (\<lambda>_. ''h'') (snd demo_issue)" "packets_reachable (\<lambda>_. ''h'') (snd demo_reassign)"
proof -
  have sha: "pk_sha (demo_adapters b) = (\<lambda>_. ''h'')" for b by (simp add: demo_adapters_def)
  have start: "packets_reachable (\<lambda>_. ''h'') demo_start" by (rule packets_reachable.empty) (simp add: demo_start_def)
  have "\<forall>task \<in> set (pr_tasks demo_request). planner_task_init task = Inr task"
    using demo_valid(2) by (simp add: demo_request_def)
  from packets_reachable.step [OF start packet_step.issued [OF sha demo_valid(1) this]]
  show first: "packets_reachable (\<lambda>_. ''h'') (snd demo_issue)" unfolding demo_issue_def .
  show "packets_reachable (\<lambda>_. ''h'') (snd demo_reassign)"
    unfolding demo_reassign_def by (rule packets_reachable.step [OF first packet_step.reassigned [OF sha]])
qed

text \<open>The reassignment binds the packet to another runtime.\<close>

definition demo_binding :: obj where
  "demo_binding = (case fst (runtime_binding (demo_adapters ''c'') [''x''] demo_start) of Inr b \<Rightarrow> b | Inl _ \<Rightarrow> [])"

lemma demo_runtime: "runtime_binding (demo_adapters ''c'') [''x''] st = (Inr demo_binding, st)"
proof -
  have e: "runtime_binding (demo_adapters ''c'') [''x''] st = (fst (runtime_binding (demo_adapters ''c'') [''x''] demo_start), st)"
    by (simp add: runtime_binding_def demo_adapters_def in_world_def bindS_def)
  have "isl (fst (runtime_binding (demo_adapters ''c'') [''x''] demo_start)) = False" by code_simp
  then obtain b where b: "fst (runtime_binding (demo_adapters ''c'') [''x''] demo_start) = Inr b"
    by (cases "fst (runtime_binding (demo_adapters ''c'') [''x''] demo_start)") auto
  then have "demo_binding = b" by (simp add: demo_binding_def)
  then show ?thesis by (subst e) (simp only: b)
qed

lemma demo_binding_key: "py_text (field demo_binding ''binding_id'') = ''c'' \<and> is_binding_id ''c''"
  by code_simp

lemma demo_persist:
  assumes "''c'' \<notin> fst ` fst ` set (ps_bindings st)"
  shows "\<exists>st'. persist_runtime_binding demo_binding st = (Inr (), st')"
proof -
  have "(''c'', k) \<notin> fst ` set (ps_bindings st)" for k using assms by force
  moreover from this have "map_of (ps_bindings st) (''c'', k) = None" for k by (simp add: map_of_eq_None_iff)
  ultimately show ?thesis using demo_binding_key by (simp add: persist_runtime_binding_def write_binding_once_def Let_def)
qed

lemma demo_reassigned: "\<exists>packet binding. fst demo_reassign = Inr (packet, binding)"
proof -
  let ?st = "snd demo_issue"
  obtain xs where "chained (\<lambda>_. ''h'') ''packet-h'' (packet_dir ''packet-h'' ?st) xs"
    using reachable_chained [OF demo_reachable(1)] by (auto simp: packets_chained_def)
  note c = this chained_events(2,3) [OF this] demo_held
  from c(3,4) have t: "take 999 xs = [demo_first]" by (simp add: map_eq_Cons_conv) blast
  then have xs: "xs \<noteq> []" "last (take 999 xs) = demo_first" by auto
  from chained_latest [OF c(1) xs(1)] xs(2) obtain previous a where
    l: "latest_assignment ''packet-h'' ?st = Inr (previous, a)" "assignment_in previous a = Some demo_first" by metis
  have one: "length (packet_events (packet_dir ''packet-h'' ?st)) = 1" using arg_cong [OF c(4), of length] by simp
  have "length xs = 1" using t by (cases xs) (auto simp: numeral_eq_Suc)
  then have "numbered (packet_dir ''packet-h'' ?st)" "length (packet_dir ''packet-h'' ?st) = 1"
    using c(1) chained_length [OF c(1)] by (simp_all add: chained_def)
  from packet_name_fresh [OF this(1)] this(2)
  have fresh: "reassigned_name 2 \<notin> fst ` set (packet_dir ''packet-h'' ?st)" by (simp add: packet_name_def numeral_2_eq_2)
  have new: "authority_identity (demo_authority 2 ''m'') = Inr \<lparr>pa_reservation = ''r'', pa_revision = 2, pa_lease = ''m'', pa_fence = 2\<rparr>"
    by code_simp
  then have adv: "advanced_authority previous (demo_authority 2 ''m'') = Inr \<lparr>pa_reservation = ''r'', pa_revision = 2, pa_lease = ''m'', pa_fence = 2\<rparr>"
    using advanced_authority_accepts [OF l(2)] by (simp add: demo_first_def authority_advanced_def)
  have cur: "check_current a 1 ''run-h'' = Inr ()" using check_current_accepts [OF l(2)] by (simp add: demo_first_def)
  have caps: "required_capabilities previous = Inr [''x'']" using required_capabilities_of [OF l(2)] by (simp add: demo_first_def)
  have "''c'' \<notin> fst ` fst ` set (ps_bindings ?st)"
    using arg_cong [OF demo_bindings, of set] by auto
  moreover define s1 where "s1 = ?st\<lparr>ps_world := Suc (ps_world ?st)\<rparr>"
  ultimately obtain s2 where p: "persist_runtime_binding demo_binding s1 = (Inr (), s2)" using demo_persist [of s1] by auto
  have dir: "packet_dir ''packet-h'' s2 = packet_dir ''packet-h'' ?st"
    using packet_dir_cong [OF keeps_packetsD [OF keeps_persist p]] by (simp add: s1_def packet_dir_def)
  have blank: "\<not> blank ''packet-h''" "\<not> blank ''run-h''" "\<not> blank (replicate (Suc n) (CHR ''k''))" for n
    by (code_simp, code_simp, simp add: blank_def py_strip_def strip_by_def lstrip_by_def rstrip_by_def is_space_def)
  have key: "assignment_key (demo_adapters ''c'') ?st = (Inr (replicate (Suc (ps_world ?st)) (CHR ''k'')), s1)"
    using blank(3) by (simp add: assignment_key_def demo_adapters_def in_world_def bindS_def s1_def)
  have time: "timestamp (demo_adapters ''c'') s1 = (Inr ''now'', s1)"
    by (simp add: timestamp_def demo_adapters_def in_world_def bindS_def s1_def)
  show ?thesis
    unfolding demo_reassign_def reassign_packet_def assign_packet_def
    using l one cur adv caps demo_runtime key time p fresh dir blank
    by (simp add: bindS_def write_packet_once_def Let_def numeral_2_eq_2)
qed

theorem packet_assignment_chain_witness:
  "\<exists>xs. map (\<lambda>f. held_assignment (snd f)) (packet_events (packet_dir ''packet-h'' (snd demo_reassign))) = map Some xs \<and> linked xs \<and>
    (\<forall>a \<in> set xs. as_run a = run_identity (\<lambda>_. ''h'') ''packet-h'' (as_generation a) (as_digest a))"
  by (rule packet_assignment_chain [OF demo_reachable(2)])

theorem reassignment_succeeds_current_witness:
  "\<exists>packet binding. fst demo_reassign = Inr (packet, binding) \<and>
     (\<exists>new key. authority_identity (demo_authority 2 ''m'') = Inr new \<and> authority_advanced (as_authority demo_first) new \<and>
        field packet ''assignment'' = JObj [(''generation'', JInt 2), (''key'', JStr key)] \<and>
        length (packet_events (packet_dir ''packet-h'' (snd demo_reassign))) = 2)"
proof -
  obtain packet binding where "fst demo_reassign = Inr (packet, binding)"
    using demo_reassigned by blast
  then have r: "reassign_packet (demo_adapters ''c'') ''packet-h'' (demo_authority 2 ''m'') 1 ''run-h'' (snd demo_issue) =
      (Inr (packet, binding), snd demo_reassign)"
    unfolding demo_reassign_def by (metis prod.collapse)
  have "packets_reachable (pk_sha (demo_adapters ''c'')) (snd demo_issue)"
    using demo_reachable(1) by (simp add: demo_adapters_def)
  from reassignment_succeeds_current [OF this demo_held _ r]
  obtain new key x where n: "authority_identity (demo_authority 2 ''m'') = Inr new"
    "authority_advanced (as_authority (last [demo_first])) new"
    "field packet ''assignment'' = JObj [(''generation'', JInt (1 + 1)), (''key'', JStr key)]"
    and m: "map (\<lambda>f. held_assignment (snd f)) (packet_events (packet_dir ''packet-h'' (snd demo_reassign))) = map Some ([demo_first] @ [x])"
    by auto
  have "length (packet_events (packet_dir ''packet-h'' (snd demo_reassign))) = 2"
    using arg_cong [OF m, of length] by simp
  with n \<open>fst demo_reassign = _\<close> show ?thesis by auto
qed

theorem packet_issued_once_witness:
  "\<exists>packet binding. fst demo_issue = Inr (packet, binding) \<and> field packet ''task_id'' = JStr ''t'' \<and>
     (case fst (issue_packet (demo_adapters ''c'') demo_request demo_plan ''t'' (demo_authority 2 ''m'') (snd demo_issue)) of
        Inr (packet2, _) \<Rightarrow> field packet2 ''packet_id'' \<noteq> field packet ''packet_id'' | Inl _ \<Rightarrow> True)"
proof -
  obtain packet binding where i: "fst demo_issue = Inr (packet, binding)"
    using demo_issued by (auto simp: issued_ok_def split: sum.splits)
  then have ok: "issue_packet (demo_adapters ''b'') demo_request demo_plan ''t'' (demo_authority 1 ''l'') demo_start =
      (Inr (packet, binding), snd demo_issue)"
    unfolding demo_issue_def by (metis prod.collapse)
  have "pk_sha (demo_adapters ''c'') = pk_sha (demo_adapters ''b'')" by (simp add: demo_adapters_def)
  note once = packet_issued_once [OF ok rtranclp.rtrancl_refl this]
  from once obtain task where
    "planned_task demo_request demo_plan ''t'' = Inr task" "field packet ''task_id'' = JStr (pt_id task)" by blast
  moreover from task_dict_in [OF planned_task_in [OF this(1)]] have "pt_id task = ''t''" by blast
  ultimately show ?thesis using i once by auto
qed

theorem runtime_binding_least_witness:
  "\<exists>binding. fst (runtime_binding (demo_adapters ''b'') [''x''] demo_start) = Inr binding \<and>
     field binding ''grants_mutation_authority'' = JBool False"
proof -
  have "\<not> (case fst (runtime_binding (demo_adapters ''b'') [''x''] demo_start) of Inl _ \<Rightarrow> True | Inr _ \<Rightarrow> False)" by code_simp
  then obtain binding where b: "fst (runtime_binding (demo_adapters ''b'') [''x''] demo_start) = Inr binding"
    by (auto split: sum.splits)
  then have "runtime_binding (demo_adapters ''b'') [''x''] demo_start = (Inr binding, snd (runtime_binding (demo_adapters ''b'') [''x''] demo_start))"
    by (metis prod.collapse)
  moreover have "fst (pk_runtime (demo_adapters ''b'') (sort [''x'']) (ps_world demo_start)) = Inr [JObj (demo_candidate ''b'')]"
    by (simp add: demo_adapters_def)
  ultimately show ?thesis using runtime_binding_least b by blast
qed

end
