(* ===== verification/Journal.thy ===== *)
theory Journal
  imports Claims Numbers
begin

text \<open>
  The append-only reservation journal that the coordinator's reservation and authority services
  share (\<open>service.py\<close>, \<open>authority.py\<close>): one directory per reservation, one file per event named
  \<open>NNN-<event>.json\<close>, read back in the order of the ordinals.  A file holds a decoded event; a file
  that cannot be read or decoded, and one whose JSON is not an object, have contents of their own.
  The journal is proved to behave as a list of events to which an append adds one at the end.
\<close>

section \<open>Events\<close>

text \<open>A field that the code expects to be an object: absent or null, something else, or the object.\<close>

datatype 'a evidence = Missing | Malformed | Present 'a

record reservation =
  rs_id :: string
  rs_project :: string
  rs_change :: string
  rs_sequence :: int
  rs_base :: git_id
  rs_owned :: "string list"
  rs_shared :: "string list"
  rs_dependencies :: "string list"
  rs_owner :: "string option"
  rs_revision :: int
  rs_lease_id :: string
  rs_fence :: int
  rs_status :: string

text \<open>Instants are numbers; \<open>None\<close> is a text that is not a timestamp.\<close>

record lease =
  le_lease_id :: string
  le_reservation :: string
  le_holder :: string
  le_fence :: int
  le_issued :: "int option"
  le_expires :: "int option"
  le_status :: string

text \<open>The compare-and-swap projection of a governed claim.\<close>

record cas_claim =
  cas_outcome :: string
  cas_owned :: "string list"
  cas_shared :: "string list"
  cas_excluded :: "string list option"
  cas_dependencies :: "string list"
  cas_owner :: "string option"

record scope_request =
  sq_request_id :: string
  sq_reservation :: string
  sq_revision :: int
  sq_fence :: int
  sq_add_owned :: "string list"
  sq_remove_owned :: "string list"
  sq_add_shared :: "string list"
  sq_remove_shared :: "string list"
  sq_add_dependencies :: "string list"
  sq_remove_dependencies :: "string list"
  sq_owner :: "string option"

record scope_revision =
  sr_request :: scope_request
  sr_proposed_revision :: int
  sr_status :: string

text \<open>
  The payload of a Work Management mutation: its mode, phase and the success flags of its
  outcomes (\<open>None\<close> when \<open>outcomes\<close> is not a sequence of objects).
\<close>

record work_payload =
  wp_mode :: string
  wp_phase :: string
  wp_outcomes :: "bool list option"

type_synonym metadata = "(string \<times> string) list"

record journal_event =
  je_state :: string
  je_type :: "string option"
  je_reservation_id :: string
  je_project :: string
  je_change :: string
  je_sequence :: "int option"
  je_outcome :: string
  je_base :: "git_id option"
  je_owned :: "string list"
  je_shared :: "string list"
  je_dependencies :: "string list"
  je_owner :: "string option"
  je_work_management :: "metadata option"
  je_reservation :: "reservation evidence"
  je_lease :: "lease evidence"
  je_previous_lease :: "lease option"
  je_revision :: "scope_revision evidence"
  je_proposed_reservation :: "reservation evidence"
  je_expected_claim :: "cas_claim evidence"
  je_proposed_claim :: "cas_claim evidence"
  je_proposed_lease :: "lease evidence"
  je_error :: "string option"
  je_work_claim :: "work_payload option"
  je_created :: bool

datatype journal_file = Unreadable | Not_object | Event journal_event

type_synonym journal_dir = "(string \<times> journal_file) list"
type_synonym journal = "(string \<times> journal_dir) list"

section \<open>Reading a reservation directory\<close>

abbreviation (input) "journal_invalid \<equiv> Coded ''RESERVATION_JOURNAL_INVALID''"
abbreviation (input) "journal_collision \<equiv> Coded ''RESERVATION_JOURNAL_COLLISION''"

definition journal_ordinal :: "string \<Rightarrow> int result" where
  "journal_ordinal name =
     (case partition_on (CHR ''-'') name of (head, separator, rest) \<Rightarrow>
        if \<not> separator then Inl journal_invalid
        else (case py_int head of
                None \<Rightarrow> Inl journal_invalid
              | Some n \<Rightarrow> if n < 1 then Inl journal_invalid else Inr n))"

definition is_json :: "string \<Rightarrow> bool" where
  "is_json name = ends_with ''.json'' name"

definition keyed_path :: "string \<times> journal_file \<Rightarrow> ((int \<times> string) \<times> journal_file) result" where
  "keyed_path p = bindE (journal_ordinal (fst p)) (\<lambda>n. Inr ((n, fst p), snd p))"

definition sorted_journal :: "journal_dir \<Rightarrow> ((int \<times> string) \<times> journal_file) list result" where
  "sorted_journal d =
     bindE (mapE keyed_path (filter (\<lambda>p. is_json (fst p)) d)) (\<lambda>ps. Inr (sort_key fst ps))"

definition load_event :: "journal_file \<Rightarrow> journal_event result" where
  "load_event f = (case f of Event e \<Rightarrow> Inr e | _ \<Rightarrow> Inl journal_invalid)"

text \<open>\<open>ReservationService._latest_journal_events\<close>: directories without an event file are skipped.\<close>

definition latest_journal_events :: "journal \<Rightarrow> journal_event list result" where
  "latest_journal_events j =
     bindE (mapE (\<lambda>(k, d). bindE (sorted_journal d) (\<lambda>ps.
              if ps = [] then Inr [] else bindE (load_event (snd (last ps))) (\<lambda>e. Inr [e])))
            (sort_key fst j)) (\<lambda>ess. Inr (concat ess))"

text \<open>\<open>AuthorityService._latest_event\<close> on the directory.\<close>

definition latest_in :: "journal_dir \<Rightarrow> journal_event result" where
  "latest_in d =
     bindE (sorted_journal d) (\<lambda>ps.
       if ps = [] then Inl journal_invalid else load_event (snd (last ps)))"

section \<open>Writing an event\<close>

definition event_path :: "nat \<Rightarrow> string \<Rightarrow> string" where
  "event_path ordinal state = pad3 ordinal @ ''-'' @ state @ ''.json''"

text \<open>\<open>path.open("x")\<close> followed by the dump of the payload.\<close>

definition create_file :: "string \<Rightarrow> journal_event \<Rightarrow> journal_dir \<Rightarrow> journal_dir result" where
  "create_file name e d =
     (if name \<in> fst ` set d then Inl journal_collision else Inr (d @ [(name, Event e)]))"

definition write_event :: "nat \<Rightarrow> string \<Rightarrow> journal_event \<Rightarrow> journal_dir \<Rightarrow> journal_dir result" where
  "write_event ordinal state e d = create_file (event_path ordinal state) e d"

definition event_suffix :: "journal_event \<Rightarrow> string" where
  "event_suffix e =
     replace_char (CHR ''_'') (CHR ''-'') (case je_type e of None \<Rightarrow> ''authority'' | Some t \<Rightarrow> t)"

text \<open>
  \<open>AuthorityService._append_event\<close>: the next ordinal is read from the name of the last path, which
  the sort has already parsed.
\<close>

definition append_event :: "journal_event \<Rightarrow> journal_dir \<Rightarrow> journal_dir result" where
  "append_event e d =
     bindE (sorted_journal d) (\<lambda>ps.
       let ordinal = (if ps = [] then 1 else fst (fst (last ps)) + 1)
       in write_event (nat ordinal) (event_suffix e) e d)"

section \<open>The journal as a list of events\<close>

definition history :: "journal_dir \<Rightarrow> journal_file list" where
  "history d = (case sorted_journal d of Inl _ \<Rightarrow> [] | Inr ps \<Rightarrow> map snd ps)"

definition journal_ok :: "journal_dir \<Rightarrow> bool" where
  "journal_ok d = (\<exists>ps. sorted_journal d = Inr ps)"

lemma journal_ordinal_event_path:
  "0 < n \<Longrightarrow> journal_ordinal (event_path n state) = Inr (int n)"
proof -
  assume "0 < n"
  have "partition_on a (p @ a # s) = (p, True, s)" if "a \<notin> set p" for a :: char and p s
    using that by (induction p) auto
  from this [OF pad3_no_dash] \<open>0 < n\<close> show ?thesis
    by (simp add: journal_ordinal_def event_path_def py_int_pad3)
qed

lemma is_json_event_path: "is_json (event_path n state)"
  by (simp add: is_json_def event_path_def ends_with_append)

lemma insort_key_snoc: "f x \<le> f y \<Longrightarrow> insort_key f x (zs @ [y]) = insort_key f x zs @ [y]"
  by (induction zs) auto

lemma sort_key_snoc:
  assumes "\<And>x. x \<in> set xs \<Longrightarrow> f x \<le> f y"
  shows "sort_key f (xs @ [y]) = sort_key f xs @ [y]"
  using assms
proof (induction xs)
  case (Cons x xs)
  then show ?case using insort_key_snoc [of f x y "sort_key f xs"] by simp
qed simp

lemma mapE_append: "mapE f (xs @ ys) = bindE (mapE f xs) (\<lambda>us. bindE (mapE f ys) (\<lambda>vs. Inr (us @ vs)))"
  by (induction xs) (auto simp: bindE_def split: sum.splits)

lemma sorted_journal_Nil [simp]: "sorted_journal [] = Inr []"
  by (simp add: sorted_journal_def)

text \<open>A file whose ordinal is beyond all the ordinals of the directory is sorted last.\<close>

lemma sorted_journal_snoc:
  assumes d: "sorted_journal d = Inr ps" and n: "0 < n" "\<And>p. p \<in> set ps \<Longrightarrow> fst (fst p) < int n"
  shows "sorted_journal (d @ [(event_path n state, f)]) = Inr (ps @ [((int n, event_path n state), f)])"
proof -
  from d obtain us where us: "mapE keyed_path (filter (\<lambda>p. is_json (fst p)) d) = Inr us"
    "ps = sort_key fst us" by (auto simp: sorted_journal_def bindE_eq_Inr)
  have "fst u \<le> (int n, event_path n state)" if "u \<in> set us" for u
    using n(2) [of u] that us(2) by (simp add: less_eq_prod_def)
  then have "sort_key fst (us @ [((int n, event_path n state), f)]) = ps @ [((int n, event_path n state), f)]"
    using sort_key_snoc [of us fst "((int n, event_path n state), f)"] us(2) by simp
  with us(1) n(1) show ?thesis
    by (simp add: sorted_journal_def mapE_append is_json_event_path keyed_path_def journal_ordinal_event_path)
qed

lemma sorted_journal_last:
  assumes "sorted_journal d = Inr ps" "p \<in> set ps"
  shows "fst (fst p) \<le> fst (fst (last ps)) \<and> 1 \<le> fst (fst p) \<and> (snd (fst p), snd p) \<in> set d \<and>
    journal_ordinal (snd (fst p)) = Inr (fst (fst p))"
proof -
  from assms(1) obtain us where us: "mapE keyed_path (filter (\<lambda>p. is_json (fst p)) d) = Inr us"
    "ps = sort_key fst us" by (auto simp: sorted_journal_def bindE_eq_Inr)
  then have "sorted (map fst ps)" by simp
  moreover have "sorted (map fst xs) \<Longrightarrow> x \<in> set xs \<Longrightarrow> fst x \<le> fst (last xs)"
    for xs :: "((int \<times> string) \<times> journal_file) list" and x
    by (induction xs) auto
  ultimately have "fst p \<le> fst (last ps)" using assms(2) by blast
  then have a: "fst (fst p) \<le> fst (fst (last ps))" by (auto simp: less_eq_prod_def)
  from assms(2) us have "p \<in> set us" by simp
  from mapE_set [OF us(1) this] obtain q where q: "q \<in> set d" "keyed_path q = Inr p" by auto
  then obtain n where n: "journal_ordinal (fst q) = Inr n" "p = ((n, fst q), snd q)"
    by (auto simp: keyed_path_def bindE_eq_Inr)
  from n(1) have "1 \<le> n" by (auto simp: journal_ordinal_def split: prod.splits if_splits option.splits)
  with a q(1) n show ?thesis by simp
qed

lemma append_event_history:
  assumes "journal_ok d"
  obtains d' where "append_event e d = Inr d'" "journal_ok d'" "history d' = history d @ [Event e]"
    "\<exists>name. d' = d @ [(name, Event e)]"
proof -
  from assms obtain ps where ps: "sorted_journal d = Inr ps" by (auto simp: journal_ok_def)
  define m where "m = (if ps = [] then 1 else fst (fst (last ps)) + 1)"
  have lt: "fst (fst p) < m" if "p \<in> set ps" for p
    using sorted_journal_last [OF ps that] that by (auto simp: m_def)
  have pos: "0 < m"
    using sorted_journal_last [OF ps, of "last ps"] by (auto simp: m_def)
  then have m: "int (nat m) = m" "0 < nat m" by simp_all
  let ?name = "event_path (nat m) (event_suffix e)"
  have fresh: "?name \<notin> fst ` set d"
  proof
    assume "?name \<in> fst ` set d"
    then obtain f where "(?name, f) \<in> set (filter (\<lambda>p. is_json (fst p)) d)"
      using is_json_event_path by auto
    moreover from ps obtain us where us: "mapE keyed_path (filter (\<lambda>p. is_json (fst p)) d) = Inr us"
      "ps = sort_key fst us" by (auto simp: sorted_journal_def bindE_eq_Inr)
    ultimately obtain u where "u \<in> set ps" "keyed_path (?name, f) = Inr u"
      by (metis mapE_set' set_sort)
    with journal_ordinal_event_path [OF m(2)] m(1) have "fst (fst u) = m" by (auto simp: keyed_path_def)
    with lt [OF \<open>u \<in> set ps\<close>] show False by simp
  qed
  let ?d = "d @ [(?name, Event e)]"
  have "append_event e d = Inr ?d"
    using fresh by (simp add: append_event_def ps Let_def m_def [symmetric] write_event_def create_file_def)
  moreover have "sorted_journal ?d = Inr (ps @ [((int (nat m), ?name), Event e)])"
    by (rule sorted_journal_snoc [OF ps m(2)]) (use lt m(1) in simp)
  ultimately show ?thesis using that by (simp add: journal_ok_def history_def ps)
qed

lemma latest_in_history:
  assumes "journal_ok d" "history d \<noteq> []"
  shows "latest_in d = load_event (last (history d))"
  using assms by (auto simp: journal_ok_def history_def latest_in_def last_map)

section \<open>The contract of an append-only log\<close>

text \<open>
  What the services rely on: an append to a readable log succeeds and adds one entry at the end.
  \<open>ok\<close> tells that the log is readable, \<open>entries\<close> is its abstract value.
\<close>

locale event_log =
  fixes ok :: "'d \<Rightarrow> bool"
    and entries :: "'d \<Rightarrow> 'f list"
    and append_to :: "'e \<Rightarrow> 'd \<Rightarrow> 'd result"
    and wrap :: "'e \<Rightarrow> 'f"
  assumes append_ok: "ok d \<Longrightarrow> \<exists>d'. append_to e d = Inr d' \<and> ok d' \<and> entries d' = entries d @ [wrap e]"
begin

lemma append_result:
  "ok d \<Longrightarrow> append_to e d = Inr d' \<Longrightarrow> ok d' \<and> entries d' = entries d @ [wrap e]"
  using append_ok [of d e] by auto

lemma append_total: "ok d \<Longrightarrow> append_to e d \<noteq> Inl x"
  using append_ok [of d e] by auto

lemma appends:
  "ok d \<Longrightarrow> \<exists>d'. foldE (\<lambda>d e. append_to e d) d es = Inr d' \<and> ok d' \<and> entries d' = entries d @ map wrap es"
proof (induction es arbitrary: d)
  case (Cons e es)
  from append_ok [OF Cons.prems, of e] obtain d1 where "append_to e d = Inr d1" "ok d1"
    "entries d1 = entries d @ [wrap e]" by blast
  with Cons.IH [of d1] show ?case by auto
qed simp

text \<open>No append changes or removes an earlier entry.\<close>

lemma append_keeps:
  "ok d \<Longrightarrow> append_to e d = Inr d' \<Longrightarrow> prefix (entries d) (entries d') \<and> length (entries d') = Suc (length (entries d))"
  by (drule (1) append_result) simp

end

interpretation jl: event_log journal_ok history append_event Event
  by unfold_locales (metis append_event_history)

section \<open>The two events of an admission\<close>

lemma write_two_events:
  assumes "write_event 1 s1 e1 [] = Inr d1" "write_event 2 s2 e2 d1 = Inr d2"
  shows "journal_ok d1 \<and> history d1 = [Event e1] \<and> journal_ok d2 \<and> history d2 = [Event e1, Event e2]"
proof -
  from assms(1) have d1: "d1 = [(event_path 1 s1, Event e1)]"
    by (simp add: write_event_def create_file_def)
  with assms(2) have d2: "d2 = d1 @ [(event_path 2 s2, Event e2)]"
    by (simp add: write_event_def create_file_def split: if_splits)
  have s1: "sorted_journal d1 = Inr [((1, event_path 1 s1), Event e1)]"
    using sorted_journal_snoc [of "[]" "[]" 1 s1 "Event e1"] by (simp add: d1)
  have "sorted_journal d2 = Inr [((1, event_path 1 s1), Event e1), ((2, event_path 2 s2), Event e2)]"
    using sorted_journal_snoc [OF s1, of 2 s2 "Event e2"] by (simp add: d2)
  with s1 show ?thesis by (simp add: journal_ok_def history_def)
qed

lemma event_path_inj: "event_path m s = event_path n t \<Longrightarrow> 0 < m \<Longrightarrow> 0 < n \<Longrightarrow> m = n"
  using journal_ordinal_event_path [of m s] journal_ordinal_event_path [of n t] by simp

lemma second_event_fresh:
  assumes "write_event 1 s1 e1 [] = Inr d1"
  shows "\<exists>d2. write_event 2 s2 e2 d1 = Inr d2"
  using assms event_path_inj [of 2 s2 1 s1] by (auto simp: write_event_def create_file_def)

end
