(* ===== verification/Reservation.thy ===== *)
theory Reservation
  imports Journal
begin

text \<open>
  The admission of a new change (\<open>workflows/coordinator/service.py\<close>, \<open>ReservationService\<close>, and the
  request type of \<open>models.py\<close>).  The state is the reservation journal and the world behind the
  adapters; listing and creating governed changes, resolving the base, and claiming and releasing
  work are parameters that read and change that world and may raise.  The two fresh identifiers
  and the SHA-256 digest are parameters too.
\<close>

section \<open>Requests\<close>

definition is_slug :: "string \<Rightarrow> bool" where
  "is_slug s = (\<forall>part \<in> set (split_on (CHR ''-'') s). part \<noteq> [] \<and> (\<forall>c \<in> set part. is_lower c \<or> is_digit c))"

record reservation_request =
  rq_project :: string
  rq_slug :: string
  rq_outcome :: string
  rq_owned :: "string list"
  rq_shared :: "string list"
  rq_excluded :: "string list"
  rq_dependencies :: "string list"
  rq_owner :: "string option"
  rq_work_management :: "metadata option"
  rq_complexity :: string
  rq_risk :: "string list"
  rq_base :: string

definition repeated_or_blank :: "string list \<Rightarrow> bool" where
  "repeated_or_blank vs = (\<not> distinct vs \<or> (\<exists>v \<in> set vs. blank v))"

definition blank_option :: "string option \<Rightarrow> bool" where
  "blank_option v = (case v of None \<Rightarrow> False | Some s \<Rightarrow> blank s)"

definition reservation_request_init :: "reservation_request \<Rightarrow> reservation_request result" where
  "reservation_request_init r =
     (if \<exists>v \<in> {rq_project r, rq_slug r, rq_outcome r, rq_base r}. blank v then Inl ValueError
      else if \<not> is_slug (rq_slug r) then Inl ValueError
      else if rq_complexity r \<notin> {''small'', ''medium'', ''large''} then Inl ValueError
      else if sort (remdups (rq_risk r)) \<noteq> rq_risk r then Inl ValueError
      else if \<exists>vs \<in> {rq_owned r, rq_shared r, rq_excluded r, rq_dependencies r}. repeated_or_blank vs
        then Inl ValueError
      else if rq_owned r = [] \<and> rq_shared r = [] then Inl ValueError
      else if blank_option (rq_owner r) then Inl ValueError
      else Inr r)"

text \<open>\<open>request.integration_owner or change_id\<close>\<close>

definition owner_or :: "string option \<Rightarrow> string \<Rightarrow> string" where
  "owner_or w change_id = (case w of None \<Rightarrow> change_id | Some s \<Rightarrow> if s = [] then change_id else s)"

section \<open>Payloads\<close>

record create_payload =
  cp_change :: string
  cp_outcome :: string
  cp_owned :: "string list"
  cp_shared :: "string list"
  cp_excluded :: "string list"
  cp_dependencies :: "string list"
  cp_owner :: string
  cp_complexity :: string
  cp_risk :: "string list"
  cp_base :: string
  cp_exact_base :: git_id
  cp_work_management :: "metadata option"

record work_request =
  wr_project :: string
  wr_change :: string
  wr_sequence :: "int option"
  wr_reservation :: string
  wr_exact_base :: "git_id option"
  wr_work_management :: metadata

record release_request =
  rr_change :: string
  rr_claim :: work_payload
  rr_work_management :: "metadata option"

datatype scope_file = Scope_unreadable | Scope_not_object | Scope_change string

text \<open>The adapters; a missing callable is \<open>None\<close>.  \<open>ad_text\<close> and \<open>ad_class\<close> are \<open>str\<close> and the class name
  of an exception.\<close>

record 'w adapters =
  ad_claims :: "'w \<Rightarrow> governed_claim list result"
  ad_scopes :: "'w \<Rightarrow> (string \<times> scope_file) list"
  ad_base :: "string \<Rightarrow> ('w, (string \<times> string) list) op"
  ad_create :: "create_payload \<Rightarrow> ('w, unit) op"
  ad_claim_work :: "(work_request \<Rightarrow> ('w, work_payload) op) option"
  ad_release_work :: "(release_request \<Rightarrow> ('w, work_payload) op) option"
  ad_text :: "exn \<Rightarrow> string"
  ad_class :: "exn \<Rightarrow> string"

record 'w coordinator =
  co_journal :: journal
  co_world :: 'w

section \<open>Reading the active claims and the sequence numbers\<close>

definition branch_of :: "string \<Rightarrow> string" where
  "branch_of change_id = ''change/'' @ change_id"

definition worktree_of :: "string \<Rightarrow> string" where
  "worktree_of change_id = ''.work/worktrees/'' @ change_id"

definition claim_from_event :: "journal_event \<Rightarrow> governed_claim" where
  "claim_from_event e =
     (let (change_id, owned, shared, deps, w) =
        (case je_reservation e of
           Present r \<Rightarrow> (rs_change r, rs_owned r, rs_shared r, rs_dependencies r, rs_owner r)
         | _ \<Rightarrow> (je_change e, je_owned e, je_shared e, je_dependencies e, je_owner e))
      in \<lparr>c_change_id = change_id, c_branch = branch_of change_id, c_worktree = worktree_of change_id,
          c_outcome = je_outcome e, c_owned = owned, c_shared = shared, c_excluded = None,
          c_dependencies = deps, c_owner = w, c_base_evidence = None\<rparr>)"

definition active_state :: "string \<Rightarrow> bool" where
  "active_state s = (s \<in> {''pending'', ''reserved'', ''degraded''})"

text \<open>The loop over the latest events; \<open>known\<close> is carried by the claims collected so far.\<close>

definition add_journal_claim :: "governed_claim list \<Rightarrow> journal_event \<Rightarrow> governed_claim list" where
  "add_journal_claim claims e =
     (if \<not> active_state (je_state e) then claims
      else let c = claim_from_event e in
        if c_change_id c = [] \<or> c_change_id c \<in> c_change_id ` set claims then claims else claims @ [c])"

definition combined_active_claims :: "'w adapters \<Rightarrow> 'w coordinator \<Rightarrow> governed_claim list result" where
  "combined_active_claims ad st =
     bindE (ad_claims ad (co_world st)) (\<lambda>claims.
     bindE (latest_journal_events (co_journal st)) (\<lambda>es.
       Inr (foldl add_journal_claim claims es)))"

text \<open>\<open>_CHANGE_ID.fullmatch\<close> and the value of its group \<open>sequence\<close>\<close>

definition change_sequence :: "string \<Rightarrow> nat option" where
  "change_sequence s =
     (case partition_on (CHR ''-'') s of (digits, sep, rest) \<Rightarrow>
        if sep \<and> digits \<noteq> [] \<and> (\<forall>c \<in> set digits. is_digit c) \<and> is_slug rest
        then Some (foldl (\<lambda>a c. 10 * a + digit_value c) 0 digits) else None)"

definition max_sequence :: "nat \<Rightarrow> string \<Rightarrow> nat" where
  "max_sequence m s = (case change_sequence s of None \<Rightarrow> m | Some n \<Rightarrow> max m n)"

definition scope_step :: "nat \<Rightarrow> string \<times> scope_file \<Rightarrow> nat result" where
  "scope_step m p =
     (if starts_with ''_'' (fst p) then Inr m
      else (case snd p of
              Scope_unreadable \<Rightarrow> Inl (Coded ''RESERVATION_SEQUENCE_EVIDENCE_INVALID'')
            | Scope_not_object \<Rightarrow> Inl (Coded ''RESERVATION_SEQUENCE_EVIDENCE_INVALID'')
            | Scope_change c \<Rightarrow> Inr (max_sequence m c)))"

definition historical_sequence_floor :: "(string \<times> scope_file) list \<Rightarrow> nat result" where
  "historical_sequence_floor scopes = foldE scope_step 0 (sort_key fst scopes)"

definition event_sequence :: "nat \<Rightarrow> journal_event \<Rightarrow> nat result" where
  "event_sequence m e =
     (case je_sequence e of
        None \<Rightarrow> Inl journal_invalid
      | Some v \<Rightarrow> if v < 1 then Inl journal_invalid else Inr (max m (nat v)))"

definition next_sequence :: "'w adapters \<Rightarrow> governed_claim list \<Rightarrow> 'w coordinator \<Rightarrow> nat result" where
  "next_sequence ad claims st =
     (let m = foldl max_sequence 0 (map c_change_id claims) in
      bindE (historical_sequence_floor (ad_scopes ad (co_world st))) (\<lambda>h.
      bindE (latest_journal_events (co_journal st)) (\<lambda>es.
      bindE (foldE event_sequence (max m h) es) (\<lambda>n. Inr (n + 1)))))"

section \<open>Checks of external results\<close>

definition lower_field :: "(string \<times> string) list \<Rightarrow> string \<Rightarrow> string" where
  "lower_field v k = casefold (case map_of v k of None \<Rightarrow> [] | Some s \<Rightarrow> s)"

definition base_identity :: "(string \<times> string) list \<Rightarrow> git_id result" where
  "base_identity v =
     (let c = lower_field v ''commit_sha''; t = lower_field v ''tree_sha'' in
      if is_hex40 c \<and> is_hex40 t then Inr \<lparr>commit_sha = c, tree_sha = t\<rparr>
      else Inl (Coded ''BASE_IDENTITY_INVALID''))"

definition require_successful_work_mutation :: "string \<Rightarrow> work_payload \<Rightarrow> unit result" where
  "require_successful_work_mutation code p =
     (if wp_mode p \<noteq> ''apply'' then Inl (Coded code)
      else (case wp_outcomes p of
              None \<Rightarrow> Inl (Coded code)
            | Some os \<Rightarrow> if os = [] then Inl (Coded code) else forE (\<lambda>ok. raise_if (\<not> ok) (Coded code)) os))"

definition validated_work_claim :: "work_payload \<Rightarrow> work_payload result" where
  "validated_work_claim p =
     bindE (require_successful_work_mutation ''WORK_CLAIM_FAILED'' p) (\<lambda>_.
     bindE (raise_if (wp_phase p \<noteq> ''active'') (Coded ''WORK_CLAIM_NOT_ACTIVE'')) (\<lambda>_. Inr p))"

definition bounded_error :: "'w adapters \<Rightarrow> exn \<Rightarrow> string" where
  "bounded_error ad e =
     take 1000 (if py_strip (ad_text ad e) = [] then ad_class ad e else py_strip (ad_text ad e))"

definition verify_created_claim :: "'w adapters \<Rightarrow> string \<Rightarrow> create_payload \<Rightarrow> 'w \<Rightarrow> unit result" where
  "verify_created_claim ad change_id expected w =
     bindE (ad_claims ad w) (\<lambda>claims.
       (case filter (\<lambda>c. c_change_id c = change_id) claims of
          [observed] \<Rightarrow>
            bindE (raise_if (c_outcome observed \<noteq> cp_outcome expected \<or> c_owned observed \<noteq> cp_owned expected \<or>
                       c_shared observed \<noteq> cp_shared expected \<or> c_dependencies observed \<noteq> cp_dependencies expected \<or>
                       c_owner observed \<noteq> Some (cp_owner expected)) (Coded ''GOVERNED_CHANGE_IDENTITY_MISMATCH''))
              (\<lambda>_. (case c_base_evidence observed of
                      None \<Rightarrow> Inl (Coded ''GOVERNED_CHANGE_BASE_EVIDENCE_MISSING'')
                    | Some b \<Rightarrow> raise_if (b \<noteq> (Some (commit_sha (cp_exact_base expected)),
                                              Some (tree_sha (cp_exact_base expected))))
                                  (Coded ''GOVERNED_CHANGE_BASE_MISMATCH'')))
        | _ \<Rightarrow> Inl (Coded ''GOVERNED_CHANGE_NOT_OBSERVED'')))"

section \<open>The admission transaction\<close>

definition pending_event ::
  "reservation_request \<Rightarrow> string \<Rightarrow> nat \<Rightarrow> string \<Rightarrow> git_id \<Rightarrow> journal_event" where
  "pending_event r change_id sequence rid base =
     \<lparr>je_state = ''pending'', je_type = None, je_reservation_id = rid, je_project = rq_project r,
      je_change = change_id, je_sequence = Some (int sequence), je_outcome = rq_outcome r,
      je_base = Some base, je_owned = rq_owned r, je_shared = rq_shared r,
      je_dependencies = rq_dependencies r, je_owner = Some (owner_or (rq_owner r) change_id),
      je_work_management = rq_work_management r, je_reservation = Missing, je_lease = Missing,
      je_previous_lease = None, je_revision = Missing, je_proposed_reservation = Missing,
      je_expected_claim = Missing, je_proposed_claim = Missing, je_proposed_lease = Missing,
      je_error = None, je_work_claim = None, je_created = False\<rparr>"

definition candidate_claim :: "reservation_request \<Rightarrow> string \<Rightarrow> governed_claim" where
  "candidate_claim r change_id =
     \<lparr>c_change_id = change_id, c_branch = branch_of change_id, c_worktree = worktree_of change_id,
      c_outcome = rq_outcome r, c_owned = rq_owned r, c_shared = rq_shared r, c_excluded = None,
      c_dependencies = rq_dependencies r, c_owner = Some (owner_or (rq_owner r) change_id),
      c_base_evidence = None\<rparr>"

definition create_payload_of :: "reservation_request \<Rightarrow> string \<Rightarrow> git_id \<Rightarrow> create_payload" where
  "create_payload_of r change_id base =
     \<lparr>cp_change = change_id, cp_outcome = rq_outcome r, cp_owned = rq_owned r, cp_shared = rq_shared r,
      cp_excluded = rq_excluded r, cp_dependencies = rq_dependencies r,
      cp_owner = owner_or (rq_owner r) change_id, cp_complexity = rq_complexity r, cp_risk = rq_risk r,
      cp_base = rq_base r, cp_exact_base = base, cp_work_management = rq_work_management r\<rparr>"

definition work_claim_payload :: "journal_event \<Rightarrow> work_request result" where
  "work_claim_payload pending =
     (case je_work_management pending of
        None \<Rightarrow> Inl (Coded ''WORK_MANAGEMENT_METADATA_INCOMPLETE'')
      | Some wm \<Rightarrow> Inr \<lparr>wr_project = je_project pending, wr_change = je_change pending,
                       wr_sequence = je_sequence pending, wr_reservation = je_reservation_id pending,
                       wr_exact_base = je_base pending, wr_work_management = wm\<rparr>)"

definition claim_phase :: "'w adapters \<Rightarrow> reservation_request \<Rightarrow> journal_event \<Rightarrow> ('w, work_payload option) op" where
  "claim_phase ad r pending w =
     (case (rq_work_management r, ad_claim_work ad) of
        (Some _, Some claim) \<Rightarrow>
          bindS (liftE (work_claim_payload pending)) (\<lambda>req.
          bindS (claim req) (\<lambda>p. bindS (liftE (validated_work_claim p)) (\<lambda>c. returnS (Some c)))) w
      | _ \<Rightarrow> (Inr None, w))"

text \<open>
  The body of the \<open>try\<close>: the exception that stopped it, if any, the work claim made and whether the
  change was created.
\<close>

definition transact ::
  "'w adapters \<Rightarrow> reservation_request \<Rightarrow> journal_event \<Rightarrow> create_payload \<Rightarrow> 'w \<Rightarrow>
     (exn option \<times> work_payload option \<times> bool) \<times> 'w" where
  "transact ad r pending payload w =
     (case claim_phase ad r pending w of
        (Inl e, w1) \<Rightarrow> ((Some e, None, False), w1)
      | (Inr wc, w1) \<Rightarrow>
          (case ad_create ad payload w1 of
             (Inl e, w2) \<Rightarrow> ((Some e, wc, False), w2)
           | (Inr _, w2) \<Rightarrow>
               (case verify_created_claim ad (cp_change payload) payload w2 of
                  Inl e \<Rightarrow> ((Some e, wc, True), w2)
                | Inr _ \<Rightarrow> ((None, wc, True), w2))))"

definition compensate_work_claim ::
  "'w adapters \<Rightarrow> journal_event \<Rightarrow> work_payload option \<Rightarrow> 'w \<Rightarrow> string \<times> 'w" where
  "compensate_work_claim ad pending wc w =
     (case wc of
        None \<Rightarrow> (''aborted'', w)
      | Some c \<Rightarrow>
          (case ad_release_work ad of
             None \<Rightarrow> (''degraded'', w)
           | Some release \<Rightarrow>
               (case release \<lparr>rr_change = je_change pending, rr_claim = c,
                             rr_work_management = je_work_management pending\<rparr> w of
                  (Inl _, w') \<Rightarrow> (''degraded'', w')
                | (Inr p, w') \<Rightarrow>
                    (case require_successful_work_mutation ''WORK_RELEASE_FAILED'' p of
                       Inl _ \<Rightarrow> (''degraded'', w')
                     | Inr _ \<Rightarrow> (''aborted'', w')))))"

text \<open>\<open>_write_event\<close> in the directory of the reservation, which is created when it does not exist.\<close>

definition journal_dir_of :: "string \<Rightarrow> journal \<Rightarrow> journal_dir" where
  "journal_dir_of rid j = (case map_of j rid of None \<Rightarrow> [] | Some d \<Rightarrow> d)"

definition write_journal :: "string \<Rightarrow> nat \<Rightarrow> string \<Rightarrow> journal_event \<Rightarrow> ('w coordinator, unit) op" where
  "write_journal rid n state e st =
     (case write_event n state e (journal_dir_of rid (co_journal st)) of
        Inl x \<Rightarrow> (Inl x, st\<lparr>co_journal := AList.update rid (journal_dir_of rid (co_journal st)) (co_journal st)\<rparr>)
      | Inr d \<Rightarrow> (Inr (), st\<lparr>co_journal := AList.update rid d (co_journal st)\<rparr>))"

definition initial_reservation ::
  "reservation_request \<Rightarrow> string \<Rightarrow> nat \<Rightarrow> git_id \<Rightarrow> string \<Rightarrow> string \<Rightarrow> reservation" where
  "initial_reservation r change_id sequence base rid lid =
     \<lparr>rs_id = rid, rs_project = rq_project r, rs_change = change_id, rs_sequence = int sequence,
      rs_base = base, rs_owned = rq_owned r, rs_shared = rq_shared r, rs_dependencies = rq_dependencies r,
      rs_owner = Some (owner_or (rq_owner r) change_id), rs_revision = 1, rs_lease_id = lid,
      rs_fence = 1, rs_status = ''reserved''\<rparr>"

text \<open>A coded exception, of the service or of an adapter, is a \<open>ReservationAdmissionError\<close> here; every other exception
  of an adapter is one of the uncoded ones.\<close>

definition reservation_failed :: "exn \<Rightarrow> exn" where
  "reservation_failed e = (case e of Coded c \<Rightarrow> Coded c | _ \<Rightarrow> Coded ''RESERVATION_TRANSACTION_FAILED'')"

definition check_adapters :: "'w adapters \<Rightarrow> reservation_request \<Rightarrow> unit result" where
  "check_adapters ad r =
     (if rq_work_management r \<noteq> None \<and> ad_claim_work ad = None then Inl (Coded ''WORK_CLAIM_ADAPTER_REQUIRED'')
      else if rq_work_management r \<noteq> None \<and> ad_release_work ad = None
        then Inl (Coded ''WORK_RELEASE_ADAPTER_REQUIRED'')
      else if rq_shared r \<noteq> [] \<and> rq_dependencies r = [] \<and> rq_owner r \<in> {None, Some []}
        then Inl (Coded ''SHARED_PATH_COORDINATION_REQUIRED'')
      else Inr ())"

definition call_world :: "('w, 'a) op \<Rightarrow> ('w coordinator, 'a) op" where
  "call_world f st = (case f (co_world st) of (r, w) \<Rightarrow> (r, st\<lparr>co_world := w\<rparr>))"

text \<open>From the pending event to the final event.\<close>

definition admit ::
  "'w adapters \<Rightarrow> reservation_request \<Rightarrow> string \<Rightarrow> string \<Rightarrow> string \<Rightarrow> nat \<Rightarrow> git_id \<Rightarrow>
     ('w coordinator, reservation) op" where
  "admit ad r rid lid change_id sequence base =
     (let pending = pending_event r change_id sequence rid base in
      bindS (write_journal rid 1 ''pending'' pending) (\<lambda>_ st.
        (case transact ad r pending (create_payload_of r change_id base) (co_world st) of
           ((Some e, wc, created), w) \<Rightarrow>
             (let (state, w') = (if created then (''degraded'', w) else compensate_work_claim ad pending wc w) in
              bindS (write_journal rid 2 state (pending\<lparr>je_state := state, je_error := Some (bounded_error ad e),
                                                je_work_claim := wc, je_created := created\<rparr>))
                (\<lambda>_. failS (reservation_failed e)) (st\<lparr>co_world := w'\<rparr>))
         | ((None, wc, created), w) \<Rightarrow>
             (let reservation = initial_reservation r change_id sequence base rid lid in
              bindS (write_journal rid 2 ''reserved'' (pending\<lparr>je_state := ''reserved'',
                       je_reservation := Present reservation, je_work_claim := wc, je_created := True\<rparr>))
                (\<lambda>_. returnS reservation) (st\<lparr>co_world := w\<rparr>)))))"

text \<open>
  \<open>reserve\<close>: \<open>rid\<close> and \<open>lid\<close> are the fresh reservation and lease identifiers.  The rest of the result
  object (work packet identity, branch, worktree) is built from the returned reservation.
\<close>

definition reserve ::
  "(string \<Rightarrow> string) \<Rightarrow> 'w adapters \<Rightarrow> string \<Rightarrow> string \<Rightarrow> reservation_request \<Rightarrow>
     ('w coordinator, reservation) op" where
  "reserve sha ad rid lid r =
     bindS (liftE (check_adapters ad r)) (\<lambda>_.
     bindS (readE (combined_active_claims ad)) (\<lambda>claims.
     bindS (readE (next_sequence ad claims)) (\<lambda>sequence.
     bindS (liftE (raise_if (999 < sequence) (Coded ''CHANGE_SEQUENCE_EXHAUSTED''))) (\<lambda>_.
       let change_id = pad3 sequence @ ''-'' @ rq_slug r in
       bindS (call_world (ad_base ad (rq_base r))) (\<lambda>v.
       bindS (liftE (base_identity v)) (\<lambda>base.
       bindS (liftE (find_degraded_components sha claims)) (\<lambda>components.
       bindS (liftE (candidate_degraded_component (candidate_claim r change_id) components)) (\<lambda>hit.
       bindS (liftE (raise_if (hit \<noteq> None) (Coded ''DEGRADED_COMPONENT_INTERSECTION''))) (\<lambda>_.
       bindS (liftE (validate_candidate (candidate_claim r change_id) claims)) (\<lambda>_.
         admit ad r rid lid change_id sequence base))))))))))"

end
