(* ===== verification/Reservation_Facts.thy ===== *)
theory Reservation_Facts
  imports Reservation
begin

text \<open>
  What an admission guarantees: the admitted change is separate from every active claim and has a
  fresh sequence number, the journal records a pending and a final event and nothing else, a failed
  transaction leaves an aborted or degraded event and never a pending one, and the path scopes of
  the active claims stay pairwise compatible.
\<close>

section \<open>Decomposition of an admission\<close>

definition admission_checks ::
  "(string \<Rightarrow> string) \<Rightarrow> 'w adapters \<Rightarrow> reservation_request \<Rightarrow> 'w coordinator \<Rightarrow> governed_claim list \<Rightarrow> nat \<Rightarrow> bool" where
  "admission_checks sha ad r st claims sequence \<longleftrightarrow>
     combined_active_claims ad st = Inr claims \<and> next_sequence ad claims st = Inr sequence \<and> sequence \<le> 999 \<and>
     (\<exists>components. find_degraded_components sha claims = Inr components \<and>
        candidate_degraded_component (candidate_claim r (pad3 sequence @ ''-'' @ rq_slug r)) components = Inr None) \<and>
     validate_candidate (candidate_claim r (pad3 sequence @ ''-'' @ rq_slug r)) claims = Inr ()"

lemma reserve_cases:
  assumes "reserve sha ad rid lid r st = (x, st')"
  shows "(\<exists>e. x = Inl e \<and> co_journal st' = co_journal st) \<or>
    (\<exists>claims sequence base w. admission_checks sha ad r st claims sequence \<and>
       check_adapters ad r = Inr () \<and>
       admit ad r rid lid (pad3 sequence @ ''-'' @ rq_slug r) sequence base (st\<lparr>co_world := w\<rparr>) = (x, st'))"
  using assms unfolding reserve_def Let_def bindS_eq op_simps admission_checks_def
  by (auto simp: call_world_def err_simps split: prod.splits)

lemma write_journal_fresh:
  assumes "map_of (co_journal st) rid = None"
  shows "write_journal rid 1 s e st =
    (Inr (), st\<lparr>co_journal := AList.update rid [(event_path 1 s, Event e)] (co_journal st)\<rparr>)"
  using assms by (simp add: write_journal_def journal_dir_of_def write_event_def create_file_def)

lemma write_journal_second:
  assumes "map_of (co_journal st) rid = Some [(event_path 1 s1, Event e1)]"
  shows "write_journal rid 2 s2 e2 st =
    (Inr (), st\<lparr>co_journal := AList.update rid [(event_path 1 s1, Event e1), (event_path 2 s2, Event e2)] (co_journal st)\<rparr>)"
proof -
  have "event_path 2 s2 \<noteq> event_path 1 s1" using event_path_inj [of 2 s2 1 s1] by auto
  with assms show ?thesis by (simp add: write_journal_def journal_dir_of_def write_event_def create_file_def)
qed

lemma two_files_history:
  "journal_ok [(event_path 1 s1, Event e1), (event_path 2 s2, Event e2)] \<and>
   history [(event_path 1 s1, Event e1), (event_path 2 s2, Event e2)] = [Event e1, Event e2]"
proof -
  have "event_path 2 s2 \<noteq> event_path 1 s1" using event_path_inj [of 2 s2 1 s1] by auto
  then have "write_event 1 s1 e1 [] = Inr [(event_path 1 s1, Event e1)]"
    "write_event 2 s2 e2 [(event_path 1 s1, Event e1)] = Inr [(event_path 1 s1, Event e1), (event_path 2 s2, Event e2)]"
    by (simp_all add: write_event_def create_file_def)
  from write_two_events [OF this] show ?thesis by blast
qed

text \<open>The journal after the transaction: the old one with one more directory of two events.\<close>

definition recorded :: "string \<Rightarrow> journal_event \<Rightarrow> journal_event \<Rightarrow> journal \<Rightarrow> journal \<Rightarrow> bool" where
  "recorded rid e1 e2 j j' \<longleftrightarrow>
     (\<exists>d. j' = j @ [(rid, d)] \<and> journal_ok d \<and> history d = [Event e1, Event e2])"

lemma update_fresh: "map_of j k = None \<Longrightarrow> AList.update k v j = j @ [(k, v)]"
  by (induction j) (auto split: if_splits)

lemma update_last: "map_of j k = None \<Longrightarrow> AList.update k v' (j @ [(k, v)]) = j @ [(k, v')]"
  by (induction j) (auto split: if_splits)

lemma admit_cases:
  assumes "map_of (co_journal st) rid = None"
    and "admit ad r rid lid change_id sequence base st = (x, st')"
  obtains (admitted) wc where "x = Inr (initial_reservation r change_id sequence base rid lid)"
      "recorded rid (pending_event r change_id sequence rid base)
         ((pending_event r change_id sequence rid base)\<lparr>je_state := ''reserved'',
            je_reservation := Present (initial_reservation r change_id sequence base rid lid),
            je_work_claim := wc, je_created := True\<rparr>) (co_journal st) (co_journal st')"
      "verify_created_claim ad change_id (create_payload_of r change_id base) (co_world st') = Inr ()"
  | (failed) e wc created state w where "x = Inl (reservation_failed e)"
      "recorded rid (pending_event r change_id sequence rid base)
         ((pending_event r change_id sequence rid base)\<lparr>je_state := state,
            je_error := Some (bounded_error ad e), je_work_claim := wc, je_created := created\<rparr>)
         (co_journal st) (co_journal st')"
      "state = (if created then ''degraded'' else
         fst (compensate_work_claim ad (pending_event r change_id sequence rid base) wc w))"
proof -
  let ?p = "pending_event r change_id sequence rid base"
  let ?t = "st\<lparr>co_journal := co_journal st @ [(rid, [(event_path 1 ''pending'', Event ?p)])]\<rparr>"
  have rec: "recorded rid ?p e2 (co_journal st)
      (co_journal st @ [(rid, [(event_path 1 ''pending'', Event ?p), (event_path 2 s2, Event e2)])])" for e2 s2
    unfolding recorded_def using two_files_history by blast
  have 1: "write_journal rid 1 ''pending'' ?p st = (Inr (), ?t)"
    using write_journal_fresh [OF assms(1)] by (simp add: update_fresh [OF assms(1)])
  have 2: "write_journal rid 2 s2 e2 (?t\<lparr>co_world := w\<rparr>) = (Inr (), ?t\<lparr>co_world := w,
      co_journal := co_journal st @ [(rid, [(event_path 1 ''pending'', Event ?p), (event_path 2 s2, Event e2)])]\<rparr>)"
    for s2 e2 w
    using write_journal_second [of "?t\<lparr>co_world := w\<rparr>" rid "''pending''" ?p s2 e2] assms(1)
    by (simp add: map_add_def update_last)
  obtain exc wc created w where t: "transact ad r ?p (create_payload_of r change_id base) (co_world st) =
      ((exc, wc, created), w)" by (metis prod.exhaust)
  show ?thesis
  proof (cases exc)
    case None
    have v: "created \<and> verify_created_claim ad change_id (create_payload_of r change_id base) w = Inr ()"
      using t None by (auto simp: transact_def create_payload_of_def split: prod.splits sum.splits)
    from assms(2) t None 1 2 [of "''reserved''"] show ?thesis
      by (intro admitted [of wc]) (use v rec in \<open>auto simp: admit_def Let_def\<close>)
  next
    case (Some e)
    obtain state w' where c: "(if created then (''degraded'', w) else compensate_work_claim ad ?p wc w) = (state, w')"
      by (metis prod.exhaust)
    from assms(2) t Some 1 2 [of state] c show ?thesis
      by (intro failed [of e created wc state w]) (use rec in \<open>auto simp: admit_def Let_def split: if_splits\<close>)
  qed
qed


section \<open>Sequence numbers\<close>

lemma partition_on_split: "a \<notin> set p \<Longrightarrow> partition_on a (p @ a # s) = (p, True, s)"
  by (induction p) auto

text \<open>The sequence number is read back from the change id that \<open>reserve\<close> builds.\<close>

lemma change_sequence_pad3:
  assumes "is_slug slug"
  shows "change_sequence (pad3 n @ ''-'' @ slug) = Some n"
proof -
  have "\<forall>c \<in> set (pad3 n). is_digit c" using pad3_digits digit_char_facts(1) by metis
  moreover have "foldl (\<lambda>a c. 10 * a + digit_value c) 0 (pad3 n) = n"
    by (simp add: pad3_def foldl_zeros [of _ "decimal n"] foldl_decimal del: foldl_append)
  ultimately show ?thesis using partition_on_split [OF pad3_no_dash] assms
    by (simp add: change_sequence_def)
qed

lemma max_sequence_ge:
  fixes m :: nat
  shows "m \<le> max_sequence m s" "change_sequence s = Some n \<Longrightarrow> n \<le> max_sequence m s"
  by (auto simp: max_sequence_def split: option.splits)

lemma foldl_max_sequence:
  "m \<le> foldl max_sequence m ss \<and> (\<forall>s \<in> set ss. \<forall>n. change_sequence s = Some n \<longrightarrow> n \<le> foldl max_sequence m ss)"
proof (induction ss arbitrary: m)
  case (Cons s ss)
  from Cons [of "max_sequence m s"] max_sequence_ge(1) [of m s] max_sequence_ge(2) [of s _ m] show ?case by (auto intro: order_trans)
qed simp

lemma foldE_scopes:
  "foldE scope_step m ps = Inr h \<Longrightarrow>
     m \<le> h \<and> (\<forall>p \<in> set ps. \<not> starts_with ''_'' (fst p) \<longrightarrow>
       (\<exists>c. snd p = Scope_change c \<and> (\<forall>n. change_sequence c = Some n \<longrightarrow> n \<le> h)))"
proof (induction ps arbitrary: m)
  case (Cons p ps)
  from Cons.prems obtain m' where m': "scope_step m p = Inr m'" "foldE scope_step m' ps = Inr h"
    by (auto simp: bindE_eq_Inr)
  from Cons.IH [OF m'(2)] m'(1) max_sequence_ge(1) [of m] max_sequence_ge(2) [of _ _ m] show ?case
    by (auto simp: scope_step_def split: if_splits scope_file.splits) (meson order_trans)+
qed simp

lemma foldE_events:
  "foldE event_sequence m es = Inr h \<Longrightarrow>
     m \<le> h \<and> (\<forall>e \<in> set es. \<exists>v. je_sequence e = Some v \<and> 1 \<le> v \<and> v \<le> int h)"
proof (induction es arbitrary: m)
  case (Cons e es)
  from Cons.prems obtain m' where m': "event_sequence m e = Inr m'" "foldE event_sequence m' es = Inr h"
    by (auto simp: bindE_eq_Inr)
  from Cons.IH [OF m'(2)] m'(1) show ?case
    by (auto simp: event_sequence_def split: if_splits option.splits)
qed simp

lemma next_sequence_fresh:
  assumes "next_sequence ad claims st = Inr n"
  shows "1 \<le> n"
    and "c \<in> set claims \<Longrightarrow> change_sequence (c_change_id c) = Some m \<Longrightarrow> m < n"
    and "latest_journal_events (co_journal st) = Inr es \<Longrightarrow> e \<in> set es \<Longrightarrow>
           \<exists>v. je_sequence e = Some v \<and> 1 \<le> v \<and> v < int n"
    and "(name, f) \<in> set (ad_scopes ad (co_world st)) \<Longrightarrow> \<not> starts_with ''_'' name \<Longrightarrow>
           \<exists>c. f = Scope_change c \<and> (\<forall>m. change_sequence c = Some m \<longrightarrow> m < n)"
proof -
  from assms obtain h es' k where h: "historical_sequence_floor (ad_scopes ad (co_world st)) = Inr h"
    and es: "latest_journal_events (co_journal st) = Inr es'"
    and k: "foldE event_sequence (max (foldl max_sequence 0 (map c_change_id claims)) h) es' = Inr k"
    and n: "n = k + 1" by (auto simp: next_sequence_def Let_def bindE_eq_Inr)
  note fe = foldE_events [OF k]
  note fs = foldE_scopes [OF h [unfolded historical_sequence_floor_def]]
  show "1 \<le> n" by (simp add: n)
  show "m < n" if "c \<in> set claims" "change_sequence (c_change_id c) = Some m"
    using foldl_max_sequence [of 0 "map c_change_id claims"] that fe by (auto simp: n)
  show "\<exists>v. je_sequence e = Some v \<and> 1 \<le> v \<and> v < int n"
    if "latest_journal_events (co_journal st) = Inr es" "e \<in> set es" using fe es that by (auto simp: n)
  show "\<exists>c. f = Scope_change c \<and> (\<forall>m. change_sequence c = Some m \<longrightarrow> m < n)"
    if "(name, f) \<in> set (ad_scopes ad (co_world st))" "\<not> starts_with ''_'' name"
    using fs fe that by (fastforce simp: n)
qed

section \<open>Reading the journal after an admission\<close>

definition dir_latest :: "string \<times> journal_dir \<Rightarrow> journal_event list result" where
  "dir_latest p = bindE (sorted_journal (snd p)) (\<lambda>ps.
     if ps = [] then Inr [] else bindE (load_event (snd (last ps))) (\<lambda>e. Inr [e]))"

lemma latest_journal_events_alt:
  "latest_journal_events j = bindE (mapE dir_latest (sort_key fst j)) (\<lambda>ess. Inr (concat ess))"
proof -
  have "dir_latest = (\<lambda>(k, d). bindE (sorted_journal d) (\<lambda>ps.
     if ps = [] then Inr [] else bindE (load_event (snd (last ps))) (\<lambda>e. Inr [e])))"
    by (auto simp: dir_latest_def fun_eq_iff)
  then show ?thesis by (simp add: latest_journal_events_def)
qed

lemma insort_key_middle:
  assumes "sorted (map f (A @ [y] @ B))"
  shows "\<exists>A' B'. insort_key f x (A @ [y] @ B) = A' @ [y] @ B' \<and> insort_key f x (A @ B) = A' @ B'"
  using assms
proof (induction A)
  case Nil
  show ?case
  proof (cases "f x \<le> f y")
    case True
    with Nil have "insort_key f x B = x # B" by (cases B) auto
    with True show ?thesis by (intro exI [of _ "[x]"] exI [of _ B]) simp
  next
    case False
    then show ?thesis by (intro exI [of _ "[]"] exI [of _ "insort_key f x B"]) simp
  qed
next
  case (Cons a A)
  show ?case
  proof (cases "f x \<le> f a")
    case True
    then show ?thesis by (intro exI [of _ "x # a # A"] exI [of _ B]) simp
  next
    case False
    from Cons obtain A' B' where "insort_key f x (A @ [y] @ B) = A' @ [y] @ B'" "insort_key f x (A @ B) = A' @ B'"
      by auto
    with False show ?thesis by (intro exI [of _ "a # A'"] exI [of _ B']) simp
  qed
qed

lemma sort_key_add:
  "\<exists>A B. sort_key f (xs @ [y]) = A @ [y] @ B \<and> sort_key f xs = A @ B"
proof (induction xs)
  case (Cons x xs)
  then obtain A B where AB: "sort_key f (xs @ [y]) = A @ [y] @ B" "sort_key f xs = A @ B" by blast
  have "sorted (map f (A @ [y] @ B))" using AB(1) sorted_sort_key [of f "xs @ [y]"] by simp
  from insort_key_middle [OF this, of x] AB show ?case by simp
qed (auto intro: exI [of _ "[]"])

lemma latest_after_record:
  assumes "recorded rid e1 e2 j j'" and "latest_journal_events j = Inr es"
  shows "\<exists>es1 es2. es = es1 @ es2 \<and> latest_journal_events j' = Inr (es1 @ [e2] @ es2)"
proof -
  from assms(1) obtain d where d: "j' = j @ [(rid, d)]" "journal_ok d" "history d = [Event e1, Event e2]"
    by (auto simp: recorded_def)
  then obtain ps where ps: "sorted_journal d = Inr ps" "map snd ps = [Event e1, Event e2]"
    by (auto simp: journal_ok_def history_def)
  then have "ps \<noteq> []" "snd (last ps) = Event e2" by (auto simp: last_map [symmetric])
  with ps(1) have dl: "dir_latest (rid, d) = Inr [e2]" by (simp add: dir_latest_def load_event_def)
  from sort_key_add [of fst j "(rid, d)"] obtain A B
    where AB: "sort_key fst (j @ [(rid, d)]) = A @ [(rid, d)] @ B" "sort_key fst j = A @ B" by blast
  from assms(2) obtain ess where ess: "mapE dir_latest (A @ B) = Inr ess" "es = concat ess"
    by (auto simp: latest_journal_events_alt AB(2) bindE_eq_Inr)
  then obtain us vs where "mapE dir_latest A = Inr us" "mapE dir_latest B = Inr vs" "ess = us @ vs"
    by (auto simp: mapE_append bindE_eq_Inr)
  with dl AB(1) d(1) ess(2) show ?thesis
    by (auto simp: latest_journal_events_alt mapE_append intro: exI [of _ "concat us"])
qed

lemma add_journal_known:
  "active_state (je_state e) \<Longrightarrow> c_change_id (claim_from_event e) \<in> c_change_id ` set claims \<Longrightarrow>
     add_journal_claim claims e = claims"
  by (simp add: add_journal_claim_def Let_def)

lemma foldl_add_mono: "set claims \<subseteq> set (foldl add_journal_claim claims es)"
proof (induction es arbitrary: claims)
  case (Cons e es)
  have "set claims \<subseteq> set (add_journal_claim claims e)" by (auto simp: add_journal_claim_def Let_def)
  with Cons show ?case by fastforce
qed simp

text \<open>Every active event contributes its change id.\<close>

lemma foldl_add_covers:
  "e \<in> set es \<Longrightarrow> active_state (je_state e) \<Longrightarrow> c_change_id (claim_from_event e) \<noteq> [] \<Longrightarrow>
     c_change_id (claim_from_event e) \<in> c_change_id ` set (foldl add_journal_claim claims es)"
proof (induction es arbitrary: claims)
  case (Cons e' es)
  show ?case
  proof (cases "e = e'")
    case True
    have "c_change_id (claim_from_event e) \<in> c_change_id ` set (add_journal_claim claims e)"
      using Cons.prems(2,3) by (auto simp: add_journal_claim_def Let_def)
    with foldl_add_mono [of "add_journal_claim claims e" es] True show ?thesis by auto
  qed (use Cons in simp)
qed simp

lemma foldl_add_insert:
  "set new = insert g (set old) \<Longrightarrow>
     (\<forall>e \<in> set es. active_state (je_state e) \<longrightarrow> c_change_id (claim_from_event e) \<noteq> c_change_id g) \<Longrightarrow>
     set (foldl add_journal_claim new es) = insert g (set (foldl add_journal_claim old es))"
proof (induction es arbitrary: new old)
  case (Cons e es)
  have "set (add_journal_claim new e) = insert g (set (add_journal_claim old e))"
    using Cons.prems by (auto simp: add_journal_claim_def Let_def)
  from Cons.IH [OF this] Cons.prems(2) show ?case by simp
qed simp


section \<open>A concrete admission\<close>

definition sample_created :: "create_payload \<Rightarrow> governed_claim" where
  "sample_created p =
     \<lparr>c_change_id = cp_change p, c_branch = branch_of (cp_change p), c_worktree = worktree_of (cp_change p),
      c_outcome = cp_outcome p, c_owned = cp_owned p, c_shared = cp_shared p, c_excluded = Some (cp_excluded p),
      c_dependencies = cp_dependencies p, c_owner = Some (cp_owner p),
      c_base_evidence = Some (Some (commit_sha (cp_exact_base p)), Some (tree_sha (cp_exact_base p)))\<rparr>"

definition sample_adapters :: "governed_claim list adapters" where
  "sample_adapters =
     \<lparr>ad_claims = Inr, ad_scopes = (\<lambda>_. [(''001-old'', Scope_change ''001-old'')]),
      ad_base = (\<lambda>_ w. (Inr [(''commit_sha'', replicate 40 (CHR ''a'')), (''tree_sha'', replicate 40 (CHR ''b''))], w)),
      ad_create = (\<lambda>p w. if cp_outcome p = ''broken'' then (Inl OSError, w) else (Inr (), w @ [sample_created p])),
      ad_claim_work = None, ad_release_work = None, ad_text = (\<lambda>_. ''x''), ad_class = (\<lambda>_. ''E'')\<rparr>"

definition sample_reservation_request :: "string \<Rightarrow> reservation_request" where
  "sample_reservation_request outcome =
     \<lparr>rq_project = ''p'', rq_slug = ''add-x'', rq_outcome = outcome, rq_owned = [''src/**''], rq_shared = [],
      rq_excluded = [], rq_dependencies = [], rq_owner = None, rq_work_management = None,
      rq_complexity = ''small'', rq_risk = [], rq_base = ''main''\<rparr>"

definition sample_coordinator :: "governed_claim list coordinator" where
  "sample_coordinator = \<lparr>co_journal = [], co_world = []\<rparr>"

definition sample_admission :: "string \<Rightarrow> reservation result \<times> governed_claim list coordinator" where
  "sample_admission outcome =
     reserve (\<lambda>s. s) sample_adapters ''res-1'' ''lease-1'' (sample_reservation_request outcome) sample_coordinator"

definition sample_base :: git_id where
  "sample_base = \<lparr>commit_sha = replicate 40 (CHR ''a''), tree_sha = replicate 40 (CHR ''b'')\<rparr>"

lemma sample_admission_ok:
  "fst (sample_admission ''o'') =
     Inr (initial_reservation (sample_reservation_request ''o'') ''002-add-x'' 2 sample_base ''res-1'' ''lease-1'')"
  by code_simp

lemma sample_admission_broken:
  "fst (sample_admission ''broken'') = Inl (Coded ''RESERVATION_TRANSACTION_FAILED'') \<and>
   co_journal (snd (sample_admission ''broken'')) \<noteq> co_journal sample_coordinator"
  by code_simp

section \<open>Properties\<close>

text \<open>C6: a successful admission happens only after the checks: the new change id is the next
  sequence number and the slug, its claim is separate (different id, branch, worktree and outcome,
  compatible paths) from every active claim of the governed list and of the journal, and disjoint
  from every degraded component; the reservation starts at authority revision 1 and fence 1, and
  the journal gains one directory holding the pending and the reserved event.\<close>

theorem reserve_admits:
  assumes "reserve sha ad rid lid r st = (Inr res, st')" and "map_of (co_journal st) rid = None"
  shows "\<exists>claims sequence e1 e2. combined_active_claims ad st = Inr claims \<and>
    next_sequence ad claims st = Inr sequence \<and> sequence \<le> 999 \<and>
    rs_change res = pad3 sequence @ ''-'' @ rq_slug r \<and> rs_sequence res = int sequence \<and>
    (\<forall>c \<in> set claims. separate (candidate_claim r (rs_change res)) c) \<and>
    (\<exists>comps. find_degraded_components sha claims = Inr comps \<and>
       (\<forall>k \<in> set comps. parsed_scope (rq_owned r @ rq_shared r) \<inter> parsed_scope (dg_affected k) = {})) \<and>
    rs_revision res = 1 \<and> rs_fence res = 1 \<and> rs_lease_id res = lid \<and> rs_id res = rid \<and>
    recorded rid e1 e2 (co_journal st) (co_journal st') \<and> je_state e1 = ''pending'' \<and>
    je_state e2 = ''reserved'' \<and> je_reservation e2 = Present res"
proof -
  from reserve_cases [OF assms(1)] obtain claims sequence base w
    where ck: "admission_checks sha ad r st claims sequence"
      and ad: "admit ad r rid lid (pad3 sequence @ ''-'' @ rq_slug r) sequence base (st\<lparr>co_world := w\<rparr>) = (Inr res, st')"
    by auto
  let ?id = "pad3 sequence @ ''-'' @ rq_slug r"
  from ck obtain comps where comps: "find_degraded_components sha claims = Inr comps"
    "candidate_degraded_component (candidate_claim r ?id) comps = Inr None"
    and base: "combined_active_claims ad st = Inr claims" "next_sequence ad claims st = Inr sequence" "sequence \<le> 999"
    and v: "validate_candidate (candidate_claim r ?id) claims = Inr ()" by (auto simp: admission_checks_def)
  have j: "map_of (co_journal (st\<lparr>co_world := w\<rparr>)) rid = None" using assms(2) by simp
  have sep: "\<forall>c \<in> set claims. separate (candidate_claim r ?id) c"
    using validate_candidate_separate [OF v] by blast
  have deg: "\<forall>k \<in> set comps. parsed_scope (rq_owned r @ rq_shared r) \<inter> parsed_scope (dg_affected k) = {}"
    using candidate_degraded_None [OF comps(2)] by (simp add: candidate_claim_def)
  from j ad show ?thesis
  proof (cases rule: admit_cases)
    case (admitted wc)
    let ?p = "pending_event r ?id sequence rid base"
    let ?f = "?p\<lparr>je_state := ''reserved'', je_reservation := Present res, je_work_claim := wc, je_created := True\<rparr>"
    have res: "res = initial_reservation r ?id sequence base rid lid" using admitted(1) by simp
    have "je_state ?p = ''pending''" by (simp add: pending_event_def)
    then show ?thesis
      using base sep deg comps(1) admitted(2) res
      by (intro exI [of _ claims] exI [of _ sequence] exI [of _ ?p] exI [of _ ?f])
        (simp add: initial_reservation_def)
  qed simp
qed

theorem reserve_admits_witness:
  "\<exists>res st'. sample_admission ''o'' = (Inr res, st') \<and> rs_fence res = 1 \<and> rs_lease_id res = ''lease-1''"
proof -
  obtain st' where s: "sample_admission ''o'' = (Inr (initial_reservation (sample_reservation_request ''o'')
      ''002-add-x'' 2 sample_base ''res-1'' ''lease-1''), st')"
    using sample_admission_ok by (metis prod.collapse)
  have "map_of (co_journal sample_coordinator) ''res-1'' = None" by (simp add: sample_coordinator_def)
  from reserve_admits [OF s [unfolded sample_admission_def] this] s show ?thesis by blast
qed

text \<open>C7: the sequence number of an admitted change is new: it is larger than the number of every
  active claim, of the latest event of every journal directory and of every historical change, it is
  between 1 and 999, and it is the number that is read back from the new change id.\<close>

theorem reserve_sequence_fresh:
  assumes "reserve sha ad rid lid r st = (Inr res, st')" and "map_of (co_journal st) rid = None"
    and "is_slug (rq_slug r)"
  shows "\<exists>n claims es. change_sequence (rs_change res) = Some n \<and> rs_sequence res = int n \<and> 1 \<le> n \<and> n \<le> 999 \<and>
    combined_active_claims ad st = Inr claims \<and> latest_journal_events (co_journal st) = Inr es \<and>
    (\<forall>c \<in> set claims. \<forall>m. change_sequence (c_change_id c) = Some m \<longrightarrow> m < n) \<and>
    (\<forall>e \<in> set es. \<exists>v. je_sequence e = Some v \<and> v < int n) \<and>
    (\<forall>(name, f) \<in> set (ad_scopes ad (co_world st)). \<not> starts_with ''_'' name \<longrightarrow>
       (\<exists>c. f = Scope_change c \<and> (\<forall>m. change_sequence c = Some m \<longrightarrow> m < n)))"
proof -
  from reserve_admits [OF assms(1,2)] obtain claims n where c: "combined_active_claims ad st = Inr claims"
    "next_sequence ad claims st = Inr n" "n \<le> 999" "rs_change res = pad3 n @ ''-'' @ rq_slug r"
    "rs_sequence res = int n" by blast
  from c(1) obtain es where es: "latest_journal_events (co_journal st) = Inr es"
    by (auto simp: combined_active_claims_def bindE_eq_Inr)
  note f = next_sequence_fresh [OF c(2)]
  have 1: "change_sequence (rs_change res) = Some n" unfolding c(4) by (rule change_sequence_pad3 [OF assms(3)])
  have 2: "\<forall>c \<in> set claims. \<forall>m. change_sequence (c_change_id c) = Some m \<longrightarrow> m < n" using f(2) by blast
  have 3: "\<forall>e \<in> set es. \<exists>v. je_sequence e = Some v \<and> v < int n" using f(3) [OF es] by blast
  have 4: "\<forall>(name, f) \<in> set (ad_scopes ad (co_world st)). \<not> starts_with ''_'' name \<longrightarrow>
       (\<exists>c. f = Scope_change c \<and> (\<forall>m. change_sequence c = Some m \<longrightarrow> m < n))" using f(4) by blast
  show ?thesis using 1 2 3 4 c(1,3,5) es f(1) by blast
qed

theorem reserve_sequence_fresh_witness:
  "\<exists>res st'. sample_admission ''o'' = (Inr res, st') \<and> change_sequence (rs_change res) = Some 2"
proof -
  obtain st' where s: "sample_admission ''o'' = (Inr (initial_reservation (sample_reservation_request ''o'')
      ''002-add-x'' 2 sample_base ''res-1'' ''lease-1''), st')"
    using sample_admission_ok by (metis prod.collapse)
  have "map_of (co_journal sample_coordinator) ''res-1'' = None" "is_slug (rq_slug (sample_reservation_request ''o''))"
    by code_simp+
  from reserve_sequence_fresh [OF s [unfolded sample_admission_def] this] s show ?thesis
    by (auto simp: initial_reservation_def)
qed

text \<open>C8: a failed admission either leaves the journal as it was, or records one directory whose two
  events are the pending one and a final one that is \<open>aborted\<close> or \<open>degraded\<close>, carries the error and
  no reservation; it is \<open>degraded\<close> whenever the governed change was created. The error always
  carries a code.\<close>

theorem reserve_failure_recorded:
  assumes "reserve sha ad rid lid r st = (Inl x, st')" and "map_of (co_journal st) rid = None"
  shows "co_journal st' = co_journal st \<or>
    (\<exists>e1 e2. recorded rid e1 e2 (co_journal st) (co_journal st') \<and> je_state e1 = ''pending'' \<and>
       je_state e2 \<in> {''aborted'', ''degraded''} \<and> (je_created e2 \<longrightarrow> je_state e2 = ''degraded'') \<and>
       je_reservation e2 = Missing \<and> je_error e2 \<noteq> None \<and> (\<exists>code. x = Coded code))"
proof -
  from reserve_cases [OF assms(1)] consider "co_journal st' = co_journal st"
    | sequence base w where "admit ad r rid lid (pad3 sequence @ ''-'' @ rq_slug r) sequence base (st\<lparr>co_world := w\<rparr>) = (Inl x, st')"
    by blast
  then show ?thesis
  proof cases
    case 2
    let ?id = "pad3 sequence @ ''-'' @ rq_slug r"
    have "map_of (co_journal (st\<lparr>co_world := w\<rparr>)) rid = None" using assms(2) by simp
    from this 2 show ?thesis
    proof (cases rule: admit_cases)
      case (failed e wc created state w')
      have "state \<in> {''aborted'', ''degraded''}"
        using failed(3) by (auto simp: compensate_work_claim_def split: option.splits sum.splits prod.splits if_splits)
      moreover have "\<exists>code. x = Coded code"
        using failed(1) by (auto simp: reservation_failed_def split: exn.splits)
      moreover have "created \<longrightarrow> state = ''degraded''" using failed(3) by simp
      moreover have "je_state (pending_event r ?id sequence rid base) = ''pending''"
        "je_reservation (pending_event r ?id sequence rid base) = Missing" by (simp_all add: pending_event_def)
      moreover have "recorded rid (pending_event r ?id sequence rid base)
        ((pending_event r ?id sequence rid base)\<lparr>je_state := state, je_error := Some (bounded_error ad e),
           je_work_claim := wc, je_created := created\<rparr>) (co_journal st) (co_journal st')"
        using failed(2) by simp
      ultimately show ?thesis
        by (intro disjI2 exI [of _ "pending_event r ?id sequence rid base"]
            exI [of _ "(pending_event r ?id sequence rid base)\<lparr>je_state := state,
              je_error := Some (bounded_error ad e), je_work_claim := wc, je_created := created\<rparr>"]) simp
    qed simp
  qed simp
qed

theorem reserve_failure_recorded_witness:
  "\<exists>e2. je_state e2 \<in> {''aborted'', ''degraded''} \<and>
     (\<exists>e1. recorded ''res-1'' e1 e2 [] (co_journal (snd (sample_admission ''broken''))))"
proof -
  obtain st' where s: "sample_admission ''broken'' = (Inl (Coded ''RESERVATION_TRANSACTION_FAILED''), st')"
    using sample_admission_broken by (metis prod.collapse)
  have n: "map_of (co_journal sample_coordinator) ''res-1'' = None" by (simp add: sample_coordinator_def)
  have "co_journal st' \<noteq> co_journal sample_coordinator" using sample_admission_broken s by simp
  with reserve_failure_recorded [OF s [unfolded sample_admission_def] n] s show ?thesis
    by (auto simp: sample_coordinator_def)
qed


section \<open>Compatibility of the active claims\<close>

definition compatible_claims :: "governed_claim list \<Rightarrow> bool" where
  "compatible_claims cs =
     (\<forall>c \<in> set cs. \<forall>d \<in> set cs. c_change_id c \<noteq> c_change_id d \<longrightarrow> compatible c d)"

lemma compatible_cong:
  "c_change_id a = c_change_id b \<Longrightarrow> c_owned a = c_owned b \<Longrightarrow> c_shared a = c_shared b \<Longrightarrow>
     c_dependencies a = c_dependencies b \<Longrightarrow> c_owner a = c_owner b \<Longrightarrow> compatible a c = compatible b c"
  by (simp add: compatible_def coordinated_def)

lemma verify_created_claim_Inr:
  assumes "verify_created_claim ad i p w = Inr u" and "ad_claims ad w = Inr gs"
  obtains g where "filter (\<lambda>c. c_change_id c = i) gs = [g]" "c_outcome g = cp_outcome p" "c_owned g = cp_owned p"
    "c_shared g = cp_shared p" "c_dependencies g = cp_dependencies p" "c_owner g = Some (cp_owner p)"
  using assms by (auto simp: verify_created_claim_def err_simps split: list.splits)

text \<open>admission preserves the compatibility of the active claims: if the active claims are pairwise
  compatible before (no exclusive path of one is touched by another, and overlapping shared paths
  are coordinated), and creating the change adds one claim to the governed list, then after the
  admission the active claims are the old ones and the new one, and they are still pairwise
  compatible.\<close>

theorem reserve_keeps_compatible:
  assumes "reserve sha ad rid lid r st = (Inr res, st')" and "map_of (co_journal st) rid = None"
    and "ad_claims ad (co_world st) = Inr gs" and "ad_claims ad (co_world st') = Inr (gs @ [g])"
    and "combined_active_claims ad st = Inr cs" and "compatible_claims cs"
  shows "\<exists>cs'. combined_active_claims ad st' = Inr cs' \<and> set cs' = insert g (set cs) \<and>
    c_change_id g = rs_change res \<and> compatible_claims cs'"
proof -
  from reserve_cases [OF assms(1)] obtain claims sequence base w
    where ck: "admission_checks sha ad r st claims sequence"
      and ad: "admit ad r rid lid (pad3 sequence @ ''-'' @ rq_slug r) sequence base (st\<lparr>co_world := w\<rparr>) = (Inr res, st')"
    by auto
  let ?id = "pad3 sequence @ ''-'' @ rq_slug r"
  let ?c = "candidate_claim r ?id"
  from ck assms(5) have claims: "claims = cs" and v: "validate_candidate ?c cs = Inr ()"
    by (auto simp: admission_checks_def)
  have sep: "separate ?c c" if "c \<in> set cs" for c using validate_candidate_separate [OF v that] .
  from assms(3,5) obtain es where es: "latest_journal_events (co_journal st) = Inr es"
    and cs: "cs = foldl add_journal_claim gs es" by (auto simp: combined_active_claims_def bindE_eq_Inr)
  have j: "map_of (co_journal (st\<lparr>co_world := w\<rparr>)) rid = None" using assms(2) by simp
  from j ad obtain wc e2 where res: "rs_change res = ?id"
    and rec: "recorded rid (pending_event r ?id sequence rid base) e2 (co_journal st) (co_journal st')"
    and e2: "je_state e2 = ''reserved''" "je_reservation e2 = Present res"
    and ver: "verify_created_claim ad ?id (create_payload_of r ?id base) (co_world st') = Inr ()"
    by (cases rule: admit_cases) (auto simp: initial_reservation_def)
  have gsub: "set gs \<subseteq> set cs" unfolding cs by (rule foldl_add_mono)
  obtain g' where g': "filter (\<lambda>c. c_change_id c = ?id) (gs @ [g]) = [g']"
    "c_owned g' = rq_owned r" "c_shared g' = rq_shared r" "c_dependencies g' = rq_dependencies r"
    "c_owner g' = Some (owner_or (rq_owner r) ?id)"
    using verify_created_claim_Inr [OF ver assms(4)] by (auto simp: create_payload_of_def)
  have "filter (\<lambda>c. c_change_id c = ?id) gs = []"
    using sep gsub by (fastforce simp: filter_empty_conv separate_def candidate_claim_def)
  with g'(1) have g: "g' = g" "c_change_id g = ?id" by (auto split: if_splits)
  have "compatible g c = compatible ?c c" for c
    by (rule compatible_cong) (use g g' in \<open>simp_all add: candidate_claim_def\<close>)
  with sep have gc: "compatible g c" if "c \<in> set cs" for c using that by (simp add: separate_def)
  from latest_after_record [OF rec es] obtain es1 es2 where es': "es = es1 @ es2"
    "latest_journal_events (co_journal st') = Inr (es1 @ [e2] @ es2)" by blast
  have other: "\<forall>e \<in> set es. active_state (je_state e) \<longrightarrow> c_change_id (claim_from_event e) \<noteq> c_change_id g"
  proof (intro ballI impI notI)
    fix e assume e: "e \<in> set es" "active_state (je_state e)" "c_change_id (claim_from_event e) = c_change_id g"
    then have "c_change_id g \<in> c_change_id ` set cs"
      using foldl_add_covers [OF e(1,2), of gs] g(2) by (simp add: cs)
    then show False using sep g(2) by (auto simp: separate_def candidate_claim_def)
  qed
  let ?new1 = "foldl add_journal_claim (gs @ [g]) es1"
  have "c_change_id (claim_from_event e2) = c_change_id g"
    using e2(2) res g(2) by (simp add: claim_from_event_def)
  moreover have "g \<in> set ?new1" using foldl_add_mono [of "gs @ [g]" es1] by auto
  ultimately have skip: "add_journal_claim ?new1 e2 = ?new1"
    by (intro add_journal_known) (auto simp: active_state_def e2(1))
  let ?cs = "foldl add_journal_claim (gs @ [g]) es"
  have st': "combined_active_claims ad st' = Inr ?cs"
    by (simp add: combined_active_claims_def assms(4) es'(2) skip) (simp add: es'(1))
  have set_cs: "set ?cs = insert g (set cs)"
    unfolding cs by (rule foldl_add_insert [OF _ other]) simp
  have "compatible_claims ?cs"
    unfolding compatible_claims_def set_cs using assms(6) gc compatible_sym
    by (auto simp: compatible_claims_def)
  with st' set_cs g(2) res show ?thesis by auto
qed

theorem reserve_keeps_compatible_witness:
  "\<exists>cs'. combined_active_claims sample_adapters (snd (sample_admission ''o'')) = Inr cs' \<and> compatible_claims cs'"
proof -
  obtain st' where s: "sample_admission ''o'' = (Inr (initial_reservation (sample_reservation_request ''o'')
      ''002-add-x'' 2 sample_base ''res-1'' ''lease-1''), st')"
    using sample_admission_ok by (metis prod.collapse)
  have w: "map_of (co_journal sample_coordinator) ''res-1'' = None"
    "ad_claims sample_adapters (co_world sample_coordinator) = Inr []"
    "combined_active_claims sample_adapters sample_coordinator = Inr []" by code_simp+
  have "co_world (snd (sample_admission ''o'')) =
      [sample_created (create_payload_of (sample_reservation_request ''o'') ''002-add-x'' sample_base)]" by code_simp
  then have "ad_claims sample_adapters (co_world st') =
      Inr ([] @ [sample_created (create_payload_of (sample_reservation_request ''o'') ''002-add-x'' sample_base)])"
    using s by (simp add: sample_adapters_def)
  from reserve_keeps_compatible [OF s [unfolded sample_admission_def] w(1,2) this w(3)] s
  show ?thesis by (auto simp: compatible_claims_def)
qed

end
