(* ===== verification/Authority.thy ===== *)
theory Authority
  imports Reservation
begin

text \<open>
  Leases, fences and scope amendments (\<open>workflows/coordinator/authority.py\<close>, \<open>AuthorityService\<close>).
  The state is the journal of \<open>Journal\<close> and the world behind the adapters.  Listing the governed
  claims, amending one, and the clock are parameters; an instant is a number of microseconds, and the
  text of a timestamp is identified with the instant it denotes.
\<close>

record amend_request =
  ar_change :: string
  ar_expected :: cas_claim
  ar_proposed :: cas_claim

record 'w authority =
  au_claims :: "'w \<Rightarrow> governed_claim list result"
  au_amend :: "(amend_request \<Rightarrow> ('w, unit) op) option"
  au_clock :: "('w, int) op"

section \<open>Scope revision requests\<close>

definition scope_request_init :: "scope_request \<Rightarrow> scope_request result" where
  "scope_request_init q =
     (let groups = [sq_add_owned q, sq_remove_owned q, sq_add_shared q, sq_remove_shared q,
                    sq_add_dependencies q, sq_remove_dependencies q] in
      if blank (sq_request_id q) \<or> blank (sq_reservation q) then Inl ValueError
      else if sq_revision q < 1 \<or> sq_fence q < 1 then Inl ValueError
      else if \<exists>vs \<in> set groups. repeated_or_blank vs then Inl ValueError
      else if \<exists>(add, remove) \<in> {(sq_add_owned q, sq_remove_owned q), (sq_add_shared q, sq_remove_shared q),
                               (sq_add_dependencies q, sq_remove_dependencies q)}. set add \<inter> set remove \<noteq> {}
        then Inl ValueError
      else if blank_option (sq_owner q) then Inl ValueError
      else if (\<forall>vs \<in> set groups. vs = []) \<and> sq_owner q = None then Inl ValueError
      else Inr q)"

section \<open>Reading and appending events\<close>

definition require_non_empty :: "string \<Rightarrow> unit result" where
  "require_non_empty v = raise_if (blank v) ValueError"

definition ttl :: "int \<Rightarrow> int result" where
  "ttl seconds = (if 1 \<le> seconds \<and> seconds \<le> 86400 then Inr (seconds * 1000000) else Inl ValueError)"

definition reservation_root :: "string \<Rightarrow> unit result" where
  "reservation_root rid =
     bindE (require_non_empty rid) (\<lambda>_.
       raise_if (CHR ''/'' \<in> set rid \<or> CHR 0x5C \<in> set rid) (Coded ''RESERVATION_ID_INVALID''))"

definition latest_event :: "string \<Rightarrow> journal \<Rightarrow> journal_event result" where
  "latest_event rid j =
     bindE (reservation_root rid) (\<lambda>_.
       (case map_of j rid of
          None \<Rightarrow> Inl (Coded ''RESERVATION_NOT_FOUND'')
        | Some d \<Rightarrow> latest_in d))"

definition latest :: "string \<Rightarrow> ('w coordinator, journal_event) op" where
  "latest rid = readE (\<lambda>st. latest_event rid (co_journal st))"

definition append_authority :: "string \<Rightarrow> journal_event \<Rightarrow> ('w coordinator, unit) op" where
  "append_authority rid e st =
     (case reservation_root rid of
        Inl x \<Rightarrow> (Inl x, st)
      | Inr _ \<Rightarrow>
          (case append_event e (journal_dir_of rid (co_journal st)) of
             Inl x \<Rightarrow> (Inl x, st\<lparr>co_journal := AList.update rid (journal_dir_of rid (co_journal st)) (co_journal st)\<rparr>)
           | Inr d \<Rightarrow> (Inr (), st\<lparr>co_journal := AList.update rid d (co_journal st)\<rparr>)))"

definition event_reservation :: "journal_event \<Rightarrow> reservation result" where
  "event_reservation e =
     (case je_reservation e of Present r \<Rightarrow> Inr r | _ \<Rightarrow> Inl (Coded ''RESERVATION_NOT_FINALIZED''))"

definition event_lease :: "journal_event \<Rightarrow> lease option result" where
  "event_lease e =
     (case je_lease e of
        Missing \<Rightarrow> Inr None
      | Malformed \<Rightarrow> Inl (Coded ''LEASE_EVIDENCE_INVALID'')
      | Present l \<Rightarrow> Inr (Some l))"

definition lease_evidence :: "lease option \<Rightarrow> lease evidence" where
  "lease_evidence l = (case l of None \<Rightarrow> Missing | Some x \<Rightarrow> Present x)"

definition authority_event :: "journal_event \<Rightarrow> reservation \<Rightarrow> lease option \<Rightarrow> string \<Rightarrow> journal_event" where
  "authority_event source r l typ =
     \<lparr>je_state = ''reserved'', je_type = Some typ, je_reservation_id = rs_id r, je_project = rs_project r,
      je_change = rs_change r, je_sequence = Some (rs_sequence r), je_outcome = je_outcome source,
      je_base = None, je_owned = rs_owned r, je_shared = rs_shared r, je_dependencies = rs_dependencies r,
      je_owner = rs_owner r, je_work_management = None, je_reservation = Present r,
      je_lease = lease_evidence l, je_previous_lease = None, je_revision = Missing,
      je_proposed_reservation = Missing, je_expected_claim = Missing, je_proposed_claim = Missing,
      je_proposed_lease = Missing, je_error = None, je_work_claim = None, je_created = False\<rparr>"

definition lease_payload :: "reservation \<Rightarrow> string \<Rightarrow> string \<Rightarrow> int \<Rightarrow> int \<Rightarrow> string \<Rightarrow> lease" where
  "lease_payload r holder lid issued expires status =
     \<lparr>le_lease_id = lid, le_reservation = rs_id r, le_holder = holder, le_fence = rs_fence r,
      le_issued = Some issued, le_expires = Some expires, le_status = status\<rparr>"

definition expiry :: "lease \<Rightarrow> int result" where
  "expiry l = (case le_expires l of None \<Rightarrow> Inl (Coded ''LEASE_EVIDENCE_INVALID'') | Some t \<Rightarrow> Inr t)"

definition require_expected_authority :: "reservation \<Rightarrow> int \<Rightarrow> int \<Rightarrow> unit result" where
  "require_expected_authority r revision fence =
     bindE (raise_if (rs_revision r \<noteq> revision) (Coded ''STALE_AUTHORITY_REVISION'')) (\<lambda>_.
       raise_if (rs_fence r \<noteq> fence) (Coded ''STALE_FENCE_TOKEN''))"

section \<open>Governed claims\<close>

definition governed_claim_of :: "'w authority \<Rightarrow> string \<Rightarrow> 'w \<Rightarrow> governed_claim result" where
  "governed_claim_of au change_id w =
     bindE (au_claims au w) (\<lambda>claims.
       (case filter (\<lambda>c. c_change_id c = change_id) claims of
          [c] \<Rightarrow> Inr c
        | _ \<Rightarrow> Inl (Coded ''GOVERNED_CHANGE_NOT_OBSERVED'')))"

definition observe :: "'w authority \<Rightarrow> string \<Rightarrow> ('w coordinator, governed_claim) op" where
  "observe au change_id = readE (\<lambda>st. governed_claim_of au change_id (co_world st))"

definition claim_with_reservation :: "governed_claim \<Rightarrow> reservation \<Rightarrow> governed_claim" where
  "claim_with_reservation c r =
     c\<lparr>c_owned := rs_owned r, c_shared := rs_shared r, c_dependencies := rs_dependencies r, c_owner := rs_owner r\<rparr>"

definition cas_projection :: "governed_claim \<Rightarrow> cas_claim" where
  "cas_projection c =
     \<lparr>cas_outcome = c_outcome c, cas_owned = c_owned c, cas_shared = c_shared c, cas_excluded = c_excluded c,
      cas_dependencies = c_dependencies c, cas_owner = c_owner c\<rparr>"

definition scope_matches :: "governed_claim \<Rightarrow> governed_claim \<Rightarrow> bool" where
  "scope_matches observed expected =
     (c_owned observed = c_owned expected \<and> c_shared observed = c_shared expected \<and>
      c_dependencies observed = c_dependencies expected \<and> c_owner observed = c_owner expected)"

definition cas_matches :: "governed_claim \<Rightarrow> cas_claim \<Rightarrow> bool" where
  "cas_matches observed expected = (cas_projection observed = expected)"

text \<open>\<open>_combined_claims\<close>: as in the reservation service, but a directory without events is an error.\<close>

definition combined_claims :: "'w authority \<Rightarrow> 'w coordinator \<Rightarrow> governed_claim list result" where
  "combined_claims au st =
     bindE (au_claims au (co_world st)) (\<lambda>claims.
     bindE (mapE (\<lambda>rid. latest_event rid (co_journal st)) (sort (map fst (co_journal st)))) (\<lambda>es.
       Inr (foldl add_journal_claim claims es)))"

section \<open>Recovery of a proposed scope transition\<close>

definition proposed :: "journal_event \<Rightarrow> bool" where
  "proposed e = (case je_revision e of Present rv \<Rightarrow> sr_status rv = ''proposed'' | _ \<Rightarrow> False)"

definition is_present :: "'a evidence \<Rightarrow> bool" where
  "is_present x = (case x of Present _ \<Rightarrow> True | _ \<Rightarrow> False)"

text \<open>Whether the observed claim is the proposed one and whether it is the current one.\<close>

definition transition_matches ::
  "journal_event \<Rightarrow> governed_claim \<Rightarrow> reservation \<Rightarrow> reservation \<Rightarrow> (bool \<times> bool) result" where
  "transition_matches e observed current proposed_r =
     (if is_present (je_expected_claim e) \<noteq> is_present (je_proposed_claim e)
        then Inl (Coded ''SCOPE_TRANSITION_EVIDENCE_INVALID'')
      else (case (je_expected_claim e, je_proposed_claim e) of
              (Present expected, Present prop) \<Rightarrow> Inr (cas_matches observed prop, cas_matches observed expected)
            | _ \<Rightarrow> Inr (scope_matches observed (claim_with_reservation observed proposed_r),
                       scope_matches observed (claim_with_reservation observed current))))"

definition lease_of_evidence :: "lease evidence \<Rightarrow> lease option" where
  "lease_of_evidence x = (case x of Present l \<Rightarrow> Some l | _ \<Rightarrow> None)"

definition accepted_event :: "journal_event \<Rightarrow> scope_revision \<Rightarrow> reservation \<Rightarrow> lease option \<Rightarrow> string \<Rightarrow> journal_event" where
  "accepted_event e rv r l typ = (authority_event e r l typ)\<lparr>je_revision := Present (rv\<lparr>sr_status := ''accepted''\<rparr>)\<rparr>"

definition rejected_event ::
  "journal_event \<Rightarrow> scope_revision \<Rightarrow> reservation \<Rightarrow> lease option \<Rightarrow> string \<Rightarrow> string option \<Rightarrow> journal_event" where
  "rejected_event e rv r l typ degraded =
     (let final = (authority_event e r l typ)\<lparr>je_revision := Present (rv\<lparr>sr_status := ''rejected''\<rparr>)\<rparr>
      in (case degraded of None \<Rightarrow> final | Some why \<Rightarrow> final\<lparr>je_state := ''degraded'', je_error := Some why\<rparr>))"

definition recover_scope_transition :: "'w authority \<Rightarrow> string \<Rightarrow> ('w coordinator, unit) op" where
  "recover_scope_transition au rid =
     bindS (latest rid) (\<lambda>e.
       (case je_revision e of
          Present rv \<Rightarrow>
            if sr_status rv \<noteq> ''proposed'' then returnS ()
            else (case je_proposed_reservation e of
                    Present proposed_r \<Rightarrow>
                      bindS (liftE (event_reservation e)) (\<lambda>current.
                      bindS (observe au (rs_change current)) (\<lambda>observed.
                      bindS (liftE (transition_matches e observed current proposed_r)) (\<lambda>(is_proposed, is_current).
                        if is_proposed then
                          append_authority rid (accepted_event e rv proposed_r (lease_of_evidence (je_proposed_lease e))
                            ''scope_revision_recovered_accepted'')
                        else
                          bindS (liftE (event_lease e)) (\<lambda>l.
                            append_authority rid
                              (if is_current then rejected_event e rv current l ''scope_revision_recovered_rejected'' None
                               else rejected_event e rv current l ''scope_revision_recovery_degraded''
                                      (Some ''governed scope matches neither transition endpoint''))))))
                  | _ \<Rightarrow> failS (Coded ''SCOPE_TRANSITION_EVIDENCE_INVALID''))
        | _ \<Rightarrow> returnS ()))"

fun recover_each :: "'w authority \<Rightarrow> string list \<Rightarrow> ('w coordinator, unit) op" where
  "recover_each au [] = returnS ()"
| "recover_each au (rid # rids) = bindS (recover_scope_transition au rid) (\<lambda>_. recover_each au rids)"

definition recover_all_pending :: "'w authority \<Rightarrow> ('w coordinator, unit) op" where
  "recover_all_pending au st = recover_each au (sort (map fst (co_journal st))) st"

definition current_reservation :: "'w authority \<Rightarrow> string \<Rightarrow> ('w coordinator, reservation) op" where
  "current_reservation au rid =
     bindS (recover_scope_transition au rid) (\<lambda>_.
     bindS (latest rid) (\<lambda>e. liftE (event_reservation e)))"

definition degraded_components_of ::
  "(string \<Rightarrow> string) \<Rightarrow> 'w authority \<Rightarrow> ('w coordinator, degraded_component list) op" where
  "degraded_components_of sha au =
     bindS (recover_all_pending au) (\<lambda>_.
     bindS (readE (combined_claims au)) (\<lambda>claims. liftE (find_degraded_components sha claims)))"

section \<open>Leases\<close>

definition clock :: "'w authority \<Rightarrow> ('w coordinator, int) op" where
  "clock au = call_world (au_clock au)"

definition activate_lease :: "'w authority \<Rightarrow> string \<Rightarrow> string \<Rightarrow> int \<Rightarrow> ('w coordinator, lease) op" where
  "activate_lease au rid holder ttl_seconds =
     bindS (liftE (require_non_empty holder)) (\<lambda>_.
     bindS (liftE (ttl ttl_seconds)) (\<lambda>duration.
     bindS (recover_scope_transition au rid) (\<lambda>_.
     bindS (latest rid) (\<lambda>e.
     bindS (liftE (event_reservation e)) (\<lambda>r.
     bindS (liftE (event_lease e)) (\<lambda>current.
       (case current of
          Some l \<Rightarrow> failS (Coded (if le_status l = ''active'' then ''LEASE_ALREADY_ACTIVE''
                                else ''LEASE_REASSIGNMENT_REQUIRED''))
        | None \<Rightarrow>
            bindS (clock au) (\<lambda>now.
              let l = lease_payload r holder (rs_lease_id r) now (now + duration) ''active''
              in bindS (append_authority rid (authority_event e (r\<lparr>rs_status := ''active''\<rparr>) (Some l) ''lease_activated''))
                   (\<lambda>_. returnS l)))))))))"

definition expired_event :: "journal_event \<Rightarrow> reservation \<Rightarrow> lease \<Rightarrow> journal_event" where
  "expired_event e r l =
     authority_event e (r\<lparr>rs_status := ''expired''\<rparr>) (Some (l\<lparr>le_status := ''expired''\<rparr>)) ''lease_expired''"

definition expire_lease :: "'w authority \<Rightarrow> string \<Rightarrow> ('w coordinator, lease option) op" where
  "expire_lease au rid =
     bindS (latest rid) (\<lambda>e.
     bindS (liftE (event_lease e)) (\<lambda>current.
       (case current of
          None \<Rightarrow> returnS None
        | Some l \<Rightarrow>
            if le_status l \<noteq> ''active'' then returnS None
            else bindS (liftE (expiry l)) (\<lambda>t.
                 bindS (clock au) (\<lambda>now.
                   if now < t then returnS None
                   else bindS (liftE (event_reservation e)) (\<lambda>r.
                        bindS (append_authority rid (expired_event e r l))
                          (\<lambda>_. returnS (Some (l\<lparr>le_status := ''expired''\<rparr>)))))))))"

definition current_authority_event :: "'w authority \<Rightarrow> string \<Rightarrow> ('w coordinator, journal_event) op" where
  "current_authority_event au rid =
     bindS (recover_scope_transition au rid) (\<lambda>_.
     bindS (expire_lease au rid) (\<lambda>_. latest rid))"

definition require_authority ::
  "'w authority \<Rightarrow> journal_event \<Rightarrow> string \<Rightarrow> string \<Rightarrow> int \<Rightarrow> int \<Rightarrow> ('w coordinator, reservation \<times> lease) op" where
  "require_authority au e holder lid revision fence =
     bindS (liftE (event_reservation e)) (\<lambda>r.
     bindS (liftE (require_expected_authority r revision fence)) (\<lambda>_.
     bindS (liftE (event_lease e)) (\<lambda>current.
       (case current of
          None \<Rightarrow> failS (Coded ''LEASE_NOT_ACTIVE'')
        | Some l \<Rightarrow>
            if le_status l \<noteq> ''active'' then failS (Coded ''LEASE_NOT_ACTIVE'')
            else if le_lease_id l \<noteq> lid then failS (Coded ''STALE_LEASE'')
            else if le_holder l \<noteq> holder then failS (Coded ''STALE_LEASE_HOLDER'')
            else if le_fence l \<noteq> fence then failS (Coded ''STALE_FENCE_TOKEN'')
            else bindS (liftE (expiry l)) (\<lambda>t.
                 bindS (clock au) (\<lambda>now.
                   if t \<le> now then failS (Coded ''LEASE_EXPIRED'') else returnS (r, l)))))))"

definition assert_mutation_authority ::
  "'w authority \<Rightarrow> string \<Rightarrow> string \<Rightarrow> string \<Rightarrow> int \<Rightarrow> int \<Rightarrow> ('w coordinator, reservation) op" where
  "assert_mutation_authority au rid holder lid revision fence =
     bindS (current_authority_event au rid) (\<lambda>e.
     bindS (require_authority au e holder lid revision fence) (\<lambda>(r, l). returnS r))"

definition heartbeat_lease ::
  "'w authority \<Rightarrow> string \<Rightarrow> string \<Rightarrow> string \<Rightarrow> int \<Rightarrow> int \<Rightarrow> int \<Rightarrow> ('w coordinator, lease) op" where
  "heartbeat_lease au rid holder lid revision fence ttl_seconds =
     bindS (liftE (ttl ttl_seconds)) (\<lambda>duration.
     bindS (current_authority_event au rid) (\<lambda>e.
     bindS (require_authority au e holder lid revision fence) (\<lambda>(r, l).
     bindS (clock au) (\<lambda>now.
       let l' = l\<lparr>le_expires := Some (now + duration), le_status := ''active''\<rparr>
       in bindS (append_authority rid (authority_event e r (Some l') ''lease_heartbeat'')) (\<lambda>_. returnS l')))))"

fun expire_each :: "'w authority \<Rightarrow> string list \<Rightarrow> ('w coordinator, lease list) op" where
  "expire_each au [] = returnS []"
| "expire_each au (rid # rids) =
     bindS (expire_lease au rid) (\<lambda>x.
     bindS (expire_each au rids) (\<lambda>xs. returnS (case x of None \<Rightarrow> xs | Some l \<Rightarrow> l # xs)))"

definition recover :: "'w authority \<Rightarrow> ('w coordinator, lease list) op" where
  "recover au =
     bindS (recover_all_pending au) (\<lambda>_ st. expire_each au (sort (map fst (co_journal st))) st)"

text \<open>\<open>fresh\<close> is the hexadecimal text of the new random identifier.\<close>

definition reassigned_event :: "journal_event \<Rightarrow> reservation \<Rightarrow> lease \<Rightarrow> lease option \<Rightarrow> journal_event" where
  "reassigned_event e r l previous =
     (authority_event e r (Some l) ''lease_reassigned'')
       \<lparr>je_previous_lease := map_option (\<lambda>p. p\<lparr>le_status := ''reassigned''\<rparr>) previous\<rparr>"

definition reassign_lease ::
  "'w authority \<Rightarrow> string \<Rightarrow> string \<Rightarrow> string \<Rightarrow> int \<Rightarrow> int \<Rightarrow> int \<Rightarrow> ('w coordinator, lease) op" where
  "reassign_lease au fresh rid holder revision fence ttl_seconds =
     bindS (liftE (require_non_empty holder)) (\<lambda>_.
     bindS (liftE (ttl ttl_seconds)) (\<lambda>duration.
     bindS (current_authority_event au rid) (\<lambda>e.
     bindS (liftE (event_reservation e)) (\<lambda>r.
     bindS (liftE (require_expected_authority r revision fence)) (\<lambda>_.
     bindS (liftE (event_lease e)) (\<lambda>previous.
     bindS (clock au) (\<lambda>now.
       let r' = r\<lparr>rs_revision := rs_revision r + 1, rs_fence := rs_fence r + 1,
                  rs_lease_id := ''lease-'' @ fresh, rs_status := ''active''\<rparr>;
           l = lease_payload r' holder (rs_lease_id r') now (now + duration) ''active''
       in bindS (append_authority rid (reassigned_event e r' l previous)) (\<lambda>_. returnS l))))))))"

section \<open>Scope amendment\<close>

definition revise_values :: "string list \<Rightarrow> string list \<Rightarrow> string list \<Rightarrow> string list" where
  "revise_values current remove add =
     foldl (\<lambda>vs v. if v \<in> set vs then vs else vs @ [v]) (filter (\<lambda>v. v \<notin> set remove) current) add"

definition apply_scope_revision :: "governed_claim \<Rightarrow> scope_request \<Rightarrow> governed_claim" where
  "apply_scope_revision current q =
     current\<lparr>c_owned := revise_values (c_owned current) (sq_remove_owned q) (sq_add_owned q),
             c_shared := revise_values (c_shared current) (sq_remove_shared q) (sq_add_shared q),
             c_dependencies := revise_values (c_dependencies current) (sq_remove_dependencies q) (sq_add_dependencies q),
             c_owner := (case sq_owner q of None \<Rightarrow> c_owner current | Some w \<Rightarrow> Some w)\<rparr>"

text \<open>\<open>^[0-9]{3}-[a-z0-9]+(?:-[a-z0-9]+)*$\<close>\<close>

definition is_change_id :: "string \<Rightarrow> bool" where
  "is_change_id s =
     (case partition_on (CHR ''-'') s of (digits, sep, rest) \<Rightarrow>
        sep \<and> length digits = 3 \<and> (\<forall>c \<in> set digits. is_digit c) \<and> is_slug rest)"

definition contradiction :: exn where
  "contradiction = Coded ''CHANGE_PATH_CLAIM_CONTRADICTION''"

definition validate_claim_shape :: "governed_claim \<Rightarrow> unit result" where
  "validate_claim_shape c =
     bindE (mapE path_claim (c_owned c)) (\<lambda>owned.
     bindE (mapE path_claim (c_shared c)) (\<lambda>shared.
     bindE (mapE path_claim (case c_excluded c of None \<Rightarrow> [] | Some ps \<Rightarrow> ps)) (\<lambda>excluded.
     bindE (raise_if (owned = []) (Coded ''GOVERNED_OWNED_PATHS_EMPTY'')) (\<lambda>_.
     bindE (forE (\<lambda>p. bindE (raise_if (\<exists>s \<in> set shared. overlaps p s) contradiction) (\<lambda>_.
                       raise_if (\<exists>x \<in> set excluded. overlaps p x) contradiction)) owned) (\<lambda>_.
     bindE (forE (\<lambda>p. raise_if (\<exists>x \<in> set excluded. overlaps p x) contradiction) shared) (\<lambda>_.
     bindE (raise_if (\<not> distinct (c_dependencies c)) (Coded ''CHANGE_DEPENDENCIES_DUPLICATE'')) (\<lambda>_.
     bindE (raise_if (\<exists>d \<in> set (c_dependencies c). \<not> is_change_id d) (Coded ''CHANGE_ID_INVALID'')) (\<lambda>_.
     bindE (raise_if (c_change_id c \<in> set (c_dependencies c)) (Coded ''CHANGE_DEPENDENCY_SELF'')) (\<lambda>_.
       raise_if (case c_owner c of None \<Rightarrow> False | Some w \<Rightarrow> \<not> is_change_id w) (Coded ''CHANGE_ID_INVALID'')
     )))))))))"

text \<open>\<open>str(proposed.get("integration_owner", ""))\<close>: the text of a null owner is \<open>None\<close>.\<close>

definition validate_scope_coordination :: "governed_claim \<Rightarrow> governed_claim \<Rightarrow> scope_request \<Rightarrow> unit result" where
  "validate_scope_coordination current prop q =
     (if sq_add_shared q = [] \<or> c_shared current \<noteq> [] then Inr ()
      else let w = (case c_owner prop of None \<Rightarrow> ''None'' | Some s \<Rightarrow> s) in
        if c_dependencies prop \<noteq> [] \<or> (w \<noteq> [] \<and> w \<noteq> c_change_id prop) then Inr ()
        else Inl (Coded ''SHARED_PATH_COORDINATION_REQUIRED''))"

definition scope_revision_payload :: "scope_request \<Rightarrow> scope_revision" where
  "scope_revision_payload q =
     \<lparr>sr_request = q, sr_proposed_revision = sq_revision q + 1, sr_status = ''proposed''\<rparr>"

definition proposed_reservation_of :: "reservation \<Rightarrow> governed_claim \<Rightarrow> scope_request \<Rightarrow> reservation" where
  "proposed_reservation_of r c q =
     r\<lparr>rs_owned := c_owned c, rs_shared := c_shared c, rs_dependencies := c_dependencies c, rs_owner := c_owner c,
       rs_revision := sq_revision q + 1, rs_fence := sq_fence q + 1\<rparr>"

definition proposal_event ::
  "journal_event \<Rightarrow> reservation \<Rightarrow> lease option \<Rightarrow> scope_revision \<Rightarrow> cas_claim \<Rightarrow> cas_claim \<Rightarrow>
     reservation \<Rightarrow> lease option \<Rightarrow> journal_event" where
  "proposal_event e r l rv expected prop r' l' =
     (authority_event e r l ''scope_revision_proposed'')
       \<lparr>je_revision := Present rv, je_expected_claim := Present expected, je_proposed_claim := Present prop,
        je_proposed_reservation := Present r', je_proposed_lease := lease_evidence l'\<rparr>"

text \<open>The checks of \<open>amend_scope\<close> before anything is written: the proposed claim and the current one.\<close>

definition amendment ::
  "'w authority \<Rightarrow> scope_request \<Rightarrow> reservation \<Rightarrow> 'w coordinator \<Rightarrow> (governed_claim \<times> governed_claim) result" where
  "amendment au q r st =
     bindE (require_expected_authority r (sq_revision q) (sq_fence q)) (\<lambda>_.
     bindE (governed_claim_of au (rs_change r) (co_world st)) (\<lambda>observed.
       let current = claim_with_reservation observed r in
       bindE (raise_if (\<not> scope_matches observed current) (Coded ''GOVERNED_SCOPE_DIVERGED'')) (\<lambda>_.
       let prop = apply_scope_revision current q in
       bindE (validate_claim_shape prop) (\<lambda>_.
       bindE (validate_scope_coordination current prop q) (\<lambda>_.
       bindE (raise_if (scope_matches prop current) (Coded ''SCOPE_REVISION_NO_CHANGE'')) (\<lambda>_.
       bindE (combined_claims au st) (\<lambda>claims.
       bindE (validate_candidate prop (filter (\<lambda>c. c_change_id c \<noteq> rs_change r) claims)) (\<lambda>_.
         Inr (current, prop)))))))))"

text \<open>The call of the adapter, whose exception is kept for later.\<close>

definition call_amend :: "'w authority \<Rightarrow> amend_request \<Rightarrow> ('w coordinator, exn option) op" where
  "call_amend au req st =
     (case au_amend au of
        None \<Rightarrow> (Inr (Some (Coded ''GOVERNED_SCOPE_AMEND_ADAPTER_REQUIRED'')), st)
      | Some amend \<Rightarrow>
          (case amend req (co_world st) of
             (Inl e, w) \<Rightarrow> (Inr (Some e), st\<lparr>co_world := w\<rparr>)
           | (Inr _, w) \<Rightarrow> (Inr None, st\<lparr>co_world := w\<rparr>)))"

definition amend_error :: "exn option \<Rightarrow> exn" where
  "amend_error e =
     (case e of
        None \<Rightarrow> Coded ''GOVERNED_SCOPE_AMEND_NOT_OBSERVED''
      | Some (Coded c) \<Rightarrow> Coded c
      | Some _ \<Rightarrow> Coded ''GOVERNED_SCOPE_AMEND_FAILED'')"

text \<open>After the proposal is recorded: the adapter call, the re-read and the final event.\<close>

definition settle_amendment ::
  "'w authority \<Rightarrow> string \<Rightarrow> journal_event \<Rightarrow> scope_revision \<Rightarrow> reservation \<Rightarrow> lease option \<Rightarrow> reservation \<Rightarrow>
     lease option \<Rightarrow> governed_claim \<Rightarrow> governed_claim \<Rightarrow> ('w coordinator, scope_revision) op" where
  "settle_amendment au rid e rv r l r' l' current prop =
     bindS (call_amend au \<lparr>ar_change = rs_change r, ar_expected = cas_projection current,
                          ar_proposed = cas_projection prop\<rparr>) (\<lambda>err.
     bindS (observe au (rs_change r)) (\<lambda>after.
       if cas_matches after (cas_projection prop) then
         bindS (append_authority rid (accepted_event e rv r' l' ''scope_revision_accepted''))
           (\<lambda>_. returnS (rv\<lparr>sr_status := ''accepted''\<rparr>))
       else
         bindS (append_authority rid (rejected_event e rv r l ''scope_revision_rejected''
                  (if cas_matches after (cas_projection current) then None
                   else Some ''governed claim matches neither current nor proposed authority'')))
           (\<lambda>_. failS (amend_error err))))"

definition write_amendment ::
  "'w authority \<Rightarrow> scope_request \<Rightarrow> journal_event \<Rightarrow> reservation \<Rightarrow> governed_claim \<times> governed_claim \<Rightarrow>
     ('w coordinator, scope_revision) op" where
  "write_amendment au q e r claims =
     bindS (liftE (event_lease e)) (\<lambda>l.
       let r' = proposed_reservation_of r (snd claims) q;
           l' = map_option (\<lambda>x. x\<lparr>le_fence := rs_fence r'\<rparr>) l;
           rv = scope_revision_payload q
       in bindS (append_authority (sq_reservation q)
                  (proposal_event e r l rv (cas_projection (fst claims)) (cas_projection (snd claims)) r' l'))
            (\<lambda>_. settle_amendment au (sq_reservation q) e rv r l r' l' (fst claims) (snd claims)))"

definition amend_scope :: "'w authority \<Rightarrow> scope_request \<Rightarrow> ('w coordinator, scope_revision) op" where
  "amend_scope au q =
     bindS (recover_scope_transition au (sq_reservation q)) (\<lambda>_.
     bindS (latest (sq_reservation q)) (\<lambda>e.
     bindS (liftE (event_reservation e)) (\<lambda>r.
     bindS (readE (amendment au q r)) (write_amendment au q e r))))"

end
