(* ===== verification/Authority_Facts.thy ===== *)
theory Authority_Facts
  imports Authority
begin

text \<open>
  The authority journal as a state machine.  \<open>event_step\<close> is the abstract transition relation between
  the latest event of a reservation and the event appended next; every operation of
  \<open>AuthorityService\<close>, successful or not, is shown to append a chain of such steps.  The invariant of
  the events, the monotonicity of fences and revisions and the rejection of stale authority are
  then proved by induction over the steps.
\<close>

declare op_simps [simp del]

section \<open>The transition relation\<close>

definition reassigned_reservation :: "reservation \<Rightarrow> string \<Rightarrow> reservation" where
  "reassigned_reservation r lid =
     r\<lparr>rs_revision := rs_revision r + 1, rs_fence := rs_fence r + 1, rs_lease_id := lid, rs_status := ''active''\<rparr>"

inductive event_step :: "journal_event \<Rightarrow> journal_event \<Rightarrow> bool" where
  activated: "\<not> proposed e \<Longrightarrow> je_reservation e = Present r \<Longrightarrow> je_lease e = Missing \<Longrightarrow>
    event_step e (authority_event e (r\<lparr>rs_status := ''active''\<rparr>)
      (Some (lease_payload r h (rs_lease_id r) i x ''active'')) ''lease_activated'')"
| heartbeat: "\<not> proposed e \<Longrightarrow> je_reservation e = Present r \<Longrightarrow> je_lease e = Present l \<Longrightarrow> le_status l = ''active'' \<Longrightarrow>
    event_step e (authority_event e r (Some (l\<lparr>le_expires := x, le_status := ''active''\<rparr>)) ''lease_heartbeat'')"
| expired: "\<not> proposed e \<Longrightarrow> je_reservation e = Present r \<Longrightarrow> je_lease e = Present l \<Longrightarrow> le_status l = ''active'' \<Longrightarrow>
    event_step e (expired_event e r l)"
| reassigned: "\<not> proposed e \<Longrightarrow> je_reservation e = Present r \<Longrightarrow> event_lease e = Inr p \<Longrightarrow>
    event_step e (reassigned_event e (reassigned_reservation r lid)
      (lease_payload (reassigned_reservation r lid) h lid i x ''active'') p)"
| scope_proposed: "\<not> proposed e \<Longrightarrow> je_reservation e = Present r \<Longrightarrow> event_lease e = Inr l \<Longrightarrow>
    rs_revision r = sq_revision q \<Longrightarrow> rs_fence r = sq_fence q \<Longrightarrow>
    event_step e (proposal_event e r l (scope_revision_payload q) a b (proposed_reservation_of r c q)
      (map_option (\<lambda>y. y\<lparr>le_fence := rs_fence (proposed_reservation_of r c q)\<rparr>) l))"
| scope_accepted: "je_revision e = Present rv \<Longrightarrow> sr_status rv = ''proposed'' \<Longrightarrow> is_present (je_reservation e) \<Longrightarrow>
    je_proposed_reservation e = Present r' \<Longrightarrow>
    event_step e (accepted_event e rv r' (lease_of_evidence (je_proposed_lease e)) t)"
| scope_rejected: "je_revision e = Present rv \<Longrightarrow> sr_status rv = ''proposed'' \<Longrightarrow> je_reservation e = Present r \<Longrightarrow>
    event_lease e = Inr l \<Longrightarrow> event_step e (rejected_event e rv r l t w)"

inductive_cases event_stepE: "event_step e e'"

inductive journal_step :: "journal \<Rightarrow> journal \<Rightarrow> bool" where
  step: "latest_event rid j = Inr e \<Longrightarrow> event_step e e' \<Longrightarrow> map_of j rid = Some d \<Longrightarrow>
    append_event e' d = Inr d' \<Longrightarrow> journal_step j (AList.update rid d' j)"

section \<open>One append\<close>

lemma latest_in_ok: "latest_in d = Inr e \<Longrightarrow> journal_ok d \<and> history d \<noteq> [] \<and> last (history d) = Event e"
  by (auto simp: latest_in_def journal_ok_def history_def bindE_eq_Inr load_event_def last_map
      split: if_splits journal_file.splits)

lemma latest_event_Inr:
  assumes "latest_event rid j = Inr e"
  obtains d where "reservation_root rid = Inr ()" "map_of j rid = Some d" "latest_in d = Inr e"
  using assms by (auto simp: latest_event_def bindE_eq_Inr split: option.splits)

lemma latest_in_append:
  assumes "journal_ok d" "append_event e d = Inr d'"
  shows "latest_in d' = Inr e"
proof -
  from jl.append_result [OF assms] have "journal_ok d'" "history d' = history d @ [Event e]" by auto
  with latest_in_history [of d'] show ?thesis by (simp add: load_event_def)
qed

lemma append_step:
  assumes "latest_event rid (co_journal st) = Inr e" "event_step e e'"
  obtains j' where "append_authority rid e' st = (Inr (), st\<lparr>co_journal := j'\<rparr>)"
    "journal_step (co_journal st) j'" "latest_event rid j' = Inr e'"
proof -
  from assms(1) obtain d where d: "reservation_root rid = Inr ()" "map_of (co_journal st) rid = Some d"
    "latest_in d = Inr e" by (rule latest_event_Inr)
  then have ok: "journal_ok d" by (simp add: latest_in_ok)
  then obtain d' where d': "append_event e' d = Inr d'" using jl.append_ok [of d e'] by auto
  let ?j = "AList.update rid d' (co_journal st)"
  have "append_authority rid e' st = (Inr (), st\<lparr>co_journal := ?j\<rparr>)"
    using d d' by (simp add: append_authority_def journal_dir_of_def)
  moreover have "journal_step (co_journal st) ?j" by (rule step [OF assms d(2) d'])
  moreover have "latest_event rid ?j = Inr e'"
    using d(1) latest_in_append [OF ok d'] by (simp add: latest_event_def update_conv)
  ultimately show ?thesis by (rule that)
qed

section \<open>A calculus for the operations\<close>

text \<open>\<open>sim m\<close>: whatever \<open>m\<close> returns, it only appends steps.  \<open>sim_from rid e m\<close>: the same, from a state in
  which \<open>e\<close> is the latest event of \<open>rid\<close>.\<close>

definition sim :: "('w coordinator, 'a) op \<Rightarrow> bool" where
  "sim m = (\<forall>st x st'. m st = (x, st') \<longrightarrow> journal_step\<^sup>*\<^sup>* (co_journal st) (co_journal st'))"

definition sim_from :: "string \<Rightarrow> journal_event \<Rightarrow> ('w coordinator, 'a) op \<Rightarrow> bool" where
  "sim_from rid e m = (\<forall>st x st'. latest_event rid (co_journal st) = Inr e \<longrightarrow> m st = (x, st') \<longrightarrow>
     journal_step\<^sup>*\<^sup>* (co_journal st) (co_journal st'))"

definition quiet :: "('w coordinator, 'a) op \<Rightarrow> bool" where
  "quiet m = (\<forall>st x st'. m st = (x, st') \<longrightarrow> co_journal st' = co_journal st)"

named_theorems sim_rules

lemma quiet_ops [sim_rules]:
  "quiet (returnS x)" "quiet (failS y)" "quiet (liftE v)" "quiet (readE f)" "quiet (clock au)"
  "quiet (observe au i)" "quiet (call_amend au req)"
  by (auto simp: quiet_def op_simps clock_def call_world_def observe_def call_amend_def split: prod.splits option.splits sum.splits)

lemma sim_quiet: "quiet m \<Longrightarrow> sim m"
  by (auto simp: quiet_def sim_def)

lemma sim_from_sim: "sim m \<Longrightarrow> sim_from rid e m"
  by (auto simp: sim_def sim_from_def)

lemma sim_from_quiet: "quiet m \<Longrightarrow> sim_from rid e m"
  by (simp add: sim_quiet sim_from_sim)

lemma sim_from_stop [sim_rules]: "sim_from rid e (returnS x)" "sim_from rid e (failS y)"
  by (simp_all add: sim_from_quiet quiet_ops)

lemma sim_bind: "sim m \<Longrightarrow> (\<And>x. sim (f x)) \<Longrightarrow> sim (bindS m f)"
  unfolding sim_def bindS_eq by (blast intro: rtranclp_trans)

lemma sim_bind_lift: "(\<And>x. v = Inr x \<Longrightarrow> sim (f x)) \<Longrightarrow> sim (bindS (liftE v) f)"
  unfolding sim_def bindS_eq by (auto simp: op_simps)

lemma sim_from_bind_lift: "(\<And>x. v = Inr x \<Longrightarrow> sim_from rid e (f x)) \<Longrightarrow> sim_from rid e (bindS (liftE v) f)"
  unfolding sim_from_def bindS_eq by (auto simp: op_simps)

lemma sim_from_bind_quiet:
  assumes "quiet m" "\<And>x. sim_from rid e (f x)"
  shows "sim_from rid e (bindS m f)"
  unfolding sim_from_def
proof (intro allI impI)
  fix st x st'
  assume l: "latest_event rid (co_journal st) = Inr e" and r: "bindS m f st = (x, st')"
  from r consider y where "m st = (Inl y, st')" | y s where "m st = (Inr y, s)" "f y s = (x, st')"
    by (auto simp: bindS_eq)
  then show "journal_step\<^sup>*\<^sup>* (co_journal st) (co_journal st')"
  proof cases
    case 1
    with assms(1) show ?thesis by (auto simp: quiet_def)
  next
    case (2 y s)
    with assms(1) have "co_journal s = co_journal st" by (auto simp: quiet_def)
    with assms(2) [of y] 2(2) l show ?thesis unfolding sim_from_def by metis
  qed
qed

lemma sim_from_read_lift:
  assumes "\<And>s x. f s = Inr x \<Longrightarrow> sim_from rid e (g x)"
  shows "sim_from rid e (bindS (readE f) g)"
  using assms unfolding sim_from_def bindS_eq by (auto simp: op_simps)

lemma sim_latest: "(\<And>e. sim_from rid e (f e)) \<Longrightarrow> sim (bindS (latest rid) f)"
  unfolding sim_def sim_from_def bindS_eq latest_def op_simps by auto

lemma sim_from_append:
  assumes "event_step e e'" "sim_from rid e' (f ())"
  shows "sim_from rid e (bindS (append_authority rid e') f)"
  unfolding sim_from_def
proof (intro allI impI)
  fix st x st'
  assume l: "latest_event rid (co_journal st) = Inr e" and r: "bindS (append_authority rid e') f st = (x, st')"
  from append_step [OF l assms(1)] obtain j' where j: "append_authority rid e' st = (Inr (), st\<lparr>co_journal := j'\<rparr>)"
    "journal_step (co_journal st) j'" "latest_event rid j' = Inr e'" .
  from r j(1) have "f () (st\<lparr>co_journal := j'\<rparr>) = (x, st')" by simp
  with assms(2) [unfolded sim_from_def, rule_format, of "st\<lparr>co_journal := j'\<rparr>" x st'] j(3)
  have "journal_step\<^sup>*\<^sup>* j' (co_journal st')" by simp
  with j(2) show "journal_step\<^sup>*\<^sup>* (co_journal st) (co_journal st')" by (rule converse_rtranclp_into_rtranclp)
qed

lemma sim_from_append_last:
  assumes "event_step e e'"
  shows "sim_from rid e (append_authority rid e')"
proof -
  have eq: "append_authority rid e' = bindS (append_authority rid e') returnS"
    by (auto simp: fun_eq_iff bindS_def op_simps split: sum.splits prod.splits)
  show ?thesis
    by (subst eq, rule sim_from_append [OF assms]) (simp add: sim_from_quiet quiet_ops)
qed


section \<open>Every operation appends a chain of steps\<close>

lemma event_reservation_Inr: "event_reservation e = Inr r \<longleftrightarrow> je_reservation e = Present r"
  by (auto simp: event_reservation_def split: evidence.splits)

lemma event_lease_Inr:
  "event_lease e = Inr l \<longleftrightarrow> je_lease e = lease_evidence l"
  by (cases l) (auto simp: event_lease_def lease_evidence_def split: evidence.splits)

lemma not_proposedI: "je_revision e = Present rv \<Longrightarrow> sr_status rv \<noteq> ''proposed'' \<Longrightarrow> \<not> proposed e"
  by (simp add: proposed_def)

lemma sim_recover_scope_transition: "sim (recover_scope_transition au rid)"
  unfolding recover_scope_transition_def
proof (rule sim_latest)
  fix e
  show "sim_from rid e (case je_revision e of
          Present rv \<Rightarrow>
            if sr_status rv \<noteq> ''proposed'' then returnS ()
            else (case je_proposed_reservation e of
                    Present proposed_r \<Rightarrow>
                      bindS (liftE (event_reservation e)) (\<lambda>current.
                      bindS (observe au (rs_change current)) (\<lambda>observed.
                      bindS (liftE (transition_matches e observed current proposed_r)) (\<lambda>(is_proposed, is_current).
                        if is_proposed then
                          append_authority rid (accepted_event e rv proposed_r (lease_of_evidence (je_proposed_lease e))
                            ''scope_revision_recovered_accepted'')
                        else
                          bindS (liftE (event_lease e)) (\<lambda>l.
                            append_authority rid
                              (if is_current then rejected_event e rv current l ''scope_revision_recovered_rejected'' None
                               else rejected_event e rv current l ''scope_revision_recovery_degraded''
                                      (Some ''governed scope matches neither transition endpoint''))))))
                  | _ \<Rightarrow> failS (Coded ''SCOPE_TRANSITION_EVIDENCE_INVALID''))
        | _ \<Rightarrow> returnS ())"
    by (auto split: evidence.splits
        intro!: sim_from_bind_lift sim_from_bind_quiet sim_from_append_last scope_accepted scope_rejected
          sim_rules simp: event_reservation_Inr is_present_def)
qed

lemma sim_recover_each: "sim (recover_each au rids)"
  by (induction rids) (auto intro: sim_bind sim_recover_scope_transition sim_quiet sim_rules)

lemma sim_state: "(\<And>j. sim (f j)) \<Longrightarrow> sim (\<lambda>st. f (co_journal st) st)"
  by (auto simp: sim_def)

lemma sim_recover_all: "sim (recover_all_pending au)"
  unfolding recover_all_pending_def [abs_def] by (rule sim_state) (rule sim_recover_each)


lemma accepted_not_proposed: "\<not> proposed (accepted_event e rv r l t)"
  by (simp add: accepted_event_def proposed_def)

lemma rejected_not_proposed: "\<not> proposed (rejected_event e rv r l t w)"
  by (simp add: rejected_event_def proposed_def Let_def split: option.splits)

lemma authority_not_proposed: "\<not> proposed (authority_event e r l t)"
  by (simp add: authority_event_def proposed_def)

lemma latest_eq: "latest rid st = (x, st') \<longleftrightarrow> st' = st \<and> x = latest_event rid (co_journal st)"
  by (auto simp: latest_def op_simps)

lemma latest_bind_Inr:
  assumes "bindS (latest rid) f st = (Inr u, st')"
  obtains e where "latest_event rid (co_journal st) = Inr e" "f e st = (Inr u, st')"
  using assms by (cases "latest_event rid (co_journal st)") (auto simp: bindS_def latest_def op_simps)

lemma lift_bind_Inr:
  assumes "bindS (liftE v) f st = (Inr u, st')"
  obtains x where "v = Inr x" "f x st = (Inr u, st')"
  using assms by (auto simp: bindS_eq op_simps)

lemma read_bind_Inr:
  assumes "bindS (readE g) f st = (Inr u, st')"
  obtains x where "g st = Inr x" "f x st = (Inr u, st')"
  using assms by (cases "g st") (auto simp: bindS_def op_simps)

lemma observe_bind_Inr:
  assumes "bindS (observe au i) f st = (Inr u, st')"
  obtains c where "governed_claim_of au i (co_world st) = Inr c" "f c st = (Inr u, st')"
  using assms by (cases "governed_claim_of au i (co_world st)") (auto simp: bindS_def observe_def op_simps)

lemma append_authority_latest:
  assumes "latest_event rid (co_journal st) = Inr e" "append_authority rid e' st = (Inr u, st')"
  shows "latest_event rid (co_journal st') = Inr e' \<and> co_world st' = co_world st"
proof -
  from assms(1) obtain d where d: "reservation_root rid = Inr ()" "map_of (co_journal st) rid = Some d"
    "latest_in d = Inr e" by (rule latest_event_Inr)
  then have ok: "journal_ok d" by (simp add: latest_in_ok)
  then obtain d' where d': "append_event e' d = Inr d'" using jl.append_ok [of d e'] by auto
  have "st' = st\<lparr>co_journal := AList.update rid d' (co_journal st)\<rparr>"
    using d d' assms(2) by (simp add: append_authority_def journal_dir_of_def)
  then show ?thesis using d(1) latest_in_append [OF ok d'] by (simp add: latest_event_def update_conv)
qed

lemma recover_unproposed:
  assumes "latest_event rid (co_journal st) = Inr e" "\<not> proposed e"
  shows "recover_scope_transition au rid st = (Inr (), st)"
  using assms by (auto simp: recover_scope_transition_def bindS_def latest_def op_simps proposed_def split: evidence.splits)

text \<open>The recovery of a proposal appends the event that the observed claim calls for.\<close>

lemma recover_proposed:
  assumes "recover_scope_transition au rid st = (Inr u, st')" "latest_event rid (co_journal st) = Inr e" "proposed e"
  obtains rv r' current observed b c where "je_revision e = Present rv" "sr_status rv = ''proposed''"
    "je_proposed_reservation e = Present r'" "je_reservation e = Present current"
    "governed_claim_of au (rs_change current) (co_world st) = Inr observed"
    "transition_matches e observed current r' = Inr (b, c)"
    "(b \<and> append_authority rid (accepted_event e rv r' (lease_of_evidence (je_proposed_lease e))
        ''scope_revision_recovered_accepted'') st = (Inr u, st')) \<or>
     (\<not> b \<and> (\<exists>l t w. event_lease e = Inr l \<and> (w = None \<longleftrightarrow> c) \<and>
        append_authority rid (rejected_event e rv current l t w) st = (Inr u, st')))"
proof -
  from assms(3) obtain rv where rv: "je_revision e = Present rv" "sr_status rv = ''proposed''"
    by (auto simp: proposed_def split: evidence.splits)
  note a = assms(1) [unfolded recover_scope_transition_def]
  from a assms(2) rv obtain r' where r': "je_proposed_reservation e = Present r'"
    by (elim latest_bind_Inr) (auto simp: op_simps split: evidence.splits)
  from a assms(2) rv r' have "bindS (liftE (event_reservation e)) (\<lambda>current.
      bindS (observe au (rs_change current)) (\<lambda>observed.
      bindS (liftE (transition_matches e observed current r')) (\<lambda>(is_proposed, is_current).
        if is_proposed then
          append_authority rid (accepted_event e rv r' (lease_of_evidence (je_proposed_lease e))
            ''scope_revision_recovered_accepted'')
        else
          bindS (liftE (event_lease e)) (\<lambda>l.
            append_authority rid
              (if is_current then rejected_event e rv current l ''scope_revision_recovered_rejected'' None
               else rejected_event e rv current l ''scope_revision_recovery_degraded''
                      (Some ''governed scope matches neither transition endpoint'')))))) st = (Inr u, st')"
    by (elim latest_bind_Inr) simp
  then obtain current observed b c where *: "event_reservation e = Inr current"
    "governed_claim_of au (rs_change current) (co_world st) = Inr observed"
    "transition_matches e observed current r' = Inr (b, c)"
    and cont: "(if b then append_authority rid (accepted_event e rv r' (lease_of_evidence (je_proposed_lease e))
                    ''scope_revision_recovered_accepted'')
              else bindS (liftE (event_lease e)) (\<lambda>l. append_authority rid
                     (if c then rejected_event e rv current l ''scope_revision_recovered_rejected'' None
                      else rejected_event e rv current l ''scope_revision_recovery_degraded''
                        (Some ''governed scope matches neither transition endpoint'')))) st = (Inr u, st')"
    by (elim lift_bind_Inr observe_bind_Inr) (auto split: prod.splits)
  show ?thesis
  proof (rule that [OF rv r' *(1) [unfolded event_reservation_Inr] *(2,3)], cases b)
    case True
    with cont show "(b \<and> append_authority rid (accepted_event e rv r' (lease_of_evidence (je_proposed_lease e))
        ''scope_revision_recovered_accepted'') st = (Inr u, st')) \<or>
      (\<not> b \<and> (\<exists>l t w. event_lease e = Inr l \<and> (w = None \<longleftrightarrow> c) \<and>
        append_authority rid (rejected_event e rv current l t w) st = (Inr u, st')))" by simp
  next
    case False
    with cont show "(b \<and> append_authority rid (accepted_event e rv r' (lease_of_evidence (je_proposed_lease e))
        ''scope_revision_recovered_accepted'') st = (Inr u, st')) \<or>
      (\<not> b \<and> (\<exists>l t w. event_lease e = Inr l \<and> (w = None \<longleftrightarrow> c) \<and>
        append_authority rid (rejected_event e rv current l t w) st = (Inr u, st')))"
    proof -
      from cont False obtain l where l: "event_lease e = Inr l"
        "append_authority rid (if c then rejected_event e rv current l ''scope_revision_recovered_rejected'' None
           else rejected_event e rv current l ''scope_revision_recovery_degraded''
             (Some ''governed scope matches neither transition endpoint'')) st = (Inr u, st')"
        by (auto elim: lift_bind_Inr)
      with False show ?thesis by (cases c) (simp_all, blast+)
    qed
  qed
qed

text \<open>After a completed recovery the latest event is not a proposal.\<close>

lemma recovered:
  assumes "recover_scope_transition au rid st = (Inr u, st')"
  shows "\<exists>e. latest_event rid (co_journal st') = Inr e \<and> \<not> proposed e \<and> co_world st' = co_world st"
proof -
  from assms obtain e where e: "latest_event rid (co_journal st) = Inr e"
    unfolding recover_scope_transition_def by (rule latest_bind_Inr)
  show ?thesis
  proof (cases "proposed e")
    case False
    with recover_unproposed [OF e] assms e show ?thesis by auto
  next
    case True
    from recover_proposed [OF assms e True] obtain e' where "append_authority rid e' st = (Inr u, st')"
      "\<not> proposed e'" using accepted_not_proposed rejected_not_proposed by metis
    with append_authority_latest [OF e] show ?thesis by blast
  qed
qed


text \<open>Operations that touch only the directory of one reservation.\<close>

definition only :: "string \<Rightarrow> ('w coordinator, 'a) op \<Rightarrow> bool" where
  "only rid m = (\<forall>st x st'. m st = (x, st') \<longrightarrow>
     (\<forall>k. k \<noteq> rid \<longrightarrow> map_of (co_journal st') k = map_of (co_journal st) k))"

lemma only_quiet: "quiet m \<Longrightarrow> only rid m"
  by (auto simp: only_def quiet_def)

lemma only_stop: "only rid (returnS x)" "only rid (failS y)"
  by (auto intro: only_quiet quiet_ops)

lemma only_bind: "only rid m \<Longrightarrow> (\<And>x. only rid (f x)) \<Longrightarrow> only rid (bindS m f)"
  unfolding only_def bindS_eq by metis

lemma only_bind_quiet: "quiet m \<Longrightarrow> (\<And>x. only rid (f x)) \<Longrightarrow> only rid (bindS m f)"
  by (simp add: only_bind only_quiet)

lemma only_append: "only rid (append_authority rid e)"
  by (auto simp: only_def append_authority_def update_conv split: sum.splits)

lemma quiet_latest: "quiet (latest rid)"
  by (simp add: latest_def quiet_ops)

lemma only_recover: "only rid (recover_scope_transition au rid)"
  unfolding recover_scope_transition_def
  by (auto intro!: only_bind_quiet quiet_latest quiet_ops only_append only_stop split: evidence.splits)

lemma only_expire: "only rid (expire_lease au rid)"
  unfolding expire_lease_def
  by (auto intro!: only_bind_quiet [OF quiet_latest] only_bind_quiet [OF quiet_ops(3)]
      only_bind_quiet [OF quiet_ops(5)] only_bind [OF only_append] only_stop split: option.splits)

lemma only_latest:
  "only rid m \<Longrightarrow> m st = (x, st') \<Longrightarrow> k \<noteq> rid \<Longrightarrow> latest_event k (co_journal st') = latest_event k (co_journal st)"
  by (simp add: only_def latest_event_def)

section \<open>Expiry and the current event\<close>

lemma sim_from_latest: "sim_from rid e (f e) \<Longrightarrow> sim_from rid e (bindS (latest rid) f)"
  unfolding sim_from_def bindS_eq latest_eq by auto

lemma sim_from_expire: "\<not> proposed e \<Longrightarrow> sim_from rid e (expire_lease au rid)"
  unfolding expire_lease_def
  by (auto intro!: sim_from_latest sim_from_bind_lift sim_from_bind_quiet [OF quiet_ops(5)] sim_from_append
      sim_rules expired simp: event_reservation_Inr event_lease_Inr lease_evidence_def split: option.splits)

lemma expire_lease_result:
  assumes "latest_event rid (co_journal st) = Inr e" "\<not> proposed e" "expire_lease au rid st = (Inr u, st')"
  shows "\<exists>e'. latest_event rid (co_journal st') = Inr e' \<and> \<not> proposed e'"
proof -
  from assms(3) obtain current where c: "event_lease e = Inr current"
    "(case current of
          None \<Rightarrow> returnS None
        | Some l \<Rightarrow>
            if le_status l \<noteq> ''active'' then returnS None
            else bindS (liftE (expiry l)) (\<lambda>t.
                 bindS (clock au) (\<lambda>now.
                   if now < t then returnS None
                   else bindS (liftE (event_reservation e)) (\<lambda>r.
                        bindS (append_authority rid (expired_event e r l))
                          (\<lambda>_. returnS (Some (l\<lparr>le_status := ''expired''\<rparr>))))))) st = (Inr u, st')"
    unfolding expire_lease_def using assms(1) by (auto elim!: latest_bind_Inr lift_bind_Inr)
  have q: "co_journal s = co_journal st" if "clock au st = (y, s)" for y s
    using quiet_ops(5) [of au] that by (auto simp: quiet_def)
  show ?thesis
  proof (cases "co_journal st' = co_journal st")
    case True
    with assms(1,2) show ?thesis by auto
  next
    case False
    with c(2) obtain l now s1 r s2 where "clock au st = (Inr now, s1)"
      "append_authority rid (expired_event e r l) s1 = (Inr (), s2)" "st' = s2"
      by (auto simp: bindS_eq op_simps dest: q split: option.splits if_splits)
    moreover have "co_journal s1 = co_journal st" by (rule q) fact
    ultimately have "latest_event rid (co_journal st') = Inr (expired_event e r l)"
      using append_authority_latest [of rid s1 e] assms(1) by simp
    then show ?thesis by (simp add: expired_event_def authority_not_proposed)
  qed
qed

lemma sim_bind_recover:
  assumes "\<And>e. \<not> proposed e \<Longrightarrow> sim_from rid e (f ())"
  shows "sim (bindS (recover_scope_transition au rid) f)"
  unfolding sim_def
proof (intro allI impI)
  fix st x st'
  assume "bindS (recover_scope_transition au rid) f st = (x, st')"
  then consider y where "recover_scope_transition au rid st = (Inl y, st')"
    | s where "recover_scope_transition au rid st = (Inr (), s)" "f () s = (x, st')"
    by (auto simp: bindS_eq)
  then show "journal_step\<^sup>*\<^sup>* (co_journal st) (co_journal st')"
  proof cases
    case 1
    with sim_recover_scope_transition [of au rid] show ?thesis by (auto simp: sim_def)
  next
    case (2 s)
    from recovered [OF 2(1)] obtain e where e: "latest_event rid (co_journal s) = Inr e" "\<not> proposed e" by blast
    from assms [OF e(2)] e(1) 2(2) have "journal_step\<^sup>*\<^sup>* (co_journal s) (co_journal st')"
      unfolding sim_from_def by blast
    moreover have "journal_step\<^sup>*\<^sup>* (co_journal st) (co_journal s)"
      using sim_recover_scope_transition [of au rid] 2(1) unfolding sim_def by blast
    ultimately show ?thesis by simp
  qed
qed

lemma sim_bind_current:
  assumes "\<And>e. \<not> proposed e \<Longrightarrow> sim_from rid e (f e)"
  shows "sim (bindS (current_authority_event au rid) f)"
proof -
  have assoc: "bindS (current_authority_event au rid) f =
      bindS (recover_scope_transition au rid) (\<lambda>_. bindS (expire_lease au rid) (\<lambda>_. bindS (latest rid) f))"
    by (auto simp: fun_eq_iff current_authority_event_def bindS_def split: sum.splits prod.splits)
  have "sim_from rid e (bindS (expire_lease au rid) (\<lambda>_. bindS (latest rid) f))" if np: "\<not> proposed e" for e
    unfolding sim_from_def
  proof (intro allI impI)
    fix st x st'
    assume l: "latest_event rid (co_journal st) = Inr e"
      and r: "bindS (expire_lease au rid) (\<lambda>_. bindS (latest rid) f) st = (x, st')"
    from r consider y where "expire_lease au rid st = (Inl y, st')"
      | u s where "expire_lease au rid st = (Inr u, s)" "bindS (latest rid) f s = (x, st')"
      by (auto simp: bindS_eq)
    then show "journal_step\<^sup>*\<^sup>* (co_journal st) (co_journal st')"
    proof cases
      case 1
      with sim_from_expire [OF np] l show ?thesis unfolding sim_from_def by blast
    next
      case (2 u s)
      from expire_lease_result [OF l np 2(1)] obtain e' where e': "latest_event rid (co_journal s) = Inr e'"
        "\<not> proposed e'" by blast
      from sim_from_latest [where f = f and e = e', OF assms [OF e'(2)]] e'(1) 2(2)
      have "journal_step\<^sup>*\<^sup>* (co_journal s) (co_journal st')" unfolding sim_from_def by blast
      moreover have "journal_step\<^sup>*\<^sup>* (co_journal st) (co_journal s)"
        using sim_from_expire [OF np] l 2(1) unfolding sim_from_def by blast
      ultimately show ?thesis by simp
    qed
  qed
  then show ?thesis unfolding assoc by (rule sim_bind_recover)
qed

section \<open>The operations\<close>

lemma sim_current_reservation: "sim (current_reservation au rid)"
  unfolding current_reservation_def
  by (intro sim_bind_recover sim_from_latest sim_from_quiet quiet_ops)

lemma sim_degraded_components: "sim (degraded_components_of sha au)"
  unfolding degraded_components_of_def
  by (intro sim_bind sim_recover_all sim_quiet quiet_ops)

lemma sim_activate: "sim (activate_lease au rid h n)"
  unfolding activate_lease_def Let_def
  by (intro sim_bind_lift sim_bind_recover sim_from_latest sim_from_bind_lift)
    (auto intro!: sim_rules sim_from_append activated sim_from_bind_quiet [OF quiet_ops(5)]
      simp: event_reservation_Inr event_lease_Inr lease_evidence_def split: option.splits)

lemma quiet_bind: "quiet m \<Longrightarrow> (\<And>x. quiet (f x)) \<Longrightarrow> quiet (bindS m f)"
  unfolding quiet_def bindS_eq by metis

lemma quiet_require_authority: "quiet (require_authority au e h lid rv f)"
  unfolding require_authority_def by (auto intro!: quiet_bind quiet_ops split: option.splits)

lemma sim_assert: "sim (assert_mutation_authority au rid h lid rv f)"
  unfolding assert_mutation_authority_def
  by (intro sim_bind_current sim_from_quiet quiet_bind quiet_require_authority) (auto intro: quiet_ops)

lemma require_authority_Inr:
  assumes "require_authority au e h lid rv f st = (Inr (r, l), st')"
  shows "je_reservation e = Present r \<and> je_lease e = Present l \<and> rs_revision r = rv \<and> rs_fence r = f \<and>
    le_status l = ''active'' \<and> le_lease_id l = lid \<and> le_holder l = h \<and> le_fence l = f \<and>
    (\<exists>t now. le_expires l = Some t \<and> clock au st = (Inr now, st') \<and> now < t)"
proof -
  from assms obtain l' where a: "event_reservation e = Inr r" "require_expected_authority r rv f = Inr ()"
    "event_lease e = Inr (Some l')" "le_status l' = ''active''" "le_lease_id l' = lid" "le_holder l' = h" "le_fence l' = f"
    and c: "bindS (liftE (expiry l')) (\<lambda>t. bindS (clock au) (\<lambda>now.
              if t \<le> now then failS (Coded ''LEASE_EXPIRED'') else returnS (r, l'))) st = (Inr (r, l), st')"
    unfolding require_authority_def
    by (elim lift_bind_Inr) (auto simp: op_simps bindS_eq split: option.splits if_splits)
  from c obtain t now where "expiry l' = Inr t" "clock au st = (Inr now, st')" "now < t" "l' = l"
    by (auto elim!: lift_bind_Inr simp: bindS_eq op_simps split: if_splits)
  with a show ?thesis
    by (auto simp: event_reservation_Inr event_lease_Inr lease_evidence_def require_expected_authority_def
        err_simps expiry_def split: option.splits)
qed


lemma sim_from_bind_result:
  assumes "quiet m" "\<And>st x st'. m st = (Inr x, st') \<Longrightarrow> sim_from rid e (f x)"
  shows "sim_from rid e (bindS m f)"
  unfolding sim_from_def
proof (intro allI impI)
  fix st x st'
  assume l: "latest_event rid (co_journal st) = Inr e" and r: "bindS m f st = (x, st')"
  from r consider y where "m st = (Inl y, st')" | y s where "m st = (Inr y, s)" "f y s = (x, st')"
    by (auto simp: bindS_eq)
  then show "journal_step\<^sup>*\<^sup>* (co_journal st) (co_journal st')"
  proof cases
    case 1
    with assms(1) show ?thesis by (auto simp: quiet_def)
  next
    case (2 y s)
    with assms(1) have "co_journal s = co_journal st" by (auto simp: quiet_def)
    with assms(2) [OF 2(1)] 2(2) l show ?thesis unfolding sim_from_def by metis
  qed
qed

lemma sim_heartbeat: "sim (heartbeat_lease au rid h lid rv f n)"
  unfolding heartbeat_lease_def
proof (intro sim_bind_lift sim_bind_current sim_from_bind_result [OF quiet_require_authority])
  fix duration e st st' and p :: "reservation \<times> lease"
  assume np: "\<not> proposed e" and ra: "require_authority au e h lid rv f st = (Inr p, st')"
  obtain r l where p: "p = (r, l)" by (cases p)
  from require_authority_Inr [OF ra [unfolded p]]
  have "je_reservation e = Present r" "je_lease e = Present l" "le_status l = ''active''" by auto
  from heartbeat [OF np this] show "sim_from rid e (case p of (r, l) \<Rightarrow>
      bindS (clock au) (\<lambda>now. let l' = l\<lparr>le_expires := Some (now + duration), le_status := ''active''\<rparr>
       in bindS (append_authority rid (authority_event e r (Some l') ''lease_heartbeat'')) (\<lambda>_. returnS l')))"
    unfolding p Let_def prod.case
    by (intro sim_from_bind_quiet [OF quiet_ops(5)] sim_from_append sim_rules)
qed

lemma sim_reassign: "sim (reassign_lease au fresh rid h rv f n)"
  unfolding reassign_lease_def Let_def
  by (intro sim_bind_lift sim_bind_current sim_from_bind_lift sim_from_bind_quiet [OF quiet_ops(5)] sim_from_append sim_rules)
    (use reassigned in \<open>auto simp: event_reservation_Inr reassigned_reservation_def lease_payload_def\<close>)

lemma outcome_proposal: "je_outcome (proposal_event e r l rv a b r' l') = je_outcome e"
  by (simp add: proposal_event_def authority_event_def)

lemma proposal_fields:
  "je_revision (proposal_event e r l rv a b r' l') = Present rv"
  "je_reservation (proposal_event e r l rv a b r' l') = Present r"
  "je_lease (proposal_event e r l rv a b r' l') = lease_evidence l"
  "je_proposed_reservation (proposal_event e r l rv a b r' l') = Present r'"
  "je_proposed_lease (proposal_event e r l rv a b r' l') = lease_evidence l'"
  by (simp_all add: proposal_event_def authority_event_def)

lemma authority_event_outcome:
  "je_outcome e = je_outcome e' \<Longrightarrow> authority_event e r l t = authority_event e' r l t"
  by (simp add: authority_event_def)

lemma lease_of_lease_evidence [simp]: "lease_of_evidence (lease_evidence l) = l"
  by (cases l) (simp_all add: lease_of_evidence_def lease_evidence_def)

lemma step_accept_own:
  assumes "sr_status rv = ''proposed''"
  shows "event_step (proposal_event e r l rv a b r' l') (accepted_event e rv r' l' t)"
proof -
  let ?p = "proposal_event e r l rv a b r' l'"
  have "event_step ?p (accepted_event ?p rv r' (lease_of_evidence (je_proposed_lease ?p)) t)"
    by (rule scope_accepted) (simp_all add: proposal_fields assms is_present_def)
  then show ?thesis
    by (simp add: accepted_event_def authority_event_outcome [of ?p e] outcome_proposal proposal_fields)
qed

lemma step_reject_own:
  assumes "sr_status rv = ''proposed''"
  shows "event_step (proposal_event e r l rv a b r' l') (rejected_event e rv r l t w)"
proof -
  let ?p = "proposal_event e r l rv a b r' l'"
  have "event_step ?p (rejected_event ?p rv r l t w)"
    by (rule scope_rejected) (simp_all add: proposal_fields assms event_lease_Inr)
  then show ?thesis by (simp add: rejected_event_def authority_event_outcome [of ?p e] outcome_proposal)
qed

definition amendment_checked ::
  "'w authority \<Rightarrow> scope_request \<Rightarrow> reservation \<Rightarrow> 'w coordinator \<Rightarrow> governed_claim \<times> governed_claim \<Rightarrow> bool" where
  "amendment_checked au q r st claims \<longleftrightarrow>
     rs_revision r = sq_revision q \<and> rs_fence r = sq_fence q \<and>
     (\<exists>observed others. governed_claim_of au (rs_change r) (co_world st) = Inr observed \<and>
        fst claims = claim_with_reservation observed r \<and> scope_matches observed (fst claims) \<and>
        snd claims = apply_scope_revision (fst claims) q \<and> validate_claim_shape (snd claims) = Inr () \<and>
        \<not> scope_matches (snd claims) (fst claims) \<and>
        combined_claims au st = Inr others \<and>
        validate_candidate (snd claims) (filter (\<lambda>c. c_change_id c \<noteq> rs_change r) others) = Inr ())"

lemma amendment_Inr: "amendment au q r st = Inr claims \<Longrightarrow> amendment_checked au q r st claims"
  unfolding amendment_def Let_def amendment_checked_def require_expected_authority_def
  by (elim bindE_InrE) (simp add: raise_if_eq_Inr, metis fst_conv snd_conv)

lemma sim_settle:
  assumes "sr_status rv = ''proposed''"
  shows "sim_from rid (proposal_event e r l rv a b r' l') (settle_amendment au rid e rv r l r' l' current prop)"
  unfolding settle_amendment_def
proof (intro sim_from_bind_quiet [OF quiet_ops(7)] sim_from_bind_quiet [OF quiet_ops(6)])
  fix err after
  show "sim_from rid (proposal_event e r l rv a b r' l')
      (if cas_matches after (cas_projection prop) then
         bindS (append_authority rid (accepted_event e rv r' l' ''scope_revision_accepted''))
           (\<lambda>_. returnS (rv\<lparr>sr_status := ''accepted''\<rparr>))
       else
         bindS (append_authority rid (rejected_event e rv r l ''scope_revision_rejected''
                  (if cas_matches after (cas_projection current) then None
                   else Some ''governed claim matches neither current nor proposed authority'')))
           (\<lambda>_. failS (amend_error err)))"
    by (cases "cas_matches after (cas_projection prop)")
      (simp_all only: if_True if_False, auto intro!: sim_from_append step_accept_own step_reject_own sim_from_stop assms)
qed

lemma sim_amend: "sim (amend_scope au q)"
  unfolding amend_scope_def
proof (intro sim_bind_recover sim_from_latest sim_from_bind_lift sim_from_bind_result [OF quiet_ops(4)])
  fix e r st claims st'
  assume np: "\<not> proposed e" and r: "event_reservation e = Inr r"
    and am: "readE (amendment au q r) st = (Inr claims, st')"
  from am have "amendment au q r st = Inr claims" by (auto simp: op_simps)
  then have a: "rs_revision r = sq_revision q" "rs_fence r = sq_fence q"
    unfolding atomize_conj by (blast dest: amendment_Inr [unfolded amendment_checked_def])
  show "sim_from (sq_reservation q) e (write_amendment au q e r claims)"
    unfolding write_amendment_def Let_def
    by (intro sim_from_bind_lift sim_from_append sim_settle scope_proposed np a)
      (simp_all add: r [unfolded event_reservation_Inr] scope_revision_payload_def)
qed

section \<open>Recovery of all reservations\<close>

definition calm :: "journal \<Rightarrow> bool" where
  "calm j = (\<forall>rid e. latest_event rid j = Inr e \<longrightarrow> \<not> proposed e)"

lemma recover_each_settles:
  "recover_each au rids st = (Inr u, st') \<Longrightarrow>
     (\<forall>rid e. (rid \<in> set rids \<or> (\<forall>x. latest_event rid (co_journal st) = Inr x \<longrightarrow> \<not> proposed x)) \<longrightarrow>
        latest_event rid (co_journal st') = Inr e \<longrightarrow> \<not> proposed e)"
proof (induction rids arbitrary: st)
  case (Cons rid rids)
  from Cons.prems obtain s where s: "recover_scope_transition au rid st = (Inr (), s)"
    "recover_each au rids s = (Inr u, st')" by (auto simp: bindS_eq)
  from recovered [OF s(1)] have rid: "\<forall>x. latest_event rid (co_journal s) = Inr x \<longrightarrow> \<not> proposed x" by auto
  have other: "latest_event k (co_journal s) = latest_event k (co_journal st)" if "k \<noteq> rid" for k
    by (rule only_latest [OF only_recover s(1) that])
  show ?case
  proof (intro allI impI)
    fix k e
    assume k: "k \<in> set (rid # rids) \<or> (\<forall>x. latest_event k (co_journal st) = Inr x \<longrightarrow> \<not> proposed x)"
      and e: "latest_event k (co_journal st') = Inr e"
    have "k \<in> set rids \<or> (\<forall>x. latest_event k (co_journal s) = Inr x \<longrightarrow> \<not> proposed x)"
      using k rid other by (cases "k = rid") auto
    with Cons.IH [OF s(2)] e show "\<not> proposed e" by blast
  qed
qed (auto simp: op_simps)

lemma recover_all_calm:
  assumes "recover_all_pending au st = (Inr u, st')"
  shows "calm (co_journal st')"
proof -
  have "k \<in> set (sort (map fst (co_journal st))) \<or> (\<forall>x. latest_event k (co_journal st) = Inr x \<longrightarrow> \<not> proposed x)" for k
  proof (cases "map_of (co_journal st) k")
    case None
    then show ?thesis by (auto elim: latest_event_Inr)
  next
    case (Some d)
    then show ?thesis by (auto dest: map_of_SomeD intro: rev_image_eqI)
  qed
  with recover_each_settles [OF assms [unfolded recover_all_pending_def]] show ?thesis
    unfolding calm_def by blast
qed

lemma sim_expire_calm:
  assumes "calm (co_journal st)" "expire_lease au rid st = (x, st')"
  shows "journal_step\<^sup>*\<^sup>* (co_journal st) (co_journal st') \<and> (\<forall>u. x = Inr u \<longrightarrow> calm (co_journal st'))"
proof (cases "latest_event rid (co_journal st)")
  case (Inl y)
  then have "x = Inl y \<and> st' = st" using assms(2) by (simp add: expire_lease_def bindS_def latest_def op_simps)
  then show ?thesis by simp
next
  case (Inr e)
  with assms(1) have np: "\<not> proposed e" by (simp add: calm_def)
  have "calm (co_journal st')" if x: "x = Inr u" for u
    unfolding calm_def
  proof (intro allI impI)
    fix k e' assume "latest_event k (co_journal st') = Inr e'"
    with expire_lease_result [OF Inr np assms(2) [unfolded x]] only_latest [OF only_expire assms(2), of k]
      assms(1) show "\<not> proposed e'" by (cases "k = rid") (auto simp: calm_def)
  qed
  moreover have "journal_step\<^sup>*\<^sup>* (co_journal st) (co_journal st')"
    using sim_from_expire [OF np] Inr assms(2) unfolding sim_from_def by blast
  ultimately show ?thesis by blast
qed

lemma sim_expire_each:
  "calm (co_journal st) \<Longrightarrow> expire_each au rids st = (x, st') \<Longrightarrow> journal_step\<^sup>*\<^sup>* (co_journal st) (co_journal st')"
proof (induction rids arbitrary: st x)
  case (Cons rid rids)
  from Cons.prems(2) consider y where "expire_lease au rid st = (Inl y, st')"
    | u s y where "expire_lease au rid st = (Inr u, s)" "expire_each au rids s = (y, st')"
    by (auto simp: bindS_eq op_simps)
  then show ?case
  proof cases
    case 1
    with sim_expire_calm [OF Cons.prems(1)] show ?thesis by blast
  next
    case (2 u s y)
    from sim_expire_calm [OF Cons.prems(1) 2(1)] Cons.IH [OF _ 2(2)] show ?thesis by (auto intro: rtranclp_trans)
  qed
qed (simp add: op_simps)

lemma sim_recover: "sim (recover au)"
  unfolding sim_def
proof (intro allI impI)
  fix st x st' assume "recover au st = (x, st')"
  then consider y where "recover_all_pending au st = (Inl y, st')"
    | s where "recover_all_pending au st = (Inr (), s)" "expire_each au (sort (map fst (co_journal s))) s = (x, st')"
    by (auto simp: recover_def bindS_eq)
  then show "journal_step\<^sup>*\<^sup>* (co_journal st) (co_journal st')"
  proof cases
    case 1
    with sim_recover_all [of au] show ?thesis unfolding sim_def by blast
  next
    case (2 s)
    from sim_expire_each [OF recover_all_calm [OF 2(1)] 2(2)] sim_recover_all [of au] 2(1)
    show ?thesis unfolding sim_def by (blast intro: rtranclp_trans)
  qed
qed

end
