(* ===== verification/Authority_Props.thy ===== *)
theory Authority_Props
  imports Authority_Facts Reservation_Facts
begin

text \<open>
  The coordinator as a whole: admissions, authority operations and changes of the outside world as
  one step relation, the invariant of the reachable states and the properties of leases, fences and
  scope amendments.
\<close>

section \<open>The invariant of an event\<close>

text \<open>The recorded lease carries the fence, the lease id and the status of its reservation.\<close>

definition lease_ok :: "reservation \<Rightarrow> lease evidence \<Rightarrow> bool" where
  "lease_ok r x =
     (case x of
        Missing \<Rightarrow> True
      | Malformed \<Rightarrow> False
      | Present l \<Rightarrow> le_fence l = rs_fence r \<and> le_lease_id l = rs_lease_id r \<and>
                    le_reservation l = rs_id r \<and> le_status l = rs_status r)"

definition next_authority :: "reservation \<Rightarrow> reservation \<Rightarrow> bool" where
  "next_authority r r' \<longleftrightarrow> rs_id r' = rs_id r \<and> rs_change r' = rs_change r \<and> rs_sequence r' = rs_sequence r \<and>
     rs_revision r' = rs_revision r + 1 \<and> rs_fence r' = rs_fence r + 1"

definition inv_event :: "journal_event \<Rightarrow> bool" where
  "inv_event e \<longleftrightarrow> (\<exists>r. je_reservation e = Present r \<and> lease_ok r (je_lease e) \<and>
     (proposed e \<longrightarrow> (\<exists>r'. je_proposed_reservation e = Present r' \<and> next_authority r r' \<and>
        lease_ok r' (je_proposed_lease e))))"

text \<open>The same authority, or the next one.\<close>

definition advances :: "reservation \<Rightarrow> reservation \<Rightarrow> bool" where
  "advances r r' \<longleftrightarrow> next_authority r r' \<or>
     (rs_id r' = rs_id r \<and> rs_change r' = rs_change r \<and> rs_sequence r' = rs_sequence r \<and>
      rs_revision r' = rs_revision r \<and> rs_fence r' = rs_fence r)"

lemma advances_refl [simp]: "advances r r"
  by (simp add: advances_def)

lemma authority_event_fields [simp]:
  "je_reservation (authority_event e r l t) = Present r" "je_lease (authority_event e r l t) = lease_evidence l"
  "je_revision (authority_event e r l t) = Missing"
  by (simp_all add: authority_event_def)

lemma inv_authority_event: "lease_ok r (lease_evidence l) \<Longrightarrow> inv_event (authority_event e r l t)"
  by (simp add: inv_event_def authority_not_proposed)

lemma inv_accepted: "lease_ok r (lease_evidence l) \<Longrightarrow> inv_event (accepted_event e rv r l t)"
  using accepted_not_proposed [of e rv r l t] by (simp add: inv_event_def) (simp add: accepted_event_def)

lemma rejected_fields:
  "je_reservation (rejected_event e rv r l t w) = Present r" "je_lease (rejected_event e rv r l t w) = lease_evidence l"
  by (simp_all add: rejected_event_def Let_def split: option.splits)

lemma inv_rejected: "lease_ok r (lease_evidence l) \<Longrightarrow> inv_event (rejected_event e rv r l t w)"
  by (simp add: inv_event_def rejected_not_proposed rejected_fields)

lemma lease_evidence_of: "x \<noteq> Malformed \<Longrightarrow> lease_evidence (lease_of_evidence x) = x"
  by (cases x) (simp_all add: lease_evidence_def lease_of_evidence_def)

lemma inv_eventD:
  "inv_event e \<Longrightarrow> je_reservation e = Present r \<Longrightarrow> lease_ok r (je_lease e)"
  by (simp add: inv_event_def)

lemma lease_ok_not_malformed: "lease_ok r x \<Longrightarrow> x \<noteq> Malformed"
  by (auto simp: lease_ok_def)

lemma event_step_inv:
  assumes "event_step e e'" "inv_event e"
  shows "inv_event e' \<and> (\<exists>r r'. je_reservation e = Present r \<and> je_reservation e' = Present r' \<and> advances r r')"
  using assms(1)
proof (cases rule: event_step.cases)
  case (activated r h i x)
  then show ?thesis
    by (auto intro!: inv_authority_event simp: lease_ok_def lease_evidence_def lease_payload_def advances_def)
next
  case (heartbeat r l x)
  with inv_eventD [OF assms(2) heartbeat(3)] show ?thesis
    by (auto intro!: inv_authority_event simp: lease_ok_def lease_evidence_def advances_def)
next
  case (expired r l)
  with inv_eventD [OF assms(2) expired(3)] show ?thesis
    by (auto intro!: inv_authority_event simp: expired_event_def lease_ok_def lease_evidence_def advances_def)
next
  case (reassigned r p lid h i x)
  let ?r = "reassigned_reservation r lid"
  have "inv_event e'"
    unfolding reassigned(1) reassigned_event_def inv_event_def proposed_def
    by (simp add: lease_ok_def lease_evidence_def lease_payload_def reassigned_reservation_def)
  moreover have "je_reservation e' = Present ?r" by (simp add: reassigned(1) reassigned_event_def)
  moreover have "advances r ?r" by (simp add: advances_def next_authority_def reassigned_reservation_def)
  ultimately show ?thesis using reassigned(3) by blast
next
  case (scope_proposed r l q a b c)
  let ?r' = "proposed_reservation_of r c q"
  have l: "lease_ok r (lease_evidence l)"
    using inv_eventD [OF assms(2) scope_proposed(3)] scope_proposed(4) by (simp add: event_lease_Inr)
  then have "lease_ok ?r' (lease_evidence (map_option (\<lambda>y. y\<lparr>le_fence := rs_fence ?r'\<rparr>) l))"
    by (cases l) (simp_all add: lease_ok_def lease_evidence_def proposed_reservation_of_def)
  moreover have "next_authority r ?r'"
    using scope_proposed(5,6) by (simp add: next_authority_def proposed_reservation_of_def)
  ultimately have "inv_event e'"
    unfolding scope_proposed(1) inv_event_def proposal_fields using l by blast
  then show ?thesis using scope_proposed(1,3) by (simp add: proposal_fields)
next
  case (scope_accepted rv r' t)
  then have "proposed e" by (simp add: proposed_def)
  with assms(2) scope_accepted(5) obtain r where r: "je_reservation e = Present r" "next_authority r r'"
    "lease_ok r' (je_proposed_lease e)" by (auto simp: inv_event_def)
  then have "inv_event e'" unfolding scope_accepted(1)
    by (intro inv_accepted) (simp add: lease_evidence_of lease_ok_not_malformed)
  with r scope_accepted(1) show ?thesis by (simp add: accepted_event_def advances_def)
next
  case (scope_rejected rv r l t w)
  with inv_eventD [OF assms(2) scope_rejected(4)] show ?thesis
    by (simp add: inv_rejected rejected_fields event_lease_Inr)
qed

section \<open>The invariant of a journal\<close>

text \<open>Revision and fence start at 1 and move together.\<close>

definition balanced :: "journal_event \<Rightarrow> bool" where
  "balanced e = (\<exists>r. je_reservation e = Present r \<and> rs_revision r = rs_fence r \<and> 1 \<le> rs_fence r)"

lemma event_step_balanced: "event_step e e' \<Longrightarrow> inv_event e \<Longrightarrow> balanced e \<Longrightarrow> balanced e'"
  using event_step_inv [of e e'] by (auto simp: balanced_def advances_def next_authority_def)

definition inv_journal :: "journal \<Rightarrow> bool" where
  "inv_journal j = (\<forall>rid e. latest_event rid j = Inr e \<longrightarrow> is_present (je_reservation e) \<longrightarrow> inv_event e \<and> balanced e)"

lemma step_present: "event_step e e' \<Longrightarrow> is_present (je_reservation e)"
  by (auto elim!: event_stepE simp: is_present_def)

lemma latest_after_update:
  assumes "latest_event rid j = Inr e" "map_of j rid = Some d" "append_event e' d = Inr d'"
  shows "latest_event rid (AList.update rid d' j) = Inr e'"
    "k \<noteq> rid \<Longrightarrow> latest_event k (AList.update rid d' j) = latest_event k j"
    "journal_ok d" "history d' = history d @ [Event e']"
proof -
  from assms(1,2) have r: "reservation_root rid = Inr ()" "latest_in d = Inr e"
    by (auto elim: latest_event_Inr)
  then show ok: "journal_ok d" by (simp add: latest_in_ok)
  show "latest_event rid (AList.update rid d' j) = Inr e'"
    using r(1) latest_in_append [OF ok assms(3)] by (simp add: latest_event_def update_conv)
  show "k \<noteq> rid \<Longrightarrow> latest_event k (AList.update rid d' j) = latest_event k j"
    by (simp add: latest_event_def update_conv)
  show "history d' = history d @ [Event e']" using jl.append_result [OF ok assms(3)] by simp
qed

lemma journal_step_inv: "journal_step j j' \<Longrightarrow> inv_journal j \<Longrightarrow> inv_journal j'"
proof (induction rule: journal_step.induct)
  case (step rid j e e' d d')
  note l = latest_after_update [OF step(1,3,4)]
  have "inv_event e \<and> balanced e"
    using step(1) step_present [OF step(2)] \<open>inv_journal j\<close> by (simp add: inv_journal_def)
  then have "inv_event e' \<and> balanced e'"
    using event_step_inv [OF step(2)] event_step_balanced [OF step(2)] by blast
  with l(1,2) \<open>inv_journal j\<close> show ?case
    unfolding inv_journal_def by (metis sum.inject(2))
qed

text \<open>What happens to the latest event of one reservation.\<close>

definition authority_order :: "journal \<Rightarrow> journal \<Rightarrow> bool" where
  "authority_order j j' = (\<forall>rid e r. latest_event rid j = Inr e \<longrightarrow> je_reservation e = Present r \<longrightarrow>
     (\<exists>e' r'. latest_event rid j' = Inr e' \<and> je_reservation e' = Present r' \<and>
        rs_id r' = rs_id r \<and> rs_change r' = rs_change r \<and> rs_fence r \<le> rs_fence r' \<and>
        rs_revision r' - rs_revision r = rs_fence r' - rs_fence r))"

lemma authority_order_refl: "authority_order j j"
  by (simp add: authority_order_def)

lemma authority_order_trans:
  assumes "authority_order i j" "authority_order j k"
  shows "authority_order i k"
  unfolding authority_order_def
proof (intro allI impI)
  fix rid e r assume e: "latest_event rid i = Inr e" "je_reservation e = Present r"
  from assms(1) e obtain e1 r1 where 1: "latest_event rid j = Inr e1" "je_reservation e1 = Present r1"
    "rs_id r1 = rs_id r" "rs_change r1 = rs_change r" "rs_fence r \<le> rs_fence r1"
    "rs_revision r1 - rs_revision r = rs_fence r1 - rs_fence r" unfolding authority_order_def by blast
  from assms(2) 1(1,2) obtain e2 r2 where 2: "latest_event rid k = Inr e2" "je_reservation e2 = Present r2"
    "rs_id r2 = rs_id r1" "rs_change r2 = rs_change r1" "rs_fence r1 \<le> rs_fence r2"
    "rs_revision r2 - rs_revision r1 = rs_fence r2 - rs_fence r1" unfolding authority_order_def by blast
  with 1 show "\<exists>e' r'. latest_event rid k = Inr e' \<and> je_reservation e' = Present r' \<and>
        rs_id r' = rs_id r \<and> rs_change r' = rs_change r \<and> rs_fence r \<le> rs_fence r' \<and>
        rs_revision r' - rs_revision r = rs_fence r' - rs_fence r" by auto
qed

lemma journal_step_order:
  assumes "journal_step j j'" "inv_journal j"
  shows "authority_order j j'"
  using assms
proof (induction rule: journal_step.induct)
  case (step rid j e e' d d')
  note l = latest_after_update [OF step(1,3,4)]
  have "inv_event e" using step(1) step_present [OF step(2)] step(5) by (simp add: inv_journal_def)
  from event_step_inv [OF step(2) this] obtain r r' where "je_reservation e = Present r"
    "je_reservation e' = Present r'" "advances r r'" by blast
  then have *: "\<exists>r'. je_reservation e' = Present r' \<and> rs_id r' = rs_id r \<and> rs_change r' = rs_change r \<and>
      rs_fence r \<le> rs_fence r' \<and> rs_revision r' - rs_revision r = rs_fence r' - rs_fence r"
    if "je_reservation e = Present r" for r using that by (auto simp: advances_def next_authority_def)
  show ?case unfolding authority_order_def
  proof (intro allI impI)
    fix k e1 r1 assume k: "latest_event k j = Inr e1" "je_reservation e1 = Present r1"
    show "\<exists>e' r'. latest_event k (AList.update rid d' j) = Inr e' \<and> je_reservation e' = Present r' \<and>
        rs_id r' = rs_id r1 \<and> rs_change r' = rs_change r1 \<and> rs_fence r1 \<le> rs_fence r' \<and>
        rs_revision r' - rs_revision r1 = rs_fence r' - rs_fence r1"
    proof (cases "k = rid")
      case True
      with k step(1) l(1) * [of r1] show ?thesis by auto
    next
      case False
      with k l(2) [of k] show ?thesis by auto
    qed
  qed
qed

lemma journal_steps_order:
  "journal_step\<^sup>*\<^sup>* j j' \<Longrightarrow> inv_journal j \<Longrightarrow> authority_order j j' \<and> inv_journal j'"
proof (induction rule: rtranclp_induct)
  case (step y z)
  then show ?case using journal_step_order journal_step_inv authority_order_trans by blast
qed (simp add: authority_order_refl)


section \<open>Admissions in the same journal\<close>

lemma recorded_latest:
  assumes "recorded rid e1 e2 j j'" "map_of j rid = None"
  shows "latest_event rid j' = Inr e \<Longrightarrow> e = e2" and "k \<noteq> rid \<Longrightarrow> latest_event k j' = latest_event k j"
proof -
  from assms(1) obtain d where d: "j' = j @ [(rid, d)]" "journal_ok d" "history d = [Event e1, Event e2]"
    by (auto simp: recorded_def)
  then have "latest_in d = Inr e2" using latest_in_history [of d] by (simp add: load_event_def)
  with d(1) assms(2) show "latest_event rid j' = Inr e \<Longrightarrow> e = e2"
    by (auto simp: latest_event_def bindE_eq_Inr map_add_def)
  show "k \<noteq> rid \<Longrightarrow> latest_event k j' = latest_event k j"
    using d(1) by (simp add: latest_event_def map_add_def split: option.splits)
qed

lemma reserve_journal:
  assumes "reserve sha ad rid lid r st = (x, st')" "map_of (co_journal st) rid = None"
  shows "co_journal st' = co_journal st \<or> (\<exists>e1 e2. recorded rid e1 e2 (co_journal st) (co_journal st') \<and>
    (is_present (je_reservation e2) \<longrightarrow> inv_event e2 \<and> balanced e2))"
proof -
  from reserve_cases [OF assms(1)] consider "co_journal st' = co_journal st"
    | sequence base w where "admit ad r rid lid (pad3 sequence @ ''-'' @ rq_slug r) sequence base (st\<lparr>co_world := w\<rparr>) = (x, st')"
    by blast
  then show ?thesis
  proof cases
    case 2
    have "map_of (co_journal (st\<lparr>co_world := w\<rparr>)) rid = None" using assms(2) by simp
    from this 2 show ?thesis
    proof (cases rule: admit_cases)
      case (admitted wc)
      then show ?thesis
        by (intro disjI2 exI conjI impI, simp)
            (simp_all add: inv_event_def balanced_def lease_ok_def proposed_def pending_event_def initial_reservation_def)
    next
      case (failed e wc created state w')
      then show ?thesis
        by (intro disjI2 exI conjI impI, simp) (simp_all add: pending_event_def is_present_def)
    qed
  qed simp
qed

lemma recorded_order:
  assumes "recorded rid e1 e2 j j'" "map_of j rid = None"
  shows "authority_order j j'"
proof -
  have "latest_event rid j \<noteq> Inr e" for e using assms(2) by (auto elim: latest_event_Inr)
  with recorded_latest(2) [OF assms] show ?thesis unfolding authority_order_def by (metis order_refl diff_self)
qed

lemma recorded_inv:
  assumes "recorded rid e1 e2 j j'" "map_of j rid = None"
    and "is_present (je_reservation e2) \<longrightarrow> inv_event e2 \<and> balanced e2"
    and "inv_journal j"
  shows "inv_journal j'"
  unfolding inv_journal_def
proof (intro allI impI)
  fix k e assume k: "latest_event k j' = Inr e" "is_present (je_reservation e)"
  show "inv_event e \<and> balanced e"
  proof (cases "k = rid")
    case True
    with recorded_latest(1) [OF assms(1,2)] k assms(3) show ?thesis by blast
  next
    case False
    with recorded_latest(2) [OF assms(1,2) False] k assms(4) show ?thesis by (simp add: inv_journal_def)
  qed
qed

section \<open>The coordinator as a transition system\<close>

text \<open>
  One step is an operation of one of the two services, with any arguments, any adapters and any
  result, or a change of the world outside.  An admission uses a reservation id that the journal does not hold
  yet.
\<close>

inductive coordinator_step :: "'w coordinator \<Rightarrow> 'w coordinator \<Rightarrow> bool" where
  admission: "map_of (co_journal st) rid = None \<Longrightarrow> reserve sha ad rid lid r st = (x0, st') \<Longrightarrow> coordinator_step st st'"
| reading: "current_reservation au rid st = (x1, st') \<Longrightarrow> coordinator_step st st'"
| degraded: "degraded_components_of sha au st = (x2, st') \<Longrightarrow> coordinator_step st st'"
| activation: "activate_lease au rid h n st = (x3, st') \<Longrightarrow> coordinator_step st st'"
| heartbeating: "heartbeat_lease au rid h lid rv f n st = (x4, st') \<Longrightarrow> coordinator_step st st'"
| assertion: "assert_mutation_authority au rid h lid rv f st = (x5, st') \<Longrightarrow> coordinator_step st st'"
| recovery: "recover au st = (x6, st') \<Longrightarrow> coordinator_step st st'"
| reassignment: "reassign_lease au fresh rid h rv f n st = (x7, st') \<Longrightarrow> coordinator_step st st'"
| amendment: "amend_scope au q st = (x8, st') \<Longrightarrow> coordinator_step st st'"
| outside: "coordinator_step st (st\<lparr>co_world := w\<rparr>)"

inductive_cases coordinator_stepE: "coordinator_step st st'"

lemma simD: "sim m \<Longrightarrow> m st = (x, st') \<Longrightarrow> journal_step\<^sup>*\<^sup>* (co_journal st) (co_journal st')"
  unfolding sim_def by blast

lemmas operations_sim = sim_current_reservation sim_degraded_components sim_activate sim_heartbeat sim_assert
  sim_recover sim_reassign sim_amend

lemma coordinator_step_effect:
  assumes "coordinator_step st st'"
  shows "journal_step\<^sup>*\<^sup>* (co_journal st) (co_journal st') \<or>
    (\<exists>rid e1 e2. map_of (co_journal st) rid = None \<and> recorded rid e1 e2 (co_journal st) (co_journal st') \<and>
       (is_present (je_reservation e2) \<longrightarrow> inv_event e2 \<and> balanced e2))"
  using assms
proof (cases rule: coordinator_step.cases)
  case (admission rid sha ad lid r x)
  from reserve_journal [OF admission(2,1)] admission(1) show ?thesis
    by (metis rtranclp.rtrancl_refl)
qed (rule disjI1, rule simD, (rule operations_sim | assumption), assumption | simp)+

lemma coordinator_step_order:
  "coordinator_step st st' \<Longrightarrow> inv_journal (co_journal st) \<Longrightarrow>
     authority_order (co_journal st) (co_journal st') \<and> inv_journal (co_journal st')"
  using coordinator_step_effect journal_steps_order recorded_order recorded_inv by metis

lemma coordinator_steps_order:
  "coordinator_step\<^sup>*\<^sup>* st st' \<Longrightarrow> inv_journal (co_journal st) \<Longrightarrow>
     authority_order (co_journal st) (co_journal st') \<and> inv_journal (co_journal st')"
proof (induction rule: rtranclp_induct)
  case (step y z)
  then show ?case using coordinator_step_order authority_order_trans by blast
qed (simp add: authority_order_refl)

lemma inv_empty: "inv_journal []"
  by (auto simp: inv_journal_def latest_event_def bindE_eq_Inr)

section \<open>Results of the operations\<close>

lemma current_result:
  assumes "current_authority_event au rid st = (Inr e, st')"
  shows "latest_event rid (co_journal st') = Inr e" and "\<not> proposed e"
    and "journal_step\<^sup>*\<^sup>* (co_journal st) (co_journal st')"
proof -
  from assms obtain s1 u s2 where s: "recover_scope_transition au rid st = (Inr (), s1)"
    "expire_lease au rid s1 = (Inr u, s2)" "latest rid s2 = (Inr e, st')"
    by (auto simp: current_authority_event_def bindS_eq)
  from recovered [OF s(1)] obtain e1 where e1: "latest_event rid (co_journal s1) = Inr e1" "\<not> proposed e1" by blast
  from expire_lease_result [OF e1 s(2)] s(3) show "latest_event rid (co_journal st') = Inr e" "\<not> proposed e"
    by (auto simp: latest_eq)
  have "journal_step\<^sup>*\<^sup>* (co_journal st) (co_journal s1)" by (rule simD [OF sim_recover_scope_transition s(1)])
  moreover have "journal_step\<^sup>*\<^sup>* (co_journal s1) (co_journal s2)"
    using sim_from_expire [OF e1(2)] e1(1) s(2) unfolding sim_from_def by blast
  ultimately show "journal_step\<^sup>*\<^sup>* (co_journal st) (co_journal st')" using s(3) by (auto simp: latest_eq)
qed

lemma assert_result:
  assumes "assert_mutation_authority au rid h lid rv f st = (Inr r, st')"
  obtains e l s where "current_authority_event au rid st = (Inr e, s)"
    "require_authority au e h lid rv f s = (Inr (r, l), st')"
  using assms by (auto simp: assert_mutation_authority_def bindS_eq op_simps split: prod.splits)

lemma heartbeat_result:
  assumes "heartbeat_lease au rid h lid rv f n st = (Inr l', st')"
  obtains e l r s s1 where "current_authority_event au rid st = (Inr e, s)"
    "require_authority au e h lid rv f s = (Inr (r, l), s1)"
  using assms by (auto simp: heartbeat_lease_def bindS_eq op_simps split: prod.splits)

lemma clock_quiet: "clock au st = (x, st') \<Longrightarrow> co_journal st' = co_journal st"
  using quiet_ops(5) [of au] by (auto simp: quiet_def)

lemma reassign_result:
  assumes "reassign_lease au fresh rid h rv f n st = (Inr l, st')"
  obtains e :: journal_event and r now d where "je_reservation e = Present r" "rs_revision r = rv" "rs_fence r = f"
    "l = lease_payload (reassigned_reservation r (''lease-'' @ fresh)) h (''lease-'' @ fresh) now (now + d) ''active''"
    "journal_step\<^sup>*\<^sup>* (co_journal st) (co_journal st')"
    "\<exists>e'. latest_event rid (co_journal st') = Inr e' \<and> je_lease e' = Present l \<and>
       je_reservation e' = Present (reassigned_reservation r (''lease-'' @ fresh))"
proof -
  from assms obtain d e r p now s1 s2 where s: "current_authority_event au rid st = (Inr e, s1)"
    "event_reservation e = Inr r" "require_expected_authority r rv f = Inr ()" "event_lease e = Inr p"
    "clock au s1 = (Inr now, s2)"
    "l = lease_payload (reassigned_reservation r (''lease-'' @ fresh)) h (''lease-'' @ fresh) now (now + d) ''active''"
    "append_authority rid (reassigned_event e (reassigned_reservation r (''lease-'' @ fresh)) l p) s2 = (Inr (), st')"
    unfolding reassign_lease_def Let_def
    by (elim lift_bind_Inr bindS_InrE) (auto simp: op_simps reassigned_reservation_def)
  have "latest_event rid (co_journal s2) = Inr e"
    using current_result(1) [OF s(1)] clock_quiet [OF s(5)] by simp
  from append_authority_latest [OF this s(7)]
  have new: "latest_event rid (co_journal st') =
      Inr (reassigned_event e (reassigned_reservation r (''lease-'' @ fresh)) l p)" by simp
  have 1: "je_reservation e = Present r" using s(2) by (simp add: event_reservation_Inr)
  have 2: "rs_revision r = rv" "rs_fence r = f"
    using s(3) by (auto simp: require_expected_authority_def err_simps)
  have 3: "\<exists>e'. latest_event rid (co_journal st') = Inr e' \<and> je_lease e' = Present l \<and>
       je_reservation e' = Present (reassigned_reservation r (''lease-'' @ fresh))"
    using new by (simp add: reassigned_event_def lease_evidence_def)
  show ?thesis by (rule that [OF 1 2 s(6) simD [OF sim_reassign assms] 3])
qed

lemma write_amendment_result:
  assumes "write_amendment au q e r claims st = (Inr rv, st')" "latest_event (sq_reservation q) (co_journal st) = Inr e"
  obtains l observed where "event_lease e = Inr l"
    "governed_claim_of au (rs_change r) (co_world st') = Inr observed" "cas_matches observed (cas_projection (snd claims))"
    "rv = (scope_revision_payload q)\<lparr>sr_status := ''accepted''\<rparr>"
    "latest_event (sq_reservation q) (co_journal st') = Inr (accepted_event e (scope_revision_payload q)
       (proposed_reservation_of r (snd claims) q)
       (map_option (\<lambda>x. x\<lparr>le_fence := sq_fence q + 1\<rparr>) l) ''scope_revision_accepted'')"
proof -
  let ?rid = "sq_reservation q" and ?r' = "proposed_reservation_of r (snd claims) q" and ?rv = "scope_revision_payload q"
  from assms(1) obtain l s1 where l: "event_lease e = Inr l"
    and 1: "append_authority ?rid (proposal_event e r l ?rv (cas_projection (fst claims)) (cas_projection (snd claims)) ?r'
        (map_option (\<lambda>x. x\<lparr>le_fence := rs_fence ?r'\<rparr>) l)) st = (Inr (), s1)"
    and 2: "settle_amendment au ?rid e ?rv r l ?r' (map_option (\<lambda>x. x\<lparr>le_fence := rs_fence ?r'\<rparr>) l)
        (fst claims) (snd claims) s1 = (Inr rv, st')"
    unfolding write_amendment_def Let_def by (elim lift_bind_Inr bindS_InrE) simp
  note p1 = append_authority_latest [OF assms(2) 1]
  from 2 obtain err s2 after where 3: "call_amend au \<lparr>ar_change = rs_change r,
        ar_expected = cas_projection (fst claims), ar_proposed = cas_projection (snd claims)\<rparr> s1 = (Inr err, s2)"
      "governed_claim_of au (rs_change r) (co_world s2) = Inr after"
    and 4: "(if cas_matches after (cas_projection (snd claims)) then
         bindS (append_authority ?rid (accepted_event e ?rv ?r' (map_option (\<lambda>x. x\<lparr>le_fence := rs_fence ?r'\<rparr>) l) ''scope_revision_accepted''))
           (\<lambda>_. returnS (?rv\<lparr>sr_status := ''accepted''\<rparr>))
       else
         bindS (append_authority ?rid (rejected_event e ?rv r l ''scope_revision_rejected''
                  (if cas_matches after (cas_projection (fst claims)) then None
                   else Some ''governed claim matches neither current nor proposed authority'')))
           (\<lambda>_. failS (amend_error err))) s2 = (Inr rv, st')"
    unfolding settle_amendment_def by (elim bindS_InrE observe_bind_Inr) (blast elim: observe_bind_Inr)
  have m: "cas_matches after (cas_projection (snd claims))"
    using 4 by (auto simp: bindS_eq op_simps split: if_splits)
  with 4 have 5: "append_authority ?rid (accepted_event e ?rv ?r' (map_option (\<lambda>x. x\<lparr>le_fence := rs_fence ?r'\<rparr>) l)
      ''scope_revision_accepted'') s2 = (Inr (), st')" "rv = ?rv\<lparr>sr_status := ''accepted''\<rparr>"
    by (auto simp: bindS_eq op_simps)
  have "co_journal s2 = co_journal s1" using quiet_ops(7) 3(1) unfolding quiet_def by blast
  with p1 append_authority_latest [OF _ 5(1)] have "latest_event ?rid (co_journal st') = Inr (accepted_event e ?rv ?r'
      (map_option (\<lambda>x. x\<lparr>le_fence := rs_fence ?r'\<rparr>) l) ''scope_revision_accepted'')" "co_world st' = co_world s2"
    by auto
  moreover have "rs_fence ?r' = sq_fence q + 1" by (simp add: proposed_reservation_of_def)
  ultimately show ?thesis using that [OF l _ m 5(2)] 3(2) by simp
qed

end
