(* ===== verification/Authority_Recovery.thy ===== *)
theory Authority_Recovery
  imports Authority_Props
begin

text \<open>
  Recovery of a whole journal (\<open>AuthorityService.recover\<close>): what one recovered transition and one
  expiry do, and how the two loops over the reservations compose them.  The adapters' clock is
  related to a time \<open>time\<close> of the world behind it.
\<close>

section \<open>One recovered transition\<close>

text \<open>Recovery of a scope transition whose proposal was recorded before a crash: afterwards the latest
  event is not a proposal; the proposed reservation is adopted exactly when the observed claim
  matches the proposed evidence, otherwise the current one is kept, and a second recovery changes
  nothing.\<close>

lemma transition_settles:
  assumes "recover_scope_transition au rid st = (Inr u, st')"
    and "latest_event rid (co_journal st) = Inr e" and "proposed e"
  shows "\<exists>e' r r' observed b c. latest_event rid (co_journal st') = Inr e' \<and> \<not> proposed e' \<and>
    je_reservation e = Present r \<and> je_proposed_reservation e = Present r' \<and>
    governed_claim_of au (rs_change r) (co_world st) = Inr observed \<and>
    transition_matches e observed r r' = Inr (b, c) \<and>
    je_reservation e' = Present (if b then r' else r) \<and> (je_state e' = ''degraded'' \<longleftrightarrow> \<not> b \<and> \<not> c) \<and>
    recover_scope_transition au rid st' = (Inr (), st')"
proof -
  obtain rv r' r observed b c where q: "je_revision e = Present rv" "sr_status rv = ''proposed''"
    "je_proposed_reservation e = Present r'" "je_reservation e = Present r"
    "governed_claim_of au (rs_change r) (co_world st) = Inr observed"
    "transition_matches e observed r r' = Inr (b, c)"
    "(b \<and> append_authority rid (accepted_event e rv r' (lease_of_evidence (je_proposed_lease e))
        ''scope_revision_recovered_accepted'') st = (Inr u, st')) \<or>
     (\<not> b \<and> (\<exists>l t w. event_lease e = Inr l \<and> (w = None \<longleftrightarrow> c) \<and>
        append_authority rid (rejected_event e rv r l t w) st = (Inr u, st')))"
    using assms by (rule recover_proposed)
  from q(7) obtain e' where e': "append_authority rid e' st = (Inr u, st')" "\<not> proposed e'"
    "je_reservation e' = Present (if b then r' else r)" "je_state e' = ''degraded'' \<longleftrightarrow> \<not> b \<and> \<not> c"
  proof (elim disjE conjE exE)
    assume *: b "append_authority rid (accepted_event e rv r' (lease_of_evidence (je_proposed_lease e))
        ''scope_revision_recovered_accepted'') st = (Inr u, st')"
    then show ?thesis using that [OF *(2) accepted_not_proposed]
      by (simp add: accepted_event_def authority_event_def)
  next
    fix l t w assume *: "\<not> b" "w = None \<longleftrightarrow> c" "append_authority rid (rejected_event e rv r l t w) st = (Inr u, st')"
    have "je_state (rejected_event e rv r l t w) = ''degraded'' \<longleftrightarrow> w \<noteq> None"
      by (simp add: rejected_event_def authority_event_def Let_def split: option.splits)
    with * show ?thesis using that [OF *(3) rejected_not_proposed] by (simp add: rejected_fields)
  qed
  from append_authority_latest [OF assms(2) e'(1)] have l: "latest_event rid (co_journal st') = Inr e'" by simp
  from recover_unproposed [OF l e'(2)] have "recover_scope_transition au rid st' = (Inr (), st')" .
  with l e'(2-4) q(3-6) show ?thesis by blast
qed

text \<open>What one recovery leaves for its reservation, in terms of the state before it: the event is not a
  proposal, and a proposal has been decided by the observed claim.\<close>

definition decided :: "'w authority \<Rightarrow> 'w \<Rightarrow> journal_event \<Rightarrow> journal_event \<Rightarrow> bool" where
  "decided au w e e' \<longleftrightarrow>
     (if proposed e then
        \<not> proposed e' \<and> (\<exists>r r' observed b c. je_reservation e = Present r \<and> je_proposed_reservation e = Present r' \<and>
          governed_claim_of au (rs_change r) w = Inr observed \<and> transition_matches e observed r r' = Inr (b, c) \<and>
          je_reservation e' = Present (if b then r' else r))
      else e' = e)"

lemma decided_unproposed: "decided au w e e' \<Longrightarrow> \<not> proposed e'"
  by (auto simp: decided_def split: if_splits)

lemma recover_decides:
  assumes "recover_scope_transition au rid st = (Inr u, st')"
  obtains e e' where "latest_event rid (co_journal st) = Inr e" "latest_event rid (co_journal st') = Inr e'"
    "decided au (co_world st) e e'" "co_world st' = co_world st"
proof -
  from assms obtain e where e: "latest_event rid (co_journal st) = Inr e"
    unfolding recover_scope_transition_def by (rule latest_bind_Inr)
  have w: "co_world st' = co_world st" using recovered [OF assms] by blast
  show ?thesis
  proof (cases "proposed e")
    case False
    with recover_unproposed [OF e False] assms have "st' = st" by simp
    with e False show ?thesis using that [OF e, of e] w by (simp add: decided_def)
  next
    case True
    from transition_settles [OF assms e True] obtain e' where e': "latest_event rid (co_journal st') = Inr e'"
      "decided au (co_world st) e e'" using True unfolding decided_def by metis
    show ?thesis by (rule that [OF e e' w])
  qed
qed

lemma recover_each_decides:
  assumes "recover_each au rids st = (Inr u, st')"
  shows "co_world st' = co_world st \<and>
    (\<forall>k. k \<notin> set rids \<longrightarrow> latest_event k (co_journal st') = latest_event k (co_journal st)) \<and>
    (\<forall>k \<in> set rids. \<exists>e e'. latest_event k (co_journal st) = Inr e \<and> latest_event k (co_journal st') = Inr e' \<and>
       decided au (co_world st) e e')"
  using assms
proof (induction rids arbitrary: st)
  case (Cons rid rids)
  from Cons.prems obtain s where s: "recover_scope_transition au rid st = (Inr (), s)"
    "recover_each au rids s = (Inr u, st')" by (auto simp: bindS_eq)
  from s(1) obtain e e' where e: "latest_event rid (co_journal st) = Inr e"
    "latest_event rid (co_journal s) = Inr e'" "decided au (co_world st) e e'" and w: "co_world s = co_world st"
    by (rule recover_decides)
  note ih = Cons.IH [OF s(2), unfolded w]
  have other: "latest_event k (co_journal s) = latest_event k (co_journal st)" if "k \<noteq> rid" for k
    using only_latest [OF only_recover s(1) that] .
  have "\<exists>e2. latest_event rid (co_journal st') = Inr e2 \<and> decided au (co_world st) e e2"
  proof (cases "rid \<in> set rids")
    case True
    with ih e(2) obtain e2 where "latest_event rid (co_journal st') = Inr e2" "decided au (co_world st) e' e2" by auto
    with decided_unproposed [OF e(3)] e(3) show ?thesis by (auto simp: decided_def [of au _ e'])
  qed (use ih e in auto)
  then have "\<exists>e e'. latest_event k (co_journal st) = Inr e \<and> latest_event k (co_journal st') = Inr e' \<and>
      decided au (co_world st) e e'" if "k \<in> set (rid # rids)" for k
    using that ih e(1) other by (cases "k = rid") auto
  moreover have "latest_event k (co_journal st') = latest_event k (co_journal st)" if "k \<notin> set (rid # rids)" for k
    using that ih other by auto
  ultimately show ?case using ih by blast
qed simp

section \<open>One expiry\<close>

text \<open>A reading is at least the time at which it is taken, and time does not go backwards.\<close>

definition monotone_clock :: "'w authority \<Rightarrow> ('w \<Rightarrow> int) \<Rightarrow> bool" where
  "monotone_clock au time \<longleftrightarrow>
     (\<forall>w now w'. au_clock au w = (Inr now, w') \<longrightarrow> time w \<le> now \<and> time w \<le> time w')"

definition unexpired :: "int \<Rightarrow> journal_event \<Rightarrow> bool" where
  "unexpired n e \<longleftrightarrow> (\<forall>l. je_lease e = Present l \<longrightarrow> le_status l = ''active'' \<longrightarrow>
     (\<exists>t. le_expires l = Some t \<and> n < t))"

definition expires_to :: "journal_event \<Rightarrow> journal_event \<Rightarrow> bool" where
  "expires_to e e' \<longleftrightarrow> e' = e \<or> (\<exists>r l. je_reservation e = Present r \<and> je_lease e = Present l \<and>
     le_status l = ''active'' \<and> e' = expired_event e r l)"

lemma expired_event_fields:
  "je_lease (expired_event e r l) = Present (l\<lparr>le_status := ''expired''\<rparr>)"
  "je_reservation (expired_event e r l) = Present (r\<lparr>rs_status := ''expired''\<rparr>)"
  "\<not> proposed (expired_event e r l)" "unexpired n (expired_event e r l)"
  by (simp_all add: expired_event_def authority_not_proposed lease_evidence_def unexpired_def)

lemma expires_to_again: "expires_to e e1 \<Longrightarrow> expires_to e1 e2 \<Longrightarrow> expires_to e e2"
  by (auto simp: expires_to_def expired_event_fields)

lemma expires_unproposed: "expires_to e e' \<Longrightarrow> \<not> proposed e \<Longrightarrow> \<not> proposed e'"
  by (auto simp: expires_to_def expired_event_fields)

lemma latest_event_listed: "latest_event rid j = Inr e \<Longrightarrow> rid \<in> fst ` set j"
  by (erule latest_event_Inr) (force dest: map_of_SomeD)

lemma unexpired_mono: "unexpired n e \<Longrightarrow> m \<le> n \<Longrightarrow> unexpired m e"
  by (force simp: unexpired_def)

lemma expire_lease_expires:
  assumes "expire_lease au rid st = (Inr x, st')"
    and clock: "monotone_clock au time"
  obtains e e' where "latest_event rid (co_journal st) = Inr e" "latest_event rid (co_journal st') = Inr e'"
    "expires_to e e'" "unexpired (time (co_world st)) e'" "time (co_world st) \<le> time (co_world st')"
    "\<And>l. x = Some l \<Longrightarrow> je_lease e' = Present l \<and> le_status l = ''expired''"
proof -
  from assms(1) obtain e c where e: "latest_event rid (co_journal st) = Inr e" and c: "event_lease e = Inr c"
    and k: "(case c of
          None \<Rightarrow> returnS None
        | Some l \<Rightarrow>
            if le_status l \<noteq> ''active'' then returnS None
            else bindS (liftE (expiry l)) (\<lambda>t.
                 bindS (clock au) (\<lambda>now.
                   if now < t then returnS None
                   else bindS (liftE (event_reservation e)) (\<lambda>r.
                        bindS (append_authority rid (expired_event e r l))
                          (\<lambda>_. returnS (Some (l\<lparr>le_status := ''expired''\<rparr>))))))) st = (Inr x, st')"
    unfolding expire_lease_def by (auto elim!: latest_bind_Inr lift_bind_Inr)
  from c have le: "je_lease e = lease_evidence c" by (simp add: event_lease_Inr)
  consider (idle) "st' = st" "x = None" "\<And>l. c = Some l \<Longrightarrow> le_status l \<noteq> ''active''"
    | (live) l t now s where "c = Some l" "le_status l = ''active''" "le_expires l = Some t"
        "clock au st = (Inr now, s)"
        "(if now < t then returnS None
          else bindS (liftE (event_reservation e)) (\<lambda>r.
               bindS (append_authority rid (expired_event e r l))
                 (\<lambda>_. returnS (Some (l\<lparr>le_status := ''expired''\<rparr>))))) s = (Inr x, st')"
    using k by (auto simp: bindS_eq expiry_def split: option.splits if_splits)
  then show ?thesis
  proof cases
    case idle
    then show ?thesis using that [of e e] e le
      by (auto simp: expires_to_def unexpired_def lease_evidence_def split: option.splits)
  next
    case live
    have cw: "au_clock au (co_world st) = (Inr now, co_world s)"
      using live(4) by (auto simp: clock_def call_world_def split: prod.splits)
    from clock cw have cl: "time (co_world st) \<le> now" "time (co_world st) \<le> time (co_world s)"
      by (auto simp: monotone_clock_def)
    have j: "co_journal s = co_journal st" by (rule clock_quiet [OF live(4)])
    show ?thesis
    proof (cases "now < t")
      case True
      with live(5) have "st' = s" "x = None" by auto
      then show ?thesis using that [of e e] e le live(1,3) cl j True
        by (auto simp: expires_to_def unexpired_def lease_evidence_def)
    next
      case False
      with live(5) obtain r where r: "je_reservation e = Present r"
        "append_authority rid (expired_event e r l) s = (Inr (), st')" "x = Some (l\<lparr>le_status := ''expired''\<rparr>)"
        by (auto simp: bindS_eq event_reservation_Inr)
      have "latest_event rid (co_journal s) = Inr e" using e j by simp
      from append_authority_latest [OF this r(2)]
      show ?thesis using that [of e "expired_event e r l"] e le live(1,2) r cl
        by (auto simp: expires_to_def lease_evidence_def expired_event_fields)
    qed
  qed
qed

lemma expire_each_expires:
  assumes "expire_each au rids st = (Inr ls, st')"
    and clock: "monotone_clock au time"
  shows "(\<forall>k. k \<notin> set rids \<longrightarrow> latest_event k (co_journal st') = latest_event k (co_journal st)) \<and>
    (\<forall>k \<in> set rids. \<exists>e e'. latest_event k (co_journal st) = Inr e \<and> latest_event k (co_journal st') = Inr e' \<and>
       expires_to e e' \<and> unexpired (time (co_world st)) e') \<and>
    (\<forall>l \<in> set ls. le_status l = ''expired'' \<and>
       (\<exists>k \<in> set rids. \<exists>e'. latest_event k (co_journal st') = Inr e' \<and> je_lease e' = Present l))"
  using assms(1)
proof (induction rids arbitrary: st ls)
  case (Cons rid rids)
  from Cons.prems obtain x s xs where s: "expire_lease au rid st = (Inr x, s)"
    "expire_each au rids s = (Inr xs, st')" "ls = (case x of None \<Rightarrow> xs | Some l \<Rightarrow> l # xs)"
    by (auto simp: bindS_eq)
  obtain e e1 where e: "latest_event rid (co_journal st) = Inr e"
    "latest_event rid (co_journal s) = Inr e1" "expires_to e e1" "unexpired (time (co_world st)) e1"
    "time (co_world st) \<le> time (co_world s)" "\<And>l. x = Some l \<Longrightarrow> je_lease e1 = Present l \<and> le_status l = ''expired''"
    by (rule expire_lease_expires [OF s(1) clock]) (rule that, assumption+)
  note ih = Cons.IH [OF s(2)]
  have other: "latest_event k (co_journal s) = latest_event k (co_journal st)" if "k \<noteq> rid" for k
    using only_latest [OF only_expire s(1) that] .
  obtain e2 where e2: "latest_event rid (co_journal st') = Inr e2" "expires_to e1 e2"
    "unexpired (time (co_world st)) e2"
  proof (cases "rid \<in> set rids")
    case True
    with ih e(2) obtain e2 where "latest_event rid (co_journal st') = Inr e2" "expires_to e1 e2"
      "unexpired (time (co_world s)) e2" by auto
    then show ?thesis using that unexpired_mono e(5) by blast
  next
    case False
    then show ?thesis using that [of e1] ih e(2,4) by (auto simp: expires_to_def)
  qed
  have same: "e2 = e1" if "x = Some l" for l
    using e2(2) e(6) [OF that] by (auto simp: expires_to_def)
  have "\<exists>e e'. latest_event k (co_journal st) = Inr e \<and> latest_event k (co_journal st') = Inr e' \<and>
      expires_to e e' \<and> unexpired (time (co_world st)) e'" if "k \<in> set (rid # rids)" for k
  proof (cases "k = rid")
    case True
    with e(1) e2 expires_to_again [OF e(3) e2(2)] show ?thesis by blast
  next
    case False
    with that have "k \<in> set rids" by simp
    with ih other [OF False] unexpired_mono [OF _ e(5)] show ?thesis by metis
  qed
  moreover have "le_status l = ''expired'' \<and>
      (\<exists>k \<in> set (rid # rids). \<exists>e'. latest_event k (co_journal st') = Inr e' \<and> je_lease e' = Present l)"
    if "l \<in> set ls" for l
  proof (cases "x = Some l")
    case True
    with e2(1) e(6) same show ?thesis by auto
  next
    case False
    with that s(3) have "l \<in> set xs" by (auto split: option.splits)
    with ih show ?thesis by auto
  qed
  moreover have "latest_event k (co_journal st') = latest_event k (co_journal st)" if "k \<notin> set (rid # rids)" for k
    using that ih other by auto
  ultimately show ?case by blast
qed simp

end
