(* ===== verification/Authority_Claims.thy ===== *)
theory Authority_Claims
  imports Authority_Recovery
begin

text \<open>
  The properties of the authority service and of the coordinator's transition system, each with a
  witness on a concrete run: one admission, one lease activation and one reassignment.
\<close>

section \<open>A concrete run\<close>

definition sample_authority :: "governed_claim list authority" where
  "sample_authority =
     \<lparr>au_claims = Inr,
      au_amend = Some (\<lambda>q w. (Inr (), map (\<lambda>c. if c_change_id c = ar_change q then
         c\<lparr>c_owned := cas_owned (ar_proposed q), c_shared := cas_shared (ar_proposed q),
           c_dependencies := cas_dependencies (ar_proposed q), c_owner := cas_owner (ar_proposed q)\<rparr> else c) w)),
      au_clock = (\<lambda>w. (Inr 100, w))\<rparr>"

definition sample_reservation :: reservation where
  "sample_reservation =
     initial_reservation (sample_reservation_request ''o'') ''002-add-x'' 2 sample_base ''res-1'' ''lease-1''"

definition sample_lease :: lease where
  "sample_lease = lease_payload sample_reservation ''w1'' ''lease-1'' 100 60000100 ''active''"

definition sample_scope_request :: scope_request where
  "sample_scope_request =
     \<lparr>sq_request_id = ''q'', sq_reservation = ''res-1'', sq_revision = 1, sq_fence = 1,
      sq_add_owned = [''docs/a.md''], sq_remove_owned = [], sq_add_shared = [], sq_remove_shared = [],
      sq_add_dependencies = [], sq_remove_dependencies = [], sq_owner = None\<rparr>"

text \<open>The events and the states of the run: admission, activation, reassignment.\<close>

definition event1 :: journal_event where
  "event1 = pending_event (sample_reservation_request ''o'') ''002-add-x'' 2 ''res-1'' sample_base"

definition event2 :: journal_event where
  "event2 = event1\<lparr>je_state := ''reserved'', je_reservation := Present sample_reservation, je_created := True\<rparr>"

definition event3 :: journal_event where
  "event3 = authority_event event2 (sample_reservation\<lparr>rs_status := ''active''\<rparr>) (Some sample_lease) ''lease_activated''"

definition second_lease :: lease where
  "second_lease = lease_payload (reassigned_reservation sample_reservation ''lease-ff'') ''w2'' ''lease-ff'' 100 60000100 ''active''"

definition event4 :: journal_event where
  "event4 = reassigned_event event3 (reassigned_reservation sample_reservation ''lease-ff'') second_lease (Some sample_lease)"

definition sample_world :: "governed_claim list" where
  "sample_world = [sample_created (create_payload_of (sample_reservation_request ''o'') ''002-add-x'' sample_base)]"

definition run_state :: "journal_dir \<Rightarrow> governed_claim list coordinator" where
  "run_state files = \<lparr>co_journal = [(''res-1'', files)], co_world = sample_world\<rparr>"

definition files1 :: journal_dir where
  "files1 = [(''001-pending.json'', Event event1), (''002-reserved.json'', Event event2)]"

definition run1 :: "governed_claim list coordinator" where
  "run1 = run_state files1"

definition run2 :: "governed_claim list coordinator" where
  "run2 = run_state (files1 @ [(''003-lease-activated.json'', Event event3)])"

definition run3 :: "governed_claim list coordinator" where
  "run3 = run_state (files1 @ [(''003-lease-activated.json'', Event event3), (''004-lease-reassigned.json'', Event event4)])"




lemma admission_result: "sample_admission ''o'' = (Inr sample_reservation, run1)"
  by code_simp

lemma run1_steps: "coordinator_step\<^sup>*\<^sup>* sample_coordinator run1"
proof -
  have "map_of (co_journal sample_coordinator) ''res-1'' = None" by (simp add: sample_coordinator_def)
  from admission [OF this admission_result [unfolded sample_admission_def]] show ?thesis by (rule r_into_rtranclp)
qed

lemma run2_result: "activate_lease sample_authority ''res-1'' ''w1'' 60 run1 = (Inr sample_lease, run2)"
  by code_simp

lemma run3_result: "reassign_lease sample_authority ''ff'' ''res-1'' ''w2'' 1 1 60 run2 = (Inr second_lease, run3)"
  by code_simp

lemma run2_steps: "coordinator_step\<^sup>*\<^sup>* sample_coordinator run2"
  by (rule rtranclp.rtrancl_into_rtrancl [OF run1_steps activation [OF run2_result]])

lemma run_latest:
  "latest_event ''res-1'' (co_journal run2) = Inr event3" "latest_event ''res-1'' (co_journal run3) = Inr event4"
  by code_simp+

lemma event_reservations:
  "je_reservation event3 = Present (sample_reservation\<lparr>rs_status := ''active''\<rparr>)"
  "je_reservation event4 = Present (reassigned_reservation sample_reservation ''lease-ff'')"
  by (simp_all add: event3_def event4_def reassigned_event_def)

section \<open>Properties\<close>

text \<open>C9: every operation of the authority service, successful or not, changes the journal only by
  appending events that are permitted transitions from the latest event of their reservation, and
  an admission adds one directory whose final event satisfies the invariant; no earlier event is
  changed or removed.\<close>

theorem coordinator_refines_event_machine:
  assumes "coordinator_step st st'"
  shows "journal_step\<^sup>*\<^sup>* (co_journal st) (co_journal st') \<or>
    (\<exists>rid e1 e2. map_of (co_journal st) rid = None \<and> recorded rid e1 e2 (co_journal st) (co_journal st') \<and>
       (is_present (je_reservation e2) \<longrightarrow> inv_event e2 \<and> balanced e2))"
  by (rule coordinator_step_effect [OF assms])

theorem coordinator_refines_event_machine_witness:
  "journal_step\<^sup>*\<^sup>* (co_journal run1) (co_journal run2) \<or>
    (\<exists>rid e1 e2. map_of (co_journal run1) rid = None \<and> recorded rid e1 e2 (co_journal run1) (co_journal run2))"
  using coordinator_refines_event_machine [OF activation [OF run2_result]] by blast

text \<open>in every state reachable from an empty journal by admissions, authority operations and
  changes of the outside world, the latest event of a finalized reservation is consistent: the
  authority revision equals the fence and is at least 1, and the lease, when there is one, names
  the reservation, its current lease id, its current fence and its status.\<close>

theorem reachable_lease_consistent:
  assumes "coordinator_step\<^sup>*\<^sup>* \<lparr>co_journal = [], co_world = w\<rparr> st"
    and "latest_event rid (co_journal st) = Inr e" and "je_reservation e = Present r"
  shows "rs_revision r = rs_fence r \<and> 1 \<le> rs_fence r \<and> je_lease e \<noteq> Malformed \<and>
    (\<forall>l. je_lease e = Present l \<longrightarrow> le_fence l = rs_fence r \<and> le_lease_id l = rs_lease_id r \<and>
       le_reservation l = rs_id r \<and> le_status l = rs_status r)"
proof -
  have "inv_journal (co_journal \<lparr>co_journal = [], co_world = w\<rparr>)" by (simp add: inv_empty)
  from coordinator_steps_order [OF assms(1) this] have "inv_journal (co_journal st)" by blast
  with assms(2,3) have "inv_event e" "balanced e" by (auto simp: inv_journal_def is_present_def)
  with assms(3) show ?thesis by (auto simp: inv_event_def balanced_def lease_ok_def split: evidence.splits)
qed

theorem reachable_lease_consistent_witness:
  "\<exists>e r. latest_event ''res-1'' (co_journal run2) = Inr e \<and> je_reservation e = Present r \<and>
     rs_revision r = rs_fence r \<and> 1 \<le> rs_fence r"
proof -
  have s: "coordinator_step\<^sup>*\<^sup>* \<lparr>co_journal = [], co_world = []\<rparr> run2"
    using run2_steps by (simp add: sample_coordinator_def)
  from reachable_lease_consistent [OF s run_latest(1) event_reservations(1)] run_latest(1) event_reservations(1)
  show ?thesis by blast
qed

text \<open>C10: fencing: once the fence of a reservation is larger than \<open>f\<close>, no later check of mutation
  authority and no later heartbeat with the token \<open>f\<close> succeeds, whatever operations, by whatever
  callers and adapters, happen in between.\<close>

theorem stale_fence_never_accepted:
  assumes "inv_journal (co_journal st1)" and "latest_event rid (co_journal st1) = Inr e"
    and "je_reservation e = Present r" and "f < rs_fence r" and "coordinator_step\<^sup>*\<^sup>* st1 st2"
  shows "(\<nexists>x. fst (assert_mutation_authority au rid h lid rv f st2) = Inr x) \<and>
    (\<nexists>l. fst (heartbeat_lease au rid h lid rv f n st2) = Inr l)"
proof -
  from coordinator_steps_order [OF assms(5,1)] have o: "authority_order (co_journal st1) (co_journal st2)"
    and i: "inv_journal (co_journal st2)" by blast+
  have key: False if c: "current_authority_event au rid st2 = (Inr e', s)"
    and q: "require_authority au e' h lid rv f s = (Inr (r', l), s')" for e' s r' l s'
  proof -
    from journal_steps_order [OF current_result(3) [OF c] i] o
    have "authority_order (co_journal st1) (co_journal s)" using authority_order_trans by blast
    with assms(2,3) obtain e2 r2 where "latest_event rid (co_journal s) = Inr e2" "je_reservation e2 = Present r2"
      "rs_fence r \<le> rs_fence r2" unfolding authority_order_def by blast
    with current_result(1) [OF c] require_authority_Inr [OF q] assms(4) show False by auto
  qed
  have "fst (assert_mutation_authority au rid h lid rv f st2) \<noteq> Inr x" for x
  proof
    assume "fst (assert_mutation_authority au rid h lid rv f st2) = Inr x"
    then obtain s where "assert_mutation_authority au rid h lid rv f st2 = (Inr x, s)" by (metis prod.collapse)
    then show False by (rule assert_result) (rule key)
  qed
  moreover have "fst (heartbeat_lease au rid h lid rv f n st2) \<noteq> Inr l" for l
  proof
    assume "fst (heartbeat_lease au rid h lid rv f n st2) = Inr l"
    then obtain s where "heartbeat_lease au rid h lid rv f n st2 = (Inr l, s)" by (metis prod.collapse)
    then show False by (rule heartbeat_result) (rule key)
  qed
  ultimately show ?thesis by blast
qed

theorem stale_fence_never_accepted_witness:
  "\<nexists>x. fst (assert_mutation_authority sample_authority ''res-1'' ''w1'' ''lease-1'' 1 1 run3) = Inr x"
proof -
  have "inv_journal (co_journal sample_coordinator)" by (simp add: sample_coordinator_def inv_empty)
  with run2_steps have i2: "inv_journal (co_journal run2)" using coordinator_steps_order by blast
  from coordinator_step_order [OF reassignment [OF run3_result] i2] have i3: "inv_journal (co_journal run3)" by blast
  have f: "1 < rs_fence (reassigned_reservation sample_reservation ''lease-ff'')" by code_simp
  show ?thesis using stale_fence_never_accepted [OF i3 run_latest(2) event_reservations(2) f rtranclp.rtrancl_refl] by blast
qed

text \<open>C11: a successful check of mutation authority means that the latest event of the reservation, in
  the state the check leaves, holds an active lease with the given lease id and holder, the
  revision and the fence of the reservation are the given ones, no scope transition is pending and
  the clock was read before the expiry of the lease; the returned reservation is the recorded one.\<close>

theorem mutation_authority_sound:
  assumes "assert_mutation_authority au rid h lid rv f st = (Inr r, st')"
  shows "\<exists>e l t now w. latest_event rid (co_journal st') = Inr e \<and> \<not> proposed e \<and> je_reservation e = Present r \<and>
    je_lease e = Present l \<and> le_status l = ''active'' \<and> le_lease_id l = lid \<and> le_holder l = h \<and>
    le_fence l = f \<and> rs_fence r = f \<and> rs_revision r = rv \<and> le_expires l = Some t \<and>
    au_clock au w = (Inr now, co_world st') \<and> now < t"
proof -
  obtain e l s where s: "current_authority_event au rid st = (Inr e, s)"
    "require_authority au e h lid rv f s = (Inr (r, l), st')" using assms by (rule assert_result)
  from require_authority_Inr [OF s(2)] obtain t now where q: "je_reservation e = Present r" "je_lease e = Present l"
    "rs_revision r = rv" "rs_fence r = f" "le_status l = ''active''" "le_lease_id l = lid" "le_holder l = h"
    "le_fence l = f" "le_expires l = Some t" "clock au s = (Inr now, st')" "now < t" by blast
  have "latest_event rid (co_journal st') = Inr e"
    using current_result(1) [OF s(1)] clock_quiet [OF q(10)] by simp
  moreover have "au_clock au (co_world s) = (Inr now, co_world st')"
    using q(10) by (auto simp: clock_def call_world_def split: prod.splits)
  ultimately show ?thesis using q current_result(2) [OF s(1)] by blast
qed

theorem mutation_authority_sound_witness:
  "\<exists>r st'. assert_mutation_authority sample_authority ''res-1'' ''w1'' ''lease-1'' 1 1 run2 = (Inr r, st') \<and>
     rs_fence r = 1"
proof -
  have "fst (assert_mutation_authority sample_authority ''res-1'' ''w1'' ''lease-1'' 1 1 run2) =
      Inr (sample_reservation\<lparr>rs_status := ''active''\<rparr>)" by code_simp
  then obtain st' where s: "assert_mutation_authority sample_authority ''res-1'' ''w1'' ''lease-1'' 1 1 run2 =
      (Inr (sample_reservation\<lparr>rs_status := ''active''\<rparr>), st')" by (metis prod.collapse)
  with mutation_authority_sound [OF s] show ?thesis by blast
qed

text \<open>A successful reassignment requires the current revision and fence, and leaves as latest event
  a reservation with both increased by one, a new lease id, status active, and a lease for the new
  holder with the new fence, which is also the returned lease.\<close>

theorem reassignment_moves_fence:
  assumes "reassign_lease au fresh rid h rv f n st = (Inr l, st')"
  shows "\<exists>e r. latest_event rid (co_journal st') = Inr e \<and> je_reservation e = Present r \<and> je_lease e = Present l \<and>
    rs_revision r = rv + 1 \<and> rs_fence r = f + 1 \<and> rs_lease_id r = ''lease-'' @ fresh \<and> rs_status r = ''active'' \<and>
    le_fence l = f + 1 \<and> le_holder l = h \<and> le_lease_id l = ''lease-'' @ fresh \<and> le_status l = ''active''"
proof -
  obtain e :: journal_event and r now d where q: "rs_revision r = rv" "rs_fence r = f"
    "l = lease_payload (reassigned_reservation r (''lease-'' @ fresh)) h (''lease-'' @ fresh) now (now + d) ''active''"
    "\<exists>e'. latest_event rid (co_journal st') = Inr e' \<and> je_lease e' = Present l \<and>
       je_reservation e' = Present (reassigned_reservation r (''lease-'' @ fresh))"
    using assms by (rule reassign_result) rule
  then obtain e' where "latest_event rid (co_journal st') = Inr e'" "je_lease e' = Present l"
    "je_reservation e' = Present (reassigned_reservation r (''lease-'' @ fresh))" by blast
  then show ?thesis using q(1-3)
    by (intro exI conjI) (assumption | simp add: reassigned_reservation_def lease_payload_def)+
qed

theorem reassignment_moves_fence_witness:
  "\<exists>e r. latest_event ''res-1'' (co_journal run3) = Inr e \<and> je_reservation e = Present r \<and> rs_fence r = 1 + 1"
  using reassignment_moves_fence [OF run3_result] by blast



text \<open>C13: a successful scope amendment of a state requires that the revision and fence of the request are
  those of the reservation recorded there (after the recovery of an interrupted transition, which the
  amendment begins with); the proposed claim has a valid shape and is separate from every other active claim, the governed claim observed at the end
  equals it, and the latest event holds the amended reservation with revision and fence increased
  by one, whose lease, if any, carries the new fence.\<close>

theorem amendment_accepted:
  assumes "amend_scope au q st = (Inr rv, st')"
  shows "\<exists>e r r' s claims others observed. recover_scope_transition au (sq_reservation q) st = (Inr (), s) \<and>
    latest_event (sq_reservation q) (co_journal s) = Inr e \<and> je_reservation e = Present r \<and>
    rs_revision r = sq_revision q \<and> rs_fence r = sq_fence q \<and> amendment_checked au q r s claims \<and> combined_claims au s = Inr others \<and>
    (\<forall>c \<in> set others. c_change_id c \<noteq> rs_change r \<longrightarrow> separate (snd claims) c) \<and>
    governed_claim_of au (rs_change r) (co_world st') = Inr observed \<and>
    cas_projection observed = cas_projection (snd claims) \<and> sr_status rv = ''accepted'' \<and>
    r' = proposed_reservation_of r (snd claims) q \<and> rs_revision r' = rs_revision r + 1 \<and> rs_fence r' = rs_fence r + 1 \<and>
    (\<exists>e' l. latest_event (sq_reservation q) (co_journal st') = Inr e' \<and> je_reservation e' = Present r' \<and>
       \<not> proposed e' \<and> je_lease e' = lease_evidence (map_option (\<lambda>x. x\<lparr>le_fence := rs_fence r'\<rparr>) l) \<and>
       event_lease e = Inr l)"
proof -
  from assms obtain s e r claims where s: "recover_scope_transition au (sq_reservation q) st = (Inr (), s)"
    "latest_event (sq_reservation q) (co_journal s) = Inr e" "event_reservation e = Inr r"
    "amendment au q r s = Inr claims" "write_amendment au q e r claims s = (Inr rv, st')"
    unfolding amend_scope_def
    by (elim bindS_InrE latest_bind_Inr lift_bind_Inr read_bind_Inr) (auto elim!: latest_bind_Inr lift_bind_Inr read_bind_Inr)
  note ck = amendment_Inr [OF s(4)]
  then obtain others where o: "combined_claims au s = Inr others"
    "validate_candidate (snd claims) (filter (\<lambda>c. c_change_id c \<noteq> rs_change r) others) = Inr ()"
    and rf: "rs_revision r = sq_revision q" "rs_fence r = sq_fence q" by (auto simp: amendment_checked_def)
  have sep: "\<forall>c \<in> set others. c_change_id c \<noteq> rs_change r \<longrightarrow> separate (snd claims) c"
    using validate_candidate_separate [OF o(2)] by auto
  obtain l observed where w: "event_lease e = Inr l" "governed_claim_of au (rs_change r) (co_world st') = Inr observed"
    "cas_matches observed (cas_projection (snd claims))" "rv = (scope_revision_payload q)\<lparr>sr_status := ''accepted''\<rparr>"
    "latest_event (sq_reservation q) (co_journal st') = Inr (accepted_event e (scope_revision_payload q)
       (proposed_reservation_of r (snd claims) q) (map_option (\<lambda>x. x\<lparr>le_fence := sq_fence q + 1\<rparr>) l) ''scope_revision_accepted'')"
    using s(5,2) by (rule write_amendment_result)
  let ?r' = "proposed_reservation_of r (snd claims) q"
  have f: "rs_fence ?r' = sq_fence q + 1" "rs_revision ?r' = sq_revision q + 1"
    by (simp_all add: proposed_reservation_of_def)
  let ?e' = "accepted_event e (scope_revision_payload q) ?r' (map_option (\<lambda>x. x\<lparr>le_fence := sq_fence q + 1\<rparr>) l)
    ''scope_revision_accepted''"
  have new: "je_reservation ?e' = Present ?r'"
    "je_lease ?e' = lease_evidence (map_option (\<lambda>x. x\<lparr>le_fence := rs_fence ?r'\<rparr>) l)" "\<not> proposed ?e'"
    by (simp_all add: accepted_not_proposed) (simp_all add: accepted_event_def f)
  have st: "sr_status rv = ''accepted''" "cas_projection observed = cas_projection (snd claims)"
    using w(3,4) by (simp_all add: cas_matches_def)
  show ?thesis
    by (rule exI [of _ e], rule exI [of _ r], rule exI [of _ ?r'], rule exI [of _ s], rule exI [of _ claims],
        rule exI [of _ others], rule exI [of _ observed])
      (use s(1-3) ck o(1) sep w(1,2,5) st f rf new in \<open>simp add: event_reservation_Inr, blast?\<close>)
qed

theorem amendment_accepted_witness:
  "\<exists>rv st' e' r'. amend_scope sample_authority sample_scope_request run1 = (Inr rv, st') \<and> sr_status rv = ''accepted'' \<and>
     latest_event ''res-1'' (co_journal st') = Inr e' \<and> je_reservation e' = Present r'"
proof -
  have "fst (amend_scope sample_authority sample_scope_request run1) =
      Inr ((scope_revision_payload sample_scope_request)\<lparr>sr_status := ''accepted''\<rparr>)" by code_simp
  then obtain st' where s: "amend_scope sample_authority sample_scope_request run1 =
      (Inr ((scope_revision_payload sample_scope_request)\<lparr>sr_status := ''accepted''\<rparr>), st')" by (metis prod.collapse)
  have "sq_reservation sample_scope_request = ''res-1''" by (simp add: sample_scope_request_def)
  note a = amendment_accepted [OF s, unfolded this]
  show ?thesis
    by (rule exE [OF a], elim exE conjE) (intro exI conjI, rule s, assumption+)
qed

end
