(* ===== verification/Handoff.thy ===== *)
theory Handoff
  imports Json_Value Claims
begin

text \<open>
  The immutable task handoff (\<open>workflows/once_through/contracts.py\<close>): obligations and their phases,
  evidence references, the handoff contract with its fingerprint and the promotion handoff.  The
  fingerprint is the hash of the canonical JSON text of the identity payload; the hash is a
  parameter.  An integer that Python reads from a file is an \<open>int\<close>; \<open>None\<close> stands for a value that
  is not an integer.
\<close>

section \<open>Obligations\<close>

datatype obligation =
    Verification
  | Review_closed
  | Live_candidate_verification
  | Provider_proof
  | Documentation
  | Commissioning
  | Completion

datatype obligation_phase =
    Implementation_phase
  | Review_phase
  | Candidate_phase
  | Pull_request_phase
  | Documentation_phase
  | Commissioning_phase
  | Completion_phase

definition all_obligations :: "obligation list" where
  "all_obligations = [Verification, Review_closed, Live_candidate_verification, Provider_proof, Documentation,
     Commissioning, Completion]"

fun obligation_text :: "obligation \<Rightarrow> string" where
  "obligation_text Verification = ''verification''"
| "obligation_text Review_closed = ''review_closed''"
| "obligation_text Live_candidate_verification = ''live_candidate_verification''"
| "obligation_text Provider_proof = ''provider_proof''"
| "obligation_text Documentation = ''documentation''"
| "obligation_text Commissioning = ''commissioning''"
| "obligation_text Completion = ''completion''"

text \<open>\<open>TaskObligation(item)\<close>\<close>

definition parse_obligation :: "string \<Rightarrow> obligation result" where
  "parse_obligation s =
     (case find (\<lambda>x. obligation_text x = s) all_obligations of None \<Rightarrow> Inl ValueError | Some x \<Rightarrow> Inr x)"

fun phase_of :: "obligation \<Rightarrow> obligation_phase" where
  "phase_of Verification = Implementation_phase"
| "phase_of Review_closed = Review_phase"
| "phase_of Live_candidate_verification = Candidate_phase"
| "phase_of Provider_proof = Pull_request_phase"
| "phase_of Documentation = Documentation_phase"
| "phase_of Commissioning = Commissioning_phase"
| "phase_of Completion = Completion_phase"

text \<open>\<open>tuple(ObligationPhase).index(phase)\<close>\<close>

fun phase_index :: "obligation_phase \<Rightarrow> nat" where
  "phase_index Implementation_phase = 0"
| "phase_index Review_phase = 1"
| "phase_index Candidate_phase = 2"
| "phase_index Pull_request_phase = 3"
| "phase_index Documentation_phase = 4"
| "phase_index Commissioning_phase = 5"
| "phase_index Completion_phase = 6"

section \<open>Evidence references\<close>

datatype validity_class = Content_stable | Base_sensitive | Runtime_sensitive | Provider_exact_head | Post_merge

fun required_inputs :: "validity_class \<Rightarrow> string list" where
  "required_inputs Content_stable = [''tree'']"
| "required_inputs Base_sensitive = [''tree'', ''base'']"
| "required_inputs Runtime_sensitive = [''tree'', ''runtime'']"
| "required_inputs Provider_exact_head = [''head'', ''provider'']"
| "required_inputs Post_merge = [''landed'']"

record evidence_reference =
  ev_id :: string
  ev_kind :: string
  ev_subject :: string
  ev_class :: validity_class
  ev_inputs :: "(string \<times> string) list"
  ev_receipt :: string
  ev_phase :: string

definition evidence_reference_init :: "evidence_reference \<Rightarrow> evidence_reference result" where
  "evidence_reference_init e =
     (if \<exists>v \<in> {ev_id e, ev_kind e, ev_subject e, ev_receipt e, ev_phase e}. blank v then Inl ValueError
      else if \<exists>(k, v) \<in> set (ev_inputs e). k = [] \<or> v = [] then Inl ValueError
      else if \<not> set (required_inputs (ev_class e)) \<subseteq> fst ` set (ev_inputs e) then Inl ValueError
      else Inr e)"

section \<open>The contract\<close>

record contract =
  hc_project :: string
  hc_work :: string
  hc_repository :: string
  hc_requirements :: "string list"
  hc_acceptance :: "string list"
  hc_surfaces :: "string list"
  hc_obligations :: "obligation list"
  hc_port :: int
  hc_source :: string
  hc_change :: "string option"
  hc_schema :: int

text \<open>The constructor's arguments, as callers and files supply them.\<close>

record contract_args =
  ha_project :: string
  ha_work :: string
  ha_repository :: string
  ha_requirements :: "string list"
  ha_acceptance :: "string list"
  ha_surfaces :: "string list"
  ha_obligations :: "string list"
  ha_port :: "int option"
  ha_source :: string
  ha_change :: "string option"
  ha_schema :: int

definition unresolved :: "string list \<Rightarrow> bool" where
  "unresolved vs = (vs = [] \<or> (\<exists>v \<in> set vs. blank v))"

definition contract_init :: "contract_args \<Rightarrow> contract result" where
  "contract_init a =
     (if ha_schema a \<notin> {1, 2} then Inl ValueError
      else bindE (mapE parse_obligation (ha_obligations a)) (\<lambda>obs.
        if \<not> distinct obs then Inl ValueError
        else if \<exists>v \<in> {ha_project a, ha_work a, ha_repository a, ha_source a}. blank v then Inl ValueError
        else if unresolved (ha_requirements a) \<or> unresolved (ha_acceptance a) \<or> unresolved (ha_surfaces a) \<or> obs = []
          then Inl ValueError
        else (case ha_port a of
                None \<Rightarrow> Inl ValueError
              | Some port \<Rightarrow>
                  if port < 1024 \<or> 65535 < port then Inl ValueError
                  else if (case ha_change a of None \<Rightarrow> False | Some c \<Rightarrow> blank c) then Inl ValueError
                  else Inr \<lparr>hc_project = ha_project a, hc_work = ha_work a, hc_repository = ha_repository a,
                            hc_requirements = ha_requirements a, hc_acceptance = ha_acceptance a,
                            hc_surfaces = ha_surfaces a, hc_obligations = obs, hc_port = port,
                            hc_source = ha_source a, hc_change = ha_change a, hc_schema = ha_schema a\<rparr>)))"

definition str_array :: "string list \<Rightarrow> json" where
  "str_array xs = JArr (map JStr xs)"

definition str_option :: "string option \<Rightarrow> json" where
  "str_option v = (case v of None \<Rightarrow> JNull | Some s \<Rightarrow> JStr s)"

text \<open>\<open>_identity_payload\<close> and the fingerprint of the contract.\<close>

definition identity_payload :: "contract \<Rightarrow> obj" where
  "identity_payload c =
     [(''schema_version'', JInt (hc_schema c)), (''project_id'', JStr (hc_project c)), (''work_id'', JStr (hc_work c)),
      (''repository'', JStr (hc_repository c)), (''requirements'', str_array (hc_requirements c)),
      (''acceptance_criteria'', str_array (hc_acceptance c)), (''affected_surfaces'', str_array (hc_surfaces c)),
      (''obligations'', str_array (map obligation_text (hc_obligations c))), (''candidate_port'', JInt (hc_port c)),
      (''source_identity'', JStr (hc_source c)), (''change_id'', str_option (hc_change c))]"

definition contract_fingerprint :: "(string \<Rightarrow> string) \<Rightarrow> contract \<Rightarrow> string" where
  "contract_fingerprint sha c = fingerprint sha (JObj (identity_payload c))"

definition obligations_through :: "contract \<Rightarrow> obligation_phase \<Rightarrow> obligation list" where
  "obligations_through c phase = filter (\<lambda>x. phase_index (phase_of x) \<le> phase_index phase) (hc_obligations c)"

section \<open>The promotion handoff\<close>

record promotion =
  pm_work :: string
  pm_change :: string
  pm_fingerprint :: string
  pm_commit :: string
  pm_candidate :: obj
  pm_execution :: obj
  pm_evidence :: "evidence_reference list"
  pm_satisfied :: "json list"
  pm_pending :: "json list"
  pm_status :: string
  pm_schema :: int

text \<open>\<open>len(set(xs)) != len(xs)\<close>: lists and dictionaries are not hashable.\<close>

definition hashable :: "json \<Rightarrow> bool" where
  "hashable v = (case v of JArr _ \<Rightarrow> False | JObj _ \<Rightarrow> False | _ \<Rightarrow> True)"

definition repeated :: "json list \<Rightarrow> bool result" where
  "repeated xs = (if \<exists>x \<in> set xs. \<not> hashable x then Inl TypeError else Inr (\<not> distinct (map canon xs)))"

definition promotion_init :: "promotion \<Rightarrow> promotion result" where
  "promotion_init p =
     (if pm_schema p \<notin> {1, 2} then Inl ValueError
      else if pm_status p \<noteq> ''promotion_ready'' then Inl ValueError
      else if \<not> is_hex40 (pm_commit p) then Inl ValueError
      else if length (pm_fingerprint p) \<noteq> 64 then Inl ValueError
      else if pm_pending p \<noteq> [] then Inl ValueError
      else if JStr ''live_candidate_verification'' \<in> set (pm_satisfied p) \<and>
              (field (pm_candidate p) ''work_id'' \<noteq> JStr (pm_work p) \<or>
               field (pm_candidate p) ''contract_fingerprint'' \<noteq> JStr (pm_fingerprint p) \<or>
               (case field (pm_candidate p) ''server_instance_id'' of JStr i \<Rightarrow> i = [] | _ \<Rightarrow> True)) then Inl ValueError
      else if field (pm_execution p) ''contract'' \<noteq> JStr ''change-execution-result-v2'' \<or>
              field (pm_execution p) ''status'' \<noteq> JStr ''passed'' then Inl ValueError
      else if pm_satisfied p = [] then Inl ValueError
      else bindE (repeated (pm_satisfied p)) (\<lambda>twice. if twice then Inl ValueError else Inr p))"

section \<open>The identity payload determines the contract\<close>

lemma parse_obligation_text [simp]: "parse_obligation (obligation_text x) = Inr x"
  by (cases x) (simp_all add: parse_obligation_def all_obligations_def)

lemma parse_obligation_Inr: "parse_obligation s = Inr x \<Longrightarrow> obligation_text x = s"
  by (auto simp: parse_obligation_def find_Some_iff split: option.splits)

lemma obligation_text_inj: "obligation_text x = obligation_text y \<longleftrightarrow> x = y"
  by (metis parse_obligation_text sum.inject(2))

lemma map_obligation_text_inj: "map obligation_text xs = map obligation_text ys \<longleftrightarrow> xs = ys"
  using map_inj_on [of obligation_text xs ys] by (auto simp: inj_on_def obligation_text_inj)

lemma stored_str_array [simp]: "stored (str_array xs) = str_array xs"
  by (simp add: str_array_def comp_def)

lemma stored_str_option [simp]: "stored (str_option v) = str_option v"
  by (simp add: str_option_def split: option.splits)

lemma str_array_inj: "str_array xs = str_array ys \<longleftrightarrow> xs = ys"
  using map_inj_on [of JStr xs ys] by (auto simp: str_array_def inj_on_def)

lemma str_option_inj: "str_option v = str_option w \<longleftrightarrow> v = w"
  by (simp add: str_option_def split: option.splits)

lemma identity_payload_inj:
  assumes "ascii_json (JObj (identity_payload c)) = ascii_json (JObj (identity_payload d))"
  shows "c = d"
proof -
  have dist: "distinct (map fst (identity_payload e))" for e by (simp add: identity_payload_def)
  from assms have "stored_obj (identity_payload c) = stored_obj (identity_payload d)"
    by (simp add: ascii_json_inj)
  then have *: "stored (field (identity_payload c) k) = stored (field (identity_payload d) k)" for k
    using field_stored [OF dist] by metis
  have "hc_schema c = hc_schema d" "hc_project c = hc_project d" "hc_work c = hc_work d"
    "hc_repository c = hc_repository d" "hc_requirements c = hc_requirements d"
    "hc_acceptance c = hc_acceptance d" "hc_surfaces c = hc_surfaces d" "hc_obligations c = hc_obligations d"
    "hc_port c = hc_port d" "hc_source c = hc_source d" "hc_change c = hc_change d"
    using * [of "''schema_version''"] * [of "''project_id''"] * [of "''work_id''"] * [of "''repository''"]
      * [of "''requirements''"] * [of "''acceptance_criteria''"] * [of "''affected_surfaces''"]
      * [of "''obligations''"] * [of "''candidate_port''"] * [of "''source_identity''"] * [of "''change_id''"]
    by (simp_all add: identity_payload_def str_array_inj str_option_inj map_obligation_text_inj)
  then show ?thesis by simp
qed

lemma obligations_mono:
  "phase_index p \<le> phase_index q \<Longrightarrow> subseq (obligations_through c p) (obligations_through c q)"
proof -
  assume "phase_index p \<le> phase_index q"
  then have "obligations_through c p = filter (\<lambda>x. phase_index (phase_of x) \<le> phase_index p) (obligations_through c q)"
    by (auto simp: obligations_through_def intro!: filter_cong)
  then show ?thesis by simp
qed

end
