(* ===== verification/Handoff_Json.thy ===== *)
theory Handoff_Json
  imports Handoff
begin

text \<open>
  The stored form of the handoff objects: the \<open>to_json_dict\<close> methods of
  \<open>workflows/once_through/contracts.py\<close> and the readers in \<open>workflows/once_through/state.py\<close> that
  build the objects from parsed JSON again.
\<close>

fun phase_text :: "obligation_phase \<Rightarrow> string" where
  "phase_text Implementation_phase = ''implementation''"
| "phase_text Review_phase = ''review''"
| "phase_text Candidate_phase = ''candidate''"
| "phase_text Pull_request_phase = ''pull_request''"
| "phase_text Documentation_phase = ''documentation''"
| "phase_text Commissioning_phase = ''commissioning''"
| "phase_text Completion_phase = ''completion''"

fun class_text :: "validity_class \<Rightarrow> string" where
  "class_text Content_stable = ''content_tree_stable''"
| "class_text Base_sensitive = ''base_sensitive''"
| "class_text Runtime_sensitive = ''dependency_config_runtime_sensitive''"
| "class_text Provider_exact_head = ''provider_exact_head_specific''"
| "class_text Post_merge = ''post_merge''"

definition all_classes :: "validity_class list" where
  "all_classes = [Content_stable, Base_sensitive, Runtime_sensitive, Provider_exact_head, Post_merge]"

definition parse_class :: "string \<Rightarrow> validity_class result" where
  "parse_class s = (case find (\<lambda>x. class_text x = s) all_classes of None \<Rightarrow> Inl ValueError | Some x \<Rightarrow> Inr x)"

section \<open>Writing\<close>

definition evidence_fields :: "evidence_reference \<Rightarrow> obj" where
  "evidence_fields e =
     [(''evidence_id'', JStr (ev_id e)), (''kind'', JStr (ev_kind e)), (''subject'', JStr (ev_subject e)),
      (''validity_class'', JStr (class_text (ev_class e))),
      (''validity_inputs'', JObj (map (map_prod id JStr) (ev_inputs e))),
      (''receipt_ref'', JStr (ev_receipt e)), (''applicable_phase'', JStr (ev_phase e))]"

definition typed_obligations :: "contract \<Rightarrow> json" where
  "typed_obligations c =
     JArr (map (\<lambda>x. JObj [(''kind'', JStr (obligation_text x)), (''phase'', JStr (phase_text (phase_of x))),
                          (''declared'', JBool (x \<in> set (hc_obligations c)))]) all_obligations)"

definition contract_fields :: "(string \<Rightarrow> string) \<Rightarrow> contract \<Rightarrow> obj" where
  "contract_fields sha c =
     identity_payload c @ [(''contract_fingerprint'', JStr (contract_fingerprint sha c))] @
     (if 2 \<le> hc_schema c then [(''typed_obligations'', typed_obligations c)] else [])"

definition promotion_fields :: "promotion \<Rightarrow> obj" where
  "promotion_fields p =
     [(''schema_version'', JInt (pm_schema p)), (''status'', JStr (pm_status p)), (''work_id'', JStr (pm_work p)),
      (''change_id'', JStr (pm_change p)), (''contract_fingerprint'', JStr (pm_fingerprint p)),
      (''source_commit_sha'', JStr (pm_commit p)), (''candidate_identity'', JObj (pm_candidate p)),
      (''execution'', JObj (pm_execution p)), (''evidence'', JArr (map (JObj \<circ> evidence_fields) (pm_evidence p))),
      (''satisfied_obligations'', JArr (pm_satisfied p)), (''pending_obligations'', JArr (pm_pending p))]"

section \<open>Reading\<close>

fun strings_of :: "json list \<Rightarrow> string list option" where
  "strings_of [] = Some []"
| "strings_of (v # vs) =
     (case (v, strings_of vs) of (JStr s, Some ss) \<Rightarrow> Some (s # ss) | _ \<Rightarrow> None)"

definition string_pairs :: "obj \<Rightarrow> (string \<times> string) list option" where
  "string_pairs d = map_option (zip (map fst d)) (strings_of (map snd d))"

text \<open>\<open>EvidenceReference(...)\<close> with the inputs as they were read.\<close>

definition make_evidence ::
  "string \<Rightarrow> string \<Rightarrow> string \<Rightarrow> validity_class \<Rightarrow> obj \<Rightarrow> string \<Rightarrow> string \<Rightarrow> evidence_reference result" where
  "make_evidence i kind subject cls inputs receipt phase =
     (case string_pairs inputs of
        None \<Rightarrow> Inl ValueError
      | Some ps \<Rightarrow> evidence_reference_init
          \<lparr>ev_id = i, ev_kind = kind, ev_subject = subject, ev_class = cls, ev_inputs = ps, ev_receipt = receipt,
           ev_phase = phase\<rparr>)"

text \<open>The entries of \<open>load_evidence\<close>: every field but two is required.\<close>

definition evidence_of_json :: "obj \<Rightarrow> evidence_reference result" where
  "evidence_of_json d =
     bindE (item d ''evidence_id'') (\<lambda>i.
     bindE (item d ''kind'') (\<lambda>kind.
     bindE (item d ''subject'') (\<lambda>subject.
     bindE (item d ''validity_class'') (\<lambda>cls.
     bindE (parse_class (py_text cls)) (\<lambda>c.
     bindE (py_dict (field_or d ''validity_inputs'' (JObj []))) (\<lambda>inputs.
     bindE (item d ''receipt_ref'') (\<lambda>receipt.
       make_evidence (py_text i) (py_text kind) (py_text subject) c inputs (py_text receipt)
         (py_text (field_or d ''applicable_phase'' (JStr ''implementation''))))))))))"

text \<open>The entries of a promotion: every field has a default.\<close>

definition text_or :: "obj \<Rightarrow> string \<Rightarrow> string" where
  "text_or d k = py_text (field_or d k (JStr []))"

definition promotion_evidence_of_json :: "obj \<Rightarrow> evidence_reference result" where
  "promotion_evidence_of_json d =
     bindE (parse_class (text_or d ''validity_class'')) (\<lambda>c.
     bindE (py_dict (field_or d ''validity_inputs'' (JObj []))) (\<lambda>inputs.
       make_evidence (text_or d ''evidence_id'') (text_or d ''kind'') (text_or d ''subject'') c inputs
         (text_or d ''receipt_ref'') (py_text (field_or d ''applicable_phase'' (JStr ''implementation'')))))"

text \<open>\<open>tuple(f(item) for item in v if isinstance(item, dict))\<close>\<close>

definition objects_of :: "json list \<Rightarrow> obj list" where
  "objects_of vs = map obj_or_empty (filter is_obj vs)"

definition candidate_port_of :: "json \<Rightarrow> int option" where
  "candidate_port_of v = (case v of JInt n \<Rightarrow> Some n | _ \<Rightarrow> None)"

definition contract_of_json :: "(string \<Rightarrow> string) \<Rightarrow> obj \<Rightarrow> contract result" where
  "contract_of_json sha d =
     bindE (py_iter (field_or d ''requirements'' (JArr []))) (\<lambda>req.
     bindE (py_iter (field_or d ''acceptance_criteria'' (JArr []))) (\<lambda>acc.
     bindE (py_iter (field_or d ''affected_surfaces'' (JArr []))) (\<lambda>surf.
     bindE (py_iter (field_or d ''obligations'' (JArr []))) (\<lambda>obl.
     bindE (to_int (field_or d ''schema_version'' (JInt 1))) (\<lambda>schema.
       (case (strings_of req, strings_of acc, strings_of surf, strings_of obl) of
          (Some req', Some acc', Some surf', Some obl') \<Rightarrow>
            bindE (contract_init
              \<lparr>ha_project = text_or d ''project_id'', ha_work = text_or d ''work_id'',
               ha_repository = text_or d ''repository'', ha_requirements = req', ha_acceptance = acc',
               ha_surfaces = surf', ha_obligations = obl', ha_port = candidate_port_of (field d ''candidate_port''),
               ha_source = text_or d ''source_identity'',
               ha_change = (case field d ''change_id'' of JStr s \<Rightarrow> Some s | _ \<Rightarrow> None), ha_schema = schema\<rparr>) (\<lambda>c.
            bindE (raise_if (case field d ''change_id'' of JNull \<Rightarrow> False | JStr _ \<Rightarrow> False | _ \<Rightarrow> True)
                     AttributeError) (\<lambda>_.
            bindE (raise_if (field d ''contract_fingerprint'' \<noteq> JStr (contract_fingerprint sha c))
                     (Coded ''HANDOFF_CONTRACT_INVALID'')) (\<lambda>_. Inr c)))
        | _ \<Rightarrow> Inl ValueError))))))"

definition promotion_of_json :: "obj \<Rightarrow> promotion result" where
  "promotion_of_json d =
     bindE (py_iter (field_or d ''evidence'' (JArr []))) (\<lambda>items.
     bindE (mapE promotion_evidence_of_json (objects_of items)) (\<lambda>evidence.
     bindE (py_dict (field_or d ''candidate_identity'' (JObj []))) (\<lambda>candidate.
     bindE (py_dict (field_or d ''execution'' (JObj []))) (\<lambda>execution.
     bindE (py_iter (field_or d ''satisfied_obligations'' (JArr []))) (\<lambda>satisfied.
     bindE (py_iter (field_or d ''pending_obligations'' (JArr []))) (\<lambda>pending.
     bindE (to_int (field_or d ''schema_version'' (JInt 1))) (\<lambda>schema.
       promotion_init
         \<lparr>pm_work = text_or d ''work_id'', pm_change = text_or d ''change_id'',
          pm_fingerprint = text_or d ''contract_fingerprint'', pm_commit = text_or d ''source_commit_sha'',
          pm_candidate = candidate, pm_execution = execution, pm_evidence = evidence, pm_satisfied = satisfied,
          pm_pending = pending, pm_status = text_or d ''status'', pm_schema = schema\<rparr>)))))))"

section \<open>What is written can be read\<close>

definition contract_args_of :: "contract \<Rightarrow> contract_args" where
  "contract_args_of c =
     \<lparr>ha_project = hc_project c, ha_work = hc_work c, ha_repository = hc_repository c,
      ha_requirements = hc_requirements c, ha_acceptance = hc_acceptance c, ha_surfaces = hc_surfaces c,
      ha_obligations = map obligation_text (hc_obligations c), ha_port = Some (hc_port c), ha_source = hc_source c,
      ha_change = hc_change c, ha_schema = hc_schema c\<rparr>"

definition contract_valid :: "contract \<Rightarrow> bool" where
  "contract_valid c = (contract_init (contract_args_of c) = Inr c)"

lemma mapE_parse: "mapE parse_obligation xs = Inr ys \<Longrightarrow> xs = map obligation_text ys"
proof (induction xs arbitrary: ys)
  case (Cons x xs)
  from Cons.prems obtain z zs where "parse_obligation x = Inr z" "mapE parse_obligation xs = Inr zs" "ys = z # zs"
    by (auto simp: err_simps)
  with Cons.IH parse_obligation_Inr [of x z] show ?case by simp
qed simp

lemma contract_init_valid:
  assumes "contract_init a = Inr c"
  shows "contract_valid c"
proof -
  have "\<not> ha_schema a \<notin> {1, 2}" using assms unfolding contract_init_def by (metis Inl_Inr_False)
  with assms obtain obs where obs: "mapE parse_obligation (ha_obligations a) = Inr obs"
    by (simp only: contract_init_def if_False) (erule bindE_InrE)
  obtain port where port: "ha_port a = Some port"
    using assms obs by (cases "ha_port a") (simp_all add: contract_init_def split: if_splits)
  have "c = \<lparr>hc_project = ha_project a, hc_work = ha_work a, hc_repository = ha_repository a,
            hc_requirements = ha_requirements a, hc_acceptance = ha_acceptance a,
            hc_surfaces = ha_surfaces a, hc_obligations = obs, hc_port = port,
            hc_source = ha_source a, hc_change = ha_change a, hc_schema = ha_schema a\<rparr>"
    using assms obs port by (simp add: contract_init_def split: if_splits)
  then have "contract_args_of c = a"
    by (simp add: contract_args_of_def mapE_parse [OF obs, symmetric] port [symmetric])
  with assms show ?thesis by (simp add: contract_valid_def)
qed

lemma strings_of_map [simp]: "strings_of (map JStr xs) = Some xs"
  by (induction xs) simp_all

lemma strings_of_map_fun [simp]: "strings_of (map (\<lambda>x. JStr (f x)) xs) = Some (map f xs)"
  by (induction xs) simp_all

lemma py_iter_str_array [simp]: "py_iter (str_array xs) = Inr (map JStr xs)"
  by (simp add: str_array_def py_iter_def)

lemma distinct_contract_fields: "distinct (map fst (contract_fields sha c))"
  by (simp add: contract_fields_def identity_payload_def)

lemma contract_roundtrip:
  assumes "contract_valid c"
  shows "contract_of_json sha (stored_obj (contract_fields sha c)) = Inr c"
proof -
  have f: "field_or (stored_obj (contract_fields sha c)) k v = stored (field_or (contract_fields sha c) k v)"
    if "stored v = v" for k v
    using field_or_stored [OF distinct_contract_fields, of sha c k v] that by simp
  have g: "field (stored_obj (contract_fields sha c)) k = stored (field (contract_fields sha c) k)" for k
    by (rule field_stored [OF distinct_contract_fields])
  have vals:
    "field_or (contract_fields sha c) ''requirements'' v = str_array (hc_requirements c)"
    "field_or (contract_fields sha c) ''acceptance_criteria'' v = str_array (hc_acceptance c)"
    "field_or (contract_fields sha c) ''affected_surfaces'' v = str_array (hc_surfaces c)"
    "field_or (contract_fields sha c) ''obligations'' v = str_array (map obligation_text (hc_obligations c))"
    "field_or (contract_fields sha c) ''schema_version'' v = JInt (hc_schema c)"
    "field_or (contract_fields sha c) ''project_id'' v = JStr (hc_project c)"
    "field_or (contract_fields sha c) ''work_id'' v = JStr (hc_work c)"
    "field_or (contract_fields sha c) ''repository'' v = JStr (hc_repository c)"
    "field_or (contract_fields sha c) ''source_identity'' v = JStr (hc_source c)"
    "field (contract_fields sha c) ''candidate_port'' = JInt (hc_port c)"
    "field (contract_fields sha c) ''change_id'' = str_option (hc_change c)"
    "field (contract_fields sha c) ''contract_fingerprint'' = JStr (contract_fingerprint sha c)" for v
    by (simp_all add: contract_fields_def identity_payload_def)
  have ch: "(case str_option v of JStr s \<Rightarrow> Some s | _ \<Rightarrow> None) = v"
    "\<not> (case str_option v of JNull \<Rightarrow> False | JStr _ \<Rightarrow> False | _ \<Rightarrow> True)" for v
    by (simp_all add: str_option_def split: option.splits)
  have init: "contract_init
      \<lparr>ha_project = hc_project c, ha_work = hc_work c, ha_repository = hc_repository c,
       ha_requirements = hc_requirements c, ha_acceptance = hc_acceptance c, ha_surfaces = hc_surfaces c,
       ha_obligations = map obligation_text (hc_obligations c), ha_port = Some (hc_port c), ha_source = hc_source c,
       ha_change = hc_change c, ha_schema = hc_schema c\<rparr> = Inr c"
    using assms by (simp add: contract_valid_def contract_args_of_def)
  have conv: "to_int (JInt n) = Inr n" "candidate_port_of (JInt n) = Some n" "py_text (JStr s) = s" for n s
    by (simp_all add: to_int_def candidate_port_of_def py_text_def)
  show ?thesis
    by (simp add: contract_of_json_def text_or_def f g vals ch conv init comp_def)
qed

end
