(* ===== verification/Recovery.thy ===== *)
theory Recovery
  imports Handoff_Json
begin

text \<open>
  Checkpoints, rewinding and revalidation of retained evidence
  (\<open>workflows/once_through/recovery.py\<close>), with the stored form of a recovery state.
\<close>

datatype applicability = Current | Pending_revalidation | Superseded | Invalid

record checkpoint =
  cp_id :: string
  cp_phase :: string
  cp_ordinal :: int
  cp_irreversible :: bool

record applicability_record =
  ap_evidence :: string
  ap_status :: applicability
  ap_lineage :: string
  ap_superseded :: "string option"
  ap_reason :: "string option"

record recovery_state =
  ry_lineage :: string
  ry_active :: string
  ry_checkpoints :: "checkpoint list"
  ry_evidence :: "applicability_record list"
  ry_aborted :: bool

type_synonym references = "(string \<times> evidence_reference) list"

section \<open>Rewinding\<close>

definition find_checkpoint :: "checkpoint list \<Rightarrow> string \<Rightarrow> checkpoint result" where
  "find_checkpoint cps i = (case find (\<lambda>c. cp_id c = i) cps of None \<Rightarrow> Inl ValueError | Some c \<Rightarrow> Inr c)"

definition available_rewinds :: "recovery_state \<Rightarrow> string list result" where
  "available_rewinds st =
     bindE (find_checkpoint (ry_checkpoints st) (ry_active st)) (\<lambda>active.
       if cp_irreversible active then Inr []
       else Inr (map cp_id (filter (\<lambda>c. cp_ordinal c < cp_ordinal active \<and> \<not> cp_irreversible c) (ry_checkpoints st))))"

text \<open>The last checkpoint of a phase gives its ordinal; an unknown phase lies after the selected one.\<close>

definition reference_before_or_at :: "evidence_reference \<Rightarrow> checkpoint \<Rightarrow> checkpoint list \<Rightarrow> bool" where
  "reference_before_or_at e selected cps =
     ((case map_of (rev (map (\<lambda>c. (cp_phase c, cp_ordinal c)) cps)) (ev_phase e) of
         None \<Rightarrow> cp_ordinal selected + 1
       | Some n \<Rightarrow> n) \<le> cp_ordinal selected)"

definition rewound_record ::
  "checkpoint \<Rightarrow> checkpoint list \<Rightarrow> string \<Rightarrow> references \<Rightarrow> applicability_record \<Rightarrow> applicability_record result" where
  "rewound_record selected cps lineage refs r =
     bindE (dict_get refs (ap_evidence r)) (\<lambda>e.
       Inr \<lparr>ap_evidence = ap_evidence r,
            ap_status = (if reference_before_or_at e selected cps then Current else Pending_revalidation),
            ap_lineage = lineage, ap_superseded = ap_superseded r, ap_reason = ap_reason r\<rparr>)"

definition crossed :: "checkpoint list \<Rightarrow> checkpoint \<Rightarrow> checkpoint \<Rightarrow> checkpoint list" where
  "crossed cps selected active =
     filter (\<lambda>c. cp_ordinal selected < cp_ordinal c \<and> cp_ordinal c \<le> cp_ordinal active \<and> cp_irreversible c) cps"

definition rewind_state :: "recovery_state \<Rightarrow> string \<Rightarrow> string \<Rightarrow> references \<Rightarrow> recovery_state result" where
  "rewind_state st target lineage refs =
     (let cps = ry_checkpoints st in
      bindE (find_checkpoint cps (ry_active st)) (\<lambda>active.
      bindE (find_checkpoint cps target) (\<lambda>selected.
        if cp_ordinal active \<le> cp_ordinal selected then Inl ValueError
        else if crossed cps selected active \<noteq> [] then Inl ValueError
        else bindE (mapE (rewound_record selected cps lineage refs) (ry_evidence st)) (\<lambda>evidence.
          Inr \<lparr>ry_lineage = lineage, ry_active = target, ry_checkpoints = cps, ry_evidence = evidence,
               ry_aborted = False\<rparr>))))"

section \<open>Revalidation and abort\<close>

definition changed_inputs :: "evidence_reference \<Rightarrow> (string \<times> string) list \<Rightarrow> string list" where
  "changed_inputs e observed = map fst (filter (\<lambda>(k, v). map_of observed k \<noteq> Some v) (ev_inputs e))"

definition revalidated_record ::
  "string \<Rightarrow> references \<Rightarrow> (string \<times> string) list \<Rightarrow> (string \<times> string) list \<Rightarrow> applicability_record \<Rightarrow>
     applicability_record result" where
  "revalidated_record lineage refs observed replacements r =
     bindE (dict_get refs (ap_evidence r)) (\<lambda>e.
       if ap_status r \<noteq> Pending_revalidation then Inr r
       else (case map_of replacements (ap_evidence r) of
               Some new \<Rightarrow> Inr \<lparr>ap_evidence = ap_evidence r, ap_status = Superseded, ap_lineage = lineage,
                              ap_superseded = Some new,
                              ap_reason = Some ''dependency changed; newer evidence supplied''\<rparr>
             | None \<Rightarrow>
                 if changed_inputs e observed \<noteq> [] then
                   Inr \<lparr>ap_evidence = ap_evidence r, ap_status = Invalid, ap_lineage = lineage, ap_superseded = None,
                        ap_reason = Some (''validity inputs changed: '' @ join_with '', '' (sort (changed_inputs e observed)))\<rparr>
                 else
                   Inr \<lparr>ap_evidence = ap_evidence r, ap_status = Current, ap_lineage = lineage, ap_superseded = None,
                        ap_reason = Some ''retained evidence revalidated without recomputation''\<rparr>))"

definition revalidate_retained_evidence ::
  "recovery_state \<Rightarrow> references \<Rightarrow> (string \<times> string) list \<Rightarrow> (string \<times> string) list \<Rightarrow> recovery_state result" where
  "revalidate_retained_evidence st refs observed replacements =
     bindE (mapE (revalidated_record (ry_lineage st) refs observed replacements) (ry_evidence st)) (\<lambda>evidence.
       Inr (st\<lparr>ry_evidence := evidence\<rparr>))"

definition abort_state :: "recovery_state \<Rightarrow> recovery_state result" where
  "abort_state st =
     bindE (find_checkpoint (ry_checkpoints st) (ry_active st)) (\<lambda>active.
       if cp_irreversible active then Inl ValueError else Inr (st\<lparr>ry_aborted := True\<rparr>))"

section \<open>The stored form\<close>

fun applicability_text :: "applicability \<Rightarrow> string" where
  "applicability_text Current = ''current''"
| "applicability_text Pending_revalidation = ''pending_revalidation''"
| "applicability_text Superseded = ''superseded''"
| "applicability_text Invalid = ''invalid''"

definition parse_applicability :: "string \<Rightarrow> applicability result" where
  "parse_applicability s =
     (case find (\<lambda>x. applicability_text x = s) [Current, Pending_revalidation, Superseded, Invalid] of
        None \<Rightarrow> Inl ValueError
      | Some x \<Rightarrow> Inr x)"

definition checkpoint_fields :: "checkpoint \<Rightarrow> obj" where
  "checkpoint_fields c =
     [(''checkpoint_id'', JStr (cp_id c)), (''phase'', JStr (cp_phase c)), (''ordinal'', JInt (cp_ordinal c)),
      (''irreversible'', JBool (cp_irreversible c))]"

definition applicability_fields :: "applicability_record \<Rightarrow> obj" where
  "applicability_fields r =
     [(''evidence_id'', JStr (ap_evidence r)), (''status'', JStr (applicability_text (ap_status r))),
      (''lineage_id'', JStr (ap_lineage r)), (''superseded_by'', str_option (ap_superseded r)),
      (''reason'', str_option (ap_reason r))]"

definition recovery_fields :: "recovery_state \<Rightarrow> obj" where
  "recovery_fields st =
     [(''schema_version'', JInt 1), (''lineage_id'', JStr (ry_lineage st)), (''active_checkpoint'', JStr (ry_active st)),
      (''aborted'', JBool (ry_aborted st)), (''checkpoints'', JArr (map (JObj \<circ> checkpoint_fields) (ry_checkpoints st))),
      (''evidence'', JArr (map (JObj \<circ> applicability_fields) (ry_evidence st)))]"

definition checkpoint_of_json :: "obj \<Rightarrow> checkpoint result" where
  "checkpoint_of_json d =
     bindE (item d ''checkpoint_id'') (\<lambda>i.
     bindE (item d ''phase'') (\<lambda>phase.
     bindE (bindE (item d ''ordinal'') to_int) (\<lambda>n.
       Inr \<lparr>cp_id = py_text i, cp_phase = py_text phase, cp_ordinal = n,
            cp_irreversible = truthy (field_or d ''irreversible'' (JBool False))\<rparr>)))"

text \<open>\<open>str(item[k]) if item.get(k) is not None else None\<close>\<close>

definition optional_text :: "obj \<Rightarrow> string \<Rightarrow> string option" where
  "optional_text d k = (case field d k of JNull \<Rightarrow> None | v \<Rightarrow> Some (py_text v))"

definition applicability_of_json :: "obj \<Rightarrow> applicability_record result" where
  "applicability_of_json d =
     bindE (item d ''evidence_id'') (\<lambda>i.
     bindE (item d ''status'') (\<lambda>status.
     bindE (parse_applicability (py_text status)) (\<lambda>s.
     bindE (item d ''lineage_id'') (\<lambda>lineage.
       Inr \<lparr>ap_evidence = py_text i, ap_status = s, ap_lineage = py_text lineage,
            ap_superseded = optional_text d ''superseded_by'', ap_reason = optional_text d ''reason''\<rparr>))))"

definition recovery_of_json :: "obj \<Rightarrow> recovery_state result" where
  "recovery_of_json d =
     bindE (py_iter (field_or d ''checkpoints'' (JArr []))) (\<lambda>cs.
     bindE (mapE checkpoint_of_json (objects_of cs)) (\<lambda>cps.
     bindE (py_iter (field_or d ''evidence'' (JArr []))) (\<lambda>es.
     bindE (mapE applicability_of_json (objects_of es)) (\<lambda>evidence.
     bindE (item d ''lineage_id'') (\<lambda>lineage.
     bindE (item d ''active_checkpoint'') (\<lambda>active.
       Inr \<lparr>ry_lineage = py_text lineage, ry_active = py_text active, ry_checkpoints = cps, ry_evidence = evidence,
            ry_aborted = truthy (field_or d ''aborted'' (JBool False))\<rparr>))))))"

section \<open>The default state and the recovery tool's transitions\<close>

text \<open>\<open>_default_recovery_state\<close> and \<open>_phase_for_decision\<close> of \<open>workflows/once_through/lifecycle_tools.py\<close>.\<close>

definition default_checkpoints :: "checkpoint list" where
  "default_checkpoints =
     [\<lparr>cp_id = ''implementation'', cp_phase = ''implementation'', cp_ordinal = 0, cp_irreversible = False\<rparr>,
      \<lparr>cp_id = ''review'', cp_phase = ''review'', cp_ordinal = 1, cp_irreversible = False\<rparr>,
      \<lparr>cp_id = ''candidate'', cp_phase = ''candidate'', cp_ordinal = 2, cp_irreversible = False\<rparr>,
      \<lparr>cp_id = ''pull_request'', cp_phase = ''pull_request'', cp_ordinal = 3, cp_irreversible = False\<rparr>,
      \<lparr>cp_id = ''post_merge'', cp_phase = ''post_merge'', cp_ordinal = 4, cp_irreversible = True\<rparr>]"

definition phase_for_decision :: "string \<Rightarrow> string" where
  "phase_for_decision s =
     (if s \<in> {''review_pending'', ''review_evidence_stale''} then ''review''
      else if s \<in> {''candidate_pending'', ''candidate_evidence_stale'', ''promotion_ready''} then ''candidate''
      else if s \<in> {''pull_request_pending'', ''ci_pending'', ''ci_passed'', ''merge_ready''} then ''pull_request''
      else if s \<in> {''merged'', ''documentation_pending'', ''commissioning_pending'', ''complete''} then ''post_merge''
      else ''implementation'')"

definition default_recovery_state :: "evidence_reference list \<Rightarrow> string \<Rightarrow> recovery_state" where
  "default_recovery_state evidence active_phase =
     \<lparr>ry_lineage = ''lineage-0'',
      ry_active = (case map_of (rev (map (\<lambda>c. (cp_phase c, cp_id c)) default_checkpoints)) active_phase of
                     None \<Rightarrow> ''implementation''
                   | Some i \<Rightarrow> i),
      ry_checkpoints = default_checkpoints,
      ry_evidence = map (\<lambda>e. \<lparr>ap_evidence = ev_id e, ap_status = Current, ap_lineage = ''lineage-0'',
                              ap_superseded = None, ap_reason = None\<rparr>) evidence,
      ry_aborted = False\<rparr>"

text \<open>The transforms \<open>once_through_recovery\<close> passes to \<open>update_recovery\<close>; \<open>fresh\<close> is the random identifier.\<close>

datatype recovery_action =
    Inspect
  | Rewind "string option"
  | Revalidate "(string \<times> string) list" "(string \<times> string) list"
  | Abort
  | Resume
  | Unsupported

definition resume_state :: "recovery_state \<Rightarrow> recovery_state result" where
  "resume_state st = Inr (st\<lparr>ry_aborted := False\<rparr>)"

text \<open>\<open>{item.evidence_id: item for item in evidence}\<close>\<close>

definition references_of :: "evidence_reference list \<Rightarrow> references" where
  "references_of es = rev (map (\<lambda>e. (ev_id e, e)) es)"

definition apply_action :: "string \<Rightarrow> evidence_reference list \<Rightarrow> recovery_action \<Rightarrow> recovery_state \<Rightarrow> recovery_state result" where
  "apply_action fresh evidence a st =
     (case a of
        Inspect \<Rightarrow> Inr st
      | Rewind target \<Rightarrow>
          (case target of
             None \<Rightarrow> Inl ValueError
           | Some [] \<Rightarrow> Inl ValueError
           | Some t \<Rightarrow> rewind_state st t (''lineage-'' @ fresh) (references_of evidence))
      | Revalidate observed replacements \<Rightarrow>
          revalidate_retained_evidence st (references_of evidence) observed replacements
      | Abort \<Rightarrow> abort_state st
      | Resume \<Rightarrow> resume_state st
      | Unsupported \<Rightarrow> Inl ValueError)"

end
