(* ===== verification/Handoff_Store.thy ===== *)
theory Handoff_Store
  imports Recovery
begin

text \<open>
  The persistent store of task handoffs (\<open>workflows/once_through/state.py\<close>, \<open>TaskHandoffStore\<close>) and
  the recovery tool over it (\<open>workflows/once_through/lifecycle_tools.py\<close>).  The state is the port
  ledger and, per directory of the store, the JSON files by name; a file that does not decode is
  \<open>Undecodable\<close>.  The locks make each operation atomic.  File names are compared exactly.
\<close>

datatype stored_file = Undecodable | Content json

datatype area = Contracts | Evidence | Recoveries | Manual_exits | Candidates | Executions | Promotions

record store =
  st_ledger :: "stored_file option"
  st_files :: "((area \<times> string) \<times> stored_file) list"

section \<open>Files\<close>

text \<open>\<open>_WORK_ID_RE\<close>\<close>

definition is_work_id :: "string \<Rightarrow> bool" where
  "is_work_id s =
     (case s of
        [] \<Rightarrow> False
      | c # r \<Rightarrow> is_alnum c \<and> length r \<le> 127 \<and>
          (\<forall>x \<in> set r. is_alnum x \<or> x = CHR ''.'' \<or> x = CHR ''_'' \<or> x = CHR ''-''))"

definition safe_work_id :: "string \<Rightarrow> unit result" where
  "safe_work_id w = raise_if (\<not> is_work_id w) ValueError"

text \<open>\<open>json.loads(path.read_text())\<close>, with \<open>None\<close> for a missing file.\<close>

definition decode :: "stored_file option \<Rightarrow> json option result" where
  "decode f =
     (case f of None \<Rightarrow> Inr None | Some Undecodable \<Rightarrow> Inl ValueError | Some (Content v) \<Rightarrow> Inr (Some v))"

definition read_file :: "area \<Rightarrow> string \<Rightarrow> store \<Rightarrow> json option result" where
  "read_file a w st = bindE (safe_work_id w) (\<lambda>_. decode (map_of (st_files st) (a, w)))"

text \<open>\<open>_write_json\<close>\<close>

definition write_file :: "area \<Rightarrow> string \<Rightarrow> json \<Rightarrow> (store, unit) op" where
  "write_file a w v st =
     (case safe_work_id w of
        Inl e \<Rightarrow> (Inl e, st)
      | Inr _ \<Rightarrow> (Inr (), st\<lparr>st_files := AList.update (a, w) (Content (stored v)) (st_files st)\<rparr>))"

definition exists_file :: "area \<Rightarrow> string \<Rightarrow> store \<Rightarrow> bool result" where
  "exists_file a w st = bindE (safe_work_id w) (\<lambda>_. Inr (map_of (st_files st) (a, w) \<noteq> None))"

section \<open>Candidate ports\<close>

fun ints_of :: "obj \<Rightarrow> (string \<times> int) list option" where
  "ints_of [] = Some []"
| "ints_of ((k, v) # d) = (case (v, ints_of d) of (JInt n, Some r) \<Rightarrow> Some ((k, n) # r) | _ \<Rightarrow> None)"

definition ledger_of :: "store \<Rightarrow> (string \<times> int) list result" where
  "ledger_of st =
     bindE (decode (st_ledger st)) (\<lambda>v.
       (case v of
          None \<Rightarrow> Inr []
        | Some (JObj d) \<Rightarrow>
            (case ints_of d of Some l \<Rightarrow> Inr l | None \<Rightarrow> Inl (Coded ''CANDIDATE_PORT_LEDGER_INVALID''))
        | Some _ \<Rightarrow> Inl (Coded ''CANDIDATE_PORT_LEDGER_INVALID'')))"

definition write_ledger :: "(string \<times> int) list \<Rightarrow> (store, unit) op" where
  "write_ledger l st = (Inr (), st\<lparr>st_ledger := Some (Content (stored (JObj (map (map_prod id JInt) l))))\<rparr>)"

text \<open>\<open>next((port for port in range(_PORT_START, _PORT_END + 1) if port not in used), None)\<close>\<close>

function first_free :: "int list \<Rightarrow> int \<Rightarrow> int option" where
  "first_free used p =
     (if 60999 < p then None else if p \<notin> set used then Some p else first_free used (p + 1))"
  by pat_completeness auto
termination by (relation "measure (\<lambda>(_, p). nat (61000 - p))") auto

declare first_free.simps [simp del]

definition assign_port :: "string \<Rightarrow> (string \<times> int) list \<Rightarrow> int result" where
  "assign_port w ledger =
     (case map_of ledger w of
        Some p \<Rightarrow> Inr p
      | None \<Rightarrow> (case first_free (map snd ledger) 46000 of
                  None \<Rightarrow> Inl (Coded ''CANDIDATE_PORT_EXHAUSTED'')
                | Some p \<Rightarrow> Inr p))"

definition record_port :: "string \<Rightarrow> int \<Rightarrow> (string \<times> int) list \<Rightarrow> (store, unit) op" where
  "record_port w p ledger =
     (if map_of ledger w = None then write_ledger (ledger @ [(w, p)]) else returnS ())"

definition candidate_port :: "string \<Rightarrow> (store, int) op" where
  "candidate_port w =
     bindS (liftE (safe_work_id w)) (\<lambda>_.
     bindS (readE ledger_of) (\<lambda>ledger.
     bindS (liftE (assign_port w ledger)) (\<lambda>p.
     bindS (record_port w p ledger) (\<lambda>_. returnS p))))"

section \<open>Contracts\<close>

definition load_contract :: "(string \<Rightarrow> string) \<Rightarrow> string \<Rightarrow> store \<Rightarrow> contract option result" where
  "load_contract sha w st =
     bindE (read_file Contracts w st) (\<lambda>v.
       (case v of
          None \<Rightarrow> Inr None
        | Some (JObj d) \<Rightarrow> bindE (contract_of_json sha d) (\<lambda>c. Inr (Some c))
        | Some _ \<Rightarrow> Inl (Coded ''HANDOFF_CONTRACT_INVALID'')))"

definition require_contract :: "(string \<Rightarrow> string) \<Rightarrow> string \<Rightarrow> store \<Rightarrow> contract result" where
  "require_contract sha w st =
     bindE (load_contract sha w st) (\<lambda>c.
       (case c of None \<Rightarrow> Inl (Coded ''HANDOFF_CONTRACT_MISSING'') | Some x \<Rightarrow> Inr x))"

definition write_contract :: "(string \<Rightarrow> string) \<Rightarrow> string \<Rightarrow> contract \<Rightarrow> (store, contract) op" where
  "write_contract sha w c = bindS (write_file Contracts w (JObj (contract_fields sha c))) (\<lambda>_. returnS c)"

text \<open>An existing contract is returned when its fingerprint is the given one.\<close>

definition same_contract :: "(string \<Rightarrow> string) \<Rightarrow> contract \<Rightarrow> contract \<Rightarrow> contract result" where
  "same_contract sha existing c =
     (if contract_fingerprint sha existing \<noteq> contract_fingerprint sha c then Inl (Coded ''HANDOFF_CONTRACT_IMMUTABLE'')
      else Inr existing)"

text \<open>The port and the schema version of the arguments are not the caller's.\<close>

definition materialize_contract :: "(string \<Rightarrow> string) \<Rightarrow> contract_args \<Rightarrow> (store, contract) op" where
  "materialize_contract sha a =
     (let w = ha_work a in
      bindS (liftE (safe_work_id w)) (\<lambda>_.
      bindS (readE (load_contract sha w)) (\<lambda>existing.
      bindS (readE ledger_of) (\<lambda>ledger.
      bindS (liftE (assign_port w ledger)) (\<lambda>port.
      bindS (liftE (contract_init (a\<lparr>ha_port := Some port, ha_schema := 2\<rparr>))) (\<lambda>c.
        (case existing of
           Some e \<Rightarrow> liftE (same_contract sha e c)
         | None \<Rightarrow> bindS (record_port w port ledger) (\<lambda>_. write_contract sha w c))))))))"

definition save_contract :: "(string \<Rightarrow> string) \<Rightarrow> contract \<Rightarrow> (store, contract) op" where
  "save_contract sha c =
     bindS (readE (load_contract sha (hc_work c))) (\<lambda>existing.
       (case existing of
          Some e \<Rightarrow> liftE (same_contract sha e c)
        | None \<Rightarrow> write_contract sha (hc_work c) c))"

definition bind_change_id :: "(string \<Rightarrow> string) \<Rightarrow> string \<Rightarrow> string \<Rightarrow> (store, contract) op" where
  "bind_change_id sha w change =
     bindS (liftE (safe_work_id w)) (\<lambda>_.
     bindS (liftE (raise_if (blank change) ValueError)) (\<lambda>_.
     bindS (readE (require_contract sha w)) (\<lambda>existing.
       (case hc_change existing of
          Some old \<Rightarrow>
            if old = py_strip change then returnS existing else failS (Coded ''HANDOFF_CONTRACT_IMMUTABLE'')
        | None \<Rightarrow>
            bindS (readE (exists_file Promotions w)) (\<lambda>promoted.
            bindS (readE (exists_file Candidates w)) (\<lambda>candidate.
              if promoted \<or> candidate then failS (Coded ''HANDOFF_CHANGE_BIND_TOO_LATE'')
              else bindS (liftE (contract_init ((contract_args_of existing)\<lparr>ha_change := Some (py_strip change)\<rparr>)))
                     (\<lambda>bound. write_contract sha w bound)))))))"

section \<open>Evidence\<close>

definition load_evidence :: "string \<Rightarrow> store \<Rightarrow> evidence_reference list result" where
  "load_evidence w st =
     bindE (read_file Evidence w st) (\<lambda>v.
       (case v of
          None \<Rightarrow> Inr []
        | Some (JArr xs) \<Rightarrow>
            (case mapE evidence_of_json (objects_of xs) of
               Inl _ \<Rightarrow> Inl (Coded ''EVIDENCE_LINEAGE_INVALID'')
             | Inr es \<Rightarrow> Inr es)
        | Some _ \<Rightarrow> Inl (Coded ''EVIDENCE_LINEAGE_INVALID'')))"

text \<open>Equality of the frozen dataclass; the inputs are a mapping.\<close>

definition same_inputs :: "(string \<times> string) list \<Rightarrow> (string \<times> string) list \<Rightarrow> bool" where
  "same_inputs d e =
     ((\<forall>(k, v) \<in> set d. map_of e k = map_of d k) \<and> (\<forall>(k, v) \<in> set e. map_of d k = map_of e k))"

definition evidence_eq :: "evidence_reference \<Rightarrow> evidence_reference \<Rightarrow> bool" where
  "evidence_eq x y =
     (ev_id x = ev_id y \<and> ev_kind x = ev_kind y \<and> ev_subject x = ev_subject y \<and> ev_class x = ev_class y \<and>
      same_inputs (ev_inputs x) (ev_inputs y) \<and> ev_receipt x = ev_receipt y \<and> ev_phase x = ev_phase y)"

definition append_evidence ::
  "(string \<Rightarrow> string) \<Rightarrow> string \<Rightarrow> evidence_reference \<Rightarrow> (store, evidence_reference list) op" where
  "append_evidence sha w e =
     bindS (readE (require_contract sha w)) (\<lambda>_.
     bindS (readE (load_evidence w)) (\<lambda>existing.
       (case filter (\<lambda>x. ev_id x = ev_id e) existing of
          x # _ \<Rightarrow> if \<not> evidence_eq x e then failS (Coded ''EVIDENCE_ID_IMMUTABLE'') else returnS existing
        | [] \<Rightarrow>
            bindS (write_file Evidence w (JArr (map (JObj \<circ> evidence_fields) (existing @ [e]))))
              (\<lambda>_. returnS (existing @ [e])))))"

section \<open>Recovery states\<close>

definition load_recovery :: "string \<Rightarrow> store \<Rightarrow> recovery_state option result" where
  "load_recovery w st =
     bindE (read_file Recoveries w st) (\<lambda>v.
       (case v of
          None \<Rightarrow> Inr None
        | Some (JObj d) \<Rightarrow>
            (case recovery_of_json d of Inl _ \<Rightarrow> Inl (Coded ''RECOVERY_STATE_INVALID'') | Inr r \<Rightarrow> Inr (Some r))
        | Some _ \<Rightarrow> Inl (Coded ''RECOVERY_STATE_INVALID'')))"

definition save_recovery :: "(string \<Rightarrow> string) \<Rightarrow> string \<Rightarrow> recovery_state \<Rightarrow> (store, recovery_state) op" where
  "save_recovery sha w r =
     bindS (readE (require_contract sha w)) (\<lambda>_.
     bindS (write_file Recoveries w (JObj (recovery_fields r))) (\<lambda>_. returnS r))"

definition update_recovery ::
  "(string \<Rightarrow> string) \<Rightarrow> string \<Rightarrow> recovery_state \<Rightarrow> (recovery_state \<Rightarrow> store \<Rightarrow> recovery_state result) \<Rightarrow>
     (store, recovery_state) op" where
  "update_recovery sha w initial transform =
     bindS (readE (require_contract sha w)) (\<lambda>_.
     bindS (readE (load_recovery w)) (\<lambda>r.
     bindS (readE (transform (case r of None \<Rightarrow> initial | Some x \<Rightarrow> x))) (\<lambda>updated.
     bindS (write_file Recoveries w (JObj (recovery_fields updated))) (\<lambda>_. returnS updated))))"

text \<open>
  \<open>once_through_recovery\<close>: the initial state, the transform of the action and the update.  The rewind
  and revalidation transforms read the evidence of the store.
\<close>

definition recovery_transform :: "string \<Rightarrow> string \<Rightarrow> recovery_action \<Rightarrow> recovery_state \<Rightarrow> store \<Rightarrow> recovery_state result" where
  "recovery_transform fresh w a r st =
     (case a of
        Abort \<Rightarrow> apply_action fresh [] a r
      | Resume \<Rightarrow> apply_action fresh [] a r
      | _ \<Rightarrow> bindE (load_evidence w st) (\<lambda>evidence. apply_action fresh evidence a r))"

definition once_through_recovery ::
  "(string \<Rightarrow> string) \<Rightarrow> string \<Rightarrow> string \<Rightarrow> recovery_action \<Rightarrow> (store, recovery_state) op" where
  "once_through_recovery sha fresh w a =
     bindS (readE (load_recovery w)) (\<lambda>r.
     bindS (readE (\<lambda>st. case r of
                          Some x \<Rightarrow> Inr x
                        | None \<Rightarrow> bindE (load_evidence w st) (\<lambda>es. Inr (default_recovery_state es ''implementation''))))
       (\<lambda>initial.
         (case a of
            Inspect \<Rightarrow> returnS initial
          | Rewind None \<Rightarrow> failS ValueError
          | Rewind (Some []) \<Rightarrow> failS ValueError
          | Unsupported \<Rightarrow> failS ValueError
          | _ \<Rightarrow> update_recovery sha w initial (recovery_transform fresh w a))))"

section \<open>Manual exits, candidates and executions\<close>

definition load_manual_exit :: "string \<Rightarrow> store \<Rightarrow> obj option result" where
  "load_manual_exit w st =
     bindE (read_file Manual_exits w st) (\<lambda>v.
       (case v of
          None \<Rightarrow> Inr None
        | Some (JObj d) \<Rightarrow>
            if field d ''work_id'' \<noteq> JStr w \<or> field d ''status'' \<noteq> JStr ''manual_closeout''
              then Inl (Coded ''ONCE_THROUGH_EXIT_INVALID'')
            else Inr (Some d)
        | Some _ \<Rightarrow> Inl (Coded ''ONCE_THROUGH_EXIT_INVALID'')))"

definition manual_exit_fields :: "(string \<Rightarrow> string) \<Rightarrow> string \<Rightarrow> contract \<Rightarrow> evidence_reference list \<Rightarrow> obj" where
  "manual_exit_fields sha w c es =
     [(''schema_version'', JInt 1), (''status'', JStr ''manual_closeout''), (''work_id'', JStr w),
      (''change_id'', str_option (hc_change c)), (''contract_fingerprint'', JStr (contract_fingerprint sha c)),
      (''retained_evidence_ids'', str_array (map ev_id es)), (''retained_evidence_count'', JInt (int (length es)))]"

definition save_manual_exit :: "(string \<Rightarrow> string) \<Rightarrow> string \<Rightarrow> (store, obj) op" where
  "save_manual_exit sha w =
     bindS (readE (require_contract sha w)) (\<lambda>c.
     bindS (readE (load_manual_exit w)) (\<lambda>existing.
       (case existing of
          Some d \<Rightarrow>
            if field d ''contract_fingerprint'' \<noteq> JStr (contract_fingerprint sha c)
              then failS (Coded ''ONCE_THROUGH_EXIT_INVALID'')
            else returnS d
        | None \<Rightarrow>
            bindS (readE (load_evidence w)) (\<lambda>es.
            bindS (write_file Manual_exits w (JObj (manual_exit_fields sha w c es)))
              (\<lambda>_. returnS (manual_exit_fields sha w c es))))))"

definition save_candidate :: "string \<Rightarrow> obj \<Rightarrow> (store, obj) op" where
  "save_candidate w receipt = bindS (write_file Candidates w (JObj receipt)) (\<lambda>_. returnS receipt)"

text \<open>\<open>load_candidate\<close> and \<open>load_execution\<close>: the receipt must name the work it is stored for.\<close>

definition load_receipt :: "area \<Rightarrow> string \<Rightarrow> string \<Rightarrow> store \<Rightarrow> obj option result" where
  "load_receipt a code w st =
     bindE (read_file a w st) (\<lambda>v.
       (case v of
          None \<Rightarrow> Inr None
        | Some (JObj d) \<Rightarrow> if field d ''work_id'' \<noteq> JStr w then Inl (Coded code) else Inr (Some d)
        | Some _ \<Rightarrow> Inl (Coded code)))"

definition load_candidate :: "string \<Rightarrow> store \<Rightarrow> obj option result" where
  "load_candidate w st = load_receipt Candidates ''CANDIDATE_RUNTIME_INVALID'' w st"

definition load_execution :: "string \<Rightarrow> store \<Rightarrow> obj option result" where
  "load_execution w st = load_receipt Executions ''EXECUTION_RECEIPT_INVALID'' w st"

definition save_execution :: "(string \<Rightarrow> string) \<Rightarrow> string \<Rightarrow> obj \<Rightarrow> (store, obj) op" where
  "save_execution sha w receipt =
     bindS (readE (require_contract sha w)) (\<lambda>_.
     bindS (liftE (raise_if (field receipt ''work_id'' \<noteq> JStr w) (Coded ''EXECUTION_RECEIPT_INVALID''))) (\<lambda>_.
     bindS (readE (load_execution w)) (\<lambda>existing.
       (case existing of
          Some d \<Rightarrow>
            if \<not> py_eq (JObj d) (JObj receipt) then failS (Coded ''EXECUTION_RECEIPT_IMMUTABLE'') else returnS d
        | None \<Rightarrow> bindS (write_file Executions w (JObj receipt)) (\<lambda>_. returnS receipt)))))"

section \<open>Promotions\<close>

definition promotion_lookup_key :: "string \<Rightarrow> string \<Rightarrow> unit result" where
  "promotion_lookup_key change sha1 =
     (if blank change \<or> CHR '':'' \<in> set change then Inl ValueError
      else if \<not> is_hex40 sha1 then Inl ValueError
      else Inr ())"

definition save_promotion :: "(string \<Rightarrow> string) \<Rightarrow> promotion \<Rightarrow> (store, promotion) op" where
  "save_promotion sha p =
     bindS (readE (require_contract sha (pm_work p))) (\<lambda>c.
     bindS (liftE (raise_if (contract_fingerprint sha c \<noteq> pm_fingerprint p) (Coded ''PROMOTION_HANDOFF_INVALID''))) (\<lambda>_.
     bindS (write_file Promotions (pm_work p) (JObj (promotion_fields p))) (\<lambda>_. returnS p)))"

definition load_promotion_exact :: "(string \<Rightarrow> string) \<Rightarrow> string \<Rightarrow> store \<Rightarrow> promotion result" where
  "load_promotion_exact sha w st =
     bindE (read_file Promotions w st) (\<lambda>v.
       (case v of
          None \<Rightarrow> Inl (Coded ''PROMOTION_HANDOFF_MISSING'')
        | Some (JObj d) \<Rightarrow>
            bindE (promotion_of_json d) (\<lambda>p.
            bindE (require_contract sha w st) (\<lambda>c.
              if pm_work p \<noteq> w \<or> pm_fingerprint p \<noteq> contract_fingerprint sha c
                then Inl (Coded ''PROMOTION_HANDOFF_INVALID'')
              else Inr p))
        | Some _ \<Rightarrow> Inl (Coded ''PROMOTION_HANDOFF_INVALID'')))"

definition promotion_names :: "store \<Rightarrow> string list" where
  "promotion_names st =
     sort_key (\<lambda>s. s @ ''.json'') (map snd (filter (\<lambda>(a, w). a = Promotions) (map fst (st_files st))))"

text \<open>The loop of \<open>resolve_promotion\<close>: a file that vanished is skipped, any other error ends it.\<close>

fun matching_promotions ::
  "(string \<Rightarrow> string) \<Rightarrow> string \<Rightarrow> string \<Rightarrow> string list \<Rightarrow> store \<Rightarrow> promotion list result" where
  "matching_promotions sha change commit [] st = Inr []"
| "matching_promotions sha change commit (w # ws) st =
     (case load_promotion_exact sha w st of
        Inl e \<Rightarrow> if e = Coded ''PROMOTION_HANDOFF_MISSING'' then matching_promotions sha change commit ws st else Inl e
      | Inr p \<Rightarrow>
          bindE (matching_promotions sha change commit ws st) (\<lambda>ps.
            Inr (if pm_change p = change \<and> pm_commit p = commit then p # ps else ps)))"

definition resolve_promotion :: "(string \<Rightarrow> string) \<Rightarrow> string \<Rightarrow> string \<Rightarrow> store \<Rightarrow> promotion result" where
  "resolve_promotion sha change commit st =
     bindE (promotion_lookup_key change commit) (\<lambda>_.
     bindE (matching_promotions sha change commit (promotion_names st) st) (\<lambda>ps.
       (case ps of
          [] \<Rightarrow> Inl (Coded ''PROMOTION_HANDOFF_MISSING'')
        | [p] \<Rightarrow> Inr p
        | _ \<Rightarrow> Inl (Coded ''PROMOTION_HANDOFF_AMBIGUOUS''))))"

text \<open>\<open>work_id.split(":", 2)\<close> of an identifier that starts with \<open>@change:\<close>\<close>

definition load_promotion :: "(string \<Rightarrow> string) \<Rightarrow> string \<Rightarrow> store \<Rightarrow> promotion result" where
  "load_promotion sha w st =
     (if starts_with ''@change:'' w then
        (case partition_on (CHR '':'') (drop (length ''@change:'') w) of
           (change, found, commit) \<Rightarrow>
             if \<not> found then Inl (Coded ''PROMOTION_LOOKUP_INVALID'') else resolve_promotion sha change commit st)
      else load_promotion_exact sha w st)"

end
