(* ===== verification/Recovery_Facts.thy ===== *)
theory Recovery_Facts
  imports Recovery
begin

text \<open>
  What rewinding, revalidation and the recovery tool guarantee, where the listed rewinds and the
  accepted ones part, and the round trip of the stored recovery state.
\<close>

section \<open>Helper lemmas\<close>

lemma find_checkpoint_Inr: "find_checkpoint cps i = Inr c \<Longrightarrow> c \<in> set cps \<and> cp_id c = i"
  by (auto simp: find_checkpoint_def find_Some_iff split: option.splits)

lemma find_checkpoint_distinct:
  "distinct (map cp_id cps) \<Longrightarrow> c \<in> set cps \<Longrightarrow> find_checkpoint cps (cp_id c) = Inr c"
  by (induction cps) (auto simp: find_checkpoint_def split: option.splits)

lemma crossed_empty:
  "crossed cps s a = [] \<longleftrightarrow>
     (\<forall>c \<in> set cps. cp_ordinal s < cp_ordinal c \<and> cp_ordinal c \<le> cp_ordinal a \<longrightarrow> \<not> cp_irreversible c)"
  by (auto simp: crossed_def filter_empty_conv)

lemma rewound_record_Inr:
  "rewound_record s cps l refs r = Inr r' \<longleftrightarrow>
     (\<exists>e. map_of refs (ap_evidence r) = Some e \<and>
        r' = \<lparr>ap_evidence = ap_evidence r,
              ap_status = (if reference_before_or_at e s cps then Current else Pending_revalidation),
              ap_lineage = l, ap_superseded = ap_superseded r, ap_reason = ap_reason r\<rparr>)"
  by (auto simp: rewound_record_def err_simps dict_get_Inr)

lemma rewound_all:
  "(\<exists>rs. mapE (rewound_record s cps l refs) xs = Inr rs) \<longleftrightarrow> (\<forall>r \<in> set xs. ap_evidence r \<in> fst ` set refs)"
proof (induction xs)
  case (Cons r xs)
  have "(\<exists>r'. rewound_record s cps l refs r = Inr r') \<longleftrightarrow> ap_evidence r \<in> fst ` set refs"
    by (simp add: rewound_record_Inr) (metis map_of_eq_None_iff option.exhaust option.distinct(1))
  with Cons.IH show ?case by (auto simp: err_simps)
qed simp

lemma mapE_length: "mapE f xs = Inr ys \<Longrightarrow> length ys = length xs"
  by (simp add: mapE_eq_Inr list_all2_lengthD)

lemma rewind_state_Inr:
  "rewind_state st t l refs = Inr st' \<longleftrightarrow>
     (\<exists>active selected evidence.
        find_checkpoint (ry_checkpoints st) (ry_active st) = Inr active \<and>
        find_checkpoint (ry_checkpoints st) t = Inr selected \<and>
        cp_ordinal selected < cp_ordinal active \<and> crossed (ry_checkpoints st) selected active = [] \<and>
        mapE (rewound_record selected (ry_checkpoints st) l refs) (ry_evidence st) = Inr evidence \<and>
        st' = \<lparr>ry_lineage = l, ry_active = t, ry_checkpoints = ry_checkpoints st, ry_evidence = evidence,
               ry_aborted = False\<rparr>)"
  by (auto simp: rewind_state_def Let_def err_simps not_le split: if_splits)

definition sample_evidence :: "string \<Rightarrow> string \<Rightarrow> evidence_reference" where
  "sample_evidence i phase =
     \<lparr>ev_id = i, ev_kind = ''verification'', ev_subject = ''s'', ev_class = Content_stable,
      ev_inputs = [(''tree'', ''t'')], ev_receipt = ''r'', ev_phase = phase\<rparr>"

definition sample_record :: "string \<Rightarrow> applicability \<Rightarrow> applicability_record" where
  "sample_record i s =
     \<lparr>ap_evidence = i, ap_status = s, ap_lineage = ''lineage-0'', ap_superseded = None, ap_reason = None\<rparr>"

definition sample_recovery :: "string \<Rightarrow> applicability_record list \<Rightarrow> recovery_state" where
  "sample_recovery active records =
     \<lparr>ry_lineage = ''lineage-0'', ry_active = active, ry_checkpoints = default_checkpoints, ry_evidence = records,
      ry_aborted = False\<rparr>"

section \<open>Rewinding\<close>

text \<open>A rewind succeeds exactly when the active and the target checkpoint exist, the target is
  strictly earlier, no irreversible checkpoint lies after the target up to the active one, and every
  retained piece of evidence has its reference.\<close>

theorem rewind_decides:
  "(\<exists>st'. rewind_state st t l refs = Inr st') \<longleftrightarrow>
     (\<exists>active selected.
        find_checkpoint (ry_checkpoints st) (ry_active st) = Inr active \<and>
        find_checkpoint (ry_checkpoints st) t = Inr selected \<and>
        cp_ordinal selected < cp_ordinal active \<and>
        \<not> (\<exists>c \<in> set (ry_checkpoints st).
             cp_ordinal selected < cp_ordinal c \<and> cp_ordinal c \<le> cp_ordinal active \<and> cp_irreversible c)) \<and>
     ap_evidence ` set (ry_evidence st) \<subseteq> fst ` set refs"
proof -
  have ev: "(\<exists>rs. mapE (rewound_record s cps l refs) (ry_evidence st) = Inr rs) \<longleftrightarrow>
      ap_evidence ` set (ry_evidence st) \<subseteq> fst ` set refs" for s cps
    by (simp only: rewound_all image_subset_iff)
  have none: "crossed cps s a = [] \<longleftrightarrow> \<not> (\<exists>c \<in> set cps. cp_ordinal s < cp_ordinal c \<and> cp_ordinal c \<le> cp_ordinal a \<and> cp_irreversible c)"
    for cps s a unfolding crossed_empty by blast
  show ?thesis
  proof
    assume "\<exists>st'. rewind_state st t l refs = Inr st'"
    then obtain active selected evidence where
      "find_checkpoint (ry_checkpoints st) (ry_active st) = Inr active"
      "find_checkpoint (ry_checkpoints st) t = Inr selected"
      "cp_ordinal selected < cp_ordinal active" "crossed (ry_checkpoints st) selected active = []"
      "mapE (rewound_record selected (ry_checkpoints st) l refs) (ry_evidence st) = Inr evidence"
      unfolding rewind_state_Inr by blast
    then show "(\<exists>active selected.
        find_checkpoint (ry_checkpoints st) (ry_active st) = Inr active \<and>
        find_checkpoint (ry_checkpoints st) t = Inr selected \<and>
        cp_ordinal selected < cp_ordinal active \<and>
        \<not> (\<exists>c \<in> set (ry_checkpoints st).
             cp_ordinal selected < cp_ordinal c \<and> cp_ordinal c \<le> cp_ordinal active \<and> cp_irreversible c)) \<and>
     ap_evidence ` set (ry_evidence st) \<subseteq> fst ` set refs"
      using ev none by (metis (no_types))
  next
    assume R: "(\<exists>active selected.
        find_checkpoint (ry_checkpoints st) (ry_active st) = Inr active \<and>
        find_checkpoint (ry_checkpoints st) t = Inr selected \<and>
        cp_ordinal selected < cp_ordinal active \<and>
        \<not> (\<exists>c \<in> set (ry_checkpoints st).
             cp_ordinal selected < cp_ordinal c \<and> cp_ordinal c \<le> cp_ordinal active \<and> cp_irreversible c)) \<and>
     ap_evidence ` set (ry_evidence st) \<subseteq> fst ` set refs"
    then obtain active selected where
      "find_checkpoint (ry_checkpoints st) (ry_active st) = Inr active"
      "find_checkpoint (ry_checkpoints st) t = Inr selected"
      "cp_ordinal selected < cp_ordinal active" "crossed (ry_checkpoints st) selected active = []"
      unfolding none by blast
    moreover from conjunct2 [OF R]
    have "\<exists>rs. mapE (rewound_record selected (ry_checkpoints st) l refs) (ry_evidence st) = Inr rs" by (simp only: ev)
    then obtain evidence where
      "mapE (rewound_record selected (ry_checkpoints st) l refs) (ry_evidence st) = Inr evidence" ..
    ultimately show "\<exists>st'. rewind_state st t l refs = Inr st'"
      unfolding rewind_state_Inr by (intro exI conjI) (rule refl | assumption)+
  qed
qed

text \<open>A rewind deletes no evidence: it keeps every record under the new lineage, current exactly
  when its phase is reached at or before the target, and moves to the target with the abort lifted.\<close>

theorem rewind_retains_evidence:
  assumes "rewind_state st t l refs = Inr st'"
  shows "ry_active st' = t \<and> ry_lineage st' = l \<and> ry_checkpoints st' = ry_checkpoints st \<and> \<not> ry_aborted st' \<and>
    map ap_evidence (ry_evidence st') = map ap_evidence (ry_evidence st) \<and>
    (\<exists>selected. find_checkpoint (ry_checkpoints st) t = Inr selected \<and>
       (\<forall>r \<in> set (ry_evidence st'). \<exists>e. map_of refs (ap_evidence r) = Some e \<and> ap_lineage r = l \<and>
          ap_status r = (if reference_before_or_at e selected (ry_checkpoints st) then Current else Pending_revalidation)))"
proof -
  from assms obtain active selected evidence where
    sel: "find_checkpoint (ry_checkpoints st) t = Inr selected" and
    ev: "mapE (rewound_record selected (ry_checkpoints st) l refs) (ry_evidence st) = Inr evidence" and
    st': "st' = \<lparr>ry_lineage = l, ry_active = t, ry_checkpoints = ry_checkpoints st, ry_evidence = evidence,
                 ry_aborted = False\<rparr>"
    unfolding rewind_state_Inr by blast
  have "map ap_evidence evidence = map ap_evidence (ry_evidence st)"
    using ev unfolding mapE_eq_Inr by (induction rule: list_all2_induct) (auto simp: rewound_record_Inr)
  moreover have "\<forall>r \<in> set evidence. \<exists>e. map_of refs (ap_evidence r) = Some e \<and> ap_lineage r = l \<and>
      ap_status r = (if reference_before_or_at e selected (ry_checkpoints st) then Current else Pending_revalidation)"
    using mapE_set [OF ev] by (fastforce simp: rewound_record_Inr)
  ultimately show ?thesis using sel st' by auto
qed

theorem rewind_retains_evidence_witness:
  "(let st = sample_recovery ''candidate'' [sample_record ''a'' Current, sample_record ''b'' Current];
        refs = [(''a'', sample_evidence ''a'' ''implementation''), (''b'', sample_evidence ''b'' ''candidate'')];
        st' = sample_recovery ''review'' [(sample_record ''a'' Current)\<lparr>ap_lineage := ''l''\<rparr>,
                (sample_record ''b'' Pending_revalidation)\<lparr>ap_lineage := ''l''\<rparr>]\<lparr>ry_lineage := ''l''\<rparr>
    in rewind_state st ''review'' ''l'' refs = Inr st' \<and>
       map ap_evidence (ry_evidence st') = map ap_evidence (ry_evidence st))"
proof -
  have r: "rewind_state (sample_recovery ''candidate'' [sample_record ''a'' Current, sample_record ''b'' Current]) ''review'' ''l''
      [(''a'', sample_evidence ''a'' ''implementation''), (''b'', sample_evidence ''b'' ''candidate'')] =
    Inr (sample_recovery ''review'' [(sample_record ''a'' Current)\<lparr>ap_lineage := ''l''\<rparr>,
           (sample_record ''b'' Pending_revalidation)\<lparr>ap_lineage := ''l''\<rparr>]\<lparr>ry_lineage := ''l''\<rparr>)"
    by code_simp
  show ?thesis unfolding Let_def using rewind_retains_evidence [OF r] r by blast
qed

text \<open>When the irreversible checkpoints come after all reversible ones, as in the default plan,
  the listed rewinds are exactly the accepted targets.\<close>

theorem available_rewinds_exact:
  assumes "available_rewinds st = Inr ts"
    and "distinct (map cp_id (ry_checkpoints st))"
    and "\<forall>c \<in> set (ry_checkpoints st). \<forall>d \<in> set (ry_checkpoints st).
           cp_irreversible c \<longrightarrow> cp_ordinal c \<le> cp_ordinal d \<longrightarrow> cp_irreversible d"
    and "\<forall>r \<in> set (ry_evidence st). ap_evidence r \<in> fst ` set refs"
  shows "t \<in> set ts \<longleftrightarrow> (\<exists>st'. rewind_state st t l refs = Inr st')"
proof -
  let ?cps = "ry_checkpoints st"
  from assms(1) obtain active where act: "find_checkpoint ?cps (ry_active st) = Inr active"
    and ts: "ts = (if cp_irreversible active then []
                   else map cp_id (filter (\<lambda>c. cp_ordinal c < cp_ordinal active \<and> \<not> cp_irreversible c) ?cps))"
    unfolding available_rewinds_def by (elim bindE_InrE) (simp split: if_splits)
  have ev: "\<exists>rs. mapE (rewound_record s ?cps l refs) (ry_evidence st) = Inr rs" for s
    using assms(4) by (simp only: rewound_all)
  have acc: "(\<exists>st'. rewind_state st t l refs = Inr st') \<longleftrightarrow>
      (\<exists>s. find_checkpoint ?cps t = Inr s \<and> cp_ordinal s < cp_ordinal active \<and> crossed ?cps s active = [])"
    using act ev unfolding rewind_state_Inr by auto
  have in_active: "active \<in> set ?cps" using find_checkpoint_Inr [OF act] by simp
  show ?thesis
  proof (cases "cp_irreversible active")
    case True
    then have "crossed ?cps s active \<noteq> []" if "cp_ordinal s < cp_ordinal active" for s
      using that in_active by (auto simp: crossed_empty)
    with True ts acc show ?thesis by auto
  next
    case False
    have no: "\<not> cp_irreversible c" if "c \<in> set ?cps" "cp_ordinal c \<le> cp_ordinal active" for c
      using assms(3) that in_active False by blast
    then have cr: "crossed ?cps s active = []" for s by (simp add: crossed_empty)
    have "t \<in> set ts \<longleftrightarrow> (\<exists>c \<in> set ?cps. cp_id c = t \<and> cp_ordinal c < cp_ordinal active)"
      using ts False no by auto
    also have "\<dots> \<longleftrightarrow> (\<exists>s. find_checkpoint ?cps t = Inr s \<and> cp_ordinal s < cp_ordinal active)"
      using find_checkpoint_distinct [OF assms(2)] find_checkpoint_Inr [of ?cps t] by metis
    finally show ?thesis using acc cr by simp
  qed
qed

theorem available_rewinds_exact_witness:
  "''review'' \<in> set [''implementation'', ''review''] \<longleftrightarrow>
     (\<exists>st'. rewind_state (sample_recovery ''candidate'' []) ''review'' ''l'' [] = Inr st')"
proof (rule available_rewinds_exact)
  show "available_rewinds (sample_recovery ''candidate'' []) = Inr [''implementation'', ''review'']" by code_simp
  show "distinct (map cp_id (ry_checkpoints (sample_recovery ''candidate'' [])))" by code_simp
  show "\<forall>c \<in> set (ry_checkpoints (sample_recovery ''candidate'' [])).
      \<forall>d \<in> set (ry_checkpoints (sample_recovery ''candidate'' [])).
        cp_irreversible c \<longrightarrow> cp_ordinal c \<le> cp_ordinal d \<longrightarrow> cp_irreversible d" by code_simp
  show "\<forall>r \<in> set (ry_evidence (sample_recovery ''candidate'' [])). ap_evidence r \<in> fst ` set []" by code_simp
qed

text \<open>A plan whose irreversible checkpoint lies between two reversible ones.\<close>

definition split_checkpoints :: "checkpoint list" where
  "split_checkpoints =
     [\<lparr>cp_id = ''a'', cp_phase = ''implementation'', cp_ordinal = 0, cp_irreversible = False\<rparr>,
      \<lparr>cp_id = ''b'', cp_phase = ''review'', cp_ordinal = 1, cp_irreversible = True\<rparr>,
      \<lparr>cp_id = ''c'', cp_phase = ''candidate'', cp_ordinal = 2, cp_irreversible = False\<rparr>]"

definition split_recovery :: recovery_state where
  "split_recovery =
     \<lparr>ry_lineage = ''l'', ry_active = ''c'', ry_checkpoints = split_checkpoints, ry_evidence = [], ry_aborted = False\<rparr>"

text \<open>Without that order the lists part: a checkpoint before a crossed irreversible one is
  listed but refused, and an irreversible target is accepted but not listed.\<close>

theorem available_rewinds_not_exact:
  "available_rewinds split_recovery = Inr [''a''] \<and> rewind_state split_recovery ''a'' l refs = Inl ValueError \<and>
   rewind_state split_recovery ''b'' l refs = Inr (split_recovery\<lparr>ry_lineage := l, ry_active := ''b''\<rparr>)"
proof -
  have "available_rewinds split_recovery = Inr [''a'']" by code_simp
  moreover have "rewind_state split_recovery ''a'' l refs = Inl ValueError"
    by (simp add: rewind_state_def find_checkpoint_def crossed_def split_recovery_def split_checkpoints_def)
  moreover have "rewind_state split_recovery ''b'' l refs = Inr (split_recovery\<lparr>ry_lineage := l, ry_active := ''b''\<rparr>)"
    by (simp add: rewind_state_def find_checkpoint_def crossed_def split_recovery_def split_checkpoints_def)
  ultimately show ?thesis by (intro conjI)
qed

text \<open>Rewinding takes no notice of a record's status: evidence found invalid or superseded
  becomes current again when its phase lies at or before the target.\<close>

theorem rewind_revives_refuted_evidence:
  "\<exists>st'. rewind_state (sample_recovery ''candidate'' [sample_record ''a'' Invalid, sample_record ''b'' Superseded])
       ''review'' ''l'' [(''a'', sample_evidence ''a'' ''implementation''), (''b'', sample_evidence ''b'' ''review'')] = Inr st' \<and>
     map ap_status (ry_evidence st') = [Current, Current]"
proof -
  have "rewind_state (sample_recovery ''candidate'' [sample_record ''a'' Invalid, sample_record ''b'' Superseded])
       ''review'' ''l'' [(''a'', sample_evidence ''a'' ''implementation''), (''b'', sample_evidence ''b'' ''review'')] =
     Inr (sample_recovery ''review'' [(sample_record ''a'' Current)\<lparr>ap_lineage := ''l''\<rparr>,
           (sample_record ''b'' Current)\<lparr>ap_lineage := ''l''\<rparr>]\<lparr>ry_lineage := ''l''\<rparr>)" by code_simp
  moreover have "map ap_status (ry_evidence (sample_recovery ''review'' [(sample_record ''a'' Current)\<lparr>ap_lineage := ''l''\<rparr>,
           (sample_record ''b'' Current)\<lparr>ap_lineage := ''l''\<rparr>]\<lparr>ry_lineage := ''l''\<rparr>)) = [Current, Current]" by code_simp
  ultimately show ?thesis by (intro exI conjI)
qed

section \<open>The recovery tool\<close>

text \<open>A failed transform leaves the stored state as it was.\<close>

definition tool_step :: "recovery_state \<Rightarrow> string \<times> evidence_reference list \<times> recovery_action \<Rightarrow> recovery_state" where
  "tool_step st call =
     (case call of (fresh, evidence, a) \<Rightarrow> (case apply_action fresh evidence a st of Inl _ \<Rightarrow> st | Inr st' \<Rightarrow> st'))"

definition at_start :: "recovery_state \<Rightarrow> bool" where
  "at_start st = (ry_active st = ''implementation'' \<and> ry_checkpoints st = default_checkpoints)"

lemma start_checkpoint: "find_checkpoint default_checkpoints ''implementation'' =
    Inr \<lparr>cp_id = ''implementation'', cp_phase = ''implementation'', cp_ordinal = 0, cp_irreversible = False\<rparr>"
  by code_simp

lemma default_ordinals: "c \<in> set default_checkpoints \<Longrightarrow> 0 \<le> cp_ordinal c"
  by (auto simp: default_checkpoints_def)

lemma at_start_no_rewind:
  assumes "at_start st"
  shows "rewind_state st t l refs = Inl ValueError"
proof (cases "find_checkpoint default_checkpoints t")
  case (Inl e)
  then have "e = ValueError" by (simp add: find_checkpoint_def split: option.splits)
  with Inl assms show ?thesis by (simp add: rewind_state_def at_start_def start_checkpoint)
next
  case (Inr c)
  with assms default_ordinals [of c] find_checkpoint_Inr [OF Inr] show ?thesis
    by (simp add: rewind_state_def at_start_def start_checkpoint)
qed

lemma tool_step_at_start: "at_start st \<Longrightarrow> at_start (tool_step st call)"
proof -
  assume s: "at_start st"
  obtain fresh evidence a where call: "call = (fresh, evidence, a)" by (cases call)
  have "at_start st'" if "apply_action fresh evidence a st = Inr st'" for st'
  proof (cases a)
    case (Rewind target)
    with that at_start_no_rewind [OF s] show ?thesis
      by (auto simp: apply_action_def split: option.splits list.splits)
  next
    case Revalidate
    with that s show ?thesis
      by (auto simp: apply_action_def revalidate_retained_evidence_def at_start_def err_simps)
  next
    case Abort
    with that s show ?thesis
      by (auto simp: apply_action_def abort_state_def at_start_def err_simps split: if_splits)
  qed (use that s in \<open>auto simp: apply_action_def resume_state_def at_start_def\<close>)
  with s show ?thesis by (auto simp: tool_step_def call split: sum.splits)
qed

lemma tool_run_at_start: "at_start st \<Longrightarrow> at_start (foldl tool_step st calls)"
  by (induction calls arbitrary: st) (simp_all add: tool_step_at_start)

lemma default_at_start: "at_start (default_recovery_state evidence ''implementation'')"
  by (simp add: at_start_def default_recovery_state_def default_checkpoints_def)

text \<open>the recovery tool never leaves the first checkpoint: whatever actions are taken from the
  state it starts with, no rewind is listed or accepted and an abort is never refused.\<close>

theorem recovery_tool_never_advances:
  "\<exists>st. foldl tool_step (default_recovery_state evidence ''implementation'') calls = st \<and>
     ry_active st = ''implementation'' \<and> available_rewinds st = Inr [] \<and>
     rewind_state st t l refs = Inl ValueError \<and> abort_state st = Inr (st\<lparr>ry_aborted := True\<rparr>)"
proof -
  let ?st = "foldl tool_step (default_recovery_state evidence ''implementation'') calls"
  have s: "at_start ?st" by (rule tool_run_at_start [OF default_at_start])
  have "filter (\<lambda>c. cp_ordinal c < 0 \<and> \<not> cp_irreversible c) default_checkpoints = []"
    using default_ordinals by (force simp: filter_empty_conv)
  with s have "available_rewinds ?st = Inr []" "abort_state ?st = Inr (?st\<lparr>ry_aborted := True\<rparr>)" "ry_active ?st = ''implementation''"
    by (simp_all add: available_rewinds_def abort_state_def at_start_def start_checkpoint)
  with at_start_no_rewind [OF s] show ?thesis by blast
qed

section \<open>Revalidation\<close>

text \<open>Revalidation touches exactly the pending records: each becomes superseded when a
  replacement is supplied, invalid when a declared input changed, current otherwise.\<close>

theorem revalidation_outcome:
  assumes "revalidate_retained_evidence st refs observed replacements = Inr st'"
  shows "list_all2 (\<lambda>r r'. ap_evidence r' = ap_evidence r \<and>
      (if ap_status r \<noteq> Pending_revalidation then r' = r
       else \<exists>e. map_of refs (ap_evidence r) = Some e \<and> ap_lineage r' = ry_lineage st \<and>
         ap_superseded r' = map_of replacements (ap_evidence r) \<and>
         ap_status r' = (if map_of replacements (ap_evidence r) \<noteq> None then Superseded
                         else if \<exists>(k, v) \<in> set (ev_inputs e). map_of observed k \<noteq> Some v then Invalid
                         else Current)))
    (ry_evidence st) (ry_evidence st')"
proof -
  from assms have "mapE (revalidated_record (ry_lineage st) refs observed replacements) (ry_evidence st) = Inr (ry_evidence st')"
    by (auto simp: revalidate_retained_evidence_def err_simps)
  then have "list_all2 (\<lambda>r r'. revalidated_record (ry_lineage st) refs observed replacements r = Inr r')
      (ry_evidence st) (ry_evidence st')" by (simp add: mapE_eq_Inr)
  then show ?thesis
  proof (rule list_all2_mono)
    fix r r'
    assume "revalidated_record (ry_lineage st) refs observed replacements r = Inr r'"
    then obtain e where e: "map_of refs (ap_evidence r) = Some e"
      and r': "(if ap_status r \<noteq> Pending_revalidation then Inr r
       else (case map_of replacements (ap_evidence r) of
               Some new \<Rightarrow> Inr \<lparr>ap_evidence = ap_evidence r, ap_status = Superseded, ap_lineage = ry_lineage st,
                              ap_superseded = Some new,
                              ap_reason = Some ''dependency changed; newer evidence supplied''\<rparr>
             | None \<Rightarrow>
                 if changed_inputs e observed \<noteq> [] then
                   Inr \<lparr>ap_evidence = ap_evidence r, ap_status = Invalid, ap_lineage = ry_lineage st, ap_superseded = None,
                        ap_reason = Some (''validity inputs changed: '' @ join_with '', '' (sort (changed_inputs e observed)))\<rparr>
                 else
                   Inr \<lparr>ap_evidence = ap_evidence r, ap_status = Current, ap_lineage = ry_lineage st, ap_superseded = None,
                        ap_reason = Some ''retained evidence revalidated without recomputation''\<rparr>)) = (Inr r' :: _ result)"
      unfolding revalidated_record_def by (elim bindE_InrE) (simp add: dict_get_Inr)
    have ch: "changed_inputs e observed \<noteq> [] \<longleftrightarrow> (\<exists>(k, v) \<in> set (ev_inputs e). map_of observed k \<noteq> Some v)"
      by (auto simp: changed_inputs_def filter_empty_conv)
    show "ap_evidence r' = ap_evidence r \<and>
      (if ap_status r \<noteq> Pending_revalidation then r' = r
       else \<exists>e. map_of refs (ap_evidence r) = Some e \<and> ap_lineage r' = ry_lineage st \<and>
         ap_superseded r' = map_of replacements (ap_evidence r) \<and>
         ap_status r' = (if map_of replacements (ap_evidence r) \<noteq> None then Superseded
                         else if \<exists>(k, v) \<in> set (ev_inputs e). map_of observed k \<noteq> Some v then Invalid
                         else Current))"
      using r' e unfolding ch by (auto split: if_splits option.splits)
  qed
qed

definition pending_recovery :: recovery_state where
  "pending_recovery = sample_recovery ''review'' [sample_record ''a'' Pending_revalidation]"

definition refuted_recovery :: recovery_state where
  "refuted_recovery =
     pending_recovery\<lparr>ry_evidence := [(sample_record ''a'' Invalid)\<lparr>ap_reason := Some ''validity inputs changed: tree''\<rparr>]\<rparr>"

theorem revalidation_outcome_witness:
  "revalidate_retained_evidence pending_recovery [(''a'', sample_evidence ''a'' ''review'')] [(''tree'', ''u'')] [] =
     Inr refuted_recovery \<and>
   list_all2 (\<lambda>r r'. ap_evidence r' = ap_evidence r) (ry_evidence pending_recovery) (ry_evidence refuted_recovery)"
proof -
  have r: "revalidate_retained_evidence pending_recovery [(''a'', sample_evidence ''a'' ''review'')] [(''tree'', ''u'')] [] =
     Inr refuted_recovery" by code_simp
  from revalidation_outcome [OF r]
  have "list_all2 (\<lambda>r r'. ap_evidence r' = ap_evidence r) (ry_evidence pending_recovery) (ry_evidence refuted_recovery)"
    by (rule list_all2_mono) (rule conjunct1)
  with r show ?thesis by (intro conjI)
qed

section \<open>The stored form\<close>

lemma parse_applicability_text [simp]: "parse_applicability (applicability_text s) = Inr s"
  by (cases s) (simp_all add: parse_applicability_def)

lemma item_stored:
  "distinct (map fst d) \<Longrightarrow> map_of d k = Some v \<Longrightarrow> item (stored_obj d) k = Inr (stored v)"
  by (simp add: item_def dict_get_def map_of_stored)

lemma optional_text_option: "field d k = str_option v \<Longrightarrow> optional_text d k = v"
  by (cases v) (simp_all add: optional_text_def str_option_def)

lemma field_or_distinct:
  "distinct (map fst d) \<Longrightarrow> map_of d k = Some v \<Longrightarrow> field_or (stored_obj d) k w = stored v"
  by (simp add: field_or_def map_of_stored)

lemma field_distinct:
  "distinct (map fst d) \<Longrightarrow> map_of d k = Some v \<Longrightarrow> field (stored_obj d) k = stored v"
  unfolding field_def by (rule field_or_distinct)

lemma checkpoint_roundtrip: "checkpoint_of_json (stored_obj (checkpoint_fields c)) = Inr c"
proof -
  have d: "distinct (map fst (checkpoint_fields c))" by (simp add: checkpoint_fields_def)
  have "map_of (checkpoint_fields c) ''checkpoint_id'' = Some (JStr (cp_id c))"
    "map_of (checkpoint_fields c) ''phase'' = Some (JStr (cp_phase c))"
    "map_of (checkpoint_fields c) ''ordinal'' = Some (JInt (cp_ordinal c))"
    "map_of (checkpoint_fields c) ''irreversible'' = Some (JBool (cp_irreversible c))"
    by (simp_all add: checkpoint_fields_def)
  note this [THEN item_stored [OF d]] this(4) [THEN field_or_distinct [OF d]]
  then show ?thesis by (simp add: checkpoint_of_json_def to_int_def)
qed

lemma applicability_roundtrip: "applicability_of_json (stored_obj (applicability_fields r)) = Inr r"
proof -
  have d: "distinct (map fst (applicability_fields r))" by (simp add: applicability_fields_def)
  have m: "map_of (applicability_fields r) ''evidence_id'' = Some (JStr (ap_evidence r))"
    "map_of (applicability_fields r) ''status'' = Some (JStr (applicability_text (ap_status r)))"
    "map_of (applicability_fields r) ''lineage_id'' = Some (JStr (ap_lineage r))"
    "map_of (applicability_fields r) ''superseded_by'' = Some (str_option (ap_superseded r))"
    "map_of (applicability_fields r) ''reason'' = Some (str_option (ap_reason r))"
    by (simp_all add: applicability_fields_def)
  have "optional_text (stored_obj (applicability_fields r)) ''superseded_by'' = ap_superseded r"
    "optional_text (stored_obj (applicability_fields r)) ''reason'' = ap_reason r"
    using m(4,5) [THEN field_distinct [OF d]] by (auto intro!: optional_text_option)
  with m(1,2,3) [THEN item_stored [OF d]] show ?thesis by (simp add: applicability_of_json_def)
qed

lemma objects_roundtrip:
  assumes "\<And>x. f (stored_obj (g x)) = Inr x"
  shows "mapE f (objects_of (map (stored \<circ> (JObj \<circ> g)) xs)) = Inr xs"
  by (induction xs) (simp_all add: objects_of_def is_obj_def obj_or_empty_def assms)

text \<open>a stored recovery state reads back as the state that was saved.\<close>

theorem recovery_state_roundtrip: "recovery_of_json (stored_obj (recovery_fields st)) = Inr st"
proof -
  have d: "distinct (map fst (recovery_fields st))" by (simp add: recovery_fields_def)
  have m: "map_of (recovery_fields st) ''lineage_id'' = Some (JStr (ry_lineage st))"
    "map_of (recovery_fields st) ''active_checkpoint'' = Some (JStr (ry_active st))"
    "map_of (recovery_fields st) ''aborted'' = Some (JBool (ry_aborted st))"
    "map_of (recovery_fields st) ''checkpoints'' = Some (JArr (map (JObj \<circ> checkpoint_fields) (ry_checkpoints st)))"
    "map_of (recovery_fields st) ''evidence'' = Some (JArr (map (JObj \<circ> applicability_fields) (ry_evidence st)))"
    by (simp_all add: recovery_fields_def)
  have cps: "py_iter (field_or (stored_obj (recovery_fields st)) ''checkpoints'' v) =
      Inr (map (stored \<circ> (JObj \<circ> checkpoint_fields)) (ry_checkpoints st))" for v
    using field_or_distinct [OF d m(4)] by (simp add: py_iter_def)
  have evs: "py_iter (field_or (stored_obj (recovery_fields st)) ''evidence'' v) =
      Inr (map (stored \<circ> (JObj \<circ> applicability_fields)) (ry_evidence st))" for v
    using field_or_distinct [OF d m(5)] by (simp add: py_iter_def)
  show ?thesis
    using item_stored [OF d m(1)] item_stored [OF d m(2)] field_or_distinct [OF d m(3)]
    by (simp only: recovery_of_json_def cps evs bindE_Inr
        objects_roundtrip [of checkpoint_of_json, OF checkpoint_roundtrip]
        objects_roundtrip [of applicability_of_json, OF applicability_roundtrip]) simp
qed

end
