(* ===== verification/Handoff_Store_Facts.thy ===== *)
theory Handoff_Store_Facts
  imports Handoff_Store Recovery_Facts
begin

text \<open>
  Facts about the handoff store: what each operation may change (an abstract change relation which
  every operation refines), how stored evidence reads back, and the port ledger.
\<close>

named_theorems store_simps \<open>unfolding of the store operations\<close>

definition put :: "area \<Rightarrow> string \<Rightarrow> json \<Rightarrow> store \<Rightarrow> store" where
  "put a w v st = st\<lparr>st_files := AList.update (a, w) (Content (stored v)) (st_files st)\<rparr>"

section \<open>Reading after writing\<close>

lemma safe_work_id_simps [simp]: "is_work_id w \<Longrightarrow> safe_work_id w = Inr ()" "\<not> is_work_id w \<Longrightarrow> safe_work_id w = Inl ValueError"
  by (simp_all add: safe_work_id_def)

lemma read_file_put:
  "read_file a w (put b v x st) =
     (if a = b \<and> w = v \<and> is_work_id w then Inr (Some (stored x)) else read_file a w st)"
  by (cases "is_work_id w") (auto simp: put_def read_file_def update_conv' decode_def)

lemma read_file_ledger [simp]: "read_file a w (st\<lparr>st_ledger := l\<rparr>) = read_file a w st"
  by (simp add: read_file_def)

lemma exists_file_put:
  "exists_file a w (put b v x st) = (if a = b \<and> w = v \<and> is_work_id w then Inr True else exists_file a w st)"
  by (cases "is_work_id w") (auto simp: put_def exists_file_def update_conv')

lemma write_file_cases:
  assumes "write_file a w v st = (r, st')"
  obtains "is_work_id w" "r = Inr ()" "st' = put a w v st" | "\<not> is_work_id w" "r = Inl ValueError" "st' = st"
  using assms by (cases "is_work_id w") (auto simp: write_file_def put_def)

lemma load_contract_put:
  "load_contract sha w (put b v x st) =
     (if b = Contracts \<and> w = v \<and> is_work_id w
      then (case stored x of JObj d \<Rightarrow> bindE (contract_of_json sha d) (\<lambda>c. Inr (Some c)) | _ \<Rightarrow> Inl (Coded ''HANDOFF_CONTRACT_INVALID''))
      else load_contract sha w st)"
  by (auto simp: load_contract_def read_file_put split: json.splits)

lemma load_contract_ledger [simp]: "load_contract sha w (st\<lparr>st_ledger := l\<rparr>) = load_contract sha w st"
  by (simp add: load_contract_def)

lemma load_contract_written:
  assumes "contract_valid c" and "is_work_id w"
  shows "load_contract sha w (put Contracts w (JObj (contract_fields sha c)) st) = Inr (Some c)"
  using contract_roundtrip [OF assms(1)] assms(2) by (simp add: load_contract_put)

lemma load_contract_id: "load_contract sha w st = Inr (Some c) \<Longrightarrow> is_work_id w"
  by (cases "is_work_id w") (simp_all add: load_contract_def read_file_def)

lemma contract_of_json_valid: "contract_of_json sha d = Inr c \<Longrightarrow> contract_valid c"
proof -
  assume "contract_of_json sha d = Inr c"
  then obtain a where "contract_init a = Inr c"
    unfolding contract_of_json_def
    by (elim bindE_InrE) (simp split: option.splits, elim bindE_InrE, simp)
  then show ?thesis by (rule contract_init_valid)
qed

lemma load_contract_valid:
  assumes "load_contract sha w st = Inr (Some c)"
  shows "contract_valid c"
proof -
  from assms obtain v where v: "(case v of
          None \<Rightarrow> Inr None
        | Some (JObj d) \<Rightarrow> bindE (contract_of_json sha d) (\<lambda>c. Inr (Some c))
        | Some _ \<Rightarrow> Inl (Coded ''HANDOFF_CONTRACT_INVALID'')) = Inr (Some c)"
    unfolding load_contract_def by (rule bindE_InrE)
  then obtain d where "bindE (contract_of_json sha d) (\<lambda>c. Inr (Some c)) = Inr (Some c)"
    by (cases v) (simp_all split: json.splits)
  then have "contract_of_json sha d = Inr c" by (rule bindE_InrE) simp
  then show ?thesis by (rule contract_of_json_valid)
qed

lemma require_contract_Inr: "require_contract sha w st = Inr c \<longleftrightarrow> load_contract sha w st = Inr (Some c)"
  by (auto simp: require_contract_def err_simps split: option.splits)

section \<open>Stored evidence\<close>

definition evidence_valid :: "evidence_reference \<Rightarrow> bool" where
  "evidence_valid e = (evidence_reference_init e = Inr e \<and> distinct (map fst (ev_inputs e)))"

text \<open>The inputs in the order of the stored file.\<close>

definition norm_evidence :: "evidence_reference \<Rightarrow> evidence_reference" where
  "norm_evidence e = e\<lparr>ev_inputs := sort_key fst (ev_inputs e)\<rparr>"

lemma insort_key_map: "(\<And>x. g (f x) = k x) \<Longrightarrow> insort_key g (f x) (map f xs) = map f (insort_key k x xs)"
  by (induction xs) simp_all

lemma sort_key_map: "(\<And>x. g (f x) = k x) \<Longrightarrow> sort_key g (map f xs) = map f (sort_key k xs)"
  by (induction xs) (simp_all add: insort_key_map [where k = k])

lemma strings_of_snd: "strings_of (map snd (map (map_prod id JStr) ps)) = Some (map snd ps)"
  by (induction ps) auto

lemma string_pairs_map [simp]: "string_pairs (map (map_prod id JStr) ps) = Some ps"
proof -
  have "map fst (map (map_prod id JStr) ps) = map fst ps" by (induction ps) auto
  then show ?thesis by (simp only: string_pairs_def strings_of_snd option.map zip_map_fst_snd)
qed

lemma init_norm: "evidence_reference_init e = Inr e \<Longrightarrow> evidence_reference_init (norm_evidence e) = Inr (norm_evidence e)"
  by (simp add: evidence_reference_init_def norm_evidence_def split: if_splits)

lemma norm_valid: "evidence_valid e \<Longrightarrow> evidence_valid (norm_evidence e)"
proof -
  assume e: "evidence_valid e"
  then have "distinct (map fst (sort_key fst (ev_inputs e)))"
    by (metis distinct_map distinct_sort evidence_valid_def set_sort)
  with e init_norm [of e] show ?thesis by (simp add: evidence_valid_def norm_evidence_def)
qed

lemma norm_idem [simp]: "norm_evidence (norm_evidence e) = norm_evidence e"
  by (simp add: norm_evidence_def sort_key_id_if_sorted)

lemma parse_class_text [simp]: "parse_class (class_text c) = Inr c"
  by (cases c) (simp_all add: parse_class_def all_classes_def)

lemma evidence_roundtrip:
  assumes "evidence_valid e"
  shows "evidence_of_json (stored_obj (evidence_fields e)) = Inr (norm_evidence e)"
proof -
  have d: "distinct (map fst (evidence_fields e))" by (simp add: evidence_fields_def)
  have m: "map_of (evidence_fields e) ''evidence_id'' = Some (JStr (ev_id e))"
    "map_of (evidence_fields e) ''kind'' = Some (JStr (ev_kind e))"
    "map_of (evidence_fields e) ''subject'' = Some (JStr (ev_subject e))"
    "map_of (evidence_fields e) ''validity_class'' = Some (JStr (class_text (ev_class e)))"
    "map_of (evidence_fields e) ''receipt_ref'' = Some (JStr (ev_receipt e))"
    "map_of (evidence_fields e) ''validity_inputs'' = Some (JObj (map (map_prod id JStr) (ev_inputs e)))"
    "map_of (evidence_fields e) ''applicable_phase'' = Some (JStr (ev_phase e))"
    by (simp_all add: evidence_fields_def)
  have "stored_obj (map (map_prod id JStr) (ev_inputs e)) = map (map_prod id JStr) (sort_key fst (ev_inputs e))"
    by (simp add: comp_def map_prod_def case_prod_unfold sort_key_map [where k = fst and f = "\<lambda>x. (fst x, JStr (snd x))"])
  then have inp: "py_dict (field_or (stored_obj (evidence_fields e)) ''validity_inputs'' v) =
      Inr (map (map_prod id JStr) (sort_key fst (ev_inputs e)))" for v
    using field_or_distinct [OF d m(6)] by (simp add: py_dict_def)
  have "evidence_reference_init (norm_evidence e) = Inr (norm_evidence e)"
    using assms by (simp add: evidence_valid_def init_norm)
  moreover have "norm_evidence e =
      \<lparr>ev_id = ev_id e, ev_kind = ev_kind e, ev_subject = ev_subject e, ev_class = ev_class e,
       ev_inputs = sort_key fst (ev_inputs e), ev_receipt = ev_receipt e, ev_phase = ev_phase e\<rparr>"
    by (simp add: norm_evidence_def)
  ultimately show ?thesis
    using m(1,2,3,4,5) [THEN item_stored [OF d]] field_or_distinct [OF d m(7)]
    by (simp add: evidence_of_json_def inp make_evidence_def)
qed

lemma evidence_list_roundtrip:
  "\<forall>e \<in> set es. evidence_valid e \<Longrightarrow>
     mapE evidence_of_json (objects_of (map (stored \<circ> (JObj \<circ> evidence_fields)) es)) = Inr (map norm_evidence es)"
  by (induction es) (simp_all add: objects_of_def is_obj_def obj_or_empty_def evidence_roundtrip)

lemma load_evidence_put:
  "load_evidence w (put b v x st) =
     (if b = Evidence \<and> w = v \<and> is_work_id w then load_evidence w (put Evidence w x st) else load_evidence w st)"
  by (auto simp: load_evidence_def read_file_put split: json.splits)

lemma load_evidence_ledger [simp]: "load_evidence w (st\<lparr>st_ledger := l\<rparr>) = load_evidence w st"
  by (simp add: load_evidence_def)

lemma load_evidence_written:
  assumes "\<forall>e \<in> set es. evidence_valid e" and "is_work_id w"
  shows "load_evidence w (put Evidence w (JArr (map (JObj \<circ> evidence_fields) es)) st) = Inr (map norm_evidence es)"
  using evidence_list_roundtrip [OF assms(1)] assms(2) by (simp add: load_evidence_def read_file_put)

lemma evidence_init_same: "evidence_reference_init e = Inr e' \<Longrightarrow> e' = e"
  by (simp add: evidence_reference_init_def split: if_splits)

lemma evidence_of_json_init:
  assumes "evidence_of_json d = Inr e"
  shows "evidence_reference_init e = Inr e"
proof -
  from assms obtain x where "evidence_reference_init x = Inr e"
    unfolding evidence_of_json_def make_evidence_def
    by (elim bindE_InrE) (simp split: option.splits)
  with evidence_init_same [OF this] show ?thesis by simp
qed

lemma load_evidence_init:
  assumes "load_evidence w st = Inr es" and "e \<in> set es"
  shows "evidence_reference_init e = Inr e"
proof -
  from assms(1) obtain v where v: "(case v of
          None \<Rightarrow> Inr []
        | Some (JArr xs) \<Rightarrow>
            (case mapE evidence_of_json (objects_of xs) of
               Inl _ \<Rightarrow> Inl (Coded ''EVIDENCE_LINEAGE_INVALID'')
             | Inr es \<Rightarrow> Inr es)
        | Some _ \<Rightarrow> Inl (Coded ''EVIDENCE_LINEAGE_INVALID'')) = Inr es"
    unfolding load_evidence_def by (rule bindE_InrE)
  with assms(2) obtain xs where "mapE evidence_of_json xs = Inr es"
    by (cases v) (auto split: json.splits sum.splits)
  from mapE_set [OF this assms(2)] show ?thesis using evidence_of_json_init by blast
qed

section \<open>The changes the operations may make\<close>

inductive store_change :: "(string \<Rightarrow> string) \<Rightarrow> store \<Rightarrow> store \<Rightarrow> bool" for sha where
  Assign_port: "ledger_of st = Inr l \<Longrightarrow> map_of l w = None \<Longrightarrow> first_free (map snd l) 46000 = Some p \<Longrightarrow>
    store_change sha st (snd (write_ledger (l @ [(w, p)]) st))"
| New_contract: "is_work_id w \<Longrightarrow> load_contract sha w st = Inr None \<Longrightarrow> contract_valid c \<Longrightarrow> hc_work c = w \<Longrightarrow>
    store_change sha st (put Contracts w (JObj (contract_fields sha c)) st)"
| Bind_change: "load_contract sha w st = Inr (Some c) \<Longrightarrow> hc_change c = None \<Longrightarrow>
    exists_file Promotions w st = Inr False \<Longrightarrow> exists_file Candidates w st = Inr False \<Longrightarrow>
    contract_valid (c\<lparr>hc_change := Some ch\<rparr>) \<Longrightarrow>
    store_change sha st (put Contracts w (JObj (contract_fields sha (c\<lparr>hc_change := Some ch\<rparr>))) st)"
| Append_evidence: "is_work_id w \<Longrightarrow> load_evidence w st = Inr es \<Longrightarrow> \<forall>x \<in> set es. ev_id x \<noteq> ev_id e \<Longrightarrow> evidence_valid e \<Longrightarrow>
    store_change sha st (put Evidence w (JArr (map (JObj \<circ> evidence_fields) (es @ [e]))) st)"
| Write_recovery: "is_work_id w \<Longrightarrow> store_change sha st (put Recoveries w (JObj (recovery_fields r)) st)"
| Manual_exit: "load_contract sha w st = Inr (Some c) \<Longrightarrow> load_manual_exit w st = Inr None \<Longrightarrow> load_evidence w st = Inr es \<Longrightarrow>
    store_change sha st (put Manual_exits w (JObj (manual_exit_fields sha w c es)) st)"
| Write_candidate: "is_work_id w \<Longrightarrow> store_change sha st (put Candidates w (JObj d) st)"
| New_execution: "is_work_id w \<Longrightarrow> load_execution w st = Inr None \<Longrightarrow> field d ''work_id'' = JStr w \<Longrightarrow>
    store_change sha st (put Executions w (JObj d) st)"
| Write_promotion: "load_contract sha (pm_work p) st = Inr (Some c) \<Longrightarrow> contract_fingerprint sha c = pm_fingerprint p \<Longrightarrow>
    store_change sha st (put Promotions (pm_work p) (JObj (promotion_fields p)) st)"

text \<open>The operations of the store, as its clients call them.\<close>

inductive store_step :: "(string \<Rightarrow> string) \<Rightarrow> store \<Rightarrow> store \<Rightarrow> bool" for sha where
  "candidate_port w st = (r, st') \<Longrightarrow> store_step sha st st'"
| "materialize_contract sha a st = (r, st') \<Longrightarrow> store_step sha st st'"
| "contract_valid c \<Longrightarrow> save_contract sha c st = (r, st') \<Longrightarrow> store_step sha st st'"
| "bind_change_id sha w change st = (r, st') \<Longrightarrow> store_step sha st st'"
| "evidence_valid e \<Longrightarrow> append_evidence sha w e st = (r, st') \<Longrightarrow> store_step sha st st'"
| "save_recovery sha w rs st = (r, st') \<Longrightarrow> store_step sha st st'"
| "once_through_recovery sha fresh w act st = (r, st') \<Longrightarrow> store_step sha st st'"
| "save_manual_exit sha w st = (r, st') \<Longrightarrow> store_step sha st st'"
| "save_candidate w d st = (r, st') \<Longrightarrow> store_step sha st st'"
| "save_execution sha w d st = (r, st') \<Longrightarrow> store_step sha st st'"
| "save_promotion sha p st = (r, st') \<Longrightarrow> store_step sha st st'"

abbreviation changes :: "(string \<Rightarrow> string) \<Rightarrow> store \<Rightarrow> store \<Rightarrow> bool" where
  "changes sha \<equiv> (store_change sha)\<^sup>*\<^sup>*"

lemma bindS_read:
  assumes "bindS (readE f) g st = (r, st')"
  obtains e where "st' = st" "r = Inl e" | x where "f st = Inr x" "g x st = (r, st')"
  using assms by (cases "f st") (auto simp: bindS_def)

lemma bindS_lift:
  assumes "bindS (liftE v) g st = (r, st')"
  obtains e where "st' = st" "r = Inl e" | x where "v = Inr x" "g x st = (r, st')"
  using assms by (cases v) (auto simp: bindS_def)

lemma bindS_write:
  assumes "bindS (write_file a w v) (\<lambda>_. returnS x) st = (r, st')"
  obtains "st' = st" | "is_work_id w" "st' = put a w v st"
  using assms by (cases "is_work_id w") (auto simp: bindS_def write_file_def put_def)

lemma write_contract_cases:
  assumes "write_contract sha w c st = (r, st')"
  obtains "st' = st" | "is_work_id w" "st' = put Contracts w (JObj (contract_fields sha c)) st"
  using assms unfolding write_contract_def by (rule bindS_write)


lemma mapE_obligation_text: "mapE parse_obligation (map obligation_text ys) = Inr ys"
  by (induction ys) simp_all

section \<open>Every operation makes only permitted changes\<close>

lemma assign_port_cases:
  assumes "assign_port w l = Inr p"
  obtains "map_of l w = Some p" | "map_of l w = None" "first_free (map snd l) 46000 = Some p"
  using assms by (auto simp: assign_port_def split: option.splits)

lemma record_port_changes:
  assumes "ledger_of st = Inr l" and "assign_port w l = Inr p" and "record_port w p l st = (r, st')"
  shows "r = Inr () \<and> changes sha st st' \<and> st_files st' = st_files st"
  using assms(2)
proof (cases rule: assign_port_cases)
  case 1
  with assms(3) show ?thesis by (simp add: record_port_def)
next
  case 2
  with assms(3) have "st' = snd (write_ledger (l @ [(w, p)]) st)" "r = Inr ()"
    by (simp_all add: record_port_def write_ledger_def)
  with store_change.Assign_port [OF assms(1) 2] show ?thesis by (auto simp: write_ledger_def)
qed

lemma read_file_files: "st_files st' = st_files st \<Longrightarrow> read_file a w st' = read_file a w st"
  by (simp add: read_file_def)

lemma load_contract_files: "st_files st' = st_files st \<Longrightarrow> load_contract sha w st' = load_contract sha w st"
  by (simp add: load_contract_def read_file_def)

lemma candidate_port_changes: "candidate_port w st = (r, st') \<Longrightarrow> changes sha st st'"
proof -
  assume c: "candidate_port w st = (r, st')"
  show ?thesis
  proof (cases "st' = st")
    case False
    from c obtain l p where l: "ledger_of st = Inr l" and p: "assign_port w l = Inr p"
      and rest: "bindS (record_port w p l) (\<lambda>_. returnS p) st = (r, st')"
      unfolding candidate_port_def using False by (elim bindS_lift bindS_read) blast+
    obtain x t where t: "record_port w p l st = (x, t)" by fastforce
    from record_port_changes [OF l p t] t rest show ?thesis by (auto simp: bindS_def)
  qed simp
qed

lemma contract_init_work: "contract_init a = Inr c \<Longrightarrow> hc_work c = ha_work a \<and> hc_change c = ha_change a"
proof -
  assume i: "contract_init a = Inr c"
  then have "\<not> ha_schema a \<notin> {1, 2}" unfolding contract_init_def by (metis Inl_Inr_False)
  with i obtain obs where obs: "mapE parse_obligation (ha_obligations a) = Inr obs"
    by (simp only: contract_init_def if_False) (erule bindE_InrE)
  obtain port where port: "ha_port a = Some port"
    using i obs by (cases "ha_port a") (simp_all add: contract_init_def split: if_splits)
  show ?thesis using i obs port by (auto simp: contract_init_def split: if_splits)
qed

lemma materialize_cases:
  assumes "materialize_contract sha a st = (r, st')"
  obtains x where "st' = st" "r = Inl x"
  | e c port l where "load_contract sha (ha_work a) st = Inr (Some e)" "ledger_of st = Inr l" "assign_port (ha_work a) l = Inr port"
      "contract_init (a\<lparr>ha_port := Some port, ha_schema := 2\<rparr>) = Inr c" "r = same_contract sha e c" "st' = st"
  | c port l t where "is_work_id (ha_work a)" "load_contract sha (ha_work a) st = Inr None" "ledger_of st = Inr l"
      "assign_port (ha_work a) l = Inr port" "contract_init (a\<lparr>ha_port := Some port, ha_schema := 2\<rparr>) = Inr c"
      "record_port (ha_work a) port l st = (Inr (), t)" "write_contract sha (ha_work a) c t = (r, st')"
proof (cases "st' = st \<and> (\<exists>e. r = Inl e)")
  case True
  then show ?thesis using that(1) by blast
next
  case False
  note F = this
  from assms have "bindS (liftE (safe_work_id (ha_work a))) (\<lambda>_.
      bindS (readE (load_contract sha (ha_work a))) (\<lambda>existing.
      bindS (readE ledger_of) (\<lambda>ledger.
      bindS (liftE (assign_port (ha_work a) ledger)) (\<lambda>port.
      bindS (liftE (contract_init (a\<lparr>ha_port := Some port, ha_schema := 2\<rparr>))) (\<lambda>c.
        (case existing of
           Some e \<Rightarrow> liftE (same_contract sha e c)
         | None \<Rightarrow> bindS (record_port (ha_work a) port ledger) (\<lambda>_. write_contract sha (ha_work a) c))))))) st = (r, st')"
    by (simp only: materialize_contract_def Let_def)
  then obtain u ex l port c where *: "safe_work_id (ha_work a) = Inr u" "load_contract sha (ha_work a) st = Inr ex" "ledger_of st = Inr l"
      "assign_port (ha_work a) l = Inr port" "contract_init (a\<lparr>ha_port := Some port, ha_schema := 2\<rparr>) = Inr c"
      "(case ex of
           Some e \<Rightarrow> liftE (same_contract sha e c)
         | None \<Rightarrow> bindS (record_port (ha_work a) port l) (\<lambda>_. write_contract sha (ha_work a) c)) st = (r, st')"
    using F by (elim bindS_lift bindS_read) blast+
  show ?thesis
  proof (cases ex)
    case (Some e)
    with *(6) have r: "r = same_contract sha e c" "st' = st" by simp_all
    show ?thesis by (rule that(2) [OF *(2) [unfolded Some] *(3,4,5) r])
  next
    case None
    obtain x t where t: "record_port (ha_work a) port l st = (x, t)" by fastforce
    with record_port_changes [OF *(3,4)] have x: "x = Inr ()" by blast
    have "is_work_id (ha_work a)" using *(1) by (cases "is_work_id (ha_work a)") simp_all
    moreover have "write_contract sha (ha_work a) c t = (r, st')" using *(6) None t x by (simp add: bindS_def)
    ultimately show ?thesis using t x that(3) [OF _ *(2) [unfolded None] *(3,4,5)] by simp
  qed
qed

lemma materialize_changes: "materialize_contract sha a st = (r, st') \<Longrightarrow> changes sha st st'"
proof (erule materialize_cases)
  fix c port l t
  assume w: "is_work_id (ha_work a)" and ld: "load_contract sha (ha_work a) st = Inr None" and l: "ledger_of st = Inr l"
    and p: "assign_port (ha_work a) l = Inr port" and c: "contract_init (a\<lparr>ha_port := Some port, ha_schema := 2\<rparr>) = Inr c"
    and t: "record_port (ha_work a) port l st = (Inr (), t)" and wr: "write_contract sha (ha_work a) c t = (r, st')"
  from record_port_changes [OF l p t] have st: "changes sha st t" and f: "st_files t = st_files st" by blast+
  from wr show "changes sha st st'"
  proof (rule write_contract_cases)
    assume "st' = put Contracts (ha_work a) (JObj (contract_fields sha c)) t"
    moreover have "store_change sha t (put Contracts (ha_work a) (JObj (contract_fields sha c)) t)"
      using load_contract_files [OF f, of sha "ha_work a"] ld w contract_init_valid [OF c] contract_init_work [OF c]
      by (intro store_change.New_contract) simp_all
    ultimately show ?thesis using st by (simp add: rtranclp.rtrancl_into_rtrancl)
  qed (use st in simp)
qed simp_all

lemma change_one: "store_change sha st st' \<Longrightarrow> changes sha st st'"
  by (rule r_into_rtranclp)

lemma save_contract_changes:
  assumes "contract_valid c" and "save_contract sha c st = (r, st')"
  shows "changes sha st st'"
  using assms(2) unfolding save_contract_def
proof (rule bindS_read)
  fix ex
  assume ld: "load_contract sha (hc_work c) st = Inr ex"
    and rest: "(case ex of Some e \<Rightarrow> liftE (same_contract sha e c) | None \<Rightarrow> write_contract sha (hc_work c) c) st = (r, st')"
  show ?thesis
  proof (cases ex)
    case None
    with rest have "write_contract sha (hc_work c) c st = (r, st')" by simp
    then show ?thesis
    proof (rule write_contract_cases)
      assume "is_work_id (hc_work c)" "st' = put Contracts (hc_work c) (JObj (contract_fields sha c)) st"
      with ld None assms(1) show ?thesis by (auto intro!: change_one store_change.New_contract)
    qed simp
  qed (use rest in simp)
qed simp

lemma contract_init_change:
  assumes "contract_valid c" and "contract_init ((contract_args_of c)\<lparr>ha_change := Some ch\<rparr>) = Inr b"
  shows "b = c\<lparr>hc_change := Some ch\<rparr>"
proof -
  let ?a = "(contract_args_of c)\<lparr>ha_change := Some ch\<rparr>"
  have "mapE parse_obligation (ha_obligations ?a) = Inr (hc_obligations c)"
    by (simp add: contract_args_of_def mapE_obligation_text)
  moreover have "\<not> ha_schema ?a \<notin> {1, 2}" using assms(2) unfolding contract_init_def by (metis Inl_Inr_False)
  ultimately show ?thesis
    using assms(2) by (auto simp: contract_init_def contract_args_of_def split: if_splits)
qed

lemma bind_cases:
  assumes "bind_change_id sha w change st = (r, st')"
  obtains "st' = st"
  | c where "load_contract sha w st = Inr (Some c)" "hc_change c = None"
      "exists_file Promotions w st = Inr False" "exists_file Candidates w st = Inr False"
      "contract_valid (c\<lparr>hc_change := Some (py_strip change)\<rparr>)"
      "r = Inr (c\<lparr>hc_change := Some (py_strip change)\<rparr>)"
      "st' = put Contracts w (JObj (contract_fields sha (c\<lparr>hc_change := Some (py_strip change)\<rparr>))) st"
proof (cases "st' = st")
  case False
  from assms obtain c where c: "require_contract sha w st = Inr c"
    and rest: "(case hc_change c of
          Some old \<Rightarrow>
            if old = py_strip change then returnS c else failS (Coded ''HANDOFF_CONTRACT_IMMUTABLE'')
        | None \<Rightarrow>
            bindS (readE (exists_file Promotions w)) (\<lambda>promoted.
            bindS (readE (exists_file Candidates w)) (\<lambda>candidate.
              if promoted \<or> candidate then failS (Coded ''HANDOFF_CHANGE_BIND_TOO_LATE'')
              else bindS (liftE (contract_init ((contract_args_of c)\<lparr>ha_change := Some (py_strip change)\<rparr>)))
                     (\<lambda>bound. write_contract sha w bound)))) st = (r, st')"
    unfolding bind_change_id_def using False by (elim bindS_lift bindS_read) blast+
  from c have ld: "load_contract sha w st = Inr (Some c)" by (simp only: require_contract_Inr)
  have ch: "hc_change c = None" using rest False by (cases "hc_change c") (simp_all split: if_splits)
  with rest obtain pr ca where pc: "exists_file Promotions w st = Inr pr" "exists_file Candidates w st = Inr ca"
    and rest': "(if pr \<or> ca then failS (Coded ''HANDOFF_CHANGE_BIND_TOO_LATE'')
              else bindS (liftE (contract_init ((contract_args_of c)\<lparr>ha_change := Some (py_strip change)\<rparr>)))
                     (\<lambda>bound. write_contract sha w bound)) st = (r, st')"
    using False by (simp only: option.case) (elim bindS_read, blast+)
  have f: "\<not> pr" "\<not> ca" using rest' False by (auto split: if_splits)
  with rest' have "bindS (liftE (contract_init ((contract_args_of c)\<lparr>ha_change := Some (py_strip change)\<rparr>)))
                     (\<lambda>bound. write_contract sha w bound) st = (r, st')" by simp
  then obtain b where b: "contract_init ((contract_args_of c)\<lparr>ha_change := Some (py_strip change)\<rparr>) = Inr b"
    and wr: "write_contract sha w b st = (r, st')" using False by (elim bindS_lift) blast+
  have beq: "b = c\<lparr>hc_change := Some (py_strip change)\<rparr>"
    by (rule contract_init_change [OF load_contract_valid [OF ld] b])
  have wid: "is_work_id w" by (rule load_contract_id [OF ld])
  from wr wid have "r = Inr b" "st' = put Contracts w (JObj (contract_fields sha b)) st"
    by (simp_all add: write_contract_def bindS_def write_file_def put_def)
  with that(2) [OF ld ch] pc f contract_init_valid [OF b] show ?thesis unfolding beq by simp
qed

lemma bind_changes: "bind_change_id sha w change st = (r, st') \<Longrightarrow> changes sha st st'"
  by (erule bind_cases) (auto intro: change_one store_change.Bind_change)

lemma append_cases:
  assumes "append_evidence sha w e st = (r, st')"
  obtains "st' = st" | es where "is_work_id w" "load_evidence w st = Inr es" "\<forall>x \<in> set es. ev_id x \<noteq> ev_id e"
    "st' = put Evidence w (JArr (map (JObj \<circ> evidence_fields) (es @ [e]))) st"
proof (cases "st' = st")
  case False
  from assms obtain es where es: "load_evidence w st = Inr es"
    and rest: "(case filter (\<lambda>x. ev_id x = ev_id e) es of
          x # _ \<Rightarrow> if \<not> evidence_eq x e then failS (Coded ''EVIDENCE_ID_IMMUTABLE'') else returnS es
        | [] \<Rightarrow>
            bindS (write_file Evidence w (JArr (map (JObj \<circ> evidence_fields) (es @ [e]))))
              (\<lambda>_. returnS (es @ [e]))) st = (r, st')"
    unfolding append_evidence_def using False by (elim bindS_read) blast+
  have none: "filter (\<lambda>x. ev_id x = ev_id e) es = []"
    using rest False by (cases "filter (\<lambda>x. ev_id x = ev_id e) es") (simp_all split: if_splits)
  with rest have "bindS (write_file Evidence w (JArr (map (JObj \<circ> evidence_fields) (es @ [e]))))
              (\<lambda>_. returnS (es @ [e])) st = (r, st')" by simp
  then show ?thesis
    by (rule bindS_write) (use that es none False in \<open>auto simp: filter_empty_conv\<close>)
qed

lemma append_changes:
  assumes "evidence_valid e" and "append_evidence sha w e st = (r, st')"
  shows "changes sha st st'"
  using assms(2)
proof (rule append_cases)
  fix es
  assume "is_work_id w" "load_evidence w st = Inr es" "\<forall>x \<in> set es. ev_id x \<noteq> ev_id e"
    and st': "st' = put Evidence w (JArr (map (JObj \<circ> evidence_fields) (es @ [e]))) st"
  then show ?thesis unfolding st' using assms(1) by (intro change_one store_change.Append_evidence)
qed simp

lemma write_recovery_changes:
  "bindS (write_file Recoveries w (JObj (recovery_fields x))) (\<lambda>_. returnS y) st = (r, st') \<Longrightarrow> changes sha st st'"
  by (erule bindS_write) (auto intro: change_one store_change.Write_recovery)

lemma save_recovery_changes: "save_recovery sha w x st = (r, st') \<Longrightarrow> changes sha st st'"
  unfolding save_recovery_def by (erule bindS_read) (simp, erule write_recovery_changes)

lemma update_recovery_changes: "update_recovery sha w i f st = (r, st') \<Longrightarrow> changes sha st st'"
  unfolding update_recovery_def by (elim bindS_read; (erule write_recovery_changes | simp))

lemma recovery_tool_changes: "once_through_recovery sha fresh w a st = (r, st') \<Longrightarrow> changes sha st st'"
  unfolding once_through_recovery_def
  by (elim bindS_read; (simp; fail)?)
    (auto split: recovery_action.splits option.splits list.splits dest: update_recovery_changes)

lemma manual_exit_changes: "save_manual_exit sha w st = (r, st') \<Longrightarrow> changes sha st st'"
proof -
  assume a: "save_manual_exit sha w st = (r, st')"
  show ?thesis
  proof (cases "st' = st")
    case False
    from a obtain c ex where c: "require_contract sha w st = Inr c" and ex: "load_manual_exit w st = Inr ex"
      and rest: "(case ex of
        Some d \<Rightarrow>
            if field d ''contract_fingerprint'' \<noteq> JStr (contract_fingerprint sha c)
              then failS (Coded ''ONCE_THROUGH_EXIT_INVALID'')
            else returnS d
        | None \<Rightarrow>
            bindS (readE (load_evidence w)) (\<lambda>es.
            bindS (write_file Manual_exits w (JObj (manual_exit_fields sha w c es)))
              (\<lambda>_. returnS (manual_exit_fields sha w c es)))) st = (r, st')"
      unfolding save_manual_exit_def using False by (elim bindS_read) blast+
    have n: "ex = None" using rest False by (cases ex) (simp_all split: if_splits)
    with rest obtain es where es: "load_evidence w st = Inr es"
      and w: "bindS (write_file Manual_exits w (JObj (manual_exit_fields sha w c es)))
              (\<lambda>_. returnS (manual_exit_fields sha w c es)) st = (r, st')"
      using False by (simp only: option.case) (elim bindS_read, blast+)
    from w show ?thesis
      by (rule bindS_write)
        (use c ex n es in \<open>auto simp: require_contract_Inr intro!: change_one store_change.Manual_exit\<close>)
  qed simp
qed

lemma candidate_changes: "save_candidate w d st = (r, st') \<Longrightarrow> changes sha st st'"
  unfolding save_candidate_def by (erule bindS_write) (auto intro: change_one store_change.Write_candidate)

lemma execution_changes: "save_execution sha w d st = (r, st') \<Longrightarrow> changes sha st st'"
proof -
  assume a: "save_execution sha w d st = (r, st')"
  show ?thesis
  proof (cases "st' = st")
    case False
    from a obtain u ex where u: "raise_if (field d ''work_id'' \<noteq> JStr w) (Coded ''EXECUTION_RECEIPT_INVALID'') = Inr (u::unit)"
      and ex: "load_execution w st = Inr ex"
      and rest: "(case ex of
          Some d' \<Rightarrow>
            if \<not> py_eq (JObj d') (JObj d) then failS (Coded ''EXECUTION_RECEIPT_IMMUTABLE'') else returnS d'
        | None \<Rightarrow> bindS (write_file Executions w (JObj d)) (\<lambda>_. returnS d)) st = (r, st')"
      unfolding save_execution_def using False by (elim bindS_read bindS_lift) blast+
    have n: "ex = None" using rest False by (cases ex) (simp_all split: if_splits)
    with rest have "bindS (write_file Executions w (JObj d)) (\<lambda>_. returnS d) st = (r, st')" by simp
    then show ?thesis
      by (rule bindS_write)
        (use u ex n in \<open>auto simp: raise_if_eq_Inr intro!: change_one store_change.New_execution\<close>)
  qed simp
qed

lemma promotion_changes: "save_promotion sha p st = (r, st') \<Longrightarrow> changes sha st st'"
proof -
  assume a: "save_promotion sha p st = (r, st')"
  show ?thesis
  proof (cases "st' = st")
    case False
    from a obtain c u where c: "require_contract sha (pm_work p) st = Inr c"
      and u: "raise_if (contract_fingerprint sha c \<noteq> pm_fingerprint p) (Coded ''PROMOTION_HANDOFF_INVALID'') = Inr (u::unit)"
      and w: "bindS (write_file Promotions (pm_work p) (JObj (promotion_fields p))) (\<lambda>_. returnS p) st = (r, st')"
      unfolding save_promotion_def using False by (elim bindS_read bindS_lift) blast+
    from w show ?thesis
      by (rule bindS_write)
        (use c u in \<open>auto simp: require_contract_Inr raise_if_eq_Inr intro!: change_one store_change.Write_promotion\<close>)
  qed simp
qed

lemma store_step_changes: "store_step sha st st' \<Longrightarrow> changes sha st st'"
  by (erule store_step.cases)
    (auto intro: candidate_port_changes materialize_changes save_contract_changes bind_changes append_changes
      save_recovery_changes recovery_tool_changes manual_exit_changes candidate_changes execution_changes promotion_changes)

lemma store_steps_changes: "(store_step sha)\<^sup>*\<^sup>* st st' \<Longrightarrow> changes sha st st'"
  by (induction rule: rtranclp_induct) (auto dest: store_step_changes)

end
