(* ===== verification/Handoff_Store_Claims.thy ===== *)
theory Handoff_Store_Claims
  imports Handoff_Store_Facts
begin

text \<open>
  The guarantees of the handoff store: candidate ports are unique, bounded and never reassigned; a
  contract only ever gains its change identity; evidence lineages only grow; a materialised contract is
  the requested one; a promotion lookup is unambiguous and bound to the current contract.
\<close>

section \<open>The port ledger\<close>

definition port_of :: "store \<Rightarrow> string \<Rightarrow> int option" where
  "port_of st w = (case ledger_of st of Inl _ \<Rightarrow> None | Inr l \<Rightarrow> map_of l w)"

definition ledger_ok :: "store \<Rightarrow> bool" where
  "ledger_ok st =
     (case ledger_of st of
        Inl _ \<Rightarrow> False
      | Inr l \<Rightarrow> distinct (map fst l) \<and> distinct (map snd l) \<and> (\<forall>p \<in> set (map snd l). 46000 \<le> p \<and> p \<le> 60999))"

lemma first_free_Some:
  "first_free used p = Some q \<Longrightarrow> p \<le> q \<and> q \<le> 60999 \<and> q \<notin> set used \<and> (\<forall>x. p \<le> x \<and> x < q \<longrightarrow> x \<in> set used)"
proof (induction used p rule: first_free.induct)
  case (1 used p)
  show ?case
  proof (cases "60999 < p \<or> p \<notin> set used")
    case True
    with "1.prems" show ?thesis by (auto simp: first_free.simps [of used p] split: if_splits)
  next
    case False
    with "1.prems" have "first_free used (p + 1) = Some q" by (simp add: first_free.simps [of used p])
    with "1.IH" False have IH: "p + 1 \<le> q" "q \<le> 60999" "q \<notin> set used" "\<And>x. p + 1 \<le> x \<Longrightarrow> x < q \<Longrightarrow> x \<in> set used"
      by auto
    have "x \<in> set used" if "p \<le> x" "x < q" for x
      using IH(4) [of x] that False by (cases "x = p") auto
    with IH show ?thesis by auto
  qed
qed

lemma first_free_None: "first_free used p = None \<longleftrightarrow> {p..60999} \<subseteq> set used"
proof (induction used p rule: first_free.induct)
  case (1 used p)
  show ?case
  proof (cases "60999 < p \<or> p \<notin> set used")
    case True
    then have "{p..60999} \<subseteq> set used \<longleftrightarrow> 60999 < p" by (cases "60999 < p") (simp, force)
    with True show ?thesis by (auto simp: first_free.simps [of used p])
  next
    case False
    then have "first_free used p = first_free used (p + 1)" by (simp add: first_free.simps [of used p])
    moreover have "{p..60999} = insert p {p + 1..60999}" using False by auto
    ultimately show ?thesis using "1.IH" False by simp
  qed
qed

lemma ints_of_map: "ints_of (map (map_prod id JInt) l) = Some l"
  by (induction l) auto

lemma ledger_of_written: "ledger_of (snd (write_ledger l st)) = Inr (sort_key fst l)"
proof -
  have "stored_obj (map (map_prod id JInt) l) = map (map_prod id JInt) (sort_key fst l)"
    by (simp add: comp_def map_prod_def case_prod_unfold sort_key_map [where k = fst and f = "\<lambda>x. (fst x, JInt (snd x))"])
  then show ?thesis by (simp add: ledger_of_def write_ledger_def decode_def ints_of_map)
qed

lemma map_snd_sort_key: "distinct (map snd (sort_key fst l)) \<longleftrightarrow> distinct (map snd l)"
  by (simp add: distinct_map)

lemma map_fst_sort_key: "distinct (map fst (sort_key fst l)) \<longleftrightarrow> distinct (map fst l)"
  by (simp add: distinct_map)

lemma assigned:
  assumes ok: "ledger_ok st" and l: "ledger_of st = Inr l" and w: "map_of l w = None"
    and p: "first_free (map snd l) 46000 = Some p"
  shows "ledger_ok (snd (write_ledger (l @ [(w, p)]) st))"
    and "port_of (snd (write_ledger (l @ [(w, p)]) st)) = (port_of st)(w \<mapsto> p)"
proof -
  from w have w': "w \<notin> fst ` set l" by (simp add: map_of_eq_None_iff)
  from ok l have d: "distinct (map fst l)" "distinct (map snd l)" "\<forall>p \<in> set (map snd l). 46000 \<le> p \<and> p \<le> 60999"
    by (simp_all add: ledger_ok_def)
  from first_free_Some [OF p] have p': "46000 \<le> p" "p \<le> 60999" "p \<notin> snd ` set l" by auto
  have dist: "distinct (map fst (l @ [(w, p)]))" "distinct (map snd (l @ [(w, p)]))"
    using d w' p' by auto
  then show "ledger_ok (snd (write_ledger (l @ [(w, p)]) st))"
    using d p' by (simp add: ledger_ok_def ledger_of_written map_snd_sort_key map_fst_sort_key del: map_append)
  have "map_of (l @ [(w, p)]) = (map_of l)(w \<mapsto> p)"
    using w by (auto simp: fun_eq_iff map_add_def split: option.splits)
  then show "port_of (snd (write_ledger (l @ [(w, p)]) st)) = (port_of st)(w \<mapsto> p)"
    using map_of_sort_key [OF dist(1)] l by (simp add: port_of_def ledger_of_written fun_eq_iff)
qed

lemma ledger_of_put [simp]: "ledger_of (put a w v st) = ledger_of st"
  by (simp add: ledger_of_def put_def)

lemma change_ports:
  assumes "store_change sha st st'" and "ledger_ok st"
  shows "ledger_ok st' \<and> (\<forall>w p. port_of st w = Some p \<longrightarrow> port_of st' w = Some p)"
  using assms
proof cases
  case (Assign_port l w p)
  with assigned [OF assms(2) Assign_port(2,3,4)] show ?thesis by (auto simp: port_of_def)
qed (simp_all add: ledger_ok_def port_of_def)

lemma changes_ports:
  assumes "changes sha st st'" and "ledger_ok st"
  shows "ledger_ok st' \<and> (\<forall>w p. port_of st w = Some p \<longrightarrow> port_of st' w = Some p)"
  using assms by (induction rule: rtranclp_induct) (use change_ports in blast)+

lemma ports_unique: "ledger_ok st \<Longrightarrow> port_of st w = Some p \<Longrightarrow> 46000 \<le> p \<and> p \<le> 60999 \<and> (port_of st v = Some p \<longrightarrow> v = w)"
proof -
  assume ok: "ledger_ok st" and p: "port_of st w = Some p"
  then obtain l where l: "ledger_of st = Inr l" "distinct (map snd l)" "\<forall>p \<in> set (map snd l). 46000 \<le> p \<and> p \<le> 60999"
    by (auto simp: ledger_ok_def split: sum.splits)
  with p have "(w, p) \<in> set l" by (auto simp: port_of_def dest: map_of_SomeD)
  moreover have "(v, p) \<in> set l" if "port_of st v = Some p" using that l by (auto simp: port_of_def dest: map_of_SomeD)
  ultimately show ?thesis using l by (fastforce simp: distinct_map inj_on_def)
qed

section \<open>Sample states\<close>

definition no_store :: store where
  "no_store = \<lparr>st_ledger = None, st_files = []\<rparr>"

text \<open>A stand-in digest of the right length.\<close>

definition sample_sha :: "string \<Rightarrow> string" where
  "sample_sha s = s"

definition sample_args :: contract_args where
  "sample_args =
     \<lparr>ha_project = ''p'', ha_work = ''W1'', ha_repository = ''o/r'', ha_requirements = [''q''],
      ha_acceptance = [''a''], ha_surfaces = [''s''], ha_obligations = [''verification''], ha_port = None,
      ha_source = ''src'', ha_change = None, ha_schema = 2\<rparr>"

definition sample_contract :: contract where
  "sample_contract =
     \<lparr>hc_project = ''p'', hc_work = ''W1'', hc_repository = ''o/r'', hc_requirements = [''q''],
      hc_acceptance = [''a''], hc_surfaces = [''s''], hc_obligations = [Verification], hc_port = 46000,
      hc_source = ''src'', hc_change = None, hc_schema = 2\<rparr>"

lemma no_store_ok: "ledger_ok no_store"
  by (simp add: ledger_ok_def no_store_def ledger_of_def decode_def)

lemma first_port: "first_free [] 46000 = Some 46000"
  by (simp add: first_free.simps)

definition store1 :: store where
  "store1 = put Contracts ''W1'' (JObj (contract_fields sample_sha sample_contract))
     (no_store\<lparr>st_ledger := Some (Content (JObj [(''W1'', JInt 46000)]))\<rparr>)"

lemma W1: "is_work_id ''W1''"
  by code_simp

lemma sample_init: "contract_init (sample_args\<lparr>ha_port := Some 46000, ha_schema := 2\<rparr>) = Inr sample_contract"
  by code_simp

lemma sample_valid: "contract_valid sample_contract"
  by (rule contract_init_valid [OF sample_init])

lemma store1_materialized: "materialize_contract sample_sha sample_args no_store = (Inr sample_contract, store1)"
proof -
  have ld: "load_contract sample_sha ''W1'' no_store = Inr None"
    by (simp add: load_contract_def read_file_def no_store_def decode_def W1)
  have lg: "ledger_of no_store = Inr []" by (simp add: ledger_of_def no_store_def decode_def)
  have w: "ha_work sample_args = ''W1''" by (simp add: sample_args_def)
  show ?thesis
    by (simp add: materialize_contract_def Let_def w W1 bindS_def lg ld assign_port_def first_port sample_init
        record_port_def write_ledger_def write_contract_def write_file_def store1_def put_def)
qed

lemma store1_step: "(store_step sample_sha)\<^sup>*\<^sup>* no_store store1"
  by (rule r_into_rtranclp, rule store_step.intros(2), rule store1_materialized)

lemma store1_contract: "load_contract sample_sha ''W1'' store1 = Inr (Some sample_contract)"
  unfolding store1_def by (rule load_contract_written [OF sample_valid W1])

lemma store1_ports: "port_of store1 ''W1'' = Some 46000"
  by (simp add: port_of_def store1_def ledger_of_def decode_def put_def)

section \<open>Claims\<close>

text \<open>C28: candidate ports stay within 46000 to 60999, no two works share one, and no operation ever
  reassigns one.\<close>

theorem candidate_ports_stable:
  assumes "(store_step sha)\<^sup>*\<^sup>* st st'" and "ledger_ok st"
  shows "ledger_ok st' \<and> (\<forall>w p. port_of st w = Some p \<longrightarrow> port_of st' w = Some p) \<and>
    (\<forall>v w p. port_of st' w = Some p \<longrightarrow> 46000 \<le> p \<and> p \<le> 60999 \<and> (port_of st' v = Some p \<longrightarrow> v = w))"
  using changes_ports [OF store_steps_changes [OF assms(1)] assms(2)] ports_unique by blast

theorem candidate_ports_stable_witness: "ledger_ok store1 \<and> port_of store1 ''W1'' = Some 46000"
  using candidate_ports_stable [OF store1_step no_store_ok] store1_ports by (intro conjI) (elim conjE)

text \<open>An assigned work keeps its port without a write; otherwise the lowest free port of the
  range is recorded for it, and the exhaustion error comes exactly when all ports are taken.\<close>

theorem candidate_port_decides:
  assumes "ledger_ok st" and "is_work_id w"
  shows "case port_of st w of
      Some p \<Rightarrow> candidate_port w st = (Inr p, st)
    | None \<Rightarrow>
        if {46000..60999} \<subseteq> ran (port_of st) then candidate_port w st = (Inl (Coded ''CANDIDATE_PORT_EXHAUSTED''), st)
        else \<exists>p st'. candidate_port w st = (Inr p, st') \<and> port_of st' = (port_of st)(w \<mapsto> p) \<and> ledger_ok st' \<and>
          46000 \<le> p \<and> p \<le> 60999 \<and> p \<notin> ran (port_of st) \<and> {46000..<p} \<subseteq> ran (port_of st)"
proof -
  from assms(1) obtain l where l: "ledger_of st = Inr l" and d: "distinct (map fst l)"
    by (auto simp: ledger_ok_def split: sum.splits)
  have "port_of st = map_of l" using l by (simp add: port_of_def fun_eq_iff)
  then have ran: "ran (port_of st) = set (map snd l)" using d by (simp add: ran_distinct)
  show ?thesis
  proof (cases "port_of st w")
    case (Some p)
    with l have "map_of l w = Some p" by (simp add: port_of_def)
    with l assms(2) Some show ?thesis
      by (simp add: candidate_port_def bindS_def assign_port_def record_port_def)
  next
    case None
    with l have n: "map_of l w = None" by (simp add: port_of_def)
    show ?thesis
    proof (cases "first_free (map snd l) 46000")
      case f: None
      with l n assms(2) have "candidate_port w st = (Inl (Coded ''CANDIDATE_PORT_EXHAUSTED''), st)"
        by (simp add: candidate_port_def bindS_def assign_port_def)
      moreover have "{46000..60999} \<subseteq> ran (port_of st)" using f unfolding first_free_None ran .
      ultimately show ?thesis using None by simp
    next
      case (Some p)
      note ff = first_free_Some [OF Some]
      let ?st = "snd (write_ledger (l @ [(w, p)]) st)"
      have "candidate_port w st = (Inr p, ?st)"
        using l n assms(2) Some
        by (simp add: candidate_port_def bindS_def assign_port_def record_port_def write_ledger_def)
      moreover note assigned [OF assms(1) l n Some]
      moreover have "\<not> {46000..60999} \<subseteq> ran (port_of st)" using ff unfolding ran by auto
      moreover have "46000 \<le> p" "p \<le> 60999" "p \<notin> ran (port_of st)" "{46000..<p} \<subseteq> ran (port_of st)"
        using ff unfolding ran by auto
      ultimately show ?thesis using None by auto
    qed
  qed
qed

theorem candidate_port_decides_witness: "candidate_port ''W1'' store1 = (Inr 46000, store1)"
proof -
  have "ledger_ok store1" using changes_ports [OF store_steps_changes [OF store1_step] no_store_ok] by blast
  from candidate_port_decides [OF this W1] show ?thesis unfolding store1_ports by simp
qed


section \<open>Contracts and evidence\<close>

lemma load_contract_write_ledger [simp]: "load_contract sha w (snd (write_ledger l st)) = load_contract sha w st"
  by (simp add: write_ledger_def)

lemma load_evidence_write_ledger [simp]: "load_evidence w (snd (write_ledger l st)) = load_evidence w st"
  by (simp add: write_ledger_def)

lemma exists_file_write_ledger [simp]: "exists_file a w (snd (write_ledger l st)) = exists_file a w st"
  by (simp add: write_ledger_def exists_file_def)

lemma change_exists: "store_change sha st st' \<Longrightarrow> exists_file a w st = Inr True \<Longrightarrow> exists_file a w st' = Inr True"
  by (erule store_change.cases) (simp_all add: exists_file_put)

lemma changes_exists: "changes sha st st' \<Longrightarrow> exists_file a w st = Inr True \<Longrightarrow> exists_file a w st' = Inr True"
  by (induction rule: rtranclp_induct) (auto dest: change_exists)

lemma exists_file_total: "is_work_id w \<Longrightarrow> exists_file a w st = Inr True \<or> exists_file a w st = Inr False"
  by (auto simp: exists_file_def)

lemma changes_absent:
  assumes "changes sha st st'" and "exists_file a w st' = Inr False"
  shows "exists_file a w st = Inr False"
proof -
  have "is_work_id w" using assms(2) by (cases "is_work_id w") (simp_all add: exists_file_def)
  with exists_file_total [of w a st] changes_exists [OF assms(1), of a w] assms(2) show ?thesis by auto
qed

definition bound_once :: "(string \<Rightarrow> string) \<Rightarrow> string \<Rightarrow> contract \<Rightarrow> store \<Rightarrow> store \<Rightarrow> bool" where
  "bound_once sha w c st st' =
     (hc_change c = None \<and> exists_file Promotions w st = Inr False \<and> exists_file Candidates w st = Inr False \<and>
      (\<exists>ch. load_contract sha w st' = Inr (Some (c\<lparr>hc_change := Some ch\<rparr>))))"

lemma change_contract:
  assumes "store_change sha st st'" and "load_contract sha w st = Inr (Some c)"
  shows "load_contract sha w st' = Inr (Some c) \<or> bound_once sha w c st st'"
  using assms(1)
proof cases
  case (New_contract v d)
  with assms(2) show ?thesis by (auto simp: load_contract_put)
next
  case (Bind_change v d ch)
  show ?thesis
  proof (cases "v = w")
    case True
    with Bind_change assms(2) have "d = c" by simp
    with True Bind_change load_contract_written [OF Bind_change(6), of w sha st] load_contract_id [OF assms(2)]
    show ?thesis by (auto simp: bound_once_def)
  next
    case False
    with Bind_change assms(2) show ?thesis by (simp add: load_contract_put)
  qed
qed (use assms(2) in \<open>simp_all add: load_contract_put\<close>)

lemma changes_contract:
  assumes "changes sha st st'" and "load_contract sha w st = Inr (Some c)"
  shows "load_contract sha w st' = Inr (Some c) \<or> bound_once sha w c st st'"
  using assms(1)
proof (induction rule: rtranclp_induct)
  case base
  then show ?case using assms(2) by simp
next
  case (step y z)
  from step.IH show ?case
  proof
    assume y: "load_contract sha w y = Inr (Some c)"
    from change_contract [OF step(2) y] show ?thesis
      using changes_absent [OF step(1), of Promotions w] changes_absent [OF step(1), of Candidates w]
      by (auto simp: bound_once_def)
  next
    assume b: "bound_once sha w c st y"
    then obtain ch where "load_contract sha w y = Inr (Some (c\<lparr>hc_change := Some ch\<rparr>))" by (auto simp: bound_once_def)
    from change_contract [OF step(2) this] b show ?thesis by (auto simp: bound_once_def)
  qed
qed

text \<open>C27: a stored contract never changes, except that an unbound one may be bound to one change
  while neither a promotion nor a candidate exists for its work.\<close>

theorem contract_immutable:
  assumes "(store_step sha)\<^sup>*\<^sup>* st st'" and "load_contract sha w st = Inr (Some c)"
  shows "load_contract sha w st' = Inr (Some c) \<or>
    (hc_change c = None \<and> exists_file Promotions w st = Inr False \<and> exists_file Candidates w st = Inr False \<and>
     (\<exists>ch. load_contract sha w st' = Inr (Some (c\<lparr>hc_change := Some ch\<rparr>))))"
  using changes_contract [OF store_steps_changes [OF assms(1)] assms(2)] by (simp only: bound_once_def)

definition store2 :: store where
  "store2 = put Contracts ''W1'' (JObj (contract_fields sample_sha (sample_contract\<lparr>hc_change := Some ''001-a''\<rparr>))) store1"

lemma store1_bound: "bind_change_id sample_sha ''W1'' '' 001-a'' store1 = (Inr (sample_contract\<lparr>hc_change := Some ''001-a''\<rparr>), store2)"
proof -
  have s: "py_strip '' 001-a'' = ''001-a''" "\<not> blank '' 001-a''" by code_simp+
  have i: "contract_init ((contract_args_of sample_contract)\<lparr>ha_change := Some ''001-a''\<rparr>) =
      Inr (sample_contract\<lparr>hc_change := Some ''001-a''\<rparr>)" by code_simp
  have u: "hc_change sample_contract = None" by (simp add: sample_contract_def)
  have e: "exists_file Promotions ''W1'' store1 = Inr False" "exists_file Candidates ''W1'' store1 = Inr False"
    by (simp_all add: exists_file_def W1 store1_def put_def no_store_def)
  show ?thesis
    by (simp add: bind_change_id_def W1 bindS_def s require_contract_def store1_contract u e i write_contract_def
        write_file_def store2_def put_def)
qed

theorem contract_immutable_witness:
  "load_contract sample_sha ''W1'' store2 = Inr (Some sample_contract) \<or>
    (hc_change sample_contract = None \<and> (\<exists>ch. load_contract sample_sha ''W1'' store2 = Inr (Some (sample_contract\<lparr>hc_change := Some ch\<rparr>))))"
proof -
  have "(store_step sample_sha)\<^sup>*\<^sup>* store1 store2" by (rule r_into_rtranclp, rule store_step.intros(4), rule store1_bound)
  from contract_immutable [OF this store1_contract] show ?thesis by blast
qed

text \<open>Evidence: the list read later starts with the list read before.\<close>

abbreviation inputs_distinct :: "evidence_reference list \<Rightarrow> bool" where
  "inputs_distinct es \<equiv> \<forall>e \<in> set es. distinct (map fst (ev_inputs e))"

lemma change_evidence:
  assumes "store_change sha st st'" and "load_evidence w st = Inr es" and "inputs_distinct es"
  shows "\<exists>new. load_evidence w st' = Inr new \<and> inputs_distinct new \<and> prefix (map norm_evidence es) (map norm_evidence new)"
  using assms(1)
proof cases
  case (Append_evidence v xs e)
  show ?thesis
  proof (cases "v = w")
    case True
    with Append_evidence assms(2) have "xs = es" by simp
    moreover have valid: "\<forall>x \<in> set (es @ [e]). evidence_valid x"
      using assms(3) load_evidence_init [OF assms(2)] Append_evidence(5) by (auto simp: evidence_valid_def)
    ultimately have "load_evidence w st' = Inr (map norm_evidence (es @ [e]))"
      using load_evidence_written [OF valid, of w st] True Append_evidence(1,2) by simp
    moreover have "inputs_distinct (map norm_evidence (es @ [e]))"
      using valid norm_valid by (fastforce simp: evidence_valid_def)
    ultimately show ?thesis by (auto simp: comp_def)
  next
    case False
    with Append_evidence assms(2,3) show ?thesis
      by (intro exI [of _ es]) (simp add: load_evidence_put [where w = w])
  qed
qed (use assms(2,3) in \<open>(intro exI [of _ es], simp add: load_evidence_put [where w = w])\<close>)+

lemma changes_evidence:
  assumes "changes sha st st'" and "load_evidence w st = Inr es" and "inputs_distinct es"
  shows "\<exists>new. load_evidence w st' = Inr new \<and> inputs_distinct new \<and> prefix (map norm_evidence es) (map norm_evidence new)"
  using assms(1)
proof (induction rule: rtranclp_induct)
  case (step y z)
  then obtain ys where "load_evidence w y = Inr ys" "inputs_distinct ys" "prefix (map norm_evidence es) (map norm_evidence ys)"
    by blast
  with change_evidence [OF step(2)] show ?case by (meson prefix_order.trans)
qed (use assms(2,3) in auto)

text \<open>an evidence lineage only grows: every reference read before is read again in its place,
  up to the order of its validity inputs.\<close>

theorem evidence_lineage_grows:
  assumes "(store_step sha)\<^sup>*\<^sup>* st st'" and "load_evidence w st = Inr es"
    and "\<forall>e \<in> set es. distinct (map fst (ev_inputs e))"
  shows "\<exists>new. load_evidence w st' = Inr new \<and> prefix (map norm_evidence es) (map norm_evidence new)"
  using changes_evidence [OF store_steps_changes [OF assms(1)] assms(2,3)] by blast

definition first_evidence :: evidence_reference where
  "first_evidence = sample_evidence ''e1'' ''implementation''"

lemma first_evidence_valid: "evidence_valid first_evidence"
proof -
  have "evidence_reference_init first_evidence = Inr first_evidence" by code_simp
  moreover have "distinct (map fst (ev_inputs first_evidence))" by code_simp
  ultimately show ?thesis by (simp add: evidence_valid_def)
qed

definition store3 :: store where
  "store3 = put Evidence ''W1'' (JArr (map (JObj \<circ> evidence_fields) [first_evidence])) store1"

lemma store3_appended: "append_evidence sample_sha ''W1'' first_evidence store1 = (Inr [first_evidence], store3)"
proof -
  have "load_evidence ''W1'' store1 = Inr []"
    by (simp add: load_evidence_def read_file_def W1 store1_def put_def no_store_def decode_def)
  then show ?thesis
    by (simp add: append_evidence_def bindS_def require_contract_def store1_contract write_file_def W1 store3_def put_def)
qed

lemma store3_evidence: "load_evidence ''W1'' store3 = Inr [norm_evidence first_evidence]"
  unfolding store3_def using load_evidence_written [of "[first_evidence]" "''W1''" store1] first_evidence_valid W1 by simp

theorem evidence_lineage_grows_witness:
  "\<exists>new. load_evidence ''W1'' store3 = Inr new \<and> prefix (map norm_evidence [norm_evidence first_evidence]) (map norm_evidence new)"
proof (rule evidence_lineage_grows)
  show "(store_step sample_sha)\<^sup>*\<^sup>* store3 store3" by simp
  show "load_evidence ''W1'' store3 = Inr [norm_evidence first_evidence]" by (rule store3_evidence)
  show "\<forall>e \<in> set [norm_evidence first_evidence]. distinct (map fst (ev_inputs e))"
    using norm_valid [OF first_evidence_valid] by (simp add: evidence_valid_def)
qed


section \<open>Materialisation\<close>

lemma contract_init_port: "contract_init a = Inr c \<Longrightarrow> ha_port a = Some (hc_port c)"
proof -
  assume i: "contract_init a = Inr c"
  then have "\<not> ha_schema a \<notin> {1, 2}" unfolding contract_init_def by (metis Inl_Inr_False)
  with i obtain obs where obs: "mapE parse_obligation (ha_obligations a) = Inr obs"
    by (simp only: contract_init_def if_False) (erule bindE_InrE)
  then show ?thesis
    using i by (cases "ha_port a") (auto simp: contract_init_def split: if_splits)
qed

lemma fingerprint_inj:
  assumes "inj sha" and "contract_fingerprint sha c = contract_fingerprint sha d"
  shows "c = d"
  using assms identity_payload_inj [of c d] by (auto simp: contract_fingerprint_def fingerprint_def inj_def)

lemma materialize_again:
  assumes "is_work_id (ha_work a)" and "load_contract sha (ha_work a) st = Inr (Some c)" and "ledger_of st = Inr l"
    and "assign_port (ha_work a) l = Inr port" and "contract_init (a\<lparr>ha_port := Some port, ha_schema := 2\<rparr>) = Inr c"
  shows "materialize_contract sha a st = (Inr c, st)"
  using assms by (simp add: materialize_contract_def Let_def bindS_def same_contract_def)

text \<open>C29: what materialisation returns is the requested contract (the digest being free of
  collisions), it is what the store now holds, and asking again changes nothing.\<close>

theorem materialize_faithful:
  assumes "materialize_contract sha a st = (Inr c, st')" and "inj sha" and "ledger_ok st"
  shows "contract_init (a\<lparr>ha_port := Some (hc_port c), ha_schema := 2\<rparr>) = Inr c \<and>
    load_contract sha (ha_work a) st' = Inr (Some c) \<and> materialize_contract sha a st' = (Inr c, st')"
  using assms(1)
proof (rule materialize_cases)
  fix e d port l
  assume ld: "load_contract sha (ha_work a) st = Inr (Some e)" and l: "ledger_of st = Inr l"
    and p: "assign_port (ha_work a) l = Inr port" and i: "contract_init (a\<lparr>ha_port := Some port, ha_schema := 2\<rparr>) = Inr d"
    and r: "Inr c = same_contract sha e d" and st': "st' = st"
  from r have "c = e" "contract_fingerprint sha e = contract_fingerprint sha d"
    by (simp_all add: same_contract_def split: if_splits)
  with fingerprint_inj [OF assms(2)] have cd: "c = d" "c = e" by blast+
  have port: "port = hc_port c" using contract_init_port [OF i] cd by simp
  from ld cd have ld': "load_contract sha (ha_work a) st = Inr (Some c)" by simp
  from i cd have i': "contract_init (a\<lparr>ha_port := Some port, ha_schema := 2\<rparr>) = Inr c" by simp
  show ?thesis
    using i' ld' materialize_again [OF load_contract_id [OF ld'] ld' l p i'] unfolding st' port by blast
next
  fix d port l t
  assume w: "is_work_id (ha_work a)" and l: "ledger_of st = Inr l" and p: "assign_port (ha_work a) l = Inr port"
    and i: "contract_init (a\<lparr>ha_port := Some port, ha_schema := 2\<rparr>) = Inr d"
    and t: "record_port (ha_work a) port l st = (Inr (), t)" and wr: "write_contract sha (ha_work a) d t = (Inr c, st')"
  from wr w have cd: "c = d" and st': "st' = put Contracts (ha_work a) (JObj (contract_fields sha c)) t"
    by (auto simp: write_contract_def bindS_def write_file_def put_def)
  have port: "port = hc_port c" using contract_init_port [OF i] cd by simp
  from i cd have i': "contract_init (a\<lparr>ha_port := Some port, ha_schema := 2\<rparr>) = Inr c" by simp
  have ld: "load_contract sha (ha_work a) st' = Inr (Some c)"
    unfolding st' by (rule load_contract_written [OF contract_init_valid [OF i'] w])
  obtain l' where l': "ledger_of st' = Inr l'" "map_of l' (ha_work a) = Some port"
    using p
  proof (cases rule: assign_port_cases)
    case 1
    with t have "t = st" by (simp add: record_port_def)
    with that [of l] l 1 st' show ?thesis by simp
  next
    case 2
    with t have t': "t = snd (write_ledger (l @ [(ha_work a, port)]) st)" by (simp add: record_port_def write_ledger_def)
    have "port_of st' = port_of t" unfolding st' by (simp add: port_of_def fun_eq_iff)
    with assigned(2) [OF assms(3) l 2] t' have "port_of st' (ha_work a) = Some port" by simp
    with that show ?thesis by (cases "ledger_of st'") (simp_all add: port_of_def)
  qed
  have "assign_port (ha_work a) l' = Inr port" using l' by (simp add: assign_port_def)
  from materialize_again [OF w ld l'(1) this i'] i' ld show ?thesis unfolding port by blast
qed simp

theorem materialize_faithful_witness:
  "load_contract sample_sha ''W1'' store1 = Inr (Some sample_contract) \<and>
   materialize_contract sample_sha sample_args store1 = (Inr sample_contract, store1)"
proof -
  have "inj sample_sha" by (simp add: inj_def sample_sha_def)
  from materialize_faithful [OF store1_materialized this no_store_ok] show ?thesis by (simp add: sample_args_def)
qed

section \<open>Refinement\<close>

text \<open>C26: every operation of the store, whatever it returns, is a chain of the permitted changes:
  the detailed operations refine the abstract change relation.\<close>

theorem store_refines_changes:
  assumes "store_step sha st st'"
  shows "(store_change sha)\<^sup>*\<^sup>* st st'"
  using assms by (rule store_step_changes)

theorem store_refines_changes_witness: "(store_change sample_sha)\<^sup>*\<^sup>* no_store store1"
  by (rule store_refines_changes, rule store_step.intros(2), rule store1_materialized)

section \<open>Promotions\<close>

lemma load_promotion_exact_Inr:
  assumes "load_promotion_exact sha w st = Inr p"
  shows "\<exists>c. load_contract sha w st = Inr (Some c) \<and> pm_work p = w \<and> pm_fingerprint p = contract_fingerprint sha c \<and>
    promotion_init p = Inr p"
proof -
  from assms obtain d where d: "bindE (promotion_of_json d) (\<lambda>p.
            bindE (require_contract sha w st) (\<lambda>c.
              if pm_work p \<noteq> w \<or> pm_fingerprint p \<noteq> contract_fingerprint sha c
                then Inl (Coded ''PROMOTION_HANDOFF_INVALID'')
              else Inr p)) = Inr p"
    unfolding load_promotion_exact_def by (elim bindE_InrE) (simp split: option.splits json.splits)
  then obtain q c where q: "promotion_of_json d = Inr q" and c: "require_contract sha w st = Inr c"
    and r: "(if pm_work q \<noteq> w \<or> pm_fingerprint q \<noteq> contract_fingerprint sha c
                then Inl (Coded ''PROMOTION_HANDOFF_INVALID'') else Inr q) = Inr p"
    by (elim bindE_InrE) blast
  have "q = p" "pm_work p = w" "pm_fingerprint p = contract_fingerprint sha c" using r by (auto split: if_splits)
  moreover obtain x where x: "promotion_init x = Inr q"
    using q unfolding promotion_of_json_def by (elim bindE_InrE) blast
  moreover have "x = q"
    using x unfolding promotion_init_def by (simp split: if_splits) (elim bindE_InrE, simp split: if_splits)
  ultimately show ?thesis using c by (auto simp: require_contract_Inr)
qed

lemma matching_promotions_Inr:
  assumes "matching_promotions sha change commit ws st = Inr ps"
  shows "q \<in> set ps \<longleftrightarrow>
    (\<exists>w \<in> set ws. load_promotion_exact sha w st = Inr q \<and> pm_change q = change \<and> pm_commit q = commit)"
  using assms
proof (induction ws arbitrary: ps)
  case (Cons w ws)
  show ?case
  proof (cases "load_promotion_exact sha w st")
    case (Inl e)
    with Cons.prems have "matching_promotions sha change commit ws st = Inr ps" by (simp split: if_splits)
    from Cons.IH [OF this] Inl show ?thesis by simp
  next
    case (Inr p)
    with Cons.prems obtain rest where "matching_promotions sha change commit ws st = Inr rest"
      and ps: "ps = (if pm_change p = change \<and> pm_commit p = commit then p # rest else rest)" by (auto simp: err_simps)
    from Cons.IH [OF this(1)] Inr ps show ?thesis by auto
  qed
qed simp

lemma promotion_init_Inr:
  "promotion_init p = Inr p \<Longrightarrow> is_hex40 (pm_commit p) \<and> pm_pending p = [] \<and> pm_satisfied p \<noteq> [] \<and>
     field (pm_execution p) ''status'' = JStr ''passed''"
  unfolding promotion_init_def by (simp split: if_splits)

text \<open>a resolved promotion is the only stored one for its change and commit; it carries the
  fingerprint of the contract its work has now and no pending obligation.\<close>

theorem resolved_promotion_unique:
  assumes "resolve_promotion sha change commit st = Inr p"
  shows "pm_change p = change \<and> pm_commit p = commit \<and> pm_pending p = [] \<and>
    (\<exists>c. load_contract sha (pm_work p) st = Inr (Some c) \<and> pm_fingerprint p = contract_fingerprint sha c) \<and>
    (\<forall>w q. load_promotion_exact sha w st = Inr q \<and> pm_change q = change \<and> pm_commit q = commit \<longrightarrow> q = p)"
proof -
  from assms obtain ps where "matching_promotions sha change commit (promotion_names st) st = Inr ps" and "ps = [p]"
    unfolding resolve_promotion_def by (elim bindE_InrE) (simp split: list.splits)
  then have iff: "q = p \<longleftrightarrow> (\<exists>w \<in> set (promotion_names st). load_promotion_exact sha w st = Inr q \<and> pm_change q = change \<and> pm_commit q = commit)"
    for q using matching_promotions_Inr [of sha change commit "promotion_names st" st ps q] by simp
  from iff [of p] obtain w where w: "load_promotion_exact sha w st = Inr p" "pm_change p = change" "pm_commit p = commit"
    by blast
  have "q = p" if "load_promotion_exact sha v st = Inr q" "pm_change q = change" "pm_commit q = commit" for v q
  proof -
    have "map_of (st_files st) (Promotions, v) \<noteq> None"
    proof
      assume "map_of (st_files st) (Promotions, v) = None"
      with that(1) show False
        by (cases "is_work_id v") (simp_all add: load_promotion_exact_def read_file_def decode_def)
    qed
    then obtain f where "((Promotions, v), f) \<in> set (st_files st)" by (auto dest: map_of_SomeD)
    then have "v \<in> set (promotion_names st)" by (force simp: promotion_names_def image_iff)
    with iff that show ?thesis by blast
  qed
  then have "\<forall>w q. load_promotion_exact sha w st = Inr q \<and> pm_change q = change \<and> pm_commit q = commit \<longrightarrow> q = p"
    by (intro allI impI) (elim conjE)
  moreover obtain c where c: "load_contract sha w st = Inr (Some c)" "pm_work p = w"
    "pm_fingerprint p = contract_fingerprint sha c" "promotion_init p = Inr p"
    using load_promotion_exact_Inr [OF w(1)] by (elim exE conjE)
  ultimately show ?thesis using w(2,3) promotion_init_Inr [OF c(4)] c(1,2,3) by simp
qed

definition sample_commit :: string where
  "sample_commit = replicate 40 (CHR ''a'')"

text \<open>A digest that is long enough for a promotion.\<close>

definition long_sha :: "string \<Rightarrow> string" where
  "long_sha s = replicate 64 (CHR ''b'')"

definition sample_promotion :: promotion where
  "sample_promotion =
     \<lparr>pm_work = ''W1'', pm_change = ''001-a'', pm_fingerprint = long_sha [], pm_commit = sample_commit,
      pm_candidate = [], pm_execution = [(''contract'', JStr ''change-execution-result-v2''), (''status'', JStr ''passed'')],
      pm_evidence = [], pm_satisfied = [JStr ''verification''], pm_pending = [], pm_status = ''promotion_ready'',
      pm_schema = 2\<rparr>"

definition store4 :: store where
  "store4 =
     \<lparr>st_ledger = None,
      st_files = [((Contracts, ''W1''), Content (stored (JObj (contract_fields long_sha sample_contract)))),
                  ((Promotions, ''W1''), Content (stored (JObj (promotion_fields sample_promotion))))]\<rparr>"

lemma store4_resolved: "resolve_promotion long_sha ''001-a'' sample_commit store4 = Inr sample_promotion"
proof -
  have c: "load_contract long_sha ''W1'' store4 = Inr (Some sample_contract)"
  proof -
    have "load_contract long_sha ''W1'' store4 =
        bindE (contract_of_json long_sha (stored_obj (contract_fields long_sha sample_contract))) (\<lambda>c. Inr (Some c))"
      by (simp add: load_contract_def read_file_def W1 store4_def decode_def)
    then show ?thesis by (simp add: contract_roundtrip [OF sample_valid])
  qed
  have k: "promotion_lookup_key ''001-a'' sample_commit = Inr ()" by code_simp
  have n: "promotion_names store4 = [''W1'']" by (simp add: promotion_names_def store4_def)
  have "promotion_of_json (stored_obj (promotion_fields sample_promotion)) = Inr sample_promotion" by code_simp
  moreover have "read_file Promotions ''W1'' store4 = Inr (Some (stored (JObj (promotion_fields sample_promotion))))"
    by (simp add: read_file_def W1 decode_def store4_def)
  moreover have "pm_work sample_promotion = ''W1''" "pm_fingerprint sample_promotion = contract_fingerprint long_sha sample_contract"
    by (simp_all add: sample_promotion_def contract_fingerprint_def fingerprint_def long_sha_def)
  ultimately have "load_promotion_exact long_sha ''W1'' store4 = Inr sample_promotion"
    by (simp add: load_promotion_exact_def require_contract_def c)
  then show ?thesis
    by (simp add: resolve_promotion_def k n) (simp add: sample_promotion_def)
qed

theorem resolved_promotion_unique_witness: "pm_change sample_promotion = ''001-a'' \<and> pm_pending sample_promotion = []"
  using resolved_promotion_unique [OF store4_resolved, THEN conjunct1]
    resolved_promotion_unique [OF store4_resolved, THEN conjunct2, THEN conjunct2, THEN conjunct1] by (rule conjI)


section \<open>A manual exit and a later binding\<close>

definition store5 :: store where
  "store5 = put Manual_exits ''W1'' (JObj (manual_exit_fields sample_sha ''W1'' sample_contract [])) store1"

definition bound_contract :: contract where
  "bound_contract = sample_contract\<lparr>hc_change := Some ''001-a''\<rparr>"

definition store6 :: store where
  "store6 = put Contracts ''W1'' (JObj (contract_fields sample_sha bound_contract)) store5"

lemma store5_saved:
  "save_manual_exit sample_sha ''W1'' store1 = (Inr (manual_exit_fields sample_sha ''W1'' sample_contract []), store5)"
proof -
  have "load_manual_exit ''W1'' store1 = Inr None" "load_evidence ''W1'' store1 = Inr []"
    by (simp_all add: load_manual_exit_def load_evidence_def read_file_def W1 store1_def put_def no_store_def decode_def)
  then show ?thesis
    by (simp add: save_manual_exit_def bindS_def require_contract_def store1_contract write_file_def W1 store5_def put_def)
qed

lemma bound_init: "contract_init ((contract_args_of sample_contract)\<lparr>ha_change := Some ''001-a''\<rparr>) = Inr bound_contract"
  by code_simp

lemma store6_bound: "bind_change_id sample_sha ''W1'' ''001-a'' store5 = (Inr bound_contract, store6)"
proof -
  have s: "py_strip ''001-a'' = ''001-a''" "\<not> blank ''001-a''" by code_simp+
  have u: "hc_change sample_contract = None" by (simp add: sample_contract_def)
  have ld: "load_contract sample_sha ''W1'' store5 = Inr (Some sample_contract)"
    unfolding store5_def by (simp add: load_contract_put store1_contract)
  have e: "exists_file Promotions ''W1'' store5 = Inr False" "exists_file Candidates ''W1'' store5 = Inr False"
    by (simp_all add: exists_file_def W1 store5_def store1_def put_def no_store_def)
  show ?thesis
    by (simp add: bind_change_id_def W1 bindS_def s require_contract_def ld u e bound_init write_contract_def
        write_file_def store6_def put_def)
qed

text \<open>The store lets a change be bound after a manual exit was recorded, which invalidates the
  exit's fingerprint: recording the exit again is then refused for good.\<close>

theorem binding_invalidates_manual_exit:
  "save_manual_exit sample_sha ''W1'' store1 = (Inr (manual_exit_fields sample_sha ''W1'' sample_contract []), store5) \<and>
   bind_change_id sample_sha ''W1'' ''001-a'' store5 = (Inr bound_contract, store6) \<and>
   save_manual_exit sample_sha ''W1'' store6 = (Inl (Coded ''ONCE_THROUGH_EXIT_INVALID''), store6)"
proof (intro conjI store5_saved store6_bound)
  have ld: "load_contract sample_sha ''W1'' store6 = Inr (Some bound_contract)"
    unfolding store6_def by (rule load_contract_written [OF contract_init_valid [OF bound_init] W1])
  let ?d = "manual_exit_fields sample_sha ''W1'' sample_contract []"
  have dist: "distinct (map fst ?d)" by (simp add: manual_exit_fields_def)
  have f: "field (stored_obj ?d) ''work_id'' = JStr ''W1''" "field (stored_obj ?d) ''status'' = JStr ''manual_closeout''"
    "field (stored_obj ?d) ''contract_fingerprint'' = JStr (contract_fingerprint sample_sha sample_contract)"
    unfolding field_stored [OF dist] by (simp_all add: manual_exit_fields_def)
  have "read_file Manual_exits ''W1'' store6 = Inr (Some (stored (JObj ?d)))"
    unfolding store6_def store5_def by (simp add: read_file_put W1)
  then have ex: "load_manual_exit ''W1'' store6 = Inr (Some (stored_obj ?d))"
    by (simp add: load_manual_exit_def f)
  have "sample_contract \<noteq> bound_contract" by (simp add: sample_contract_def bound_contract_def)
  then have "contract_fingerprint sample_sha sample_contract \<noteq> contract_fingerprint sample_sha bound_contract"
    using fingerprint_inj [of sample_sha] by (auto simp: inj_def sample_sha_def)
  then show "save_manual_exit sample_sha ''W1'' store6 = (Inl (Coded ''ONCE_THROUGH_EXIT_INVALID''), store6)"
    by (simp add: save_manual_exit_def bindS_def require_contract_def ld ex f)
qed

end
