(* ===== verification/Evidence_Rules.thy ===== *)
theory Evidence_Rules
  imports Recovery
begin

text \<open>
  Evidence and its use in the once-through workflow: the resolution of required evidence, conditional
  obligations, schema and effect proofs (\<open>workflows/once_through/evidence.py\<close>), and the closure of a
  review (\<open>workflows/once_through/review.py\<close>).
\<close>

section \<open>Resolving required evidence\<close>

datatype evidence_state = Ev_valid | Ev_invalid | Ev_missing | Ev_not_yet_applicable

fun evidence_state_text :: "evidence_state \<Rightarrow> string" where
  "evidence_state_text Ev_valid = ''valid''"
| "evidence_state_text Ev_invalid = ''invalid''"
| "evidence_state_text Ev_missing = ''missing''"
| "evidence_state_text Ev_not_yet_applicable = ''not_yet_applicable''"

record evidence_resolution =
  er_id :: string
  er_kind :: string
  er_state :: evidence_state
  er_reason :: string
  er_receipt :: "string option"

definition resolution_fields :: "evidence_resolution \<Rightarrow> obj" where
  "resolution_fields r =
     [(''evidence_id'', JStr (er_id r)), (''kind'', JStr (er_kind r)), (''state'', JStr (evidence_state_text (er_state r))),
      (''reason'', JStr (er_reason r)), (''receipt_ref'', str_option (er_receipt r))]"

definition phase_order :: "(string \<times> int) list" where
  "phase_order =
     [(''implementation'', 0), (''review'', 1), (''candidate'', 2), (''promotion'', 2), (''pull_request'', 3),
      (''documentation'', 4), (''commissioning'', 5), (''completion'', 6), (''post_merge'', 6)]"

definition phase_number :: "string \<Rightarrow> int \<Rightarrow> int" where
  "phase_number phase unknown = (case map_of phase_order phase of None \<Rightarrow> unknown | Some n \<Rightarrow> n)"

definition resolve_reference :: "(string \<times> string) list \<Rightarrow> int \<Rightarrow> string \<Rightarrow> evidence_reference \<Rightarrow> evidence_resolution" where
  "resolve_reference observed current kind e =
     (if current < phase_number (ev_phase e) 0 then
        \<lparr>er_id = ev_id e, er_kind = kind, er_state = Ev_not_yet_applicable, er_reason = ''applies at '' @ ev_phase e,
         er_receipt = Some (ev_receipt e)\<rparr>
      else if changed_inputs e observed \<noteq> [] then
        \<lparr>er_id = ev_id e, er_kind = kind, er_state = Ev_invalid,
         er_reason = ''validity inputs changed: '' @ join_with '', '' (sort (changed_inputs e observed)),
         er_receipt = Some (ev_receipt e)\<rparr>
      else
        \<lparr>er_id = ev_id e, er_kind = kind, er_state = Ev_valid, er_reason = ''all declared validity inputs match'',
         er_receipt = Some (ev_receipt e)\<rparr>)"

definition resolve_kind ::
  "evidence_reference list \<Rightarrow> (string \<times> string) list \<Rightarrow> int \<Rightarrow> string \<Rightarrow> evidence_resolution" where
  "resolve_kind refs observed current kind =
     (case filter (\<lambda>e. ev_kind e = kind) refs of
        [] \<Rightarrow> \<lparr>er_id = kind, er_kind = kind, er_state = Ev_missing, er_reason = ''required evidence is absent'', er_receipt = None\<rparr>
      | [e] \<Rightarrow> resolve_reference observed current kind e
      | es \<Rightarrow> \<lparr>er_id = kind, er_kind = kind, er_state = Ev_invalid,
               er_reason = ''required evidence kind is ambiguous: '' @ json_int (int (length es)) @ '' receipts'',
               er_receipt = None\<rparr>)"

definition resolve_evidence ::
  "evidence_reference list \<Rightarrow> string list \<Rightarrow> (string \<times> string) list \<Rightarrow> string \<Rightarrow> evidence_resolution list" where
  "resolve_evidence refs kinds observed phase = map (resolve_kind refs observed (phase_number phase (- 1))) kinds"

definition minimum_rerun :: "evidence_resolution list \<Rightarrow> string list" where
  "minimum_rerun rs = map er_kind (filter (\<lambda>r. er_state r \<in> {Ev_invalid, Ev_missing}) rs)"

section \<open>Conditional obligations\<close>

definition all_phases :: "obligation_phase list" where
  "all_phases = [Implementation_phase, Review_phase, Candidate_phase, Pull_request_phase, Documentation_phase,
     Commissioning_phase, Completion_phase]"

definition parse_phase :: "string \<Rightarrow> obligation_phase result" where
  "parse_phase s = (case find (\<lambda>p. phase_text p = s) all_phases of None \<Rightarrow> Inl ValueError | Some p \<Rightarrow> Inr p)"

definition conditional_obligations :: "(obligation \<times> string) list" where
  "conditional_obligations =
     [(Live_candidate_verification, ''mcp_surface''), (Provider_proof, ''provider_required''),
      (Documentation, ''documentation_required''), (Commissioning, ''commissioning_required'')]"

text \<open>One obligation: left out, or required.\<close>

definition required_one :: "obligation_phase \<Rightarrow> (string \<times> bool) list \<Rightarrow> string \<Rightarrow> obligation list result" where
  "required_one current conditions raw =
     bindE (parse_obligation raw) (\<lambda>x.
       if phase_index (phase_of x) > phase_index current then Inr []
       else (case map_of conditional_obligations x of
               None \<Rightarrow> Inr [x]
             | Some condition \<Rightarrow>
                 (case map_of conditions condition of
                    None \<Rightarrow> Inl ValueError
                  | Some holds \<Rightarrow> Inr (if holds then [x] else []))))"

definition required_obligations :: "string list \<Rightarrow> string \<Rightarrow> (string \<times> bool) list \<Rightarrow> obligation list result" where
  "required_obligations obligations phase conditions =
     bindE (parse_phase phase) (\<lambda>current.
     bindE (mapE (required_one current conditions) obligations) (\<lambda>xs. Inr (concat xs)))"

section \<open>Schema and effect proofs\<close>

definition check_schema :: "(string \<Rightarrow> string) \<Rightarrow> obj \<Rightarrow> obj \<Rightarrow> string \<Rightarrow> unit result" where
  "check_schema sha expected observed key =
     (if \<not> is_obj (field expected key) then Inl ValueError
      else if \<not> is_obj (field observed key) then Inl ValueError
      else raise_if (fingerprint sha (field expected key) \<noteq> fingerprint sha (field observed key)) ValueError)"

definition tool_proof :: "(string \<Rightarrow> string) \<Rightarrow> obj \<Rightarrow> string \<times> obj \<Rightarrow> (string \<times> string) result" where
  "tool_proof sha published tool =
     (case field published (fst tool) of
        JObj observed \<Rightarrow>
          bindE (forE (check_schema sha (snd tool) observed) [''inputSchema'', ''outputSchema'']) (\<lambda>_.
            Inr (fst tool, fingerprint sha (JObj [(''inputSchema'', field (snd tool) ''inputSchema''),
                                                  (''outputSchema'', field (snd tool) ''outputSchema'')])))
      | _ \<Rightarrow> Inl ValueError)"

definition validate_mcp_tool_schemas :: "(string \<Rightarrow> string) \<Rightarrow> (string \<times> obj) list \<Rightarrow> obj \<Rightarrow> (string \<times> string) list result" where
  "validate_mcp_tool_schemas sha expected published = mapE (tool_proof sha published) expected"

text \<open>\<open>v in {"passed", "applied", "satisfied"}\<close>; a list or a dictionary cannot be looked up in a set.\<close>

definition passed_status :: "json \<Rightarrow> bool result" where
  "passed_status v =
     (if \<not> hashable v then Inl TypeError else Inr (v \<in> {JStr ''passed'', JStr ''satisfied'', JStr ''applied''}))"

definition effect_evidence :: "obj \<Rightarrow> obj result" where
  "effect_evidence outcome =
     (case (if is_obj (field outcome ''cleanup'') then field outcome ''cleanup'' else field outcome ''recovery'') of
        JObj e \<Rightarrow> bindE (passed_status (field e ''status'')) (\<lambda>ok. if ok then Inr e else Inl ValueError)
      | _ \<Rightarrow> Inl ValueError)"

definition effect_proof :: "(string \<Rightarrow> string) \<Rightarrow> obj \<times> obj \<Rightarrow> string list result" where
  "effect_proof sha so =
     (let effect = py_text (field_or (fst so) ''effect'' (JStr ''read_only''))
      in if effect \<in> {''read_only'', ''none''} then Inr []
         else (case field (fst so) ''effect_boundary'' of
                 JObj b \<Rightarrow>
                   (case (field b ''disposable'', field b ''fixture_id'') of
                      (JBool True, JStr fixture) \<Rightarrow>
                        if fixture = [] then Inl ValueError
                        else bindE (effect_evidence (snd so)) (\<lambda>e.
                          Inr [fingerprint sha (JObj [(''effect'', JStr effect), (''fixture_id'', JStr fixture),
                            (''boundary'', JObj b), (''cleanup_or_recovery'', JObj e)])])
                    | _ \<Rightarrow> Inl ValueError)
               | _ \<Rightarrow> Inl ValueError))"

definition validate_effect_safe_scenarios :: "(string \<Rightarrow> string) \<Rightarrow> obj list \<Rightarrow> obj list \<Rightarrow> string list result" where
  "validate_effect_safe_scenarios sha scenarios outcomes =
     (if length scenarios \<noteq> length outcomes then Inl ValueError
      else bindE (mapE (effect_proof sha) (zip scenarios outcomes)) (\<lambda>ps. Inr (concat ps)))"

section \<open>Closing a review\<close>

definition review_domain :: "obj \<Rightarrow> string" where
  "review_domain r = py_strip (py_text (py_or (field r ''review_type'') (py_or (field r ''step_id'') (JStr ''review''))))"

definition is_material :: "obj \<Rightarrow> bool" where
  "is_material finding = (casefold (text_or finding ''severity'') \<in> {''critical'', ''high'', ''medium''})"

definition finding_identity :: "string \<Rightarrow> nat \<Rightarrow> obj \<Rightarrow> string" where
  "finding_identity domain i finding =
     (let identity = py_or (field finding ''finding_id'') (py_or (field finding ''id'') (field finding ''title''))
      in py_text (py_or identity (JStr (domain @ '':'' @ json_int (int i)))))"

definition material_finding_ids :: "obj \<Rightarrow> string list result" where
  "material_finding_ids review =
     (case field review ''payload'' of
        JObj payload \<Rightarrow>
          bindE (py_iter (field_or payload ''findings'' (JArr []))) (\<lambda>findings.
            Inr (map (\<lambda>(i, v). finding_identity (review_domain review) i (obj_or_empty v))
                   (filter (\<lambda>(i, v). is_obj v \<and> is_material (obj_or_empty v)) (enumerate 0 findings))))
      | _ \<Rightarrow> Inr [])"

record review_closure =
  rc_cycle :: string
  rc_subject :: string
  rc_domains :: "string list"
  rc_closed :: "string list"
  rc_open :: "string list"
  rc_scope :: "string list"
  rc_receipt :: string
  rc_inputs :: "(string \<times> string) list"

definition review_closure_init :: "review_closure \<Rightarrow> review_closure result" where
  "review_closure_init c =
     (if rc_open c \<noteq> [] then Inl ValueError
      else if rc_domains c = [] then Inl ValueError
      else if \<not> distinct (rc_domains c) then Inl ValueError
      else Inr c)"

definition closure_to_evidence :: "review_closure \<Rightarrow> evidence_reference result" where
  "closure_to_evidence c =
     evidence_reference_init
       \<lparr>ev_id = ''review-closed:'' @ rc_cycle c, ev_kind = ''review_closed'', ev_subject = rc_subject c,
        ev_class = Content_stable, ev_inputs = rc_inputs c, ev_receipt = rc_receipt c, ev_phase = ''implementation''\<rparr>"

definition closure_fields :: "review_closure \<Rightarrow> obj" where
  "closure_fields c =
     [(''contract'', JStr ''review-closure-v1''), (''status'', JStr ''review_closed''), (''review_cycle_id'', JStr (rc_cycle c)),
      (''subject'', JStr (rc_subject c)), (''reviewed_domains'', str_array (rc_domains c)),
      (''closed_findings'', str_array (rc_closed c)), (''open_material_findings'', JArr []),
      (''correction_scope'', str_array (rc_scope c)), (''receipt_ref'', JStr (rc_receipt c)),
      (''validity_inputs'', JObj (map (map_prod id JStr) (rc_inputs c)))]"

text \<open>The loop over the reviews: the domains seen and the open findings.\<close>

definition close_review :: "string list \<times> string list \<Rightarrow> json \<Rightarrow> (string list \<times> string list) result" where
  "close_review acc v =
     (case v of
        JObj r \<Rightarrow>
          if field r ''status'' \<noteq> JStr ''completed'' then Inl ValueError
          else bindE (material_finding_ids r) (\<lambda>ids.
            let domain = review_domain r
            in Inr (if domain \<in> set (fst acc) then fst acc else fst acc @ [domain], snd acc @ ids))
      | _ \<Rightarrow> Inl ValueError)"

definition closure_from_execution ::
  "obj \<Rightarrow> string \<Rightarrow> string \<Rightarrow> string \<Rightarrow> string list \<Rightarrow> string list \<Rightarrow> review_closure result" where
  "closure_from_execution execution subject tree receipt closed corrections =
     (case field execution ''reviews'' of
        JArr reviews \<Rightarrow>
          if reviews = [] then Inl ValueError
          else bindE (foldE close_review ([], []) reviews) (\<lambda>(domains, open_findings).
            review_closure_init
              \<lparr>rc_cycle = take 24 (py_text (py_or (field execution ''source_fingerprint'') (JStr tree))), rc_subject = subject,
               rc_domains = domains, rc_closed = unique closed, rc_open = open_findings, rc_scope = unique corrections,
               rc_receipt = receipt, rc_inputs = [(''tree'', tree)]\<rparr>)
      | _ \<Rightarrow> Inl ValueError)"

section \<open>Targeted reviews\<close>

definition folded_path :: "string \<Rightarrow> string" where
  "folded_path s = casefold (replace_char (CHR 0x5C) (CHR ''/'') s)"

definition finding_affected :: "string list \<Rightarrow> json \<Rightarrow> bool result" where
  "finding_affected changed v =
     (case v of
        JObj f \<Rightarrow>
          if \<not> is_material f then Inr False
          else bindE (py_iter (py_or (field f ''affected_paths'') (py_or (field f ''paths'') (JArr [])))) (\<lambda>surfaces.
            let normalized = map (\<lambda>x. folded_path (py_text x)) surfaces
            in Inr (changed = [] \<or> normalized = [] \<or> (\<exists>x \<in> set changed. x \<in> set normalized)))
      | _ \<Rightarrow> Inr False)"

definition target_review :: "string list \<Rightarrow> string list \<Rightarrow> obj \<Rightarrow> string list result" where
  "target_review changed selected review =
     (case field review ''payload'' of
        JObj payload \<Rightarrow>
          bindE (py_iter (field_or payload ''findings'' (JArr []))) (\<lambda>findings.
          bindE (anyE (finding_affected changed) findings) (\<lambda>affected.
            let domain = review_domain review
            in Inr (if affected \<and> domain \<notin> set selected then selected @ [domain] else selected)))
      | _ \<Rightarrow> Inr selected)"

definition targeted_review_domains :: "obj list \<Rightarrow> string list \<Rightarrow> string list result" where
  "targeted_review_domains reviews delta = foldE (target_review (map folded_path delta)) [] reviews"

section \<open>What has to be rerun\<close>

lemma changed_inputs_empty: "changed_inputs e observed = [] \<longleftrightarrow> (\<forall>(k, v) \<in> set (ev_inputs e). map_of observed k = Some v)"
  by (auto simp: changed_inputs_def filter_empty_conv)

text \<open>The single reference of a kind, applicable at the phase and with every declared input as observed.\<close>

definition satisfied_by :: "evidence_reference list \<Rightarrow> (string \<times> string) list \<Rightarrow> int \<Rightarrow> string \<Rightarrow> evidence_reference \<Rightarrow> bool" where
  "satisfied_by refs observed current kind e =
     (filter (\<lambda>x. ev_kind x = kind) refs = [e] \<and> phase_number (ev_phase e) 0 \<le> current \<and>
      (\<forall>(k, v) \<in> set (ev_inputs e). map_of observed k = Some v))"

lemma resolve_kind_of [simp]: "er_kind (resolve_kind refs observed current kind) = kind"
  by (auto simp: resolve_kind_def resolve_reference_def split: list.splits)

lemma resolve_kind_valid:
  "er_state (resolve_kind refs observed current kind) = Ev_valid \<longleftrightarrow> (\<exists>e. satisfied_by refs observed current kind e)"
  by (auto simp: resolve_kind_def resolve_reference_def satisfied_by_def changed_inputs_empty split: list.splits)

lemma minimum_rerun_exact:
  "kind \<in> set (minimum_rerun (resolve_evidence refs kinds observed phase)) \<longleftrightarrow>
     kind \<in> set kinds \<and> (\<nexists>e. satisfied_by refs observed (phase_number phase (- 1)) kind e) \<and>
     \<not> (\<exists>e. filter (\<lambda>x. ev_kind x = kind) refs = [e] \<and> phase_number phase (- 1) < phase_number (ev_phase e) 0)"
proof -
  have "er_state (resolve_kind refs observed c kind) \<in> {Ev_invalid, Ev_missing} \<longleftrightarrow>
      (\<nexists>e. satisfied_by refs observed c kind e) \<and> \<not> (\<exists>e. filter (\<lambda>x. ev_kind x = kind) refs = [e] \<and> c < phase_number (ev_phase e) 0)"
    for c
    by (auto simp: resolve_kind_def resolve_reference_def satisfied_by_def changed_inputs_empty split: list.splits)
  moreover have "kind \<in> set (minimum_rerun (resolve_evidence refs kinds observed phase)) \<longleftrightarrow>
      kind \<in> set kinds \<and> er_state (resolve_kind refs observed (phase_number phase (- 1)) kind) \<in> {Ev_invalid, Ev_missing}"
    unfolding minimum_rerun_def resolve_evidence_def by force
  ultimately show ?thesis by presburger
qed

text \<open>A required obligation is declared, due at the phase, and its condition holds.\<close>

lemma required_obligations_sound:
  assumes "required_obligations obligations phase conditions = Inr xs" and "x \<in> set xs"
  shows "obligation_text x \<in> set obligations \<and>
    (\<exists>p. parse_phase phase = Inr p \<and> phase_index (phase_of x) \<le> phase_index p) \<and>
    (\<forall>c. map_of conditional_obligations x = Some c \<longrightarrow> map_of conditions c = Some True)"
proof -
  from assms(1) obtain p ys where p: "parse_phase phase = Inr p"
    and ys: "mapE (required_one p conditions) obligations = Inr ys" and xs: "xs = concat ys"
    by (auto simp: required_obligations_def err_simps)
  from assms(2) xs obtain zs where zs: "zs \<in> set ys" "x \<in> set zs" by auto
  from mapE_set [OF ys zs(1)] obtain raw where "raw \<in> set obligations" "required_one p conditions raw = Inr zs" by blast
  with zs(2) p show ?thesis
    by (auto simp: required_one_def err_simps dest: parse_obligation_Inr split: if_splits option.splits)
qed

text \<open>A closed review leaves no material finding in any of its reviews.\<close>

lemma close_review_Inr:
  "close_review acc v = Inr acc' \<Longrightarrow>
     \<exists>r ids. v = JObj r \<and> field r ''status'' = JStr ''completed'' \<and> material_finding_ids r = Inr ids \<and>
       snd acc' = snd acc @ ids"
  by (auto simp: close_review_def err_simps Let_def split: json.splits if_splits)

lemma closed_review_has_no_findings:
  assumes "closure_from_execution execution subject tree receipt closed corrections = Inr c"
  shows "\<exists>reviews. field execution ''reviews'' = JArr reviews \<and> reviews \<noteq> [] \<and>
    (\<forall>v \<in> set reviews. \<exists>r. v = JObj r \<and> field r ''status'' = JStr ''completed'' \<and> material_finding_ids r = Inr []) \<and>
    rc_inputs c = [(''tree'', tree)]"
proof -
  from assms obtain reviews ds os where rv: "field execution ''reviews'' = JArr reviews" "reviews \<noteq> []"
    and f: "foldE close_review ([], []) reviews = Inr (ds, os)" and c: "os = []" "rc_inputs c = [(''tree'', tree)]"
    by (auto simp: closure_from_execution_def review_closure_init_def err_simps split: json.splits if_splits)
  have "snd acc = [] \<and> (\<forall>v \<in> set vs. \<exists>r. v = JObj r \<and> field r ''status'' = JStr ''completed'' \<and> material_finding_ids r = Inr [])"
    if "foldE close_review acc vs = Inr acc'" and "snd acc' = []" for vs acc acc'
    using that
  proof (induction vs arbitrary: acc)
    case (Cons v vs)
    from Cons.prems(1) obtain a where a: "close_review acc v = Inr a" and r: "foldE close_review a vs = Inr acc'"
      by (auto simp: err_simps)
    from Cons.IH [OF r Cons.prems(2)] close_review_Inr [OF a] show ?case by auto
  qed simp
  from this [OF f] c rv show ?thesis by auto
qed

end
