(* ===== verification/Promotion_Controller.thy ===== *)
theory Promotion_Controller
  imports Handoff_Store Evidence_Rules
begin

text \<open>
  The promotion controller (\<open>workflows/once_through/controller.py\<close>): a resumable loop over ten stages
  whose progress is a stored checkpoint.  The state is the checkpoint files and the world; invoking a
  stage and reading the clocks are parameters, and a stage may change the state, the checkpoint file
  included (it records its calls there).  Handoff, observations, telemetry and receipts are JSON objects.
\<close>

definition stages :: "string list" where
  "stages = [''refresh_default'', ''reconcile_candidate'', ''create_pull_request'', ''exact_head_actions'',
     ''merge_readiness'', ''merge_exact_head'', ''refresh_landed'', ''documentation_reconcile'', ''work_done'', ''cleanup'']"

definition promotion_operation_id :: "(string \<Rightarrow> string) \<Rightarrow> obj \<Rightarrow> string" where
  "promotion_operation_id sha handoff =
     ''promotion-'' @ take 32 (fingerprint sha (JObj
       [(''work_id'', field handoff ''work_id''), (''contract_fingerprint'', field handoff ''contract_fingerprint''),
        (''source_commit_sha'', field handoff ''source_commit_sha'')]))"

section \<open>The projection of a checkpoint\<close>

record projection =
  pj_state :: string
  pj_completed :: "json list"
  pj_stage :: json

text \<open>\<open>tuple(done) != _STAGES[: len(done)] or len(set(done)) != len(done)\<close>, negated: the stages being distinct,
  a list of stages in order has no repetition.\<close>

definition ordered_prefix :: "json list \<Rightarrow> bool" where
  "ordered_prefix done = (done = map JStr (take (length done) stages))"

definition expected_stage :: "json list \<Rightarrow> json" where
  "expected_stage done = (if length done < length stages then JStr (stages ! length done) else JNull)"

definition project_promotion_checkpoint :: "obj option \<Rightarrow> projection result" where
  "project_promotion_checkpoint cp =
     (case cp of
        None \<Rightarrow> Inr \<lparr>pj_state = ''ready'', pj_completed = [], pj_stage = JStr (hd stages)\<rparr>
      | Some d \<Rightarrow>
          bindE (py_iter (field_or d ''completed'' (JArr []))) (\<lambda>done.
            if \<not> ordered_prefix done then Inl ValueError
            else
              let complete = (length done = length stages);
                  state = py_text (py_or (field d ''state'') (JStr (if complete then ''done'' else ''ready'')));
                  stage = field d ''current_stage''
              in if state = ''done'' \<and> \<not> complete then Inl ValueError
                 else if complete \<and> state \<noteq> ''done'' then Inl ValueError
                 else if complete \<and> stage \<noteq> JNull then Inl ValueError
                 else if \<not> complete \<and> stage \<noteq> JNull \<and> stage \<noteq> expected_stage done then Inl ValueError
                 else Inr \<lparr>pj_state = state, pj_completed = done,
                           pj_stage = (if stage = JNull then expected_stage done else stage)\<rparr>))"

section \<open>Checkpoint files\<close>

record 'w promotion_state =
  ps_files :: "(string \<times> stored_file) list"
  ps_world :: 'w

definition checkpoint_name :: "(string \<Rightarrow> string) \<Rightarrow> string \<Rightarrow> string" where
  "checkpoint_name sha op_id = take 24 (fingerprint sha (JStr op_id))"

definition load_checkpoint :: "(string \<Rightarrow> string) \<Rightarrow> string \<Rightarrow> 'w promotion_state \<Rightarrow> obj option result" where
  "load_checkpoint sha op_id st =
     bindE (decode (map_of (ps_files st) (checkpoint_name sha op_id))) (\<lambda>v.
       (case v of None \<Rightarrow> Inr None | Some (JObj d) \<Rightarrow> Inr (Some d) | Some _ \<Rightarrow> Inl ValueError))"

definition save_checkpoint :: "(string \<Rightarrow> string) \<Rightarrow> string \<Rightarrow> obj \<Rightarrow> ('w promotion_state, unit) op" where
  "save_checkpoint sha op_id d st =
     (Inr (), st\<lparr>ps_files := AList.update (checkpoint_name sha op_id) (Content (stored (JObj d))) (ps_files st)\<rparr>)"

section \<open>Telemetry\<close>

definition new_telemetry :: obj where
  "new_telemetry =
     [(''schema_version'', JInt 1), (''stage_timings_ms'', JObj []), (''stage_attempts'', JObj []),
      (''provider_reads'', JInt 0), (''provider_mutations'', JInt 0), (''list_pages_scanned'', JInt 0),
      (''tool_calls'', JInt 0), (''verification_invocations'', JInt 0), (''review_invocations'', JInt 0),
      (''duplicate_verification_attempts'', JInt 0), (''duplicate_review_attempts'', JInt 0),
      (''promotion_review_invocations'', JInt 0), (''duplicate_proof_attempts'', JInt 0),
      (''proof_read_fingerprints'', JArr []), (''replay_count'', JInt 0), (''blocked_reasons'', JArr []),
      (''operation_counts'', JObj [])]"

definition set_field :: "string \<Rightarrow> json \<Rightarrow> obj \<Rightarrow> obj" where
  "set_field k v d = AList.update k v d"

text \<open>\<open>d = t.setdefault(key, {}); d[name] = int(d.get(name, 0)) + n\<close>\<close>

definition add_count :: "string \<Rightarrow> string \<Rightarrow> int \<Rightarrow> obj \<Rightarrow> obj result" where
  "add_count key name n t =
     (case field_or t key (JObj []) of
        JObj d \<Rightarrow> bindE (to_int (field_or d name (JInt 0))) (\<lambda>m. Inr (set_field key (JObj (set_field name (JInt (m + n)) d)) t))
      | _ \<Rightarrow> Inl AttributeError)"

text \<open>\<open>t[key] = int(t.get(key, 0)) + n\<close>\<close>

definition add_number :: "string \<Rightarrow> int \<Rightarrow> obj \<Rightarrow> obj result" where
  "add_number key n t = bindE (to_int (field_or t key (JInt 0))) (\<lambda>m. Inr (set_field key (JInt (m + n)) t))"

definition audit_keys :: "string list" where
  "audit_keys = [''provider_reads'', ''provider_mutations'', ''list_pages_scanned'', ''tool_calls'',
     ''verification_invocations'', ''review_invocations'', ''duplicate_verification_attempts'',
     ''duplicate_review_attempts'', ''promotion_review_invocations'', ''duplicate_proof_attempts'']"

definition add_audit_number :: "obj \<Rightarrow> obj \<Rightarrow> string \<Rightarrow> obj result" where
  "add_audit_number audit t key =
     (case field_or audit key (JInt 0) of
        JInt n \<Rightarrow> if 0 \<le> n then add_number key n t else Inr t
      | _ \<Rightarrow> Inr t)"

definition add_proof :: "json list \<Rightarrow> json \<Rightarrow> json list" where
  "add_proof proofs v =
     (case v of
        JStr s \<Rightarrow> if s \<noteq> [] \<and> v \<notin> set proofs \<and> length proofs < 128 then proofs @ [v] else proofs
      | _ \<Rightarrow> proofs)"

definition merge_proofs :: "obj \<Rightarrow> obj \<Rightarrow> obj" where
  "merge_proofs audit t =
     (let old = field_or t ''proof_read_fingerprints'' (JArr []) in
      set_field ''proof_read_fingerprints''
        (case (old, field audit ''proof_read_fingerprints'') of
           (JArr proofs, JArr raw) \<Rightarrow> JArr (foldl add_proof proofs raw)
         | _ \<Rightarrow> old) t)"

text \<open>\<open>isinstance(value, int)\<close>, which a truth value passes.\<close>

definition int_like :: "json \<Rightarrow> int option" where
  "int_like v = (case v of JInt n \<Rightarrow> Some n | JBool b \<Rightarrow> Some (if b then 1 else 0) | _ \<Rightarrow> None)"

definition add_operation :: "obj \<Rightarrow> string \<times> json \<Rightarrow> obj result" where
  "add_operation counts p =
     (case int_like (snd p) of
        None \<Rightarrow> Inr counts
      | Some n \<Rightarrow>
          if n \<le> 0 then Inr counts
          else bindE (to_int (field_or counts (fst p) (JInt 0))) (\<lambda>m. Inr (set_field (fst p) (JInt (m + n)) counts)))"

definition merge_counts :: "obj \<Rightarrow> obj \<Rightarrow> obj result" where
  "merge_counts audit t =
     (let old = field_or t ''operation_counts'' (JObj []) in
      (case (old, field audit ''operation_counts'') of
         (JObj counts, JObj raw) \<Rightarrow>
           bindE (foldE add_operation counts raw) (\<lambda>c. Inr (set_field ''operation_counts'' (JObj c) t))
       | _ \<Rightarrow> Inr (set_field ''operation_counts'' old t)))"

definition merge_stage_audit :: "obj \<Rightarrow> json \<Rightarrow> obj result" where
  "merge_stage_audit t audit =
     (case audit of
        JObj a \<Rightarrow> bindE (foldE (add_audit_number a) t audit_keys) (\<lambda>t1. merge_counts a (merge_proofs a t1))
      | _ \<Rightarrow> Inr t)"

text \<open>\<open>blocked = t.setdefault("blocked_reasons", []); if reason not in blocked: blocked.append(reason)\<close>\<close>

definition add_reason :: "string \<Rightarrow> obj \<Rightarrow> obj result" where
  "add_reason why t =
     (let old = field_or t ''blocked_reasons'' (JArr []) in
      (case old of
         JArr xs \<Rightarrow> Inr (set_field ''blocked_reasons'' (JArr (if JStr why \<in> set xs then xs else xs @ [JStr why])) t)
       | JObj d \<Rightarrow> if why \<in> fst ` set d then Inr t else Inl AttributeError
       | JStr s \<Rightarrow> if contains why s then Inr t else Inl AttributeError
       | _ \<Rightarrow> Inl TypeError))"

definition review_type :: "obj \<Rightarrow> string" where
  "review_type r =
     casefold (py_strip (py_text
       (py_or (field r ''review_type'') (py_or (field r ''type'') (py_or (field r ''agent_id'') (JStr ''unknown''))))))"

definition initial_telemetry :: "obj \<Rightarrow> obj" where
  "initial_telemetry handoff =
     (case field handoff ''execution'' of
        JObj ex \<Rightarrow>
          if field ex ''contract'' \<noteq> JStr ''change-execution-result-v2'' then new_telemetry
          else let t = set_field ''verification_invocations'' (JInt 1) new_telemetry in
            (case field ex ''reviews'' of
               JArr rs \<Rightarrow>
                 let types = map review_type (objects_of rs)
                 in set_field ''duplicate_review_attempts''
                      (JInt (sum_list (map (\<lambda>ty. int (length (filter (\<lambda>x. x = ty) types)) - 1) (unique types))))
                      (set_field ''review_invocations'' (JInt (int (length types))) t)
             | _ \<Rightarrow> t)
      | _ \<Rightarrow> new_telemetry)"

section \<open>The terminal receipt\<close>

definition terminal_text :: "json \<Rightarrow> string result" where
  "terminal_text v = (case v of JStr s \<Rightarrow> if blank s then Inl ValueError else Inr (py_strip s) | _ \<Rightarrow> Inl ValueError)"

definition terminal_int :: "json \<Rightarrow> int result" where
  "terminal_int v = (case v of JInt n \<Rightarrow> if n \<le> 0 then Inl ValueError else Inr n | _ \<Rightarrow> Inl ValueError)"

definition sub_obj :: "obj \<Rightarrow> string \<Rightarrow> obj" where
  "sub_obj d k = obj_or_empty (field d k)"

definition is_true :: "json \<Rightarrow> bool" where
  "is_true v = (v = JBool True)"

definition single_run :: "json \<Rightarrow> int result" where
  "single_run v = (case v of JArr [r] \<Rightarrow> terminal_int r | _ \<Rightarrow> Inl ValueError)"

definition check_restart :: "json \<Rightarrow> string \<Rightarrow> unit result" where
  "check_restart restart landed =
     (case restart of
        JNull \<Rightarrow> Inr ()
      | JObj r \<Rightarrow>
          bindE (terminal_text (field r ''landed_sha'')) (\<lambda>a.
          bindE (raise_if (a \<noteq> landed) ValueError) (\<lambda>_.
          bindE (terminal_text (field r ''launched_sha'')) (\<lambda>b. raise_if (b \<noteq> landed) ValueError)))
      | _ \<Rightarrow> Inl ValueError)"

record receipt_facts =
  rf_work :: string
  rf_change :: string
  rf_commit :: string
  rf_pull :: int
  rf_head :: string
  rf_run :: int
  rf_actions :: string
  rf_merge :: string
  rf_landed :: string
  rf_documentation :: string
  rf_record :: string

text \<open>The checks of \<open>build_terminal_receipt\<close>, in their order, and the values they establish.\<close>

definition receipt_facts_of :: "obj \<Rightarrow> obj \<Rightarrow> receipt_facts result" where
  "receipt_facts_of handoff obs =
     (let created = sub_obj obs ''create_pull_request''; actions = sub_obj obs ''exact_head_actions'';
          merge = sub_obj obs ''merge_exact_head''; landed = sub_obj obs ''refresh_landed'';
          documentation = sub_obj obs ''documentation_reconcile''; work_done = sub_obj obs ''work_done'';
          cleanup = sub_obj obs ''cleanup''; event = sub_obj documentation ''event''
      in bindE (terminal_text (field handoff ''work_id'')) (\<lambda>work.
         bindE (terminal_text (field handoff ''change_id'')) (\<lambda>change.
         bindE (terminal_text (field handoff ''source_commit_sha'')) (\<lambda>commit.
         bindE (terminal_int (field created ''pull_number'')) (\<lambda>pull.
         bindE (terminal_text (field created ''head_sha'')) (\<lambda>head.
         bindE (single_run (field actions ''run_ids'')) (\<lambda>run.
         bindE (terminal_text (field actions ''reference'')) (\<lambda>reference.
         bindE (terminal_text (py_or (field merge ''merge_commit_sha'') (field merge ''merge_commit''))) (\<lambda>merged.
         bindE (terminal_text (field landed ''landed_sha'')) (\<lambda>landed_sha.
         bindE (terminal_text (field documentation ''completion_revision'')) (\<lambda>revision.
         bindE (raise_if (revision \<noteq> landed_sha) ValueError) (\<lambda>_.
         bindE (terminal_text (field event ''event_id'')) (\<lambda>_.
         bindE (terminal_text (field event ''completion_revision'')) (\<lambda>event_revision.
         bindE (raise_if (event_revision \<noteq> landed_sha) ValueError) (\<lambda>_.
         let record1 = sub_obj work_done ''record'';
             rec = (if record1 \<noteq> [] then record1 else sub_obj documentation ''record'')
         in bindE (terminal_text (field rec ''record_id'')) (\<lambda>typed.
            bindE (raise_if (\<not> is_obj (field work_done ''work_completion'')) ValueError) (\<lambda>_.
            bindE (raise_if (is_true (field work_done ''source_close_required'') \<and>
                             \<not> is_true (field work_done ''source_close_applied'')) ValueError) (\<lambda>_.
            bindE (passed_status (field cleanup ''status'')) (\<lambda>ok.
            bindE (raise_if (\<not> ok) ValueError) (\<lambda>_.
            bindE (check_restart (field cleanup ''post_land_restart'') landed_sha) (\<lambda>_.
              Inr \<lparr>rf_work = work, rf_change = change, rf_commit = commit, rf_pull = pull, rf_head = head, rf_run = run,
                   rf_actions = reference, rf_merge = merged, rf_landed = landed_sha, rf_documentation = revision,
                   rf_record = typed\<rparr>)))))))))))))))))))))"

definition receipt_fields :: "string \<Rightarrow> int \<Rightarrow> obj \<Rightarrow> obj \<Rightarrow> receipt_facts \<Rightarrow> obj" where
  "receipt_fields op_id now obs telemetry f =
     (let documentation = sub_obj obs ''documentation_reconcile''; work_done = sub_obj obs ''work_done'';
          cleanup = sub_obj obs ''cleanup''; restart = field cleanup ''post_land_restart'';
          required = is_true (field work_done ''source_close_required'');
          applied = is_true (field work_done ''source_close_applied'');
          differs = (rf_commit f \<noteq> rf_head f)
      in [(''contract'', JStr ''promotion-terminal-receipt-v1''), (''operation_id'', JStr op_id), (''status'', JStr ''done''),
          (''completed_at_ns'', JInt now), (''work_id'', JStr (rf_work f)), (''typed_record_id'', JStr (rf_record f)),
          (''specification_record_id'', if starts_with ''SPEC-'' (rf_record f) then JStr (rf_record f) else JNull),
          (''change_id'', JStr (rf_change f)), (''source_commit_sha'', JStr (rf_commit f)),
          (''pull_number'', JInt (rf_pull f)), (''head_sha'', JStr (rf_head f)),
          (''actions_run_ids'', JArr [JInt (rf_run f)]), (''actions_reference'', JStr (rf_actions f)),
          (''merge_commit_sha'', JStr (rf_merge f)), (''landed_sha'', JStr (rf_landed f)),
          (''documentation_completion_revision'', JStr (rf_documentation f)),
          (''documentation_event'', JObj (sub_obj documentation ''event'')),
          (''work_completion'', field work_done ''work_completion''),
          (''source_close'', JObj [(''required'', JBool required), (''applied'', JBool applied),
             (''reconciled_after_error'', JBool (is_true (field work_done ''source_close_reconciled_after_error'')))]),
          (''cleanup'', JObj cleanup), (''post_land_restart'', restart),
          (''verification_lineage'', JObj [(''implementation_revision'', JStr (rf_commit f)),
             (''provider_exact_head_revision'', JStr (rf_head f)), (''reconciled_head_differs'', JBool differs),
             (''different_revision_justification'', if differs then JStr ''registered reconciliation preserves the verified source tree on the current remote-default parent; provider-native Actions verifies that exact reconciled PR head'' else JNull)]),
          (''telemetry'', JObj telemetry),
          (''closeout_projection'', JObj [(''authority'', JStr ''terminal_receipt''),
             (''tracked_change_record_role'', JStr ''historical_pre_merge''),
             (''checklist'', JObj [(''pull_request'', JBool True), (''exact_head_actions'', JBool True), (''merge'', JBool True),
                (''documentation'', JBool True), (''work_done'', JBool True), (''source_closed'', JBool (\<not> required \<or> applied)),
                (''cleanup'', JBool True),
                (''post_land_restart'', JBool (restart = JNull \<or> truthy (field (obj_or_empty restart) ''launched_sha'')))])])])"

section \<open>Convergence\<close>

record promotion_execution =
  px_operation :: string
  px_completed :: "string list"
  px_stage :: "string option"
  px_state :: string
  px_observations :: obj
  px_receipt :: "obj option"

definition execution_fields :: "promotion_execution \<Rightarrow> obj" where
  "execution_fields x =
     [(''contract'', JStr ''promotion-execution-v1''), (''operation_id'', JStr (px_operation x)),
      (''completed'', str_array (px_completed x)), (''current_stage'', str_option (px_stage x)),
      (''state'', JStr (px_state x)), (''observations'', JObj (px_observations x))] @
     (case px_receipt x of None \<Rightarrow> [] | Some r \<Rightarrow> [(''terminal_receipt'', JObj r)])"

record 'w controller =
  pc_invoke :: "string \<Rightarrow> obj \<Rightarrow> obj \<Rightarrow> ('w promotion_state, obj) op"
  pc_now :: "'w \<Rightarrow> int \<times> 'w"
  pc_perf :: "'w \<Rightarrow> int \<times> 'w"
  pc_sha :: "string \<Rightarrow> string"

definition tick :: "('w \<Rightarrow> int \<times> 'w) \<Rightarrow> ('w promotion_state, int) op" where
  "tick f st = (case f (ps_world st) of (n, w) \<Rightarrow> (Inr n, st\<lparr>ps_world := w\<rparr>))"

definition elapsed_ms :: "int \<Rightarrow> int \<Rightarrow> int" where
  "elapsed_ms started ended = max 0 ((ended - started) div 1000000)"

definition build_terminal_receipt :: "'w controller \<Rightarrow> string \<Rightarrow> obj \<Rightarrow> obj \<Rightarrow> obj \<Rightarrow> ('w promotion_state, obj) op" where
  "build_terminal_receipt pc op_id handoff obs telemetry =
     bindS (liftE (receipt_facts_of handoff obs)) (\<lambda>f.
     bindS (tick (pc_now pc)) (\<lambda>now. returnS (receipt_fields op_id now obs telemetry f)))"

text \<open>What is saved before a stage, after a failure, and after success.\<close>

definition progress_fields :: "string \<Rightarrow> string list \<Rightarrow> obj \<Rightarrow> obj \<Rightarrow> obj" where
  "progress_fields fp done obs telemetry =
     [(''handoff_fingerprint'', JStr fp), (''completed'', str_array done), (''observations'', JObj obs),
      (''telemetry'', JObj telemetry)]"

definition running_fields :: "string \<Rightarrow> string list \<Rightarrow> obj \<Rightarrow> obj \<Rightarrow> string \<Rightarrow> obj" where
  "running_fields fp done obs telemetry stage =
     progress_fields fp done obs telemetry @ [(''current_stage'', JStr stage), (''state'', JStr ''running'')]"

definition failed_fields :: "string \<Rightarrow> string list \<Rightarrow> obj \<Rightarrow> obj \<Rightarrow> string \<Rightarrow> int \<Rightarrow> obj" where
  "failed_fields fp done obs telemetry stage now =
     progress_fields fp done obs telemetry @
       [(''current_stage'', JStr stage), (''state'', JStr ''failed''), (''retry_not_before_ns'', JInt (now + 30000000000))]"

text \<open>The \<open>except\<close> branch before the exception is raised again.\<close>

definition record_failure ::
  "'w controller \<Rightarrow> string \<Rightarrow> string \<Rightarrow> string list \<Rightarrow> obj \<Rightarrow> obj \<Rightarrow> string \<Rightarrow> int \<Rightarrow> ('w promotion_state, unit) op" where
  "record_failure pc op_id fp done obs telemetry stage started =
     bindS (tick (pc_perf pc)) (\<lambda>ended.
     bindS (liftE (add_count ''stage_timings_ms'' stage (elapsed_ms started ended) telemetry)) (\<lambda>t1.
     bindS (readE (load_checkpoint (pc_sha pc) op_id)) (\<lambda>persisted.
     bindS (liftE (merge_stage_audit t1 (field (case persisted of None \<Rightarrow> [] | Some d \<Rightarrow> d) ''inflight_audit''))) (\<lambda>t2.
     bindS (tick (pc_now pc)) (\<lambda>now.
       save_checkpoint (pc_sha pc) op_id (failed_fields fp done obs t2 stage now))))))"

text \<open>\<open>except Exception: \<dots>; raise\<close>\<close>

definition guarded :: "('s, 'a) op \<Rightarrow> ('s, unit) op \<Rightarrow> ('s, 'a) op" where
  "guarded m h st = (case m st of (Inr x, st') \<Rightarrow> (Inr x, st') | (Inl e, st') \<Rightarrow> bindS h (\<lambda>_. failS e) st')"

definition stage_reason :: "obj \<Rightarrow> obj \<Rightarrow> obj result" where
  "stage_reason result telemetry =
     (case field result ''reason'' of
        JStr why \<Rightarrow> if why = [] then Inr telemetry else add_reason why telemetry
      | _ \<Rightarrow> Inr telemetry)"

text \<open>The loop over the remaining stages: a blocked execution, or the observations and telemetry of all.\<close>

fun run_stages ::
  "'w controller \<Rightarrow> string \<Rightarrow> obj \<Rightarrow> string \<Rightarrow> string list \<Rightarrow> string list \<Rightarrow> obj \<Rightarrow> obj \<Rightarrow>
     ('w promotion_state, promotion_execution + obj \<times> obj) op" where
  "run_stages pc op_id handoff fp done [] obs telemetry = returnS (Inr (obs, telemetry))"
| "run_stages pc op_id handoff fp done (stage # rest) obs telemetry =
     bindS (liftE (add_count ''stage_attempts'' stage 1 telemetry)) (\<lambda>t1.
     bindS (save_checkpoint (pc_sha pc) op_id (running_fields fp done obs t1 stage)) (\<lambda>_.
     bindS (tick (pc_perf pc)) (\<lambda>started.
     bindS (guarded (pc_invoke pc stage handoff obs) (record_failure pc op_id fp done obs t1 stage started)) (\<lambda>result.
     bindS (tick (pc_perf pc)) (\<lambda>ended.
     bindS (liftE (add_count ''stage_timings_ms'' stage (elapsed_ms started ended) t1)) (\<lambda>t2.
     bindS (liftE (merge_stage_audit t2 (field result ''_audit''))) (\<lambda>t3.
     bindS (liftE (passed_status (field result ''status''))) (\<lambda>passed.
       let obs' = set_field stage (JObj result) obs in
       if \<not> passed then
         bindS (liftE (stage_reason result t3)) (\<lambda>t4.
           let x = \<lparr>px_operation = op_id, px_completed = done, px_stage = Some stage, px_state = ''blocked'',
                    px_observations = obs', px_receipt = None\<rparr>
           in bindS (save_checkpoint (pc_sha pc) op_id
                       (execution_fields x @ [(''handoff_fingerprint'', JStr fp), (''telemetry'', JObj t4)]))
                (\<lambda>_. returnS (Inl x)))
       else
         bindS (save_checkpoint (pc_sha pc) op_id (progress_fields fp (done @ [stage]) obs' t3)) (\<lambda>_.
           run_stages pc op_id handoff fp (done @ [stage]) rest obs' t3)))))))))"

text \<open>What is read from the checkpoint: completed stages, observations, telemetry and terminal receipt.\<close>

record resume_point =
  rp_completed :: "json list"
  rp_observations :: obj
  rp_telemetry :: obj
  rp_receipt :: "obj option"

definition resume_from :: "obj \<Rightarrow> string \<Rightarrow> obj option \<Rightarrow> resume_point result" where
  "resume_from handoff fp checkpoint =
     (case checkpoint of
        None \<Rightarrow> Inr \<lparr>rp_completed = [], rp_observations = [], rp_telemetry = initial_telemetry handoff, rp_receipt = None\<rparr>
      | Some d \<Rightarrow>
          bindE (raise_if (field d ''handoff_fingerprint'' \<noteq> JStr fp) ValueError) (\<lambda>_.
          bindE (py_iter (field_or d ''completed'' (JArr []))) (\<lambda>done.
          bindE (py_dict (field_or d ''observations'' (JObj []))) (\<lambda>obs.
          let t = (case field d ''telemetry'' of JObj p \<Rightarrow> dict_update new_telemetry p | _ \<Rightarrow> new_telemetry)
          in bindE (add_number ''replay_count'' 1 t) (\<lambda>t1.
             Inr \<lparr>rp_completed = done, rp_observations = obs, rp_telemetry = t1,
                  rp_receipt = (case field d ''terminal_receipt'' of JObj r \<Rightarrow> Some r | _ \<Rightarrow> None)\<rparr>)))))"

text \<open>Whether the checkpoint is a failure of the expected stage that must not be retried before an instant.\<close>

definition retry_instant :: "obj option \<Rightarrow> json list \<Rightarrow> int option" where
  "retry_instant checkpoint done =
     (case checkpoint of
        None \<Rightarrow> None
      | Some d \<Rightarrow>
          if field d ''state'' = JStr ''failed'' \<and> field d ''current_stage'' = expected_stage done
          then (case field d ''retry_not_before_ns'' of JInt n \<Rightarrow> Some n | _ \<Rightarrow> None)
          else None)"

definition suppress_retry ::
  "'w controller \<Rightarrow> string \<Rightarrow> obj \<Rightarrow> resume_point \<Rightarrow> int \<Rightarrow> ('w promotion_state, promotion_execution) op" where
  "suppress_retry pc op_id d rp instant =
     bindS (liftE (add_number ''suppressed_no_progress_retries'' 1 (rp_telemetry rp))) (\<lambda>t1.
     bindS (liftE (add_reason ''no_progress_retry_backoff'' t1)) (\<lambda>t2.
     bindS (save_checkpoint (pc_sha pc) op_id (set_field ''telemetry'' (JObj t2) d)) (\<lambda>_.
       let stage = py_text (field d ''current_stage'') in
       returnS \<lparr>px_operation = op_id, px_completed = map py_text (rp_completed rp), px_stage = Some stage,
                px_state = ''blocked'',
                px_observations = set_field stage (JObj [(''status'', JStr ''blocked''),
                  (''reason'', JStr ''no_progress_retry_backoff''), (''retry_not_before_ns'', JInt instant)])
                  (rp_observations rp),
                px_receipt = None\<rparr>)))"

definition replay_terminal ::
  "'w controller \<Rightarrow> string \<Rightarrow> obj \<Rightarrow> resume_point \<Rightarrow> obj \<Rightarrow> ('w promotion_state, promotion_execution) op" where
  "replay_terminal pc op_id d rp receipt =
     (let r = set_field ''telemetry'' (JObj (rp_telemetry rp)) receipt in
      bindS (save_checkpoint (pc_sha pc) op_id
               (dict_update d [(''state'', JStr ''done''), (''current_stage'', JNull), (''terminal_receipt'', JObj r),
                               (''telemetry'', JObj (rp_telemetry rp))]))
        (\<lambda>_. returnS \<lparr>px_operation = op_id, px_completed = stages, px_stage = None, px_state = ''done'',
                     px_observations = rp_observations rp, px_receipt = Some r\<rparr>))"

definition finish ::
  "'w controller \<Rightarrow> string \<Rightarrow> obj \<Rightarrow> string \<Rightarrow> obj \<Rightarrow> obj \<Rightarrow> ('w promotion_state, promotion_execution) op" where
  "finish pc op_id handoff fp obs telemetry =
     bindS (build_terminal_receipt pc op_id handoff obs telemetry) (\<lambda>r.
       let x = \<lparr>px_operation = op_id, px_completed = stages, px_stage = None, px_state = ''done'',
                px_observations = obs, px_receipt = Some r\<rparr>
       in bindS (save_checkpoint (pc_sha pc) op_id
                   (execution_fields x @ [(''handoff_fingerprint'', JStr fp), (''telemetry'', JObj telemetry)]))
            (\<lambda>_. returnS x))"

definition run_from ::
  "'w controller \<Rightarrow> string \<Rightarrow> obj \<Rightarrow> string \<Rightarrow> nat \<Rightarrow> obj \<Rightarrow> obj \<Rightarrow> ('w promotion_state, promotion_execution) op" where
  "run_from pc op_id handoff fp n obs telemetry =
     bindS (run_stages pc op_id handoff fp (take n stages) (drop n stages) obs telemetry) (\<lambda>r.
       (case r of Inl x \<Rightarrow> returnS x | Inr (obs', t) \<Rightarrow> finish pc op_id handoff fp obs' t))"

text \<open>After the checks: a suppressed retry, a replay of the terminal receipt, or the loop.\<close>

definition proceed ::
  "'w controller \<Rightarrow> string \<Rightarrow> obj \<Rightarrow> string \<Rightarrow> obj option \<Rightarrow> resume_point \<Rightarrow> ('w promotion_state, promotion_execution) op" where
  "proceed pc op_id handoff fp checkpoint rp =
     (case (checkpoint, rp_receipt rp) of
        (Some d, Some r) \<Rightarrow>
          if length (rp_completed rp) = length stages then replay_terminal pc op_id d rp r
          else run_from pc op_id handoff fp (length (rp_completed rp)) (rp_observations rp) (rp_telemetry rp)
      | _ \<Rightarrow> run_from pc op_id handoff fp (length (rp_completed rp)) (rp_observations rp) (rp_telemetry rp))"

definition converge :: "'w controller \<Rightarrow> string \<Rightarrow> obj \<Rightarrow> ('w promotion_state, promotion_execution) op" where
  "converge pc op_id handoff =
     bindS (liftE (raise_if (field handoff ''status'' \<noteq> JStr ''promotion_ready'') ValueError)) (\<lambda>_.
     let fp = fingerprint (pc_sha pc) (JObj handoff) in
     bindS (readE (load_checkpoint (pc_sha pc) op_id)) (\<lambda>checkpoint.
     bindS (liftE (resume_from handoff fp checkpoint)) (\<lambda>rp.
     bindS (liftE (raise_if (\<not> ordered_prefix (rp_completed rp)) ValueError)) (\<lambda>_.
       (case (checkpoint, retry_instant checkpoint (rp_completed rp)) of
          (Some d, Some instant) \<Rightarrow>
            bindS (tick (pc_now pc)) (\<lambda>now.
              if now < instant then suppress_retry pc op_id d rp instant
              else proceed pc op_id handoff fp checkpoint rp)
        | _ \<Rightarrow> proceed pc op_id handoff fp checkpoint rp)))))"

end
