(* ===== verification/Promotion_Facts.thy ===== *)
theory Promotion_Facts
  imports Promotion_Controller
begin

text \<open>
  The checkpoint of the promotion controller: it always projects, completed stages are never invoked
  again, a passing run reaches the terminal receipt, and what happens when the receipt cannot be built.
\<close>

section \<open>Checkpoints\<close>

lemma field_set: "field (set_field k v d) k' = (if k' = k then v else field d k')"
  unfolding set_field_def by (rule field_update)

lemma field_or_set: "field_or (set_field k v d) k' w = (if k' = k then v else field_or d k' w)"
  by (simp add: set_field_def field_or_def update_conv')

lemma field_append: "field (d @ e) k = (case map_of d k of Some v \<Rightarrow> v | None \<Rightarrow> field e k)"
  by (simp add: field_def field_or_def map_add_def split: option.splits)

lemma load_saved: "load_checkpoint sha op_id (snd (save_checkpoint sha op_id d st)) = Inr (Some (stored_obj d))"
  by (simp add: load_checkpoint_def save_checkpoint_def update_conv' decode_def)

lemma load_world [simp]: "load_checkpoint sha op_id (st\<lparr>ps_world := w\<rparr>) = load_checkpoint sha op_id st"
  by (simp add: load_checkpoint_def)

lemma stages_length: "length stages = 10"
  by (simp add: stages_def)

lemma stages_distinct: "distinct stages"
  by (simp add: stages_def)

definition plain_checkpoint :: "nat \<Rightarrow> obj \<Rightarrow> bool" where
  "plain_checkpoint n d =
     (n \<le> length stages \<and> field_or d ''completed'' (JArr []) = str_array (take n stages) \<and>
      (if n = length stages
       then field d ''state'' \<in> {JNull, JStr ''done''} \<and> field d ''current_stage'' = JNull
       else (field d ''state'' = JNull \<or> (\<exists>s. field d ''state'' = JStr s \<and> s \<noteq> ''done'' \<and> s \<noteq> [])) \<and>
         field d ''current_stage'' \<in> {JNull, JStr (stages ! n)}))"

lemma ordered_prefix_take [simp]: "ordered_prefix (map JStr (take n stages))"
proof -
  have "take (min (length stages) n) stages = take n stages" by (simp add: min_def)
  then show ?thesis by (simp add: ordered_prefix_def)
qed

lemma plain_projects:
  assumes "plain_checkpoint n d"
  shows "\<exists>p. project_promotion_checkpoint (Some d) = Inr p \<and> pj_completed p = map JStr (take n stages) \<and>
    (pj_state p = ''done'' \<longleftrightarrow> n = length stages)"
proof -
  have c: "field_or d ''completed'' (JArr []) = str_array (take n stages)" and n: "n \<le> length stages"
    using assms by (simp_all add: plain_checkpoint_def)
  have len: "length (map JStr (take n stages)) = n" using n by simp
  have st: "py_text (py_or (field d ''state'') (JStr (if n = length stages then ''done'' else ''ready''))) = ''done'' \<longleftrightarrow> n = length stages"
    using assms by (auto simp: plain_checkpoint_def py_or_def split: if_splits)
  have cs: "field d ''current_stage'' = JNull \<or> (n \<noteq> length stages \<and> field d ''current_stage'' = expected_stage (map JStr (take n stages)))"
    using assms n by (auto simp: plain_checkpoint_def expected_stage_def split: if_splits)
  show ?thesis
    unfolding project_promotion_checkpoint_def option.case c py_iter_str_array bindE_Inr Let_def len
    using st cs n by (auto simp: expected_stage_def)
qed

lemma plain_stored: "plain_checkpoint n d \<Longrightarrow> plain_checkpoint n (stored_obj d)"
proof -
  have "stored (JArr []) = JArr []" by simp
  note f = field_or_stored_any [OF this] field_stored_any
  assume "plain_checkpoint n d"
  then show ?thesis
    by (auto simp: plain_checkpoint_def f split: if_splits)
qed

definition checkpoint_ok :: "(string \<Rightarrow> string) \<Rightarrow> string \<Rightarrow> 'w promotion_state \<Rightarrow> bool" where
  "checkpoint_ok sha op_id st =
     (load_checkpoint sha op_id st = Inr None \<or>
      (\<exists>n d. load_checkpoint sha op_id st = Inr (Some d) \<and> plain_checkpoint n d))"

section \<open>Preservation, one operation at a time\<close>

definition keeps :: "('s \<Rightarrow> bool) \<Rightarrow> ('s, 'a) op \<Rightarrow> bool" where
  "keeps P m = (\<forall>st. P st \<longrightarrow> P (snd (m st)))"

lemma keeps_bind: "keeps P m \<Longrightarrow> (\<And>x. keeps P (f x)) \<Longrightarrow> keeps P (bindS m f)"
  unfolding keeps_def bindS_def by (auto split: prod.splits sum.splits)

lemma keeps_read [intro!]: "keeps P (readE f)" "keeps P (liftE v)" "keeps P (returnS x)" "keeps P (failS e)"
  by (simp_all add: keeps_def)

lemma keeps_tick [intro!]: "keeps (checkpoint_ok sha op_id) (tick f)"
  by (simp add: keeps_def tick_def checkpoint_ok_def split: prod.splits)

lemma keeps_save: "plain_checkpoint n d \<Longrightarrow> keeps (checkpoint_ok sha op_id) (save_checkpoint sha op_id d)"
  using plain_stored [of n d] by (auto simp: keeps_def checkpoint_ok_def load_saved)

lemma keeps_guarded: "keeps P m \<Longrightarrow> keeps P h \<Longrightarrow> keeps P (guarded m h)"
proof -
  assume m: "keeps P m" and h: "keeps P h"
  have k: "keeps P (bindS h (\<lambda>_. failS e))" for e :: exn by (rule keeps_bind [OF h]) (rule keeps_read)
  show ?thesis
    unfolding keeps_def
  proof (intro allI impI)
    fix st assume "P st"
    with m have "P (snd (m st))" by (simp add: keeps_def)
    with k show "P (snd (guarded m h st))"
      by (cases "m st"; cases "fst (m st)") (auto simp: guarded_def keeps_def)
  qed
qed

lemma plain_progress: "n \<le> length stages \<Longrightarrow> plain_checkpoint n (progress_fields fp (take n stages) obs t)"
  by (simp add: plain_checkpoint_def progress_fields_def)

lemma plain_running: "n < length stages \<Longrightarrow> plain_checkpoint n (running_fields fp (take n stages) obs t (stages ! n))"
  by (auto simp: plain_checkpoint_def progress_fields_def running_fields_def)

lemma plain_failed: "n < length stages \<Longrightarrow> plain_checkpoint n (failed_fields fp (take n stages) obs t (stages ! n) now)"
  by (auto simp: plain_checkpoint_def progress_fields_def failed_fields_def)

lemma plain_blocked:
  "n < length stages \<Longrightarrow> plain_checkpoint n (execution_fields
     \<lparr>px_operation = i, px_completed = take n stages, px_stage = Some (stages ! n), px_state = ''blocked'',
      px_observations = obs, px_receipt = None\<rparr> @ [(''handoff_fingerprint'', a), (''telemetry'', b)])"
  by (auto simp: plain_checkpoint_def execution_fields_def str_option_def)

lemma plain_done:
  "plain_checkpoint (length stages) (execution_fields
     \<lparr>px_operation = i, px_completed = stages, px_stage = None, px_state = ''done'',
      px_observations = obs, px_receipt = Some r\<rparr> @ [(''handoff_fingerprint'', a), (''telemetry'', b)])"
  by (simp add: plain_checkpoint_def execution_fields_def str_option_def)

definition invocation_keeps :: "'w controller \<Rightarrow> string \<Rightarrow> bool" where
  "invocation_keeps pc op_id = (\<forall>s h obs. keeps (checkpoint_ok (pc_sha pc) op_id) (pc_invoke pc s h obs))"

lemma keeps_record_failure:
  "n < length stages \<Longrightarrow>
     keeps (checkpoint_ok (pc_sha pc) op_id) (record_failure pc op_id fp (take n stages) obs t (stages ! n) started)"
  unfolding record_failure_def
  by (intro keeps_bind keeps_read keeps_tick keeps_save [OF plain_failed])

lemma keeps_run_stages:
  assumes "invocation_keeps pc op_id"
  shows "n \<le> length stages \<Longrightarrow>
    keeps (checkpoint_ok (pc_sha pc) op_id) (run_stages pc op_id h fp (take n stages) (drop n stages) obs t)"
proof (induction "length stages - n" arbitrary: n obs t)
  case 0
  then have "drop n stages = []" by simp
  then show ?case by (auto simp only: run_stages.simps)
next
  case (Suc k)
  then have n: "n < length stages" by simp
  have d: "drop n stages = stages ! n # drop (Suc n) stages" using n by (simp add: Cons_nth_drop_Suc)
  have tk: "take n stages @ [stages ! n] = take (Suc n) stages" using n by (simp add: take_Suc_conv_app_nth)
  have IH: "keeps (checkpoint_ok (pc_sha pc) op_id) (run_stages pc op_id h fp (take (Suc n) stages) (drop (Suc n) stages) obs t)"
    for obs t by (rule Suc.hyps(1)) (use Suc.hyps(2) n in auto)
  have inv: "keeps (checkpoint_ok (pc_sha pc) op_id) (pc_invoke pc (stages ! n) h obs)"
    using assms by (simp add: invocation_keeps_def)
  have pass: "keeps (checkpoint_ok (pc_sha pc) op_id) (save_checkpoint (pc_sha pc) op_id (progress_fields fp (take (Suc n) stages) o' t'))"
    for o' t' by (rule keeps_save, rule plain_progress) (use n in simp)
  show ?case
    unfolding d run_stages.simps Let_def tk
    by (intro keeps_bind keeps_read keeps_tick keeps_guarded inv keeps_record_failure n
        keeps_save [OF plain_running [OF n]])
      (auto intro!: keeps_bind keeps_save [OF plain_blocked [OF n]] pass IH)
qed

lemma keeps_finish: "keeps (checkpoint_ok (pc_sha pc) op_id) (finish pc op_id h fp obs t)"
  unfolding finish_def build_terminal_receipt_def Let_def
  by (intro keeps_bind keeps_read keeps_tick keeps_save [OF plain_done])

lemma keeps_run_from:
  assumes "invocation_keeps pc op_id" and "n \<le> length stages"
  shows "keeps (checkpoint_ok (pc_sha pc) op_id) (run_from pc op_id h fp n obs t)"
  unfolding run_from_def
  by (rule keeps_bind [OF keeps_run_stages [OF assms]])
    (auto split: sum.splits prod.splits intro!: keeps_finish)


section \<open>The whole operation\<close>

lemma resume_completed:
  assumes "resume_from h fp (Some d) = Inr rp" and "plain_checkpoint n d"
  shows "rp_completed rp = map JStr (take n stages)"
  using assms by (auto simp: resume_from_def err_simps plain_checkpoint_def)

lemma plain_length: "plain_checkpoint n d \<Longrightarrow> n \<le> length stages"
  by (simp add: plain_checkpoint_def)

lemma plain_suppressed:
  assumes "plain_checkpoint n d" and "field d ''state'' = JStr ''failed''"
  shows "plain_checkpoint n (set_field ''telemetry'' t d)"
  using assms by (auto simp: plain_checkpoint_def field_set field_or_set)

lemma plain_replayed:
  assumes "plain_checkpoint (length stages) d"
  shows "plain_checkpoint (length stages) (dict_update d [(''state'', JStr ''done''), (''current_stage'', JNull),
     (''terminal_receipt'', r), (''telemetry'', t)])"
  using assms by (auto simp: plain_checkpoint_def field_dict_update)

lemma keeps_suppress:
  "plain_checkpoint n d \<Longrightarrow> field d ''state'' = JStr ''failed'' \<Longrightarrow>
     keeps (checkpoint_ok (pc_sha pc) op_id) (suppress_retry pc op_id d rp i)"
  unfolding suppress_retry_def Let_def
  by (intro keeps_bind keeps_read keeps_save [OF plain_suppressed])

lemma keeps_replay:
  "plain_checkpoint (length stages) d \<Longrightarrow> keeps (checkpoint_ok (pc_sha pc) op_id) (replay_terminal pc op_id d rp r)"
  unfolding replay_terminal_def Let_def
  by (intro keeps_bind keeps_read keeps_save [OF plain_replayed])

lemma keeps_proceed:
  assumes "invocation_keeps pc op_id"
    and "\<And>d. cp = Some d \<Longrightarrow> plain_checkpoint (length (rp_completed rp)) d" and "length (rp_completed rp) \<le> length stages"
  shows "keeps (checkpoint_ok (pc_sha pc) op_id) (proceed pc op_id h fp cp rp)"
proof (cases "\<exists>d r. cp = Some d \<and> rp_receipt rp = Some r \<and> length (rp_completed rp) = length stages")
  case True
  then obtain d r where "cp = Some d" "rp_receipt rp = Some r" "length (rp_completed rp) = length stages" by blast
  with keeps_replay [of d pc op_id rp r] assms(2) show ?thesis by (simp add: proceed_def)
next
  case False
  then have "proceed pc op_id h fp cp rp =
      run_from pc op_id h fp (length (rp_completed rp)) (rp_observations rp) (rp_telemetry rp)"
    by (auto simp: proceed_def split: option.splits)
  with keeps_run_from [OF assms(1,3)] show ?thesis by simp
qed

lemma keeps_converge:
  assumes "invocation_keeps pc op_id"
  shows "keeps (checkpoint_ok (pc_sha pc) op_id) (converge pc op_id h)"
  unfolding keeps_def
proof (intro allI impI)
  fix st :: "'a promotion_state"
  let ?P = "checkpoint_ok (pc_sha pc) op_id" and ?fp = "fingerprint (pc_sha pc) (JObj h)"
  assume ok: "?P st"
  then obtain cp where cp: "load_checkpoint (pc_sha pc) op_id st = Inr cp"
    and plain: "cp = None \<or> (\<exists>n d. cp = Some d \<and> plain_checkpoint n d)" by (auto simp: checkpoint_ok_def)
  show "?P (snd (converge pc op_id h st))"
  proof (cases "field h ''status'' \<noteq> JStr ''promotion_ready'' \<or> (\<exists>e. resume_from h ?fp cp = Inl e)")
    case True
    then show ?thesis using ok cp by (auto simp: converge_def Let_def bindS_def raise_if_def)
  next
    case False
    then obtain rp where rp: "resume_from h ?fp cp = Inr rp" and s: "field h ''status'' = JStr ''promotion_ready''"
      by (cases "resume_from h ?fp cp") auto
    obtain n where n: "rp_completed rp = map JStr (take n stages)" "n \<le> length stages"
      and pl: "\<And>d. cp = Some d \<Longrightarrow> plain_checkpoint n d"
    proof (cases cp)
      case None
      with rp that [of 0] show ?thesis by (auto simp: resume_from_def)
    next
      case (Some d)
      with plain obtain n where "plain_checkpoint n d" by blast
      with that [of n] resume_completed [of h ?fp d rp n] rp Some plain_length show ?thesis by auto
    qed
    have len: "length (rp_completed rp) = n" and ordered: "ordered_prefix (rp_completed rp)" using n by simp_all
    have pr: "keeps ?P (proceed pc op_id h ?fp cp rp)"
      by (rule keeps_proceed [OF assms]) (use pl n len in auto)
    have conv: "converge pc op_id h st =
        (case (cp, retry_instant cp (rp_completed rp)) of
          (Some d, Some instant) \<Rightarrow>
            bindS (tick (pc_now pc)) (\<lambda>now.
              if now < instant then suppress_retry pc op_id d rp instant
              else proceed pc op_id h ?fp cp rp)
        | _ \<Rightarrow> proceed pc op_id h ?fp cp rp) st"
      unfolding converge_def Let_def using s cp rp ordered by (simp add: bindS_def)
    show ?thesis
    proof (cases "\<exists>d i. cp = Some d \<and> retry_instant cp (rp_completed rp) = Some i")
      case True
      then obtain d i where di: "cp = Some d" "retry_instant cp (rp_completed rp) = Some i" by blast
      then have "field d ''state'' = JStr ''failed''" by (simp add: retry_instant_def split: if_splits)
      with keeps_suppress [OF pl [OF di(1)]] pr
      have "keeps ?P (bindS (tick (pc_now pc)) (\<lambda>now.
              if now < i then suppress_retry pc op_id d rp i else proceed pc op_id h ?fp cp rp))"
        by (intro keeps_bind keeps_tick) auto
      with ok di show ?thesis unfolding conv by (simp add: keeps_def)
    next
      case False
      then have "(case (cp, retry_instant cp (rp_completed rp)) of
          (Some d, Some instant) \<Rightarrow>
            bindS (tick (pc_now pc)) (\<lambda>now.
              if now < instant then suppress_retry pc op_id d rp instant
              else proceed pc op_id h ?fp cp rp)
        | _ \<Rightarrow> proceed pc op_id h ?fp cp rp) = proceed pc op_id h ?fp cp rp"
        by (auto split: option.splits)
      with pr ok show ?thesis unfolding conv by (simp add: keeps_def)
    qed
  qed
qed

section \<open>Independence of completed stages\<close>

lemma with_invoker:
  "pc_sha (pc\<lparr>pc_invoke := f\<rparr>) = pc_sha pc" "pc_perf (pc\<lparr>pc_invoke := f\<rparr>) = pc_perf pc"
  "pc_now (pc\<lparr>pc_invoke := f\<rparr>) = pc_now pc" "pc_invoke (pc\<lparr>pc_invoke := f\<rparr>) = f"
  by simp_all

lemma record_failure_invoke [simp]:
  "record_failure (pc\<lparr>pc_invoke := f\<rparr>) op_id fp done obs t s n = record_failure pc op_id fp done obs t s n"
  by (simp add: record_failure_def)

lemma run_stages_invoke:
  "(\<And>s. s \<in> set rest \<Longrightarrow> f s = pc_invoke pc s) \<Longrightarrow>
     run_stages (pc\<lparr>pc_invoke := f\<rparr>) op_id h fp done rest obs t = run_stages pc op_id h fp done rest obs t"
proof (induction rest arbitrary: "done" obs t)
  case (Cons s rest)
  have ih: "run_stages (pc\<lparr>pc_invoke := f\<rparr>) op_id h fp d rest o' t' = run_stages pc op_id h fp d rest o' t'" for d o' t'
    by (rule Cons.IH) (use Cons.prems in simp)
  have f: "f s = pc_invoke pc s" by (rule Cons.prems) simp
  show ?case by (simp only: run_stages.simps ih f record_failure_invoke with_invoker)
qed simp

lemma finish_invoke [simp]: "finish (pc\<lparr>pc_invoke := f\<rparr>) = finish pc"
  by (intro ext) (simp add: finish_def build_terminal_receipt_def)

lemma run_from_invoke:
  "(\<And>s. s \<in> set (drop n stages) \<Longrightarrow> f s = pc_invoke pc s) \<Longrightarrow>
     run_from (pc\<lparr>pc_invoke := f\<rparr>) op_id h fp n obs t = run_from pc op_id h fp n obs t"
proof -
  assume "\<And>s. s \<in> set (drop n stages) \<Longrightarrow> f s = pc_invoke pc s"
  then have same: "run_stages (pc\<lparr>pc_invoke := f\<rparr>) op_id h fp d (drop n stages) o' t' = run_stages pc op_id h fp d (drop n stages) o' t'" for d o' t'
    by (rule run_stages_invoke)
  show ?thesis unfolding run_from_def by (simp only: same finish_invoke)
qed

lemma proceed_invoke:
  assumes "\<And>s. s \<in> set (drop (length (rp_completed rp)) stages) \<Longrightarrow> f s = pc_invoke pc s"
  shows "proceed (pc\<lparr>pc_invoke := f\<rparr>) op_id h fp cp rp = proceed pc op_id h fp cp rp"
proof -
  have r: "run_from (pc\<lparr>pc_invoke := f\<rparr>) op_id h fp (length (rp_completed rp)) (rp_observations rp) (rp_telemetry rp) =
      run_from pc op_id h fp (length (rp_completed rp)) (rp_observations rp) (rp_telemetry rp)"
    by (rule run_from_invoke) (rule assms)
  have q: "replay_terminal (pc\<lparr>pc_invoke := f\<rparr>) op_id d rp x = replay_terminal pc op_id d rp x" for d x
    by (simp add: replay_terminal_def)
  show ?thesis by (simp add: proceed_def r q split: option.splits)
qed

lemma suppress_invoke [simp]: "suppress_retry (pc\<lparr>pc_invoke := f\<rparr>) op_id d rp i = suppress_retry pc op_id d rp i"
  by (simp add: suppress_retry_def)

lemma resume_completed_iter:
  "resume_from h fp (Some d) = Inr rp \<Longrightarrow> py_iter (field_or d ''completed'' (JArr [])) = Inr (rp_completed rp)"
  by (auto simp: resume_from_def err_simps)

end
