(* ===== verification/Promotion_Claims.thy ===== *)
theory Promotion_Claims
  imports Promotion_Facts
begin

text \<open>
  What the promotion controller promises: the checkpoint always projects, completed stages are not
  repeated, a promotion that is done is accounted for, a passing run finishes, a failed stage is not
  retried within its back-off, and a complete promotion without a receipt cannot recover.
\<close>

section \<open>What a run leaves\<close>

text \<open>One stage: the result that was observed, and the rest of the run.\<close>

lemma run_stages_step:
  assumes "run_stages pc op_id h fp done (s # rest) obs t st = (Inr r, st')"
  obtains (blocked) x where "r = Inl x" "px_state x = ''blocked''"
  | (passed) res t2 s2 where "passed_status (field res ''status'') = Inr True"
      "run_stages pc op_id h fp (done @ [s]) rest (set_field s (JObj res) obs) t2 s2 = (Inr r, st')"
proof -
  from assms obtain res p t3 s3 where p: "passed_status (field res ''status'') = Inr p"
    and tail: "(let obs' = set_field s (JObj res) obs in
       if \<not> p then
         bindS (liftE (stage_reason res t3)) (\<lambda>t4.
           let x = \<lparr>px_operation = op_id, px_completed = done, px_stage = Some s, px_state = ''blocked'',
                    px_observations = obs', px_receipt = None\<rparr>
           in bindS (save_checkpoint (pc_sha pc) op_id
                       (execution_fields x @ [(''handoff_fingerprint'', JStr fp), (''telemetry'', JObj t4)]))
                (\<lambda>_. returnS (Inl x)))
       else
         bindS (save_checkpoint (pc_sha pc) op_id (progress_fields fp (done @ [s]) obs' t3)) (\<lambda>_.
           run_stages pc op_id h fp (done @ [s]) rest obs' t3)) s3 = (Inr r, st')"
    unfolding run_stages.simps by (elim bindS_InrE lift_bindS_InrE) (rule that, (simp only: op_simps prod.inject, elim conjE)+)
  show ?thesis
  proof (cases p)
    case False
    with tail have "\<exists>x. r = Inl x \<and> px_state x = ''blocked''"
      unfolding Let_def if_P [OF False [unfolded atomize_not]]
      by (auto simp: bindS_def Let_def save_checkpoint_def split: prod.splits sum.splits)
    then show ?thesis using blocked by blast
  next
    case True
    with tail p show ?thesis by (auto simp: Let_def save_checkpoint_def elim!: bindS_InrE intro: passed)
  qed
qed

lemma run_stages_observes:
  "run_stages pc op_id h fp done rest obs t st = (Inr (Inr (obs', t')), st') \<Longrightarrow> distinct rest \<Longrightarrow>
     (\<forall>s \<in> set rest. \<exists>res. field obs' s = JObj res \<and> passed_status (field res ''status'') = Inr True) \<and>
     (\<forall>k. k \<notin> set rest \<longrightarrow> field obs' k = field obs k)"
proof (induction rest arbitrary: "done" obs t st)
  case (Cons s rest)
  from Cons.prems(1) show ?case
  proof (cases rule: run_stages_step)
    case (passed res t2 s2)
    from Cons.IH [OF passed(2)] Cons.prems(2)
    have ih: "\<forall>s \<in> set rest. \<exists>res. field obs' s = JObj res \<and> passed_status (field res ''status'') = Inr True"
      and other: "\<And>k. k \<notin> set rest \<Longrightarrow> field obs' k = field (set_field s (JObj res) obs) k" by auto
    have "field obs' s = JObj res" using other [of s] Cons.prems(2) by (simp add: field_set)
    with ih passed(1) other show ?thesis by (auto simp: field_set)
  qed simp
qed simp

lemma run_stages_blocked:
  "run_stages pc op_id h fp done rest obs t st = (Inr (Inl x), st') \<Longrightarrow> px_state x = ''blocked''"
proof (induction rest arbitrary: "done" obs t st)
  case (Cons s rest)
  from Cons.prems show ?case by (cases rule: run_stages_step) (auto intro: Cons.IH)
qed simp

lemma finish_accounts:
  assumes "finish pc op_id h fp obs t st = (Inr x, st')"
  shows "px_completed x = stages \<and> px_observations x = obs \<and>
    (\<exists>f now. receipt_facts_of h obs = Inr f \<and> px_receipt x = Some (receipt_fields op_id now obs t f))"
proof -
  from assms obtain r s2 where r: "build_terminal_receipt pc op_id h obs t st = (Inr r, s2)"
    and x: "x = \<lparr>px_operation = op_id, px_completed = stages, px_stage = None, px_state = ''done'',
                px_observations = obs, px_receipt = Some r\<rparr>"
    unfolding finish_def by (rule bindS_InrE) (auto simp: Let_def save_checkpoint_def bindS_def)
  from r obtain f now where "receipt_facts_of h obs = Inr f" "r = receipt_fields op_id now obs t f"
    unfolding build_terminal_receipt_def by (elim lift_bindS_InrE bindS_InrE) auto
  with x show ?thesis by simp blast
qed

lemma run_from_done:
  assumes "run_from pc op_id h fp n obs t st = (Inr x, st')" and "px_state x = ''done''"
  shows "px_completed x = stages \<and>
    (\<exists>f now t'. receipt_facts_of h (px_observations x) = Inr f \<and>
       px_receipt x = Some (receipt_fields op_id now (px_observations x) t' f)) \<and>
    (\<forall>s \<in> set (drop n stages). \<exists>res. field (px_observations x) s = JObj res \<and>
       passed_status (field res ''status'') = Inr True)"
proof -
  from assms(1) obtain r s2 where r: "run_stages pc op_id h fp (take n stages) (drop n stages) obs t st = (Inr r, s2)"
    and x: "(case r of Inl x \<Rightarrow> returnS x | Inr (obs', t) \<Rightarrow> finish pc op_id h fp obs' t) s2 = (Inr x, st')"
    unfolding run_from_def by (rule bindS_InrE)
  show ?thesis
  proof (cases r)
    case (Inl y)
    with r x run_stages_blocked assms(2) show ?thesis by fastforce
  next
    case (Inr q)
    obtain obs' t' where q: "q = (obs', t')" by (cases q)
    from x Inr q have "finish pc op_id h fp obs' t' s2 = (Inr x, st')" by simp
    from finish_accounts [OF this] run_stages_observes [OF r [unfolded Inr q]] stages_distinct
    show ?thesis by auto
  qed
qed

text \<open>A controller call that succeeds: what it read, and which branch it took.\<close>

lemma converge_cases:
  assumes "converge pc op_id h st = (Inr x, st')"
  obtains cp rp where "load_checkpoint (pc_sha pc) op_id st = Inr cp"
    "resume_from h (fingerprint (pc_sha pc) (JObj h)) cp = Inr rp" "ordered_prefix (rp_completed rp)"
    "(\<exists>d i. cp = Some d \<and> retry_instant cp (rp_completed rp) = Some i \<and> px_state x = ''blocked'') \<or>
     (\<exists>s1. proceed pc op_id h (fingerprint (pc_sha pc) (JObj h)) cp rp s1 = (Inr x, st'))"
proof -
  let ?fp = "fingerprint (pc_sha pc) (JObj h)"
  from assms obtain cp rp where cp: "load_checkpoint (pc_sha pc) op_id st = Inr cp"
    and rp: "resume_from h ?fp cp = Inr rp" and o: "ordered_prefix (rp_completed rp)"
    and tail: "(case (cp, retry_instant cp (rp_completed rp)) of
          (Some d, Some instant) \<Rightarrow>
            bindS (tick (pc_now pc)) (\<lambda>now.
              if now < instant then suppress_retry pc op_id d rp instant
              else proceed pc op_id h ?fp cp rp)
        | _ \<Rightarrow> proceed pc op_id h ?fp cp rp) st = (Inr x, st')"
    unfolding converge_def Let_def by (elim lift_bindS_InrE readE_bindS_InrE) (auto simp: err_simps)
  have sup: "px_state x = ''blocked''" if "suppress_retry pc op_id d rp i s = (Inr x, st')" for d i s
    using that unfolding suppress_retry_def by (elim lift_bindS_InrE bindS_InrE) (auto simp: Let_def)
  show ?thesis
  proof (rule that [OF cp rp o], cases "\<exists>d i. cp = Some d \<and> retry_instant cp (rp_completed rp) = Some i")
    case True
    then obtain d i where di: "cp = Some d" "retry_instant cp (rp_completed rp) = Some i" by blast
    with tail have "bindS (tick (pc_now pc)) (\<lambda>now.
              if now < i then suppress_retry pc op_id d rp i else proceed pc op_id h ?fp cp rp) st = (Inr x, st')"
      by simp
    then obtain now s1 where "(if now < i then suppress_retry pc op_id d rp i else proceed pc op_id h ?fp cp rp) s1 = (Inr x, st')"
      by (rule bindS_InrE)
    then show "(\<exists>d i. cp = Some d \<and> retry_instant cp (rp_completed rp) = Some i \<and> px_state x = ''blocked'') \<or>
        (\<exists>s1. proceed pc op_id h ?fp cp rp s1 = (Inr x, st'))"
      using di sup by (cases "now < i") auto
  next
    case False
    then have "(case (cp, retry_instant cp (rp_completed rp)) of
          (Some d, Some instant) \<Rightarrow>
            bindS (tick (pc_now pc)) (\<lambda>now.
              if now < instant then suppress_retry pc op_id d rp instant
              else proceed pc op_id h ?fp cp rp)
        | _ \<Rightarrow> proceed pc op_id h ?fp cp rp) = proceed pc op_id h ?fp cp rp"
      by (auto split: option.splits)
    with tail show "(\<exists>d i. cp = Some d \<and> retry_instant cp (rp_completed rp) = Some i \<and> px_state x = ''blocked'') \<or>
        (\<exists>s1. proceed pc op_id h ?fp cp rp s1 = (Inr x, st'))" by auto
  qed
qed

section \<open>A passing run\<close>

text \<open>Telemetry whose counters are integers: nothing the loop does to it raises.\<close>

definition counters :: "obj \<Rightarrow> bool" where
  "counters d = (\<forall>k. \<exists>n. field_or d k (JInt 0) = JInt n)"

definition number_keys :: "string list" where
  "number_keys = ''replay_count'' # audit_keys"

lemma number_keys_set: "set number_keys = insert ''replay_count'' (set audit_keys)"
  by (simp add: number_keys_def)

definition telemetry_ok :: "obj \<Rightarrow> bool" where
  "telemetry_ok t =
     ((\<forall>k \<in> set number_keys. \<exists>n. field_or t k (JInt 0) = JInt n) \<and>
      (\<forall>k \<in> {''stage_timings_ms'', ''stage_attempts'', ''operation_counts''}.
         \<exists>d. field_or t k (JObj []) = JObj d \<and> counters d) \<and> distinct (map fst t))"

lemma distinct_set: "distinct (map fst d) \<Longrightarrow> distinct (map fst (set_field k v d))"
  unfolding set_field_def by (rule distinct_update)

lemma foldE_total:
  "P s \<Longrightarrow> (\<And>s x. P s \<Longrightarrow> x \<in> set xs \<Longrightarrow> \<exists>s'. f s x = Inr s' \<and> P s') \<Longrightarrow> \<exists>s'. foldE f s xs = Inr s' \<and> P s'"
proof (induction xs arbitrary: s)
  case (Cons x xs)
  from Cons.prems(2) [OF Cons.prems(1), of x] obtain s' where "f s x = Inr s'" "P s'" by auto
  moreover from Cons.IH [OF \<open>P s'\<close>] Cons.prems(2) have "\<exists>s''. foldE f s' xs = Inr s'' \<and> P s''" by simp
  ultimately show ?case by simp
qed simp

lemma counters_set: "counters d \<Longrightarrow> counters (set_field k (JInt n) d)"
  by (auto simp: counters_def field_or_set)

lemma telemetry_set_count:
  "telemetry_ok t \<Longrightarrow> counters d \<Longrightarrow> key \<notin> set number_keys \<Longrightarrow> telemetry_ok (set_field key (JObj d) t)"
  unfolding telemetry_ok_def field_or_set
  by (intro conjI ballI distinct_set) (simp split: if_split, blast | blast)+

lemma telemetry_set_number:
  assumes "telemetry_ok t" and "key \<in> set number_keys"
  shows "telemetry_ok (set_field key (JInt n) t)"
proof -
  have "key \<notin> {''stage_timings_ms'', ''stage_attempts'', ''operation_counts''}"
    using assms(2) by (auto simp: number_keys_def audit_keys_def)
  then have other: "k \<noteq> key" if "k \<in> {''stage_timings_ms'', ''stage_attempts'', ''operation_counts''}" for k
    using that by blast
  show ?thesis
    unfolding telemetry_ok_def
  proof (intro conjI ballI distinct_set)
    fix k assume "k \<in> set number_keys"
    with assms(1) show "\<exists>m. field_or (set_field key (JInt n) t) k (JInt 0) = JInt m"
      by (cases "k = key") (simp_all add: telemetry_ok_def field_or_set)
  next
    fix k assume k: "k \<in> {''stage_timings_ms'', ''stage_attempts'', ''operation_counts''}"
    with assms(1) have "\<exists>d. field_or t k (JObj []) = JObj d \<and> counters d" unfolding telemetry_ok_def by blast
    with other [OF k] show "\<exists>d. field_or (set_field key (JInt n) t) k (JObj []) = JObj d \<and> counters d"
      by (simp add: field_or_set)
  next
    show "distinct (map fst t)" using assms(1) by (simp add: telemetry_ok_def)
  qed
qed

lemma add_count_total:
  assumes "telemetry_ok t" and "key \<in> {''stage_timings_ms'', ''stage_attempts''}"
  shows "\<exists>t'. add_count key name n t = Inr t' \<and> telemetry_ok t'"
proof -
  from assms obtain d where d: "field_or t key (JObj []) = JObj d" "counters d" unfolding telemetry_ok_def by blast
  then obtain m where "field_or d name (JInt 0) = JInt m" by (auto simp: counters_def)
  moreover have "key \<notin> set number_keys" using assms(2) by (auto simp: number_keys_def audit_keys_def)
  ultimately show ?thesis
    using d assms(1) by (auto simp: add_count_def to_int_def intro!: telemetry_set_count counters_set)
qed

lemma add_audit_total:
  assumes "telemetry_ok t" and "key \<in> set audit_keys"
  shows "\<exists>t'. add_audit_number a t key = Inr t' \<and> telemetry_ok t'"
proof -
  from assms(2) have k: "key \<in> set number_keys" by (simp add: number_keys_set)
  with assms obtain m where m: "field_or t key (JInt 0) = JInt m" unfolding telemetry_ok_def by blast
  show ?thesis
    using assms m telemetry_set_number [OF assms(1) k]
    by (auto simp: add_audit_number_def add_number_def to_int_def split: json.splits)
qed

lemma add_operation_total: "counters c \<Longrightarrow> \<exists>c'. add_operation c p = Inr c' \<and> counters c'"
proof -
  assume c: "counters c"
  then obtain m where "field_or c (fst p) (JInt 0) = JInt m" by (auto simp: counters_def)
  with c show ?thesis by (auto simp: add_operation_def to_int_def intro: counters_set split: option.splits)
qed

lemma merge_counts_total:
  assumes "telemetry_ok t"
  shows "\<exists>t'. merge_counts a t = Inr t' \<and> telemetry_ok t'"
proof -
  from assms obtain c where c: "field_or t ''operation_counts'' (JObj []) = JObj c" "counters c"
    unfolding telemetry_ok_def by blast
  have k: "''operation_counts'' \<notin> set number_keys" by (simp add: number_keys_def audit_keys_def)
  have "\<exists>c'. foldE add_operation c raw = Inr c' \<and> counters c'" for raw
    by (rule foldE_total) (use c(2) add_operation_total in auto)
  then show ?thesis
    using telemetry_set_count [OF assms _ k] c
    by (cases "field a ''operation_counts''") (simp_all add: merge_counts_def Let_def bindE_def split: sum.splits, metis sum.distinct(1) sum.inject(2))
qed

lemma merge_audit_total:
  assumes "telemetry_ok t"
  shows "\<exists>t'. merge_stage_audit t audit = Inr t' \<and> telemetry_ok t'"
proof (cases audit)
  case (JObj a)
  have "\<exists>t'. foldE (add_audit_number a) t audit_keys = Inr t' \<and> telemetry_ok t'"
    by (rule foldE_total) (use assms add_audit_total in auto)
  then obtain t1 where t1: "foldE (add_audit_number a) t audit_keys = Inr t1" "telemetry_ok t1" by blast
  have "telemetry_ok (merge_proofs a t1)"
    using t1(2) by (auto simp: merge_proofs_def telemetry_ok_def field_or_set number_keys_def audit_keys_def Let_def intro: distinct_set)
  from merge_counts_total [OF this] t1(1) show ?thesis by (simp add: merge_stage_audit_def JObj)
qed (use assms in \<open>simp_all add: merge_stage_audit_def\<close>)

lemma lift_step: "bindS (liftE (Inr x)) f st = f x st"
  by (simp add: bindS_def)

lemma lift_cases: "bindS (liftE v) f st = (case v of Inl e \<Rightarrow> (Inl e, st) | Inr x \<Rightarrow> f x st)"
  by (simp add: bindS_def)

lemma read_cases: "bindS (readE g) f st = (case g st of Inl e \<Rightarrow> (Inl e, st) | Inr x \<Rightarrow> f x st)"
  by (simp add: bindS_def)

lemma save_step: "bindS (save_checkpoint sha op_id d) f st = f () (snd (save_checkpoint sha op_id d st))"
  by (simp add: bindS_def save_checkpoint_def)

lemma tick_total: "\<exists>n st'. tick f st = (Inr n, st')"
  by (cases "f (ps_world st)") (simp add: tick_def)

text \<open>
  What lets a promotion run on: a condition \<open>good k obs st\<close> on the observations and the state before stage
  \<open>k\<close> that survives the controller's own writes and clock readings (\<open>steady\<close>), and under which each open stage
  passes and establishes the condition of the next one (\<open>carries\<close>).
\<close>

definition steady :: "'w controller \<Rightarrow> string \<Rightarrow> (nat \<Rightarrow> obj \<Rightarrow> 'w promotion_state \<Rightarrow> bool) \<Rightarrow> bool" where
  "steady pc op_id good \<longleftrightarrow> (\<forall>k obs st d. good k obs st \<longrightarrow>
     good k obs (snd (save_checkpoint (pc_sha pc) op_id d st)) \<and>
     good k obs (snd (tick (pc_perf pc) st)) \<and> good k obs (snd (tick (pc_now pc) st)))"

definition carries :: "'w controller \<Rightarrow> obj \<Rightarrow> (nat \<Rightarrow> obj \<Rightarrow> 'w promotion_state \<Rightarrow> bool) \<Rightarrow> nat \<Rightarrow> bool" where
  "carries pc h good n \<longleftrightarrow> (\<forall>k obs st. n \<le> k \<longrightarrow> k < length stages \<longrightarrow> good k obs st \<longrightarrow>
     (\<exists>r st'. pc_invoke pc (stages ! k) h obs st = (Inr r, st') \<and>
        field r ''status'' \<in> {JStr ''passed'', JStr ''satisfied'', JStr ''applied''} \<and>
        good (Suc k) (set_field (stages ! k) (JObj r) obs) st'))"

lemma steady_tick:
  "steady pc op_id good \<Longrightarrow> good k obs st \<Longrightarrow> f \<in> {pc_perf pc, pc_now pc} \<Longrightarrow>
     \<exists>n st'. tick f st = (Inr n, st') \<and> good k obs st'"
  using tick_total [of f st] unfolding steady_def by (metis insertE singletonD snd_conv)

lemma steady_save:
  "steady pc op_id good \<Longrightarrow> good k obs st \<Longrightarrow> good k obs (snd (save_checkpoint (pc_sha pc) op_id d st))"
  by (simp add: steady_def)

text \<open>One stage that passes.\<close>

lemma run_stage_passing:
  assumes "steady pc op_id good" and "good k obs st" and "telemetry_ok t"
    and pass: "\<And>st. good k obs st \<Longrightarrow> \<exists>r st'. pc_invoke pc s h obs st = (Inr r, st') \<and>
        field r ''status'' \<in> {JStr ''passed'', JStr ''satisfied'', JStr ''applied''} \<and> good' (set_field s (JObj r) obs) st'"
    and steady': "\<And>obs st d. good' obs st \<Longrightarrow> good' obs (snd (save_checkpoint (pc_sha pc) op_id d st)) \<and>
        good' obs (snd (tick (pc_perf pc) st))"
  obtains r t' st' where "good' (set_field s (JObj r) obs) st'" "telemetry_ok t'"
    "run_stages pc op_id h fp done (s # rest) obs t st =
       run_stages pc op_id h fp (done @ [s]) rest (set_field s (JObj r) obs) t' st'"
    "load_checkpoint (pc_sha pc) op_id st' =
       Inr (Some (stored_obj (progress_fields fp (done @ [s]) (set_field s (JObj r) obs) t')))"
proof -
  from add_count_total [OF assms(3), of "''stage_attempts''" s 1]
  obtain t1 where t1: "add_count ''stage_attempts'' s 1 t = Inr t1" "telemetry_ok t1" by auto
  let ?s1 = "snd (save_checkpoint (pc_sha pc) op_id (running_fields fp done obs t1 s) st)"
  have "good k obs ?s1" by (rule steady_save [OF assms(1,2)])
  then obtain a s2 where s2: "tick (pc_perf pc) ?s1 = (Inr a, s2)" "good k obs s2"
    using steady_tick [OF assms(1), of k obs ?s1 "pc_perf pc"] by blast
  from pass [OF s2(2)] obtain r s3 where s3: "pc_invoke pc s h obs s2 = (Inr r, s3)"
    "field r ''status'' \<in> {JStr ''passed'', JStr ''satisfied'', JStr ''applied''}" "good' (set_field s (JObj r) obs) s3"
    by blast
  from s3(2) have p: "passed_status (field r ''status'') = Inr True" by (auto simp: passed_status_def hashable_def)
  obtain b s4 where s4: "tick (pc_perf pc) s3 = (Inr b, s4)" using tick_total by blast
  with steady' [OF s3(3)] have g4: "good' (set_field s (JObj r) obs) s4" by simp
  from add_count_total [OF t1(2), of "''stage_timings_ms''" s "elapsed_ms a b"]
  obtain t2 where t2: "add_count ''stage_timings_ms'' s (elapsed_ms a b) t1 = Inr t2" "telemetry_ok t2" by auto
  from merge_audit_total [OF t2(2), of "field r ''_audit''"]
  obtain t3 where t3: "merge_stage_audit t2 (field r ''_audit'') = Inr t3" "telemetry_ok t3" by auto
  have g: "guarded (pc_invoke pc s h obs) m s2 = (Inr r, s3)" for m by (simp add: guarded_def s3)
  let ?s5 = "snd (save_checkpoint (pc_sha pc) op_id (progress_fields fp (done @ [s]) (set_field s (JObj r) obs) t3) s4)"
  have "run_stages pc op_id h fp done (s # rest) obs t st =
      run_stages pc op_id h fp (done @ [s]) rest (set_field s (JObj r) obs) t3 ?s5"
    by (simp only: run_stages.simps t1(1) t2(1) t3(1) p lift_step save_step
        bindS_simps(1) [of "tick (pc_perf pc)", OF s2(1)] bindS_simps(1) [of "tick (pc_perf pc)", OF s4]
        bindS_simps(1) [of "guarded (pc_invoke pc s h obs) m" for m, OF g] Let_def not_True_eq_False if_False)
  moreover have "good' (set_field s (JObj r) obs) ?s5" using steady' [OF g4] by simp
  ultimately show ?thesis using that t3(2) load_saved by blast
qed

lemma run_stages_carries:
  assumes "steady pc op_id good" and "carries pc h good n" and "n \<le> length stages" and "good n obs st" and "telemetry_ok t"
  shows "\<exists>obs' t' st'. run_stages pc op_id h fp done (drop n stages) obs t st = (Inr (Inr (obs', t')), st') \<and>
    good (length stages) obs' st' \<and> telemetry_ok t' \<and>
    (n < length stages \<longrightarrow> load_checkpoint (pc_sha pc) op_id st' =
       Inr (Some (stored_obj (progress_fields fp (done @ drop n stages) obs' t'))))"
  using assms(2-5)
proof (induction "length stages - n" arbitrary: n "done" obs t st)
  case 0
  then have "n = length stages" by simp
  with 0 show ?case by auto
next
  case (Suc m k)
  from Suc.hyps(2) have k: "k < length stages" by simp
  have d: "drop k stages = stages ! k # drop (Suc k) stages" using k by (rule Cons_nth_drop_Suc [symmetric])
  obtain r t' st1 where s: "good (Suc k) (set_field (stages ! k) (JObj r) obs) st1" "telemetry_ok t'"
    "run_stages pc op_id h fp done (stages ! k # drop (Suc k) stages) obs t st =
       run_stages pc op_id h fp (done @ [stages ! k]) (drop (Suc k) stages) (set_field (stages ! k) (JObj r) obs) t' st1"
    "load_checkpoint (pc_sha pc) op_id st1 =
       Inr (Some (stored_obj (progress_fields fp (done @ [stages ! k]) (set_field (stages ! k) (JObj r) obs) t')))"
    by (rule run_stage_passing [OF assms(1) Suc.prems(3,4), where good' = "good (Suc k)"])
      (use Suc.prems(1) k assms(1) in \<open>auto simp: carries_def steady_def\<close>)
  have "carries pc h good (Suc k)" using Suc.prems(1) by (simp add: carries_def)
  from Suc.hyps(1) [OF _ this _ s(1,2), of "done @ [stages ! k]"] Suc.hyps(2) s(3,4) d show ?case
    by (cases "Suc k < length stages") auto
qed

lemma initial_telemetry_ok: "telemetry_ok (initial_telemetry h)"
proof -
  have n: "telemetry_ok new_telemetry"
    by (simp add: telemetry_ok_def new_telemetry_def number_keys_def audit_keys_def counters_def)
  have k: "''verification_invocations'' \<in> set number_keys" "''review_invocations'' \<in> set number_keys"
    "''duplicate_review_attempts'' \<in> set number_keys" by (simp_all add: number_keys_def audit_keys_def)
  show ?thesis
    by (auto simp: initial_telemetry_def Let_def n k intro!: telemetry_set_number split: json.splits)
qed

text \<open>The observations when the first \<open>k\<close> stages have passed with given results.\<close>

definition observed_upto :: "(string \<Rightarrow> obj) \<Rightarrow> nat \<Rightarrow> obj" where
  "observed_upto res k = map (\<lambda>s. (s, JObj (res s))) (take k stages)"

definition all_observed :: "(string \<Rightarrow> obj) \<Rightarrow> obj" where
  "all_observed res = observed_upto res (length stages)"

lemma observed_next:
  assumes "k < length stages"
  shows "set_field (stages ! k) (JObj (res (stages ! k))) (observed_upto res k) = observed_upto res (Suc k)"
proof -
  have "k \<in> set [0 ..< 10]" using assms by (simp add: stages_def)
  then show ?thesis
    by (simp add: upt_rec) (elim disjE; simp add: observed_upto_def set_field_def stages_def)
qed

text \<open>An invoker that passes each stage with the result \<open>res\<close> on the observations of those before it, whatever it
  does to the state.\<close>

definition passing_run :: "'w controller \<Rightarrow> obj \<Rightarrow> (string \<Rightarrow> obj) \<Rightarrow> bool" where
  "passing_run pc h res \<longleftrightarrow> (\<forall>k < length stages.
     (\<forall>st. fst (pc_invoke pc (stages ! k) h (observed_upto res k) st) = Inr (res (stages ! k))) \<and>
     field (res (stages ! k)) ''status'' \<in> {JStr ''passed'', JStr ''satisfied'', JStr ''applied''})"

definition on_course :: "(string \<Rightarrow> obj) \<Rightarrow> nat \<Rightarrow> obj \<Rightarrow> 'w promotion_state \<Rightarrow> bool" where
  "on_course res k obs st \<longleftrightarrow> obs = observed_upto res k"

lemma steady_on_course: "steady pc op_id (on_course res)"
  by (simp add: steady_def on_course_def)

lemma carries_on_course:
  assumes "passing_run pc h res"
  shows "carries pc h (on_course res) n"
  unfolding carries_def on_course_def
proof (intro allI impI)
  fix k obs st assume k: "k < length stages" and obs: "obs = observed_upto res k"
  from assms k have p: "fst (pc_invoke pc (stages ! k) h obs st) = Inr (res (stages ! k))"
    "field (res (stages ! k)) ''status'' \<in> {JStr ''passed'', JStr ''satisfied'', JStr ''applied''}"
    by (simp_all add: passing_run_def obs)
  then obtain st' where "pc_invoke pc (stages ! k) h obs st = (Inr (res (stages ! k)), st')" by (metis prod.collapse)
  with p(2) observed_next [OF k] obs show "\<exists>r st'. pc_invoke pc (stages ! k) h obs st = (Inr r, st') \<and>
      field r ''status'' \<in> {JStr ''passed'', JStr ''satisfied'', JStr ''applied''} \<and>
      set_field (stages ! k) (JObj r) obs = observed_upto res (Suc k)" by blast
qed

lemma converge_proceeds:
  assumes "field h ''status'' = JStr ''promotion_ready''" and "load_checkpoint (pc_sha pc) op_id st = Inr cp"
    and "resume_from h (fingerprint (pc_sha pc) (JObj h)) cp = Inr rp" and "ordered_prefix (rp_completed rp)"
    and "retry_instant cp (rp_completed rp) = None"
  shows "converge pc op_id h st = proceed pc op_id h (fingerprint (pc_sha pc) (JObj h)) cp rp st"
  unfolding converge_def Let_def using assms by (cases cp) (simp_all add: bindS_def)

lemma converge_resumes:
  assumes "field h ''status'' = JStr ''promotion_ready''" and "load_checkpoint (pc_sha pc) op_id st = Inr cp"
    and "resume_from h (fingerprint (pc_sha pc) (JObj h)) cp = Inr rp" and "ordered_prefix (rp_completed rp)"
    and "\<And>i. retry_instant cp (rp_completed rp) = Some i \<Longrightarrow> i \<le> fst (pc_now pc (ps_world st))"
  obtains s0 where "converge pc op_id h st = proceed pc op_id h (fingerprint (pc_sha pc) (JObj h)) cp rp s0"
    "s0 = st \<or> s0 = snd (tick (pc_now pc) st)"
proof (cases "retry_instant cp (rp_completed rp)")
  case None
  from converge_proceeds [OF assms(1-4) None] that show ?thesis by blast
next
  case (Some i)
  then obtain d where d: "cp = Some d" by (auto simp: retry_instant_def split: option.splits)
  obtain w where "pc_now pc (ps_world st) = (fst (pc_now pc (ps_world st)), w)" by (metis prod.collapse)
  then have tk: "tick (pc_now pc) st = (Inr (fst (pc_now pc (ps_world st))), st\<lparr>ps_world := w\<rparr>)"
    unfolding tick_def by (metis case_prod_conv)
  note now = bindS_simps(1) [of "tick (pc_now pc)", OF tk]
  have "converge pc op_id h st = proceed pc op_id h (fingerprint (pc_sha pc) (JObj h)) cp rp (st\<lparr>ps_world := w\<rparr>)"
    unfolding converge_def Let_def using assms(1-4) assms(5) [OF Some] Some d by (simp add: bindS_def [of "liftE a" for a] bindS_def [of "readE a" for a] now)
  with that tk show ?thesis by simp
qed

lemma converge_fresh:
  assumes "field h ''status'' = JStr ''promotion_ready''" and "load_checkpoint (pc_sha pc) op_id st = Inr None"
  shows "converge pc op_id h st =
    run_from pc op_id h (fingerprint (pc_sha pc) (JObj h)) 0 [] (initial_telemetry h) st"
  using converge_proceeds [OF assms]
  by (simp add: resume_from_def retry_instant_def proceed_def ordered_prefix_def)

lemma converge_along:
  assumes "field h ''status'' = JStr ''promotion_ready''" and "load_checkpoint (pc_sha pc) op_id st = Inr None"
    and "passing_run pc h res"
  obtains t s1 where "telemetry_ok t"
    "converge pc op_id h st = finish pc op_id h (fingerprint (pc_sha pc) (JObj h)) (all_observed res) t s1"
    "load_checkpoint (pc_sha pc) op_id s1 =
       Inr (Some (stored_obj (progress_fields (fingerprint (pc_sha pc) (JObj h)) stages (all_observed res) t)))"
proof -
  let ?fp = "fingerprint (pc_sha pc) (JObj h)"
  have "on_course res 0 [] st" by (simp add: on_course_def observed_upto_def)
  from run_stages_carries [OF steady_on_course carries_on_course [OF assms(3)] _ this initial_telemetry_ok [of h], of op_id ?fp "[]"]
  obtain t s1 where r: "run_stages pc op_id h ?fp [] stages [] (initial_telemetry h) st = (Inr (Inr (all_observed res, t)), s1)"
    and t: "telemetry_ok t"
    and l: "load_checkpoint (pc_sha pc) op_id s1 = Inr (Some (stored_obj (progress_fields ?fp stages (all_observed res) t)))"
    by (auto simp: on_course_def all_observed_def stages_def)
  show ?thesis
    by (rule that [OF t _ l]) (simp add: converge_fresh [OF assms(1,2)] run_from_def r)
qed

lemma finish_done:
  assumes "receipt_facts_of h obs = Inr f" and "tick (pc_now pc) st = (Inr now, st')"
  shows "\<exists>x d p. finish pc op_id h fp obs t st = (Inr x, snd (save_checkpoint (pc_sha pc) op_id d st')) \<and>
    px_state x = ''done'' \<and> px_completed x = stages \<and> px_observations x = obs \<and>
    px_receipt x = Some (receipt_fields op_id now obs t f) \<and>
    project_promotion_checkpoint (Some (stored_obj d)) = Inr p \<and> pj_state p = ''done''"
proof -
  define x where "x = \<lparr>px_operation = op_id, px_completed = stages, px_stage = None, px_state = ''done'',
     px_observations = obs, px_receipt = Some (receipt_fields op_id now obs t f)\<rparr>"
  define d where "d = execution_fields x @ [(''handoff_fingerprint'', JStr fp), (''telemetry'', JObj t)]"
  have "build_terminal_receipt pc op_id h obs t st = (Inr (receipt_fields op_id now obs t f), st')"
    by (simp add: build_terminal_receipt_def bindS_def assms)
  then have fin: "finish pc op_id h fp obs t st = (Inr x, snd (save_checkpoint (pc_sha pc) op_id d st'))"
    by (simp add: finish_def Let_def save_step x_def [symmetric] d_def [symmetric])
  have "plain_checkpoint (length stages) (stored_obj d)"
    unfolding d_def x_def by (rule plain_stored [OF plain_done])
  from plain_projects [OF this] obtain p where
    "project_promotion_checkpoint (Some (stored_obj d)) = Inr p" "pj_state p = ''done''" by blast
  with fin show ?thesis by (intro exI conjI) (assumption | simp add: x_def)+
qed

section \<open>A concrete promotion\<close>

text \<open>An invoker whose stages all pass and report what the receipt needs; time stands still.\<close>

definition demo_result :: "string \<Rightarrow> obj" where
  "demo_result s =
     (if s = ''create_pull_request'' then [(''head_sha'', JStr ''h1''), (''pull_number'', JInt 7), (''status'', JStr ''passed'')]
      else if s = ''exact_head_actions''
      then [(''reference'', JStr ''run''), (''run_ids'', JArr [JInt 3]), (''status'', JStr ''passed'')]
      else if s = ''merge_exact_head'' then [(''merge_commit_sha'', JStr ''m1''), (''status'', JStr ''applied'')]
      else if s = ''refresh_landed'' then [(''landed_sha'', JStr ''l1''), (''status'', JStr ''passed'')]
      else if s = ''documentation_reconcile''
      then [(''completion_revision'', JStr ''l1''),
            (''event'', JObj [(''completion_revision'', JStr ''l1''), (''event_id'', JStr ''e'')]), (''status'', JStr ''satisfied'')]
      else if s = ''work_done''
      then [(''record'', JObj [(''record_id'', JStr ''SPEC-1'')]), (''status'', JStr ''passed''), (''work_completion'', JObj [])]
      else [(''status'', JStr ''passed'')])"

text \<open>The same, but the exact head has two Actions runs.\<close>

definition two_runs :: "string \<Rightarrow> obj" where
  "two_runs s =
     (if s = ''exact_head_actions''
      then [(''reference'', JStr ''run''), (''run_ids'', JArr [JInt 3, JInt 4]), (''status'', JStr ''passed'')]
      else demo_result s)"

definition demo_controller :: "(string \<Rightarrow> obj) \<Rightarrow> int controller" where
  "demo_controller res =
     \<lparr>pc_invoke = (\<lambda>s h obs st. (Inr (res s), st)), pc_now = (\<lambda>w. (w, w)), pc_perf = (\<lambda>w. (w, w)),
      pc_sha = (\<lambda>_. ''digest'')\<rparr>"

definition demo_handoff :: obj where
  "demo_handoff =
     [(''status'', JStr ''promotion_ready''), (''work_id'', JStr ''WORK-1''), (''change_id'', JStr ''change-1''),
      (''source_commit_sha'', JStr ''c1'')]"

definition empty_state :: "int promotion_state" where
  "empty_state = \<lparr>ps_files = [], ps_world = 0\<rparr>"

lemma demo_fields [simp]:
  "pc_invoke (demo_controller res) s h obs st = (Inr (res s), st)" "pc_now (demo_controller res) w = (w, w)"
  "pc_sha (demo_controller res) x = ''digest''" "ps_world empty_state = 0"
  "field demo_handoff ''status'' = JStr ''promotion_ready''" "load_checkpoint sha op_id empty_state = Inr None"
  by (simp_all add: demo_controller_def empty_state_def demo_handoff_def load_checkpoint_def decode_def)

lemma demo_passes: "passing_run (demo_controller demo_result) h demo_result"
  by (simp add: passing_run_def demo_result_def)

lemma two_runs_pass: "passing_run (demo_controller two_runs) h two_runs"
  by (simp add: passing_run_def two_runs_def demo_result_def)

definition demo_facts :: receipt_facts where
  "demo_facts = \<lparr>rf_work = ''WORK-1'', rf_change = ''change-1'', rf_commit = ''c1'', rf_pull = 7, rf_head = ''h1'', rf_run = 3,
     rf_actions = ''run'', rf_merge = ''m1'', rf_landed = ''l1'', rf_documentation = ''l1'', rf_record = ''SPEC-1''\<rparr>"

lemma demo_receipt: "receipt_facts_of demo_handoff (all_observed demo_result) = Inr demo_facts"
  by code_simp

lemma two_runs_receipt: "receipt_facts_of demo_handoff (all_observed two_runs) = Inl ValueError"
  by code_simp

definition fresh_point :: resume_point where
  "fresh_point = \<lparr>rp_completed = [], rp_observations = [], rp_telemetry = initial_telemetry demo_handoff, rp_receipt = None\<rparr>"

lemma demo_done:
  obtains x st' where "converge (demo_controller demo_result) ''op'' demo_handoff empty_state = (Inr x, st')" "px_state x = ''done''"
proof -
  obtain t s1 where c: "converge (demo_controller demo_result) ''op'' demo_handoff empty_state =
      finish (demo_controller demo_result) ''op'' demo_handoff
        (fingerprint (pc_sha (demo_controller demo_result)) (JObj demo_handoff)) (all_observed demo_result) t s1"
    by (rule converge_along [OF _ _ demo_passes]) auto
  obtain now s2 where "tick (pc_now (demo_controller demo_result)) s1 = (Inr now, s2)" using tick_total by blast
  with c that show ?thesis
    by (simp add: finish_def build_terminal_receipt_def Let_def save_step demo_receipt lift_cases
        bindS_def [of "tick a" for a] bindS_def [of "bindS a b" for a b])
qed

section \<open>Properties\<close>

text \<open>C23: a promotion that is done is accounted for: unless the receipt was already in the checkpoint, a
  successful run that reports done has completed all ten stages, holds a receipt built from its observations after
  every check of the receipt passed, and every stage that was still open at the start has been observed passing.\<close>

theorem done_is_accounted:
  assumes "converge pc op_id h st = (Inr x, st')" and "px_state x = ''done''"
    and "load_checkpoint (pc_sha pc) op_id st = Inr cp" and "resume_from h (fingerprint (pc_sha pc) (JObj h)) cp = Inr rp"
    and "rp_receipt rp = None"
  shows "px_completed x = stages \<and>
    (\<exists>f now t. receipt_facts_of h (px_observations x) = Inr f \<and>
       px_receipt x = Some (receipt_fields op_id now (px_observations x) t f)) \<and>
    (\<forall>s \<in> set (drop (length (rp_completed rp)) stages). \<exists>res. field (px_observations x) s = JObj res \<and>
       field res ''status'' \<in> {JStr ''passed'', JStr ''satisfied'', JStr ''applied''})"
proof -
  let ?fp = "fingerprint (pc_sha pc) (JObj h)"
  from assms(1) obtain s1 where "proceed pc op_id h ?fp cp rp s1 = (Inr x, st')"
    by (rule converge_cases) (use assms(2-4) in auto)
  then have "run_from pc op_id h ?fp (length (rp_completed rp)) (rp_observations rp) (rp_telemetry rp) s1 = (Inr x, st')"
    using assms(5) by (auto simp: proceed_def split: option.splits)
  from run_from_done [OF this assms(2)] show ?thesis
    by (fastforce simp: passed_status_def split: if_splits)
qed

lemma done_is_accounted_witness:
  "\<exists>x st'. converge (demo_controller demo_result) ''op'' demo_handoff empty_state = (Inr x, st') \<and>
     (\<exists>f. receipt_facts_of demo_handoff (px_observations x) = Inr f) \<and> px_completed x = stages"
proof (rule demo_done)
  fix x st' assume c: "converge (demo_controller demo_result) ''op'' demo_handoff empty_state = (Inr x, st')"
    and d: "px_state x = ''done''"
  show ?thesis
    using done_is_accounted [OF c d, of None fresh_point] c by (auto simp: resume_from_def fresh_point_def)
qed

lemma receipt_facts_cong: "(\<And>k. field obs k = field obs' k) \<Longrightarrow> receipt_facts_of h obs = receipt_facts_of h obs'"
  by (simp add: receipt_facts_of_def sub_obj_def)

lemma observed_stored:
  assumes "\<forall>s \<in> set stages. stored (JObj (res s)) = JObj (res s)"
  shows "field (stored_obj (all_observed res)) k = field (all_observed res) k"
proof -
  have "stored v = v" if "map_of (all_observed res) k = Some v" for v
    using map_of_SomeD [OF that] assms by (auto simp: all_observed_def observed_upto_def)
  then show ?thesis
    unfolding field_stored_any by (cases "map_of (all_observed res) k") (auto simp: field_def field_or_def)
qed

lemma distinct_fst_sort: "distinct (map fst (sort_key f xs)) \<longleftrightarrow> distinct (map fst xs)"
  by (simp add: distinct_map)

lemma map_of_rev_distinct: "distinct (map fst d) \<Longrightarrow> map_of (rev d) = map_of d"
  by (rule map_of_eqI) (auto simp: rev_map [symmetric])

text \<open>What a checkpoint with every stage completed and no receipt is resumed as.\<close>

lemma resume_complete:
  assumes "telemetry_ok t"
  obtains t' where "resume_from h fp (Some (stored_obj (progress_fields fp stages obs t))) =
    Inr \<lparr>rp_completed = map JStr stages, rp_observations = stored_obj obs, rp_telemetry = t', rp_receipt = None\<rparr>"
proof -
  let ?d = "stored_obj (progress_fields fp stages obs t)"
  have jn: "stored (JArr []) = JArr []" "stored (JObj []) = JObj []" by simp_all
  have f: "field ?d ''handoff_fingerprint'' = JStr fp" "field_or ?d ''completed'' (JArr []) = str_array stages"
    "field_or ?d ''observations'' (JObj []) = JObj (stored_obj obs)" "field ?d ''telemetry'' = JObj (stored_obj t)"
    "field ?d ''terminal_receipt'' = JNull"
    unfolding field_stored_any field_or_stored_any [OF jn(1)] field_or_stored_any [OF jn(2)]
    by (simp_all add: progress_fields_def)
  obtain n where "field_or t ''replay_count'' (JInt 0) = JInt n"
    using assms by (auto simp: telemetry_ok_def number_keys_def)
  then have "field_or (stored_obj t) ''replay_count'' (JInt 0) = JInt n"
    using field_or_stored_any [of "JInt 0" t "''replay_count''"] by simp
  moreover have dist: "distinct (map fst (stored_obj t))"
    using assms unfolding distinct_fst_sort telemetry_ok_def by (simp add: comp_def)
  ultimately have "\<exists>m. field_or (dict_update new_telemetry (stored_obj t)) ''replay_count'' (JInt 0) = JInt m"
    unfolding field_dict_update map_of_rev_distinct [OF dist]
    by (simp add: field_or_def new_telemetry_def del: map_of_eq_Some_iff split: option.splits)
  then obtain t' where "add_number ''replay_count'' 1 (dict_update new_telemetry (stored_obj t)) = Inr t'"
    by (auto simp: add_number_def to_int_def)
  with f show ?thesis by (intro that [of t']) (simp add: resume_from_def py_dict_def)
qed

text \<open>a promotion whose stages all passed but whose receipt cannot be built is stuck: the controller raises after
  the last stage, the checkpoint it leaves already projects as done, and every later call with that handoff raises
  the same error and changes nothing, whatever the stages would do.\<close>

theorem completed_without_receipt_stuck:
  assumes "field h ''status'' = JStr ''promotion_ready''" and "load_checkpoint (pc_sha pc) op_id st = Inr None"
    and "passing_run pc h res" and "\<forall>s \<in> set stages. stored (JObj (res s)) = JObj (res s)"
    and "receipt_facts_of h (all_observed res) = Inl e"
  shows "\<exists>st' d p. converge pc op_id h st = (Inl e, st') \<and> load_checkpoint (pc_sha pc) op_id st' = Inr (Some d) \<and>
    project_promotion_checkpoint (Some d) = Inr p \<and> pj_state p = ''done'' \<and> field d ''terminal_receipt'' = JNull \<and>
    (\<forall>f. converge (pc\<lparr>pc_invoke := f\<rparr>) op_id h st' = (Inl e, st'))"
proof -
  let ?fp = "fingerprint (pc_sha pc) (JObj h)"
  from converge_along [OF assms(1-3)] obtain t s1 where t: "telemetry_ok t"
    and c: "converge pc op_id h st = finish pc op_id h ?fp (all_observed res) t s1"
    and l: "load_checkpoint (pc_sha pc) op_id s1 = Inr (Some (stored_obj (progress_fields ?fp stages (all_observed res) t)))"
    by blast
  define d where "d = stored_obj (progress_fields ?fp stages (all_observed res) t)"
  have fails: "finish pc op_id h fp obs t' s1 = (Inl e, s1)" if "receipt_facts_of h obs = Inl e"
    for pc :: "'a controller" and obs fp t'
    using that by (simp add: finish_def build_terminal_receipt_def bindS_def)
  have pl: "plain_checkpoint (length stages) d"
    unfolding d_def by (rule plain_stored) (use plain_progress [of "length stages"] in simp)
  from plain_projects [OF this] obtain p where p: "project_promotion_checkpoint (Some d) = Inr p" "pj_state p = ''done''" by blast
  from resume_complete [OF t] obtain t' where rp: "resume_from h ?fp (Some d) =
      Inr \<lparr>rp_completed = map JStr stages, rp_observations = stored_obj (all_observed res), rp_telemetry = t', rp_receipt = None\<rparr>"
    unfolding d_def by blast
  have o: "ordered_prefix (map JStr stages)" using ordered_prefix_take [of "length stages"] by simp
  have "field d ''state'' = JNull" unfolding d_def field_stored_any by (simp add: progress_fields_def)
  then have ri: "retry_instant (Some d) (map JStr stages) = None" by (simp add: retry_instant_def)
  have "receipt_facts_of h (stored_obj (all_observed res)) = Inl e"
    using receipt_facts_cong [OF observed_stored [OF assms(4)]] assms(5) by simp
  then have again: "converge pc' op_id h s1 = (Inl e, s1)" if "pc_sha pc' = pc_sha pc" for pc'
    using converge_proceeds [of h pc' op_id s1 "Some d", OF assms(1)] l rp o ri that
    by (simp add: d_def [symmetric] proceed_def run_from_def fails)
  have "field d ''terminal_receipt'' = JNull" unfolding d_def field_stored_any by (simp add: progress_fields_def)
  with c fails [OF assms(5)] l again p show ?thesis unfolding d_def [symmetric] by auto
qed

lemma completed_without_receipt_stuck_witness:
  "\<exists>st' d p. converge (demo_controller two_runs) ''op'' demo_handoff empty_state = (Inl ValueError, st') \<and>
     load_checkpoint (pc_sha (demo_controller two_runs)) ''op'' st' = Inr (Some d) \<and>
     project_promotion_checkpoint (Some d) = Inr p \<and> pj_state p = ''done'' \<and>
     (\<forall>f. converge (demo_controller two_runs\<lparr>pc_invoke := f\<rparr>) ''op'' demo_handoff st' = (Inl ValueError, st'))"
proof -
  have "\<forall>s \<in> set stages. stored (JObj (two_runs s)) = JObj (two_runs s)" by (simp add: stages_def two_runs_def demo_result_def)
  from completed_without_receipt_stuck [OF _ _ two_runs_pass this two_runs_receipt, of "''op''" empty_state]
  show ?thesis by auto
qed

text \<open>C22: completed stages are not repeated: from a checkpoint whose first \<open>n\<close> stages are completed, what a call does and
  leaves depends on the stages after them only; two invokers that agree there cannot be told apart.\<close>

theorem completed_stages_not_repeated:
  assumes "load_checkpoint (pc_sha pc) op_id st = Inr (Some d)"
    and "field_or d ''completed'' (JArr []) = str_array (take n stages)" and "n \<le> length stages"
    and "\<And>s. s \<in> set (drop n stages) \<Longrightarrow> f s = pc_invoke pc s"
  shows "converge (pc\<lparr>pc_invoke := f\<rparr>) op_id h st = converge pc op_id h st"
proof (cases "resume_from h (fingerprint (pc_sha pc) (JObj h)) (Some d)")
  case (Inl e)
  then show ?thesis
    using assms(1) by (cases "field h ''status'' = JStr ''promotion_ready''") (simp_all add: converge_def Let_def lift_cases read_cases)
next
  case (Inr rp)
  from resume_completed_iter [OF this] assms(2) have "rp_completed rp = map JStr (take n stages)" by simp
  then have len: "length (rp_completed rp) = n" and o: "ordered_prefix (rp_completed rp)" using assms(3) by simp_all
  from len have "proceed (pc\<lparr>pc_invoke := f\<rparr>) op_id h fp cp rp = proceed pc op_id h fp cp rp" for fp cp
    by (intro proceed_invoke) (use assms(4) in simp)
  with Inr assms(1) o show ?thesis
    by (cases "field h ''status'' = JStr ''promotion_ready''"; cases "retry_instant (Some d) (rp_completed rp)")
      (simp_all add: converge_def Let_def lift_cases read_cases cong: if_cong)
qed

lemma completed_stages_not_repeated_witness:
  "converge (demo_controller demo_result\<lparr>pc_invoke := (\<lambda>s h obs st.
       if s = ''cleanup'' then (Inr (demo_result s), st) else (Inl KeyError, st))\<rparr>) ''op'' demo_handoff
     (snd (save_checkpoint (\<lambda>_. ''digest'') ''op'' (progress_fields ''digest'' (take 9 stages) [] []) empty_state)) =
   converge (demo_controller demo_result) ''op'' demo_handoff
     (snd (save_checkpoint (\<lambda>_. ''digest'') ''op'' (progress_fields ''digest'' (take 9 stages) [] []) empty_state))"
proof (rule completed_stages_not_repeated)
  have "pc_sha (demo_controller demo_result) = (\<lambda>_. ''digest'')" by (rule ext) simp
  then show "load_checkpoint (pc_sha (demo_controller demo_result)) ''op''
      (snd (save_checkpoint (\<lambda>_. ''digest'') ''op'' (progress_fields ''digest'' (take 9 stages) [] []) empty_state)) =
      Inr (Some (stored_obj (progress_fields ''digest'' (take 9 stages) [] [])))"
    by (simp only: load_saved)
  have "stored (JArr []) = JArr []" by simp
  note f = field_or_stored_any [OF this]
  show "field_or (stored_obj (progress_fields ''digest'' (take 9 stages) [] [])) ''completed'' (JArr []) = str_array (take 9 stages)"
    unfolding f by (simp add: progress_fields_def)
  show "9 \<le> length stages" by (simp add: stages_def)
qed (auto simp: stages_def demo_controller_def)

text \<open>C21: the checkpoint always projects: if the stages leave the stored checkpoint well-formed (absent, or a prefix of the
  stages with a matching current stage), so does every sequence of controller calls, whatever they raise; the stored
  checkpoint then projects, and it projects as done exactly when all stages are completed.\<close>

theorem controller_keeps_projection:
  assumes "invocation_keeps pc op_id" and "checkpoint_ok (pc_sha pc) op_id st"
    and "st' = foldl (\<lambda>s h. snd (converge pc op_id h s)) st handoffs"
  shows "checkpoint_ok (pc_sha pc) op_id st' \<and>
    (\<exists>cp p. load_checkpoint (pc_sha pc) op_id st' = Inr cp \<and> project_promotion_checkpoint cp = Inr p \<and>
       (pj_state p = ''done'' \<longleftrightarrow> pj_completed p = map JStr stages))"
proof -
  have ok: "checkpoint_ok (pc_sha pc) op_id (foldl (\<lambda>s h. snd (converge pc op_id h s)) st handoffs)"
    using assms(2)
  proof (induction handoffs arbitrary: st)
    case (Cons h hs)
    from keeps_converge [OF assms(1), of h] Cons.prems have "checkpoint_ok (pc_sha pc) op_id (snd (converge pc op_id h st))"
      by (simp add: keeps_def)
    from Cons.IH [OF this] show ?case by simp
  qed simp
  then consider "load_checkpoint (pc_sha pc) op_id st' = Inr None"
    | n d where "load_checkpoint (pc_sha pc) op_id st' = Inr (Some d)" "plain_checkpoint n d"
    unfolding assms(3) checkpoint_ok_def by blast
  then show ?thesis
  proof cases
    case 1
    then show ?thesis using ok assms(3) by (auto simp: project_promotion_checkpoint_def stages_def)
  next
    case 2
    have "take n stages = stages \<longleftrightarrow> n = length stages" using plain_length [OF 2(2)] by auto
    with 2 plain_projects [OF 2(2)] ok assms(3) show ?thesis by (auto simp: inj_map_eq_map inj_def)
  qed
qed

lemma controller_keeps_projection_witness:
  "\<exists>cp p. load_checkpoint (pc_sha (demo_controller demo_result)) ''op''
       (foldl (\<lambda>s h. snd (converge (demo_controller demo_result) ''op'' h s)) empty_state [demo_handoff, demo_handoff]) = Inr cp \<and>
     project_promotion_checkpoint cp = Inr p"
proof -
  have "invocation_keeps (demo_controller demo_result) ''op''" by (simp add: invocation_keeps_def keeps_def)
  from controller_keeps_projection [OF this _ refl, of empty_state "[demo_handoff, demo_handoff]"]
  show ?thesis by (auto simp: checkpoint_ok_def simp del: foldl.simps)
qed

lemma converge_suppresses:
  assumes "load_checkpoint (pc_sha pc) op_id st = Inr (Some d)" and "plain_checkpoint n d"
    and "field d ''state'' = JStr ''failed''" and "field d ''current_stage'' = JStr (stages ! n)"
    and "field d ''retry_not_before_ns'' = JInt i" and "pc_now pc (ps_world st) = (now, w)" and "now < i"
    and "resume_from h (fingerprint (pc_sha pc) (JObj h)) (Some d) = Inr rp" and "field h ''status'' = JStr ''promotion_ready''"
  shows "converge pc op_id h st = suppress_retry pc op_id d rp i (st\<lparr>ps_world := w\<rparr>)"
proof -
  have c: "rp_completed rp = map JStr (take n stages)" by (rule resume_completed [OF assms(8,2)])
  have n: "n < length stages" using assms(2,3) by (auto simp: plain_checkpoint_def split: if_splits)
  have "retry_instant (Some d) (rp_completed rp) = Some i"
    using assms(3-5) n by (simp add: retry_instant_def c expected_stage_def)
  moreover have "tick (pc_now pc) st = (Inr now, st\<lparr>ps_world := w\<rparr>)" by (simp add: tick_def assms(6))
  note now = bindS_simps(1) [of "tick (pc_now pc)", OF this]
  ultimately show ?thesis
    using assms(1,7,8,9) by (simp add: converge_def Let_def lift_cases read_cases c now)
qed

lemma suppress_outcome:
  assumes "suppress_retry pc op_id d rp i st = (Inr x, st')" and "plain_checkpoint n d"
    and "field d ''current_stage'' = JStr (stages ! n)" and "rp_completed rp = map JStr (take n stages)"
  shows "px_state x = ''blocked'' \<and> px_completed x = take n stages \<and> px_stage x = Some (stages ! n) \<and>
    (\<exists>d'. load_checkpoint (pc_sha pc) op_id st' = Inr (Some d') \<and>
       (\<forall>k. k \<noteq> ''telemetry'' \<longrightarrow> field d' k = stored (field d k)))"
proof -
  from assms(1) obtain t where st': "st' = snd (save_checkpoint (pc_sha pc) op_id (set_field ''telemetry'' (JObj t) d) st)"
    and x: "px_state x = ''blocked''" "px_completed x = map py_text (rp_completed rp)"
      "px_stage x = Some (py_text (field d ''current_stage''))"
    unfolding suppress_retry_def Let_def save_step by (elim lift_bindS_InrE) (auto simp: save_step)
  have "field (stored_obj (set_field ''telemetry'' (JObj t) d)) k = stored (field d k)" if "k \<noteq> ''telemetry''" for k
    unfolding field_stored_any using that by (simp add: field_set)
  with x assms(3,4) show ?thesis unfolding st' load_saved by (auto simp: comp_def)
qed

text \<open>A failed stage is not retried within its back-off: until the instant saved with the failure no stage is
  invoked (the call does not depend on the invoker at all); a call that returns is blocked at the failed stage with
  the completed stages unchanged, and of the checkpoint it changes the telemetry only.\<close>

theorem failed_stage_backs_off:
  assumes "load_checkpoint (pc_sha pc) op_id st = Inr (Some d)" and "plain_checkpoint n d"
    and "field d ''state'' = JStr ''failed''" and "field d ''current_stage'' = JStr (stages ! n)"
    and "field d ''retry_not_before_ns'' = JInt i" and "fst (pc_now pc (ps_world st)) < i"
  shows "converge (pc\<lparr>pc_invoke := f\<rparr>) op_id h st = converge pc op_id h st \<and>
    (\<forall>x st'. converge pc op_id h st = (Inr x, st') \<longrightarrow>
       px_state x = ''blocked'' \<and> px_completed x = take n stages \<and> px_stage x = Some (stages ! n) \<and>
       (\<exists>d'. load_checkpoint (pc_sha pc) op_id st' = Inr (Some d') \<and>
          (\<forall>k. k \<noteq> ''telemetry'' \<longrightarrow> field d' k = stored (field d k))))"
proof -
  let ?fp = "fingerprint (pc_sha pc) (JObj h)"
  obtain now w where now: "pc_now pc (ps_world st) = (now, w)" by (cases "pc_now pc (ps_world st)")
  then have early: "now < i" using assms(6) by simp
  note stopped = converge_suppresses [OF _ assms(2-5) _ early]
  show ?thesis
  proof (cases "resume_from h ?fp (Some d)")
    case (Inl e)
    have "\<exists>e'. converge pc' op_id h st = (Inl e', st) \<and> (e' = (if field h ''status'' = JStr ''promotion_ready'' then e else ValueError))"
      if "pc_sha pc' = pc_sha pc" for pc'
      using that Inl assms(1)
      by (cases "field h ''status'' = JStr ''promotion_ready''") (simp_all add: converge_def Let_def lift_cases read_cases)
    from this [of pc] this [of "pc\<lparr>pc_invoke := f\<rparr>"] show ?thesis by auto
  next
    case (Inr rp)
    show ?thesis
    proof (cases "field h ''status'' = JStr ''promotion_ready''")
      case True
      note c = stopped [OF assms(1) now Inr True]
      have "converge (pc\<lparr>pc_invoke := f\<rparr>) op_id h st = converge pc op_id h st"
        using stopped [of "pc\<lparr>pc_invoke := f\<rparr>" op_id st w h rp] assms(1) now Inr True c by simp
      with suppress_outcome [OF _ assms(2,4) resume_completed [OF Inr assms(2)]] show ?thesis unfolding c by blast
    qed (simp add: converge_def Let_def lift_cases)
  qed
qed

lemma failed_stage_backs_off_witness:
  "let pc = demo_controller demo_result;
       st = snd (save_checkpoint (pc_sha pc) ''op'' (failed_fields ''digest'' [] [] [] ''refresh_default'' 5) empty_state)
   in converge (pc\<lparr>pc_invoke := (\<lambda>s h obs st. (Inl KeyError, st))\<rparr>) ''op'' demo_handoff st = converge pc ''op'' demo_handoff st"
proof -
  let ?d = "failed_fields ''digest'' [] [] [] ''refresh_default'' 5"
  have "plain_checkpoint 0 ?d" using plain_failed [of 0 "''digest''" "[]" "[]" 5] by (simp add: stages_def)
  from plain_stored [OF this] have p: "plain_checkpoint 0 (stored_obj ?d)" .
  have f: "field (stored_obj ?d) ''state'' = JStr ''failed''" "field (stored_obj ?d) ''current_stage'' = JStr (stages ! 0)"
    "field (stored_obj ?d) ''retry_not_before_ns'' = JInt 30000000005"
    unfolding field_stored_any by (simp_all add: failed_fields_def progress_fields_def stages_def)
  have now: "fst (pc_now (demo_controller demo_result) (ps_world (snd (save_checkpoint sha ''op'' d empty_state)))) < 30000000005"
    for sha d by (simp add: save_checkpoint_def)
  show ?thesis
    unfolding Let_def by (rule conjunct1 [OF failed_stage_backs_off [OF load_saved p f now]])
qed

end
