(* ===== verification/Promotion_Ready.thy ===== *)
theory Promotion_Ready
  imports Evidence_Rules
begin

text \<open>
  The step from implementation to promotion (\<open>workflows/once_through/service.py\<close>): a handoff is derived
  when every required kind of evidence is valid, and a live candidate is verified through an invoker,
  which is a parameter.
\<close>

section \<open>Deriving the handoff\<close>

definition mandatory_kinds :: "contract \<Rightarrow> string list" where
  "mandatory_kinds c =
     (if \<exists>s \<in> set (hc_surfaces c). casefold s = ''mcp'' then [''live_candidate_verification'', ''review_closed'']
      else [''review_closed''])"

definition required_kinds :: "contract \<Rightarrow> string list" where
  "required_kinds c = unique (map obligation_text (hc_obligations c) @ mandatory_kinds c)"

text \<open>The checks made when a live candidate is required.\<close>

definition check_candidate ::
  "(string \<Rightarrow> string) \<Rightarrow> contract \<Rightarrow> string \<Rightarrow> evidence_reference list \<Rightarrow> obj \<Rightarrow> unit result" where
  "check_candidate sha c commit evidence candidate =
     bindE (raise_if (field candidate ''work_id'' \<noteq> JStr (hc_work c) \<or>
                      field candidate ''contract_fingerprint'' \<noteq> JStr (contract_fingerprint sha c) \<or>
                      field candidate ''source_identity'' \<noteq> JStr (hc_source c)) ValueError) (\<lambda>_.
       (case field candidate ''server_instance_id'' of
          JStr server \<Rightarrow>
            if server = [] then Inl ValueError
            else (case find (\<lambda>e. ev_kind e = ''live_candidate_verification'') evidence of
                    None \<Rightarrow> Inl StopIteration
                  | Some live \<Rightarrow>
                      raise_if (map_of (ev_inputs live) ''source_commit'' \<noteq> Some commit \<or>
                                map_of (ev_inputs live) ''server_instance_id'' \<noteq> Some server \<or>
                                map_of (ev_inputs live) ''contract_fingerprint'' \<noteq> Some (contract_fingerprint sha c)) ValueError)
        | _ \<Rightarrow> Inl ValueError))"

definition resolved_change :: "string option \<Rightarrow> contract \<Rightarrow> string option" where
  "resolved_change change c = (case change of Some s \<Rightarrow> if s = [] then hc_change c else Some s | None \<Rightarrow> hc_change c)"

definition derive_promotion_ready ::
  "(string \<Rightarrow> string) \<Rightarrow> contract \<Rightarrow> string \<Rightarrow> obj \<Rightarrow> evidence_reference list \<Rightarrow> (string \<times> string) list \<Rightarrow> obj \<Rightarrow>
     string option \<Rightarrow> promotion result" where
  "derive_promotion_ready sha c commit execution evidence observed candidate change =
     (let resolutions = resolve_evidence evidence (required_kinds c) observed ''promotion'' in
      bindE (raise_if (\<exists>r \<in> set resolutions. er_state r \<noteq> Ev_valid) ValueError) (\<lambda>_.
      bindE (raise_if (field execution ''contract'' \<noteq> JStr ''change-execution-result-v2'' \<or>
                       field execution ''status'' \<noteq> JStr ''passed'') ValueError) (\<lambda>_.
      bindE (if ''live_candidate_verification'' \<in> set (required_kinds c)
             then check_candidate sha c commit evidence candidate else Inr ()) (\<lambda>_.
        (case resolved_change change c of
           None \<Rightarrow> Inl ValueError
         | Some change_id \<Rightarrow>
             if blank change_id then Inl ValueError
             else promotion_init
               \<lparr>pm_work = hc_work c, pm_change = change_id, pm_fingerprint = contract_fingerprint sha c, pm_commit = commit,
                pm_candidate = candidate, pm_execution = execution, pm_evidence = evidence,
                pm_satisfied = map JStr (required_kinds c), pm_pending = [], pm_status = ''promotion_ready'',
                pm_schema = 2\<rparr>)))))"

section \<open>Verifying a live candidate\<close>

definition identity_mismatch :: "obj \<Rightarrow> obj \<Rightarrow> string \<Rightarrow> bool" where
  "identity_mismatch expected identity key =
     (field expected key = JNull \<or> \<not> py_eq (field identity key) (field expected key))"

fun run_scenarios :: "(string \<Rightarrow> obj \<Rightarrow> ('s, obj) op) \<Rightarrow> int \<Rightarrow> obj list \<Rightarrow> ('s, obj list) op" where
  "run_scenarios invoke port [] = returnS []"
| "run_scenarios invoke port (scenario # rest) =
     bindS (invoke ''mcp'' (dict_update [(''port'', JInt port)] scenario)) (\<lambda>result.
       if field result ''status'' \<noteq> JStr ''passed'' then failS ValueError
       else bindS (run_scenarios invoke port rest) (\<lambda>outcomes. returnS (result # outcomes)))"

definition verify_live_candidate ::
  "(string \<Rightarrow> obj \<Rightarrow> ('s, obj) op) \<Rightarrow> contract \<Rightarrow> obj \<Rightarrow> obj list \<Rightarrow> ('s, obj) op" where
  "verify_live_candidate invoke c expected scenarios =
     bindS (invoke ''identity'' [(''port'', JInt (hc_port c))]) (\<lambda>identity.
       if \<exists>key \<in> {''work_id'', ''contract_fingerprint'', ''source_identity'', ''server_instance_id''}.
            identity_mismatch expected identity key
       then failS ValueError
       else bindS (run_scenarios invoke (hc_port c) scenarios) (\<lambda>outcomes.
         returnS [(''contract'', JStr ''live-candidate-verification-v1''), (''status'', JStr ''passed''),
                  (''candidate_identity'', JObj identity), (''scenario_count'', JInt (int (length outcomes))),
                  (''outcomes'', JArr (map JObj outcomes))]))"

section \<open>What a derived handoff guarantees\<close>

lemma derive_Inr:
  assumes "derive_promotion_ready sha c commit execution evidence observed candidate change = Inr p"
  shows "(\<forall>kind \<in> set (required_kinds c). \<exists>e. satisfied_by evidence observed 2 kind e) \<and>
    (''live_candidate_verification'' \<in> set (required_kinds c) \<longrightarrow>
       check_candidate sha c commit evidence candidate = Inr ()) \<and>
    promotion_init p = Inr p \<and> pm_work p = hc_work c \<and> pm_fingerprint p = contract_fingerprint sha c \<and>
    pm_commit p = commit \<and> pm_evidence p = evidence \<and> pm_satisfied p = map JStr (required_kinds c)"
proof -
  let ?rs = "resolve_evidence evidence (required_kinds c) observed ''promotion''"
  from assms obtain change_id where valid: "\<forall>r \<in> set ?rs. er_state r = Ev_valid"
    and live: "(if ''live_candidate_verification'' \<in> set (required_kinds c)
             then check_candidate sha c commit evidence candidate else Inr ()) = Inr ()"
    and init: "promotion_init
               \<lparr>pm_work = hc_work c, pm_change = change_id, pm_fingerprint = contract_fingerprint sha c, pm_commit = commit,
                pm_candidate = candidate, pm_execution = execution, pm_evidence = evidence,
                pm_satisfied = map JStr (required_kinds c), pm_pending = [], pm_status = ''promotion_ready'',
                pm_schema = 2\<rparr> = Inr p"
    unfolding derive_promotion_ready_def Let_def
    by (elim bindE_InrE) (auto simp: raise_if_eq_Inr split: option.splits if_splits)
  have p: "p = \<lparr>pm_work = hc_work c, pm_change = change_id, pm_fingerprint = contract_fingerprint sha c, pm_commit = commit,
                pm_candidate = candidate, pm_execution = execution, pm_evidence = evidence,
                pm_satisfied = map JStr (required_kinds c), pm_pending = [], pm_status = ''promotion_ready'',
                pm_schema = 2\<rparr>"
    using init unfolding promotion_init_def by (auto simp: err_simps split: if_splits)
  have "phase_number ''promotion'' (- 1) = 2" by (simp add: phase_number_def phase_order_def)
  with valid have "\<exists>e. satisfied_by evidence observed 2 kind e" if "kind \<in> set (required_kinds c)" for kind
    using that by (auto simp: resolve_evidence_def resolve_kind_valid [symmetric])
  with live init p show ?thesis by auto
qed

section \<open>A derived handoff\<close>

definition ready_contract :: contract where
  "ready_contract =
     \<lparr>hc_project = ''p'', hc_work = ''W1'', hc_repository = ''o/r'', hc_requirements = [''a''], hc_acceptance = [''b''],
      hc_surfaces = [''MCP''], hc_obligations = [Verification, Review_closed], hc_port = 46000, hc_source = ''s'',
      hc_change = Some ''001-a'', hc_schema = 2\<rparr>"

definition ready_sha :: "string \<Rightarrow> string" where
  "ready_sha _ = replicate 64 (CHR ''a'')"

definition ready_commit :: string where
  "ready_commit = replicate 40 (CHR ''c'')"

definition ready_tree :: string where
  "ready_tree = replicate 40 (CHR ''d'')"

definition ready_reference :: "string \<Rightarrow> (string \<times> string) list \<Rightarrow> validity_class \<Rightarrow> evidence_reference" where
  "ready_reference kind extra cls =
     \<lparr>ev_id = ''e-'' @ kind, ev_kind = kind, ev_subject = ''s'', ev_class = cls, ev_inputs = (''tree'', ready_tree) # extra,
      ev_receipt = ''r'', ev_phase = ''implementation''\<rparr>"

definition live_inputs :: "(string \<times> string) list" where
  "live_inputs = [(''runtime'', ''i1''), (''source_commit'', ready_commit), (''server_instance_id'', ''i1''),
     (''contract_fingerprint'', ready_sha [])]"

definition ready_evidence :: "evidence_reference list" where
  "ready_evidence = [ready_reference ''verification'' [] Content_stable, ready_reference ''review_closed'' [] Content_stable,
     ready_reference ''live_candidate_verification'' live_inputs Runtime_sensitive]"

definition ready_candidate :: obj where
  "ready_candidate = [(''work_id'', JStr ''W1''), (''contract_fingerprint'', JStr (ready_sha [])),
     (''source_identity'', JStr ''s''), (''server_instance_id'', JStr ''i1'')]"

definition ready_execution :: obj where
  "ready_execution = [(''contract'', JStr ''change-execution-result-v2''), (''status'', JStr ''passed'')]"

definition ready_promotion :: promotion where
  "ready_promotion =
     \<lparr>pm_work = ''W1'', pm_change = ''001-a'', pm_fingerprint = ready_sha [], pm_commit = ready_commit,
      pm_candidate = ready_candidate, pm_execution = ready_execution, pm_evidence = ready_evidence,
      pm_satisfied = map JStr [''verification'', ''review_closed'', ''live_candidate_verification''], pm_pending = [],
      pm_status = ''promotion_ready'', pm_schema = 2\<rparr>"

lemma ready_derived:
  "derive_promotion_ready ready_sha ready_contract ready_commit ready_execution ready_evidence
     ((''tree'', ready_tree) # live_inputs) ready_candidate None = Inr ready_promotion"
proof -
  have fp: "contract_fingerprint ready_sha c = ready_sha []" for c
    by (simp add: contract_fingerprint_def fingerprint_def ready_sha_def)
  have kinds: "required_kinds ready_contract = [''verification'', ''review_closed'', ''live_candidate_verification'']"
    by code_simp
  have res: "resolve_evidence ready_evidence [''verification'', ''review_closed'', ''live_candidate_verification'']
      ((''tree'', ready_tree) # live_inputs) ''promotion'' =
    map (\<lambda>k. \<lparr>er_id = ''e-'' @ k, er_kind = k, er_state = Ev_valid, er_reason = ''all declared validity inputs match'',
      er_receipt = Some ''r''\<rparr>) [''verification'', ''review_closed'', ''live_candidate_verification'']" by code_simp
  have live: "check_candidate ready_sha ready_contract ready_commit ready_evidence ready_candidate = Inr ()"
    unfolding check_candidate_def fp by code_simp
  have init: "promotion_init ready_promotion = Inr ready_promotion" by code_simp
  have change: "resolved_change None ready_contract = Some ''001-a''" "\<not> blank ''001-a''" by code_simp+
  have ex: "field ready_execution ''contract'' = JStr ''change-execution-result-v2''" "field ready_execution ''status'' = JStr ''passed''"
    by code_simp+
  show ?thesis
    using init
    by (simp add: derive_promotion_ready_def kinds res live change ex fp ready_promotion_def)
      (simp add: ready_contract_def)
qed

text \<open>C30: a handoff is derived only when the evidence is complete: for every declared obligation, the closed review, and
  for an MCP surface the live candidate, the evidence holds exactly one reference; it applies at or before promotion
  and all its declared inputs are as observed.  This includes the obligations of later phases.\<close>

theorem promotion_ready_complete:
  assumes "derive_promotion_ready sha c commit execution evidence observed candidate change = Inr p"
  shows "(\<forall>x \<in> set (hc_obligations c). \<exists>e. satisfied_by evidence observed 2 (obligation_text x) e) \<and>
    (\<exists>e. satisfied_by evidence observed 2 ''review_closed'' e) \<and>
    ((\<exists>s \<in> set (hc_surfaces c). casefold s = ''mcp'') \<longrightarrow>
       (\<exists>e. satisfied_by evidence observed 2 ''live_candidate_verification'' e)) \<and>
    pm_evidence p = evidence \<and> pm_fingerprint p = contract_fingerprint sha c \<and> pm_commit p = commit"
proof -
  note d = derive_Inr [OF assms]
  have kinds: "obligation_text ` set (hc_obligations c) \<subseteq> set (required_kinds c)" "''review_closed'' \<in> set (required_kinds c)"
    "(\<exists>s \<in> set (hc_surfaces c). casefold s = ''mcp'') \<longrightarrow> ''live_candidate_verification'' \<in> set (required_kinds c)"
    by (auto simp: required_kinds_def mandatory_kinds_def)
  with d show ?thesis by blast
qed

lemma promotion_ready_complete_witness:
  "\<exists>e. satisfied_by ready_evidence ((''tree'', ready_tree) # live_inputs) 2 ''live_candidate_verification'' e"
proof -
  have "casefold ''MCP'' = ''mcp''" by code_simp
  with promotion_ready_complete [OF ready_derived] show ?thesis by (simp add: ready_contract_def)
qed

end
