(* ===== verification/Lifecycle.thy ===== *)
theory Lifecycle
  imports Promotion_Controller Promotion_Ready
begin

text \<open>
  The lifecycle decision (\<open>workflows/once_through/lifecycle.py\<close>) and the tool that serves it
  (\<open>workflows/once_through/lifecycle_tools.py\<close>): what the next step of a work is, from the handoff store,
  the promotion checkpoint and the source identity.  Git and the project boundary are parameters.
\<close>

section \<open>Evidence against the source tree\<close>

definition validate_sha :: "string \<Rightarrow> string result" where
  "validate_sha v =
     (let s = casefold (py_strip v) in if is_hex40 s then Inr s else Inl (Coded ''LIFECYCLE_SOURCE_IDENTITY_INVALID''))"

definition tree_unproven :: "evidence_reference \<Rightarrow> (string \<times> string) list \<Rightarrow> bool" where
  "tree_unproven e observed =
     (ev_kind e \<in> {''verification'', ''review_closed''} \<and>
      (case map_of (ev_inputs e) ''tree'' of
         None \<Rightarrow> True
       | Some t \<Rightarrow> \<not> is_hex40 t \<or> map_of observed ''tree'' \<noteq> Some t))"

definition changed_keys :: "evidence_reference \<Rightarrow> (string \<times> string) list \<Rightarrow> string list" where
  "changed_keys e observed =
     sort (unique (changed_inputs e observed @ (if tree_unproven e observed then [''tree''] else [])))"

definition evidence_projection :: "(string \<times> string) list \<Rightarrow> evidence_reference \<Rightarrow> evidence_resolution" where
  "evidence_projection observed e =
     (let changed = changed_keys e observed in
      \<lparr>er_id = ev_id e, er_kind = ev_kind e, er_state = (if changed \<noteq> [] then Ev_invalid else Ev_valid),
       er_reason = (if changed \<noteq> [] then ''validity inputs changed: '' @ join_with '', '' changed
                    else ''all declared validity inputs match''),
       er_receipt = Some (ev_receipt e)\<rparr>)"

section \<open>Dispositions of operations and obligations\<close>

datatype disposition = Required | Allowed | Diagnostic_only | Redundant | Prohibited

fun disposition_text :: "disposition \<Rightarrow> string" where
  "disposition_text Required = ''required''"
| "disposition_text Allowed = ''allowed''"
| "disposition_text Diagnostic_only = ''diagnostic_only''"
| "disposition_text Redundant = ''redundant''"
| "disposition_text Prohibited = ''prohibited''"

type_synonym dispositions = "(string \<times> disposition \<times> string option) list"

definition disposition_fields :: "disposition \<times> string option \<Rightarrow> obj" where
  "disposition_fields d =
     (''disposition'', JStr (disposition_text (fst d))) #
     (case snd d of None \<Rightarrow> [] | Some why \<Rightarrow> if why = [] then [] else [(''reason'', JStr why)])"

datatype lifecycle_state =
    Manual_closeout
  | Promotion_controller
  | Lifecycle_done
  | Implementation_stale
  | Implementation_pending

fun lifecycle_text :: "lifecycle_state \<Rightarrow> string" where
  "lifecycle_text Manual_closeout = ''manual_closeout''"
| "lifecycle_text Promotion_controller = ''promotion_controller''"
| "lifecycle_text Lifecycle_done = ''done''"
| "lifecycle_text Implementation_stale = ''implementation_evidence_stale''"
| "lifecycle_text Implementation_pending = ''implementation_pending''"

text \<open>\<open>_operation_dispositions\<close>, and the table of a manual close-out.\<close>

definition operation_dispositions :: "lifecycle_state \<Rightarrow> dispositions" where
  "operation_dispositions s =
     (if s = Implementation_pending \<or> s = Implementation_stale then
        [(''execute_change_workflow'', Required, None),
         (''run_local_full_verification'', Diagnostic_only, Some ''CANONICAL_OWNER_GITHUB_EXACT_HEAD''),
         (''converge_change_to_done'', Prohibited, Some ''PROMOTION_READY_REQUIRED'')]
      else if s = Lifecycle_done then
        [(''execute_change_workflow'', Redundant, Some ''CHANGE_ALREADY_DONE''),
         (''run_local_full_verification'', Redundant, Some ''CHANGE_ALREADY_DONE''),
         (''converge_change_to_done'', Redundant, Some ''CHANGE_ALREADY_DONE'')]
      else
        [(''execute_change_workflow'', Redundant, Some ''PROMOTION_READY_REUSES_IMPLEMENTATION_EVIDENCE''),
         (''run_local_full_verification'', Redundant, Some ''CANONICAL_OWNER_GITHUB_EXACT_HEAD''),
         (''converge_change_to_done'', Required, None)])"

definition exit_dispositions :: dispositions where
  "exit_dispositions =
     [(''execute_change_workflow'', Prohibited, Some ''ONCE_THROUGH_EXITED''),
      (''run_local_full_verification'', Diagnostic_only, Some ''MANUAL_CLOSEOUT''),
      (''converge_change_to_done'', Prohibited, Some ''ONCE_THROUGH_EXITED''),
      (''manual_governed_change_closeout'', Required, None)]"

definition obligation_status :: "string set \<Rightarrow> obligation \<Rightarrow> string" where
  "obligation_status satisfied x =
     (if obligation_text x \<in> satisfied then ''satisfied''
      else if x = Provider_proof then ''pending_after_publication''
      else if phase_of x \<in> {Documentation_phase, Commissioning_phase, Completion_phase} then ''pending_post_merge''
      else ''unsatisfied'')"

definition obligation_projection :: "contract \<Rightarrow> string set \<Rightarrow> (string \<times> string) list" where
  "obligation_projection c satisfied = map (\<lambda>x. (obligation_text x, obligation_status satisfied x)) (hc_obligations c)"

section \<open>The decision\<close>

record lifecycle_decision =
  ld_state :: lifecycle_state
  ld_work :: string
  ld_change :: "string option"
  ld_sha :: string
  ld_tree :: string
  ld_obligations :: "(string \<times> string) list"
  ld_operation :: "string option"
  ld_controller :: "projection option"
  ld_reusable :: "evidence_resolution list"
  ld_stale :: "evidence_resolution list"
  ld_next :: "string option"
  ld_dispositions :: dispositions
  ld_exit :: "obj option"

definition reusable_of :: "evidence_resolution list \<Rightarrow> evidence_resolution list" where
  "reusable_of rs = filter (\<lambda>r. er_state r = Ev_valid) rs"

definition stale_of :: "evidence_resolution list \<Rightarrow> evidence_resolution list" where
  "stale_of rs = filter (\<lambda>r. er_state r = Ev_invalid) rs"

definition exit_decision ::
  "string \<Rightarrow> contract \<Rightarrow> string \<Rightarrow> string \<Rightarrow> evidence_reference list \<Rightarrow> obj \<Rightarrow> lifecycle_decision" where
  "exit_decision w c commit tree evidence exit =
     (let projected = map (evidence_projection [(''tree'', tree)]) evidence in
      \<lparr>ld_state = Manual_closeout, ld_work = w, ld_change = hc_change c, ld_sha = commit, ld_tree = tree,
       ld_obligations = obligation_projection c {}, ld_operation = None, ld_controller = None,
       ld_reusable = reusable_of projected, ld_stale = stale_of projected,
       ld_next = Some ''manual_governed_change_closeout'', ld_dispositions = exit_dispositions, ld_exit = Some exit\<rparr>)"

text \<open>\<open>PROMOTION_HANDOFF_MISSING\<close> is no error here.\<close>

definition optional_promotion :: "promotion result \<Rightarrow> promotion option result" where
  "optional_promotion r =
     (case r of
        Inl e \<Rightarrow> if e = Coded ''PROMOTION_HANDOFF_MISSING'' then Inr None else Inl e
      | Inr p \<Rightarrow> Inr (Some p))"

definition satisfied_kinds :: "promotion \<Rightarrow> string set" where
  "satisfied_kinds p = {k. JStr k \<in> set (pm_satisfied p)}"

text \<open>The identifier, the projected checkpoint and the state of a promotion that may go on.\<close>

definition controller_state ::
  "(string \<Rightarrow> string) \<Rightarrow> 'w promotion_state \<Rightarrow> promotion \<Rightarrow> (string \<times> projection \<times> lifecycle_state) result" where
  "controller_state sha ps p =
     (let operation = promotion_operation_id sha (promotion_fields p) in
      bindE (load_checkpoint sha operation ps) (\<lambda>cp.
      bindE (project_promotion_checkpoint cp) (\<lambda>pj.
        Inr (operation, pj, if pj_state pj = ''done'' then Lifecycle_done else Promotion_controller))))"

definition promotion_usable :: "string \<Rightarrow> evidence_resolution list \<Rightarrow> promotion \<Rightarrow> bool" where
  "promotion_usable commit projected p =
     (pm_commit p = commit \<and> {''verification'', ''review_closed''} \<subseteq> set (map er_kind (reusable_of projected)) \<and>
      stale_of projected = [])"

definition normal_decision ::
  "(string \<Rightarrow> string) \<Rightarrow> 'w promotion_state \<Rightarrow> string \<Rightarrow> contract \<Rightarrow> string \<Rightarrow> string \<Rightarrow> evidence_reference list \<Rightarrow>
     promotion option \<Rightarrow> lifecycle_decision result" where
  "normal_decision sha ps w c commit tree evidence promotion =
     (let used = (case promotion of None \<Rightarrow> evidence | Some p \<Rightarrow> pm_evidence p);
          projected = map (evidence_projection [(''tree'', tree)]) used;
          satisfied = (case promotion of
                         Some p \<Rightarrow> if pm_commit p = commit \<and> stale_of projected = [] then satisfied_kinds p else {}
                       | None \<Rightarrow> {})
      in bindE (case promotion of
             None \<Rightarrow> Inr (None, None, Implementation_pending)
           | Some p \<Rightarrow>
               if promotion_usable commit projected p
               then bindE (controller_state sha ps p) (\<lambda>(operation, pj, s). Inr (Some operation, Some pj, s))
               else Inr (None, None, Implementation_stale)) (\<lambda>(operation, pj, s).
           Inr \<lparr>ld_state = s, ld_work = w, ld_change = hc_change c, ld_sha = commit, ld_tree = tree,
                ld_obligations = obligation_projection c satisfied, ld_operation = operation, ld_controller = pj,
                ld_reusable = reusable_of projected, ld_stale = stale_of projected,
                ld_next = (if s = Lifecycle_done then None
                           else if s = Promotion_controller then Some ''converge_change_to_done''
                           else Some ''execute_change_workflow''),
                ld_dispositions = operation_dispositions s, ld_exit = None\<rparr>))"

definition decide ::
  "(string \<Rightarrow> string) \<Rightarrow> store \<Rightarrow> 'w promotion_state \<Rightarrow> string \<Rightarrow> string \<Rightarrow> string \<Rightarrow> lifecycle_decision result" where
  "decide sha st ps w source_commit source_tree =
     bindE (validate_sha source_commit) (\<lambda>commit.
     bindE (validate_sha source_tree) (\<lambda>tree.
     bindE (require_contract sha w st) (\<lambda>c.
     bindE (load_evidence w st) (\<lambda>evidence.
     bindE (load_manual_exit w st) (\<lambda>exit.
       (case exit of
          Some d \<Rightarrow> Inr (exit_decision w c commit tree evidence d)
        | None \<Rightarrow>
            bindE (optional_promotion (load_promotion sha w st)) (\<lambda>promotion.
              normal_decision sha ps w c commit tree evidence promotion)))))))"

section \<open>The decision as JSON\<close>

definition projection_fields :: "projection \<Rightarrow> obj" where
  "projection_fields p =
     [(''state'', JStr (pj_state p)), (''completed'', JArr (pj_completed p)), (''current_stage'', pj_stage p)]"

definition canonical_evidence_owners :: obj where
  "canonical_evidence_owners =
     [(''development_correctness'', JStr ''affected_focused_local_verification''),
      (''architecture_api_security_review'', JStr ''review_closure''),
      (''change_governance'', JStr ''change_workflow_check''),
      (''full_repository_verification'', JStr ''github_actions_exact_pr_head''),
      (''merge_admissibility'', JStr ''merge_readiness''),
      (''landed_runtime_correctness'', JStr ''post_merge_commissioning'')]"

definition closeout_fields :: "string option \<Rightarrow> obj \<Rightarrow> obj" where
  "closeout_fields change exit =
     dict_update exit
       [(''meaning'', JStr ''once-through progression is disabled; continue with the standard governed repository change workflow''),
        (''current_required_step'', JStr (if change \<noteq> None \<and> change \<noteq> Some [] then ''resume_governed_change''
                                          else ''create_governed_change'')),
        (''required_sequence'', str_array [''create_or_resume_governed_change'', ''implement_requested_outcome'',
           ''change_governance_check'', ''github_pull_request'', ''github_actions_exact_pr_head'', ''merge_readiness'', ''merge'',
           ''refresh_main_and_cleanup'']),
        (''required_gates'', str_array [''change_governance'', ''github_pull_request'', ''github_actions_exact_pr_head'',
           ''merge_readiness'']),
        (''not_ready_for_pr_without_implementation'', JBool True), (''do_not_reenter_once_through'', JBool True)]"

text \<open>The telemetry names the operations that are redundant or prohibited; for a manual exit it is a constant.\<close>

definition prevented_operations :: "lifecycle_decision \<Rightarrow> string list" where
  "prevented_operations d =
     (if ld_exit d \<noteq> None then [''execute_change_workflow'', ''converge_change_to_done'']
      else map fst (filter (\<lambda>(_, v, _). v \<in> {Redundant, Prohibited}) (ld_dispositions d)))"

definition decision_fields :: "lifecycle_decision \<Rightarrow> obj" where
  "decision_fields d =
     [(''schema_version'', JInt 1), (''contract'', JStr ''change-lifecycle-decision-v1''),
      (''state'', JStr (lifecycle_text (ld_state d))), (''work_id'', JStr (ld_work d)), (''change_id'', str_option (ld_change d)),
      (''source_sha'', JStr (ld_sha d)), (''source_tree'', JStr (ld_tree d)),
      (''obligations'', JObj (map (map_prod id JStr) (ld_obligations d))),
      (''canonical_evidence_owners'', JObj canonical_evidence_owners),
      (''promotion_operation_id'', str_option (ld_operation d)),
      (''controller'', case ld_controller d of None \<Rightarrow> JNull | Some p \<Rightarrow> JObj (projection_fields p)),
      (''reusable_evidence'', JArr (map (JObj \<circ> resolution_fields) (ld_reusable d))),
      (''stale_evidence'', JArr (map (JObj \<circ> resolution_fields) (ld_stale d))),
      (''next_required_action'', str_option (ld_next d)),
      (''operation_dispositions'', JObj (map (map_prod id (JObj \<circ> disposition_fields)) (ld_dispositions d))),
      (''lifecycle_blocked'', JBool False)] @
     (case ld_exit d of None \<Rightarrow> [] | Some x \<Rightarrow> [(''manual_closeout'', JObj (closeout_fields (ld_change d) x))]) @
     [(''telemetry'', JObj [(''prevented_operations'', str_array (prevented_operations d)),
        (''reused_evidence_ids'', str_array (map er_id (ld_reusable d))),
        (''stale_evidence_ids'', str_array (map er_id (ld_stale d)))])]"

section \<open>Failed operations\<close>

definition apply_operation_failure :: "obj \<Rightarrow> string \<Rightarrow> string \<Rightarrow> obj result" where
  "apply_operation_failure decision operation failure =
     (let item = obj_or_empty (field_or (obj_or_empty (field_or decision ''operation_dispositions'' (JObj []))) operation (JObj []));
          disposition = field item ''disposition'';
          blocked = (disposition = JStr ''required'' \<or> field decision ''next_required_action'' = JStr operation)
      in if \<not> hashable disposition then Inl TypeError
         else Inr (dict_update decision
           [(''operation_failed'', JBool True), (''failed_operation'', JStr operation), (''failure'', JStr failure),
            (''lifecycle_blocked'', JBool (blocked \<and>
               disposition \<notin> {JStr ''redundant'', JStr ''diagnostic_only'', JStr ''allowed'', JStr ''prohibited''}))]))"

section \<open>The tool\<close>

text \<open>The project path lies within the configured boundary, and what a git command returns there.\<close>

record worktree =
  wt_inside :: bool
  wt_git :: "string list \<Rightarrow> int \<times> string"

definition git_text :: "worktree \<Rightarrow> string list \<Rightarrow> string result" where
  "git_text wt args =
     (case wt_git wt args of
        (code, out) \<Rightarrow> if code \<noteq> 0 then Inl (Coded ''LIFECYCLE_SOURCE_IDENTITY_UNAVAILABLE'') else Inr (py_strip out))"

definition source_identity :: "worktree \<Rightarrow> string \<Rightarrow> string \<Rightarrow> (string \<times> string) result" where
  "source_identity wt source_commit source_tree =
     bindE (raise_if (\<not> wt_inside wt) (Coded ''LIFECYCLE_PROJECT_PATH_INVALID'')) (\<lambda>_.
     bindE (git_text wt [''status'', ''--porcelain=v1'', ''--untracked-files=all'']) (\<lambda>dirty.
     bindE (raise_if (dirty \<noteq> []) (Coded ''LIFECYCLE_SOURCE_DIRTY'')) (\<lambda>_.
     bindE (git_text wt [''rev-parse'', ''--verify'', ''HEAD'']) (\<lambda>head.
     bindE (git_text wt [''rev-parse'', ''--verify'', ''HEAD^{tree}'']) (\<lambda>tree.
     bindE (raise_if (casefold head \<noteq> casefold source_commit \<or> casefold tree \<noteq> casefold source_tree)
              (Coded ''LIFECYCLE_SOURCE_ASSERTION_STALE'')) (\<lambda>_.
       Inr (casefold head, casefold tree)))))))"

definition check_branch :: "worktree \<Rightarrow> lifecycle_decision \<Rightarrow> unit result" where
  "check_branch wt d =
     bindE (git_text wt [''symbolic-ref'', ''--quiet'', ''--short'', ''HEAD'']) (\<lambda>branch.
       (case ld_change d of
          None \<Rightarrow> Inl (Coded ''LIFECYCLE_CHANGE_ID_UNBOUND'')
        | Some change \<Rightarrow>
            if blank change then Inl (Coded ''LIFECYCLE_CHANGE_ID_UNBOUND'')
            else raise_if (branch \<noteq> ''change/'' @ change) (Coded ''LIFECYCLE_CHANGE_WORKTREE_MISMATCH'')))"

definition decision_recovery :: "store \<Rightarrow> string \<Rightarrow> lifecycle_decision \<Rightarrow> recovery_state result" where
  "decision_recovery st w d =
     bindE (load_recovery w st) (\<lambda>r.
       (case r of
          Some x \<Rightarrow> Inr x
        | None \<Rightarrow> bindE (load_evidence w st) (\<lambda>es.
            Inr (default_recovery_state es (phase_for_decision (lifecycle_text (ld_state d)))))))"

definition recovery_section :: "recovery_state \<Rightarrow> string list \<Rightarrow> obj" where
  "recovery_section r rewinds =
     recovery_fields r @ [(''available_rewinds'', str_array rewinds),
       (''supported_actions'', str_array [''inspect'', ''rewind'', ''revalidate'', ''resume'', ''abort''])]"

text \<open>Errors without a code get the tool's own.\<close>

definition tool_error :: "exn \<Rightarrow> exn" where
  "tool_error e = (if e = ValueError then Coded ''LIFECYCLE_DECISION_INVALID'' else e)"

definition change_lifecycle_decision ::
  "(string \<Rightarrow> string) \<Rightarrow> worktree \<Rightarrow> store \<Rightarrow> 'w promotion_state \<Rightarrow> string \<Rightarrow> string \<Rightarrow> string \<Rightarrow> obj result" where
  "change_lifecycle_decision sha wt st ps w source_commit source_tree =
     (case bindE (source_identity wt source_commit source_tree) (\<lambda>(commit, tree).
           bindE (decide sha st ps w commit tree) (\<lambda>d.
           bindE (decision_recovery st w d) (\<lambda>r.
           bindE (available_rewinds r) (\<lambda>rewinds.
           bindE (if ld_state d = Manual_closeout then Inr () else check_branch wt d) (\<lambda>_.
             Inr (decision_fields d @ [(''recovery'', JObj (recovery_section r rewinds))])))))) of
        Inl e \<Rightarrow> Inl (tool_error e)
      | Inr x \<Rightarrow> Inr x)"

end
