(* ===== verification/Lifecycle_Facts.thy ===== *)
theory Lifecycle_Facts
  imports Lifecycle Handoff_Store_Facts
begin

text \<open>
  What the lifecycle decision says: when a promotion may go on, what a failed operation blocks, and
  why the handoff of a live candidate is never accepted.
\<close>

section \<open>Evidence against the tree\<close>

text \<open>Every declared input is the tree, and verification and review evidence declares it.\<close>

definition tree_only :: "string \<Rightarrow> evidence_reference \<Rightarrow> bool" where
  "tree_only tree e =
     ((\<forall>(k, v) \<in> set (ev_inputs e). k = ''tree'' \<and> v = tree) \<and>
      (ev_kind e \<in> {''verification'', ''review_closed''} \<longrightarrow> map_of (ev_inputs e) ''tree'' = Some tree))"

lemma changed_keys_empty:
  assumes "is_hex40 tree"
  shows "changed_keys e [(''tree'', tree)] = [] \<longleftrightarrow> tree_only tree e"
proof -
  have s: "sort xs = [] \<longleftrightarrow> xs = []" for xs :: "string list" by (metis set_empty set_sort)
  have c: "changed_inputs e [(''tree'', tree)] = [] \<longleftrightarrow> (\<forall>(k, v) \<in> set (ev_inputs e). k = ''tree'' \<and> v = tree)"
  proof -
    have "map_of [(''tree'', tree)] k = Some v \<longleftrightarrow> k = ''tree'' \<and> v = tree" for k v by auto
    then show ?thesis unfolding changed_inputs_empty by simp
  qed
  have t: "\<not> tree_unproven e [(''tree'', tree)] \<longleftrightarrow>
      (ev_kind e \<in> {''verification'', ''review_closed''} \<longrightarrow> map_of (ev_inputs e) ''tree'' = Some tree)"
    using assms by (auto simp: tree_unproven_def split: option.splits)
  have "changed_keys e [(''tree'', tree)] = [] \<longleftrightarrow>
      changed_inputs e [(''tree'', tree)] = [] \<and> \<not> tree_unproven e [(''tree'', tree)]"
    unfolding changed_keys_def s unique_eq_Nil by auto
  then show ?thesis unfolding c t tree_only_def .
qed

lemma projection_state:
  "is_hex40 tree \<Longrightarrow> er_state (evidence_projection [(''tree'', tree)] e) = (if tree_only tree e then Ev_valid else Ev_invalid)"
  by (simp add: evidence_projection_def Let_def changed_keys_empty)

lemma projection_kind [simp]: "er_kind (evidence_projection observed e) = ev_kind e"
  by (simp add: evidence_projection_def Let_def)

lemma stale_empty:
  "is_hex40 tree \<Longrightarrow> stale_of (map (evidence_projection [(''tree'', tree)]) es) = [] \<longleftrightarrow> (\<forall>e \<in> set es. tree_only tree e)"
  by (auto simp: stale_of_def filter_empty_conv projection_state)

lemma usable_iff:
  assumes "is_hex40 tree"
  shows "promotion_usable commit (map (evidence_projection [(''tree'', tree)]) es) p \<longleftrightarrow>
    pm_commit p = commit \<and> (\<forall>e \<in> set es. tree_only tree e) \<and>
    (\<forall>k \<in> {''verification'', ''review_closed''}. \<exists>e \<in> set es. ev_kind e = k)"
proof -
  have k: "map er_kind (reusable_of (map (evidence_projection [(''tree'', tree)]) es)) = map ev_kind (filter (tree_only tree) es)"
    unfolding reusable_of_def by (induction es) (simp_all add: projection_state [OF assms])
  show ?thesis
  proof (cases "\<forall>e \<in> set es. tree_only tree e")
    case True
    then have f: "filter (tree_only tree) es = es" by simp
    have "set ks \<subseteq> set (map ev_kind es) \<longleftrightarrow> (\<forall>k \<in> set ks. \<exists>e \<in> set es. ev_kind e = k)" for ks by auto
    from this [of "[''verification'', ''review_closed'']"] True show ?thesis
      unfolding promotion_usable_def stale_empty [OF assms] k f by simp
  next
    case False
    then show ?thesis unfolding promotion_usable_def stale_empty [OF assms] by blast
  qed
qed

lemma validate_sha_Inr: "validate_sha v = Inr s \<Longrightarrow> is_hex40 s"
  by (simp add: validate_sha_def Let_def split: if_splits)

section \<open>The decision\<close>

lemma decide_Inr:
  assumes "decide sha st ps w source_commit source_tree = Inr d"
  obtains commit tree c evidence exit where "is_hex40 tree" "load_evidence w st = Inr evidence" "load_manual_exit w st = Inr exit"
    "case exit of Some x \<Rightarrow> d = exit_decision w c commit tree evidence x
     | None \<Rightarrow> \<exists>promotion. optional_promotion (load_promotion sha w st) = Inr promotion \<and>
                 normal_decision sha ps w c commit tree evidence promotion = Inr d"
proof -
  from assms obtain commit tree c evidence exit where t: "validate_sha source_tree = Inr tree"
    and e: "load_evidence w st = Inr evidence" and x: "load_manual_exit w st = Inr exit"
    and r: "(case exit of
          Some d \<Rightarrow> Inr (exit_decision w c commit tree evidence d)
        | None \<Rightarrow>
            bindE (optional_promotion (load_promotion sha w st)) (\<lambda>promotion.
              normal_decision sha ps w c commit tree evidence promotion)) = Inr d"
    unfolding decide_def by (elim bindE_InrE)
  from r show ?thesis
    by (intro that [OF validate_sha_Inr [OF t] e x, of c commit]) (auto simp: bindE_eq_Inr split: option.splits)
qed

lemma optional_promotion_Inr:
  "optional_promotion r = Inr promotion \<Longrightarrow> (case promotion of Some p \<Rightarrow> r = Inr p | None \<Rightarrow> r = Inl (Coded ''PROMOTION_HANDOFF_MISSING''))"
  by (auto simp: optional_promotion_def split: sum.splits if_splits)

text \<open>The condition under which a promotion may go on.\<close>

definition may_promote :: "(string \<Rightarrow> string) \<Rightarrow> store \<Rightarrow> string \<Rightarrow> string \<Rightarrow> string \<Rightarrow> bool" where
  "may_promote sha st w commit tree =
     (\<exists>p. load_promotion sha w st = Inr p \<and> pm_commit p = commit \<and> (\<forall>e \<in> set (pm_evidence p). tree_only tree e) \<and>
        (\<forall>k \<in> {''verification'', ''review_closed''}. \<exists>e \<in> set (pm_evidence p). ev_kind e = k))"

definition controller_done :: "(string \<Rightarrow> string) \<Rightarrow> 'w promotion_state \<Rightarrow> string \<Rightarrow> bool" where
  "controller_done sha ps operation =
     (\<exists>cp pj. load_checkpoint sha operation ps = Inr (Some cp) \<and> project_promotion_checkpoint (Some cp) = Inr pj \<and>
        pj_completed pj = map JStr stages)"

lemma if_Inl_Inr: "(if b then Inl e else r) = Inr x \<longleftrightarrow> \<not> b \<and> r = Inr x"
  by simp

lemma projected_done:
  assumes "project_promotion_checkpoint cp = Inr pj" and "pj_state pj = ''done''"
  shows "cp \<noteq> None \<and> pj_completed pj = map JStr stages"
proof -
  from assms obtain d where d: "cp = Some d" by (cases cp) (auto simp: project_promotion_checkpoint_def)
  from assms(1) [unfolded d project_promotion_checkpoint_def option.case]
  have "pj_completed pj = map JStr stages"
  proof (rule bindE_InrE, goal_cases)
    case (1 xs)
    note checks = 1(2) [unfolded Let_def if_Inl_Inr sum.inject]
    from checks have o: "ordered_prefix xs" by blast
    from checks have "\<exists>s t. pj = \<lparr>pj_state = s, pj_completed = xs, pj_stage = t\<rparr> \<and> (s = ''done'' \<longrightarrow> length xs = length stages)"
      by blast
    then obtain s t where "pj = \<lparr>pj_state = s, pj_completed = xs, pj_stage = t\<rparr>" "s = ''done'' \<longrightarrow> length xs = length stages"
      by blast
    with o assms(2) show ?case by (simp add: ordered_prefix_def)
  qed
  with d show ?thesis by simp
qed

lemma normal_states:
  assumes "normal_decision sha ps w c commit tree evidence promotion = Inr d" and "is_hex40 tree"
  shows "ld_sha d = commit \<and> ld_tree d = tree \<and> ld_state d \<noteq> Manual_closeout \<and>
    (ld_state d \<in> {Promotion_controller, Lifecycle_done} \<longleftrightarrow>
       (\<exists>p. promotion = Some p \<and> pm_commit p = commit \<and> (\<forall>e \<in> set (pm_evidence p). tree_only tree e) \<and>
         (\<forall>k \<in> {''verification'', ''review_closed''}. \<exists>e \<in> set (pm_evidence p). ev_kind e = k))) \<and>
    (ld_state d = Implementation_pending \<longleftrightarrow> promotion = None) \<and>
    (ld_state d = Lifecycle_done \<longrightarrow> (\<exists>operation. ld_operation d = Some operation \<and> controller_done sha ps operation)) \<and>
    ld_next d = (if ld_state d = Lifecycle_done then None
                 else if ld_state d = Promotion_controller then Some ''converge_change_to_done''
                 else Some ''execute_change_workflow'') \<and>
    ld_dispositions d = operation_dispositions (ld_state d)"
proof (cases promotion)
  case None
  with assms(1) show ?thesis by (auto simp: normal_decision_def Let_def)
next
  case (Some p)
  let ?rs = "map (evidence_projection [(''tree'', tree)]) (pm_evidence p)"
  show ?thesis
  proof (cases "promotion_usable commit ?rs p")
    case False
    have d: "ld_sha d = commit \<and> ld_tree d = tree \<and> ld_state d = Implementation_stale \<and>
        ld_next d = Some ''execute_change_workflow'' \<and> ld_dispositions d = operation_dispositions Implementation_stale"
      using assms(1) Some False by (auto simp: normal_decision_def Let_def)
    have "\<not> (\<exists>q. promotion = Some q \<and> pm_commit q = commit \<and> (\<forall>e \<in> set (pm_evidence q). tree_only tree e) \<and>
         (\<forall>k \<in> {''verification'', ''review_closed''}. \<exists>e \<in> set (pm_evidence q). ev_kind e = k))"
      using False Some unfolding usable_iff [OF assms(2)] by (metis option.inject)
    with d Some show ?thesis by simp
  next
    case True
    from assms(1) Some True obtain operation pj s where cs: "controller_state sha ps p = Inr (operation, pj, s)"
      and d: "ld_sha d = commit" "ld_tree d = tree" "ld_state d = s" "ld_operation d = Some operation"
        "ld_next d = (if s = Lifecycle_done then None
                      else if s = Promotion_controller then Some ''converge_change_to_done''
                      else Some ''execute_change_workflow'')"
        "ld_dispositions d = operation_dispositions s"
      by (auto simp: normal_decision_def Let_def bindE_eq_Inr)
    from cs obtain cp where cp: "load_checkpoint sha operation ps = Inr cp" "project_promotion_checkpoint cp = Inr pj"
      and s: "s = (if pj_state pj = ''done'' then Lifecycle_done else Promotion_controller)"
      by (auto simp: controller_state_def Let_def bindE_eq_Inr)
    have "controller_done sha ps operation" if "s = Lifecycle_done"
    proof -
      have "pj_state pj = ''done''" using that s by (simp split: if_splits)
      from projected_done [OF cp(2) this] cp show ?thesis by (auto simp: controller_done_def)
    qed
    moreover have "s \<in> {Promotion_controller, Lifecycle_done}" using s by (simp split: if_splits)
    ultimately show ?thesis using True [unfolded usable_iff [OF assms(2)]] Some d by auto
  qed
qed

end
