(* ===== verification/Lifecycle_Claims.thy ===== *)
theory Lifecycle_Claims
  imports Lifecycle_Facts
begin

text \<open>
  From the derivation of a handoff to the lifecycle decision: what a saved promotion reads back as, and
  why a promotion with a live candidate is always found stale.
\<close>

section \<open>A saved promotion\<close>

definition norm_promotion :: "promotion \<Rightarrow> promotion" where
  "norm_promotion p =
     p\<lparr>pm_candidate := stored_obj (pm_candidate p), pm_execution := stored_obj (pm_execution p),
       pm_evidence := map norm_evidence (pm_evidence p)\<rparr>"

lemma stored_JStr [simp]: "stored v = JStr s \<longleftrightarrow> v = JStr s"
  by (cases v) simp_all

lemma stored_text_case: "(case stored v of JStr i \<Rightarrow> P i | _ \<Rightarrow> Q) \<longleftrightarrow> (case v of JStr i \<Rightarrow> P i | _ \<Rightarrow> Q)"
  by (cases v) simp_all

lemma norm_promotion_init:
  assumes "promotion_init p = Inr p"
  shows "promotion_init (norm_promotion p) = Inr (norm_promotion p)"
proof -
  have f: "field (pm_candidate (norm_promotion p)) k = stored (field (pm_candidate p) k)"
    "field (pm_execution (norm_promotion p)) k = stored (field (pm_execution p) k)" for k
    by (simp_all only: norm_promotion_def promotion.simps promotion.select_convs field_stored_any)
      (simp_all add: field_stored_any)
  have s: "pm_schema (norm_promotion p) = pm_schema p" "pm_status (norm_promotion p) = pm_status p"
    "pm_commit (norm_promotion p) = pm_commit p" "pm_fingerprint (norm_promotion p) = pm_fingerprint p"
    "pm_pending (norm_promotion p) = pm_pending p" "pm_satisfied (norm_promotion p) = pm_satisfied p"
    "pm_work (norm_promotion p) = pm_work p" by (simp_all add: norm_promotion_def)
  from assms show ?thesis
    unfolding promotion_init_def if_Inl_Inr bindE_eq_Inr f s stored_JStr stored_text_case by simp
qed

lemma promotion_evidence_roundtrip:
  assumes "evidence_valid e"
  shows "promotion_evidence_of_json (stored_obj (evidence_fields e)) = Inr (norm_evidence e)"
proof -
  have d: "distinct (map fst (evidence_fields e))" by (simp add: evidence_fields_def)
  have m: "map_of (evidence_fields e) ''evidence_id'' = Some (JStr (ev_id e))"
    "map_of (evidence_fields e) ''kind'' = Some (JStr (ev_kind e))"
    "map_of (evidence_fields e) ''subject'' = Some (JStr (ev_subject e))"
    "map_of (evidence_fields e) ''validity_class'' = Some (JStr (class_text (ev_class e)))"
    "map_of (evidence_fields e) ''receipt_ref'' = Some (JStr (ev_receipt e))"
    "map_of (evidence_fields e) ''validity_inputs'' = Some (JObj (map (map_prod id JStr) (ev_inputs e)))"
    "map_of (evidence_fields e) ''applicable_phase'' = Some (JStr (ev_phase e))"
    by (simp_all add: evidence_fields_def)
  have "stored_obj (map (map_prod id JStr) (ev_inputs e)) = map (map_prod id JStr) (sort_key fst (ev_inputs e))"
    by (simp add: comp_def map_prod_def case_prod_unfold sort_key_map [where k = fst and f = "\<lambda>x. (fst x, JStr (snd x))"])
  then have inp: "py_dict (field_or (stored_obj (evidence_fields e)) ''validity_inputs'' v) =
      Inr (map (map_prod id JStr) (sort_key fst (ev_inputs e)))" for v
    using field_or_distinct [OF d m(6)] by (simp add: py_dict_def)
  have "evidence_reference_init (norm_evidence e) = Inr (norm_evidence e)"
    using assms by (simp add: evidence_valid_def init_norm)
  moreover have "norm_evidence e =
      \<lparr>ev_id = ev_id e, ev_kind = ev_kind e, ev_subject = ev_subject e, ev_class = ev_class e,
       ev_inputs = sort_key fst (ev_inputs e), ev_receipt = ev_receipt e, ev_phase = ev_phase e\<rparr>"
    by (simp add: norm_evidence_def)
  ultimately show ?thesis
    using m(1,2,3,4,5,7) [THEN field_or_distinct [OF d]]
    by (simp add: promotion_evidence_of_json_def inp make_evidence_def text_or_def)
qed

lemma promotion_evidence_list:
  "\<forall>e \<in> set es. evidence_valid e \<Longrightarrow>
     mapE promotion_evidence_of_json (objects_of (map (stored \<circ> (JObj \<circ> evidence_fields)) es)) = Inr (map norm_evidence es)"
  by (induction es) (simp_all add: objects_of_def is_obj_def obj_or_empty_def promotion_evidence_roundtrip)

lemma promotion_roundtrip:
  assumes "promotion_init p = Inr p" and "\<forall>e \<in> set (pm_evidence p). evidence_valid e" and "pm_satisfied p = map JStr ks"
  shows "promotion_of_json (stored_obj (promotion_fields p)) = Inr (norm_promotion p)"
proof -
  have d: "distinct (map fst (promotion_fields p))" by (simp add: promotion_fields_def)
  have pend: "pm_pending p = []" using assms(1) by (auto simp: promotion_init_def split: if_splits)
  have m: "map_of (promotion_fields p) ''evidence'' = Some (JArr (map (JObj \<circ> evidence_fields) (pm_evidence p)))"
    "map_of (promotion_fields p) ''candidate_identity'' = Some (JObj (pm_candidate p))"
    "map_of (promotion_fields p) ''execution'' = Some (JObj (pm_execution p))"
    "map_of (promotion_fields p) ''satisfied_obligations'' = Some (JArr (map JStr ks))"
    "map_of (promotion_fields p) ''pending_obligations'' = Some (JArr [])"
    "map_of (promotion_fields p) ''schema_version'' = Some (JInt (pm_schema p))"
    "map_of (promotion_fields p) ''work_id'' = Some (JStr (pm_work p))"
    "map_of (promotion_fields p) ''change_id'' = Some (JStr (pm_change p))"
    "map_of (promotion_fields p) ''contract_fingerprint'' = Some (JStr (pm_fingerprint p))"
    "map_of (promotion_fields p) ''source_commit_sha'' = Some (JStr (pm_commit p))"
    "map_of (promotion_fields p) ''status'' = Some (JStr (pm_status p))"
    using assms(3) pend by (simp_all add: promotion_fields_def)
  note f = m [THEN field_or_distinct [OF d]]
  have "norm_promotion p =
      \<lparr>pm_work = pm_work p, pm_change = pm_change p, pm_fingerprint = pm_fingerprint p, pm_commit = pm_commit p,
       pm_candidate = stored_obj (pm_candidate p), pm_execution = stored_obj (pm_execution p),
       pm_evidence = map norm_evidence (pm_evidence p), pm_satisfied = map JStr ks, pm_pending = [],
       pm_status = pm_status p, pm_schema = pm_schema p\<rparr>"
    using assms(3) pend by (simp add: norm_promotion_def)
  moreover have "mapE promotion_evidence_of_json (objects_of (map (\<lambda>x. JObj (stored_obj (evidence_fields x))) (pm_evidence p))) =
      Inr (map norm_evidence (pm_evidence p))"
    using promotion_evidence_list [OF assms(2)] by (simp add: comp_def)
  moreover note norm_promotion_init [OF assms(1)]
  ultimately show ?thesis
    by (simp add: promotion_of_json_def text_or_def f py_iter_def py_dict_def to_int_def comp_def)
qed

lemma hex_digit_plain:
  assumes "c \<in> set ''0123456789abcdef''"
  shows "fold_char c = c \<and> \<not> is_space c"
proof -
  have "\<forall>c \<in> set ''0123456789abcdef''. fold_char c = c \<and> \<not> is_space c" by code_simp
  with assms show ?thesis by (rule bspec [rotated])
qed

lemma hex40_plain:
  assumes "is_hex40 s"
  shows "casefold (py_strip s) = s"
proof -
  have plain: "fold_char c = c" "\<not> is_space c" if "c \<in> set s" for c
    using assms hex_digit_plain [of c] that unfolding is_hex40_def by blast+
  have ne: "s \<noteq> []" using assms unfolding is_hex40_def by force
  have strip: "dropWhile is_space t = t" if "t \<noteq> []" "set t \<subseteq> set s" for t
    using that plain(2) by (cases t) simp_all
  have "py_strip s = s"
    using strip [of s] strip [of "rev s"] ne by (simp add: py_strip_def strip_by_def lstrip_by_def rstrip_by_def)
  moreover have "map fold_char s = s" by (rule map_idI) (rule plain(1))
  ultimately show ?thesis by (simp add: casefold_def)
qed

lemma work_id_no_lookup: "is_work_id w \<Longrightarrow> \<not> starts_with ''@change:'' w"
  by (cases w) (auto simp: is_work_id_def starts_with_def is_alnum_def is_alpha_def is_digit_def)

lemma load_saved_promotion:
  assumes "save_promotion sha p st = (Inr q, st')" and "promotion_init p = Inr p"
    and "\<forall>e \<in> set (pm_evidence p). evidence_valid e" and "pm_satisfied p = map JStr ks"
  shows "load_promotion sha (pm_work p) st' = Inr (norm_promotion p) \<and> (\<exists>c. require_contract sha (pm_work p) st' = Inr c)"
proof -
  from assms(1) obtain c where c: "require_contract sha (pm_work p) st = Inr c" "contract_fingerprint sha c = pm_fingerprint p"
    and w: "bindS (write_file Promotions (pm_work p) (JObj (promotion_fields p))) (\<lambda>_. returnS p) st = (Inr q, st')"
    unfolding save_promotion_def by (elim bindS_read bindS_lift) (auto simp: err_simps)
  from w obtain u s1 where "write_file Promotions (pm_work p) (JObj (promotion_fields p)) st = (Inr u, s1)" "st' = s1"
    by (elim bindS_InrE) simp
  then have wid: "is_work_id (pm_work p)" and st': "st' = put Promotions (pm_work p) (JObj (promotion_fields p)) st"
    by (auto elim: write_file_cases)
  have r: "read_file Promotions (pm_work p) st' = Inr (Some (JObj (stored_obj (promotion_fields p))))"
    unfolding st' read_file_put using wid by simp
  have c': "require_contract sha (pm_work p) st' = Inr c"
    using c(1) unfolding st' by (simp add: require_contract_def load_contract_put)
  have n: "pm_work (norm_promotion p) = pm_work p" "pm_fingerprint (norm_promotion p) = pm_fingerprint p"
    by (simp_all add: norm_promotion_def)
  have "load_promotion_exact sha (pm_work p) st' = Inr (norm_promotion p)"
    unfolding load_promotion_exact_def r bindE_Inr option.case json.case promotion_roundtrip [OF assms(2-4)] c'
    by (simp add: n c(2))
  then show ?thesis using work_id_no_lookup [OF wid] c' by (simp add: load_promotion_def)
qed

section \<open>The handoff of a live candidate\<close>

lemma live_reference:
  assumes "check_candidate sha c commit evidence candidate = Inr ()"
  obtains e where "e \<in> set evidence" "map_of (ev_inputs e) ''source_commit'' = Some commit"
proof -
  from assms obtain e where f: "find (\<lambda>e. ev_kind e = ''live_candidate_verification'') evidence = Some e"
    and m: "map_of (ev_inputs e) ''source_commit'' = Some commit"
    unfolding check_candidate_def by (elim bindE_InrE) (auto simp: raise_if_eq_Inr split: json.splits option.splits if_splits)
  from f have "e \<in> set evidence" by (auto simp: find_Some_iff)
  with m that show ?thesis by blast
qed

lemma norm_inputs: "set (ev_inputs (norm_evidence e)) = set (ev_inputs e)"
  by (simp add: norm_evidence_def)

text \<open>C32: the handoff of a live candidate is never accepted: when a handoff is derived for an MCP surface or a
  live-candidate obligation and saved, every later decision for its work, whatever the source commit and tree, finds
  the implementation evidence stale and asks for the implementation to be executed again; the reference of the live
  candidate has to declare the source commit, and the decision observes the tree only.\<close>

theorem live_promotion_always_stale:
  assumes "derive_promotion_ready sha c commit execution evidence observed candidate change = Inr p"
    and "(\<exists>s \<in> set (hc_surfaces c). casefold s = ''mcp'') \<or> Live_candidate_verification \<in> set (hc_obligations c)"
    and "\<forall>e \<in> set evidence. evidence_valid e" and "save_promotion sha p st = (Inr q, st')"
    and "load_evidence (hc_work c) st' = Inr retained" and "load_manual_exit (hc_work c) st' = Inr None"
    and "is_hex40 source_commit" and "is_hex40 source_tree"
  shows "\<exists>d. decide sha st' ps (hc_work c) source_commit source_tree = Inr d \<and> ld_state d = Implementation_stale \<and>
    ld_next d = Some ''execute_change_workflow'' \<and> ld_stale d \<noteq> []"
proof -
  note dv = derive_Inr [OF assms(1)]
  have kind: "''live_candidate_verification'' \<in> set (required_kinds c)"
    using assms(2) by (force simp: required_kinds_def mandatory_kinds_def)
  with dv obtain e where e: "e \<in> set evidence" "map_of (ev_inputs e) ''source_commit'' = Some commit"
    by (blast elim: live_reference)
  have w: "pm_work p = hc_work c" and ev: "pm_evidence p = evidence" using dv by blast+
  obtain c' where load: "load_promotion sha (hc_work c) st' = Inr (norm_promotion p)"
    and c': "require_contract sha (hc_work c) st' = Inr c'"
    using load_saved_promotion [OF assms(4), of "required_kinds c"] dv assms(3) unfolding w ev by auto
  have mem: "norm_evidence e \<in> set (pm_evidence (norm_promotion p))" using e(1) ev by (simp add: norm_promotion_def)
  have not: "\<not> tree_only source_tree (norm_evidence e)"
    using map_of_SomeD [OF e(2)] unfolding tree_only_def norm_inputs by (auto dest: bspec)
  let ?rs = "map (evidence_projection [(''tree'', source_tree)]) (pm_evidence (norm_promotion p))"
  have stale: "stale_of ?rs \<noteq> []" unfolding stale_empty [OF assms(8)] using mem not by blast
  then have unusable: "\<not> promotion_usable source_commit ?rs (norm_promotion p)" by (simp add: promotion_usable_def)
  have sha: "validate_sha v = Inr v" if "is_hex40 v" for v
    using that hex40_plain [OF that] by (simp add: validate_sha_def Let_def)
  show ?thesis
    using unusable stale
    by (simp add: decide_def sha [OF assms(7)] sha [OF assms(8)] c' assms(5,6) load optional_promotion_def normal_decision_def Let_def)
qed

section \<open>Concrete decisions\<close>

definition ready_store :: store where
  "ready_store = put Contracts ''W1'' (JObj (contract_fields ready_sha ready_contract)) \<lparr>st_ledger = None, st_files = []\<rparr>"

definition with_promotion :: "promotion \<Rightarrow> store" where
  "with_promotion p = put Promotions ''W1'' (JObj (promotion_fields p)) ready_store"

definition no_checkpoints :: "unit promotion_state" where
  "no_checkpoints = \<lparr>ps_files = [], ps_world = ()\<rparr>"

definition tree_promotion :: promotion where
  "tree_promotion = ready_promotion\<lparr>pm_evidence := take 2 ready_evidence, pm_satisfied := map JStr [''verification'', ''review_closed'']\<rparr>"

lemma ready_work [simp]: "is_work_id ''W1''"
  by code_simp

lemma ready_loads: "require_contract ready_sha ''W1'' ready_store = Inr ready_contract"
proof -
  have "contract_valid ready_contract" by code_simp
  then show ?thesis
    by (simp add: require_contract_def ready_store_def load_contract_put contract_roundtrip)
qed

lemma ready_fingerprint [simp]: "contract_fingerprint ready_sha c = ready_sha []"
  by (simp add: contract_fingerprint_def fingerprint_def ready_sha_def)

lemma ready_saves:
  assumes "pm_work p = ''W1''" and "pm_fingerprint p = ready_sha []"
  shows "save_promotion ready_sha p ready_store = (Inr p, with_promotion p)"
  by (simp add: save_promotion_def bindS_def assms ready_loads write_file_def with_promotion_def put_def)

lemma ready_reads:
  "load_manual_exit ''W1'' (with_promotion p) = Inr None" "load_evidence ''W1'' (with_promotion p) = Inr []"
proof -
  have "read_file a ''W1'' \<lparr>st_ledger = None, st_files = []\<rparr> = Inr None" for a
    by (simp add: read_file_def decode_def)
  then have "read_file a ''W1'' (with_promotion p) = Inr None" if "a \<in> {Manual_exits, Evidence}" for a
    unfolding with_promotion_def ready_store_def read_file_put using that by auto
  then show "load_manual_exit ''W1'' (with_promotion p) = Inr None" "load_evidence ''W1'' (with_promotion p) = Inr []"
    by (simp_all add: load_manual_exit_def load_evidence_def)
qed

lemma ready_evidence_valid: "\<forall>e \<in> set ready_evidence. evidence_valid e"
  by code_simp

lemma ready_hex: "is_hex40 ready_commit" "is_hex40 ready_tree"
  by code_simp+

lemma tree_promotion_decided:
  "\<exists>d. decide ready_sha (with_promotion tree_promotion) no_checkpoints ''W1'' ready_commit ready_tree = Inr d \<and>
     ld_state d = Promotion_controller \<and> ld_next d = Some ''converge_change_to_done''"
proof -
  let ?p = "norm_promotion tree_promotion"
  have init: "promotion_init tree_promotion = Inr tree_promotion" by code_simp
  have w: "pm_work tree_promotion = ''W1''" "pm_fingerprint tree_promotion = ready_sha []"
    by (simp_all add: tree_promotion_def ready_promotion_def)
  have valid: "\<forall>e \<in> set (pm_evidence tree_promotion). evidence_valid e"
    using ready_evidence_valid by (auto simp: tree_promotion_def dest: in_set_takeD)
  have "pm_satisfied tree_promotion = map JStr [''verification'', ''review_closed'']" by (simp add: tree_promotion_def)
  from load_saved_promotion [OF ready_saves [OF w] init valid this] w(1)
  obtain c where load: "load_promotion ready_sha ''W1'' (with_promotion tree_promotion) = Inr ?p"
    and c: "require_contract ready_sha ''W1'' (with_promotion tree_promotion) = Inr c" by auto
  have sha: "validate_sha v = Inr v" if "is_hex40 v" for v
    using that hex40_plain [OF that] by (simp add: validate_sha_def Let_def)
  have "\<forall>e \<in> set (take 2 ready_evidence). tree_only ready_tree (norm_evidence e)" by code_simp
  moreover have "\<forall>k \<in> {''verification'', ''review_closed''}. \<exists>e \<in> set (take 2 ready_evidence). ev_kind (norm_evidence e) = k"
    by code_simp
  ultimately have usable: "promotion_usable ready_commit (map (evidence_projection [(''tree'', ready_tree)]) (pm_evidence ?p)) ?p"
    unfolding usable_iff [OF ready_hex(2)] by (simp add: norm_promotion_def tree_promotion_def ready_promotion_def)
  have "controller_state ready_sha no_checkpoints ?p =
      Inr (promotion_operation_id ready_sha (promotion_fields ?p),
        \<lparr>pj_state = ''ready'', pj_completed = [], pj_stage = JStr (hd stages)\<rparr>, Promotion_controller)"
    by (simp add: controller_state_def Let_def load_checkpoint_def no_checkpoints_def decode_def project_promotion_checkpoint_def)
  with usable show ?thesis
    by (simp add: decide_def sha ready_hex c ready_reads load optional_promotion_def normal_decision_def Let_def)
qed

lemma live_promotion_always_stale_witness:
  "\<exists>d. decide ready_sha (with_promotion ready_promotion) no_checkpoints ''W1'' ready_commit ready_tree = Inr d \<and>
     ld_state d = Implementation_stale"
proof -
  have w: "pm_work ready_promotion = ''W1''" "pm_fingerprint ready_promotion = ready_sha []" "hc_work ready_contract = ''W1''"
    by (simp_all add: ready_promotion_def ready_contract_def)
  have live: "(\<exists>s \<in> set (hc_surfaces ready_contract). casefold s = ''mcp'') \<or>
      Live_candidate_verification \<in> set (hc_obligations ready_contract)" by code_simp
  from live_promotion_always_stale [OF ready_derived live ready_evidence_valid ready_saves [OF w(1,2)] _ _ ready_hex,
      of "[]" no_checkpoints, unfolded w(3)]
  show ?thesis using ready_reads by blast
qed

text \<open>C31: the lifecycle decision: a recorded manual exit closes the once-through path; otherwise a promotion may go on
  exactly when a stored promotion has the current commit, all its evidence declares nothing but the current tree,
  and verification and closed review are among it; done means that the checkpoint has all ten stages; the next action
  follows from the state, and is the one operation marked as required.\<close>

theorem lifecycle_decides:
  assumes "decide sha st ps w source_commit source_tree = Inr d"
  shows "(ld_state d = Manual_closeout \<longleftrightarrow> load_manual_exit w st \<noteq> Inr None) \<and>
    (ld_state d \<in> {Promotion_controller, Lifecycle_done} \<longleftrightarrow>
       load_manual_exit w st = Inr None \<and> may_promote sha st w (ld_sha d) (ld_tree d)) \<and>
    (ld_state d = Lifecycle_done \<longrightarrow> (\<exists>operation. ld_operation d = Some operation \<and> controller_done sha ps operation)) \<and>
    (\<forall>operation. ld_next d = Some operation \<longleftrightarrow> (\<exists>why. (operation, Required, why) \<in> set (ld_dispositions d)))"
proof -
  from assms obtain commit tree c evidence exit where t: "is_hex40 tree" and x: "load_manual_exit w st = Inr exit"
    and r: "case exit of Some x \<Rightarrow> d = exit_decision w c commit tree evidence x
     | None \<Rightarrow> \<exists>promotion. optional_promotion (load_promotion sha w st) = Inr promotion \<and>
                 normal_decision sha ps w c commit tree evidence promotion = Inr d" by (rule decide_Inr)
  show ?thesis
  proof (cases exit)
    case (Some y)
    with r x show ?thesis by (auto simp: exit_decision_def Let_def exit_dispositions_def)
  next
    case None
    with r obtain promotion where o: "optional_promotion (load_promotion sha w st) = Inr promotion"
      and n: "normal_decision sha ps w c commit tree evidence promotion = Inr d" by auto
    note ns = normal_states [OF n t]
    have mp: "may_promote sha st w commit tree \<longleftrightarrow>
       (\<exists>p. promotion = Some p \<and> pm_commit p = commit \<and> (\<forall>e \<in> set (pm_evidence p). tree_only tree e) \<and>
         (\<forall>k \<in> {''verification'', ''review_closed''}. \<exists>e \<in> set (pm_evidence p). ev_kind e = k))"
      using optional_promotion_Inr [OF o] by (cases promotion) (simp_all add: may_promote_def)
    have "\<forall>operation. ld_next d = Some operation \<longleftrightarrow> (\<exists>why. (operation, Required, why) \<in> set (ld_dispositions d))"
      using ns by (cases "ld_state d") (auto simp: operation_dispositions_def)
    with ns mp None x show ?thesis by simp
  qed
qed

lemma lifecycle_decides_witness:
  "\<exists>d. decide ready_sha (with_promotion tree_promotion) no_checkpoints ''W1'' ready_commit ready_tree = Inr d \<and>
     (\<exists>why. (''converge_change_to_done'', Required, why) \<in> set (ld_dispositions d)) \<and>
     may_promote ready_sha (with_promotion tree_promotion) ''W1'' (ld_sha d) (ld_tree d)"
proof -
  from tree_promotion_decided obtain d where
    d: "decide ready_sha (with_promotion tree_promotion) no_checkpoints ''W1'' ready_commit ready_tree = Inr d"
    and s: "ld_state d = Promotion_controller" and n: "ld_next d = Some ''converge_change_to_done''" by blast
  note l = lifecycle_decides [OF d]
  from l s have "may_promote ready_sha (with_promotion tree_promotion) ''W1'' (ld_sha d) (ld_tree d)" by blast
  moreover from l n have "\<exists>why. (''converge_change_to_done'', Required, why) \<in> set (ld_dispositions d)" by blast
  ultimately show ?thesis using d by blast
qed

end
