(* ===== verification/Promotion_Stages.thy ===== *)
theory Promotion_Stages
  imports Promotion_Controller
begin

text \<open>
  The stages of a promotion (\<open>workflows/once_through/promotion.py\<close>): each one reads the observations of
  the earlier stages, calls provider operations and returns its own observation.  The provider
  (\<open>execute_external_action\<close> and the other tools), the clean-up, \<open>git merge-base\<close>, the settings file and
  the class name of an exception are parameters; the state \<open>'s\<close> is whatever they read and change.
\<close>

section \<open>Reading JSON\<close>

definition required_mapping :: "json \<Rightarrow> obj result" where
  "required_mapping v = (case v of JObj d \<Rightarrow> Inr d | _ \<Rightarrow> Inl TypeError)"

definition required_text :: "json \<Rightarrow> string result" where
  "required_text v = (case v of JStr s \<Rightarrow> if blank s then Inl ValueError else Inr (py_strip s) | _ \<Rightarrow> Inl ValueError)"

definition required_int :: "json \<Rightarrow> int result" where
  "required_int v = (case v of JInt n \<Rightarrow> if n \<le> 0 then Inl ValueError else Inr n | _ \<Rightarrow> Inl ValueError)"

text \<open>\<open>{**d, **e}\<close>, where an association list stands for the dictionary of its first entries.\<close>

definition spread :: "obj \<Rightarrow> obj \<Rightarrow> obj" where
  "spread d e = dict_update d (AList.clearjunk e)"

definition outcome :: "string \<Rightarrow> obj \<Rightarrow> obj \<Rightarrow> obj" where
  "outcome status result more_fields = spread (spread [(''status'', JStr status)] result) more_fields"

definition blocked :: "string \<Rightarrow> obj \<Rightarrow> obj" where
  "blocked why result = spread [(''status'', JStr ''blocked''), (''reason'', JStr why)] result"

text \<open>\<open>v in {\<dots>}\<close> for a set of strings: a list or a dictionary is not hashable.\<close>

definition in_texts :: "json \<Rightarrow> string list \<Rightarrow> bool result" where
  "in_texts v ts = (if \<not> hashable v then Inl TypeError else Inr (v \<in> JStr ` set ts))"

section \<open>The service\<close>

record 's stage_service =
  ss_call :: "string \<Rightarrow> obj \<Rightarrow> ('s, obj) op"
  ss_cleanup :: "(string \<Rightarrow> string option \<Rightarrow> ('s, obj) op) option"
  ss_ancestor :: "string \<Rightarrow> string \<Rightarrow> ('s, int) op"
  ss_settings :: "'s \<Rightarrow> stored_file option"
  ss_error_name :: "exn \<Rightarrow> string"
  ss_contract :: contract
  ss_scope :: obj
  ss_record :: obj
  ss_owner :: string
  ss_repo :: string
  ss_change :: string
  ss_branch :: string
  ss_base :: string

text \<open>\<open>repository.split("/", 1)\<close>\<close>

definition split_repository :: "string \<Rightarrow> (string \<times> string) result" where
  "split_repository r =
     (let (a, found, b) = partition_on (CHR ''/'') r in
      if found \<and> a \<noteq> [] \<and> b \<noteq> [] then Inr (a, b) else Inl ValueError)"

definition record_prefixes :: "(string \<times> string) list" where
  "record_prefixes =
     [(''idea'', ''IDEA''), (''task'', ''TASK''), (''specification_slice'', ''SPEC''), (''review_run'', ''REV''),
      (''finding'', ''FIND''), (''decision'', ''DEC''), (''assumption'', ''ASM''), (''risk'', ''RISK''),
      (''approval'', ''APP''), (''hold'', ''HOLD''), (''research'', ''RES''), (''defect'', ''BUG''),
      (''security_finding'', ''SEC'')]"

definition require_equal :: "json \<Rightarrow> string \<Rightarrow> unit result" where
  "require_equal v expected = bindE (required_text v) (\<lambda>t. raise_if (t \<noteq> expected) ValueError)"

definition validate_identity_binding :: "contract \<Rightarrow> obj \<Rightarrow> obj \<Rightarrow> string \<Rightarrow> unit result" where
  "validate_identity_binding c sc rec change =
     bindE (required_mapping (field sc ''work_management'')) (\<lambda>work.
     bindE (require_equal (field work ''record_id'') (hc_work c)) (\<lambda>_.
     bindE (require_equal (field work ''project_id'') (hc_project c)) (\<lambda>_.
     bindE (require_equal (field work ''source_repository'') (hc_repository c)) (\<lambda>_.
     bindE (require_equal (field sc ''change_id'') change) (\<lambda>_.
     bindE (require_equal (field rec ''project_id'') (hc_project c)) (\<lambda>_.
     bindE (required_int (field work ''source_number'')) (\<lambda>n.
     bindE (raise_if (hc_work c \<noteq> ''WORK-'' @ json_int n) ValueError) (\<lambda>_.
     bindE (required_text (field rec ''record_type'')) (\<lambda>ty.
       (case map_of record_prefixes ty of
          None \<Rightarrow> Inl ValueError
        | Some p \<Rightarrow> require_equal (field rec ''record_id'') (p @ CHR ''-'' # json_int n)))))))))))"

definition make_service ::
  "(string \<Rightarrow> obj \<Rightarrow> ('s, obj) op) \<Rightarrow> (string \<Rightarrow> string option \<Rightarrow> ('s, obj) op) option \<Rightarrow>
   (string \<Rightarrow> string \<Rightarrow> ('s, int) op) \<Rightarrow> ('s \<Rightarrow> stored_file option) \<Rightarrow> (exn \<Rightarrow> string) \<Rightarrow>
   contract \<Rightarrow> obj \<Rightarrow> obj \<Rightarrow> bool \<Rightarrow> string option \<Rightarrow> 's stage_service result" where
  "make_service call cleanup ancestor settings error_name c sc rec approved change_id =
     bindE (raise_if (\<not> approved) ValueError) (\<lambda>_.
     bindE (split_repository (hc_repository c)) (\<lambda>(owner, repo).
     bindE (required_text (str_option (case change_id of Some s \<Rightarrow> if s \<noteq> [] then Some s else hc_change c | None \<Rightarrow> hc_change c)))
       (\<lambda>change.
     bindE (required_text (field sc ''base'')) (\<lambda>base.
     bindE (validate_identity_binding c sc rec change) (\<lambda>_.
       Inr \<lparr>ss_call = call, ss_cleanup = cleanup, ss_ancestor = ancestor, ss_settings = settings,
            ss_error_name = error_name, ss_contract = c, ss_scope = sc, ss_record = rec,
            ss_owner = owner, ss_repo = repo, ss_change = change, ss_branch = ''change/'' @ change,
            ss_base = base\<rparr>)))))"

definition verification_workflow :: "'s stage_service \<Rightarrow> 's \<Rightarrow> string result" where
  "verification_workflow ss st =
     bindE (decode (ss_settings ss st)) (\<lambda>v.
       (case v of
          None \<Rightarrow> Inl OSError
        | Some (JObj d) \<Rightarrow> required_text (field d ''verification_workflow'')
        | Some _ \<Rightarrow> Inl ValueError))"

text \<open>\<open>Path(path).name\<close> for a POSIX path: the last component that is neither empty nor a dot.\<close>

definition path_file_name :: "string \<Rightarrow> string" where
  "path_file_name p =
     (case rev (filter (\<lambda>q. q \<noteq> [] \<and> q \<noteq> ''.'') (split_on (CHR ''/'') p)) of [] \<Rightarrow> [] | q # _ \<Rightarrow> q)"

definition workflow_matches :: "obj \<Rightarrow> string \<Rightarrow> bool" where
  "workflow_matches run workflow =
     (case field run ''path'' of JStr p \<Rightarrow> casefold (path_file_name p) = casefold workflow | _ \<Rightarrow> False)"

definition external :: "'s stage_service \<Rightarrow> string \<Rightarrow> obj \<Rightarrow> ('s, obj) op" where
  "external ss operation arguments =
     ss_call ss ''execute_external_action'' [(''operation'', JStr operation), (''arguments'', JObj arguments)]"

definition owner_repo :: "'s stage_service \<Rightarrow> obj" where
  "owner_repo ss = [(''owner'', JStr (ss_owner ss)), (''repo'', JStr (ss_repo ss))]"

definition project_id :: "'s stage_service \<Rightarrow> string \<times> json" where
  "project_id ss = (''project_id'', JStr (hc_project (ss_contract ss)))"

text \<open>The observation of an earlier stage.\<close>

definition observed :: "obj \<Rightarrow> string \<Rightarrow> obj result" where
  "observed obs stage = required_mapping (field obs stage)"

section \<open>From the default branch to the pull request\<close>

definition default_sha :: "'s stage_service \<Rightarrow> ('s, string) op" where
  "default_sha ss =
     bindS (ss_call ss ''github_get_commit'' (owner_repo ss @ [(''sha'', JStr (ss_base ss)), (''detail'', JStr ''none'')]))
       (\<lambda>current. liftE (required_text (field current ''sha'')))"

definition refresh_registered :: "'s stage_service \<Rightarrow> string \<Rightarrow> ('s, obj) op" where
  "refresh_registered ss expected =
     external ss ''kis_github_refresh_registered_default_branch''
       [project_id ss, (''expected_remote_default'', JStr expected), (''approved'', JBool True)]"

definition refresh_default :: "'s stage_service \<Rightarrow> obj \<Rightarrow> obj \<Rightarrow> ('s, obj) op" where
  "refresh_default ss handoff obs =
     bindS (default_sha ss) (\<lambda>expected.
     bindS (refresh_registered ss expected) (\<lambda>result.
       returnS (outcome ''applied'' result
         [(''github_default_sha'', field_or result ''github_default_sha'' (JStr expected))])))"

definition base_sha :: "'s stage_service \<Rightarrow> string result" where
  "base_sha ss =
     bindE (required_mapping (field (ss_scope ss) ''base_evidence'')) (\<lambda>e.
       required_text (py_or (field e ''local_sha'') (field e ''upstream_sha'')))"

definition source_commit :: "obj \<Rightarrow> string result" where
  "source_commit handoff = required_text (field handoff ''source_commit_sha'')"

definition reconcile_candidate :: "'s stage_service \<Rightarrow> obj \<Rightarrow> obj \<Rightarrow> ('s, obj) op" where
  "reconcile_candidate ss handoff obs =
     bindS (liftE (observed obs ''refresh_default'')) (\<lambda>refresh.
     bindS (liftE (required_text (field refresh ''github_default_sha''))) (\<lambda>expected.
     bindS (liftE (source_commit handoff)) (\<lambda>commit.
     bindS (liftE (base_sha ss)) (\<lambda>base.
     bindS (external ss ''kis_github_reconcile_registered_commit''
              [project_id ss, (''commit'', JStr commit), (''source_base'', JStr base), (''branch'', JStr (ss_branch ss)),
               (''expected_remote_default'', JStr expected), (''expected_remote_branch'', JNull), (''approved'', JBool True)])
       (\<lambda>result.
     bindS (liftE (required_text (field result ''commit_sha''))) (\<lambda>published.
       returnS (outcome ''applied'' result [(''commit_sha'', JStr published), (''branch'', JStr (ss_branch ss))])))))))"

definition source_number :: "'s stage_service \<Rightarrow> int result" where
  "source_number ss =
     bindE (required_mapping (field (ss_scope ss) ''work_management'')) (\<lambda>work.
       required_int (field work ''source_number''))"

definition newline :: string where
  "newline = [CHR 0x0A]"

definition pull_request_body :: "'s stage_service \<Rightarrow> string \<Rightarrow> obj \<Rightarrow> string result" where
  "pull_request_body ss title handoff =
     bindE (required_text (JStr title)) (\<lambda>t.
     bindE (source_commit handoff) (\<lambda>commit.
       Inr (''## Outcome'' @ newline @ t @ newline @ newline @
            ''## Work'' @ newline @ ''- Work ID: `'' @ hc_work (ss_contract ss) @ ''`'' @ newline @
            ''- Change ID: `'' @ ss_change ss @ ''`'' @ newline @
            ''- PromotionReady source: `'' @ commit @ ''`'' @ newline @ newline @
            ''Implementation verification and substantive KIS review are already closed in PromotionReady.'')))"

definition create_pull_request :: "'s stage_service \<Rightarrow> obj \<Rightarrow> obj \<Rightarrow> ('s, obj) op" where
  "create_pull_request ss handoff obs =
     bindS (liftE (observed obs ''refresh_default'')) (\<lambda>refresh.
     bindS (liftE (observed obs ''reconcile_candidate'')) (\<lambda>published.
     bindS (liftE (required_text (field published ''commit_sha''))) (\<lambda>expected.
     bindS (liftE (required_text (field (ss_record ss) ''title''))) (\<lambda>title.
     bindS (liftE (required_text (field refresh ''github_default_sha''))) (\<lambda>default_branch.
     bindS (liftE (pull_request_body ss title handoff)) (\<lambda>body.
     bindS (external ss ''kis_github_create_registered_pull_request''
              [project_id ss, (''branch'', JStr (ss_branch ss)), (''expected_head'', JStr expected),
               (''expected_remote_default'', JStr default_branch), (''title'', JStr title), (''body'', JStr body),
               (''approved'', JBool True)]) (\<lambda>result.
     bindS (liftE (required_int (field result ''pull_number''))) (\<lambda>pull.
     bindS (liftE (required_text (py_or (field result ''head_sha'') (JStr expected)))) (\<lambda>head.
     bindS (liftE (raise_if (head \<noteq> expected) ValueError)) (\<lambda>_.
       returnS (outcome ''applied'' result [(''pull_number'', JInt pull), (''head_sha'', JStr head)])))))))))))"

section \<open>The workflow run of the exact head\<close>

text \<open>
  \<open>_action_result\<close>: \<open>None\<close> for a run of another event or pull request.  The numbers form a set, so each
  of them must be hashable; \<open>int_like\<close> is equality of numbers, which a truth value passes.
\<close>

definition pull_numbers :: "json list \<Rightarrow> json list result" where
  "pull_numbers prs =
     (let numbers = map (\<lambda>d. field d ''number'') (objects_of prs) in
      if \<exists>v \<in> set numbers. \<not> hashable v then Inl TypeError else Inr numbers)"

definition action_fields :: "int \<Rightarrow> int \<Rightarrow> string \<Rightarrow> string \<Rightarrow> obj" where
  "action_fields run pull head workflow =
     [(''pull_number'', JInt pull), (''head_sha'', JStr head), (''workflow'', JStr workflow), (''run_ids'', JArr [JInt run])]"

definition action_result :: "obj \<Rightarrow> int \<Rightarrow> int \<Rightarrow> string \<Rightarrow> string \<Rightarrow> obj option result" where
  "action_result detail run pull head workflow =
     (if field detail ''head_sha'' \<noteq> JStr head then Inl ValueError
      else if field detail ''event'' \<noteq> JStr ''pull_request'' then Inr None
      else (case field detail ''pull_requests'' of
              JArr prs \<Rightarrow>
                if prs = [] then Inr None
                else bindE (pull_numbers prs) (\<lambda>numbers.
                  if Some pull \<notin> int_like ` set numbers then Inr None
                  else Inr (Some (
                    if field detail ''status'' \<noteq> JStr ''completed''
                      then blocked ''github_actions_pending'' (action_fields run pull head workflow)
                    else if field detail ''conclusion'' \<noteq> JStr ''success''
                      then blocked ''github_actions_failed'' (action_fields run pull head workflow)
                    else [(''status'', JStr ''passed''), (''reference'', JStr (''github-actions:'' @ json_int run))] @
                         action_fields run pull head workflow)))
            | _ \<Rightarrow> Inr None))"

definition run_detail :: "'s stage_service \<Rightarrow> int \<Rightarrow> ('s, obj) op" where
  "run_detail ss run =
     ss_call ss ''github_actions_get''
       ((''method'', JStr ''get_workflow_run'') # owner_repo ss @ [(''resource_id'', JStr (json_int run))])"

text \<open>The run recorded by an earlier call, if it was for this pull request and head.\<close>

definition previous_run :: "obj \<Rightarrow> int \<Rightarrow> string \<Rightarrow> json option" where
  "previous_run obs pull head =
     (case field obs ''exact_head_actions'' of
        JObj p \<Rightarrow>
          if int_like (field p ''pull_number'') = Some pull \<and> field p ''head_sha'' = JStr head
          then (case field p ''run_ids'' of JArr [r] \<Rightarrow> Some r | _ \<Rightarrow> None) else None
      | _ \<Rightarrow> None)"

definition recheck_run :: "'s stage_service \<Rightarrow> json \<Rightarrow> int \<Rightarrow> string \<Rightarrow> string \<Rightarrow> ('s, obj) op" where
  "recheck_run ss persisted pull head workflow =
     bindS (liftE (required_int persisted)) (\<lambda>run.
     bindS (run_detail ss run) (\<lambda>detail.
     bindS (liftE (action_result detail run pull head workflow)) (\<lambda>r.
       (case r of None \<Rightarrow> failS ValueError | Some d \<Rightarrow> returnS d))))"

text \<open>\<open>sorted(\<dots>, key=\<dots>, reverse=True)\<close> keeps the order of equal keys.\<close>

definition exact_runs :: "json \<Rightarrow> string \<Rightarrow> string \<Rightarrow> int list result" where
  "exact_runs raw head workflow =
     (let runs = filter (\<lambda>d. field d ''head_sha'' = JStr head \<and> workflow_matches d workflow)
                   (case raw of JArr xs \<Rightarrow> objects_of xs | _ \<Rightarrow> [])
      in bindE (mapE (\<lambda>d. required_int (field d ''id'')) runs) (\<lambda>ids. Inr (sort_key uminus ids)))"

fun scan_runs :: "'s stage_service \<Rightarrow> int \<Rightarrow> string \<Rightarrow> string \<Rightarrow> int list \<Rightarrow> ('s, (int \<times> obj) option) op" where
  "scan_runs ss pull head workflow [] = returnS None"
| "scan_runs ss pull head workflow (run # runs) =
     bindS (run_detail ss run) (\<lambda>detail.
     bindS (liftE (action_result detail run pull head workflow)) (\<lambda>r.
       (case r of None \<Rightarrow> scan_runs ss pull head workflow runs | Some _ \<Rightarrow> returnS (Some (run, detail)))))"

definition selected_run :: "int option \<Rightarrow> bool \<Rightarrow> obj \<Rightarrow> int \<Rightarrow> string \<Rightarrow> string \<Rightarrow> obj" where
  "selected_run selected none detail pull head workflow =
     (case selected of
        None \<Rightarrow>
          blocked (if none then ''github_actions_required_workflow_missing'' else ''github_actions_pull_request_run_missing'')
            [(''pull_number'', JInt pull), (''head_sha'', JStr head), (''workflow'', JStr workflow)]
      | Some run \<Rightarrow>
          if field detail ''status'' \<noteq> JStr ''completed''
            then blocked ''github_actions_pending'' (action_fields run pull head workflow)
          else if field detail ''conclusion'' \<noteq> JStr ''success''
            then blocked ''github_actions_failed'' (action_fields run pull head workflow)
          else [(''status'', JStr ''passed''), (''pull_number'', JInt pull), (''head_sha'', JStr head),
                (''workflow'', JStr workflow), (''reference'', JStr (''github-actions:'' @ json_int run)),
                (''run_ids'', JArr [JInt run])])"

definition list_runs :: "'s stage_service \<Rightarrow> string \<Rightarrow> ('s, obj) op" where
  "list_runs ss workflow =
     ss_call ss ''github_actions_list''
       ((''method'', JStr ''list_workflow_runs'') # owner_repo ss @
        [(''resource_id'', JStr workflow), (''per_page'', JInt 100), (''page'', JInt 1),
         (''workflow_runs_filter'', JObj [(''branch'', JStr (ss_branch ss))])])"

definition exact_head_actions :: "'s stage_service \<Rightarrow> obj \<Rightarrow> obj \<Rightarrow> ('s, obj) op" where
  "exact_head_actions ss handoff obs =
     bindS (liftE (observed obs ''create_pull_request'')) (\<lambda>created.
     bindS (liftE (required_int (field created ''pull_number''))) (\<lambda>pull.
     bindS (liftE (required_text (field created ''head_sha''))) (\<lambda>head.
     bindS (readE (verification_workflow ss)) (\<lambda>workflow.
       (case previous_run obs pull head of
          Some persisted \<Rightarrow> recheck_run ss persisted pull head workflow
        | None \<Rightarrow>
            bindS (list_runs ss workflow) (\<lambda>listed.
            bindS (liftE (exact_runs (field listed ''workflow_runs'') head workflow)) (\<lambda>runs.
            bindS (scan_runs ss pull head workflow runs) (\<lambda>found.
              returnS (selected_run (map_option fst found) (runs = [])
                (case found of None \<Rightarrow> [] | Some (_, d) \<Rightarrow> d) pull head workflow)))))))))"

section \<open>Readiness and merge\<close>

definition merge_commit_of :: "obj \<Rightarrow> json" where
  "merge_commit_of d = py_or (field d ''merge_commit_sha'') (field d ''merge_commit'')"

definition trace_merges :: "obj \<Rightarrow> bool \<Rightarrow> int \<Rightarrow> string \<Rightarrow> json result" where
  "trace_merges obs merged pull head =
     (if \<not> merged then Inr (JArr [])
      else bindE (observed obs ''merge_exact_head'') (\<lambda>merge.
        bindE (required_text (merge_commit_of merge)) (\<lambda>sha.
          Inr (JArr [JObj [(''pull_request_number'', JInt pull), (''merge_commit'', JStr sha), (''head_revision'', JStr head)]]))))"

definition trace :: "'s stage_service \<Rightarrow> obj \<Rightarrow> bool \<Rightarrow> obj result" where
  "trace ss obs merged =
     bindE (observed obs ''create_pull_request'') (\<lambda>created.
     bindE (observed obs ''exact_head_actions'') (\<lambda>actions.
     bindE (required_int (field created ''pull_number'')) (\<lambda>pull.
     bindE (required_text (field created ''head_sha'')) (\<lambda>head.
     bindE (required_text (field (ss_record ss) ''record_id'')) (\<lambda>rec.
     bindE (required_text (field (ss_scope ss) ''worktree'')) (\<lambda>worktree.
     bindE (trace_merges obs merged pull head) (\<lambda>merges.
       Inr [(''schema_version'', JInt 1), project_id ss, (''implementation_record_id'', JStr rec),
            (''specification_record_id'',
               if field (ss_record ss) ''record_type'' = JStr ''specification_slice'' then JStr rec else JNull),
            (''change_id'', JStr (ss_change ss)), (''branch'', JStr (ss_branch ss)), (''worktree'', JStr worktree),
            (''pull_requests'', JArr [JObj
               [(''repository'', JStr (hc_repository (ss_contract ss))), (''number'', JInt pull),
                (''head_branch'', JStr (ss_branch ss)), (''head_revision'', JStr head),
                (''base_branch'', JStr (ss_base ss)), (''state'', JStr (if merged then ''merged'' else ''open''))]]),
            (''verifications'', JArr [JObj
               [(''evidence_id'', JStr (''github-actions-pr-'' @ json_int pull)), (''pull_request_number'', JInt pull),
                (''revision'', JStr head), (''status'', JStr ''passed''), (''command'', JStr ''provider-native GitHub Actions''),
                (''source'', JStr ''github_actions''), (''reference'', field actions ''reference'')]]),
            (''merges'', merges), (''documentation_events'', JArr [])])))))))"

definition merge_readiness :: "'s stage_service \<Rightarrow> obj \<Rightarrow> obj \<Rightarrow> ('s, obj) op" where
  "merge_readiness ss handoff obs =
     bindS (liftE (observed obs ''create_pull_request'')) (\<lambda>created.
     bindS (liftE (required_int (field created ''pull_number''))) (\<lambda>pull.
     bindS (liftE (trace ss obs False)) (\<lambda>tr.
     bindS (ss_call ss ''project_management_merge_readiness''
              [(''record'', JObj (ss_record ss)), (''trace'', JObj tr), (''pull_request_number'', JInt pull)]) (\<lambda>result.
       if field result ''ready'' \<noteq> JBool True then returnS (blocked ''work_merge_readiness_blocked'' result)
       else bindS (liftE (item created ''head_sha'')) (\<lambda>head.
         returnS (outcome ''satisfied'' result [(''pull_number'', JInt pull), (''head_sha'', head)]))))))"

definition nonblank_text :: "json \<Rightarrow> string option" where
  "nonblank_text v = (case v of JStr s \<Rightarrow> if blank s then None else Some (py_strip s) | _ \<Rightarrow> None)"

text \<open>What the provider says about the pull request: merged with a known commit, or nothing.\<close>

definition reconcile_merge :: "'s stage_service \<Rightarrow> int \<Rightarrow> string \<Rightarrow> ('s, obj option) op" where
  "reconcile_merge ss pull head =
     bindS (ss_call ss ''github_pull_request_read''
              ((''method'', JStr ''get'') # owner_repo ss @ [(''pullNumber'', JInt pull)])) (\<lambda>pr.
     bindS (liftE (required_mapping (field pr ''head''))) (\<lambda>h.
     bindS (liftE (required_text (field h ''sha''))) (\<lambda>sha.
     bindS (liftE (raise_if (sha \<noteq> head) ValueError)) (\<lambda>_.
       if field pr ''merged'' \<noteq> JBool True then returnS None
       else (case nonblank_text (merge_commit_of pr) of
               None \<Rightarrow> returnS None
             | Some commit \<Rightarrow> returnS (Some
                 [(''status'', JStr ''applied''), (''state'', JStr ''merged''), (''pull_number'', JInt pull),
                  (''head_sha'', JStr head), (''merge_commit_sha'', JStr commit),
                  (''reconciled_after_error'', JBool True)]))))))"

text \<open>\<open>try: \<dots> except Exception as exc: \<dots>\<close>\<close>

definition tryS :: "('s, 'a) op \<Rightarrow> ('s, 'a result) op" where
  "tryS m st = (case m st of (r, st') \<Rightarrow> (Inr r, st'))"

definition request_merge :: "'s stage_service \<Rightarrow> int \<Rightarrow> string \<Rightarrow> ('s, obj) op" where
  "request_merge ss pull head =
     external ss ''kis_github_merge_registered_pull_request''
       [project_id ss, (''pull_number'', JInt pull), (''expected_head'', JStr head), (''merge_method'', JStr ''merge''),
        (''approved'', JBool True)]"

definition attempt_merge :: "'s stage_service \<Rightarrow> int \<Rightarrow> string \<Rightarrow> ('s, obj) op" where
  "attempt_merge ss pull head =
     bindS (tryS (request_merge ss pull head)) (\<lambda>r.
       (case r of
          Inl e \<Rightarrow> bindS (reconcile_merge ss pull head) (\<lambda>reconciled.
            (case reconciled of
               Some d \<Rightarrow> returnS d
             | None \<Rightarrow> returnS (blocked ''merge_result_uncertain''
                 [(''pull_number'', JInt pull), (''head_sha'', JStr head), (''error_type'', JStr (ss_error_name ss e))])))
        | Inr result \<Rightarrow>
            (case nonblank_text (merge_commit_of result) of
               None \<Rightarrow> returnS (spread (blocked ''merge_identity_pending'' result)
                         [(''pull_number'', JInt pull), (''head_sha'', JStr head)])
             | Some _ \<Rightarrow> returnS (outcome ''applied'' result [(''pull_number'', JInt pull), (''head_sha'', JStr head)]))))"

definition merge_uncertain :: "obj \<Rightarrow> bool" where
  "merge_uncertain obs =
     (case field obs ''merge_exact_head'' of JObj p \<Rightarrow> field p ''reason'' = JStr ''merge_result_uncertain'' | _ \<Rightarrow> False)"

definition merge_exact_head :: "'s stage_service \<Rightarrow> obj \<Rightarrow> obj \<Rightarrow> ('s, obj) op" where
  "merge_exact_head ss handoff obs =
     bindS (liftE (observed obs ''merge_readiness'')) (\<lambda>readiness.
     bindS (liftE (if field readiness ''ready'' \<noteq> JBool True then Inr False else passed_status (field readiness ''status'')))
       (\<lambda>go.
       if \<not> go then returnS (blocked ''work_merge_readiness_blocked'' [])
       else
         bindS (liftE (required_int (field readiness ''pull_number''))) (\<lambda>pull.
         bindS (liftE (required_text (field readiness ''head_sha''))) (\<lambda>head.
         bindS (if merge_uncertain obs then reconcile_merge ss pull head else returnS None) (\<lambda>reconciled.
           (case reconciled of Some d \<Rightarrow> returnS d | None \<Rightarrow> attempt_merge ss pull head))))))"

section \<open>After the merge\<close>

text \<open>\<open>git merge-base --is-ancestor target default\<close>: exit code 0 or 1; anything else is an error.\<close>

definition default_contains :: "'s stage_service \<Rightarrow> string \<Rightarrow> string \<Rightarrow> ('s, bool) op" where
  "default_contains ss default_commit target =
     (if default_commit = target then returnS True
      else bindS (tryS (ss_ancestor ss target default_commit)) (\<lambda>r.
        (case r of
           Inl _ \<Rightarrow> failS ValueError
         | Inr code \<Rightarrow> if code \<in> {0, 1} then returnS (code = 0) else failS ValueError)))"

definition refresh_landed :: "'s stage_service \<Rightarrow> obj \<Rightarrow> obj \<Rightarrow> ('s, obj) op" where
  "refresh_landed ss handoff obs =
     bindS (liftE (observed obs ''merge_exact_head'')) (\<lambda>merged.
     bindS (liftE (required_text (merge_commit_of merged))) (\<lambda>commit.
     bindS (default_sha ss) (\<lambda>current.
     bindS (refresh_registered ss current) (\<lambda>result.
     bindS (liftE (required_text (py_or (field result ''github_default_sha'') (JStr current)))) (\<lambda>landed.
     bindS (liftE (raise_if (landed \<noteq> current) ValueError)) (\<lambda>_.
     bindS (default_contains ss landed commit) (\<lambda>inside.
       let more_fields = [(''landed_sha'', JStr landed), (''merge_commit_sha'', JStr commit)] in
       returnS (if inside then outcome ''applied'' result more_fields
                else spread (blocked ''merge_commit_not_in_default_history'' result) more_fields))))))))"

definition documentation_reconcile :: "'s stage_service \<Rightarrow> obj \<Rightarrow> obj \<Rightarrow> ('s, obj) op" where
  "documentation_reconcile ss handoff obs =
     bindS (liftE (observed obs ''create_pull_request'')) (\<lambda>created.
     bindS (liftE (observed obs ''refresh_landed'')) (\<lambda>landed.
     bindS (liftE (required_int (field created ''pull_number''))) (\<lambda>pull.
     bindS (liftE (required_text (field landed ''landed_sha''))) (\<lambda>landed_sha.
     bindS (liftE (trace ss obs True)) (\<lambda>tr.
       let impact = field (ss_record ss) ''documentation_impact'' in
       if impact \<noteq> JStr ''pre_merge_complete''
       then returnS (blocked ''documentation_pre_merge_evidence_missing'' [(''documentation_impact'', impact)])
       else
         bindS (ss_call ss ''project_management_documentation_reconcile''
                  [(''record'', JObj (ss_record ss)), (''trace'', JObj tr), (''pull_request_number'', JInt pull),
                   (''documentation_task_id'', JStr (''docs-'' @ ss_change ss)), (''required_updates'', JArr []),
                   (''completion_revision'', JStr landed_sha)]) (\<lambda>completed.
         bindS (liftE (required_mapping (field completed ''event''))) (\<lambda>event.
         bindS (liftE (required_mapping (field completed ''record''))) (\<lambda>rec.
           returnS (
             if field completed ''phase'' \<noteq> JStr ''post_merge_complete''
               then blocked ''documentation_reconciliation_incomplete'' completed
             else if field event ''completion_revision'' \<noteq> JStr landed_sha
               then blocked ''documentation_revision_mismatch'' completed
             else if field rec ''documentation_impact'' \<noteq> JStr ''post_merge_complete''
               then blocked ''documentation_work_state_incomplete'' completed
             else outcome ''satisfied'' completed
                    [(''trace'', JObj tr), (''completion_revision'', JStr landed_sha)])))))))))"

section \<open>Completing the work\<close>

definition issue_closed :: "'s stage_service \<Rightarrow> ('s, bool) op" where
  "issue_closed ss =
     bindS (liftE (source_number ss)) (\<lambda>n.
     bindS (ss_call ss ''github_issue_read''
              ((''method'', JStr ''get'') # owner_repo ss @ [(''issue_number'', JInt n)])) (\<lambda>issue.
       returnS (casefold (py_text (field_or issue ''state'' (JStr []))) = ''closed'')))"

definition close_issue :: "'s stage_service \<Rightarrow> ('s, obj) op" where
  "close_issue ss =
     bindS (liftE (source_number ss)) (\<lambda>n.
       ss_call ss ''github_issue_write''
         ((''method'', JStr ''update'') # owner_repo ss @
          [(''issue_number'', JInt n), (''state'', JStr ''closed''), (''state_reason'', JStr ''completed'')]))"

definition close_reasons :: "string list" where
  "close_reasons = [''source_close_pending'', ''source_close_reconcile_pending'']"

definition close_uncertain :: "obj \<Rightarrow> bool result" where
  "close_uncertain obs =
     (case field obs ''work_done'' of JObj p \<Rightarrow> in_texts (field p ''reason'') close_reasons | _ \<Rightarrow> Inr False)"

definition complete_work :: "'s stage_service \<Rightarrow> obj \<Rightarrow> obj \<Rightarrow> ('s, obj) op" where
  "complete_work ss handoff rec =
     bindS (liftE (source_number ss)) (\<lambda>n.
     bindS (liftE (source_commit handoff)) (\<lambda>commit.
       ss_call ss ''project_management_complete_work''
         [project_id ss, (''repository'', JStr (hc_repository (ss_contract ss))), (''issue_number'', JInt n),
          (''record'', JObj rec), (''apply'', JBool True),
          (''idempotency_key'', JStr (''promotion-done-'' @ hc_work (ss_contract ss) @ ''-'' @ commit))]))"

definition close_pending :: "string \<Rightarrow> obj \<Rightarrow> obj \<Rightarrow> obj \<Rightarrow> obj" where
  "close_pending why errors result rec =
     [(''status'', JStr ''blocked''), (''reason'', JStr why), (''source_close_pending'', JBool True),
      (''source_close_required'', JBool True)] @ errors @ [(''work_completion'', JObj result), (''record'', JObj rec)]"

definition error_field :: "'s stage_service \<Rightarrow> string \<Rightarrow> exn \<Rightarrow> obj" where
  "error_field ss k e = [(k, JStr (ss_error_name ss e))]"

text \<open>
  Closing the source issue, with what an earlier call left uncertain: a blocked observation, or whether
  it is closed and whether that was found out after an error.
\<close>

definition write_close :: "'s stage_service \<Rightarrow> obj \<Rightarrow> obj \<Rightarrow> ('s, obj + bool \<times> bool) op" where
  "write_close ss result rec =
     bindS (tryS (close_issue ss)) (\<lambda>r.
       (case r of
          Inr _ \<Rightarrow> returnS (Inr (True, False))
        | Inl e \<Rightarrow>
            bindS (tryS (issue_closed ss)) (\<lambda>c.
              returnS (case c of
                 Inl e' \<Rightarrow> Inl (close_pending ''source_close_reconcile_pending''
                             (error_field ss ''source_close_error_type'' e @
                              error_field ss ''source_close_reconcile_error_type'' e') result rec)
               | Inr closed \<Rightarrow>
                   if closed then Inr (True, True)
                   else Inl (close_pending ''source_close_pending'' (error_field ss ''source_close_error_type'' e) result rec)))))"

definition settle_source :: "'s stage_service \<Rightarrow> obj \<Rightarrow> obj \<Rightarrow> obj \<Rightarrow> ('s, obj + bool \<times> bool) op" where
  "settle_source ss obs result rec =
     bindS (liftE (close_uncertain obs)) (\<lambda>retrying.
       if retrying then
         bindS (tryS (issue_closed ss)) (\<lambda>c.
           (case c of
              Inl e \<Rightarrow> returnS (Inl (close_pending ''source_close_reconcile_pending''
                                  (error_field ss ''source_close_error_type'' e) result rec))
            | Inr closed \<Rightarrow> if closed then returnS (Inr (True, True)) else write_close ss result rec))
       else write_close ss result rec)"

definition remembered_completion :: "obj \<Rightarrow> obj option result" where
  "remembered_completion obs =
     (case field obs ''work_done'' of
        JObj p \<Rightarrow> bindE (in_texts (field p ''reason'') close_reasons) (\<lambda>b.
          Inr (if b then (case field p ''work_completion'' of JObj d \<Rightarrow> Some d | _ \<Rightarrow> None) else None))
      | _ \<Rightarrow> Inr None)"

definition done_fields :: "obj \<Rightarrow> obj \<Rightarrow> bool \<Rightarrow> bool \<times> bool \<Rightarrow> obj" where
  "done_fields result rec required closing =
     outcome ''applied'' result
       [(''record'', JObj rec), (''work_completion'', JObj result), (''source_close_required'', JBool required),
        (''source_close_applied'', JBool (fst closing)), (''source_close_reconciled_after_error'', JBool (snd closing))]"

definition work_done :: "'s stage_service \<Rightarrow> obj \<Rightarrow> obj \<Rightarrow> ('s, obj) op" where
  "work_done ss handoff obs =
     bindS (liftE (observed obs ''documentation_reconcile'')) (\<lambda>documentation.
     bindS (liftE (required_mapping (field documentation ''record''))) (\<lambda>rec.
     bindS (liftE (remembered_completion obs)) (\<lambda>remembered.
     bindS (case remembered of Some d \<Rightarrow> returnS d | None \<Rightarrow> complete_work ss handoff rec) (\<lambda>result.
       if field result ''mode'' = JStr ''blocked'' then returnS (blocked ''work_completion_blocked'' result)
       else if field result ''source_close_required'' \<noteq> JBool True
         then returnS (done_fields result rec False (False, False))
       else bindS (settle_source ss obs result rec) (\<lambda>r.
         returnS (case r of Inl d \<Rightarrow> d | Inr closing \<Rightarrow> done_fields result rec True closing))))))"

definition cleanup :: "'s stage_service \<Rightarrow> obj \<Rightarrow> obj \<Rightarrow> ('s, obj) op" where
  "cleanup ss handoff obs =
     (case ss_cleanup ss of
        None \<Rightarrow> returnS (blocked ''cleanup_service_unavailable'' [])
      | Some run \<Rightarrow>
          bindS (liftE (observed obs ''refresh_landed'')) (\<lambda>landed.
          bindS (liftE (required_text (field landed ''landed_sha''))) (\<lambda>sha.
          bindS (run (ss_change ss) (if hc_project (ss_contract ss) = ''kis-mcp'' \<and> ss_base ss = ''main'' then Some sha else None))
            (\<lambda>result. returnS (spread [(''status'', JStr ''applied'')] result)))))"

section \<open>Dispatch\<close>

text \<open>
  \<open>getattr(self, f"_{stage}", None)\<close> for the stages; the controller asks for no other name.
\<close>

definition handlers :: "(string \<times> ('s stage_service \<Rightarrow> obj \<Rightarrow> obj \<Rightarrow> ('s, obj) op)) list" where
  "handlers =
     [(''refresh_default'', refresh_default), (''reconcile_candidate'', reconcile_candidate),
      (''create_pull_request'', create_pull_request), (''exact_head_actions'', exact_head_actions),
      (''merge_readiness'', merge_readiness), (''merge_exact_head'', merge_exact_head),
      (''refresh_landed'', refresh_landed), (''documentation_reconcile'', documentation_reconcile),
      (''work_done'', work_done), (''cleanup'', cleanup)]"

definition invoke :: "'s stage_service \<Rightarrow> string \<Rightarrow> obj \<Rightarrow> obj \<Rightarrow> ('s, obj) op" where
  "invoke ss stage handoff obs =
     (case map_of handlers stage of None \<Rightarrow> failS ValueError | Some h \<Rightarrow> h ss handoff obs)"

lemma handlers_are_stages: "map fst handlers = stages"
  by (simp add: handlers_def stages_def)

end
