(* ===== verification/Promotion_Link.thy ===== *)
theory Promotion_Link
  imports Promotion_Stages Promotion_Facts
begin

text \<open>
  The controller over the stage service, as \<open>converge_change_to_done\<close> composes them
  (\<open>workflows/once_through/tools.py\<close>): the recorded invoker, and a locale for what may be concluded about the
  observations of completed stages from what each stage guarantees when it passes.
\<close>

section \<open>The recorded invoker\<close>

text \<open>\<open>_promotion_reference\<close>: the evidence that a passed stage leaves.\<close>

definition evidence_of ::
  "string \<Rightarrow> string \<Rightarrow> string \<Rightarrow> validity_class \<Rightarrow> (string \<times> string) list \<Rightarrow> string \<Rightarrow> string \<Rightarrow> evidence_reference option result" where
  "evidence_of eid kind subject vc inputs receipt phase =
     bindE (evidence_reference_init \<lparr>ev_id = eid, ev_kind = kind, ev_subject = subject, ev_class = vc,
       ev_inputs = inputs, ev_receipt = receipt, ev_phase = phase\<rparr>) (\<lambda>e. Inr (Some e))"

definition landed_text :: "obj \<Rightarrow> obj \<Rightarrow> string result" where
  "landed_text result obs =
     (let own = py_or (field result ''landed_sha'') (field result ''completion_revision'') in
      if truthy own then Inr (py_text own)
      else (case field_or obs ''refresh_landed'' (JObj []) of
              JObj d \<Rightarrow> Inr (py_text (py_or (field d ''landed_sha'') (JStr [])))
            | _ \<Rightarrow> Inl AttributeError))"

definition promotion_reference ::
  "(string \<Rightarrow> string) \<Rightarrow> string \<Rightarrow> string \<Rightarrow> string \<Rightarrow> obj \<Rightarrow> obj \<Rightarrow> evidence_reference option result" where
  "promotion_reference sha stage work subject result obs =
     bindE (passed_status (field result ''status'')) (\<lambda>ok.
       if \<not> ok then Inr None
       else let fp = fingerprint sha (JObj result); head = py_text (field_or result ''head_sha'' (JStr [])) in
         if stage = ''exact_head_actions'' then
           (let reference = py_text (field_or result ''reference'' (JStr [])) in
            if head = [] \<or> reference = [] then Inr None
            else evidence_of (''provider-exact-head-'' @ work @ ''-'' @ take 20 fp) ''provider_exact_head'' subject
                   Provider_exact_head [(''head'', head), (''provider'', ''github'')] reference ''pull_request'')
         else if stage = ''merge_exact_head'' then
           (let merged = py_text (py_or (merge_commit_of result) (JStr [])) in
            if head = [] \<or> merged = [] then Inr None
            else evidence_of (''merge-'' @ work @ ''-'' @ take 20 fp) ''merge'' subject
                   Provider_exact_head [(''head'', head), (''provider'', ''github'')] (''merge:'' @ merged) ''pull_request'')
         else if stage \<in> {''refresh_landed'', ''documentation_reconcile'', ''work_done''} then
           bindE (landed_text result obs) (\<lambda>landed.
             if landed = [] then Inr None
             else evidence_of (stage @ ''-'' @ work @ ''-'' @ take 20 fp) stage subject Post_merge [(''landed'', landed)]
                    (''promotion:'' @ stage @ '':'' @ take 24 fp) ''post_merge'')
         else Inr None)"

text \<open>
  \<open>invoke_and_record\<close>: the stage, the difference of the call metrics before and after it (a function of
  the two states), and the evidence appended to the lineage of the work.
\<close>

definition append_reference :: "(evidence_reference \<Rightarrow> ('s, unit) op) \<Rightarrow> evidence_reference option \<Rightarrow> ('s, unit) op" where
  "append_reference put_ref r = (case r of None \<Rightarrow> returnS () | Some e \<Rightarrow> put_ref e)"

definition invoke_and_record ::
  "'s stage_service \<Rightarrow> (string \<Rightarrow> string) \<Rightarrow> ('s \<Rightarrow> 's \<Rightarrow> obj) \<Rightarrow> (evidence_reference \<Rightarrow> ('s, unit) op) \<Rightarrow>
   string \<Rightarrow> obj \<Rightarrow> obj \<Rightarrow> ('s, obj) op" where
  "invoke_and_record ss sha metrics put_ref stage handoff obs st =
     bindS (invoke ss stage handoff obs) (\<lambda>r. \<lambda>st'.
       (let result = set_field ''_audit'' (JObj (metrics st st')) r;
            c = ss_contract ss in
        bindS (liftE (promotion_reference sha stage (hc_work c) (hc_source c) result obs)) (\<lambda>reference.
        bindS (append_reference put_ref reference) (\<lambda>_. returnS result)) st')) st"

definition stage_controller ::
  "'w promotion_state stage_service \<Rightarrow> ('w \<Rightarrow> int \<times> 'w) \<Rightarrow> ('w \<Rightarrow> int \<times> 'w) \<Rightarrow> (string \<Rightarrow> string) \<Rightarrow>
   ('w promotion_state \<Rightarrow> 'w promotion_state \<Rightarrow> obj) \<Rightarrow> (evidence_reference \<Rightarrow> ('w promotion_state, unit) op) \<Rightarrow> 'w controller" where
  "stage_controller ss now perf sha metrics put_ref =
     \<lparr>pc_invoke = invoke_and_record ss sha metrics put_ref, pc_now = now, pc_perf = perf, pc_sha = sha\<rparr>"

lemma invoke_and_record_Inr:
  assumes "invoke_and_record ss sha metrics put_ref s h obs st = (Inr r, st')"
  obtains q a s2 where "invoke ss s h obs st = (Inr q, s2)" "r = set_field ''_audit'' a q"
  using assms unfolding invoke_and_record_def
  by (auto simp: bindS_eq Let_def)

section \<open>Postconditions\<close>

text \<open>\<open>ensures P m Q\<close>: from a state with \<open>P\<close>, \<open>m\<close> leaves \<open>P\<close>, also when it raises, and what it returns satisfies \<open>Q\<close>.\<close>

definition ensures :: "('s \<Rightarrow> bool) \<Rightarrow> ('s, 'a) op \<Rightarrow> ('a \<Rightarrow> bool) \<Rightarrow> bool" where
  "ensures P m Q = (\<forall>st. P st \<longrightarrow> P (snd (m st)) \<and> (\<forall>x. fst (m st) = Inr x \<longrightarrow> Q x))"

lemma ensuresD: "ensures P m Q \<Longrightarrow> P st \<Longrightarrow> m st = (Inr x, st') \<Longrightarrow> P st' \<and> Q x"
  by (fastforce simp: ensures_def)

lemma ensures_keeps: "ensures P m Q \<Longrightarrow> P st \<Longrightarrow> P (snd (m st))"
  by (simp add: ensures_def)

lemma ensures_bind: "ensures P m Q \<Longrightarrow> (\<And>x. Q x \<Longrightarrow> ensures P (f x) R) \<Longrightarrow> ensures P (bindS m f) R"
  unfolding ensures_def bindS_def by (fastforce split: prod.splits sum.splits)

lemma ensures_step: "ensures P m (\<lambda>_. True) \<Longrightarrow> (\<And>x. ensures P (f x) R) \<Longrightarrow> ensures P (bindS m f) R"
  by (rule ensures_bind)

lemma ensures_weaken: "ensures P m Q \<Longrightarrow> (\<And>x. Q x \<Longrightarrow> R x) \<Longrightarrow> ensures P m R"
  by (simp add: ensures_def)

lemma ensures_lift: "(\<And>x. v = Inr x \<Longrightarrow> Q x) \<Longrightarrow> ensures P (liftE v) Q"
  by (simp add: ensures_def)

lemma ensures_lift_bind: "(\<And>x. v = Inr x \<Longrightarrow> ensures P (f x) R) \<Longrightarrow> ensures P (bindS (liftE v) f) R"
  by (rule ensures_bind [OF ensures_lift]) simp_all

lemma ensures_return: "Q x \<Longrightarrow> ensures P (returnS x) Q"
  by (simp add: ensures_def)

lemma ensures_fail: "ensures P (failS e) Q"
  by (simp add: ensures_def)

lemma ensures_read: "ensures P (readE f) (\<lambda>_. True)"
  by (simp add: ensures_def)

lemma ensures_readI: "(\<And>st x. P st \<Longrightarrow> f st = Inr x \<Longrightarrow> Q x) \<Longrightarrow> ensures P (readE f) Q"
  by (simp add: ensures_def)

lemma ensures_guarded: "ensures P m Q \<Longrightarrow> ensures P h (\<lambda>_. True) \<Longrightarrow> ensures P (guarded m h) Q"
proof -
  assume m: "ensures P m Q" and h: "ensures P h (\<lambda>_. True)"
  have raise: "ensures P (bindS h (\<lambda>_. failS e)) Q" for e
    by (rule ensures_step [OF h ensures_fail])
  show ?thesis
    unfolding ensures_def
  proof (intro allI impI)
    fix st assume P: "P st"
    show "P (snd (guarded m h st)) \<and> (\<forall>x. fst (guarded m h st) = Inr x \<longrightarrow> Q x)"
    proof (cases "m st")
      case (Pair r s)
      with m P have "P s" "\<And>x. r = Inr x \<Longrightarrow> Q x" by (auto simp: ensures_def)
      with Pair raise show ?thesis by (cases r) (auto simp: guarded_def ensures_def)
    qed
  qed
qed

lemma ensures_keepsI: "keeps P m \<Longrightarrow> ensures P m (\<lambda>_. True)"
  by (simp add: keeps_def ensures_def)

text \<open>What a stage may not change: the completed stages and the observations of the checkpoint.\<close>

definition progress_of :: "(string \<Rightarrow> string) \<Rightarrow> string \<Rightarrow> 'w promotion_state \<Rightarrow> (json \<times> json) option result" where
  "progress_of sha op_id st =
     bindE (load_checkpoint sha op_id st) (\<lambda>cp.
       Inr (map_option (\<lambda>d. (field_or d ''completed'' (JArr []), field_or d ''observations'' (JObj []))) cp))"

definition leaves_progress :: "'w controller \<Rightarrow> string \<Rightarrow> bool" where
  "leaves_progress pc op_id =
     (\<forall>s h obs st. progress_of (pc_sha pc) op_id (snd (pc_invoke pc s h obs st)) = progress_of (pc_sha pc) op_id st)"

text \<open>A stage changes the state only by the calls it makes.\<close>

lemma keepsD: "keeps P m \<Longrightarrow> P st \<Longrightarrow> P (snd (m st))"
  by (simp add: keeps_def)

lemma keeps_if: "keeps P a \<Longrightarrow> keeps P b \<Longrightarrow> keeps P (if c then a else b)"
  by simp

lemma keeps_option: "keeps P a \<Longrightarrow> (\<And>x. keeps P (f x)) \<Longrightarrow> keeps P (case v of None \<Rightarrow> a | Some x \<Rightarrow> f x)"
  by (cases v) simp_all

lemma keeps_sum: "(\<And>x. keeps P (f x)) \<Longrightarrow> (\<And>x. keeps P (g x)) \<Longrightarrow> keeps P (case v of Inl x \<Rightarrow> f x | Inr x \<Rightarrow> g x)"
  by (cases v) simp_all

lemma keeps_try: "keeps P m \<Longrightarrow> keeps P (tryS m)"
  by (auto simp: keeps_def tryS_def split: prod.splits)

lemmas keeps_intros = keeps_bind keeps_read keeps_if keeps_option keeps_sum keeps_try

definition calls_keep :: "('s \<Rightarrow> bool) \<Rightarrow> 's stage_service \<Rightarrow> bool" where
  "calls_keep P ss =
     ((\<forall>tool args. keeps P (ss_call ss tool args)) \<and> (\<forall>a b. keeps P (ss_ancestor ss a b)) \<and>
      (\<forall>f c l. ss_cleanup ss = Some f \<longrightarrow> keeps P (f c l)))"

lemma keeps_call: "calls_keep P ss \<Longrightarrow> keeps P (ss_call ss tool args)" "calls_keep P ss \<Longrightarrow> keeps P (ss_ancestor ss a b)"
  "calls_keep P ss \<Longrightarrow> keeps P (external ss operation args)"
  by (simp_all add: calls_keep_def external_def)

lemma keeps_scan: "calls_keep P ss \<Longrightarrow> keeps P (scan_runs ss pull head workflow runs)"
proof (induction runs)
  case (Cons x runs)
  then show ?case unfolding scan_runs.simps run_detail_def by (intro keeps_intros keeps_call) simp_all
qed (simp add: keeps_def)

lemma keeps_reconcile: "calls_keep P ss \<Longrightarrow> keeps P (reconcile_merge ss pull head)"
  unfolding reconcile_merge_def by (intro keeps_intros keeps_call)

lemma keeps_attempt: "calls_keep P ss \<Longrightarrow> keeps P (attempt_merge ss pull head)"
  unfolding attempt_merge_def request_merge_def by (intro keeps_intros keeps_call keeps_reconcile)

lemma keeps_settle: "calls_keep P ss \<Longrightarrow> keeps P (settle_source ss obs result rec)"
  unfolding settle_source_def write_close_def close_issue_def issue_closed_def
  by (intro keeps_intros keeps_call)

lemma keeps_invoke:
  assumes "calls_keep P ss"
  shows "keeps P (invoke ss s h obs)"
proof -
  note k = keeps_intros keeps_call [OF assms] keeps_scan [OF assms] keeps_reconcile [OF assms] keeps_attempt [OF assms]
    keeps_settle [OF assms]
  have "keeps P (refresh_default ss h obs)" "keeps P (reconcile_candidate ss h obs)" "keeps P (create_pull_request ss h obs)"
    unfolding refresh_default_def default_sha_def refresh_registered_def reconcile_candidate_def create_pull_request_def
    by (intro k)+
  moreover have "keeps P (exact_head_actions ss h obs)"
    unfolding exact_head_actions_def recheck_run_def run_detail_def list_runs_def by (intro k)
  moreover have "keeps P (merge_readiness ss h obs)" "keeps P (merge_exact_head ss h obs)"
    unfolding merge_readiness_def merge_exact_head_def by (intro k)+
  moreover have "keeps P (refresh_landed ss h obs)"
    unfolding refresh_landed_def default_sha_def refresh_registered_def default_contains_def Let_def by (intro k)
  moreover have "keeps P (documentation_reconcile ss h obs)" "keeps P (work_done ss h obs)"
    unfolding documentation_reconcile_def work_done_def complete_work_def Let_def by (intro k)+
  moreover have "keeps P (cleanup ss h obs)"
  proof (cases "ss_cleanup ss")
    case (Some f)
    then have "keeps P (f c l)" for c l using assms by (simp add: calls_keep_def)
    then show ?thesis unfolding cleanup_def Some option.case by (intro k)
  qed (simp add: cleanup_def keeps_def)
  ultimately have "\<forall>(n, f) \<in> set handlers. keeps P (f ss h obs)" by (simp add: handlers_def)
  moreover have "keeps P (failS ValueError)" by (rule keeps_read)
  ultimately show ?thesis
    by (auto simp: invoke_def split: option.splits dest: map_of_SomeD)
qed

text \<open>So the progress of the checkpoint is left alone if the provider and the evidence store leave it alone.\<close>

lemma stage_controller_leaves:
  assumes "\<And>p. calls_keep (\<lambda>st. progress_of sha op_id st = p) ss"
    and "\<And>p e. keeps (\<lambda>st. progress_of sha op_id st = p) (put_ref e)"
  shows "leaves_progress (stage_controller ss now perf sha metrics put_ref) op_id"
proof -
  have "progress_of sha op_id (snd (invoke_and_record ss sha metrics put_ref s h obs st)) = progress_of sha op_id st"
    for s h obs st
  proof -
    let ?P = "\<lambda>st'. progress_of sha op_id st' = progress_of sha op_id st"
    have i: "?P (snd (invoke ss s h obs st))" using keeps_invoke [OF assms(1)] by (auto simp: keeps_def)
    have ref: "keeps ?P (append_reference put_ref r)" for r
      unfolding append_reference_def by (intro keeps_intros assms(2))
    have seq: "keeps ?P (bindS (liftE v) (\<lambda>reference. bindS (append_reference put_ref reference) (\<lambda>_. returnS q)))" for v q
      by (intro keeps_intros ref)
    have tail: "?P s2 \<Longrightarrow> ?P (snd (bindS (liftE v) (\<lambda>reference. bindS (append_reference put_ref reference) (\<lambda>_. returnS q)) s2))"
      for v q s2 by (rule keepsD [OF seq])
    obtain r s2 where rs: "invoke ss s h obs st = (r, s2)" by (cases "invoke ss s h obs st")
    with i have "?P s2" by simp
    note tail = tail [OF this]
    show ?thesis
    proof (cases r)
      case (Inl e)
      with rs \<open>?P s2\<close> show ?thesis by (simp add: invoke_and_record_def)
    next
      case (Inr q)
      with rs have "invoke_and_record ss sha metrics put_ref s h obs st =
          bindS (liftE (promotion_reference sha s (hc_work (ss_contract ss)) (hc_source (ss_contract ss))
            (set_field ''_audit'' (JObj (metrics st s2)) q) obs))
            (\<lambda>reference. bindS (append_reference put_ref reference)
              (\<lambda>_. returnS (set_field ''_audit'' (JObj (metrics st s2)) q))) s2"
        unfolding invoke_and_record_def Let_def by (simp only: bindS_simps(1))
      then show ?thesis by (simp only: tail)
    qed
  qed
  then show ?thesis by (simp add: leaves_progress_def stage_controller_def)
qed

section \<open>What completed stages have established\<close>

text \<open>
  The interface between the controller and a service: \<open>established ss n obs\<close> says what the observations contain
  once the first \<open>n\<close> stages have passed.  A service provides it by showing that a passing stage extends
  it, that a stage that does not pass leaves it, and that it survives storage.
\<close>

definition stored_link :: "(nat \<Rightarrow> obj \<Rightarrow> bool) \<Rightarrow> (string \<Rightarrow> string) \<Rightarrow> string \<Rightarrow> 'w promotion_state \<Rightarrow> bool" where
  "stored_link R sha op_id st =
     (progress_of sha op_id st = Inr None \<or>
      (\<exists>n obs. progress_of sha op_id st = Inr (Some (str_array (take n stages), JObj obs)) \<and> n \<le> length stages \<and> R n obs))"

lemma progress_saved:
  "progress_of sha op_id (snd (save_checkpoint sha op_id d st)) =
     Inr (Some (stored (field_or d ''completed'' (JArr [])), stored (field_or d ''observations'' (JObj []))))"
proof -
  have e: "stored (JArr []) = JArr []" "stored (JObj []) = JObj []" by simp_all
  show ?thesis by (simp add: progress_of_def load_saved field_or_stored_any [OF e(1)] field_or_stored_any [OF e(2)])
qed

lemma progress_world [simp]: "progress_of sha op_id (st\<lparr>ps_world := w\<rparr>) = progress_of sha op_id st"
  by (simp add: progress_of_def)

text \<open>A controller whose stages are those of the service and leave the progress alone.\<close>

definition runs_service :: "'w controller \<Rightarrow> string \<Rightarrow> 'w promotion_state stage_service \<Rightarrow> bool" where
  "runs_service pc op_id ss =
     (leaves_progress pc op_id \<and>
      (\<forall>s h obs st r st'. pc_invoke pc s h obs st = (Inr r, st') \<longrightarrow>
         (\<exists>q a s2. invoke ss s h obs st = (Inr q, s2) \<and> r = set_field ''_audit'' a q)))"

lemma stage_controller_runs:
  "leaves_progress (stage_controller ss now perf sha metrics put_ref) op_id \<Longrightarrow>
     runs_service (stage_controller ss now perf sha metrics put_ref) op_id ss"
proof -
  assume l: "leaves_progress (stage_controller ss now perf sha metrics put_ref) op_id"
  have "\<exists>q a s2. invoke ss s h obs st = (Inr q, s2) \<and> r = set_field ''_audit'' a q"
    if "invoke_and_record ss sha metrics put_ref s h obs st = (Inr r, st')" for s h obs st r st'
    using that by (rule invoke_and_record_Inr) blast
  with l show ?thesis by (simp add: runs_service_def stage_controller_def)
qed

locale stage_links =
  fixes established :: "'w promotion_state stage_service \<Rightarrow> nat \<Rightarrow> obj \<Rightarrow> bool"
  assumes link_start: "established ss 0 []"
    and link_stored: "established ss n obs \<Longrightarrow> established ss n (stored_obj obs)"
    and link_stays: "established ss n obs \<Longrightarrow> n < length stages \<Longrightarrow> established ss n (set_field (stages ! n) v obs)"
    and link_extends: "established ss n obs \<Longrightarrow> n < length stages \<Longrightarrow> invoke ss (stages ! n) h obs st = (Inr r, st') \<Longrightarrow>
      passed_status (field r ''status'') = Inr True \<Longrightarrow>
      established ss (Suc n) (set_field (stages ! n) (JObj (set_field ''_audit'' a r)) obs)"
begin

lemma save_link:
  assumes "field_or d ''completed'' (JArr []) = str_array (take n stages)" and "n \<le> length stages"
    and "field_or d ''observations'' (JObj []) = JObj obs" and "established ss n obs"
  shows "ensures (stored_link (established ss) sha op_id) (save_checkpoint sha op_id d) (\<lambda>_. True)"
  unfolding ensures_def stored_link_def progress_saved assms(1,3)
  using assms(2) link_stored [OF assms(4)] by auto

lemma tick_link: "ensures (stored_link (established ss) sha op_id) (tick f) (\<lambda>_. True)"
  by (simp add: ensures_def tick_def stored_link_def split: prod.splits)

lemma invoke_link:
  assumes "runs_service pc op_id ss" and "established ss n obs" and "n < length stages"
  shows "ensures (stored_link (established ss) (pc_sha pc) op_id) (pc_invoke pc (stages ! n) h obs)
    (\<lambda>r. passed_status (field r ''status'') = Inr True \<longrightarrow> established ss (Suc n) (set_field (stages ! n) (JObj r) obs))"
  unfolding ensures_def
proof (intro allI impI conjI)
  fix st :: "'w promotion_state" assume "stored_link (established ss) (pc_sha pc) op_id st"
  moreover have "progress_of (pc_sha pc) op_id (snd (pc_invoke pc (stages ! n) h obs st)) = progress_of (pc_sha pc) op_id st"
    using assms(1) by (simp add: runs_service_def leaves_progress_def)
  ultimately show "stored_link (established ss) (pc_sha pc) op_id (snd (pc_invoke pc (stages ! n) h obs st))"
    by (simp add: stored_link_def)
next
  fix st r assume r: "fst (pc_invoke pc (stages ! n) h obs st) = Inr r" and p: "passed_status (field r ''status'') = Inr True"
  from r obtain st' where "pc_invoke pc (stages ! n) h obs st = (Inr r, st')" by (cases "pc_invoke pc (stages ! n) h obs st") simp
  with assms(1) obtain q a s2 where q: "invoke ss (stages ! n) h obs st = (Inr q, s2)" and rq: "r = set_field ''_audit'' a q"
    unfolding runs_service_def by blast
  have "field q ''status'' = field r ''status''" by (simp add: rq field_set)
  with link_extends [OF assms(2,3) q, of a] p rq show "established ss (Suc n) (set_field (stages ! n) (JObj r) obs)" by simp
qed

lemma record_failure_link:
  assumes "n < length stages" and "established ss n obs"
  shows "ensures (stored_link (established ss) (pc_sha pc) op_id)
    (record_failure pc op_id fp (take n stages) obs t (stages ! n) started) (\<lambda>_. True)"
proof -
  have s: "ensures (stored_link (established ss) (pc_sha pc) op_id)
      (save_checkpoint (pc_sha pc) op_id (failed_fields fp (take n stages) obs t' (stages ! n) now)) (\<lambda>_. True)" for t' now
    by (rule save_link [OF _ _ _ assms(2)]) (use assms(1) in \<open>simp_all add: failed_fields_def progress_fields_def\<close>)
  show ?thesis
    unfolding record_failure_def
    by (intro ensures_step [OF tick_link] ensures_lift_bind ensures_step [OF ensures_read] s)
qed

lemma run_stages_link:
  assumes "runs_service pc op_id ss"
  shows "n \<le> length stages \<Longrightarrow> established ss n obs \<Longrightarrow>
    ensures (stored_link (established ss) (pc_sha pc) op_id)
      (run_stages pc op_id h fp (take n stages) (drop n stages) obs t)
      (\<lambda>r. case r of Inl x \<Rightarrow> px_state x = ''blocked'' | Inr (obs', t') \<Rightarrow> established ss (length stages) obs')"
    (is "_ \<Longrightarrow> _ \<Longrightarrow> ensures ?P (?run n obs t) ?Q")
proof (induction "length stages - n" arbitrary: n obs t)
  case 0
  then have "drop n stages = []" "n = length stages" by auto
  with 0 show ?case by (simp add: ensures_def)
next
  case (Suc k)
  then have n: "n < length stages" by simp
  have d: "drop n stages = stages ! n # drop (Suc n) stages" using n by (simp add: Cons_nth_drop_Suc)
  have tk: "take n stages @ [stages ! n] = take (Suc n) stages" using n by (simp add: take_Suc_conv_app_nth)
  have IH: "established ss (Suc n) obs' \<Longrightarrow> ensures ?P (?run (Suc n) obs' t') ?Q" for obs' t'
    by (rule Suc.hyps(1)) (use Suc.hyps(2) n in auto)
  have running: "ensures ?P (save_checkpoint (pc_sha pc) op_id (running_fields fp (take n stages) obs t' (stages ! n))) (\<lambda>_. True)" for t'
    by (rule save_link [OF _ _ _ Suc.prems(2)]) (use n in \<open>simp_all add: running_fields_def progress_fields_def\<close>)
  have stays: "established ss n (set_field (stages ! n) v obs)" for v by (rule link_stays [OF Suc.prems(2) n])
  have block: "ensures ?P (save_checkpoint (pc_sha pc) op_id (execution_fields
      \<lparr>px_operation = op_id, px_completed = take n stages, px_stage = Some (stages ! n), px_state = ''blocked'',
       px_observations = set_field (stages ! n) v obs, px_receipt = None\<rparr> @ ex)) (\<lambda>_. True)" for v ex
    by (rule save_link [OF _ _ _ stays [of v]]) (use n in \<open>simp_all add: execution_fields_def\<close>)
  have pass: "established ss (Suc n) obs' \<Longrightarrow>
      ensures ?P (save_checkpoint (pc_sha pc) op_id (progress_fields fp (take (Suc n) stages) obs' t')) (\<lambda>_. True)" for obs' t'
    by (rule save_link [of _ "Suc n"]) (use n in \<open>simp_all add: progress_fields_def\<close>)
  note invoked = ensures_guarded [OF invoke_link [OF assms Suc.prems(2) n] record_failure_link [OF n Suc.prems(2)]]
  show ?case
    unfolding d run_stages.simps Let_def tk
  proof (intro ensures_lift_bind ensures_step [OF running] ensures_step [OF tick_link] ensures_bind [OF invoked])
    fix r p t'
    assume r: "passed_status (field r ''status'') = Inr True \<longrightarrow> established ss (Suc n) (set_field (stages ! n) (JObj r) obs)"
      and p: "passed_status (field r ''status'') = Inr p"
    show "ensures ?P (if \<not> p then bindS (liftE (stage_reason r t')) (\<lambda>t4.
          bindS (save_checkpoint (pc_sha pc) op_id
            (execution_fields \<lparr>px_operation = op_id, px_completed = take n stages, px_stage = Some (stages ! n),
               px_state = ''blocked'', px_observations = set_field (stages ! n) (JObj r) obs, px_receipt = None\<rparr> @
              [(''handoff_fingerprint'', JStr fp), (''telemetry'', JObj t4)])) (\<lambda>_. returnS (Inl
            \<lparr>px_operation = op_id, px_completed = take n stages, px_stage = Some (stages ! n),
               px_state = ''blocked'', px_observations = set_field (stages ! n) (JObj r) obs, px_receipt = None\<rparr>)))
        else bindS (save_checkpoint (pc_sha pc) op_id (progress_fields fp (take (Suc n) stages) (set_field (stages ! n) (JObj r) obs) t'))
          (\<lambda>_. ?run (Suc n) (set_field (stages ! n) (JObj r) obs) t')) ?Q"
    proof (cases p)
      case False
      then show ?thesis by (simp add: ensures_lift_bind ensures_step [OF block] ensures_return)
    next
      case True
      with r p have "established ss (Suc n) (set_field (stages ! n) (JObj r) obs)" by simp
      with True show ?thesis by (simp add: ensures_step [OF pass] IH)
    qed
  qed
qed

text \<open>The checkpoint that a call reads.\<close>

definition read_link :: "'w promotion_state stage_service \<Rightarrow> obj option \<Rightarrow> bool" where
  "read_link ss cp =
     (case cp of None \<Rightarrow> True
      | Some d \<Rightarrow> (\<exists>n obs. field_or d ''completed'' (JArr []) = str_array (take n stages) \<and>
          field_or d ''observations'' (JObj []) = JObj obs \<and> n \<le> length stages \<and> established ss n obs))"

lemma stored_read:
  "stored_link (established ss) sha op_id st \<Longrightarrow> load_checkpoint sha op_id st = Inr cp \<Longrightarrow> read_link ss cp"
  by (cases cp) (auto simp: stored_link_def progress_of_def read_link_def)

lemma resume_link:
  assumes "read_link ss cp" and "resume_from h fp cp = Inr rp"
  obtains n where "n \<le> length stages" "rp_completed rp = map JStr (take n stages)" "established ss n (rp_observations rp)"
proof (cases cp)
  case None
  with assms(2) that [of 0] link_start show ?thesis by (auto simp: resume_from_def)
next
  case (Some d)
  with assms(1) obtain n obs where c: "field_or d ''completed'' (JArr []) = str_array (take n stages)"
    and o: "field_or d ''observations'' (JObj []) = JObj obs" and n: "n \<le> length stages" "established ss n obs"
    by (auto simp: read_link_def)
  have "py_dict (JObj obs) = Inr obs" by (simp add: py_dict_def)
  with assms(2) Some c o have "rp_completed rp = map JStr (take n stages)" "rp_observations rp = obs"
    by (auto simp: resume_from_def err_simps)
  with that n show ?thesis by blast
qed

lemma finish_link:
  assumes "established ss (length stages) obs"
  shows "ensures (stored_link (established ss) (pc_sha pc) op_id) (finish pc op_id h fp obs t)
    (\<lambda>x. established ss (length stages) (px_observations x))"
proof -
  have s: "ensures (stored_link (established ss) (pc_sha pc) op_id) (save_checkpoint (pc_sha pc) op_id
      (execution_fields \<lparr>px_operation = op_id, px_completed = stages, px_stage = None, px_state = ''done'',
         px_observations = obs, px_receipt = Some r\<rparr> @ ex)) (\<lambda>_. True)" for r ex
    by (rule save_link [of _ "length stages" obs]) (use assms in \<open>simp_all add: execution_fields_def\<close>)
  have f: "ensures (stored_link (established ss) (pc_sha pc) op_id) (build_terminal_receipt pc op_id h obs t) (\<lambda>_. True)"
    unfolding build_terminal_receipt_def
    by (intro ensures_lift_bind ensures_step [OF tick_link] ensures_return) simp
  show ?thesis
    unfolding finish_def Let_def by (intro ensures_step [OF f] ensures_step [OF s] ensures_return) (simp add: assms)
qed

definition done_link :: "'w promotion_state stage_service \<Rightarrow> promotion_execution \<Rightarrow> bool" where
  "done_link ss x = (px_state x = ''done'' \<longrightarrow> established ss (length stages) (px_observations x))"

lemma run_from_link:
  assumes "runs_service pc op_id ss" and "n \<le> length stages" and "established ss n obs"
  shows "ensures (stored_link (established ss) (pc_sha pc) op_id) (run_from pc op_id h fp n obs t) (done_link ss)"
  unfolding run_from_def
proof (rule ensures_bind [OF run_stages_link [OF assms]])
  fix r :: "promotion_execution + obj \<times> obj"
  assume r: "case r of Inl x \<Rightarrow> px_state x = ''blocked'' | Inr (obs', t') \<Rightarrow> established ss (length stages) obs'"
  show "ensures (stored_link (established ss) (pc_sha pc) op_id)
      (case r of Inl x \<Rightarrow> returnS x | Inr (obs', t') \<Rightarrow> finish pc op_id h fp obs' t') (done_link ss)"
  proof (cases r)
    case (Inl x)
    with r show ?thesis by (simp add: ensures_def done_link_def)
  next
    case (Inr q)
    then obtain obs' t' where q: "r = Inr (obs', t')" by (cases q) simp
    with r have "established ss (length stages) obs'" by simp
    then have "ensures (stored_link (established ss) (pc_sha pc) op_id) (finish pc op_id h fp obs' t') (done_link ss)"
      by (rule ensures_weaken [OF finish_link]) (simp add: done_link_def)
    with q show ?thesis by simp
  qed
qed

lemma suppress_link:
  assumes "read_link ss (Some d)"
  shows "ensures (stored_link (established ss) (pc_sha pc) op_id) (suppress_retry pc op_id d rp i) (done_link ss)"
proof -
  from assms obtain n obs where d: "field_or d ''completed'' (JArr []) = str_array (take n stages)"
    "n \<le> length stages" "field_or d ''observations'' (JObj []) = JObj obs" "established ss n obs"
    by (auto simp: read_link_def)
  have s: "ensures (stored_link (established ss) (pc_sha pc) op_id)
      (save_checkpoint (pc_sha pc) op_id (set_field ''telemetry'' t d)) (\<lambda>_. True)" for t
    by (rule save_link [OF _ d(2) _ d(4)]) (simp_all add: field_or_set d)
  show ?thesis
    unfolding suppress_retry_def Let_def
    by (intro ensures_lift_bind ensures_step [OF s] ensures_return) (simp add: done_link_def)
qed

lemma replay_link:
  assumes "read_link ss (Some d)" and "resume_from h fp (Some d) = Inr rp" and "length (rp_completed rp) = length stages"
  shows "ensures (stored_link (established ss) (pc_sha pc) op_id) (replay_terminal pc op_id d rp r) (done_link ss)"
proof -
  from assms(1) obtain n obs where d: "field_or d ''completed'' (JArr []) = str_array (take n stages)"
    "n \<le> length stages" "field_or d ''observations'' (JObj []) = JObj obs" "established ss n obs"
    by (auto simp: read_link_def)
  have rp: "rp_completed rp = map JStr (take n stages)" "rp_observations rp = obs"
    using assms(2) d(1,3) by (auto simp: resume_from_def err_simps py_dict_def)
  with assms(3) d(2) have n: "n = length stages" by simp
  have s: "ensures (stored_link (established ss) (pc_sha pc) op_id) (save_checkpoint (pc_sha pc) op_id
      (dict_update d [(''state'', JStr ''done''), (''current_stage'', JNull), (''terminal_receipt'', a), (''telemetry'', b)]))
      (\<lambda>_. True)" for a b
    by (rule save_link [OF _ d(2) _ d(4)]) (simp_all add: field_dict_update d)
  show ?thesis
    unfolding replay_terminal_def Let_def
    by (intro ensures_step [OF s] ensures_return) (use d(4) n rp in \<open>simp add: done_link_def\<close>)
qed

lemma proceed_link:
  assumes "runs_service pc op_id ss" and "read_link ss cp" and "resume_from h fp cp = Inr rp"
  shows "ensures (stored_link (established ss) (pc_sha pc) op_id) (proceed pc op_id h fp cp rp) (done_link ss)"
proof (cases "\<exists>d r. cp = Some d \<and> rp_receipt rp = Some r \<and> length (rp_completed rp) = length stages")
  case True
  with replay_link [OF _ _ , of ss _ h fp rp] assms(2,3) show ?thesis by (auto simp: proceed_def)
next
  case False
  obtain n where n: "n \<le> length stages" "rp_completed rp = map JStr (take n stages)" "established ss n (rp_observations rp)"
    by (rule resume_link [OF assms(2,3)])
  from False have "proceed pc op_id h fp cp rp =
      run_from pc op_id h fp (length (rp_completed rp)) (rp_observations rp) (rp_telemetry rp)"
    by (auto simp: proceed_def split: option.splits)
  with run_from_link [OF assms(1) n(1,3)] n(1,2) show ?thesis by simp
qed

lemma converge_link:
  assumes "runs_service pc op_id ss"
  shows "ensures (stored_link (established ss) (pc_sha pc) op_id) (converge pc op_id h) (done_link ss)"
  unfolding converge_def Let_def
proof (intro ensures_lift_bind ensures_bind [OF ensures_readI [OF stored_read]])
  let ?fp = "fingerprint (pc_sha pc) (JObj h)"
  fix cp rp u v
  assume cp: "read_link ss cp" and rp: "resume_from h ?fp cp = Inr rp"
  note go = proceed_link [OF assms cp rp]
  show "ensures (stored_link (established ss) (pc_sha pc) op_id)
      (case (cp, retry_instant cp (rp_completed rp)) of
          (Some d, Some instant) \<Rightarrow>
            bindS (tick (pc_now pc)) (\<lambda>now.
              if now < instant then suppress_retry pc op_id d rp instant
              else proceed pc op_id h ?fp cp rp)
        | _ \<Rightarrow> proceed pc op_id h ?fp cp rp) (done_link ss)"
  proof (cases "\<exists>d i. cp = Some d \<and> retry_instant cp (rp_completed rp) = Some i")
    case True
    then obtain d i where di: "cp = Some d" "retry_instant cp (rp_completed rp) = Some i" by blast
    have "ensures (stored_link (established ss) (pc_sha pc) op_id)
        (if now < i then suppress_retry pc op_id d rp i else proceed pc op_id h ?fp cp rp) (done_link ss)" for now
      by (simp add: suppress_link [OF cp [unfolded di(1)]] go)
    then show ?thesis using di by (simp add: ensures_step [OF tick_link])
  next
    case False
    with go show ?thesis by (auto split: option.splits)
  qed
qed

text \<open>Any number of calls from a state without a checkpoint.\<close>

lemma calls_stored:
  assumes "runs_service pc op_id ss" and "progress_of (pc_sha pc) op_id st = Inr None"
    and "st' = foldl (\<lambda>s h. snd (converge pc op_id h s)) st handoffs"
  shows "stored_link (established ss) (pc_sha pc) op_id st'"
proof -
  have "stored_link (established ss) (pc_sha pc) op_id st" by (simp add: stored_link_def assms(2))
  then show ?thesis unfolding assms(3)
    by (induction handoffs arbitrary: st) (simp_all add: ensures_keeps [OF converge_link [OF assms(1)]])
qed

lemma calls_link:
  assumes "runs_service pc op_id ss" and "progress_of (pc_sha pc) op_id st = Inr None"
    and "converge pc op_id h (foldl (\<lambda>s h. snd (converge pc op_id h s)) st handoffs) = (Inr x, st')"
    and "px_state x = ''done''"
  shows "established ss (length stages) (px_observations x)"
  using ensuresD [OF converge_link [OF assms(1)] calls_stored [OF assms(1,2) refl] assms(3)] assms(4)
  by (simp add: done_link_def)

end

end
