(* ===== verification/Promotion_Landing.thy ===== *)
theory Promotion_Landing
  imports Promotion_Link Promotion_Claims
begin

text \<open>
  What the stages of a promotion establish together: the head that is merged is the published one, its
  workflow run succeeded, and the merge commit is in the history of the default branch that is recorded.
  The guarantees of the stages instantiate the interface of the controller.
\<close>

section \<open>Fields of observations\<close>

lemma map_of_spread: "map_of (spread d e) = map_of d ++ map_of e"
proof -
  have "map_of (rev (AList.clearjunk e)) = map_of (AList.clearjunk e)"
    by (rule map_of_inject_set [THEN iffD2]) (simp_all add: distinct_clearjunk rev_map [symmetric])
  then show ?thesis by (simp add: spread_def map_of_dict_update map_of_clearjunk)
qed

lemma field_spread: "field (spread d e) k = (case map_of e k of Some v \<Rightarrow> v | None \<Rightarrow> field d k)"
  by (simp add: field_def field_or_def map_of_spread map_add_def split: option.splits)

lemma field_map_of: "field d k = (case map_of d k of Some v \<Rightarrow> v | None \<Rightarrow> JNull)"
  by (simp add: field_def field_or_def)

lemma required_text_Inr: "required_text v = Inr t \<longleftrightarrow> (\<exists>s. v = JStr s \<and> \<not> blank s \<and> t = py_strip s)"
  by (auto simp: required_text_def split: json.splits)

lemma required_int_Inr: "required_int v = Inr n \<longleftrightarrow> v = JInt n \<and> 0 < n"
  by (auto simp: required_int_def split: json.splits)

lemma required_mapping_Inr: "required_mapping v = Inr d \<longleftrightarrow> v = JObj d"
  by (auto simp: required_mapping_def split: json.splits)

lemma required_text_stored [simp]: "required_text (stored v) = required_text v"
  by (cases v) (simp_all add: required_text_def)

lemma truthy_stored [simp]: "truthy (stored v) = truthy v"
proof (cases v)
  case (JObj d)
  have "stored_obj d = [] \<longleftrightarrow> d = []" by (metis length_0_conv length_map length_sort)
  with JObj show ?thesis by simp
qed simp_all

lemma merge_commit_stored: "merge_commit_of (stored_obj d) = stored (merge_commit_of d)"
  by (simp add: merge_commit_of_def py_or_def field_stored_any)

lemma stripped: "required_text v = Inr t \<Longrightarrow> \<not> blank t \<and> py_strip t = t \<and> required_text (JStr t) = Inr t"
  by (auto simp: required_text_Inr blank_def)

lemma stored_atoms:
  "stored v = JNull \<longleftrightarrow> v = JNull" "stored v = JBool b \<longleftrightarrow> v = JBool b" "stored v = JInt n \<longleftrightarrow> v = JInt n"
  "stored v = JStr s \<longleftrightarrow> v = JStr s"
  by (cases v; simp; fail)+

lemma field_blocked: "k \<noteq> ''status'' \<Longrightarrow> k \<noteq> ''reason'' \<Longrightarrow> field (blocked why d) k = field d k"
  by (simp add: blocked_def field_spread field_map_of [of d] split: option.splits)

lemma blocked_not_passed:
  "field d ''status'' = JNull \<Longrightarrow> passed_status (field (blocked why d) ''status'') \<noteq> Inr True"
  by (auto simp: blocked_def field_spread field_map_of [of d] passed_status_def hashable_def split: option.splits)

section \<open>What is established\<close>

definition pull_request_of :: "obj \<Rightarrow> int \<Rightarrow> string \<Rightarrow> bool" where
  "pull_request_of obs pull head =
     (\<exists>r. field obs ''create_pull_request'' = JObj r \<and> field r ''pull_number'' = JInt pull \<and> 0 < pull \<and>
        field r ''head_sha'' = JStr head \<and> \<not> blank head \<and> py_strip head = head)"

definition head_published :: "obj \<Rightarrow> bool" where
  "head_published obs =
     (\<exists>pull head r. pull_request_of obs pull head \<and> field obs ''reconcile_candidate'' = JObj r \<and>
        required_text (field r ''commit_sha'') = Inr head)"

text \<open>The provider answered at some moment that this run of this head, for this pull request, succeeded.\<close>

definition run_succeeded :: "'s stage_service \<Rightarrow> int \<Rightarrow> string \<Rightarrow> int \<Rightarrow> bool" where
  "run_succeeded ss pull head run =
     (\<exists>st detail st' prs. run_detail ss run st = (Inr detail, st') \<and>
        field detail ''head_sha'' = JStr head \<and> field detail ''event'' = JStr ''pull_request'' \<and>
        field detail ''status'' = JStr ''completed'' \<and> field detail ''conclusion'' = JStr ''success'' \<and>
        field detail ''pull_requests'' = JArr prs \<and>
        (\<exists>d \<in> set (objects_of prs). int_like (field d ''number'') = Some pull))"

definition head_tested :: "'s stage_service \<Rightarrow> obj \<Rightarrow> bool" where
  "head_tested ss obs =
     (\<exists>pull head run r. pull_request_of obs pull head \<and> field obs ''exact_head_actions'' = JObj r \<and>
        field r ''head_sha'' = JStr head \<and> field r ''pull_number'' = JInt pull \<and>
        field r ''run_ids'' = JArr [JInt run] \<and> run_succeeded ss pull head run)"

definition readiness_checked :: "obj \<Rightarrow> bool" where
  "readiness_checked obs =
     (\<exists>r. field obs ''merge_readiness'' = JObj r \<and>
        (field r ''ready'' = JBool True \<longrightarrow>
           (\<exists>pull head. pull_request_of obs pull head \<and> field r ''pull_number'' = JInt pull \<and> field r ''head_sha'' = JStr head)))"

definition head_merged :: "obj \<Rightarrow> bool" where
  "head_merged obs =
     (\<exists>pull head q r. pull_request_of obs pull head \<and> field obs ''merge_readiness'' = JObj q \<and>
        field q ''ready'' = JBool True \<and> field obs ''merge_exact_head'' = JObj r \<and>
        field r ''pull_number'' = JInt pull \<and> field r ''head_sha'' = JStr head)"

definition in_history :: "'s stage_service \<Rightarrow> string \<Rightarrow> string \<Rightarrow> bool" where
  "in_history ss landed commit = (landed = commit \<or> (\<exists>st st'. ss_ancestor ss commit landed st = (Inr 0, st')))"

text \<open>The answers of the refresh operation carry no status of their own.\<close>

definition refresh_without_status :: "'s stage_service \<Rightarrow> bool" where
  "refresh_without_status ss =
     (\<forall>sha st r st'. refresh_registered ss sha st = (Inr r, st') \<longrightarrow> field r ''status'' = JNull)"

definition merge_landed :: "'s stage_service \<Rightarrow> obj \<Rightarrow> bool" where
  "merge_landed ss obs =
     (\<exists>q r commit landed. field obs ''merge_exact_head'' = JObj q \<and> required_text (merge_commit_of q) = Inr commit \<and>
        field obs ''refresh_landed'' = JObj r \<and> field r ''landed_sha'' = JStr landed \<and>
        field r ''merge_commit_sha'' = JStr commit \<and> (refresh_without_status ss \<longrightarrow> in_history ss landed commit))"

definition landing :: "'s stage_service \<Rightarrow> nat \<Rightarrow> obj \<Rightarrow> bool" where
  "landing ss n obs =
     ((2 < n \<longrightarrow> head_published obs) \<and> (3 < n \<longrightarrow> head_tested ss obs) \<and> (4 < n \<longrightarrow> readiness_checked obs) \<and>
      (5 < n \<longrightarrow> head_merged obs) \<and> (6 < n \<longrightarrow> merge_landed ss obs))"

section \<open>Storage and other stages\<close>

lemma pull_request_stored: "pull_request_of obs pull head \<Longrightarrow> pull_request_of (stored_obj obs) pull head"
  by (auto simp: pull_request_of_def field_stored_any)

lemma landing_stored:
  assumes "landing ss n obs"
  shows "landing ss n (stored_obj obs)"
proof -
  have "head_published obs \<Longrightarrow> head_published (stored_obj obs)"
    unfolding head_published_def by (metis pull_request_stored field_stored_any required_text_stored stored.simps(6))
  moreover have "head_tested ss (stored_obj obs)" if t: "head_tested ss obs"
  proof -
    from t obtain pull head run r where *: "pull_request_of obs pull head" "field obs ''exact_head_actions'' = JObj r"
      "field r ''head_sha'' = JStr head" "field r ''pull_number'' = JInt pull" "field r ''run_ids'' = JArr [JInt run]"
      "run_succeeded ss pull head run" unfolding head_tested_def by blast
    have "field (stored_obj obs) ''exact_head_actions'' = JObj (stored_obj r)" by (simp add: field_stored_any *)
    moreover have "field (stored_obj r) ''head_sha'' = JStr head" "field (stored_obj r) ''pull_number'' = JInt pull"
      "field (stored_obj r) ''run_ids'' = JArr [JInt run]" by (simp_all add: field_stored_any *)
    ultimately show ?thesis using pull_request_stored [OF *(1)] *(6) unfolding head_tested_def by blast
  qed
  moreover have "readiness_checked (stored_obj obs)" if t: "readiness_checked obs"
  proof -
    from t obtain r where r: "field obs ''merge_readiness'' = JObj r" and imp: "field r ''ready'' = JBool True \<Longrightarrow>
        \<exists>pull head. pull_request_of obs pull head \<and> field r ''pull_number'' = JInt pull \<and> field r ''head_sha'' = JStr head"
      unfolding readiness_checked_def by blast
    have "field (stored_obj obs) ''merge_readiness'' = JObj (stored_obj r)" by (simp add: field_stored_any r)
    moreover have "\<exists>pull head. pull_request_of (stored_obj obs) pull head \<and> field (stored_obj r) ''pull_number'' = JInt pull \<and>
        field (stored_obj r) ''head_sha'' = JStr head" if "field (stored_obj r) ''ready'' = JBool True"
      using imp that pull_request_stored by (auto simp: field_stored_any stored_atoms)
    ultimately show ?thesis unfolding readiness_checked_def by blast
  qed
  moreover have "head_merged (stored_obj obs)" if t: "head_merged obs"
  proof -
    from t obtain pull head q r where *: "pull_request_of obs pull head" "field obs ''merge_readiness'' = JObj q"
      "field q ''ready'' = JBool True" "field obs ''merge_exact_head'' = JObj r" "field r ''pull_number'' = JInt pull"
      "field r ''head_sha'' = JStr head" unfolding head_merged_def by blast
    have "field (stored_obj obs) ''merge_readiness'' = JObj (stored_obj q)" "field (stored_obj q) ''ready'' = JBool True"
      "field (stored_obj obs) ''merge_exact_head'' = JObj (stored_obj r)" "field (stored_obj r) ''pull_number'' = JInt pull"
      "field (stored_obj r) ''head_sha'' = JStr head" by (simp_all add: field_stored_any *)
    with pull_request_stored [OF *(1)] show ?thesis unfolding head_merged_def by blast
  qed
  moreover have "merge_landed ss (stored_obj obs)" if t: "merge_landed ss obs"
  proof -
    from t obtain q r commit landed where *: "field obs ''merge_exact_head'' = JObj q"
      "required_text (merge_commit_of q) = Inr commit" "field obs ''refresh_landed'' = JObj r"
      "field r ''landed_sha'' = JStr landed" "field r ''merge_commit_sha'' = JStr commit"
      "refresh_without_status ss \<longrightarrow> in_history ss landed commit" unfolding merge_landed_def by blast
    have "field (stored_obj obs) ''merge_exact_head'' = JObj (stored_obj q)"
      "required_text (merge_commit_of (stored_obj q)) = Inr commit"
      "field (stored_obj obs) ''refresh_landed'' = JObj (stored_obj r)"
      "field (stored_obj r) ''landed_sha'' = JStr landed" "field (stored_obj r) ''merge_commit_sha'' = JStr commit"
      by (simp_all add: field_stored_any merge_commit_stored *)
    with *(6) show ?thesis unfolding merge_landed_def by blast
  qed
  ultimately show ?thesis using assms unfolding landing_def by blast
qed

lemma field_other: "s \<noteq> k \<Longrightarrow> field (set_field s v d) k = field d k"
  by (simp add: field_set)

lemma pull_request_set:
  "s \<noteq> ''create_pull_request'' \<Longrightarrow> pull_request_of (set_field s v obs) pull head = pull_request_of obs pull head"
  by (simp add: pull_request_of_def field_other)

lemma published_set:
  "s \<notin> {''create_pull_request'', ''reconcile_candidate''} \<Longrightarrow> head_published (set_field s v obs) = head_published obs"
  by (simp add: head_published_def pull_request_set field_other)

lemma tested_set:
  "s \<notin> {''create_pull_request'', ''exact_head_actions''} \<Longrightarrow> head_tested ss (set_field s v obs) = head_tested ss obs"
  by (simp add: head_tested_def pull_request_set field_other)

lemma readiness_set:
  "s \<notin> {''create_pull_request'', ''merge_readiness''} \<Longrightarrow> readiness_checked (set_field s v obs) = readiness_checked obs"
  by (simp add: readiness_checked_def pull_request_set field_other)

lemma merged_set:
  "s \<notin> {''create_pull_request'', ''merge_readiness'', ''merge_exact_head''} \<Longrightarrow>
     head_merged (set_field s v obs) = head_merged obs"
  by (simp add: head_merged_def pull_request_set field_other)

lemma landed_set:
  "s \<notin> {''merge_exact_head'', ''refresh_landed''} \<Longrightarrow> merge_landed ss (set_field s v obs) = merge_landed ss obs"
  by (simp add: merge_landed_def field_other)

lemmas other_stage = published_set tested_set readiness_set merged_set landed_set

lemma stage_names:
  "stages ! 0 = ''refresh_default''" "stages ! 1 = ''reconcile_candidate''" "stages ! 2 = ''create_pull_request''"
  "stages ! 3 = ''exact_head_actions''" "stages ! 4 = ''merge_readiness''" "stages ! 5 = ''merge_exact_head''"
  "stages ! 6 = ''refresh_landed''" "stages ! 7 = ''documentation_reconcile''" "stages ! 8 = ''work_done''"
  "stages ! 9 = ''cleanup''"
  by (simp_all add: stages_def)

lemma stage_cases:
  assumes "n < length stages"
  obtains "n = 0" | "n = 1" | "n = 2" | "n = 3" | "n = 4" | "n = 5" | "n = 6" | "n = 7" | "n = 8" | "n = 9"
proof -
  from assms have "n = 0 \<or> n = 1 \<or> n = 2 \<or> n = 3 \<or> n = 4 \<or> n = 5 \<or> n = 6 \<or> n = 7 \<or> n = 8 \<or> n = 9"
    unfolding stages_length by arith
  then show thesis using that by blast
qed

lemma landing_stays:
  assumes "landing ss n obs" and "n < length stages"
  shows "landing ss n (set_field (stages ! n) v obs)"
  using assms(2)
  by (cases rule: stage_cases) (use assms(1) in \<open>simp_all add: landing_def stage_names other_stage\<close>)

section \<open>What each stage adds\<close>

lemma invoke_stage:
  "invoke ss ''create_pull_request'' = create_pull_request ss" "invoke ss ''exact_head_actions'' = exact_head_actions ss"
  "invoke ss ''merge_readiness'' = merge_readiness ss" "invoke ss ''merge_exact_head'' = merge_exact_head ss"
  "invoke ss ''refresh_landed'' = refresh_landed ss"
  by (simp_all add: invoke_def handlers_def fun_eq_iff)

lemma observed_Inr: "observed obs s = Inr d \<longleftrightarrow> field obs s = JObj d"
  by (simp add: observed_def required_mapping_Inr)

lemma create_publishes:
  assumes "create_pull_request ss h obs st = (Inr r, st')"
  shows "head_published (set_field ''create_pull_request'' (JObj (set_field ''_audit'' a r)) obs)"
proof -
  from assms obtain c head result pull where c: "observed obs ''reconcile_candidate'' = Inr c"
    and head: "required_text (field c ''commit_sha'') = Inr head"
    and pull: "required_int (field result ''pull_number'') = Inr pull"
    and r: "r = outcome ''applied'' result [(''pull_number'', JInt pull), (''head_sha'', JStr head)]"
    unfolding create_pull_request_def
    by (elim lift_bindS_InrE bindS_InrE) (auto simp: raise_if_eq_Inr)
  let ?r = "set_field ''_audit'' a r"
  have f: "field ?r ''pull_number'' = JInt pull" "field ?r ''head_sha'' = JStr head"
    by (simp_all add: r outcome_def field_set field_spread)
  have "0 < pull" "\<not> blank head" "py_strip head = head"
    using pull stripped [OF head] by (simp_all add: required_int_Inr)
  with f have "pull_request_of (set_field ''create_pull_request'' (JObj ?r) obs) pull head"
    unfolding pull_request_of_def by (simp add: field_set)
  moreover have "field (set_field ''create_pull_request'' (JObj ?r) obs) ''reconcile_candidate'' = JObj c"
    using c by (simp add: field_set observed_Inr)
  ultimately show ?thesis using head unfolding head_published_def by blast
qed

lemma action_result_Some:
  assumes "action_result detail run pull head workflow = Inr (Some r)"
  shows "field detail ''head_sha'' = JStr head \<and> field detail ''event'' = JStr ''pull_request'' \<and>
    (\<exists>prs. field detail ''pull_requests'' = JArr prs \<and> (\<exists>d \<in> set (objects_of prs). int_like (field d ''number'') = Some pull)) \<and>
    (passed_status (field r ''status'') = Inr True \<longrightarrow>
       field detail ''status'' = JStr ''completed'' \<and> field detail ''conclusion'' = JStr ''success'') \<and>
    field r ''head_sha'' = JStr head \<and> field r ''pull_number'' = JInt pull \<and> field r ''run_ids'' = JArr [JInt run]"
proof -
  from assms have hs: "field detail ''head_sha'' = JStr head" and ev: "field detail ''event'' = JStr ''pull_request''"
    by (simp_all add: action_result_def split: if_splits)
  with assms obtain prs numbers where prs: "field detail ''pull_requests'' = JArr prs"
    and numbers: "pull_numbers prs = Inr numbers" "Some pull \<in> int_like ` set numbers"
    and r: "r = (if field detail ''status'' \<noteq> JStr ''completed''
                      then blocked ''github_actions_pending'' (action_fields run pull head workflow)
                    else if field detail ''conclusion'' \<noteq> JStr ''success''
                      then blocked ''github_actions_failed'' (action_fields run pull head workflow)
                    else [(''status'', JStr ''passed''), (''reference'', JStr (''github-actions:'' @ json_int run))] @
                         action_fields run pull head workflow)"
    unfolding action_result_def
    by (cases "field detail ''pull_requests''") (simp_all add: bindE_eq_Inr split: if_split_asm; blast)+
  from numbers have "\<exists>d \<in> set (objects_of prs). int_like (field d ''number'') = Some pull"
    by (auto simp: pull_numbers_def Let_def split: if_splits)
  with hs ev prs show ?thesis
    by (auto simp: r blocked_def action_fields_def field_spread passed_status_def hashable_def)
qed

lemma pull_request_read:
  assumes "pull_request_of obs pull head" and "observed obs ''create_pull_request'' = Inr created"
  shows "required_int (field created ''pull_number'') = Inr pull" "required_text (field created ''head_sha'') = Inr head"
    "item created ''head_sha'' = Inr (JStr head)"
proof -
  from assms have f: "field created ''pull_number'' = JInt pull" "field created ''head_sha'' = JStr head" "0 < pull"
    "\<not> blank head" "py_strip head = head"
    by (auto simp: pull_request_of_def observed_Inr)
  then show "required_int (field created ''pull_number'') = Inr pull" "required_text (field created ''head_sha'') = Inr head"
    by (simp_all add: required_int_Inr required_text_Inr)
  from f(2) show "item created ''head_sha'' = Inr (JStr head)"
    by (simp add: field_map_of item_def dict_get_def split: option.splits)
qed

lemma recheck_tests:
  assumes "recheck_run ss persisted pull head workflow st = (Inr r, st')" and "passed_status (field r ''status'') = Inr True"
  shows "\<exists>run. field r ''head_sha'' = JStr head \<and> field r ''pull_number'' = JInt pull \<and>
    field r ''run_ids'' = JArr [JInt run] \<and> run_succeeded ss pull head run"
proof -
  from assms(1) obtain run detail q s1 s2 where d: "run_detail ss run s1 = (Inr detail, s2)"
    and q: "action_result detail run pull head workflow = Inr q"
    and tail: "(case q of None \<Rightarrow> failS ValueError | Some d \<Rightarrow> returnS d) s2 = (Inr r, st')"
    unfolding recheck_run_def by (elim lift_bindS_InrE bindS_InrE)
  from tail have "q = Some r" by (cases q) simp_all
  with action_result_Some [of detail run pull head workflow r] q assms(2) d show ?thesis
    unfolding run_succeeded_def by blast
qed

lemma scan_finds:
  "scan_runs ss pull head workflow runs st = (Inr (Some (run, detail)), st') \<Longrightarrow>
     \<exists>s1 s2 r. run_detail ss run s1 = (Inr detail, s2) \<and> action_result detail run pull head workflow = Inr (Some r)"
proof (induction runs arbitrary: st)
  case (Cons x runs)
  from Cons.prems obtain d q s1 where d: "run_detail ss x st = (Inr d, s1)"
    and q: "action_result d x pull head workflow = Inr q"
    and tail: "(case q of None \<Rightarrow> scan_runs ss pull head workflow runs | Some _ \<Rightarrow> returnS (Some (x, d))) s1 =
      (Inr (Some (run, detail)), st')"
    unfolding scan_runs.simps by (elim lift_bindS_InrE bindS_InrE)
  show ?case
  proof (cases q)
    case None
    with tail Cons.IH show ?thesis by simp
  next
    case (Some r)
    with tail have "run = x" "detail = d" by simp_all
    with d q Some show ?thesis by blast
  qed
qed simp

lemma selected_run_passes:
  assumes "passed_status (field (selected_run sel none detail pull head workflow) ''status'') = Inr True"
  obtains run where "sel = Some run" "field detail ''status'' = JStr ''completed''" "field detail ''conclusion'' = JStr ''success''"
    "field (selected_run sel none detail pull head workflow) ''head_sha'' = JStr head"
    "field (selected_run sel none detail pull head workflow) ''pull_number'' = JInt pull"
    "field (selected_run sel none detail pull head workflow) ''run_ids'' = JArr [JInt run]"
  using assms
  by (cases sel) (auto simp: selected_run_def blocked_def field_spread passed_status_def hashable_def action_fields_def
      split: if_splits)

lemma actions_test:
  assumes "exact_head_actions ss h obs st = (Inr r, st')" and "pull_request_of obs pull head"
    and "passed_status (field r ''status'') = Inr True"
  shows "\<exists>run. field r ''head_sha'' = JStr head \<and> field r ''pull_number'' = JInt pull \<and>
    field r ''run_ids'' = JArr [JInt run] \<and> run_succeeded ss pull head run"
proof -
  from assms(1) obtain created pull' head' workflow s1 where created: "observed obs ''create_pull_request'' = Inr created"
    and p: "required_int (field created ''pull_number'') = Inr pull'"
    and h: "required_text (field created ''head_sha'') = Inr head'"
    and tail: "(case previous_run obs pull' head' of
          Some persisted \<Rightarrow> recheck_run ss persisted pull' head' workflow
        | None \<Rightarrow>
            bindS (list_runs ss workflow) (\<lambda>listed.
            bindS (liftE (exact_runs (field listed ''workflow_runs'') head' workflow)) (\<lambda>runs.
            bindS (scan_runs ss pull' head' workflow runs) (\<lambda>found.
              returnS (selected_run (map_option fst found) (runs = [])
                (case found of None \<Rightarrow> [] | Some (_, d) \<Rightarrow> d) pull' head' workflow))))) s1 = (Inr r, st')"
    unfolding exact_head_actions_def by (elim lift_bindS_InrE bindS_InrE)
  from p h pull_request_read [OF assms(2) created] have [simp]: "pull' = pull" "head' = head" by simp_all
  show ?thesis
  proof (cases "previous_run obs pull head")
    case (Some persisted)
    with tail recheck_tests assms(3) show ?thesis by simp
  next
    case None
    with tail obtain runs found s2 s3 where found: "scan_runs ss pull head workflow runs s2 = (Inr found, s3)"
      and r: "r = selected_run (map_option fst found) (runs = []) (case found of None \<Rightarrow> [] | Some (_, d) \<Rightarrow> d) pull head workflow"
      by (auto elim!: lift_bindS_InrE bindS_InrE)
    from assms(3) [unfolded r] obtain run where run: "map_option fst found = Some run"
      and ok: "field (case found of None \<Rightarrow> [] | Some (_, d) \<Rightarrow> d) ''status'' = JStr ''completed''"
        "field (case found of None \<Rightarrow> [] | Some (_, d) \<Rightarrow> d) ''conclusion'' = JStr ''success''"
      and f: "field r ''head_sha'' = JStr head" "field r ''pull_number'' = JInt pull" "field r ''run_ids'' = JArr [JInt run]"
      unfolding r by (rule selected_run_passes)
    from run obtain detail where fd: "found = Some (run, detail)" by (cases found) auto
    with scan_finds [of ss pull head workflow runs s2 run detail s3] found obtain a b q
      where "run_detail ss run a = (Inr detail, b)" "action_result detail run pull head workflow = Inr (Some q)" by blast
    with action_result_Some [OF this(2)] ok fd have "run_succeeded ss pull head run"
      unfolding run_succeeded_def by simp blast
    with f show ?thesis by blast
  qed
qed

lemma readiness_names_head:
  assumes "merge_readiness ss h obs st = (Inr r, st')" and "pull_request_of obs pull head"
    and "field r ''ready'' = JBool True"
  shows "field r ''pull_number'' = JInt pull \<and> field r ''head_sha'' = JStr head"
proof -
  from assms(1) obtain created pull' result s1 where created: "observed obs ''create_pull_request'' = Inr created"
    and p: "required_int (field created ''pull_number'') = Inr pull'"
    and tail: "(if field result ''ready'' \<noteq> JBool True then returnS (blocked ''work_merge_readiness_blocked'' result)
       else bindS (liftE (item created ''head_sha'')) (\<lambda>head.
         returnS (outcome ''satisfied'' result [(''pull_number'', JInt pull'), (''head_sha'', head)]))) s1 = (Inr r, st')"
    unfolding merge_readiness_def by (elim lift_bindS_InrE bindS_InrE)
  note read = pull_request_read [OF assms(2) created]
  show ?thesis
  proof (cases "field result ''ready'' = JBool True")
    case True
    with tail read p show ?thesis by (auto simp: outcome_def field_spread elim: lift_bindS_InrE)
  next
    case False
    with tail have "r = blocked ''work_merge_readiness_blocked'' result" by simp
    with False assms(3) show ?thesis by (simp add: field_blocked)
  qed
qed

lemma reconcile_names_head:
  "reconcile_merge ss pull head st = (Inr (Some r), st') \<Longrightarrow> field r ''pull_number'' = JInt pull \<and> field r ''head_sha'' = JStr head"
  unfolding reconcile_merge_def
  by (elim lift_bindS_InrE bindS_InrE) (auto split: if_splits option.splits)

lemma attempt_names_head:
  assumes "attempt_merge ss pull head st = (Inr r, st')"
  shows "field r ''pull_number'' = JInt pull \<and> field r ''head_sha'' = JStr head"
proof -
  from assms obtain q s1 where tail: "(case q of
          Inl e \<Rightarrow> bindS (reconcile_merge ss pull head) (\<lambda>reconciled.
            (case reconciled of
               Some d \<Rightarrow> returnS d
             | None \<Rightarrow> returnS (blocked ''merge_result_uncertain''
                 [(''pull_number'', JInt pull), (''head_sha'', JStr head), (''error_type'', JStr (ss_error_name ss e))])))
        | Inr result \<Rightarrow>
            (case nonblank_text (merge_commit_of result) of
               None \<Rightarrow> returnS (spread (blocked ''merge_identity_pending'' result)
                         [(''pull_number'', JInt pull), (''head_sha'', JStr head)])
             | Some _ \<Rightarrow> returnS (outcome ''applied'' result [(''pull_number'', JInt pull), (''head_sha'', JStr head)]))) s1 =
      (Inr r, st')"
    unfolding attempt_merge_def by (rule bindS_InrE)
  show ?thesis
  proof (cases q)
    case (Inl e)
    with tail obtain d s2 where d: "reconcile_merge ss pull head s1 = (Inr d, s2)"
      and r: "(case d of Some d \<Rightarrow> returnS d
             | None \<Rightarrow> returnS (blocked ''merge_result_uncertain''
                 [(''pull_number'', JInt pull), (''head_sha'', JStr head), (''error_type'', JStr (ss_error_name ss e))])) s2 = (Inr r, st')"
      by (auto elim: bindS_InrE)
    show ?thesis
    proof (cases d)
      case None
      with r show ?thesis by (auto simp: blocked_def field_spread)
    next
      case (Some x)
      with r d reconcile_names_head [of ss pull head s1 r s2] show ?thesis by simp
    qed
  next
    case (Inr result)
    with tail show ?thesis by (auto simp: outcome_def field_spread split: option.splits)
  qed
qed

lemma merge_names_head:
  assumes "merge_exact_head ss h obs st = (Inr r, st')" and "readiness_checked obs"
    and "passed_status (field r ''status'') = Inr True"
  shows "\<exists>pull head q. pull_request_of obs pull head \<and> field obs ''merge_readiness'' = JObj q \<and> field q ''ready'' = JBool True \<and>
    field r ''pull_number'' = JInt pull \<and> field r ''head_sha'' = JStr head"
proof -
  from assms(1) obtain q go s1 where q: "observed obs ''merge_readiness'' = Inr q"
    and go: "(if field q ''ready'' \<noteq> JBool True then Inr False else passed_status (field q ''status'')) = Inr go"
    and tail: "(if \<not> go then returnS (blocked ''work_merge_readiness_blocked'' [])
       else
         bindS (liftE (required_int (field q ''pull_number''))) (\<lambda>pull.
         bindS (liftE (required_text (field q ''head_sha''))) (\<lambda>head.
         bindS (if merge_uncertain obs then reconcile_merge ss pull head else returnS None) (\<lambda>reconciled.
           (case reconciled of Some d \<Rightarrow> returnS d | None \<Rightarrow> attempt_merge ss pull head))))) s1 = (Inr r, st')"
    unfolding merge_exact_head_def by (elim lift_bindS_InrE bindS_InrE)
  have go
  proof (rule ccontr)
    assume "\<not> go"
    with tail have "r = blocked ''work_merge_readiness_blocked'' []" by simp
    with blocked_not_passed [of "[]"] assms(3) show False by simp
  qed
  with go have ready: "field q ''ready'' = JBool True" by (simp split: if_splits)
  with assms(2) q obtain pull head where ph: "pull_request_of obs pull head" "field q ''pull_number'' = JInt pull"
    "field q ''head_sha'' = JStr head"
    by (auto simp: readiness_checked_def observed_Inr)
  then have req: "required_int (field q ''pull_number'') = Inr pull" "required_text (field q ''head_sha'') = Inr head"
    by (auto simp: pull_request_of_def required_int_Inr required_text_Inr)
  from tail \<open>go\<close> obtain d s2 where d: "(if merge_uncertain obs then reconcile_merge ss pull head else returnS None) s1 = (Inr d, s2)"
    and r: "(case d of Some d \<Rightarrow> returnS d | None \<Rightarrow> attempt_merge ss pull head) s2 = (Inr r, st')"
    by (auto simp: req elim: bindS_InrE)
  have "field r ''pull_number'' = JInt pull \<and> field r ''head_sha'' = JStr head"
  proof (cases d)
    case None
    with r attempt_names_head show ?thesis by simp
  next
    case (Some x)
    with r d reconcile_names_head [of ss pull head s1 r s2] show ?thesis by (simp split: if_splits)
  qed
  with ph ready q show ?thesis by (auto simp: observed_Inr)
qed

lemma contains_history:
  "default_contains ss landed commit st = (Inr True, st') \<Longrightarrow> in_history ss landed commit"
  unfolding default_contains_def in_history_def
  by (auto simp: tryS_def bindS_def split: if_splits sum.splits prod.splits)

lemma refresh_lands:
  assumes "refresh_landed ss h obs st = (Inr r, st')" and "passed_status (field r ''status'') = Inr True"
  shows "\<exists>q commit landed. field obs ''merge_exact_head'' = JObj q \<and> required_text (merge_commit_of q) = Inr commit \<and>
    field r ''landed_sha'' = JStr landed \<and> field r ''merge_commit_sha'' = JStr commit \<and>
    (refresh_without_status ss \<longrightarrow> in_history ss landed commit)"
proof -
  from assms(1) obtain q commit current result landed inside s1 s2 s3 s4
    where q: "observed obs ''merge_exact_head'' = Inr q" and c: "required_text (merge_commit_of q) = Inr commit"
      and res: "refresh_registered ss current s1 = (Inr result, s2)"
      and inside: "default_contains ss landed commit s3 = (Inr inside, s4)"
      and r: "(let more_fields = [(''landed_sha'', JStr landed), (''merge_commit_sha'', JStr commit)] in
       returnS (if inside then outcome ''applied'' result more_fields
                else spread (blocked ''merge_commit_not_in_default_history'' result) more_fields)) s4 = (Inr r, st')"
    unfolding refresh_landed_def by (elim lift_bindS_InrE bindS_InrE)
  have f: "field r ''landed_sha'' = JStr landed" "field r ''merge_commit_sha'' = JStr commit"
    using r by (auto simp: Let_def outcome_def field_spread)
  have "in_history ss landed commit" if "refresh_without_status ss"
  proof (cases inside)
    case True
    with inside contains_history show ?thesis by simp
  next
    case False
    have s: "field result ''status'' = JNull" using that res by (auto simp: refresh_without_status_def)
    from False r have "r = spread (blocked ''merge_commit_not_in_default_history'' result)
        [(''landed_sha'', JStr landed), (''merge_commit_sha'', JStr commit)]" by (simp add: Let_def)
    then have "field r ''status'' = field (blocked ''merge_commit_not_in_default_history'' result) ''status''"
      by (simp add: field_spread)
    with blocked_not_passed [OF s] assms(2) show ?thesis by simp
  qed
  with q c f show ?thesis unfolding observed_Inr by blast
qed

section \<open>The service behind the controller\<close>

lemma landing_extends:
  assumes "landing ss n obs" and "n < length stages" and "invoke ss (stages ! n) h obs st = (Inr r, st')"
    and "passed_status (field r ''status'') = Inr True"
  shows "landing ss (Suc n) (set_field (stages ! n) (JObj (set_field ''_audit'' a r)) obs)"
proof -
  let ?r = "set_field ''_audit'' a r"
  let ?obs = "set_field (stages ! n) (JObj ?r) obs"
  have old: "landing ss n ?obs" by (rule landing_stays [OF assms(1,2)])
  have audit: "field ?r k = field r k" if "k \<noteq> ''_audit''" for k using that by (simp add: field_set)
  have own: "field ?obs (stages ! n) = JObj ?r" by (simp add: field_set)
  consider "n = 2" | "n = 3" | "n = 4" | "n = 5" | "n = 6" | "n \<notin> {2, 3, 4, 5, 6}" by auto
  then show ?thesis
  proof cases
    case 1
    with create_publishes [of ss h obs st r st' a] assms(3) show ?thesis by (simp add: landing_def stage_names invoke_stage)
  next
    case 2
    with assms(1) obtain pull head where ph: "pull_request_of obs pull head" by (auto simp: landing_def head_published_def)
    have "exact_head_actions ss h obs st = (Inr r, st')" using assms(3) 2 by (simp add: stage_names invoke_stage)
    from actions_test [OF this ph assms(4)] obtain run where
      "field r ''head_sha'' = JStr head" "field r ''pull_number'' = JInt pull" "field r ''run_ids'' = JArr [JInt run]"
      "run_succeeded ss pull head run" by blast
    then have "field ?r ''head_sha'' = JStr head" "field ?r ''pull_number'' = JInt pull" "field ?r ''run_ids'' = JArr [JInt run]"
      "run_succeeded ss pull head run" by (simp_all add: audit)
    moreover have "pull_request_of ?obs pull head" using ph 2 by (simp add: pull_request_set stage_names)
    ultimately have "head_tested ss ?obs" unfolding head_tested_def using own 2 by (simp add: stage_names)
    with old 2 show ?thesis by (simp add: landing_def)
  next
    case 3
    with assms(1) obtain pull head where ph: "pull_request_of obs pull head" by (auto simp: landing_def head_published_def)
    have inv: "merge_readiness ss h obs st = (Inr r, st')" using assms(3) 3 by (simp add: stage_names invoke_stage)
    from readiness_names_head [OF inv ph]
    have "field r ''ready'' = JBool True \<longrightarrow> field r ''pull_number'' = JInt pull \<and> field r ''head_sha'' = JStr head"
      by blast
    moreover have "pull_request_of ?obs pull head" using ph 3 by (simp add: pull_request_set stage_names)
    ultimately have "readiness_checked ?obs"
      unfolding readiness_checked_def using own 3 by (intro exI [of _ ?r]) (auto simp: stage_names audit)
    with old 3 show ?thesis by (simp add: landing_def)
  next
    case 4
    with assms(1) have rc: "readiness_checked obs" by (simp add: landing_def)
    have inv: "merge_exact_head ss h obs st = (Inr r, st')" using assms(3) 4 by (simp add: stage_names invoke_stage)
    from merge_names_head [OF inv rc assms(4)] obtain pull head q where m: "pull_request_of obs pull head"
      "field obs ''merge_readiness'' = JObj q" "field q ''ready'' = JBool True" "field r ''pull_number'' = JInt pull"
      "field r ''head_sha'' = JStr head" by blast
    have "pull_request_of ?obs pull head" "field ?obs ''merge_readiness'' = JObj q"
      using m 4 by (simp_all add: pull_request_set stage_names field_set)
    moreover have "field ?obs ''merge_exact_head'' = JObj ?r" using own 4 by (simp add: stage_names)
    moreover have "field ?r ''pull_number'' = JInt pull" "field ?r ''head_sha'' = JStr head" using m by (simp_all add: audit)
    ultimately have "head_merged ?obs" using m(3) unfolding head_merged_def by blast
    with old 4 show ?thesis by (simp add: landing_def)
  next
    case 5
    then have inv: "refresh_landed ss h obs st = (Inr r, st')" using assms(3) by (simp add: stage_names invoke_stage)
    from refresh_lands [OF inv assms(4)] obtain q commit landed where m: "field obs ''merge_exact_head'' = JObj q"
      "required_text (merge_commit_of q) = Inr commit" "field r ''landed_sha'' = JStr landed"
      "field r ''merge_commit_sha'' = JStr commit" "refresh_without_status ss \<longrightarrow> in_history ss landed commit"
      by blast
    have "field ?obs ''merge_exact_head'' = JObj q" using m 5 by (simp add: stage_names field_set)
    moreover have "field ?obs ''refresh_landed'' = JObj ?r" using own 5 by (simp add: stage_names)
    moreover have "field ?r ''landed_sha'' = JStr landed" "field ?r ''merge_commit_sha'' = JStr commit"
      using m by (simp_all add: audit)
    ultimately have "merge_landed ss ?obs" using m(2,5) unfolding merge_landed_def by blast
    with old 5 show ?thesis by (simp add: landing_def)
  next
    case 6
    then have "2 < Suc n \<longleftrightarrow> 2 < n" "3 < Suc n \<longleftrightarrow> 3 < n" "4 < Suc n \<longleftrightarrow> 4 < n" "5 < Suc n \<longleftrightarrow> 5 < n" "6 < Suc n \<longleftrightarrow> 6 < n"
      by auto
    with old show ?thesis unfolding landing_def by blast
  qed
qed

interpretation promoted: stage_links landing
  by unfold_locales
    (rule landing_stored landing_stays landing_extends; assumption | simp add: landing_def)+

end
