(* ===== verification/Promotion_Landing_Claims.thy ===== *)
theory Promotion_Landing_Claims
  imports Promotion_Landing
begin

text \<open>
  The promises of a promotion as a whole: what is done has landed the head that was tested, and with the
  answers that the readiness tool of this repository gives no promotion is ever done.
\<close>

section \<open>The readiness tool\<close>

text \<open>
  The answer of \<open>project_management_merge_readiness\<close> (\<open>workflows/project_management/tools.py\<close>), with the
  evaluated readiness (\<open>MergeReadiness.to_json_dict\<close>) as its argument.
\<close>

definition readiness_report :: "string list \<Rightarrow> string list \<Rightarrow> obj \<Rightarrow> obj" where
  "readiness_report reasons advisories traceability =
     [(''ready'', JBool (reasons = [])), (''blocking_reasons'', str_array reasons), (''advisories'', str_array advisories),
      (''traceability'', JObj traceability)]"

definition readiness_answer :: "json \<Rightarrow> (string list \<times> string list \<times> obj) \<Rightarrow> obj" where
  "readiness_answer record_id evaluated =
     (if \<not> truthy record_id then
        [(''schema_version'', JInt 1), (''status'', JStr ''unmanaged''), (''managed'', JBool False), (''ready'', JBool False),
         (''error_code'', JStr ''not_found''), (''blocking_reasons'', JArr []),
         (''advisories'', JArr [JStr ''work_record_not_found''])]
      else (case evaluated of (reasons, advisories, traceability) \<Rightarrow>
        spread [(''schema_version'', JInt 1), (''status'', JStr (if reasons = [] then ''ready'' else ''blocked'')),
                (''managed'', JBool True), (''error_code'', JNull)]
          (readiness_report reasons advisories traceability)))"

text \<open>A service whose readiness calls reach that tool.\<close>

definition answers_readiness :: "'s stage_service \<Rightarrow> bool" where
  "answers_readiness ss =
     (\<forall>args st r st'. ss_call ss ''project_management_merge_readiness'' args st = (Inr r, st') \<longrightarrow>
        (\<exists>record_id evaluated. r = readiness_answer record_id evaluated))"

lemma readiness_status:
  "field (readiness_answer rid evaluated) ''status'' \<in> {JStr ''ready'', JStr ''blocked'', JStr ''unmanaged''}"
  by (cases evaluated) (auto simp: readiness_answer_def readiness_report_def field_spread)

lemma merge_readiness_status:
  assumes "answers_readiness ss" and "merge_readiness ss h obs st = (Inr r, st')"
  shows "passed_status (field r ''status'') \<noteq> Inr True"
proof -
  from assms(2) obtain created pull tr result s1 s2
    where call: "ss_call ss ''project_management_merge_readiness''
              [(''record'', JObj (ss_record ss)), (''trace'', JObj tr), (''pull_request_number'', JInt pull)] s1 = (Inr result, s2)"
    and tail: "(if field result ''ready'' \<noteq> JBool True then returnS (blocked ''work_merge_readiness_blocked'' result)
       else bindS (liftE (item created ''head_sha'')) (\<lambda>head.
         returnS (outcome ''satisfied'' result [(''pull_number'', JInt pull), (''head_sha'', head)]))) s2 = (Inr r, st')"
    unfolding merge_readiness_def by (elim lift_bindS_InrE bindS_InrE)
  from assms(1) call obtain rid ev where "result = readiness_answer rid ev" unfolding answers_readiness_def by blast
  with readiness_status [of rid ev] obtain s where s: "map_of result ''status'' = Some (JStr s)"
    and ns: "s \<in> {''ready'', ''blocked'', ''unmanaged''}"
    by (auto simp: field_map_of split: option.splits)
  have "field r ''status'' = JStr s"
  proof (cases "field result ''ready'' = JBool True")
    case True
    with tail obtain head where "r = outcome ''satisfied'' result [(''pull_number'', JInt pull), (''head_sha'', head)]"
      by (auto elim!: lift_bindS_InrE)
    with s show ?thesis by (simp add: outcome_def field_spread)
  next
    case False
    with tail have "r = blocked ''work_merge_readiness_blocked'' result" by simp
    with s show ?thesis by (simp add: blocked_def field_spread)
  qed
  with ns show ?thesis by (auto simp: passed_status_def hashable_def)
qed

text \<open>At most four stages are ever completed.\<close>

definition before_readiness :: "'s stage_service \<Rightarrow> nat \<Rightarrow> obj \<Rightarrow> bool" where
  "before_readiness ss n obs = (answers_readiness ss \<longrightarrow> n \<le> 4)"

lemma readiness_stops:
  assumes "before_readiness ss n obs" and "invoke ss (stages ! n) h obs st = (Inr r, st')"
    and "passed_status (field r ''status'') = Inr True"
  shows "before_readiness ss (Suc n) obs'"
proof -
  have "n \<noteq> 4" if "answers_readiness ss"
  proof
    assume "n = 4"
    with assms(2) have "merge_readiness ss h obs st = (Inr r, st')" by (simp add: stage_names invoke_stage)
    from merge_readiness_status [OF that this] assms(3) show False by simp
  qed
  with assms(1) show ?thesis by (auto simp: before_readiness_def)
qed

interpretation stopped: stage_links before_readiness
proof unfold_locales
  fix ss n obs h st r st' a
  assume "before_readiness ss n obs" "invoke ss (stages ! n) h obs st = (Inr r, st')"
    "passed_status (field r ''status'') = Inr True"
  then show "before_readiness ss (Suc n) (set_field (stages ! n) (JObj (set_field ''_audit'' a r)) obs)"
    by (rule readiness_stops)
qed (simp_all add: before_readiness_def)

section \<open>The completion of the work\<close>

text \<open>
  The answer of \<open>complete_work\<close> (\<open>work_management/service.py\<close>) once the transition is allowed: the outcomes of
  the field updates, each with whether it succeeded.
\<close>

definition completion_answer :: "bool \<Rightarrow> (bool \<times> json) list \<Rightarrow> obj" where
  "completion_answer applied outcomes =
     [(''mode'', JStr (if applied then ''apply'' else ''preview'')), (''outcomes'', JArr (map snd outcomes)),
      (''source_close_required'', JBool (\<forall>x \<in> set outcomes. fst x))]"

section \<open>A concrete service\<close>

definition demo_answer :: "obj \<Rightarrow> string \<Rightarrow> obj \<Rightarrow> obj" where
  "demo_answer ready tool args =
     (if tool = ''github_get_commit'' then [(''sha'', JStr ''d1'')]
      else if tool = ''execute_external_action'' then
        (let op_name = field args ''operation'' in
         if op_name = JStr ''kis_github_reconcile_registered_commit'' then [(''commit_sha'', JStr ''h1'')]
         else if op_name = JStr ''kis_github_create_registered_pull_request'' then [(''pull_number'', JInt 7)]
         else if op_name = JStr ''kis_github_merge_registered_pull_request'' then [(''merge_commit_sha'', JStr ''d1'')]
         else [])
      else if tool = ''github_actions_list'' then
        [(''workflow_runs'', JArr [JObj [(''head_sha'', JStr ''h1''), (''path'', JStr ''.github/verify.yml''), (''id'', JInt 3)]])]
      else if tool = ''github_actions_get'' then
        [(''head_sha'', JStr ''h1''), (''event'', JStr ''pull_request''), (''status'', JStr ''completed''),
         (''conclusion'', JStr ''success''), (''pull_requests'', JArr [JObj [(''number'', JInt 7)]])]
      else if tool = ''project_management_merge_readiness'' then ready
      else if tool = ''project_management_documentation_reconcile'' then
        [(''phase'', JStr ''post_merge_complete''),
         (''event'', JObj [(''completion_revision'', JStr ''d1''), (''event_id'', JStr ''e'')]),
         (''record'', JObj [(''documentation_impact'', JStr ''post_merge_complete''), (''record_id'', JStr ''SPEC-1'')])]
      else if tool = ''project_management_complete_work'' then
        [(''mode'', JStr ''apply''), (''source_close_required'', JBool True)]
      else [])"

definition demo_contract :: contract where
  "demo_contract = \<lparr>hc_project = ''p'', hc_work = ''WORK-1'', hc_repository = ''o/r'', hc_requirements = [''q''],
     hc_acceptance = [''a''], hc_surfaces = [''cli''], hc_obligations = [], hc_port = 46000, hc_source = ''s'',
     hc_change = Some ''c'', hc_schema = 2\<rparr>"

definition demo_scope :: obj where
  "demo_scope = [(''change_id'', JStr ''c''), (''base'', JStr ''main''), (''worktree'', JStr ''w''),
     (''base_evidence'', JObj [(''local_sha'', JStr ''b1'')]),
     (''work_management'', JObj [(''record_id'', JStr ''WORK-1''), (''project_id'', JStr ''p''),
        (''source_repository'', JStr ''o/r''), (''source_number'', JInt 1)])]"

definition demo_record :: obj where
  "demo_record = [(''project_id'', JStr ''p''), (''record_type'', JStr ''specification_slice''), (''record_id'', JStr ''SPEC-1''),
     (''title'', JStr ''t''), (''documentation_impact'', JStr ''pre_merge_complete'')]"

definition demo_service :: "obj \<Rightarrow> int promotion_state stage_service" where
  "demo_service ready = \<lparr>ss_call = (\<lambda>tool args st. (Inr (demo_answer ready tool args), st)),
     ss_cleanup = Some (\<lambda>_ _ st. (Inr [], st)), ss_ancestor = (\<lambda>_ _ st. (Inr 1, st)),
     ss_settings = (\<lambda>_. Some (Content (JObj [(''verification_workflow'', JStr ''verify.yml'')]))),
     ss_error_name = (\<lambda>_. ''ToolError''), ss_contract = demo_contract, ss_scope = demo_scope, ss_record = demo_record,
     ss_owner = ''o'', ss_repo = ''r'', ss_change = ''c'', ss_branch = ''change/c'', ss_base = ''main''\<rparr>"

definition demo_stages :: "obj \<Rightarrow> int controller" where
  "demo_stages ready = stage_controller (demo_service ready) (\<lambda>w. (w, w)) (\<lambda>w. (w, w)) (\<lambda>_. ''digest'') (\<lambda>_ _. []) (\<lambda>_. returnS ())"


definition demo_documentation :: obj where
  "demo_documentation =
     [(''phase'', JStr ''post_merge_complete''),
      (''event'', JObj [(''completion_revision'', JStr ''d1''), (''event_id'', JStr ''e'')]),
      (''record'', JObj [(''documentation_impact'', JStr ''post_merge_complete''), (''record_id'', JStr ''SPEC-1'')])]"

definition demo_trace :: obj where
  "demo_trace =
     [(''schema_version'', JInt 1), (''project_id'', JStr ''p''), (''implementation_record_id'', JStr ''SPEC-1''),
      (''specification_record_id'', JStr ''SPEC-1''), (''change_id'', JStr ''c''), (''branch'', JStr ''change/c''),
      (''worktree'', JStr ''w''),
      (''pull_requests'', JArr [JObj [(''repository'', JStr ''o/r''), (''number'', JInt 7), (''head_branch'', JStr ''change/c''),
         (''head_revision'', JStr ''h1''), (''base_branch'', JStr ''main''), (''state'', JStr ''merged'')]]),
      (''verifications'', JArr [JObj [(''evidence_id'', JStr ''github-actions-pr-7''), (''pull_request_number'', JInt 7),
         (''revision'', JStr ''h1''), (''status'', JStr ''passed''), (''command'', JStr ''provider-native GitHub Actions''),
         (''source'', JStr ''github_actions''), (''reference'', JStr ''github-actions:3'')]]),
      (''merges'', JArr [JObj [(''pull_request_number'', JInt 7), (''merge_commit'', JStr ''d1''), (''head_revision'', JStr ''h1'')]]),
      (''documentation_events'', JArr [])]"

definition demo_observation :: "string \<Rightarrow> obj" where
  "demo_observation s =
     (if s = ''refresh_default'' then [(''status'', JStr ''applied''), (''github_default_sha'', JStr ''d1'')]
      else if s = ''reconcile_candidate''
      then [(''status'', JStr ''applied''), (''commit_sha'', JStr ''h1''), (''branch'', JStr ''change/c'')]
      else if s = ''create_pull_request''
      then [(''status'', JStr ''applied''), (''pull_number'', JInt 7), (''head_sha'', JStr ''h1'')]
      else if s = ''exact_head_actions''
      then [(''status'', JStr ''passed''), (''pull_number'', JInt 7), (''head_sha'', JStr ''h1''),
            (''workflow'', JStr ''verify.yml''), (''reference'', JStr ''github-actions:3''), (''run_ids'', JArr [JInt 3])]
      else if s = ''merge_readiness''
      then [(''status'', JStr ''satisfied''), (''ready'', JBool True), (''pull_number'', JInt 7), (''head_sha'', JStr ''h1'')]
      else if s = ''merge_exact_head''
      then [(''status'', JStr ''applied''), (''merge_commit_sha'', JStr ''d1''), (''pull_number'', JInt 7), (''head_sha'', JStr ''h1'')]
      else if s = ''refresh_landed''
      then [(''status'', JStr ''applied''), (''landed_sha'', JStr ''d1''), (''merge_commit_sha'', JStr ''d1'')]
      else if s = ''documentation_reconcile''
      then (''status'', JStr ''satisfied'') # demo_documentation @
           [(''trace'', JObj demo_trace), (''completion_revision'', JStr ''d1'')]
      else if s = ''work_done''
      then [(''status'', JStr ''applied''), (''mode'', JStr ''apply''), (''source_close_required'', JBool True),
            (''record'', field demo_documentation ''record''), 
            (''work_completion'', JObj [(''mode'', JStr ''apply''), (''source_close_required'', JBool True)]),
            (''source_close_applied'', JBool True), (''source_close_reconciled_after_error'', JBool False)]
      else [(''status'', JStr ''applied'')]) @ [(''_audit'', JObj [])]"


lemma demo_service_made:
  "make_service (ss_call (demo_service r)) (ss_cleanup (demo_service r)) (ss_ancestor (demo_service r))
     (ss_settings (demo_service r)) (ss_error_name (demo_service r)) demo_contract demo_scope demo_record True None =
   Inr (demo_service r)"
proof -
  have c: "hc_repository demo_contract = ''o/r''" "hc_change demo_contract = Some ''c''" by (simp_all add: demo_contract_def)
  have p: "split_repository ''o/r'' = Inr (''o'', ''r'')" "required_text (str_option (Some ''c'')) = Inr ''c''"
    "required_text (field demo_scope ''base'') = Inr ''main''"
    "validate_identity_binding demo_contract demo_scope demo_record ''c'' = Inr ()" by code_simp+
  show ?thesis by (simp add: make_service_def c p demo_service_def)
qed

lemma demo_passing_run: "passing_run (demo_stages [(''ready'', JBool True)]) demo_handoff demo_observation"
proof -
  have "(\<forall>st. fst (pc_invoke (demo_stages [(''ready'', JBool True)]) (stages ! k) demo_handoff (observed_upto demo_observation k) st) =
      Inr (demo_observation (stages ! k))) \<and>
    field (demo_observation (stages ! k)) ''status'' \<in> {JStr ''passed'', JStr ''satisfied'', JStr ''applied''}"
    if "k \<in> set [0, 1, 2, 3, 4, 5, 6, 7, 8, 9]" for k
    using that [unfolded list.set insert_iff empty_iff] by (elim disjE FalseE; hypsubst; intro conjI allI) (code_simp+)
  then show ?thesis unfolding passing_run_def by (simp add: stages_def less_Suc_eq numeral_nat)
qed

definition demo_landed :: receipt_facts where
  "demo_landed = \<lparr>rf_work = ''WORK-1'', rf_change = ''change-1'', rf_commit = ''c1'', rf_pull = 7, rf_head = ''h1'', rf_run = 3,
     rf_actions = ''github-actions:3'', rf_merge = ''d1'', rf_landed = ''d1'', rf_documentation = ''d1'', rf_record = ''SPEC-1''\<rparr>"

lemma demo_stage_receipt: "receipt_facts_of demo_handoff (all_observed demo_observation) = Inr demo_landed"
  by code_simp

lemma demo_stages_done:
  obtains x st' where "converge (demo_stages [(''ready'', JBool True)]) ''op'' demo_handoff empty_state = (Inr x, st')"
    "px_state x = ''done''"
proof -
  let ?pc = "demo_stages [(''ready'', JBool True)]"
  obtain t s1 where c: "converge ?pc ''op'' demo_handoff empty_state =
      finish ?pc ''op'' demo_handoff (fingerprint (pc_sha ?pc) (JObj demo_handoff)) (all_observed demo_observation) t s1"
    by (rule converge_along [OF _ _ demo_passing_run]) auto
  obtain now s2 where "tick (pc_now ?pc) s1 = (Inr now, s2)" using tick_total by blast
  with c that show ?thesis
    by (simp add: finish_def build_terminal_receipt_def Let_def save_step demo_stage_receipt lift_cases
        bindS_simps(1) [of "tick (pc_now ?pc)"])
qed

section \<open>Claims\<close>

text \<open>C24: a promotion resumes and completes, for results of the stages that may depend on the handoff, the earlier
  observations and the state.  Let a condition on observations and state hold of what the checkpoint recorded, survive
  the controller's own writes and clock readings, and carry every open stage through: the stage, in that condition,
  passes and establishes the condition of the next one.  If the condition after the last stage allows the receipt to be
  built, and the back-off of an earlier failure has passed, the call completes all ten stages and reports done with that
  receipt; the condition holds at the end and the stored checkpoint projects as done.\<close>

theorem passing_promotion_completes:
  assumes "field h ''status'' = JStr ''promotion_ready''" and "load_checkpoint (pc_sha pc) op_id st = Inr cp"
    and "resume_from h (fingerprint (pc_sha pc) (JObj h)) cp = Inr rp"
    and "rp_completed rp = map JStr (take n stages)" and "n \<le> length stages"
    and "rp_receipt rp = None" and "telemetry_ok (rp_telemetry rp)"
    and "\<And>i. retry_instant cp (rp_completed rp) = Some i \<Longrightarrow> i \<le> fst (pc_now pc (ps_world st))"
    and "steady pc op_id good" and "carries pc h good n" and "good n (rp_observations rp) st"
    and "\<And>obs s. good (length stages) obs s \<Longrightarrow> \<exists>f. receipt_facts_of h obs = Inr f"
  shows "\<exists>x st' f now t d p. converge pc op_id h st = (Inr x, st') \<and> px_state x = ''done'' \<and> px_completed x = stages \<and>
    good (length stages) (px_observations x) st' \<and> receipt_facts_of h (px_observations x) = Inr f \<and>
    px_receipt x = Some (receipt_fields op_id now (px_observations x) t f) \<and>
    load_checkpoint (pc_sha pc) op_id st' = Inr (Some d) \<and> project_promotion_checkpoint (Some d) = Inr p \<and>
    pj_state p = ''done''"
proof -
  let ?fp = "fingerprint (pc_sha pc) (JObj h)"
  have o: "ordered_prefix (rp_completed rp)" by (simp add: assms(4))
  from converge_resumes [OF assms(1-3) o assms(8)] obtain s0
    where s0: "converge pc op_id h st = proceed pc op_id h ?fp cp rp s0" "s0 = st \<or> s0 = snd (tick (pc_now pc) st)" by blast
  have len: "length (rp_completed rp) = n" using assms(4,5) by simp
  have "good n (rp_observations rp) s0" using s0(2) assms(9,11) by (auto simp: steady_def)
  from run_stages_carries [OF assms(9,10,5) this assms(7), of ?fp "take n stages"] obtain obs t s1
    where r: "run_stages pc op_id h ?fp (take n stages) (drop n stages) (rp_observations rp) (rp_telemetry rp) s0 =
      (Inr (Inr (obs, t)), s1)" "good (length stages) obs s1" by blast
  from assms(12) [OF r(2)] obtain f where f: "receipt_facts_of h obs = Inr f" ..
  have run: "converge pc op_id h st = finish pc op_id h ?fp obs t s1"
    using assms(6) s0(1) len r(1) by (simp add: proceed_def run_from_def split: option.splits)
  from steady_tick [where f = "pc_now pc", OF assms(9) r(2)] obtain now s2
    where now: "tick (pc_now pc) s1 = (Inr now, s2)" "good (length stages) obs s2" by auto
  from finish_done [where op_id = op_id and fp = ?fp and t = t, OF f now(1)] obtain x d p where x: "finish pc op_id h ?fp obs t s1 =
      (Inr x, snd (save_checkpoint (pc_sha pc) op_id d s2))" "px_state x = ''done''" "px_completed x = stages"
    "px_observations x = obs" "px_receipt x = Some (receipt_fields op_id now obs t f)"
    "project_promotion_checkpoint (Some (stored_obj d)) = Inr p" "pj_state p = ''done''" by blast
  show ?thesis
    by (intro exI conjI, rule trans [OF run x(1)])
      (use x steady_save [OF assms(9) now(2)] f in \<open>simp_all add: load_saved\<close>)
qed

lemma passing_promotion_completes_witness:
  "\<exists>x st'. converge (demo_stages [(''ready'', JBool True)]) ''op'' demo_handoff empty_state = (Inr x, st') \<and>
     px_state x = ''done'' \<and> px_observations x = all_observed demo_observation"
proof -
  let ?pc = "demo_stages [(''ready'', JBool True)]"
  have none: "retry_instant None xs = None" for xs by (simp add: retry_instant_def)
  have r: "\<exists>f. receipt_facts_of demo_handoff obs = Inr f" if "on_course demo_observation (length stages) obs s" for obs s
    using that demo_stage_receipt by (simp add: on_course_def all_observed_def)
  have s: "on_course demo_observation 0 (rp_observations fresh_point) empty_state"
    by (simp add: on_course_def observed_upto_def fresh_point_def)
  have f: "resume_from demo_handoff fp None = Inr fresh_point" "rp_completed fresh_point = map JStr (take 0 stages)"
    "rp_receipt fresh_point = None" "telemetry_ok (rp_telemetry fresh_point)" for fp
    by (simp_all add: resume_from_def fresh_point_def initial_telemetry_ok)
  from passing_promotion_completes [where pc = ?pc and op_id = "''op''" and st = empty_state and n = 0,
      OF _ _ f(1,2) _ f(3,4) _ steady_on_course carries_on_course [OF demo_passing_run] s r]
  show ?thesis by (auto simp: none on_course_def all_observed_def)
qed

lemma stage_controller_sha [simp]: "pc_sha (stage_controller ss now perf sha metrics put_ref) = sha"
  by (simp add: stage_controller_def)

lemma no_progress: "load_checkpoint sha op_id st = Inr None \<Longrightarrow> progress_of sha op_id st = Inr None"
  by (simp add: progress_of_def)

text \<open>C19: a promotion that is done over the stage service has merged the published head of its pull request, a
  workflow run of exactly that head and pull request succeeded, the readiness tool had called it ready, and the
  merge commit is in the history of the recorded default branch; whatever calls, failures and retries came before,
  if the provider leaves the progress of the checkpoint alone and its refresh answers carry no status.\<close>

theorem done_lands_tested_head:
  assumes "pc = stage_controller ss now perf sha metrics put_ref" 
    and "\<And>p. calls_keep (\<lambda>s. progress_of sha op_id s = p) ss"
    and "\<And>p e. keeps (\<lambda>s. progress_of sha op_id s = p) (put_ref e)"
    and "load_checkpoint sha op_id st = Inr None" and "refresh_without_status ss"
    and "converge pc op_id h (foldl (\<lambda>s h. snd (converge pc op_id h s)) st handoffs) = (Inr x, st')"
    and "px_state x = ''done''"
  shows "\<exists>pull head run commit landed. let seen = sub_obj (px_observations x) in
    pull_request_of (px_observations x) pull head \<and>
    required_text (field (seen ''reconcile_candidate'') ''commit_sha'') = Inr head \<and>
    field (seen ''exact_head_actions'') ''run_ids'' = JArr [JInt run] \<and> run_succeeded ss pull head run \<and>
    field (seen ''merge_readiness'') ''ready'' = JBool True \<and>
    field (seen ''merge_exact_head'') ''head_sha'' = JStr head \<and> field (seen ''merge_exact_head'') ''pull_number'' = JInt pull \<and>
    required_text (merge_commit_of (seen ''merge_exact_head'')) = Inr commit \<and>
    field (seen ''refresh_landed'') ''landed_sha'' = JStr landed \<and> in_history ss landed commit"
proof -
  let ?obs = "px_observations x"
  have r: "runs_service pc op_id ss"
    unfolding assms(1) by (intro stage_controller_runs stage_controller_leaves assms(2,3))
  have "landing ss (length stages) ?obs"
    by (rule promoted.calls_link [OF r _ assms(6,7)]) (use assms(1,4) no_progress in simp)
  then have l: "head_published ?obs" "head_tested ss ?obs" "head_merged ?obs" "merge_landed ss ?obs"
    by (simp_all add: landing_def stages_length)
  have same: "pull = pull' \<and> head = head'" if "pull_request_of ?obs pull head" "pull_request_of ?obs pull' head'" for pull head pull' head'
    using that by (auto simp: pull_request_of_def)
  from l(1) obtain pull head c where p: "pull_request_of ?obs pull head" "field ?obs ''reconcile_candidate'' = JObj c"
    "required_text (field c ''commit_sha'') = Inr head" unfolding head_published_def by blast
  from l(2) obtain run a where t: "field ?obs ''exact_head_actions'' = JObj a" "field a ''run_ids'' = JArr [JInt run]"
    "run_succeeded ss pull head run" unfolding head_tested_def using same [OF p(1)] by blast
  from l(3) obtain q m where m: "field ?obs ''merge_readiness'' = JObj q" "field q ''ready'' = JBool True"
    "field ?obs ''merge_exact_head'' = JObj m" "field m ''pull_number'' = JInt pull" "field m ''head_sha'' = JStr head"
    unfolding head_merged_def using same [OF p(1)] by blast
  from l(4) m(3) assms(5) obtain commit landed d where d: "required_text (merge_commit_of m) = Inr commit"
    "field ?obs ''refresh_landed'' = JObj d" "field d ''landed_sha'' = JStr landed" "in_history ss landed commit"
    unfolding merge_landed_def by auto
  have s: "sub_obj ?obs ''reconcile_candidate'' = c" "sub_obj ?obs ''exact_head_actions'' = a" "sub_obj ?obs ''merge_readiness'' = q"
    "sub_obj ?obs ''merge_exact_head'' = m" "sub_obj ?obs ''refresh_landed'' = d"
    by (simp_all add: sub_obj_def obj_or_empty_def p t m d)
  show ?thesis unfolding Let_def s using p t m d by blast
qed

lemma demo_calls_keep: "calls_keep P (demo_service r)" "keeps P ((\<lambda>_. returnS ()) e)"
  by (simp_all add: calls_keep_def demo_service_def keeps_def)

lemma demo_refresh: "refresh_without_status (demo_service r)"
  by (simp add: refresh_without_status_def refresh_registered_def external_def demo_service_def demo_answer_def)

lemma demo_stages_controller:
  "demo_stages r = stage_controller (demo_service r) (\<lambda>w. (w, w)) (\<lambda>w. (w, w)) (\<lambda>_. ''digest'') (\<lambda>_ _. []) (\<lambda>_. returnS ())"
  by (simp add: demo_stages_def)

lemma done_lands_tested_head_witness:
  "\<exists>x st'. converge (demo_stages [(''ready'', JBool True)]) ''op'' demo_handoff empty_state = (Inr x, st') \<and>
     px_state x = ''done'' \<and>
     (\<exists>pull head run. pull_request_of (px_observations x) pull head \<and> run_succeeded (demo_service [(''ready'', JBool True)]) pull head run)"
proof -
  obtain x st' where c: "converge (demo_stages [(''ready'', JBool True)]) ''op'' demo_handoff empty_state = (Inr x, st')"
    and d: "px_state x = ''done''" by (rule demo_stages_done)
  from c have "converge (demo_stages [(''ready'', JBool True)]) ''op'' demo_handoff
      (foldl (\<lambda>s h. snd (converge (demo_stages [(''ready'', JBool True)]) ''op'' h s)) empty_state []) = (Inr x, st')" by simp
  from done_lands_tested_head [OF demo_stages_controller demo_calls_keep demo_fields(6) demo_refresh this d]
  show ?thesis unfolding Let_def using c d by blast
qed

text \<open>C20: over a service whose readiness calls reach the readiness tool of this repository, no promotion is ever
  done: the tool's answer carries its own status (ready, blocked or unmanaged), which replaces the status satisfied
  of the stage, so that the stage never passes and at most four stages are ever recorded as completed.\<close>

theorem real_readiness_never_done:
  assumes "pc = stage_controller ss now perf sha metrics put_ref"
    and "\<And>p. calls_keep (\<lambda>s. progress_of sha op_id s = p) ss"
    and "\<And>p e. keeps (\<lambda>s. progress_of sha op_id s = p) (put_ref e)"
    and "load_checkpoint sha op_id st = Inr None" and "answers_readiness ss"
    and "st' = foldl (\<lambda>s h. snd (converge pc op_id h s)) st handoffs"
  shows "(\<forall>h x. fst (converge pc op_id h st') = Inr x \<longrightarrow> px_state x \<noteq> ''done'') \<and>
    (progress_of sha op_id st' = Inr None \<or>
     (\<exists>n obs. n \<le> 4 \<and> progress_of sha op_id st' = Inr (Some (str_array (take n stages), JObj obs))))"
proof
  have r: "runs_service pc op_id ss"
    unfolding assms(1) by (intro stage_controller_runs stage_controller_leaves assms(2,3))
  have start: "progress_of (pc_sha pc) op_id st = Inr None" using assms(1,4) no_progress by simp
  show "\<forall>h x. fst (converge pc op_id h st') = Inr x \<longrightarrow> px_state x \<noteq> ''done''"
  proof (intro allI impI notI)
    fix h x assume f: "fst (converge pc op_id h st') = Inr x" and d: "px_state x = ''done''"
    from f have c: "converge pc op_id h st' = (Inr x, snd (converge pc op_id h st'))" by (cases "converge pc op_id h st'") simp
    from stopped.calls_link [OF r start c [unfolded assms(6)] d] show False
      using assms(5) by (simp add: before_readiness_def stages_length)
  qed
  have "stored_link (before_readiness ss) sha op_id st'"
    using stopped.calls_stored [OF r start assms(6)] assms(1) by simp
  then show "progress_of sha op_id st' = Inr None \<or>
     (\<exists>n obs. n \<le> 4 \<and> progress_of sha op_id st' = Inr (Some (str_array (take n stages), JObj obs)))"
    using assms(5) unfolding stored_link_def before_readiness_def by blast
qed

lemma demo_readiness: "answers_readiness (demo_service (readiness_answer (JStr ''SPEC-1'') ([], [], [])))"
  unfolding answers_readiness_def
  by (auto simp: demo_service_def demo_answer_def intro!: exI [of _ "JStr ''SPEC-1''"] exI [of _ "([], [], [])"])

lemma real_readiness_never_done_witness:
  "(case fst (converge (demo_stages (readiness_answer (JStr ''SPEC-1'') ([], [], []))) ''op'' demo_handoff empty_state) of
      Inr x \<Rightarrow> px_state x \<noteq> ''done'' | Inl e \<Rightarrow> True)"
proof -
  let ?pc = "demo_stages (readiness_answer (JStr ''SPEC-1'') ([], [], []))"
  have "empty_state = foldl (\<lambda>s h. snd (converge ?pc ''op'' h s)) empty_state []" by simp
  from real_readiness_never_done [OF demo_stages_controller demo_calls_keep demo_fields(6) demo_readiness this]
  show ?thesis by (auto split: sum.splits)
qed

text \<open>C25: a failed update of the work record is not an error of the stage: whenever some field update failed, the
  stage passes as applied without closing the source issue, and the check of the terminal receipt on the source
  issue has nothing to object to.\<close>

theorem failed_completion_passes:
  assumes "field obs ''documentation_reconcile'' = JObj d" and "field d ''record'' = JObj rec"
    and "field obs ''work_done'' = JNull"
    and "complete_work ss h rec st = (Inr (completion_answer True outcomes), st')" and "\<exists>x \<in> set outcomes. \<not> fst x"
  shows "\<exists>r. work_done ss h obs st = (Inr r, st') \<and> passed_status (field r ''status'') = Inr True \<and>
    field r ''outcomes'' = JArr (map snd outcomes) \<and> field r ''source_close_applied'' = JBool False \<and>
    \<not> (is_true (field r ''source_close_required'') \<and> \<not> is_true (field r ''source_close_applied''))"
proof -
  let ?a = "completion_answer True outcomes"
  have a: "field ?a ''mode'' \<noteq> JStr ''blocked''" "field ?a ''source_close_required'' \<noteq> JBool True"
    using assms(5) by (auto simp: completion_answer_def)
  have m: "remembered_completion obs = Inr None" by (simp add: remembered_completion_def assms(3))
  have "work_done ss h obs st = (Inr (done_fields ?a rec False (False, False)), st')"
    using a by (simp add: work_done_def observed_Inr [THEN iffD2, OF assms(1)] required_mapping_def assms(2) m lift_cases
        bindS_simps(1) [of "complete_work ss h rec", OF assms(4)])
  then show ?thesis
    by (auto simp: done_fields_def outcome_def field_spread completion_answer_def is_true_def passed_status_def hashable_def)
qed

definition half_done :: obj where
  "half_done = completion_answer True [(True, JStr ''state''), (False, JStr ''stage'')]"

definition failing_service :: "int promotion_state stage_service" where
  "failing_service = (demo_service [])\<lparr>ss_call := (\<lambda>tool args st. (Inr half_done, st))\<rparr>"

lemma failed_completion_passes_witness:
  "\<exists>r. work_done failing_service demo_handoff [(''documentation_reconcile'', JObj demo_documentation)] empty_state = (Inr r, empty_state) \<and>
     passed_status (field r ''status'') = Inr True"
proof -
  let ?obs = "[(''documentation_reconcile'', JObj demo_documentation)]"
  have f: "field ?obs ''documentation_reconcile'' = JObj demo_documentation" "field ?obs ''work_done'' = JNull" by simp_all
  have n: "source_number failing_service = Inr 1" "source_commit demo_handoff = Inr ''c1''"
    by (simp add: failing_service_def, code_simp) code_simp
  have rec: "\<exists>d. field demo_documentation ''record'' = JObj d" by (simp add: demo_documentation_def)
  then obtain d where d: "field demo_documentation ''record'' = JObj d" ..
  have "complete_work failing_service demo_handoff d empty_state =
      (Inr (completion_answer True [(True, JStr ''state''), (False, JStr ''stage'')]), empty_state)"
    by (simp add: complete_work_def n lift_cases) (simp add: failing_service_def half_done_def)
  from failed_completion_passes [OF f(1) d f(2) this] show ?thesis by auto
qed

end
