(* ===== verification/Windows_Paths.thy ===== *)
theory Windows_Paths
  imports Prelude
begin

text \<open>
  Windows paths as the policy compares them (\<open>paths.py\<close>).  The functions of \<open>ntpath\<close> that the code calls are
  those of Python 3.13 on texts: \<open>splitroot\<close>, \<open>isabs\<close>, \<open>join\<close>, \<open>normpath\<close>, \<open>normcase\<close> and \<open>commonpath\<close>.  Only the
  resolution of links on the file system is a parameter.
\<close>

abbreviation backslash :: char where
  "backslash \<equiv> CHR 0x5C"

abbreviation slash :: char where
  "slash \<equiv> CHR ''/''"

definition windows_seps :: "string \<Rightarrow> string" where
  "windows_seps s = replace_char slash backslash s"

section \<open>The functions of ntpath\<close>

definition index_from :: "char \<Rightarrow> nat \<Rightarrow> string \<Rightarrow> nat option" where
  "index_from c n s =
     (let r = drop n s in if c \<in> set r then Some (n + length (takeWhile (\<lambda>x. x \<noteq> c) r)) else None)"

text \<open>\<open>splitroot(p)\<close>: the drive (or share), the root separator and the rest.\<close>

definition split_share :: "string \<Rightarrow> string \<times> string \<times> string" where
  "split_share p =
     (let s = windows_seps p;
          start = (if casefold (take 8 s) = [backslash, backslash, CHR ''?'', backslash] @ ''unc'' @ [backslash] then 8 else 2)
      in case index_from backslash start s of
           None \<Rightarrow> (p, [], [])
         | Some i \<Rightarrow>
             (case index_from backslash (i + 1) s of
                None \<Rightarrow> (p, [], [])
              | Some j \<Rightarrow> (take j p, take 1 (drop j p), drop (j + 1) p)))"

definition is_sep :: "char \<Rightarrow> bool" where
  "is_sep c = (c = backslash \<or> c = slash)"

definition splitroot :: "string \<Rightarrow> string \<times> string \<times> string" where
  "splitroot p =
     (case p of
        [] \<Rightarrow> ([], [], [])
      | a # r \<Rightarrow>
          if is_sep a then
            (case r of
               [] \<Rightarrow> ([], [a], [])
             | b # _ \<Rightarrow> if is_sep b then split_share p else ([], [a], r))
          else
            (case r of
               [] \<Rightarrow> ([], [], p)
             | b # t \<Rightarrow>
                 if b \<noteq> CHR '':'' then ([], [], p)
                 else (case t of
                         [] \<Rightarrow> ([a, b], [], [])
                       | c # u \<Rightarrow> if is_sep c then ([a, b], [c], u) else ([a, b], [], t))))"

definition path_drive :: "string \<Rightarrow> string" where
  "path_drive p = fst (splitroot p)"

definition path_root :: "string \<Rightarrow> string" where
  "path_root p = fst (snd (splitroot p))"

definition path_rest :: "string \<Rightarrow> string" where
  "path_rest p = snd (snd (splitroot p))"

definition is_absolute :: "string \<Rightarrow> bool" where
  "is_absolute s =
     (let t = windows_seps (take 3 s) in
      starts_with [CHR '':'', backslash] (drop 1 t) \<or> starts_with [backslash, backslash] t)"

definition join_path :: "string \<Rightarrow> string \<Rightarrow> string" where
  "join_path base p =
     (let b = splitroot base; q = splitroot p;
          drive = fst b; root = fst (snd b); rest = snd (snd b);
          p_drive = fst q; p_root = fst (snd q); p_rest = snd (snd q);
          appended = (if rest \<noteq> [] \<and> \<not> is_sep (last rest) then rest @ [backslash] else rest) @ p_rest;
          result =
            (if p_root \<noteq> [] then ((if p_drive \<noteq> [] \<or> drive = [] then p_drive else drive), p_root, p_rest)
             else if p_drive \<noteq> [] \<and> p_drive \<noteq> drive then
               (if casefold p_drive \<noteq> casefold drive then (p_drive, p_root, p_rest) else (p_drive, root, appended))
             else (drive, root, appended));
          r_drive = fst result; r_root = fst (snd result); r_rest = snd (snd result)
      in if r_rest \<noteq> [] \<and> r_root = [] \<and> r_drive \<noteq> [] \<and> last r_drive \<noteq> CHR '':'' \<and> \<not> is_sep (last r_drive)
         then r_drive @ [backslash] @ r_rest
         else r_drive @ r_root @ r_rest)"

text \<open>The loop of \<open>normpath\<close> over the components; \<open>done\<close> holds the kept ones, the last one first.\<close>

fun collapse :: "bool \<Rightarrow> string list \<Rightarrow> string list \<Rightarrow> string list" where
  "collapse rooted kept [] = rev kept"
| "collapse rooted kept (c # cs) =
     (if c = [] \<or> c = ''.'' then collapse rooted kept cs
      else if c = ''..'' then
        (case kept of
           [] \<Rightarrow> if rooted then collapse rooted [] cs else collapse rooted [c] cs
         | k # ks \<Rightarrow> if k \<noteq> ''..'' then collapse rooted ks cs else collapse rooted (c # kept) cs)
      else collapse rooted (c # kept) cs)"

definition normpath :: "string \<Rightarrow> string" where
  "normpath p =
     (let s = windows_seps p;
          start = path_drive s @ path_root s;
          comps = collapse (path_root s \<noteq> []) [] (split_on backslash (path_rest s))
      in if start = [] \<and> comps = [] then ''.'' else start @ join_with [backslash] comps)"

definition normcase :: "string \<Rightarrow> string" where
  "normcase p = casefold (windows_seps p)"

text \<open>The components that \<open>commonpath\<close> compares.\<close>

definition components_of :: "string \<Rightarrow> string list" where
  "components_of rest = filter (\<lambda>c. c \<noteq> [] \<and> c \<noteq> ''.'') (split_on backslash rest)"

fun common_length :: "string list \<Rightarrow> string list \<Rightarrow> nat" where
  "common_length (a # as) (b # bs) = (if a = b then Suc (common_length as bs) else 0)"
| "common_length _ _ = 0"

text \<open>\<open>commonpath([p, q])\<close>; \<open>None\<close> is a \<open>ValueError\<close>.  The least and the greatest list of components share the prefix of both.\<close>

definition common_path :: "string \<Rightarrow> string \<Rightarrow> string option" where
  "common_path p q =
     (let a = casefold (windows_seps p); b = casefold (windows_seps q) in
      if path_drive a \<noteq> path_drive b \<or> path_root a \<noteq> path_root b then None
      else
        (let original = windows_seps p;
             n = common_length (min (components_of (path_rest a)) (components_of (path_rest b)))
                   (max (components_of (path_rest a)) (components_of (path_rest b)))
         in Some (path_drive original @ path_root original @
              join_with [backslash] (take n (components_of (path_rest original))))))"

section \<open>paths.py\<close>

definition normalize_windows_path :: "string \<Rightarrow> string \<Rightarrow> string result" where
  "normalize_windows_path value base =
     (if blank value then Inl PathValidationError
      else
        (let raw = windows_seps (py_strip value) in
         if CHR 0x00 \<in> set raw then Inl PathValidationError
         else
           (let base_normalized = normpath (windows_seps base);
                candidate = (if is_absolute raw then raw else join_path base_normalized raw);
                normalized = normpath candidate
            in if path_drive normalized = [] then Inl PathValidationError else Inr normalized)))"

text \<open>\<open>Path.parent\<close> and \<open>Path.name\<close> of a normalized path.\<close>

definition path_name :: "string \<Rightarrow> string" where
  "path_name p = (case components_of (path_rest p) of [] \<Rightarrow> [] | c # cs \<Rightarrow> last (c # cs))"

definition path_parent :: "string \<Rightarrow> string" where
  "path_parent p = path_drive p @ path_root p @ join_with [backslash] (butlast (components_of (path_rest p)))"

text \<open>\<open>links\<close> is \<open>Path.resolve\<close>; it fails with \<open>OSError\<close> or \<open>RuntimeError\<close>.\<close>

definition resolve_windows_effective_path ::
  "(string \<Rightarrow> string result) \<Rightarrow> string \<Rightarrow> string \<Rightarrow> bool \<Rightarrow> string result" where
  "resolve_windows_effective_path links value base follow_final =
     bindE (normalize_windows_path value base) (\<lambda>normalized.
       (case links (if follow_final then normalized else path_parent normalized) of
          Inr resolved \<Rightarrow> Inr (normpath (if follow_final then resolved else join_path resolved (path_name normalized)))
        | Inl e \<Rightarrow> Inl (if e \<in> {OSError, RuntimeError} then PathValidationError else e)))"

definition is_within_windows_boundary :: "string \<Rightarrow> string \<Rightarrow> bool result" where
  "is_within_windows_boundary path boundary =
     bindE (normalize_windows_path boundary boundary) (\<lambda>b.
     bindE (normalize_windows_path path (normcase b)) (\<lambda>p.
       Inr (common_path (normcase b) (normcase p) = Some (normcase b))))"

end
