(* ===== verification/Shell_Parser.thy ===== *)
theory Shell_Parser
  imports Windows_Paths
begin

text \<open>
  The splitting of shell commands (\<open>shell_parser.py\<close>): segments between separators, changes of the directory, and the
  targets of output redirections.  \<open>shlex.split(s, posix=False)\<close> of the standard library is \<open>shlex_split\<close>.
\<close>

abbreviation quotation :: char where
  "quotation \<equiv> CHR 0x22"

abbreviation apostrophe :: char where
  "apostrophe \<equiv> CHR 0x27"

abbreviation backtick :: char where
  "backtick \<equiv> CHR 0x60"

abbreviation carriage_return :: char where
  "carriage_return \<equiv> CHR 0x0D"

abbreviation newline :: char where
  "newline \<equiv> CHR 0x0A"

definition is_quote :: "char \<Rightarrow> bool" where
  "is_quote c = (c = quotation \<or> c = apostrophe)"

definition strip_quotes :: "string \<Rightarrow> string" where
  "strip_quotes s = strip_by is_quote s"

section \<open>Tokens\<close>

text \<open>The states of the scanner of \<open>shlex\<close>; the characters of the current token are kept in reverse.\<close>

datatype scanner = Between | Word string | Quoted char string

definition is_blank :: "char \<Rightarrow> bool" where
  "is_blank c = (c \<in> {CHR '' '', CHR 0x09, carriage_return, newline})"

fun shlex_scan :: "scanner \<Rightarrow> string \<Rightarrow> string list option" where
  "shlex_scan Between [] = Some []"
| "shlex_scan (Word w) [] = Some [rev w]"
| "shlex_scan (Quoted q w) [] = None"
| "shlex_scan Between (c # s) =
     (if is_blank c then shlex_scan Between s
      else if is_quote c then shlex_scan (Quoted c [c]) s
      else shlex_scan (Word [c]) s)"
| "shlex_scan (Word w) (c # s) =
     (if is_blank c then map_option (Cons (rev w)) (shlex_scan Between s) else shlex_scan (Word (c # w)) s)"
| "shlex_scan (Quoted q w) (c # s) =
     (if c = q then map_option (Cons (rev (c # w))) (shlex_scan Between s) else shlex_scan (Quoted q (c # w)) s)"

definition shlex_split :: "string \<Rightarrow> string list option" where
  "shlex_split s = shlex_scan Between s"

definition shell_tokens :: "string \<Rightarrow> string list" where
  "shell_tokens command = (case shlex_split command of Some ts \<Rightarrow> ts | None \<Rightarrow> split_ws command)"

definition shell_clean :: "string \<Rightarrow> string" where
  "shell_clean value = rstrip_by (\<lambda>c. c \<in> set '',;'') (strip_quotes (py_strip value))"

text \<open>The last component without an executable suffix, as both modules compute it of a cleaned token.\<close>

definition program_of :: "string \<Rightarrow> string" where
  "program_of token =
     (let name = casefold (after_last backslash (windows_seps token)) in
      if ends_with ''.exe'' name \<or> ends_with ''.cmd'' name \<or> ends_with ''.bat'' name then before_last (CHR ''.'') name
      else name)"

definition shell_program :: "string \<Rightarrow> string" where
  "shell_program value = program_of (shell_clean value)"

definition normalize_shell :: "string option \<Rightarrow> string" where
  "normalize_shell value =
     (let raw = windows_seps (strip_quotes (py_strip (case value of None \<Rightarrow> [] | Some v \<Rightarrow> v)));
          name = casefold (after_last backslash raw)
      in if name = ''cmd'' \<or> name = ''cmd.exe'' then ''cmd''
         else if name \<in> {''powershell'', ''powershell.exe'', ''pwsh'', ''pwsh.exe''} then ''powershell''
         else ''generic'')"

definition shell_from_command :: "string \<Rightarrow> string option \<Rightarrow> string" where
  "shell_from_command command explicit_shell =
     (let selected = normalize_shell explicit_shell in
      if selected \<noteq> ''generic'' then selected
      else (case shell_tokens command of [] \<Rightarrow> ''generic'' | t # _ \<Rightarrow> normalize_shell (Some t)))"

section \<open>Segments\<close>

definition escape_of :: "string \<Rightarrow> char" where
  "escape_of dialect = (if dialect = ''cmd'' then CHR ''^'' else if dialect = ''powershell'' then backtick else backslash)"

lemma length_strip_by: "length (strip_by P s) \<le> length s"
proof -
  have "length (strip_by P s) \<le> length (lstrip_by P s)"
    using length_dropWhile_le [of P "rev (lstrip_by P s)"] by (simp add: strip_by_def rstrip_by_def)
  also have "\<dots> \<le> length s" unfolding lstrip_by_def by (rule length_dropWhile_le)
  finally show ?thesis .
qed

text \<open>The loop that removes the parentheses around a segment of \<open>cmd\<close>.\<close>

function strip_parens :: "string \<Rightarrow> string" where
  "strip_parens t =
     (if 2 \<le> length t \<and> hd t = CHR ''('' \<and> last t = CHR '')'' then strip_parens (py_strip (butlast (tl t))) else t)"
  by pat_completeness auto

termination
proof (relation "measure length")
  fix t :: string
  assume "2 \<le> length t \<and> hd t = CHR ''('' \<and> last t = CHR '')''"
  then have "length (butlast (tl t)) < length t" by auto
  moreover have "length (py_strip (butlast (tl t))) \<le> length (butlast (tl t))"
    unfolding py_strip_def by (rule length_strip_by)
  ultimately show "(py_strip (butlast (tl t)), t) \<in> measure length" unfolding in_measure by (rule le_less_trans [rotated])
qed simp

declare strip_parens.simps [simp del]

definition normalize_segment :: "string \<Rightarrow> string \<Rightarrow> string" where
  "normalize_segment value dialect =
     (let text = py_strip value in
      if dialect = ''cmd'' then strip_parens text
      else if dialect = ''powershell'' then
        (let called = (if starts_with ''&'' text then py_strip (tl text) else text) in
         if 2 \<le> length called \<and> hd called = CHR ''{'' \<and> last called = CHR ''}'' then py_strip (butlast (tl called))
         else called)
      else text)"

definition separator_length :: "string \<Rightarrow> string \<Rightarrow> nat" where
  "separator_length dialect s =
     (if starts_with ''&&'' s \<or> starts_with ''||'' s then 2
      else (case s of
              [] \<Rightarrow> 0
            | c # _ \<Rightarrow>
                if dialect = ''cmd'' \<and> c = CHR ''&'' then 1
                else if c \<in> {CHR ''|'', newline, carriage_return} then 1
                else if dialect \<noteq> ''cmd'' \<and> c = CHR '';'' then 1
                else 0))"

definition flush :: "string \<Rightarrow> string \<Rightarrow> string list" where
  "flush dialect current = (let value = normalize_segment (rev current) dialect in if value = [] then [] else [value])"

text \<open>The scanning loop; the characters of the current segment are kept in reverse.\<close>

fun scan_segments :: "string \<Rightarrow> char option \<Rightarrow> string \<Rightarrow> string \<Rightarrow> string list" where
  "scan_segments dialect quote current [] = flush dialect current"
| "scan_segments dialect (Some q) current (c # s) =
     (if c = q then scan_segments dialect None (c # current) s
      else if c = escape_of dialect \<and> s \<noteq> [] then scan_segments dialect (Some q) (hd s # c # current) (tl s)
      else scan_segments dialect (Some q) (c # current) s)"
| "scan_segments dialect None current (c # s) =
     (if is_quote c then scan_segments dialect (Some c) (c # current) s
      else if c = escape_of dialect \<and> s \<noteq> [] then scan_segments dialect None (hd s # c # current) (tl s)
      else
        (let n = separator_length dialect (c # s) in
         if n \<noteq> 0 then flush dialect current @ scan_segments dialect None [] (drop (n - 1) s)
         else scan_segments dialect None (c # current) s))"

definition split_shell_segments :: "string \<Rightarrow> string \<Rightarrow> string list" where
  "split_shell_segments command shell = scan_segments (normalize_shell (Some shell)) None [] command"

section \<open>Changes of the directory\<close>

record shell_state =
  sh_cwd :: string
  sh_shell :: string
  sh_stack :: "string list"
  sh_terminated :: bool
  sh_delayed :: bool

definition shell_state_init :: "string \<Rightarrow> string \<Rightarrow> shell_state" where
  "shell_state_init cwd shell =
     \<lparr>sh_cwd = cwd, sh_shell = shell, sh_stack = [], sh_terminated = False, sh_delayed = False\<rparr>"

record shell_segment =
  sg_text :: string
  sg_cwd :: string
  sg_shell :: string

definition has_marker :: "string \<Rightarrow> bool" where
  "has_marker value =
     (contains ''$env:'' value \<or> CHR ''%'' \<in> set value \<or> contains ''${'' value \<or> contains ''$('' value)"

definition shell_resolve :: "string \<Rightarrow> string \<Rightarrow> string option" where
  "shell_resolve value cwd =
     (if has_marker value then None
      else (case normalize_windows_path value cwd of Inr p \<Rightarrow> Some p | Inl _ \<Rightarrow> None))"

definition change_directory :: "string list \<Rightarrow> shell_state \<Rightarrow> shell_state" where
  "change_directory values st =
     (let candidates = filter (\<lambda>v. v \<noteq> [] \<and> casefold v \<notin> {''/d'', ''-path'', ''-literalpath''} \<and> \<not> starts_with ''-'' v) values in
      if candidates = [] then st
      else st\<lparr>sh_cwd := (case shell_resolve (last candidates) (sh_cwd st) of
                Some t \<Rightarrow> if t = [] then sh_cwd st else t
              | None \<Rightarrow> sh_cwd st), sh_terminated := False\<rparr>)"

definition push_directory :: "string list \<Rightarrow> shell_state \<Rightarrow> shell_state" where
  "push_directory values st =
     (let candidates = filter (\<lambda>v. v \<noteq> [] \<and> \<not> starts_with ''-'' v) values in
      if candidates = [] then st
      else (case shell_resolve (last candidates) (sh_cwd st) of
              None \<Rightarrow> st
            | Some t \<Rightarrow>
                st\<lparr>sh_cwd := t, sh_stack := drop (length (sh_stack st) - 31) (sh_stack st) @ [sh_cwd st],
                   sh_terminated := False\<rparr>))"

definition pop_directory :: "shell_state \<Rightarrow> shell_state" where
  "pop_directory st =
     (if sh_stack st = [] then st
      else st\<lparr>sh_cwd := last (sh_stack st), sh_stack := butlast (sh_stack st), sh_terminated := False\<rparr>)"

definition directory_transition :: "string \<Rightarrow> shell_state \<Rightarrow> shell_state option" where
  "directory_transition text st =
     (case shell_tokens text of
        [] \<Rightarrow> None
      | t # ts \<Rightarrow>
          (let program = shell_program t; values = map shell_clean ts in
           if program \<in> {''cd'', ''chdir'', ''set-location'', ''sl''} then Some (change_directory values st)
           else if program = ''pushd'' then Some (push_directory values st)
           else if program = ''popd'' then Some (pop_directory st)
           else None))"

definition is_exit :: "string \<Rightarrow> bool" where
  "is_exit text = (case shell_tokens text of [] \<Rightarrow> False | t # _ \<Rightarrow> shell_program t \<in> {''exit'', ''logout''})"

fun walk_segments :: "string list \<Rightarrow> shell_state \<Rightarrow> shell_segment list \<times> shell_state" where
  "walk_segments [] st = ([], st)"
| "walk_segments (text # ts) st =
     (case directory_transition text st of
        Some st' \<Rightarrow> walk_segments ts st'
      | None \<Rightarrow>
          if is_exit text then walk_segments ts (st\<lparr>sh_terminated := True\<rparr>)
          else (let (segments, final) = walk_segments ts st in
                (\<lparr>sg_text = text, sg_cwd = sh_cwd st, sg_shell = sh_shell st\<rparr> # segments, final)))"

definition resolve_shell_segments :: "string \<Rightarrow> shell_state \<Rightarrow> shell_segment list \<times> shell_state" where
  "resolve_shell_segments command st = walk_segments (split_shell_segments command (sh_shell st)) st"

section \<open>Output redirections\<close>

definition redirect_escape :: "string \<Rightarrow> char option" where
  "redirect_escape dialect =
     (if dialect = ''cmd'' then Some (CHR ''^'') else if dialect = ''powershell'' then Some backtick else None)"

record target_scan =
  ts_raw :: string
  ts_fragments :: nat
  ts_unquoted :: bool

text \<open>The inner loop over one target; it returns what it has read (in reverse) and the rest of the command.\<close>

fun scan_target :: "string \<Rightarrow> char option \<Rightarrow> target_scan \<Rightarrow> string \<Rightarrow> target_scan \<times> string" where
  "scan_target dialect quote r [] = (r, [])"
| "scan_target dialect (Some q) r (c # s) =
     (if dialect = ''powershell'' \<and> q = apostrophe \<and> c = apostrophe \<and> s \<noteq> [] \<and> hd s = apostrophe then
        scan_target dialect (Some q) (r\<lparr>ts_raw := hd s # c # ts_raw r\<rparr>) (tl s)
      else if Some c = redirect_escape dialect \<and> q \<noteq> apostrophe \<and> s \<noteq> [] then
        scan_target dialect (Some q) (r\<lparr>ts_raw := hd s # c # ts_raw r\<rparr>) (tl s)
      else scan_target dialect (if c = q then None else Some q) (r\<lparr>ts_raw := c # ts_raw r\<rparr>) s)"
| "scan_target dialect None r (c # s) =
     (if is_space c \<or> c \<in> {CHR '';'', CHR ''|'', CHR ''&''} then (r, c # s)
      else if is_quote c then
        scan_target dialect (Some c) (r\<lparr>ts_raw := c # ts_raw r, ts_fragments := ts_fragments r + 1\<rparr>) s
      else if Some c = redirect_escape dialect \<and> s \<noteq> [] then
        scan_target dialect None (r\<lparr>ts_raw := hd s # c # ts_raw r, ts_unquoted := True\<rparr>) (tl s)
      else scan_target dialect None (r\<lparr>ts_raw := c # ts_raw r, ts_unquoted := True\<rparr>) s)"

definition target_value :: "string \<Rightarrow> target_scan \<Rightarrow> string" where
  "target_value dialect r =
     (let raw = py_strip (rev (ts_raw r)) in
      if ts_fragments r = 1 \<and> \<not> ts_unquoted r \<and> 2 \<le> length raw \<and> hd raw = last raw \<and> is_quote (hd raw) \<and>
        \<not> (dialect = ''powershell'' \<and> hd raw = apostrophe)
      then butlast (tl raw) else raw)"

lemma scan_target_rest: "length (snd (scan_target dialect quote r s)) \<le> length s"
proof (induction dialect quote r s rule: scan_target.induct)
  case (2 dialect q r c s)
  have tl: "x \<le> length (tl s) \<Longrightarrow> x \<le> Suc (length s)" for x by simp
  show ?case using 2 by (auto split: if_split simp del: length_tl intro: tl le_SucI)
next
  case (3 dialect r c s)
  have tl: "x \<le> length (tl s) \<Longrightarrow> x \<le> Suc (length s)" for x by simp
  show ?case using 3 by (auto split: if_split simp del: length_tl intro: tl le_SucI)
qed simp

text \<open>The outer loop; \<open>previous\<close> is the character before the current one.\<close>

function scan_redirections :: "string \<Rightarrow> char option \<Rightarrow> char option \<Rightarrow> string \<Rightarrow> string list" where
  "scan_redirections dialect quote previous [] = []"
| "scan_redirections dialect (Some q) previous (c # s) =
     (if Some c = redirect_escape dialect \<and> s \<noteq> [] then
        scan_redirections dialect (Some q) (Some (hd s)) (tl s)
      else scan_redirections dialect (if c = q then None else Some q) (Some c) s)"
| "scan_redirections dialect None previous (c # s) =
     (if is_quote c then scan_redirections dialect (Some c) (Some c) s
      else if Some c = redirect_escape dialect \<and> s \<noteq> [] then
        scan_redirections dialect None (Some (hd s)) (tl s)
      else if c \<noteq> CHR ''>'' \<or> previous = Some (CHR ''<'') then scan_redirections dialect None (Some c) s
      else
        (let rest = dropWhile is_space (if starts_with ''>'' s then tl s else s) in
         if rest = [] then []
         else
           (let (r, t) = scan_target dialect None \<lparr>ts_raw = [], ts_fragments = 0, ts_unquoted = False\<rparr> rest;
                value = target_value dialect r
            in (if value = [] then [] else [value]) @ scan_redirections dialect None (Some c) t)))"
  by pat_completeness auto

termination
proof (relation "measure (\<lambda>(dialect, quote, previous, s). length s)")
  fix dialect previous c s rest x r t
  assume rest: "rest = dropWhile is_space (if starts_with ''>'' s then tl s else s)"
    and "x = scan_target dialect None \<lparr>ts_raw = [], ts_fragments = 0, ts_unquoted = False\<rparr> rest" "(r, t) = x"
  then have rt: "(r, t) = scan_target dialect None \<lparr>ts_raw = [], ts_fragments = 0, ts_unquoted = False\<rparr> rest" by simp
  have "length rest \<le> length (if starts_with ''>'' s then tl s else s)" unfolding rest by (rule length_dropWhile_le)
  also have "\<dots> \<le> length s" by simp
  finally have "length rest \<le> length s" .
  moreover have "length t \<le> length rest" using scan_target_rest [of dialect None _ rest] rt by (metis snd_conv)
  ultimately show "((dialect, None, Some c, t), (dialect, None, previous, c # s)) \<in> measure (\<lambda>(dialect, quote, previous, s). length s)"
    by simp
qed auto

definition output_redirection_targets :: "string \<Rightarrow> string \<Rightarrow> string list" where
  "output_redirection_targets command shell = scan_redirections (normalize_shell (Some shell)) None None command"

end
