(* ===== verification/Git_Context.thy ===== *)
theory Git_Context
  imports Shell_Parser
begin

text \<open>
  The context of a Git command line (\<open>git_context.py\<close>): its global options, the directories it works on and the remote
  repositories it names, directly or through the configuration.  The file system is a parameter.  Paths are the texts
  of \<open>pathlib.Path\<close>.
\<close>

section \<open>Paths and files\<close>

text \<open>\<open>str(Path(p))\<close>\<close>

definition share_root :: "string \<Rightarrow> bool" where
  "share_root drive =
     (let parts = split_on backslash drive in
      starts_with [backslash] drive \<and> \<not> ends_with [backslash] drive \<and>
      (length parts = 4 \<and> parts ! 2 \<notin> {[], ''?'', ''.'', ''?.''} \<or> length parts = 6))"

definition pathlib :: "string \<Rightarrow> string" where
  "pathlib p =
     (let s = windows_seps p; drive = path_drive s;
          root = (if path_root s = [] \<and> share_root drive then [backslash] else path_root s);
          tail = components_of (path_rest s);
          relative = (if tail \<noteq> [] \<and> path_drive (hd tail) \<noteq> [] then ''.'' # tail else tail)
      in if drive \<noteq> [] \<or> root \<noteq> [] then drive @ root @ join_with [backslash] tail
         else if relative = [] then ''.'' else join_with [backslash] relative)"

text \<open>\<open>Path(a) / b\<close>\<close>

definition path_div :: "string \<Rightarrow> string \<Rightarrow> string" where
  "path_div a b = pathlib (join_path a b)"

text \<open>The file system: the kinds of entries, the text of a file (\<open>None\<close> is an \<open>OSError\<close> or \<open>UnicodeError\<close>), its size,
  \<open>resolve(strict=False)\<close>, \<open>resolve(strict=True)\<close> and \<open>expanduser\<close>.\<close>

record file_system =
  fs_is_dir :: "string \<Rightarrow> bool"
  fs_is_file :: "string \<Rightarrow> bool"
  fs_exists :: "string \<Rightarrow> bool"
  fs_read :: "string \<Rightarrow> string option"
  fs_size :: "string \<Rightarrow> nat"
  fs_resolve :: "string \<Rightarrow> string"
  fs_resolve_strict :: "string \<Rightarrow> string option"
  fs_expand :: "string \<Rightarrow> string"

definition discover_git_dir :: "file_system \<Rightarrow> string \<Rightarrow> string option" where
  "discover_git_dir fs cwd =
     (let marker = path_div cwd ''.git'' in
      if fs_is_dir fs marker then Some marker
      else if fs_is_file fs marker then
        (case fs_read fs marker of
           None \<Rightarrow> None
         | Some text \<Rightarrow>
             (let declaration = py_strip text in
              if starts_with ''gitdir:'' (casefold declaration) then
                (let raw = py_strip (snd (snd (partition_on (CHR '':'') declaration))) in
                 Some (fs_resolve fs (if is_absolute (pathlib raw) then pathlib raw else path_div (path_parent marker) raw)))
              else None))
      else None)"

definition resolve_common_dir :: "file_system \<Rightarrow> string \<Rightarrow> string" where
  "resolve_common_dir fs git_dir =
     (let marker = path_div git_dir ''commondir'' in
      if fs_is_file fs marker then
        (case fs_read fs marker of
           None \<Rightarrow> git_dir
         | Some text \<Rightarrow>
             (let raw = py_strip text in
              fs_resolve fs (if is_absolute (pathlib raw) then pathlib raw else path_div git_dir raw)))
      else git_dir)"

section \<open>The command line\<close>

record git_invocation =
  gi_operation :: string
  gi_tail :: "string list"
  gi_cwd :: string
  gi_git_dir :: "string option"
  gi_work_tree :: "string option"
  gi_namespace :: "string option"
  gi_overrides :: "string list"

definition git_invocation_start :: "string \<Rightarrow> git_invocation" where
  "git_invocation_start cwd =
     \<lparr>gi_operation = [], gi_tail = [], gi_cwd = cwd, gi_git_dir = None, gi_work_tree = None, gi_namespace = None,
      gi_overrides = []\<rparr>"

definition value_global_options :: "string list" where
  "value_global_options =
     [''--config-env'', ''--exec-path'', ''--git-dir'', ''--work-tree'', ''--namespace'', ''--super-prefix'']"

definition flag_global_options :: "string list" where
  "flag_global_options =
     [''--bare'', ''--paginate'', ''--no-pager'', ''--literal-pathspecs'', ''--glob-pathspecs'', ''--noglob-pathspecs'',
      ''--icase-pathspecs'', ''--no-optional-locks'']"

definition enter_directory :: "string \<Rightarrow> git_invocation \<Rightarrow> git_invocation" where
  "enter_directory value gi =
     gi\<lparr>gi_cwd := (case shell_resolve value (gi_cwd gi) of Some p \<Rightarrow> if p = [] then gi_cwd gi else p | None \<Rightarrow> gi_cwd gi)\<rparr>"

definition set_value_option :: "string \<Rightarrow> string \<Rightarrow> git_invocation \<Rightarrow> git_invocation" where
  "set_value_option key selected gi =
     (if key = ''--git-dir'' then gi\<lparr>gi_git_dir := shell_resolve selected (gi_cwd gi)\<rparr>
      else if key = ''--work-tree'' then gi\<lparr>gi_work_tree := shell_resolve selected (gi_cwd gi)\<rparr>
      else if key = ''--namespace'' then gi\<lparr>gi_namespace := (if selected = [] then None else Some selected)\<rparr>
      else gi)"

definition git_operation :: "file_system \<Rightarrow> string \<Rightarrow> string list \<Rightarrow> git_invocation \<Rightarrow> git_invocation" where
  "git_operation fs operation tail gi =
     gi\<lparr>gi_operation := operation, gi_tail := tail,
       gi_git_dir := (case gi_git_dir gi of None \<Rightarrow> discover_git_dir fs (gi_cwd gi) | Some d \<Rightarrow> Some d),
       gi_work_tree := (case gi_work_tree gi of None \<Rightarrow> Some (gi_cwd gi) | Some w \<Rightarrow> Some w)\<rparr>"

text \<open>The loop over the arguments before the operation.\<close>

fun parse_options :: "file_system \<Rightarrow> git_invocation \<Rightarrow> string list \<Rightarrow> git_invocation" where
  "parse_options fs gi [] = gi"
| "parse_options fs gi (value # rest) =
     (let (key, separator, inline) = partition_on (CHR ''='') value; lower_key = casefold key in
      if value = ''-C'' then
        (if rest = [] then gi else parse_options fs (enter_directory (hd rest) gi) (tl rest))
      else if starts_with ''-C'' value then parse_options fs (enter_directory (drop 2 value) gi) rest
      else if value = ''-c'' then
        (if rest = [] then gi else parse_options fs (gi\<lparr>gi_overrides := gi_overrides gi @ [hd rest]\<rparr>) (tl rest))
      else if starts_with ''-c'' value then parse_options fs (gi\<lparr>gi_overrides := gi_overrides gi @ [drop 2 value]\<rparr>) rest
      else if lower_key \<in> set value_global_options then
        (if separator then parse_options fs (set_value_option lower_key inline gi) rest
         else parse_options fs (set_value_option lower_key (if rest = [] then [] else hd rest) gi) (tl rest))
      else if casefold value \<in> set flag_global_options then parse_options fs gi rest
      else if starts_with ''-'' value then parse_options fs gi rest
      else git_operation fs (casefold value) rest gi)"

definition parse_git_invocation :: "file_system \<Rightarrow> string list \<Rightarrow> string \<Rightarrow> git_invocation" where
  "parse_git_invocation fs tokens cwd = parse_options fs (git_invocation_start cwd) (map shell_clean (tl tokens))"

definition remote_operation :: "git_invocation \<Rightarrow> bool" where
  "remote_operation gi = (gi_operation gi \<in> {''clone'', ''fetch'', ''pull'', ''push'', ''ls-remote''})"

definition present :: "string option \<Rightarrow> string list" where
  "present v = (case v of None \<Rightarrow> [] | Some t \<Rightarrow> if t = [] then [] else [t])"

definition mutation_paths :: "file_system \<Rightarrow> git_invocation \<Rightarrow> string list" where
  "mutation_paths fs gi =
     unique (present (gi_work_tree gi) @ present (gi_git_dir gi) @
       (case gi_git_dir gi of
          None \<Rightarrow> []
        | Some d \<Rightarrow>
            if d = [] then []
            else (let common = resolve_common_dir fs d in
                  present (Some common) @ [path_div d ''index''] @
                  (if common = [] then [] else [path_div common ''objects'']))))"

section \<open>The configuration\<close>

type_synonym git_config = "(string \<times> string \<times> string) list"

definition config_add :: "string \<Rightarrow> string \<Rightarrow> string \<Rightarrow> git_config \<Rightarrow> git_config" where
  "config_add section key value cf = cf @ [(casefold section, casefold key, value)]"

definition config_getall :: "git_config \<Rightarrow> string \<Rightarrow> string \<Rightarrow> string list" where
  "config_getall cf section key =
     map (\<lambda>(s, k, v). v) (filter (\<lambda>(s, k, v). s = casefold section \<and> k = casefold key) cf)"

definition config_get :: "git_config \<Rightarrow> string \<Rightarrow> string \<Rightarrow> string option" where
  "config_get cf section key =
     (let values = config_getall cf section key in if values = [] then None else Some (last values))"

text \<open>\<open>re.fullmatch(word + r'\s+"(.+)"', section, re.IGNORECASE)\<close>\<close>

definition quoted_name :: "string \<Rightarrow> string \<Rightarrow> string option" where
  "quoted_name word section =
     (let rest = drop (length word) section; body = dropWhile is_space rest in
      if starts_with word (casefold section) \<and> rest \<noteq> body \<and> 3 \<le> length body \<and> hd body = quotation \<and>
        last body = quotation \<and> newline \<notin> set body
      then Some (butlast (tl body)) else None)"

definition remote_names :: "git_config \<Rightarrow> string list" where
  "remote_names cf = sort (unique (concat (map (\<lambda>(s, k, v). present (quoted_name ''remote'' s)) cf)))"

definition remote_section :: "string \<Rightarrow> string" where
  "remote_section remote = ''remote '' @ [quotation] @ remote @ [quotation]"

definition remote_urls :: "git_config \<Rightarrow> string \<Rightarrow> bool \<Rightarrow> string list" where
  "remote_urls cf remote push =
     (let pushurls = config_getall cf (remote_section remote) ''pushurl'' in
      if push \<and> pushurls \<noteq> [] then pushurls else config_getall cf (remote_section remote) ''url'')"

text \<open>\<open>a or b\<close> for texts that may be missing or empty\<close>

definition or_text :: "string option \<Rightarrow> string option \<Rightarrow> string option" where
  "or_text a b = (if present a \<noteq> [] then a else b)"

definition default_remote :: "git_config \<Rightarrow> string \<Rightarrow> string option \<Rightarrow> string option" where
  "default_remote cf operation branch =
     (let pushdefault = config_get cf ''remote'' ''pushdefault'';
          section = ''branch '' @ [quotation] @ concat (present branch) @ [quotation];
          pushed = (if operation = ''push'' then or_text (config_get cf section ''pushremote'') pushdefault else None);
          fetched = config_get cf section ''remote''
      in if present branch \<noteq> [] \<and> present pushed \<noteq> [] then pushed
         else if present branch \<noteq> [] \<and> present fetched \<noteq> [] then fetched
         else if operation = ''push'' then pushdefault
         else None)"

definition current_branch :: "file_system \<Rightarrow> string option \<Rightarrow> string option" where
  "current_branch fs git_dir =
     (case present git_dir of
        [] \<Rightarrow> None
      | d # _ \<Rightarrow>
          (case fs_read fs (path_div d ''HEAD'') of
             None \<Rightarrow> None
           | Some text \<Rightarrow>
               (let head = py_strip text; mark = ''ref: refs/heads/'' in
                if starts_with mark head then Some (drop (length mark) head) else None)))"

text \<open>\<open>s.rstrip('*')\<close>\<close>

definition without_stars :: "string \<Rightarrow> string" where
  "without_stars s = rstrip_by (\<lambda>c. c = CHR ''*'') s"

definition include_condition_matches :: "file_system \<Rightarrow> string \<Rightarrow> git_invocation \<Rightarrow> bool" where
  "include_condition_matches fs section gi =
     (case quoted_name ''includeif'' section of
        None \<Rightarrow> False
      | Some condition \<Rightarrow>
          (let lowered = casefold condition; directory = concat (present (gi_git_dir gi)) in
           if (starts_with ''gitdir:'' lowered \<or> starts_with ''gitdir/i:'' lowered) \<and> directory \<noteq> [] then
             (let mark = (if starts_with ''gitdir/i:'' lowered then ''gitdir/i:'' else ''gitdir:'');
                  pattern = casefold (without_stars (replace_char backslash slash (drop (length mark) condition)))
              in starts_with pattern (casefold (replace_char backslash slash directory)))
           else if starts_with ''onbranch:'' lowered then
             (let branch = (case current_branch fs (gi_git_dir gi) of None \<Rightarrow> [] | Some b \<Rightarrow> b);
                  pattern = casefold (without_stars (snd (snd (partition_on (CHR '':'') condition))))
              in starts_with pattern (casefold branch))
           else False))"

text \<open>\<open>text.splitlines()\<close>\<close>

definition is_line_break :: "char \<Rightarrow> bool" where
  "is_line_break c = (c \<in> {newline, carriage_return, CHR 0x0B, CHR 0x0C, CHR 0x1C, CHR 0x1D, CHR 0x1E, CHR 0x85})"

fun line_scan :: "string \<Rightarrow> string \<Rightarrow> string list" where
  "line_scan current [] = (if current = [] then [] else [rev current])"
| "line_scan current [c] = (if is_line_break c then [rev current] else [rev (c # current)])"
| "line_scan current (c # d # s) =
     (if c = carriage_return \<and> d = newline then rev current # line_scan [] s
      else if is_line_break c then rev current # line_scan [] (d # s)
      else line_scan (c # current) (d # s))"

definition split_lines :: "string \<Rightarrow> string list" where
  "split_lines text = line_scan [] text"

text \<open>A line of a file: the section, the files to include and the values read so far.\<close>

record config_scan =
  cs_section :: string
  cs_includes :: "string list"
  cs_config :: git_config

definition section_header :: "string \<Rightarrow> string option" where
  "section_header line =
     (if 3 \<le> length line \<and> hd line = CHR ''['' \<and> last line = CHR '']'' \<and> newline \<notin> set line
      then Some (py_strip (butlast (tl line))) else None)"

definition config_entry :: "string \<Rightarrow> (string \<times> string) option" where
  "config_entry line =
     (let (key, separator, value) = partition_on (CHR ''='') line;
          first = takeWhile (\<lambda>c. \<not> is_space c) line;
          remainder = dropWhile is_space (drop (length first) line);
          clean = (\<lambda>k v. Some (py_strip k, strip_by (\<lambda>c. c = quotation) (py_strip v)))
      in if separator then clean key value
         else if remainder = [] then None
         else clean first remainder)"

definition config_line :: "file_system \<Rightarrow> git_invocation \<Rightarrow> string \<Rightarrow> config_scan \<Rightarrow> config_scan" where
  "config_line fs gi raw_line cs =
     (let line = py_strip raw_line in
      if line = [] \<or> starts_with ''#'' line \<or> starts_with '';'' line then cs
      else (case section_header line of
              Some section \<Rightarrow> cs\<lparr>cs_section := section\<rparr>
            | None \<Rightarrow>
                (case config_entry line of
                   None \<Rightarrow> cs
                 | Some (key, value) \<Rightarrow>
                     if casefold (cs_section cs) = ''include'' \<and> casefold key = ''path''
                     then cs\<lparr>cs_includes := cs_includes cs @ [value]\<rparr>
                     else if starts_with ''includeif '' (casefold (cs_section cs)) \<and> casefold key = ''path'' then
                       (if include_condition_matches fs (cs_section cs) gi
                        then cs\<lparr>cs_includes := cs_includes cs @ [value]\<rparr> else cs)
                     else cs\<lparr>cs_config := config_add (cs_section cs) key value (cs_config cs)\<rparr>)))"

text \<open>The first argument counts the levels of inclusion that are left; \<open>seen\<close> holds the files read so far.\<close>

fun load_config_file :: "nat \<Rightarrow> file_system \<Rightarrow> git_invocation \<Rightarrow> string \<Rightarrow> git_config \<times> string list \<Rightarrow> git_config \<times> string list" where
  "load_config_file 0 fs gi path st = st"
| "load_config_file (Suc levels) fs gi path (cf, seen) =
     (case fs_resolve_strict fs path of
        None \<Rightarrow> (cf, seen)
      | Some resolved \<Rightarrow>
          if casefold resolved \<in> casefold ` set seen \<or> 256000 < fs_size fs resolved then (cf, seen)
          else (case fs_read fs resolved of
                  None \<Rightarrow> (cf, seen)
                | Some text \<Rightarrow>
                    (let cs = fold (config_line fs gi) (split_lines text)
                           \<lparr>cs_section = [], cs_includes = [], cs_config = cf\<rparr>
                     in fold (\<lambda>raw st.
                          if raw = [] \<or> contains ''://'' raw then st
                          else (let candidate = fs_expand fs (pathlib raw) in
                                load_config_file levels fs gi
                                  (if is_absolute candidate then candidate else path_div (path_parent resolved) candidate) st))
                          (cs_includes cs) (cs_config cs, seen @ [resolved]))))"

definition max_include_levels :: nat where
  "max_include_levels = 9"

definition split_config_key :: "string \<Rightarrow> (string \<times> string) option" where
  "split_config_key key =
     (let parts = split_on (CHR ''.'') key in
      if length parts < 2 then None
      else if 3 \<le> length parts \<and> casefold (hd parts) \<in> {''remote'', ''branch''} then
        Some (hd parts @ '' '' @ [quotation] @ parts ! 1 @ [quotation], join_with ''.'' (drop 2 parts))
      else Some (join_with ''.'' (butlast parts), last parts))"

definition add_override :: "string \<Rightarrow> git_config \<Rightarrow> git_config" where
  "add_override override cf =
     (let (key, separator, value) = partition_on (CHR ''='') override in
      if \<not> separator then cf
      else (case split_config_key key of None \<Rightarrow> cf | Some (section, name) \<Rightarrow> config_add section name value cf))"

text \<open>Each of the two files is loaded with a set of files read of its own.\<close>

definition load_effective_config :: "file_system \<Rightarrow> git_invocation \<Rightarrow> git_config" where
  "load_effective_config fs gi =
     (let loaded =
        (case present (gi_git_dir gi) of
           [] \<Rightarrow> []
         | d # _ \<Rightarrow>
             (let common = fst (load_config_file max_include_levels fs gi (path_div (resolve_common_dir fs d) ''config'') ([], []))
              in fst (load_config_file max_include_levels fs gi (path_div d ''config.worktree'') (common, []))))
      in fold add_override (gi_overrides gi) loaded)"

section \<open>Remote targets\<close>

fun option_value :: "string list \<Rightarrow> string \<Rightarrow> string option" where
  "option_value [] option = None"
| "option_value (value # rest) option =
     (let (key, separator, inline) = partition_on (CHR ''='') value in
      if casefold key = casefold option \<and> separator then Some inline
      else if casefold key = casefold option \<and> rest \<noteq> [] then Some (hd rest)
      else option_value rest option)"

definition has_option :: "string list \<Rightarrow> string \<Rightarrow> bool" where
  "has_option arguments option =
     (\<exists>v \<in> set arguments. casefold v = casefold option \<or> starts_with (casefold option @ ''='') (casefold v))"

fun positional_values :: "string list \<Rightarrow> string list \<Rightarrow> string list" where
  "positional_values skip [] = []"
| "positional_values skip (value # rest) =
     (let (key, separator, inline) = partition_on (CHR ''='') value in
      if casefold key \<in> set skip then
        (if separator then positional_values skip rest else positional_values skip (tl rest))
      else if starts_with ''-'' value then positional_values skip rest
      else value # positional_values skip rest)"

text \<open>\<open>re.match(r'(?i)^[a-z]:[\\/]', s)\<close> and the host of \<open>re.match(r'^[^@\s]+@([^:\s]+):', s)\<close>\<close>

definition letter_rooted :: "string \<Rightarrow> bool" where
  "letter_rooted s = (3 \<le> length s \<and> is_alpha (hd s) \<and> s ! 1 = CHR '':'' \<and> is_sep (s ! 2))"

definition scp_host :: "string \<Rightarrow> string option" where
  "scp_host s =
     (let (user, found, rest) = partition_on (CHR ''@'') s;
          host = takeWhile (\<lambda>c. c \<noteq> CHR '':'' \<and> \<not> is_space c) rest
      in if found \<and> user \<noteq> [] \<and> \<not> (\<exists>c \<in> set user. is_space c) \<and> host \<noteq> [] \<and> starts_with '':'' (drop (length host) rest)
         then Some host else None)"

definition explicit_repository :: "string \<Rightarrow> bool" where
  "explicit_repository value =
     (contains ''://'' value \<or> starts_with [backslash, backslash] value \<or> starts_with [CHR ''.'', backslash] value \<or>
      starts_with [CHR ''.'', CHR ''.'', backslash] value \<or> starts_with ''./'' value \<or> starts_with ''../'' value \<or>
      letter_rooted value \<or> starts_with ''file:'' (casefold value) \<or> scp_host value \<noteq> None)"

definition selected_remote :: "file_system \<Rightarrow> git_invocation \<Rightarrow> git_config \<Rightarrow> string option \<Rightarrow> string option" where
  "selected_remote fs gi cf remote =
     (let selected = or_text remote (default_remote cf (gi_operation gi) (current_branch fs (gi_git_dir gi)));
          names = remote_names cf
      in if present selected \<noteq> [] then selected
         else if length names = 1 then Some (hd names) else None)"

definition git_remote_targets :: "file_system \<Rightarrow> git_invocation \<Rightarrow> string list" where
  "git_remote_targets fs gi =
     (if \<not> remote_operation gi then []
      else if gi_operation gi \<in> {''clone'', ''ls-remote''} then take 1 (positional_values [] (gi_tail gi))
      else (case present (option_value (gi_tail gi) ''--repo'') of
              r # _ \<Rightarrow> [r]
            | [] \<Rightarrow>
                (let cf = load_effective_config fs gi; push = (gi_operation gi = ''push'') in
                 if has_option (gi_tail gi) ''--all'' then
                   unique (concat (map (\<lambda>remote. remote_urls cf remote push) (remote_names cf)))
                 else
                   (let values = positional_values [''--repo''] (gi_tail gi);
                        remote = (if values = [] then None else Some (hd values))
                    in if present remote \<noteq> [] \<and> explicit_repository (hd values) then [hd values]
                       else (case present (selected_remote fs gi cf remote) of
                               [] \<Rightarrow> []
                             | r # _ \<Rightarrow>
                                 (let urls = remote_urls cf r push in
                                  if r = ''.'' then [] else if urls = [] then [r] else urls))))))"

end
