(* ===== verification/Three_Rules.thy ===== *)
theory Three_Rules
  imports Windows_Paths Json_Value
begin

text \<open>
  The three hard rules (\<open>models.py\<close>, \<open>policy.py\<close>) and the gateway that applies them to every tool call
  (\<open>ThreeRuleMiddleware.on_call_tool\<close> of \<open>middleware.py\<close>).  The resolution of links is a parameter of the policy.  The
  effect resolver, the provider behind the gateway, the quarantine and the two normalisers of arguments are parameters
  of the gateway; a \<open>ToolError\<close> is represented by the code its message starts with.
\<close>

section \<open>Effects and decisions\<close>

record effects =
  ef_write :: "string list"
  ef_entry :: "string list"
  ef_delete :: "string list"
  ef_unresolved_delete :: bool
  ef_network :: bool
  ef_unresolved_write_paths :: "string list"
  ef_unresolved_entry_paths :: "string list"
  ef_unresolved_delete_paths :: "string list"

definition no_effects :: effects where
  "no_effects = \<lparr>ef_write = [], ef_entry = [], ef_delete = [], ef_unresolved_delete = False, ef_network = False,
     ef_unresolved_write_paths = [], ef_unresolved_entry_paths = [], ef_unresolved_delete_paths = []\<rparr>"

datatype decision_kind = Allow | Block | Quarantine

record decision =
  dc_kind :: decision_kind
  dc_code :: string
  dc_rule :: "string option"
  dc_paths :: "string list"

section \<open>The policy\<close>

record policy =
  po_boundary :: string
  po_quarantine :: string
  po_links :: "string \<Rightarrow> string result"

definition policy_init :: "policy \<Rightarrow> policy result" where
  "policy_init p =
     bindE (normalize_windows_path (po_boundary p) (po_boundary p)) (\<lambda>boundary.
     bindE (resolve_windows_effective_path (po_links p) (po_quarantine p) boundary False) (\<lambda>effective.
     bindE (is_within_windows_boundary effective boundary) (\<lambda>inside.
     bindE (raise_if (\<not> inside) ValueError) (\<lambda>_.
     bindE (normalize_windows_path (po_quarantine p) boundary) (\<lambda>quarantine.
       Inr (p\<lparr>po_boundary := boundary, po_quarantine := quarantine\<rparr>))))))"

text \<open>What the three loops collect: external paths, normalized deletions inside and targets that cannot be bounded.\<close>

record verdict =
  vd_external :: "string list"
  vd_deletes :: "string list"
  vd_unresolved :: "string list"

text \<open>\<open>except PathValidationError: unresolved.append(path)\<close>\<close>

definition or_unresolved :: "string \<Rightarrow> verdict \<Rightarrow> 'a result \<Rightarrow> ('a \<Rightarrow> verdict result) \<Rightarrow> verdict result" where
  "or_unresolved path v r f =
     (case r of
        Inr x \<Rightarrow> f x
      | Inl e \<Rightarrow> if e = PathValidationError then Inr (v\<lparr>vd_unresolved := vd_unresolved v @ [path]\<rparr>) else Inl e)"

definition judge_mutation :: "policy \<Rightarrow> bool \<Rightarrow> verdict \<Rightarrow> string \<Rightarrow> verdict result" where
  "judge_mutation p follow v path =
     or_unresolved path v (resolve_windows_effective_path (po_links p) path (po_boundary p) follow) (\<lambda>effective.
     bindE (is_within_windows_boundary effective (po_boundary p)) (\<lambda>inside.
       Inr (if inside then v else v\<lparr>vd_external := vd_external v @ [effective]\<rparr>)))"

definition judge_delete :: "policy \<Rightarrow> verdict \<Rightarrow> string \<Rightarrow> verdict result" where
  "judge_delete p v path =
     or_unresolved path v
       (bindE (resolve_windows_effective_path (po_links p) path (po_boundary p) False) (\<lambda>effective.
        bindE (normalize_windows_path path (po_boundary p)) (\<lambda>normalized. Inr (effective, normalized))))
       (\<lambda>(effective, normalized).
          bindE (is_within_windows_boundary effective (po_boundary p)) (\<lambda>inside.
            Inr (if inside then v\<lparr>vd_deletes := vd_deletes v @ [normalized]\<rparr>
                 else v\<lparr>vd_external := vd_external v @ [effective]\<rparr>)))"

definition judge :: "policy \<Rightarrow> effects \<Rightarrow> verdict result" where
  "judge p ef =
     bindE (foldE (judge_mutation p True)
              \<lparr>vd_external = [], vd_deletes = [],
               vd_unresolved = ef_unresolved_write_paths ef @ ef_unresolved_entry_paths ef @ ef_unresolved_delete_paths ef\<rparr>
              (ef_write ef)) (\<lambda>v.
     bindE (foldE (judge_mutation p False) v (ef_entry ef)) (\<lambda>v. foldE (judge_delete p) v (ef_delete ef)))"

definition block :: "string option \<Rightarrow> string \<Rightarrow> string list \<Rightarrow> decision" where
  "block rule code paths = \<lparr>dc_kind = Block, dc_code = code, dc_rule = rule, dc_paths = paths\<rparr>"

definition decide_verdict :: "policy \<Rightarrow> effects \<Rightarrow> verdict \<Rightarrow> decision" where
  "decide_verdict p ef v =
     (if vd_unresolved v \<noteq> [] then block None ''INVALID_INVOCATION_PATH'' (unique (vd_unresolved v))
      else if vd_external v \<noteq> [] then block (Some ''HR-001'') ''HR-001_WRITE_OUTSIDE_PROJECTS'' (unique (vd_external v))
      else if ef_network ef then block (Some ''HR-002'') ''HR-002_EXTERNAL_NETWORK'' []
      else if ef_unresolved_delete ef then block (Some ''HR-003'') ''HR-003_QUARANTINE_REQUIRED'' []
      else if vd_deletes v \<noteq> [] then
        (let deletes = unique (vd_deletes v) in
         if \<exists>d \<in> set deletes. casefold d = casefold (po_boundary p)
         then block (Some ''HR-003'') ''HR-003_QUARANTINE_FAILED'' deletes
         else \<lparr>dc_kind = Quarantine, dc_code = ''HR-003_QUARANTINE_REQUIRED'', dc_rule = Some ''HR-003'', dc_paths = deletes\<rparr>)
      else \<lparr>dc_kind = Allow, dc_code = ''ALLOW'', dc_rule = None, dc_paths = []\<rparr>)"

definition evaluate :: "policy \<Rightarrow> effects \<Rightarrow> decision result" where
  "evaluate p ef = bindE (judge p ef) (\<lambda>v. Inr (decide_verdict p ef v))"

section \<open>The gateway\<close>

record capabilities =
  cb_network_only :: "string list"
  cb_direct_delete :: "string list"
  cb_hidden_arguments :: "(string \<times> string list) list"
  cb_hidden_keys :: "string list"
  cb_configuration :: "string option"

record 's gateway =
  gw_capabilities :: capabilities
  gw_text :: "(string \<Rightarrow> obj \<Rightarrow> obj result) option"
  gw_process :: "(string \<Rightarrow> obj \<Rightarrow> obj result) option"
  gw_resolve :: "string \<Rightarrow> obj \<Rightarrow> ('s, effects) op"
  gw_policy :: policy
  gw_call :: "string \<Rightarrow> obj \<Rightarrow> ('s, json) op"
  gw_observe :: "string \<Rightarrow> obj \<Rightarrow> json \<Rightarrow> ('s, unit) op"
  gw_quarantine :: "string list \<Rightarrow> ('s, obj list) op"

record call_record =
  cr_tool :: string
  cr_arguments :: "string list"
  cr_decision :: string
  cr_outcome :: string
  cr_code :: string

record 's gateway_state =
  gs_world :: 's
  gs_calls :: "call_record list"

definition in_gateway :: "('s, 'a) op \<Rightarrow> ('s gateway_state, 'a) op" where
  "in_gateway m st = (case m (gs_world st) of (r, w) \<Rightarrow> (r, st\<lparr>gs_world := w\<rparr>))"

definition record_call :: "string \<Rightarrow> string list \<Rightarrow> string \<Rightarrow> string \<Rightarrow> string \<Rightarrow> ('s gateway_state, unit) op" where
  "record_call tool keys decision outcome code st =
     (Inr (), st\<lparr>gs_calls := gs_calls st @
       [\<lparr>cr_tool = tool, cr_arguments = keys, cr_decision = decision, cr_outcome = outcome, cr_code = code\<rparr>]\<rparr>)"

text \<open>A rejection is recorded and raised.\<close>

definition reject :: "string \<Rightarrow> string list \<Rightarrow> string \<Rightarrow> string \<Rightarrow> string \<Rightarrow> ('s gateway_state, 'a) op" where
  "reject tool keys decision outcome code =
     bindS (record_call tool keys decision outcome code) (\<lambda>_. failS (Coded code))"

definition normalized_texts :: "'s gateway \<Rightarrow> string \<Rightarrow> obj \<Rightarrow> obj result" where
  "normalized_texts g tool arguments = (case gw_text g of None \<Rightarrow> Inr arguments | Some f \<Rightarrow> f tool arguments)"

definition normalized_process :: "'s gateway \<Rightarrow> string \<Rightarrow> obj \<Rightarrow> obj result" where
  "normalized_process g tool texts = (case gw_process g of None \<Rightarrow> Inr texts | Some f \<Rightarrow> f tool texts)"

definition normalized_arguments :: "'s gateway \<Rightarrow> string \<Rightarrow> obj \<Rightarrow> obj result" where
  "normalized_arguments g tool arguments = bindE (normalized_texts g tool arguments) (normalized_process g tool)"

definition hidden_key :: "capabilities \<Rightarrow> string \<Rightarrow> obj \<Rightarrow> bool" where
  "hidden_key cb tool arguments =
     (case cb_configuration cb of
        None \<Rightarrow> False
      | Some c \<Rightarrow> c \<noteq> [] \<and> casefold tool = casefold c \<and>
          casefold (py_text (field_or arguments ''key'' (JStr []))) \<in> casefold ` set (cb_hidden_keys cb))"

definition hidden_arguments :: "capabilities \<Rightarrow> string \<Rightarrow> obj \<Rightarrow> bool" where
  "hidden_arguments cb tool arguments =
     (case map_of (cb_hidden_arguments cb) (casefold tool) of
        None \<Rightarrow> False
      | Some hidden \<Rightarrow> \<exists>k \<in> fst ` set arguments. k \<in> set hidden)"

text \<open>\<open>try: result = await call_next(...) except Exception: record; raise\<close>\<close>

definition forward :: "'s gateway \<Rightarrow> string \<Rightarrow> string list \<Rightarrow> obj \<Rightarrow> decision \<Rightarrow> ('s gateway_state, json) op" where
  "forward g tool keys arguments d st =
     (case in_gateway (gw_call g tool arguments) st of
        (Inl e, st') \<Rightarrow> (Inl e, snd (record_call tool keys ''allow'' ''error'' (dc_code d) st'))
      | (Inr answer, st') \<Rightarrow>
          bindS (in_gateway (gw_observe g tool arguments answer)) (\<lambda>_.
          bindS (record_call tool keys ''allow'' ''success'' (dc_code d)) (\<lambda>_. returnS answer)) st')"

text \<open>The object whose text is the content of the answer.\<close>

definition quarantine_payload :: "obj list \<Rightarrow> json" where
  "quarantine_payload records = JObj [(''quarantined'', JArr (map JObj records))]"

definition quarantine_call :: "'s gateway \<Rightarrow> string \<Rightarrow> string list \<Rightarrow> decision \<Rightarrow> ('s gateway_state, json) op" where
  "quarantine_call g tool keys d st =
     (case in_gateway (gw_quarantine g (dc_paths d)) st of
        (Inl e, st') \<Rightarrow>
          if e = QuarantineError then reject tool keys ''quarantine'' ''error'' ''HR-003_QUARANTINE_FAILED'' st' else (Inl e, st')
      | (Inr records, st') \<Rightarrow>
          bindS (record_call tool keys ''quarantine'' ''success'' (dc_code d)) (\<lambda>_. returnS (quarantine_payload records)) st')"

definition apply_decision :: "'s gateway \<Rightarrow> string \<Rightarrow> string list \<Rightarrow> obj \<Rightarrow> decision \<Rightarrow> ('s gateway_state, json) op" where
  "apply_decision g tool keys arguments d =
     (case dc_kind d of
        Allow \<Rightarrow> forward g tool keys arguments d
      | Block \<Rightarrow> reject tool keys ''block'' ''rejected'' (dc_code d)
      | Quarantine \<Rightarrow>
          if casefold tool \<notin> set (cb_direct_delete (gw_capabilities g))
          then reject tool keys ''quarantine'' ''rejected'' ''HR-003_QUARANTINE_REQUIRED''
          else quarantine_call g tool keys d)"

text \<open>An exception of the text normaliser passes; a coded one of the process normaliser is a
  \<open>ProcessSourceIsolationError\<close>, which is recorded.\<close>

definition on_call_tool :: "'s gateway \<Rightarrow> string \<Rightarrow> obj \<Rightarrow> ('s gateway_state, json) op" where
  "on_call_tool g tool arguments =
     (let keys = map fst arguments; cb = gw_capabilities g in
      bindS (liftE (normalized_texts g tool arguments)) (\<lambda>texts.
      (case normalized_process g tool texts of
         Inl (Coded code) \<Rightarrow> reject tool keys ''source_isolation'' ''rejected'' code
       | Inl e \<Rightarrow> failS e
       | Inr args \<Rightarrow>
           if casefold tool \<in> set (cb_network_only cb) then reject tool keys ''unsupported'' ''rejected'' ''UNSUPPORTED_PROVIDER_TOOL''
           else if hidden_key cb tool args then reject tool keys ''unsupported'' ''rejected'' ''PROVIDER_CONFIGURATION_INVARIANT''
           else if hidden_arguments cb tool args then reject tool keys ''unsupported'' ''rejected'' ''UNSUPPORTED_PROVIDER_MODE''
           else
             bindS (in_gateway (gw_resolve g tool args)) (\<lambda>ef.
             bindS (liftE (evaluate (gw_policy g) ef)) (\<lambda>d. apply_decision g tool keys args d)))))"

end
