(* ===== verification/Command_Intent.thy ===== *)
theory Command_Intent
  imports Git_Context Three_Rules
begin

text \<open>
  The classification of shell commands (\<open>command_intent.py\<close>): which paths a command writes, moves or deletes, and
  whether it reaches the network.  \<open>urlparse\<close> of the standard library is modelled as far as the code uses it (scheme and
  host name); the check of an address in brackets and the file system are parameters.
\<close>

record environment =
  en_files :: file_system
  en_bracketed :: "string \<Rightarrow> bool"

section \<open>Tokens\<close>

definition clean_token :: "string \<Rightarrow> string" where
  "clean_token token = rstrip_by (\<lambda>c. c \<in> set '',;)'') (strip_quotes (py_strip token))"

definition strip_outer_quotes :: "string \<Rightarrow> string" where
  "strip_outer_quotes token =
     (let value = py_strip token in
      if 2 \<le> length value \<and> hd value = last value \<and> is_quote (hd value) then butlast (tl value) else value)"

definition program_name :: "string \<Rightarrow> string" where
  "program_name token = program_of (clean_token token)"

definition program_of_tokens :: "string list \<Rightarrow> string" where
  "program_of_tokens tokens = (case tokens of [] \<Rightarrow> [] | t # _ \<Rightarrow> program_name t)"

text \<open>The tokens of PowerShell; the characters of the current token are kept in reverse.\<close>

fun powershell_scan :: "char option \<Rightarrow> string \<Rightarrow> string \<Rightarrow> string list" where
  "powershell_scan quote current [] = (if current = [] then [] else [rev current])"
| "powershell_scan quote current (c # s) =
     (if quote = Some apostrophe then
        (if c = apostrophe \<and> s \<noteq> [] \<and> hd s = apostrophe then powershell_scan quote (hd s # c # current) (tl s)
         else powershell_scan (if c = apostrophe then None else quote) (c # current) s)
      else if c = backtick then
        (if s \<noteq> [] then powershell_scan quote (hd s # c # current) (tl s) else powershell_scan quote (c # current) s)
      else if quote = Some quotation then powershell_scan (if c = quotation then None else quote) (c # current) s
      else if is_space c then (if current = [] then [] else [rev current]) @ powershell_scan None [] s
      else powershell_scan (if is_quote c then Some c else None) (c # current) s)"

definition powershell_tokens :: "string \<Rightarrow> string list" where
  "powershell_tokens command = powershell_scan None [] command"

section \<open>Nested shells\<close>

text \<open>The arguments after the first marker, when there are any.\<close>

fun after_marker :: "string list \<Rightarrow> string list \<Rightarrow> string list option" where
  "after_marker markers [] = None"
| "after_marker markers (a # as) = (if casefold a \<in> set markers then Some as else after_marker markers as)"

definition optional_text :: "string \<Rightarrow> string option" where
  "optional_text t = (if t = [] then None else Some t)"

fun payload_after :: "string list \<Rightarrow> string list \<Rightarrow> string option" where
  "payload_after markers [] = None"
| "payload_after markers (a # as) =
     (if casefold a \<in> set markers \<and> as \<noteq> [] then optional_text (py_strip (join_with '' '' as)) else payload_after markers as)"

definition wrapped_command_payload :: "string list \<Rightarrow> string option" where
  "wrapped_command_payload tokens =
     (let program = program_of_tokens tokens in
      if program \<notin> {''cmd'', ''powershell'', ''pwsh''} then None
      else payload_after (if program = ''cmd'' then [''/c'', ''/k''] else [''-command'', ''-c'']) (map strip_outer_quotes (tl tokens)))"

fun delayed_override :: "bool option \<Rightarrow> string list \<Rightarrow> bool option" where
  "delayed_override result [] = result"
| "delayed_override result (token # rest) =
     (let switch = casefold (strip_outer_quotes token) in
      if switch \<in> {''/c'', ''/k''} then result
      else delayed_override
        (if switch = ''/v:on'' then Some True else if switch = ''/v:off'' then Some False else result) rest)"

definition cmd_delayed_expansion_override :: "string list \<Rightarrow> bool option" where
  "cmd_delayed_expansion_override tokens =
     (if program_of_tokens tokens \<noteq> ''cmd'' then None else delayed_override None (tl tokens))"

definition cmd_delayed_expansion_state :: "string list \<Rightarrow> bool \<Rightarrow> bool" where
  "cmd_delayed_expansion_state tokens inherited =
     (case cmd_delayed_expansion_override tokens of None \<Rightarrow> inherited | Some b \<Rightarrow> b)"

definition persistent_shell_payload :: "string list \<Rightarrow> (string \<times> string) option" where
  "persistent_shell_payload tokens =
     (let program = program_of_tokens tokens; arguments = map strip_outer_quotes (tl tokens);
          lowered = map casefold arguments;
          found = (\<lambda>shell markers. Some (shell,
            (case after_marker markers arguments of None \<Rightarrow> [] | Some rest \<Rightarrow> py_strip (join_with '' '' rest))))
      in if program = ''cmd'' then found ''cmd'' [''/k'']
         else if program \<in> {''powershell'', ''pwsh''} \<and> ''-noexit'' \<in> set lowered then found ''powershell'' [''-command'', ''-c'']
         else None)"

section \<open>Hosts and references\<close>

text \<open>\<open>urlparse(value)\<close> as far as the code uses it: the scheme and the host name.\<close>

record parsed_url =
  pu_scheme :: string
  pu_hostname :: "string option"

definition is_scheme_char :: "char \<Rightarrow> bool" where
  "is_scheme_char c = (is_alnum c \<or> c \<in> set ''+-.'')"

definition split_scheme :: "string \<Rightarrow> string \<times> string" where
  "split_scheme url =
     (let (scheme, found, rest) = partition_on (CHR '':'') url in
      if found \<and> scheme \<noteq> [] \<and> is_alpha (hd scheme) \<and> (\<forall>c \<in> set scheme. is_scheme_char c)
      then (casefold scheme, rest) else ([], url))"

definition after_userinfo :: "string \<Rightarrow> string" where
  "after_userinfo netloc = after_last (CHR ''@'') netloc"

definition bracketed_netloc :: "(string \<Rightarrow> bool) \<Rightarrow> string \<Rightarrow> bool" where
  "bracketed_netloc valid netloc =
     (let hostinfo = after_userinfo netloc;
          (front, opened, bracketed) = partition_on (CHR ''['') hostinfo;
          (host, closed, port) = partition_on (CHR '']'') bracketed
      in if opened then front = [] \<and> (port = [] \<or> starts_with '':'' port) \<and> valid host
         else valid (fst (partition_on (CHR '':'') hostinfo)))"

definition url_hostname :: "string \<Rightarrow> string option" where
  "url_hostname netloc =
     (let hostinfo = after_userinfo netloc;
          (front, opened, bracketed) = partition_on (CHR ''['') hostinfo;
          host = (if opened then fst (partition_on (CHR '']'') bracketed) else fst (partition_on (CHR '':'') hostinfo));
          (name, zoned, zone) = partition_on (CHR ''%'') host
      in if host = [] then None else Some (casefold name @ (if zoned then ''%'' else []) @ zone))"

definition urlparse :: "(string \<Rightarrow> bool) \<Rightarrow> string \<Rightarrow> parsed_url result" where
  "urlparse valid value =
     (let url = filter (\<lambda>c. c \<notin> {CHR 0x09, carriage_return, newline}) (dropWhile (\<lambda>c. (of_char c :: nat) \<le> 32) value);
          (scheme, rest) = split_scheme url;
          netloc = (if starts_with ''//'' rest then takeWhile (\<lambda>c. c \<notin> set ''/?#'') (drop 2 rest) else []);
          opened = CHR ''['' \<in> set netloc; closed = CHR '']'' \<in> set netloc
      in if opened \<noteq> closed \<or> (opened \<and> closed \<and> \<not> bracketed_netloc valid netloc) then Inl ValueError
         else Inr \<lparr>pu_scheme = scheme, pu_hostname = url_hostname netloc\<rparr>)"

definition is_local_host :: "string option \<Rightarrow> bool" where
  "is_local_host host =
     (case host of
        None \<Rightarrow> False
      | Some h \<Rightarrow>
          (let normalized = casefold (strip_by (\<lambda>c. c \<in> set ''[]'') h) in
           h \<noteq> [] \<and> (normalized \<in> {''localhost'', ''127.0.0.1'', ''::1''} \<or> ends_with ''.localhost'' normalized)))"

definition parsed_remote_url :: "environment \<Rightarrow> string \<Rightarrow> parsed_url result" where
  "parsed_remote_url en value =
     (let clean = clean_token value in
      urlparse (en_bracketed en) (if starts_with ''git+'' (casefold clean) then drop 4 clean else clean))"

definition remote_schemes :: "string list" where
  "remote_schemes = [''http'', ''https'', ''ftp'', ''ssh'', ''git'']"

definition share_host :: "string \<Rightarrow> string" where
  "share_host clean = takeWhile (\<lambda>c. c \<noteq> backslash) (dropWhile (\<lambda>c. c = backslash) clean)"

definition is_share :: "string \<Rightarrow> bool" where
  "is_share clean = starts_with [backslash, backslash] clean"

definition looks_like_local_target :: "environment \<Rightarrow> string \<Rightarrow> string \<Rightarrow> bool result" where
  "looks_like_local_target en cwd token =
     (let clean = clean_token token; lowered = casefold clean in
      if clean = [] then Inr False
      else bindE (parsed_remote_url en clean) (\<lambda>parsed. Inr
        (if pu_scheme parsed \<in> set remote_schemes then is_local_host (pu_hostname parsed)
         else if pu_scheme parsed = ''file'' then True
         else if lowered \<in> {''localhost'', ''127.0.0.1'', ''::1'', ''.'', ''..''} then True
         else if (\<forall>c \<in> set clean. is_digit c) then True
         else if starts_with [CHR ''.'', backslash] clean \<or> starts_with [CHR ''.'', CHR ''.'', backslash] clean \<or>
           starts_with ''./'' clean \<or> starts_with ''../'' clean then True
         else if letter_rooted clean then True
         else if is_share clean then is_local_host (Some (share_host clean))
         else (case scp_host clean of
                 Some host \<Rightarrow> is_local_host (Some host)
               | None \<Rightarrow>
                   fs_exists (en_files en) (path_div cwd clean) \<or> ends_with ''.whl'' lowered \<or> ends_with ''.zip'' lowered \<or>
                   ends_with ''.tar.gz'' lowered \<or> ends_with ''.tgz'' lowered))))"

definition external_target :: "environment \<Rightarrow> string \<Rightarrow> string \<Rightarrow> bool result" where
  "external_target en cwd token =
     (let clean = clean_token token in
      if clean = [] \<or> starts_with ''-'' clean then Inr False
      else bindE (looks_like_local_target en cwd clean) (\<lambda>is_local.
        if is_local then Inr False
        else bindE (parsed_remote_url en clean) (\<lambda>parsed. Inr
          (if pu_scheme parsed \<in> set remote_schemes then \<not> is_local_host (pu_hostname parsed)
           else if is_share clean then \<not> is_local_host (Some (share_host clean))
           else (case scp_host clean of Some host \<Rightarrow> \<not> is_local_host (Some host) | None \<Rightarrow> True)))))"

definition package_remote_prefixes :: "string list" where
  "package_remote_prefixes =
     [''git+http://'', ''git+https://'', ''git+ssh://'', ''git://'', ''github:'', ''gitlab:'', ''bitbucket:'']"

definition explicit_remote_reference :: "environment \<Rightarrow> string \<Rightarrow> string \<Rightarrow> bool result" where
  "explicit_remote_reference en cwd token =
     (let clean = clean_token token in
      if clean = [] then Inr False
      else if \<exists>p \<in> set package_remote_prefixes. starts_with p (casefold clean) then external_target en cwd clean
      else bindE (parsed_remote_url en clean) (\<lambda>parsed.
        if pu_scheme parsed \<in> set remote_schemes then Inr (\<not> is_local_host (pu_hostname parsed))
        else if is_share clean then external_target en cwd clean
        else if scp_host clean \<noteq> None then external_target en cwd clean
        else Inr False))"

section \<open>Network access\<close>

definition network_programs :: "string list" where
  "network_programs =
     [''curl'', ''wget'', ''invoke-webrequest'', ''iwr'', ''invoke-restmethod'', ''irm'', ''ssh'', ''scp'', ''sftp'', ''ftp'',
      ''telnet'', ''nc'', ''ncat'']"

definition network_value_options :: "string list" where
  "network_value_options =
     [''-a'', ''--user-agent'', ''-b'', ''--cookie'', ''-c'', ''--cookie-jar'', ''-d'', ''--data'', ''--data-ascii'',
      ''--data-binary'', ''--data-raw'', ''-e'', ''--referer'', ''-h'', ''--header'', ''-o'', ''--output'', ''-u'', ''--user'',
      ''-x'', ''--proxy'', ''--request'', ''--connect-to'', ''--resolve'', ''-i'', ''--identity-file'', ''-p'', ''--port'',
      ''-l'', ''--login-name'', ''-f'', ''--config'', ''-headers'', ''-outfile'', ''-method'', ''-body'', ''-contenttype'',
      ''-credential'', ''-timeoutsec'']"

definition network_flag_options :: "string list" where
  "network_flag_options =
     [''-4'', ''-6'', ''-i'', ''--include'', ''-k'', ''--insecure'', ''-l'', ''--location'', ''-s'', ''--silent'', ''-v'',
      ''--verbose'', ''--fail'', ''--head'', ''--compressed'', ''--dry-run'', ''-usebasicparsing'', ''-batchmode'', ''-n'',
      ''-q'', ''-t'', ''-z'']"

datatype option_role = Target_Option | Value_Option | Flag_Option | Unknown_Option

definition common_role :: "string \<Rightarrow> option_role" where
  "common_role folded =
     (if folded \<in> set network_value_options then Value_Option
      else if folded \<in> set network_flag_options then Flag_Option
      else Unknown_Option)"

definition network_option_role :: "string \<Rightarrow> string \<Rightarrow> option_role" where
  "network_option_role program option =
     (let folded = casefold option in
      if program = ''curl'' then
        (if option = ''-x'' \<or> folded \<in> {''--url'', ''--proxy'', ''--connect-to'', ''--resolve''} then Target_Option
         else if option = ''-X'' then Value_Option
         else common_role folded)
      else if program \<in> {''ssh'', ''scp'', ''sftp''} then
        (if option = ''-J'' \<or> folded \<in> {''--jump-host'', ''--proxyjump''} then Target_Option else common_role folded)
      else if folded \<in> {''--url'', ''-uri''} then Target_Option
      else common_role folded)"

fun network_scan :: "string \<Rightarrow> string list \<Rightarrow> string list" where
  "network_scan program [] = []"
| "network_scan program (value # rest) =
     (let (option, separator, inline) = partition_on (CHR ''='') value; role = network_option_role program option in
      if separator \<and> role = Target_Option then inline # network_scan program rest
      else if separator \<and> role \<noteq> Unknown_Option then network_scan program rest
      else if role = Target_Option then take 1 rest @ network_scan program (tl rest)
      else if role = Value_Option then network_scan program (tl rest)
      else if role = Flag_Option then network_scan program rest
      else if starts_with ''-'' value \<or> starts_with ''/'' value then network_scan program (tl rest)
      else value # network_scan program rest)"

definition network_targets :: "string list \<Rightarrow> string list" where
  "network_targets tokens = (if tokens = [] then [] else network_scan (program_of_tokens tokens) (map clean_token (tl tokens)))"

definition package_commands :: "(string \<times> string list) list" where
  "package_commands =
     [(''npm'', [''install'', ''i'', ''ci'', ''update'', ''add'']), (''pnpm'', [''install'', ''i'', ''update'', ''add'']),
      (''yarn'', [''install'', ''add'', ''upgrade'', ''up'']), (''pip'', [''install'', ''download'']),
      (''pip3'', [''install'', ''download'']), (''uv'', [''add'', ''sync'', ''lock'']),
      (''winget'', [''install'', ''upgrade'', ''search'']), (''choco'', [''install'', ''upgrade'', ''search'']),
      (''scoop'', [''install'', ''update'', ''search''])]"

definition package_endpoint_options :: "string list" where
  "package_endpoint_options =
     [''--registry'', ''--source'', ''--index-url'', ''--extra-index-url'', ''--find-links'', ''-i'', ''-f'']"

definition package_value_options :: "string list" where
  "package_value_options =
     [''--cache-dir'', ''--target'', ''--prefix'', ''--root'', ''--python'', ''--config-settings'', ''--constraint'', ''-c'',
      ''--requirement'', ''-r'']"

fun operation_scan :: "string list \<Rightarrow> string \<times> string list" where
  "operation_scan [] = ([], [])"
| "operation_scan (value # rest) =
     (if value \<noteq> [] \<and> \<not> starts_with ''-'' value \<and> \<not> starts_with ''/'' value then (casefold value, rest)
      else operation_scan rest)"

definition operation_and_tail :: "string list \<Rightarrow> string \<times> string list" where
  "operation_and_tail tokens = operation_scan (map clean_token (tl tokens))"

text \<open>The endpoints and the packages of an installation.\<close>

fun package_sources :: "string list \<Rightarrow> string list \<times> string list" where
  "package_sources [] = ([], [])"
| "package_sources (token # rest) =
     (let value = clean_token token; lowered = casefold value;
          (key, separator, folded) = partition_on (CHR ''='') lowered;
          inline = snd (snd (partition_on (CHR ''='') value))
      in if separator \<and> key \<in> set package_endpoint_options then
           (let (endpoints, packages) = package_sources rest in (inline # endpoints, packages))
         else if separator \<and> key \<in> set package_value_options then package_sources rest
         else if lowered \<in> set package_endpoint_options then
           (let (endpoints, packages) = package_sources (tl rest) in (map clean_token (take 1 rest) @ endpoints, packages))
         else if lowered \<in> set package_value_options then package_sources (tl rest)
         else if starts_with ''-'' value \<or> starts_with ''/'' value then package_sources rest
         else (let (endpoints, packages) = package_sources rest in (endpoints, value # packages)))"

fun anyE :: "('a \<Rightarrow> bool result) \<Rightarrow> 'a list \<Rightarrow> bool result" where
  "anyE f [] = Inr False"
| "anyE f (x # xs) = bindE (f x) (\<lambda>b. if b then Inr True else anyE f xs)"

definition remote_package :: "environment \<Rightarrow> string \<Rightarrow> string list \<Rightarrow> bool result" where
  "remote_package en cwd tokens =
     (let (endpoints, packages) = package_sources tokens in
      anyE (explicit_remote_reference en cwd) (endpoints @ packages))"

definition network_intent :: "environment \<Rightarrow> string list \<Rightarrow> string \<Rightarrow> bool result" where
  "network_intent en tokens cwd =
     (let program = program_of_tokens tokens; arguments = map (casefold \<circ> clean_token) (tl tokens) in
      if tokens = [] then Inr False
      else if program \<in> set network_programs then
        anyE (if program = ''scp'' then explicit_remote_reference en cwd else external_target en cwd) (network_targets tokens)
      else if program = ''uv'' \<and> take 2 arguments = [''pip'', ''install''] then
        (if ''--offline'' \<in> set arguments then Inr False else remote_package en cwd (drop 3 tokens))
      else (case map_of package_commands program of
              Some operations \<Rightarrow>
                (let (operation, tail) = operation_and_tail tokens in
                 if operation \<notin> set operations \<or> ''--offline'' \<in> set arguments then Inr False
                 else remote_package en cwd tail)
            | None \<Rightarrow>
                if program = ''git'' then
                  (let gi = parse_git_invocation (en_files en) tokens cwd in
                   anyE (explicit_remote_reference en (gi_cwd gi)) (git_remote_targets (en_files en) gi))
                else Inr False))"

section \<open>Mutated paths\<close>

definition delete_programs :: "string list" where
  "delete_programs = [''del'', ''erase'', ''rd'', ''rmdir'', ''rm'', ''remove-item'', ''unlink'', ''shred'']"

definition copy_programs :: "string list" where
  "copy_programs = [''copy'', ''copy-item'', ''cp'', ''xcopy'']"

definition move_programs :: "string list" where
  "move_programs = [''move'', ''move-item'', ''mv'']"

definition create_programs :: "string list" where
  "create_programs = [''mkdir'', ''md'', ''new-item'', ''touch'']"

definition write_cmdlets :: "string list" where
  "write_cmdlets = [''add-content'', ''out-file'', ''set-content'', ''tee-object'']"

definition powershell_mutation_programs :: "string list" where
  "powershell_mutation_programs =
     [''add-content'', ''copy-item'', ''move-item'', ''new-item'', ''out-file'', ''remove-item'', ''set-content'', ''tee-object'']"

definition cmd_mutation_programs :: "string list" where
  "cmd_mutation_programs = [''copy'', ''del'', ''erase'', ''md'', ''mkdir'', ''move'', ''rd'', ''rmdir'', ''xcopy'']"

definition path_mutation_programs :: "string list" where
  "path_mutation_programs = delete_programs @ copy_programs @ move_programs @ create_programs @ write_cmdlets"

definition mutation_shell :: "string \<Rightarrow> string \<Rightarrow> string" where
  "mutation_shell program shell =
     (let normalized = casefold shell in
      if normalized \<in> {''cmd'', ''powershell''} then normalized
      else if program \<in> set powershell_mutation_programs then ''powershell''
      else if program \<in> set cmd_mutation_programs then ''cmd''
      else normalized)"

text \<open>The start of a variable or of a subexpression.\<close>

definition expands :: "char \<Rightarrow> bool" where
  "expands c = (is_alnum c \<or> c \<in> set ''_?^${('')"

fun powershell_expansion :: "char option \<Rightarrow> string \<Rightarrow> bool" where
  "powershell_expansion quote [] = False"
| "powershell_expansion quote (c # s) =
     (if quote = Some apostrophe then
        (if c = apostrophe \<and> s \<noteq> [] \<and> hd s = apostrophe then powershell_expansion quote (tl s)
         else powershell_expansion (if c = apostrophe then None else quote) s)
      else if c = backtick then powershell_expansion quote (tl s)
      else if c = quotation then powershell_expansion (if quote = Some quotation then None else Some quotation) s
      else if quote = None \<and> c = apostrophe then powershell_expansion (Some apostrophe) s
      else if c = CHR ''$'' \<and> s \<noteq> [] \<and> expands (hd s) then True
      else powershell_expansion quote s)"

text \<open>The search for \<open>m[^m\r\n]+m\<close>.\<close>

fun has_enclosed :: "char \<Rightarrow> string \<Rightarrow> bool" where
  "has_enclosed m [] = False"
| "has_enclosed m (c # s) =
     ((c = m \<and> (let name = takeWhile (\<lambda>d. d \<noteq> m \<and> d \<noteq> carriage_return \<and> d \<noteq> newline) s in
                 name \<noteq> [] \<and> starts_with [m] (drop (length name) s))) \<or>
      has_enclosed m s)"

definition has_shell_expansion :: "string \<Rightarrow> string \<Rightarrow> bool \<Rightarrow> bool" where
  "has_shell_expansion value shell delayed =
     (let normalized = casefold shell; raw = py_strip value; candidate = strip_outer_quotes raw in
      if delayed \<and> has_enclosed (CHR ''!'') candidate then True
      else if normalized = ''cmd'' then has_enclosed (CHR ''%'') candidate
      else if normalized = ''powershell'' then powershell_expansion None raw
      else False)"

datatype mutation_target = No_Target | Resolved string | Unresolved string

definition resolve_mutation_target :: "string \<Rightarrow> string \<Rightarrow> string \<Rightarrow> bool \<Rightarrow> mutation_target" where
  "resolve_mutation_target value cwd shell delayed =
     (let clean = clean_token value in
      if clean = [] \<or> clean \<in> {''-'', ''nul'', ''NUL''} \<or> starts_with ''&'' clean then No_Target
      else if has_shell_expansion value shell delayed then Unresolved clean
      else (case normalize_windows_path clean cwd of Inr p \<Rightarrow> Resolved p | Inl _ \<Rightarrow> Unresolved clean))"

fun non_option_scan :: "bool \<Rightarrow> string list \<Rightarrow> string list" where
  "non_option_scan skip [] = []"
| "non_option_scan skip (token # rest) =
     (let clean = clean_token token in
      if skip then clean # non_option_scan False rest
      else if casefold clean \<in> {''-path'', ''-literalpath'', ''-destination'', ''-filepath''} then non_option_scan True rest
      else if starts_with ''-'' clean \<or> starts_with ''/'' clean then non_option_scan False rest
      else clean # non_option_scan False rest)"

definition non_option_values :: "string list \<Rightarrow> string list" where
  "non_option_values tokens = non_option_scan False tokens"

fun positional_operands :: "string list \<Rightarrow> string list \<Rightarrow> string list" where
  "positional_operands value_options [] = []"
| "positional_operands value_options (token # rest) =
     (let clean = clean_token token; (key, separator, inline) = partition_on (CHR ''='') clean in
      if casefold key \<in> set value_options then positional_operands value_options (if separator then rest else tl rest)
      else if starts_with ''-'' clean \<or> starts_with ''/'' clean then positional_operands value_options rest
      else clean # positional_operands value_options rest)"

text \<open>Resolved and unresolved targets.\<close>

type_synonym targets = "string list \<times> string list"

definition partition_mutation_targets :: "string list \<Rightarrow> string \<Rightarrow> string \<Rightarrow> bool \<Rightarrow> targets" where
  "partition_mutation_targets values cwd shell delayed =
     (let found = map (\<lambda>v. resolve_mutation_target v cwd shell delayed) values in
      (unique (concat (map (\<lambda>t. case t of Resolved p \<Rightarrow> [p] | _ \<Rightarrow> []) found)),
       unique (concat (map (\<lambda>t. case t of Unresolved p \<Rightarrow> [p] | _ \<Rightarrow> []) found))))"

definition redirection_paths :: "string \<Rightarrow> string \<Rightarrow> string \<Rightarrow> bool \<Rightarrow> targets" where
  "redirection_paths command cwd shell delayed =
     partition_mutation_targets (output_redirection_targets command shell) cwd shell delayed"

section \<open>Git\<close>

definition local_git_write_commands :: "string list" where
  "local_git_write_commands =
     [''add'', ''checkout'', ''cherry-pick'', ''commit'', ''merge'', ''reset'', ''restore'', ''revert'', ''switch'']"

definition git_branch_mutation_options :: "string list" where
  "git_branch_mutation_options =
     [''-c'', ''-C'', ''-d'', ''-D'', ''-f'', ''-m'', ''-M'', ''--copy'', ''--delete'', ''--edit-description'', ''--force'',
      ''--move'', ''--set-upstream-to'', ''--track'', ''--unset-upstream'']"

definition git_branch_read_value_options :: "string list" where
  "git_branch_read_value_options =
     [''--abbrev'', ''--color'', ''--column'', ''--contains'', ''--format'', ''--merged'', ''--no-contains'', ''--no-merged'',
      ''--points-at'', ''--sort'']"

definition git_tag_mutation_options :: "string list" where
  "git_tag_mutation_options =
     [''-a'', ''-d'', ''-f'', ''-s'', ''-u'', ''--annotate'', ''--delete'', ''--force'', ''--local-user'', ''--sign'']"

definition git_tag_read_value_options :: "string list" where
  "git_tag_read_value_options =
     [''--color'', ''--column'', ''--contains'', ''--format'', ''--merged'', ''--no-contains'', ''--no-merged'', ''--points-at'',
      ''--sort'']"

definition git_has_option :: "string list \<Rightarrow> string list \<Rightarrow> bool" where
  "git_has_option arguments options =
     (\<exists>argument \<in> set arguments.
        let key = fst (partition_on (CHR ''='') argument) in
        key \<in> set options \<or>
        (starts_with ''--'' key \<and> casefold key \<in> casefold ` set (filter (starts_with ''--'') options)))"

definition git_has_positional :: "string list \<Rightarrow> bool" where
  "git_has_positional arguments = (\<exists>a \<in> set arguments. a \<noteq> [] \<and> \<not> starts_with ''-'' a)"

definition git_branch_writes :: "string list \<Rightarrow> bool" where
  "git_branch_writes arguments =
     (if git_has_option arguments git_branch_mutation_options then True
      else if git_has_option arguments git_branch_read_value_options \<or>
        (\<exists>v \<in> set arguments.
           v \<in> {''-a'', ''-r'', ''-l'', ''--all'', ''--remotes'', ''--list'', ''--show-current''} \<or> starts_with ''-v'' v)
      then False else git_has_positional arguments)"

definition git_tag_writes :: "string list \<Rightarrow> bool" where
  "git_tag_writes arguments =
     (if git_has_option arguments git_tag_mutation_options then True
      else if git_has_option arguments git_tag_read_value_options \<or>
        (\<exists>v \<in> set arguments. v \<in> {''-l'', ''-v'', ''--list'', ''--verify''} \<or> starts_with ''-n'' v)
      then False else git_has_positional arguments)"

definition git_stash_writes :: "string list \<Rightarrow> bool" where
  "git_stash_writes lowered =
     (case filter (\<lambda>v. v \<noteq> [] \<and> \<not> starts_with ''-'' v) lowered of
        [] \<Rightarrow> True
      | action # _ \<Rightarrow> action \<notin> {''list'', ''show''})"

definition git_local_write_intent :: "environment \<Rightarrow> string list \<Rightarrow> string \<Rightarrow> bool" where
  "git_local_write_intent en tokens cwd =
     (let gi = parse_git_invocation (en_files en) tokens cwd; operation = gi_operation gi;
          arguments = map clean_token (gi_tail gi); lowered = map casefold arguments
      in if operation \<in> set local_git_write_commands then True
         else if operation \<in> {''am'', ''rebase''} then ''--show-current-patch'' \<notin> set lowered
         else if operation = ''branch'' then git_branch_writes arguments
         else if operation = ''tag'' then git_tag_writes arguments
         else if operation = ''stash'' then git_stash_writes lowered
         else False)"

definition combined_short_flag :: "string list \<Rightarrow> char \<Rightarrow> bool" where
  "combined_short_flag tokens flag =
     (\<exists>token \<in> set (tl tokens).
        let clean = casefold (clean_token token) in
        starts_with ''-'' clean \<and> \<not> starts_with ''--'' clean \<and> flag \<in> set (tl clean))"

definition git_clean_is_unresolved_delete :: "environment \<Rightarrow> string list \<Rightarrow> string \<Rightarrow> bool" where
  "git_clean_is_unresolved_delete en tokens cwd =
     (let gi = parse_git_invocation (en_files en) tokens cwd; operation_tokens = ''git'' # gi_tail gi;
          lowered = map (casefold \<circ> clean_token) (gi_tail gi)
      in gi_operation gi = ''clean'' \<and>
         (''--force'' \<in> set lowered \<or> combined_short_flag operation_tokens (CHR ''f'')) \<and>
         \<not> (''--dry-run'' \<in> set lowered \<or> combined_short_flag operation_tokens (CHR ''n'')))"

section \<open>The effects of one segment\<close>

definition delete_paths :: "string list \<Rightarrow> string \<Rightarrow> string \<Rightarrow> string \<Rightarrow> bool \<Rightarrow> targets" where
  "delete_paths tokens command cwd shell delayed =
     (let lower_command = casefold command; program = program_of_tokens tokens in
      if \<exists>flag \<in> set [''--help'', '' -h'', '' /?'', ''-whatif'']. contains flag lower_command then ([], [])
      else if tokens = [] \<or> program \<notin> set delete_programs then ([], [])
      else partition_mutation_targets (non_option_values (tl tokens)) cwd (mutation_shell program shell) delayed)"

definition write_operands :: "string \<Rightarrow> string list \<Rightarrow> string list" where
  "write_operands program arguments =
     (if program = ''new-item'' then
        positional_operands [''-credential'', ''-itemtype'', ''-name'', ''-path'', ''-value''] arguments
      else if program = ''touch'' then
        positional_operands [''-d'', ''--date'', ''-r'', ''--reference'', ''-t'', ''--time''] arguments
      else if program \<in> set write_cmdlets then
        positional_operands
          [''-credential'', ''-encoding'', ''-inputobject'', ''-literalpath'', ''-path'', ''-filepath'', ''-width''] arguments
      else non_option_values arguments)"

fun named_paths :: "string list \<Rightarrow> string list" where
  "named_paths [] = []"
| "named_paths (token # rest) =
     (if casefold (clean_token token) \<in> {''-path'', ''-literalpath'', ''-filepath''} then take 1 rest else []) @ named_paths rest"

definition write_targets :: "string list \<Rightarrow> string list" where
  "write_targets tokens =
     (let program = program_of_tokens tokens; values = write_operands program (tl tokens); named = named_paths (tl tokens) in
      if program \<in> set copy_programs \<and> values \<noteq> [] then [last values]
      else if program \<in> set create_programs then values
      else if program \<in> set write_cmdlets then (if named \<noteq> [] then named else take 1 values)
      else [])"

definition merge_targets :: "targets \<Rightarrow> targets \<Rightarrow> targets" where
  "merge_targets a b = (unique (fst a @ fst b), unique (snd a @ snd b))"

definition explicit_write_paths :: "environment \<Rightarrow> string list \<Rightarrow> string \<Rightarrow> string \<Rightarrow> string \<Rightarrow> bool \<Rightarrow> targets" where
  "explicit_write_paths en tokens command cwd shell delayed =
     (let redirected = redirection_paths command cwd shell delayed; program = program_of_tokens tokens in
      if tokens = [] then redirected
      else if program = ''git'' then
        (if git_local_write_intent en tokens cwd then
           (let gi = parse_git_invocation (en_files en) tokens cwd; paths = mutation_paths (en_files en) gi in
            merge_targets redirected
              (partition_mutation_targets (if paths = [] then [gi_cwd gi] else paths) (gi_cwd gi)
                 (mutation_shell program shell) delayed))
         else redirected)
      else merge_targets redirected
             (partition_mutation_targets (write_targets tokens) cwd (mutation_shell program shell) delayed))"

definition entry_paths :: "string list \<Rightarrow> string \<Rightarrow> string \<Rightarrow> bool \<Rightarrow> targets" where
  "entry_paths tokens cwd shell delayed =
     (let program = program_of_tokens tokens; values = non_option_values (tl tokens) in
      if tokens = [] \<or> program \<notin> set move_programs \<or> values = [] then ([], [])
      else partition_mutation_targets [hd values, last values] cwd (mutation_shell program shell) delayed)"

text \<open>The tokens of a segment: those of PowerShell for its mutation commands.\<close>

definition segment_tokens :: "shell_segment \<Rightarrow> string list" where
  "segment_tokens segment =
     (let tokens = shell_tokens (sg_text segment); program = program_of_tokens tokens;
          others = powershell_tokens (sg_text segment)
      in if program \<in> set path_mutation_programs \<and> mutation_shell program (sg_shell segment) = ''powershell'' \<and> others \<noteq> []
         then others else tokens)"

definition segment_delayed :: "string list \<Rightarrow> bool \<Rightarrow> bool" where
  "segment_delayed tokens inherited =
     (if program_of_tokens tokens = ''cmd'' then cmd_delayed_expansion_state tokens inherited else inherited)"

definition direct_effects :: "environment \<Rightarrow> bool \<Rightarrow> shell_segment \<Rightarrow> effects result" where
  "direct_effects en inherited segment =
     (let tokens = segment_tokens segment; delayed = segment_delayed tokens inherited;
          writes = explicit_write_paths en tokens (sg_text segment) (sg_cwd segment) (sg_shell segment) delayed;
          entries = entry_paths tokens (sg_cwd segment) (sg_shell segment) delayed;
          deletes = delete_paths tokens (sg_text segment) (sg_cwd segment) (sg_shell segment) delayed
      in bindE (network_intent en tokens (sg_cwd segment)) (\<lambda>network. Inr
           \<lparr>ef_write = fst writes, ef_entry = fst entries, ef_delete = fst deletes,
            ef_unresolved_delete = (program_of_tokens tokens = ''git'' \<and> git_clean_is_unresolved_delete en tokens (sg_cwd segment)),
            ef_network = network, ef_unresolved_write_paths = snd writes, ef_unresolved_entry_paths = snd entries,
            ef_unresolved_delete_paths = snd deletes\<rparr>))"

definition merge_effects :: "effects list \<Rightarrow> effects" where
  "merge_effects es =
     \<lparr>ef_write = unique (concat (map ef_write es)), ef_entry = unique (concat (map ef_entry es)),
      ef_delete = unique (concat (map ef_delete es)), ef_unresolved_delete = (\<exists>e \<in> set es. ef_unresolved_delete e),
      ef_network = (\<exists>e \<in> set es. ef_network e),
      ef_unresolved_write_paths = unique (concat (map ef_unresolved_write_paths es)),
      ef_unresolved_entry_paths = unique (concat (map ef_unresolved_entry_paths es)),
      ef_unresolved_delete_paths = unique (concat (map ef_unresolved_delete_paths es))\<rparr>"

section \<open>Commands\<close>

text \<open>The command a segment passes to another shell, with the state that shell starts in.\<close>

definition nested_command :: "bool \<Rightarrow> shell_segment \<Rightarrow> (string \<times> shell_state) option" where
  "nested_command inherited segment =
     (let tokens = segment_tokens segment; wrapper = program_of_tokens tokens in
      case wrapped_command_payload tokens of
        None \<Rightarrow> None
      | Some payload \<Rightarrow>
          if py_strip payload = py_strip (sg_text segment) then None
          else Some (payload,
            (shell_state_init (sg_cwd segment) (if wrapper = ''cmd'' then ''cmd'' else ''powershell''))
              \<lparr>sh_delayed := segment_delayed tokens inherited\<rparr>))"

text \<open>The first argument counts the levels of nesting that are left.\<close>

fun resolve_levels :: "nat \<Rightarrow> environment \<Rightarrow> string \<Rightarrow> shell_state \<Rightarrow> effects result" where
  "resolve_levels 0 en command st = Inr no_effects"
| "resolve_levels (Suc levels) en command st =
     bindE (foldE (\<lambda>found segment.
         bindE (direct_effects en (sh_delayed st) segment) (\<lambda>direct.
           (case nested_command (sh_delayed st) segment of
              None \<Rightarrow> Inr (found @ [direct])
            | Some (payload, inner) \<Rightarrow>
                bindE (resolve_levels levels en payload inner) (\<lambda>nested. Inr (found @ [direct, nested])))))
         [] (fst (resolve_shell_segments command st)))
       (\<lambda>found. Inr (merge_effects found))"

definition max_command_levels :: nat where
  "max_command_levels = 5"

text \<open>The effects at depth 0 and the state after the command.\<close>

definition resolve_command_recursive :: "environment \<Rightarrow> string \<Rightarrow> shell_state \<Rightarrow> (effects \<times> shell_state) result" where
  "resolve_command_recursive en command st =
     bindE (resolve_levels max_command_levels en command st) (\<lambda>ef. Inr (ef, snd (resolve_shell_segments command st)))"

definition resolve_command_effects_with_state ::
  "environment \<Rightarrow> string \<Rightarrow> shell_state \<Rightarrow> string \<Rightarrow> (effects \<times> shell_state) result" where
  "resolve_command_effects_with_state en command st boundary =
     bindE (normalize_windows_path (if sh_cwd st = [] then boundary else sh_cwd st) boundary) (\<lambda>cwd.
       resolve_command_recursive en command (st\<lparr>sh_cwd := cwd\<rparr>))"

definition resolve_persistent_shell_startup_state ::
  "environment \<Rightarrow> string \<Rightarrow> shell_state \<Rightarrow> string \<Rightarrow> shell_state result" where
  "resolve_persistent_shell_startup_state en command st boundary =
     (let tokens = shell_tokens command in
      case persistent_shell_payload tokens of
        None \<Rightarrow> Inr st
      | Some (nested_shell, payload) \<Rightarrow>
          (let nested = (shell_state_init (sh_cwd st) nested_shell)
             \<lparr>sh_delayed := (if nested_shell = ''cmd'' then cmd_delayed_expansion_state tokens (sh_delayed st) else sh_delayed st)\<rparr>
           in if payload = [] then Inr nested
              else bindE (resolve_command_effects_with_state en payload nested boundary) (\<lambda>r. Inr (snd r))))"

definition resolve_command_effects :: "environment \<Rightarrow> string \<Rightarrow> string \<Rightarrow> string \<Rightarrow> string option \<Rightarrow> effects result" where
  "resolve_command_effects en command cwd boundary shell =
     bindE (normalize_windows_path (if cwd = [] then boundary else cwd) boundary) (\<lambda>effective.
     bindE (resolve_command_recursive en command (shell_state_init effective (shell_from_command command shell))) (\<lambda>r.
       Inr (fst r)))"

end
