(* ===== verification/Provider_Effects.thy ===== *)
theory Provider_Effects
  imports Command_Intent
begin

text \<open>
  The effects of the tools of the provider (\<open>desktop_commander.py\<close>) and the shell states it keeps by process
  (\<open>process_state.py\<close>), and the gateway they are part of.  The texts found in an answer of the provider
  (\<open>_result_texts\<close> over the objects of the server library) are a parameter; the counters of the observability are not
  modelled.
\<close>

record resolver =
  rs_boundary :: string
  rs_state_file :: string
  rs_environment :: environment
  rs_texts :: "json \<Rightarrow> string list"

section \<open>Arguments\<close>

fun command_text :: "string list \<Rightarrow> obj \<Rightarrow> string" where
  "command_text [] arguments = []"
| "command_text (key # keys) arguments =
     (case field arguments key of
        JStr s \<Rightarrow> s
      | JArr vs \<Rightarrow> join_with '' '' (map py_text vs)
      | _ \<Rightarrow> command_text keys arguments)"

definition filled_text :: "json \<Rightarrow> string option" where
  "filled_text v = (case v of JStr s \<Rightarrow> if blank s then None else Some s | _ \<Rightarrow> None)"

fun working_directory :: "string list \<Rightarrow> obj \<Rightarrow> string option" where
  "working_directory [] arguments = None"
| "working_directory (key # keys) arguments =
     (case filled_text (field arguments key) of Some s \<Rightarrow> Some s | None \<Rightarrow> working_directory keys arguments)"

definition directory_keys :: "string list" where
  "directory_keys = [''cwd'', ''working_directory'', ''workingDirectory'']"

definition start_directory :: "resolver \<Rightarrow> obj \<Rightarrow> string" where
  "start_directory rs arguments =
     (case working_directory directory_keys arguments of Some d \<Rightarrow> d | None \<Rightarrow> rs_boundary rs)"

definition pid_argument :: "obj \<Rightarrow> int option" where
  "pid_argument arguments =
     (case field arguments ''pid'' of
        JInt n \<Rightarrow> if 0 \<le> n then Some n else None
      | JStr s \<Rightarrow> (let t = py_strip s in if t \<noteq> [] \<and> (\<forall>c \<in> set t. is_digit c) then py_int t else None)
      | _ \<Rightarrow> None)"

definition shell_text :: "json \<Rightarrow> string option" where
  "shell_text v = (case v of JStr s \<Rightarrow> Some s | _ \<Rightarrow> None)"

section \<open>The processes\<close>

type_synonym process_states = "(int \<times> shell_state) list"

text \<open>\<open>re.search(r'(?i)\bpid(?:\s*(?:is|:|=))?\s*(\d+)\b', text)\<close>\<close>

definition is_word :: "char \<Rightarrow> bool" where
  "is_word c = (is_alnum c \<or> c = CHR ''_'')"

definition number_at :: "string \<Rightarrow> int option" where
  "number_at s =
     (let t = dropWhile is_space s; digits = takeWhile is_digit t; rest = drop (length digits) t in
      if digits \<noteq> [] \<and> (rest = [] \<or> \<not> is_word (hd rest)) then py_int digits else None)"

definition pid_at :: "string \<Rightarrow> int option" where
  "pid_at s =
     (let rest = drop 3 s; t = dropWhile is_space rest;
          joined = (if starts_with ''is'' (casefold t) then number_at (drop 2 t)
                    else if starts_with '':'' t \<or> starts_with ''='' t then number_at (drop 1 t) else None)
      in if casefold (take 3 s) \<noteq> ''pid'' then None
         else (case joined of Some n \<Rightarrow> Some n | None \<Rightarrow> number_at rest))"

fun find_pid :: "bool \<Rightarrow> string \<Rightarrow> int option" where
  "find_pid inside_word [] = None"
| "find_pid inside_word (c # s) =
     (case (if inside_word then None else pid_at (c # s)) of
        Some n \<Rightarrow> Some n
      | None \<Rightarrow> find_pid (is_word c) s)"

fun result_pid :: "string list \<Rightarrow> int option" where
  "result_pid [] = None"
| "result_pid (text # texts) = (case find_pid False text of Some n \<Rightarrow> Some n | None \<Rightarrow> result_pid texts)"

definition track :: "int \<Rightarrow> shell_state \<Rightarrow> process_states \<Rightarrow> process_states" where
  "track pid st states = (if sh_terminated st then AList.delete pid states else AList.update pid st states)"

definition tracked_command :: "obj \<Rightarrow> process_states \<Rightarrow> (int \<times> string \<times> shell_state) option" where
  "tracked_command arguments states =
     (let command = command_text [''input'', ''command''] arguments in
      case pid_argument arguments of
        None \<Rightarrow> None
      | Some pid \<Rightarrow>
          if command = [] then None
          else (case map_of states pid of None \<Rightarrow> None | Some st \<Rightarrow> Some (pid, command, st)))"

definition resolve_interaction :: "resolver \<Rightarrow> obj \<Rightarrow> process_states \<Rightarrow> effects option result" where
  "resolve_interaction rs arguments states =
     (case tracked_command arguments states of
        None \<Rightarrow> Inr None
      | Some (pid, command, st) \<Rightarrow>
          bindE (resolve_command_effects_with_state (rs_environment rs) command st (rs_boundary rs)) (\<lambda>r. Inr (Some (fst r))))"

definition observe_start :: "resolver \<Rightarrow> obj \<Rightarrow> json \<Rightarrow> process_states \<Rightarrow> process_states result" where
  "observe_start rs arguments answer states =
     (case result_pid (rs_texts rs answer) of
        None \<Rightarrow> Inr states
      | Some pid \<Rightarrow>
          (let command = command_text [''input'', ''command''] arguments;
               st = shell_state_init (start_directory rs arguments)
                 (shell_from_command command (filled_text (field arguments ''shell'')))
           in bindE (resolve_persistent_shell_startup_state (rs_environment rs) command st (rs_boundary rs)) (\<lambda>st'.
                Inr (track pid st' states))))"

definition observe_interaction :: "resolver \<Rightarrow> obj \<Rightarrow> process_states \<Rightarrow> process_states result" where
  "observe_interaction rs arguments states =
     (case tracked_command arguments states of
        None \<Rightarrow> Inr states
      | Some (pid, command, st) \<Rightarrow>
          bindE (resolve_command_effects_with_state (rs_environment rs) command st (rs_boundary rs)) (\<lambda>r.
            Inr (track pid (snd r) states)))"

definition observe_process :: "resolver \<Rightarrow> string \<Rightarrow> obj \<Rightarrow> json \<Rightarrow> process_states \<Rightarrow> process_states result" where
  "observe_process rs tool arguments answer states =
     (let normalized = casefold tool in
      if normalized = ''start_process'' then observe_start rs arguments answer states
      else if normalized = ''interact_with_process'' then observe_interaction rs arguments states
      else if normalized \<in> {''kill_process'', ''force_terminate''} then
        Inr (case pid_argument arguments of None \<Rightarrow> states | Some pid \<Rightarrow> AList.delete pid states)
      else Inr states)"

section \<open>The effects of a tool\<close>

definition write_path_keys :: "(string \<times> string list) list" where
  "write_path_keys =
     [(''write_file'', [''path'']), (''write_docx'', [''path'']), (''write_excel'', [''path'']),
      (''create_directory'', [''path'']), (''edit_block'', [''file_path'', ''path''])]"

definition entry_path_keys :: "(string \<times> string list) list" where
  "entry_path_keys = [(''move_file'', [''source'', ''destination''])]"

definition delete_path_keys :: "(string \<times> string list) list" where
  "delete_path_keys =
     [(''delete_file'', [''path'']), (''delete_directory'', [''path'']), (''remove_file'', [''path'']),
      (''remove_directory'', [''path''])]"

definition command_tools :: "string list" where
  "command_tools = [''start_process'', ''execute_command'', ''interact_with_process'']"

definition paths_of_value :: "json \<Rightarrow> string list" where
  "paths_of_value v =
     (case v of
        JStr s \<Rightarrow> if blank s then [] else [s]
      | JArr vs \<Rightarrow> concat (map (\<lambda>x. case filled_text x of Some s \<Rightarrow> [s] | None \<Rightarrow> []) vs)
      | _ \<Rightarrow> [])"

definition collect_paths :: "obj \<Rightarrow> string list \<Rightarrow> string list" where
  "collect_paths arguments keys = unique (concat (map (\<lambda>k. paths_of_value (field arguments k)) keys))"

definition telemetry_disabled :: "json \<Rightarrow> bool" where
  "telemetry_disabled v =
     (case v of JBool b \<Rightarrow> \<not> b | JStr s \<Rightarrow> casefold (py_strip s) = ''false'' | _ \<Rightarrow> False)"

definition command_effects :: "resolver \<Rightarrow> string \<Rightarrow> obj \<Rightarrow> process_states \<Rightarrow> effects result" where
  "command_effects rs name arguments states =
     (let interacts = (name = ''interact_with_process'');
          command = command_text (if interacts then [''input'', ''command''] else [''command'', ''input'']) arguments;
          fresh = resolve_command_effects (rs_environment rs) command (start_directory rs arguments) (rs_boundary rs)
            (shell_text (field arguments ''shell''))
      in if command = [] then Inr no_effects
         else if interacts then
           bindE (resolve_interaction rs arguments states) (\<lambda>tracked. case tracked of Some ef \<Rightarrow> Inr ef | None \<Rightarrow> fresh)
         else fresh)"

definition configuration_effects :: "resolver \<Rightarrow> obj \<Rightarrow> effects" where
  "configuration_effects rs arguments =
     no_effects\<lparr>ef_write := [rs_state_file rs],
       ef_network := (casefold (py_text (field_or arguments ''key'' (JStr []))) = ''telemetryenabled'' \<and>
         \<not> telemetry_disabled (field arguments ''value''))\<rparr>"

definition tool_effects :: "resolver \<Rightarrow> string \<Rightarrow> obj \<Rightarrow> process_states \<Rightarrow> effects result" where
  "tool_effects rs tool arguments states =
     (let name = casefold tool in
      if name \<in> set command_tools then command_effects rs name arguments states
      else if name = ''set_config_value'' then Inr (configuration_effects rs arguments)
      else (case map_of entry_path_keys name of
              Some keys \<Rightarrow> Inr (no_effects\<lparr>ef_entry := collect_paths arguments keys\<rparr>)
            | None \<Rightarrow>
                if name = ''write_pdf'' then
                  Inr (no_effects\<lparr>ef_write := collect_paths arguments
                    [if filled_text (field arguments ''outputPath'') = None then ''path'' else ''outputPath'']\<rparr>)
                else (case map_of write_path_keys name of
                        Some keys \<Rightarrow> Inr (no_effects\<lparr>ef_write := collect_paths arguments keys\<rparr>)
                      | None \<Rightarrow>
                          (case map_of delete_path_keys name of
                             Some keys \<Rightarrow> Inr (no_effects\<lparr>ef_delete := collect_paths arguments keys\<rparr>)
                           | None \<Rightarrow> Inr no_effects))))"

section \<open>The gateway before the provider\<close>

definition commander_capabilities :: capabilities where
  "commander_capabilities =
     \<lparr>cb_network_only = [''give_feedback_to_desktop_commander''], cb_direct_delete = map fst delete_path_keys,
      cb_hidden_arguments = [(''read_file'', [''isUrl''])], cb_hidden_keys = [''blockedCommands'', ''allowedDirectories''],
      cb_configuration = Some ''set_config_value''\<rparr>"

record 's process_world =
  pw_states :: process_states
  pw_provider :: 's

definition in_provider :: "('s, 'a) op \<Rightarrow> ('s process_world, 'a) op" where
  "in_provider m w = (case m (pw_provider w) of (r, s) \<Rightarrow> (r, w\<lparr>pw_provider := s\<rparr>))"

definition observe_tool :: "resolver \<Rightarrow> string \<Rightarrow> obj \<Rightarrow> json \<Rightarrow> ('s process_world, unit) op" where
  "observe_tool rs tool arguments answer w =
     (case observe_process rs tool arguments answer (pw_states w) of
        Inr states \<Rightarrow> (Inr (), w\<lparr>pw_states := states\<rparr>)
      | Inl e \<Rightarrow> (Inl e, w))"

definition commander_gateway ::
  "resolver \<Rightarrow> policy \<Rightarrow> (string \<Rightarrow> obj \<Rightarrow> obj result) option \<Rightarrow> (string \<Rightarrow> obj \<Rightarrow> obj result) option \<Rightarrow>
   (string \<Rightarrow> obj \<Rightarrow> ('s, json) op) \<Rightarrow> (string list \<Rightarrow> ('s, obj list) op) \<Rightarrow> 's process_world gateway" where
  "commander_gateway rs p texts process provider quarantine =
     \<lparr>gw_capabilities = commander_capabilities, gw_text = texts, gw_process = process,
      gw_resolve = (\<lambda>tool arguments w. (tool_effects rs tool arguments (pw_states w), w)), gw_policy = p,
      gw_call = (\<lambda>tool arguments. in_provider (provider tool arguments)), gw_observe = observe_tool rs,
      gw_quarantine = (\<lambda>paths. in_provider (quarantine paths))\<rparr>"

end
