(* ===== verification/Windows_Paths_Facts.thy ===== *)
theory Windows_Paths_Facts
  imports Windows_Paths
begin

text \<open>
  Facts about Windows paths: letter case does not matter to the splitting of a path, a normalized path of a drive has
  clean components, and the boundary check decides the descendant relation on them.
\<close>

section \<open>Letter case\<close>

lemma fold_char_plain:
  assumes "\<not> (65 \<le> (of_char k :: nat) \<and> (of_char k :: nat) \<le> 90)" "\<not> (97 \<le> (of_char k :: nat) \<and> (of_char k :: nat) \<le> 122)"
  shows "fold_char c = k \<longleftrightarrow> c = k"
proof
  assume f: "fold_char c = k"
  have "\<not> (65 \<le> (of_char c :: nat) \<and> (of_char c :: nat) \<le> 90)"
  proof
    assume u: "65 \<le> (of_char c :: nat) \<and> (of_char c :: nat) \<le> 90"
    then have "(of_char (fold_char c) :: nat) = of_char c + 32" by (simp add: fold_char_def)
    with f u assms(2) show False by auto
  qed
  with f show "c = k" by (simp add: fold_char_def Let_def)
next
  assume "c = k"
  with assms(1) show "fold_char c = k" by (auto simp: fold_char_def Let_def)
qed

lemma fold_char_marks [simp]:
  "fold_char c = backslash \<longleftrightarrow> c = backslash" "fold_char c = slash \<longleftrightarrow> c = slash"
  "fold_char c = CHR '':'' \<longleftrightarrow> c = CHR '':''" "fold_char c = CHR ''.'' \<longleftrightarrow> c = CHR ''.''"
  "is_sep (fold_char c) = is_sep c"
  by (simp_all add: fold_char_plain is_sep_def)

lemma fold_char_mark_values [simp]: "fold_char backslash = backslash" "fold_char (CHR '':'') = CHR '':''"
  by simp_all

lemma fold_char_twice [simp]: "fold_char (fold_char c) = fold_char c"
  by (auto simp: fold_char_def Let_def)

lemma casefold_simps [simp]:
  "casefold [] = []" "casefold (c # s) = fold_char c # casefold s" "casefold (s @ t) = casefold s @ casefold t"
  "casefold s = [] \<longleftrightarrow> s = []" "casefold (casefold s) = casefold s" "length (casefold s) = length s"
  by (simp_all add: casefold_def)

lemma casefold_take: "casefold (take n s) = take n (casefold s)"
  by (simp add: casefold_def take_map)

lemma casefold_drop: "casefold (drop n s) = drop n (casefold s)"
  by (simp add: casefold_def drop_map)

lemma casefold_dot [simp]: "casefold s = ''.'' \<longleftrightarrow> s = ''.''"
  by (cases s) (auto simp: casefold_def)

lemma seps_casefold: "windows_seps (casefold s) = casefold (windows_seps s)"
proof -
  show ?thesis by (auto simp: windows_seps_def replace_char_def casefold_def simp del: fold_char_marks(1))
qed

lemma index_from_casefold: "index_from backslash n (casefold s) = index_from backslash n s"
proof -
  have "(\<lambda>x. x \<noteq> backslash) \<circ> fold_char = (\<lambda>x. x \<noteq> backslash)" by auto
  moreover have "backslash \<in> fold_char ` A \<longleftrightarrow> backslash \<in> A" for A
    using fold_char_marks(1) by (metis (no_types, lifting) image_iff)
  ultimately show ?thesis
    by (simp add: index_from_def Let_def casefold_def drop_map takeWhile_map)
qed

lemma split_share_casefold:
  "split_share (casefold s) = map_prod casefold (map_prod casefold casefold) (split_share s)"
proof -
  have "take 8 (windows_seps (casefold s)) = casefold (take 8 (windows_seps s))" by (simp add: seps_casefold casefold_take)
  then have t: "casefold (take 8 (windows_seps (casefold s))) = casefold (take 8 (windows_seps s))" by simp
  show ?thesis
    unfolding split_share_def Let_def t index_from_casefold seps_casefold
    by (simp only: option.case_distrib [of "map_prod casefold (map_prod casefold casefold)"] map_prod_simp casefold_take
        casefold_drop casefold_simps)
qed

lemma splitroot_casefold: "splitroot (casefold s) = map_prod casefold (map_prod casefold casefold) (splitroot s)"
proof (cases s)
  case (Cons a r)
  show ?thesis
  proof (cases r)
    case r: (Cons b t)
    then show ?thesis
    proof (cases "is_sep a \<and> is_sep b")
      case True
      with Cons r have "splitroot s = split_share s" by (simp add: splitroot_def)
      moreover from True Cons r have "splitroot (casefold s) = split_share (casefold s)" by (simp add: splitroot_def)
      ultimately show ?thesis by (simp add: split_share_casefold)
    next
      case False
      with Cons r show ?thesis by (cases t) (auto simp: splitroot_def)
    qed
  qed (simp add: Cons splitroot_def)
qed (simp add: splitroot_def)

lemma parts_casefold:
  "path_drive (casefold s) = casefold (path_drive s)" "path_root (casefold s) = casefold (path_root s)"
  "path_rest (casefold s) = casefold (path_rest s)"
  by (simp_all add: path_drive_def path_root_def path_rest_def splitroot_casefold)

lemma splitroot_concat: "path_drive s @ path_root s @ path_rest s = s"
proof -
  have "fst (split_share s) @ fst (snd (split_share s)) @ snd (snd (split_share s)) = s" for s
  proof -
    have "take j s @ take 1 (drop j s) @ drop (j + 1) s = s" for j
      by (metis append_take_drop_id drop_drop add.commute)
    then show ?thesis by (simp add: split_share_def Let_def split: option.split)
  qed
  then show ?thesis
    by (simp add: path_drive_def path_root_def path_rest_def splitroot_def split: list.split)
qed

lemma share_drive: "p \<noteq> [] \<Longrightarrow> fst (split_share p) \<noteq> []"
proof -
  assume p: "p \<noteq> []"
  have "index_from backslash (i + 1) s = Some j \<Longrightarrow> take j p \<noteq> []" for i s j
    using p by (auto simp: index_from_def Let_def split: if_splits)
  then show ?thesis using p by (auto simp: split_share_def Let_def split: option.split)
qed

section \<open>Components\<close>

lemma split_casefold: "split_on backslash (casefold s) = map casefold (split_on backslash s)"
  by (induction s) (auto split: list.split)

lemma components_casefold: "components_of (casefold s) = map casefold (components_of s)"
  by (simp add: components_of_def split_casefold filter_map comp_def)

text \<open>Components that a normalized path may have.\<close>

definition clean :: "string list \<Rightarrow> bool" where
  "clean cs = (\<forall>c \<in> set cs. c \<noteq> [] \<and> c \<noteq> ''.'' \<and> backslash \<notin> set c)"

lemma clean_components: "clean cs \<Longrightarrow> components_of (join_with [backslash] cs) = cs"
proof (cases "cs = []")
  case False
  assume c: "clean cs"
  then have "split_on backslash (join_with [backslash] cs) = cs"
    using False by (intro split_join) (auto simp: clean_def)
  with c show ?thesis by (simp add: components_of_def clean_def filter_id_conv)
qed (simp add: components_of_def)

lemma components_clean: "clean (components_of s)"
  using split_on_no_sep by (force simp: clean_def components_of_def)

lemma clean_prefix: "clean cs \<Longrightarrow> clean (take n cs)"
  by (auto simp: clean_def dest: in_set_takeD)

lemma join_clean_inj: "clean cs \<Longrightarrow> clean ds \<Longrightarrow> join_with [backslash] cs = join_with [backslash] ds \<longleftrightarrow> cs = ds"
  by (metis clean_components)

text \<open>The result of the loop: parent steps at the front only, and none below a root.\<close>

lemma collapse_shape:
  assumes "\<forall>c \<in> set cs. backslash \<notin> set c" and "rev kept = replicate m ''..'' @ ks" "''..'' \<notin> set ks" "clean ks"
    and "rooted \<Longrightarrow> m = 0"
  shows "\<exists>m ks. collapse rooted kept cs = replicate m ''..'' @ ks \<and> ''..'' \<notin> set ks \<and> clean ks \<and> (rooted \<longrightarrow> m = 0)"
  using assms
proof (induction cs arbitrary: kept m ks)
  case Nil
  then show ?case by auto
next
  case (Cons c cs)
  consider "c = [] \<or> c = ''.''" | "c = ''..''" | "c \<noteq> []" "c \<noteq> ''.''" "c \<noteq> ''..''" by blast
  then show ?case
  proof cases
    case 1
    with Cons.IH [OF _ Cons.prems(2-5)] Cons.prems(1) show ?thesis by auto
  next
    case 2
    show ?thesis
    proof (cases kept)
      case Nil
      with Cons.prems have "m = 0" "ks = []" by auto
      show ?thesis
      proof (cases rooted)
        case True
        with 2 Nil Cons.IH [of "[]" 0 "[]"] Cons.prems(1) show ?thesis by (simp add: clean_def)
      next
        case False
        with 2 Nil Cons.IH [of "[c]" 1 "[]"] Cons.prems(1) show ?thesis by (simp add: clean_def)
      qed
    next
      case (Cons k kept')
      show ?thesis
      proof (cases "k = ''..''")
        case True
        have "ks = []"
        proof (rule ccontr)
          assume "ks \<noteq> []"
          have e: "rev kept' @ [k] = replicate m ''..'' @ ks" using Cons.prems(2) Cons by simp
          have "last (rev kept' @ [k]) = k" "last (replicate m ''..'' @ ks) = last ks"
            using \<open>ks \<noteq> []\<close> by simp_all
          then have "last ks = k" using e by simp
          with last_in_set [OF \<open>ks \<noteq> []\<close>] have "k \<in> set ks" by simp
          with True Cons.prems(3) show False by simp
        qed
        then have "rev kept = replicate m ''..''" using Cons.prems(2) by simp
        then have "rev (c # kept) = replicate m ''..'' @ [''..'']" using 2 by simp
        then have "rev (c # kept) = replicate (Suc m) ''..'' @ []" by (simp only: replicate_append_same replicate_Suc append_Nil2)
        moreover have "\<not> rooted"
        proof
          assume rooted
          with Cons.prems(5) \<open>ks = []\<close> Cons.prems(2) Cons show False by simp
        qed
        ultimately show ?thesis
          using Cons.IH [of "c # kept" "Suc m" "[]"] Cons.prems(1) 2 True Cons by (simp add: clean_def)
      next
        case False
        have "ks \<noteq> []"
        proof
          assume "ks = []"
          with Cons.prems(2) Cons have e: "rev kept' @ [k] = replicate m ''..''" by simp
          then have "k \<in> set (replicate m ''..'')" by (metis in_set_conv_decomp)
          with False show False by simp
        qed
        then obtain ks' y where ks: "ks = ks' @ [y]" by (cases ks rule: rev_cases) auto
        then have "rev kept' = replicate m ''..'' @ ks'" using Cons.prems(2) Cons by simp
        moreover have "''..'' \<notin> set ks'" "clean ks'" using Cons.prems(3,4) ks by (auto simp: clean_def)
        ultimately show ?thesis using Cons.IH [of kept' m ks'] Cons.prems(1,5) 2 False Cons by simp
      qed
    qed
  next
    case 3
    have "rev (c # kept) = replicate m ''..'' @ (ks @ [c])" using Cons.prems(2) by simp
    moreover have "''..'' \<notin> set (ks @ [c])" "clean (ks @ [c])" using Cons.prems 3 by (auto simp: clean_def)
    ultimately show ?thesis using Cons.IH [of "c # kept" m "ks @ [c]"] Cons.prems(1,5) 3 by simp
  qed
qed

lemma normpath_shape:
  obtains m ks where "normpath p = (if path_drive (windows_seps p) @ path_root (windows_seps p) = [] \<and> replicate m ''..'' @ ks = []
      then ''.'' else path_drive (windows_seps p) @ path_root (windows_seps p) @ join_with [backslash] (replicate m ''..'' @ ks))"
    "''..'' \<notin> set ks" "clean ks" "path_root (windows_seps p) \<noteq> [] \<longrightarrow> m = 0"
proof -
  let ?s = "windows_seps p"
  have "\<forall>c \<in> set (split_on backslash (path_rest ?s)). backslash \<notin> set c" by (intro ballI split_on_no_sep)
  from collapse_shape [OF this, of "[]" 0 "[]" "path_root ?s \<noteq> []"]
  obtain m ks where "collapse (path_root ?s \<noteq> []) [] (split_on backslash (path_rest ?s)) = replicate m ''..'' @ ks"
    and ks: "''..'' \<notin> set ks" "clean ks" "path_root ?s \<noteq> [] \<longrightarrow> m = 0" by (auto simp: clean_def)
  then have "normpath p = (if path_drive ?s @ path_root ?s = [] \<and> replicate m ''..'' @ ks = []
      then ''.'' else path_drive ?s @ path_root ?s @ join_with [backslash] (replicate m ''..'' @ ks))"
    by (simp add: normpath_def Let_def)
  from that [OF this ks] show ?thesis .
qed

lemma windows_seps_twice [simp]: "windows_seps (windows_seps s) = windows_seps s"
  by (auto simp: windows_seps_def replace_char_def)

lemma seps_no_slash: "slash \<notin> set (windows_seps s)"
  by (auto simp: windows_seps_def replace_char_def)

text \<open>A normalized path below the root of a drive consists of clean components without parent steps.\<close>

lemma join_clean_head:
  assumes "clean ks" "join_with [backslash] ks = x # y"
  shows "x \<noteq> backslash"
proof (cases ks)
  case (Cons k ls)
  then obtain z zs where "k = z # zs" using assms(1) by (cases k) (auto simp: clean_def)
  then show ?thesis using assms Cons by (cases ls) (auto simp: clean_def)
qed (use assms in simp)

lemma drive_letter:
  assumes "\<not> is_sep a" "path_drive (a # r) \<noteq> []"
  shows "\<exists>u. r = CHR '':'' # u \<and> path_drive (a # r) = [a, CHR '':'']"
proof (cases r)
  case (Cons b t)
  with assms show ?thesis by (cases t) (auto simp: path_drive_def splitroot_def split: if_splits)
qed (use assms in \<open>simp add: path_drive_def splitroot_def\<close>)

lemma letter_path:
  assumes n: "normpath s = c # CHR '':'' # backslash # t" and c: "\<not> is_sep c"
  obtains ks where "t = join_with [backslash] ks" "clean ks" "''..'' \<notin> set ks"
proof -
  let ?s = "windows_seps s"
  obtain m ks where sh: "normpath s = (if path_drive ?s @ path_root ?s = [] \<and> replicate m ''..'' @ ks = []
      then ''.'' else path_drive ?s @ path_root ?s @ join_with [backslash] (replicate m ''..'' @ ks))"
    and ks: "''..'' \<notin> set ks" "clean ks" and m: "path_root ?s \<noteq> [] \<longrightarrow> m = 0" by (rule normpath_shape)
  from sh n have e: "c # CHR '':'' # backslash # t = path_drive ?s @ path_root ?s @ join_with [backslash] (replicate m ''..'' @ ks)"
  proof (cases "path_drive ?s @ path_root ?s = [] \<and> replicate m ''..'' @ ks = []")
    case True
    with sh have "normpath s = ''.''" by (simp only: simp_thms if_True)
    with n show ?thesis by simp
  next
    case False
    with sh have "normpath s = path_drive ?s @ path_root ?s @ join_with [backslash] (replicate m ''..'' @ ks)"
      by (simp only: simp_thms if_False)
    with n show ?thesis by simp
  qed
  have up: "clean (replicate m ''..'' @ ks)" using ks(2) unfolding clean_def by (auto split: if_splits)
  show ?thesis
  proof (cases "path_drive ?s = []")
    case True
    show ?thesis
    proof (cases "path_root ?s = []")
      case root: True
      show ?thesis
      proof (cases m)
        case 0
        with e True root obtain k ls where kl: "ks = k # ls" by (cases ks) auto
        with e True root 0 have j: "c # CHR '':'' # backslash # t = join_with [backslash] (k # ls)" by simp
        have "backslash \<notin> set k" "clean ls" "''..'' \<notin> set ls" using ks kl by (auto simp: clean_def)
        show ?thesis
        proof (cases ls)
          case Nil
          with j \<open>backslash \<notin> set k\<close> show ?thesis by auto
        next
          case (Cons l ls')
          then have split: "split_on backslash (c # CHR '':'' # backslash # t) = k # split_on backslash (join_with [backslash] ls)"
            using j split_on_append [OF \<open>backslash \<notin> set k\<close>] by simp
          have "split_on backslash (c # CHR '':'' # backslash # t) = [c, CHR '':''] # split_on backslash t"
            using c split_on_append [of backslash "[c, CHR '':'']" t] by (simp add: is_sep_def)
          with split have "k = [c, CHR '':'']" by simp
          with j Cons have "t = join_with [backslash] ls" by simp
          with that \<open>clean ls\<close> \<open>''..'' \<notin> set ls\<close> show ?thesis by blast
        qed
      next
        case (Suc m')
        have "\<exists>r. join_with [backslash] (''..'' # xs) = CHR ''.'' # CHR ''.'' # r" for xs by (cases xs) auto
        then obtain r where "join_with [backslash] (''..'' # replicate m' ''..'' @ ks) = CHR ''.'' # CHR ''.'' # r" by blast
        with e True root Suc show ?thesis by simp
      qed
    next
      case False
      then have "is_sep (hd (path_root ?s))"
        using True by (auto simp: path_root_def path_drive_def splitroot_def share_drive split: list.splits if_splits)
      with False e True c show ?thesis by (cases "path_root ?s") auto
    qed
  next
    case False
    then obtain a r where s: "?s = a # r" by (cases "?s") (auto simp: path_drive_def splitroot_def)
    have "a = hd (path_drive ?s)"
      using splitroot_concat [of ?s] False s by (metis hd_append2 list.sel(1))
    then have ac: "a = c" using e False by (metis hd_append2 list.sel(1))
    from drive_letter [of a r] s False c ac obtain u where r: "r = CHR '':'' # u" "path_drive ?s = [c, CHR '':'']" by auto
    show ?thesis
    proof (cases u)
      case Nil
      with r s ac have "path_root ?s = []" using c by (simp add: path_root_def splitroot_def)
      with e r have "join_with [backslash] (replicate m ''..'' @ ks) = backslash # t" by simp
      with join_clean_head [OF up this] show ?thesis by simp
    next
      case (Cons v w)
      show ?thesis
      proof (cases "is_sep v")
        case True
        then have root: "path_root ?s = [v]" using r s ac c Cons by (simp add: path_root_def splitroot_def)
        with m e r have "t = join_with [backslash] ks" by simp
        with that ks show ?thesis by blast
      next
        case False
        then have "path_root ?s = []" using r s ac c Cons by (simp add: path_root_def splitroot_def)
        with e r have "join_with [backslash] (replicate m ''..'' @ ks) = backslash # t" by simp
        with join_clean_head [OF up this] show ?thesis by simp
      qed
    qed
  qed
qed

section \<open>The boundary check\<close>

text \<open>What the check is meant to decide: the same drive and root up to letter case, and the components of the boundary
  are the first ones of the path.\<close>

definition descends :: "string \<Rightarrow> string \<Rightarrow> bool" where
  "descends b p =
     (casefold (path_drive p) = casefold (path_drive b) \<and> path_root p = path_root b \<and>
      take (length (components_of (path_rest b))) (map casefold (components_of (path_rest p))) =
        map casefold (components_of (path_rest b)))"

lemma common_length_commute: "common_length xs ys = common_length ys xs"
  by (induction xs ys rule: common_length.induct) auto

lemma common_length_full: "take (common_length xs ys) xs = xs \<longleftrightarrow> take (length xs) ys = xs"
proof (induction xs ys rule: common_length.induct)
  case (1 a as b bs)
  then show ?case by auto
qed auto

lemma common_length_ordered: "common_length (min xs ys) (max xs ys) = common_length xs (ys :: string list)"
  by (simp add: min_def max_def common_length_commute)

lemma collapse_subset: "set (collapse rooted kept cs) \<subseteq> set kept \<union> set cs"
proof (induction rooted kept cs rule: collapse.induct)
  case (2 rooted kept c cs)
  then show ?case by (cases kept) (auto split: if_splits)
qed simp

lemma join_chars: "a \<in> set (join_with [b] ps) \<Longrightarrow> a = b \<or> (\<exists>p \<in> set ps. a \<in> set p)"
  by (induction "[b]" ps rule: join_with.induct) auto

lemma normpath_no_slash: "slash \<notin> set (normpath p)"
proof
  assume "slash \<in> set (normpath p)"
  let ?s = "windows_seps p"
  have s: "set (path_drive ?s) \<union> set (path_root ?s) \<union> set (path_rest ?s) = set ?s"
    using splitroot_concat [of ?s] by (metis set_append Un_assoc)
  have "slash \<notin> set (path_drive ?s @ path_root ?s)" "slash \<notin> set (path_rest ?s)" using s seps_no_slash [of p] by auto
  with \<open>slash \<in> set (normpath p)\<close>
  have "slash \<in> set (join_with [backslash] (collapse (path_root ?s \<noteq> []) [] (split_on backslash (path_rest ?s))))"
    by (auto simp: normpath_def Let_def split: if_splits)
  from join_chars [OF this] obtain q where "q \<in> set (split_on backslash (path_rest ?s))" "slash \<in> set q"
    using collapse_subset [of "path_root ?s \<noteq> []" "[]" "split_on backslash (path_rest ?s)"] by auto
  with set_split_on \<open>slash \<notin> set (path_rest ?s)\<close> show False by fast
qed

lemma seps_normpath [simp]: "windows_seps (normpath p) = normpath p"
  unfolding windows_seps_def replace_char_def using normpath_no_slash [of p] by (intro map_idI) auto

lemma letter_parts:
  "\<not> is_sep c \<Longrightarrow> is_sep r \<Longrightarrow> splitroot (c # CHR '':'' # r # t) = ([c, CHR '':''], [r], t)"
  by (simp add: splitroot_def)

lemma normalized_is_normpath:
  "normalize_windows_path v base = Inr p \<Longrightarrow> \<exists>s. p = normpath s"
  by (auto simp: normalize_windows_path_def Let_def split: if_splits)

lemma common_path_decides:
  assumes b: "b = c # CHR '':'' # backslash # t" "\<not> is_sep c" "t = join_with [backslash] ks" "clean ks"
    and seps: "windows_seps b = b" "windows_seps p = p"
  shows "common_path (normcase b) (normcase p) = Some (normcase b) \<longleftrightarrow> descends b p"
proof -
  have parts: "path_drive b = [c, CHR '':'']" "path_root b = [backslash]" "path_rest b = t"
    using letter_parts [of c backslash t] b(1,2) by (simp_all add: path_drive_def path_root_def path_rest_def is_sep_def)
  have fb: "casefold (normcase x) = normcase x" "windows_seps (normcase x) = normcase x" for x
    by (simp_all add: normcase_def seps_casefold)
  let ?k = "components_of (path_rest (normcase b))" and ?l = "components_of (path_rest (normcase p))"
  have kl: "?k = map casefold (components_of (path_rest b))" "?l = map casefold (components_of (path_rest p))"
    by (simp_all add: normcase_def seps parts_casefold components_casefold)
  have "t = join_with [backslash] (components_of t)" using clean_components [OF b(4)] b(3) by simp
  have whole: "path_rest (normcase b) = join_with [backslash] ?k"
  proof -
    have "casefold (join_with [backslash] ks) = join_with [backslash] (map casefold ks)"
      by (induction "[backslash]" ks rule: join_with.induct) (auto simp: casefold_def fold_char_def)
    moreover have "components_of t = ks" using clean_components [OF b(4)] b(3) by simp
    ultimately show ?thesis using b(3) parts kl(1) by (simp add: normcase_def seps parts_casefold)
  qed
  have split: "normcase b = path_drive (normcase b) @ path_root (normcase b) @ join_with [backslash] ?k"
    using splitroot_concat [of "normcase b"] whole by simp
  have whole_eq: "path_drive (normcase b) @ path_root (normcase b) @ z = normcase b \<longleftrightarrow> z = join_with [backslash] ?k" for z
    by (subst (2) split) (simp only: same_append_eq)
  have "clean ?k" by (rule components_clean)
  have join: "join_with [backslash] (take n ?k) = join_with [backslash] ?k \<longleftrightarrow> take n ?k = ?k" for n
    using join_clean_inj [OF clean_prefix [OF \<open>clean ?k\<close>] \<open>clean ?k\<close>] .
  have dr: "path_drive (normcase x) = casefold (path_drive (windows_seps x))"
     "path_root (normcase x) = casefold (path_root (windows_seps x))" for x by (simp_all add: normcase_def parts_casefold)
  have root: "casefold (path_root p) = casefold (path_root b) \<longleftrightarrow> path_root p = path_root b"
    by (cases "path_root p") (auto simp: parts)
  have cp: "common_path (normcase b) (normcase p) = Some (normcase b) \<longleftrightarrow>
    path_drive (normcase b) = path_drive (normcase p) \<and> path_root (normcase b) = path_root (normcase p) \<and>
    path_drive (normcase b) @ path_root (normcase b) @ join_with [backslash] (take (common_length ?k ?l) ?k) = normcase b"
    by (auto simp: common_path_def Let_def fb common_length_ordered)
  have ce: "path_drive (normcase b) @ path_root (normcase b) @ join_with [backslash] (take (common_length ?k ?l) ?k) = normcase b
    \<longleftrightarrow> take (length ?k) ?l = ?k"
    using whole_eq join [of "common_length ?k ?l"] common_length_full [of ?k ?l] by (rule trans [OF _ trans])
  have len: "length ?k = length (components_of (path_rest b))" unfolding kl by simp
  have eqs: "path_drive (normcase b) = path_drive (normcase p) \<longleftrightarrow> casefold (path_drive p) = casefold (path_drive b)"
    "path_root (normcase b) = path_root (normcase p) \<longleftrightarrow> path_root p = path_root b"
    using root by (auto simp only: dr seps)
  show ?thesis
    unfolding descends_def by (simp only: cp ce eqs len) (simp only: kl)
qed

lemma boundary_check:
  assumes b: "normalize_windows_path boundary boundary = Inr b" "b = c # CHR '':'' # backslash # t" "\<not> is_sep c"
    and p: "normalize_windows_path path (normcase b) = Inr p"
  shows "is_within_windows_boundary path boundary = Inr (descends b p)"
proof -
  obtain s where s: "b = normpath s" using normalized_is_normpath [OF b(1)] by blast
  obtain s' where s': "p = normpath s'" using normalized_is_normpath [OF p] by blast
  obtain ks where ks: "t = join_with [backslash] ks" "clean ks" using letter_path [of s c t] s b(2,3) by metis
  have "common_path (normcase b) (normcase p) = Some (normcase b) \<longleftrightarrow> descends b p"
    by (rule common_path_decides [OF b(2,3) ks]) (simp_all only: s s' seps_normpath)
  then show ?thesis by (simp add: is_within_windows_boundary_def b(1) p)
qed

text \<open>C33: For a boundary that normalises to a path below the root of a drive the boundary check decides the descendant
  relation on the components of the normalized path, which then has no parent step.\<close>

theorem within_boundary_decides:
  assumes b: "normalize_windows_path boundary boundary = Inr b" "b = c # CHR '':'' # backslash # t" "\<not> is_sep c"
    and p: "normalize_windows_path path (normcase b) = Inr p"
  shows "is_within_windows_boundary path boundary = Inr (descends b p) \<and>
    (descends b p \<longrightarrow> ''..'' \<notin> set (components_of (path_rest p)))"
proof -
  obtain s' where s': "p = normpath s'" using normalized_is_normpath [OF p] by blast
  have "is_within_windows_boundary path boundary = Inr (descends b p)" by (rule boundary_check [OF b p])
  moreover have "''..'' \<notin> set (components_of (path_rest p))" if d: "descends b p"
  proof -
    have "path_drive b = [c, CHR '':'']" "path_root b = [backslash]"
      using letter_parts [of c backslash t] b(2,3) by (simp_all add: path_drive_def path_root_def is_sep_def)
    then obtain e where e: "path_drive p = [e, CHR '':'']" "fold_char e = fold_char c" "path_root p = [backslash]"
      using d by (auto simp: descends_def casefold_def map_eq_Cons_conv Cons_eq_map_conv)
    have "\<not> is_sep e" using e(2) b(3) by (metis fold_char_marks(5))
    have p': "p = e # CHR '':'' # backslash # path_rest p" using splitroot_concat [of p] e by simp
    then have "normpath s' = e # CHR '':'' # backslash # path_rest p" using s' by simp
    from letter_path [OF this \<open>\<not> is_sep e\<close>] obtain ls where "path_rest p = join_with [backslash] ls" "clean ls" "''..'' \<notin> set ls" .
    then show ?thesis by (simp add: clean_components)
  qed
  ultimately show ?thesis by blast
qed

lemma within_boundary_decides_witness:
  "is_within_windows_boundary ''c:/Work/sub/../a'' ''C:/work'' = Inr True \<and>
   is_within_windows_boundary ''../x'' ''C:/work'' = Inr False"
proof -
  have b: "normalize_windows_path ''C:/work'' ''C:/work'' = Inr (CHR ''C'' # CHR '':'' # backslash # ''work'')" by code_simp
  have p: "normalize_windows_path ''c:/Work/sub/../a'' (normcase (CHR ''C'' # CHR '':'' # backslash # ''work'')) =
      Inr (''c:'' @ [backslash] @ ''Work'' @ [backslash] @ ''a'')"
    "normalize_windows_path ''../x'' (normcase (CHR ''C'' # CHR '':'' # backslash # ''work'')) = Inr (''c:'' @ [backslash] @ ''x'')"
    by code_simp+
  have d: "descends (CHR ''C'' # CHR '':'' # backslash # ''work'') (''c:'' @ [backslash] @ ''Work'' @ [backslash] @ ''a'')"
    "\<not> descends (CHR ''C'' # CHR '':'' # backslash # ''work'') (''c:'' @ [backslash] @ ''x'')" by code_simp+
  show ?thesis
    using within_boundary_decides [OF b refl _ p(1)] within_boundary_decides [OF b refl _ p(2)] d by (simp add: is_sep_def)
qed

end
