(* ===== verification/Three_Rules_Facts.thy ===== *)
theory Three_Rules_Facts
  imports Three_Rules Windows_Paths_Facts
begin

text \<open>
  What the policy decides and what the gateway lets through: the provider is called only for effects whose targets all
  stay inside the project boundary, and the quarantine only for deletions that do.
\<close>

section \<open>The policy\<close>

text \<open>A target is bounded when it resolves and the resolved path lies inside the boundary.\<close>

definition bounded :: "policy \<Rightarrow> bool \<Rightarrow> string \<Rightarrow> bool" where
  "bounded p follow path =
     (case resolve_windows_effective_path (po_links p) path (po_boundary p) follow of
        Inr effective \<Rightarrow> is_within_windows_boundary effective (po_boundary p) = Inr True
      | Inl _ \<Rightarrow> False)"

definition bounded_effects :: "policy \<Rightarrow> effects \<Rightarrow> bool" where
  "bounded_effects p ef \<longleftrightarrow>
     ef_unresolved_write_paths ef = [] \<and> ef_unresolved_entry_paths ef = [] \<and> ef_unresolved_delete_paths ef = [] \<and>
     \<not> ef_unresolved_delete ef \<and> \<not> ef_network ef \<and>
     (\<forall>w \<in> set (ef_write ef). bounded p True w) \<and> (\<forall>w \<in> set (ef_entry ef). bounded p False w) \<and>
     (\<forall>w \<in> set (ef_delete ef). bounded p False w)"

definition sound :: "verdict \<Rightarrow> bool" where
  "sound v \<longleftrightarrow> vd_unresolved v = [] \<and> vd_external v = []"

definition normal_form :: "policy \<Rightarrow> string \<Rightarrow> string" where
  "normal_form p path = (case normalize_windows_path path (po_boundary p) of Inr n \<Rightarrow> n | Inl _ \<Rightarrow> [])"

lemma judge_mutation_step:
  assumes "judge_mutation p follow v w = Inr v'"
  shows "vd_deletes v' = vd_deletes v \<and> (sound v' \<longleftrightarrow> sound v \<and> bounded p follow w)"
  using assms
  by (auto simp: judge_mutation_def or_unresolved_def sound_def bounded_def bindE_def split: sum.splits if_splits)

lemma judge_mutations:
  assumes "foldE (judge_mutation p follow) v ws = Inr v'"
  shows "vd_deletes v' = vd_deletes v \<and> (sound v' \<longleftrightarrow> sound v \<and> (\<forall>w \<in> set ws. bounded p follow w))"
  using assms
proof (induction ws arbitrary: v)
  case (Cons w ws)
  from Cons.prems obtain u where u: "judge_mutation p follow v w = Inr u" "foldE (judge_mutation p follow) u ws = Inr v'"
    by (auto simp: bindE_def split: sum.splits)
  from judge_mutation_step [OF u(1)] Cons.IH [OF u(2)] show ?case by auto
qed simp

lemma judge_delete_step:
  assumes "judge_delete p v w = Inr v'"
  shows "(sound v' \<longleftrightarrow> sound v \<and> bounded p False w) \<and>
    (sound v' \<longrightarrow> vd_deletes v' = vd_deletes v @ [normal_form p w])"
  using assms
  by (auto simp: judge_delete_def or_unresolved_def sound_def bounded_def normal_form_def bindE_def
      resolve_windows_effective_path_def split: sum.splits if_splits)

lemma judge_deletes:
  assumes "foldE (judge_delete p) v ws = Inr v'"
  shows "(sound v' \<longleftrightarrow> sound v \<and> (\<forall>w \<in> set ws. bounded p False w)) \<and>
    (sound v' \<longrightarrow> vd_deletes v' = vd_deletes v @ map (normal_form p) ws)"
  using assms
proof (induction ws arbitrary: v)
  case (Cons w ws)
  from Cons.prems obtain u where u: "judge_delete p v w = Inr u" "foldE (judge_delete p) u ws = Inr v'"
    by (auto simp: bindE_def split: sum.splits)
  from judge_delete_step [OF u(1)] Cons.IH [OF u(2)] show ?case by auto
qed simp

lemma judge_sound:
  assumes "judge p ef = Inr v"
  shows "sound v \<and> \<not> ef_network ef \<and> \<not> ef_unresolved_delete ef \<longleftrightarrow> bounded_effects p ef"
    "sound v \<Longrightarrow> vd_deletes v = map (normal_form p) (ef_delete ef)"
proof -
  let ?v0 = "\<lparr>vd_external = [], vd_deletes = [],
     vd_unresolved = ef_unresolved_write_paths ef @ ef_unresolved_entry_paths ef @ ef_unresolved_delete_paths ef\<rparr>"
  from assms obtain v1 v2 where v: "foldE (judge_mutation p True) ?v0 (ef_write ef) = Inr v1"
    "foldE (judge_mutation p False) v1 (ef_entry ef) = Inr v2" "foldE (judge_delete p) v2 (ef_delete ef) = Inr v"
    by (auto simp: judge_def bindE_def split: sum.splits)
  note steps = judge_mutations [OF v(1)] judge_mutations [OF v(2)] judge_deletes [OF v(3)]
  show "sound v \<and> \<not> ef_network ef \<and> \<not> ef_unresolved_delete ef \<longleftrightarrow> bounded_effects p ef"
    using steps by (auto simp: bounded_effects_def sound_def)
  show "sound v \<Longrightarrow> vd_deletes v = map (normal_form p) (ef_delete ef)" using steps by auto
qed

lemma evaluate_cases:
  assumes "evaluate p ef = Inr d"
  shows "dc_kind d = Allow \<longleftrightarrow> bounded_effects p ef \<and> ef_delete ef = []"
    and "dc_kind d = Quarantine \<longleftrightarrow> bounded_effects p ef \<and> ef_delete ef \<noteq> [] \<and>
      (\<forall>w \<in> set (ef_delete ef). casefold (normal_form p w) \<noteq> casefold (po_boundary p))"
    and "dc_kind d = Quarantine \<Longrightarrow> set (dc_paths d) = normal_form p ` set (ef_delete ef)"
proof -
  from assms obtain v where v: "judge p ef = Inr v" and d: "d = decide_verdict p ef v"
    by (auto simp: evaluate_def bindE_def split: sum.splits)
  have b: "bounded_effects p ef \<longleftrightarrow> vd_unresolved v = [] \<and> vd_external v = [] \<and> \<not> ef_network ef \<and> \<not> ef_unresolved_delete ef"
    using judge_sound(1) [OF v] by (auto simp: sound_def)
  have n: "vd_deletes v = map (normal_form p) (ef_delete ef)" if "bounded_effects p ef"
    using judge_sound [OF v] that by blast
  show "dc_kind d = Allow \<longleftrightarrow> bounded_effects p ef \<and> ef_delete ef = []"
    using b n by (auto simp: d decide_verdict_def block_def Let_def)
  show "dc_kind d = Quarantine \<longleftrightarrow> bounded_effects p ef \<and> ef_delete ef \<noteq> [] \<and>
      (\<forall>w \<in> set (ef_delete ef). casefold (normal_form p w) \<noteq> casefold (po_boundary p))"
    using b n by (auto simp: d decide_verdict_def block_def Let_def)
  show "dc_kind d = Quarantine \<Longrightarrow> set (dc_paths d) = normal_form p ` set (ef_delete ef)"
    using b n by (auto simp: d decide_verdict_def block_def Let_def split: if_splits)
qed

text \<open>C34: The policy allows an invocation exactly when nothing is unresolved, there is no network access and no deletion,
  and every write and entry target resolves inside the boundary; it redirects to the quarantine exactly when the same
  holds with deletions that resolve inside the boundary and none of which is the boundary, and then names just these.\<close>

theorem policy_decides:
  assumes "evaluate p ef = Inr d"
  shows "(dc_kind d = Allow \<longleftrightarrow> bounded_effects p ef \<and> ef_delete ef = []) \<and>
    (dc_kind d = Quarantine \<longleftrightarrow> bounded_effects p ef \<and> ef_delete ef \<noteq> [] \<and>
      (\<forall>w \<in> set (ef_delete ef). casefold (normal_form p w) \<noteq> casefold (po_boundary p))) \<and>
    (dc_kind d = Quarantine \<longrightarrow> set (dc_paths d) = normal_form p ` set (ef_delete ef))"
  using evaluate_cases [OF assms] by blast

definition sample_policy :: policy where
  "sample_policy = \<lparr>po_boundary = ''C:'' @ [backslash] @ ''work'', po_quarantine = ''q'', po_links = Inr\<rparr>"

lemma sample_decisions:
  "evaluate sample_policy (no_effects\<lparr>ef_write := [''a.txt'']\<rparr>) =
     Inr \<lparr>dc_kind = Allow, dc_code = ''ALLOW'', dc_rule = None, dc_paths = []\<rparr>"
  "evaluate sample_policy (no_effects\<lparr>ef_delete := [''a.txt'']\<rparr>) =
     Inr \<lparr>dc_kind = Quarantine, dc_code = ''HR-003_QUARANTINE_REQUIRED'', dc_rule = Some ''HR-003'',
       dc_paths = [''C:'' @ [backslash] @ ''work'' @ [backslash] @ ''a.txt'']\<rparr>"
  "evaluate sample_policy (no_effects\<lparr>ef_write := [''../a.txt'']\<rparr>) =
     Inr (block (Some ''HR-001'') ''HR-001_WRITE_OUTSIDE_PROJECTS'' [''C:'' @ [backslash] @ ''a.txt''])"
  by code_simp+

lemma policy_decides_witness:
  "evaluate sample_policy (no_effects\<lparr>ef_write := [''a.txt'']\<rparr>) \<noteq> Inl ValueError \<and>
   bounded_effects sample_policy (no_effects\<lparr>ef_write := [''a.txt'']\<rparr>) \<and>
   \<not> bounded_effects sample_policy (no_effects\<lparr>ef_write := [''../a.txt'']\<rparr>)"
  using policy_decides [OF sample_decisions(1)] policy_decides [OF sample_decisions(3)] sample_decisions
  by (simp add: block_def no_effects_def)

section \<open>The gateway\<close>

text \<open>A target that stays inside: it resolves, and its normalized form descends from the boundary.\<close>

definition stays_inside :: "policy \<Rightarrow> string \<Rightarrow> bool \<Rightarrow> string \<Rightarrow> bool" where
  "stays_inside p b follow path \<longleftrightarrow>
     (\<exists>effective q. resolve_windows_effective_path (po_links p) path (po_boundary p) follow = Inr effective \<and>
        normalize_windows_path effective (normcase b) = Inr q \<and> descends b q)"

text \<open>The boundary of a policy is a path below the root of a drive.\<close>

definition drive_boundary :: "policy \<Rightarrow> string \<Rightarrow> bool" where
  "drive_boundary p b \<longleftrightarrow>
     (\<exists>c t. normalize_windows_path (po_boundary p) (po_boundary p) = Inr b \<and> b = c # CHR '':'' # backslash # t \<and> \<not> is_sep c)"

lemma bounded_stays_inside:
  assumes "drive_boundary p b" "bounded p follow path"
  shows "stays_inside p b follow path"
proof -
  from assms(2) obtain e where e: "resolve_windows_effective_path (po_links p) path (po_boundary p) follow = Inr e"
    "is_within_windows_boundary e (po_boundary p) = Inr True"
    by (auto simp: bounded_def split: sum.splits)
  from assms(1) obtain c t where b: "normalize_windows_path (po_boundary p) (po_boundary p) = Inr b"
    "b = c # CHR '':'' # backslash # t" "\<not> is_sep c" by (auto simp: drive_boundary_def)
  from e(2) b(1) obtain q where q: "normalize_windows_path e (normcase b) = Inr q"
    by (auto simp: is_within_windows_boundary_def bindE_def split: sum.splits)
  with boundary_check [OF b q] e show ?thesis by (auto simp: stays_inside_def)
qed

text \<open>What the gateway has settled before a decision applies.\<close>

definition settled :: "'s gateway \<Rightarrow> string \<Rightarrow> obj \<Rightarrow> 's \<Rightarrow> obj \<Rightarrow> effects \<Rightarrow> decision \<Rightarrow> bool" where
  "settled g tool arguments world args ef d \<longleftrightarrow>
     normalized_arguments g tool arguments = Inr args \<and>
     casefold tool \<notin> set (cb_network_only (gw_capabilities g)) \<and>
     \<not> hidden_key (gw_capabilities g) tool args \<and> \<not> hidden_arguments (gw_capabilities g) tool args \<and>
     fst (gw_resolve g tool args world) = Inr ef \<and> evaluate (gw_policy g) ef = Inr d"

lemma unsettled_rejects:
  assumes "on_call_tool g tool arguments st \<noteq> on_call_tool g' tool arguments st"
    and same: "gw_capabilities g' = gw_capabilities g" "gw_text g' = gw_text g" "gw_process g' = gw_process g"
      "gw_resolve g' = gw_resolve g" "gw_policy g' = gw_policy g"
  obtains args ef d st' where "settled g tool arguments (gs_world st) args ef d"
    "apply_decision g tool (map fst arguments) args d st' \<noteq> apply_decision g' tool (map fst arguments) args d st'"
proof -
  have n: "normalized_texts g' tool arguments = normalized_texts g tool arguments"
    "normalized_process g' tool texts = normalized_process g tool texts" for texts
    by (simp_all add: normalized_texts_def normalized_process_def same)
  obtain texts where texts: "normalized_texts g tool arguments = Inr texts"
    using assms(1) n by (cases "normalized_texts g tool arguments") (simp_all add: on_call_tool_def Let_def bindS_def liftE_def)
  then have na: "normalized_arguments g tool arguments = normalized_process g tool texts"
    by (simp add: normalized_arguments_def)
  note n = n texts na
  show ?thesis
  proof (cases "normalized_process g tool texts")
    case (Inl e)
    with assms(1) n show ?thesis by (cases e) (simp_all add: on_call_tool_def Let_def bindS_def liftE_def)
  next
    case (Inr args)
    with na have "normalized_arguments g tool arguments = Inr args" by simp
    with Inr assms(1) n have h: "casefold tool \<notin> set (cb_network_only (gw_capabilities g))"
      "\<not> hidden_key (gw_capabilities g) tool args" "\<not> hidden_arguments (gw_capabilities g) tool args"
      by (simp_all add: on_call_tool_def Let_def same bindS_def [of "liftE x" for x] liftE_def split: if_splits)
    obtain r w where rw: "gw_resolve g tool args (gs_world st) = (r, w)" by (cases "gw_resolve g tool args (gs_world st)")
    show ?thesis
    proof (cases r)
      case (Inl e)
      with assms(1) \<open>normalized_process g tool texts = Inr args\<close> n h rw show ?thesis
        by (simp add: on_call_tool_def Let_def same bindS_def liftE_def in_gateway_def)
    next
      case (Inr ef)
      then have ne: "bindS (liftE (evaluate (gw_policy g) ef)) (\<lambda>d. apply_decision g tool (map fst arguments) args d)
          (st\<lparr>gs_world := w\<rparr>) \<noteq>
        bindS (liftE (evaluate (gw_policy g) ef)) (\<lambda>d. apply_decision g' tool (map fst arguments) args d)
          (st\<lparr>gs_world := w\<rparr>)"
        using assms(1) \<open>normalized_process g tool texts = Inr args\<close> n h rw
        by (simp add: on_call_tool_def Let_def same bindS_def [of "in_gateway x" for x] bindS_def [of "liftE (Inr x)" for x]
            liftE_def [of "Inr x" for x] in_gateway_def)
      then obtain d where d: "evaluate (gw_policy g) ef = Inr d"
        "apply_decision g tool (map fst arguments) args d (st\<lparr>gs_world := w\<rparr>) \<noteq>
         apply_decision g' tool (map fst arguments) args d (st\<lparr>gs_world := w\<rparr>)"
        by (cases "evaluate (gw_policy g) ef") (auto simp: bindS_def liftE_def)
      have "settled g tool arguments (gs_world st) args ef d"
        using d(1) h rw Inr \<open>normalized_arguments g tool arguments = Inr args\<close> by (simp add: settled_def)
      with d(2) that show ?thesis by blast
    qed
  qed
qed

lemma forward_other: "forward (g\<lparr>gw_quarantine := other\<rparr>) = forward g"
  by (intro ext) (simp add: forward_def split: sum.split prod.split)

lemma quarantine_call_other: "quarantine_call (g\<lparr>gw_call := other\<rparr>) = quarantine_call g"
  by (intro ext) (simp add: quarantine_call_def split: sum.split prod.split)

text \<open>C35: The outcome of a tool call depends on the provider only when the policy has seen effects without deletion,
  network access or unresolved target, all of whose write and entry targets stay inside the project boundary: in every
  other case the call ends in the same way whatever the provider would do.\<close>

theorem provider_call_stays_inside:
  assumes "on_call_tool g tool arguments st \<noteq> on_call_tool (g\<lparr>gw_call := other\<rparr>) tool arguments st"
    and "drive_boundary (gw_policy g) b"
  shows "\<exists>args ef d. settled g tool arguments (gs_world st) args ef d \<and> dc_kind d = Allow \<and>
    ef_delete ef = [] \<and> \<not> ef_network ef \<and>
    (\<forall>w \<in> set (ef_write ef). stays_inside (gw_policy g) b True w) \<and>
    (\<forall>w \<in> set (ef_entry ef). stays_inside (gw_policy g) b False w)"
proof -
  obtain args ef d st' where s: "settled g tool arguments (gs_world st) args ef d"
    and ne: "apply_decision g tool (map fst arguments) args d st' \<noteq>
      apply_decision (g\<lparr>gw_call := other\<rparr>) tool (map fst arguments) args d st'"
    by (rule unsettled_rejects [OF assms(1)]) simp_all
  have allow: "dc_kind d = Allow"
    using ne by (cases "dc_kind d") (simp_all add: apply_decision_def quarantine_call_other split: if_splits)
  have ev: "evaluate (gw_policy g) ef = Inr d" using s by (simp add: settled_def)
  have "bounded_effects (gw_policy g) ef" "ef_delete ef = []" using evaluate_cases(1) [OF ev] allow by auto
  with s allow bounded_stays_inside [OF assms(2)] show ?thesis unfolding bounded_effects_def by blast
qed

text \<open>C36: The outcome of a tool call depends on the quarantine only for a deletion tool whose every target stays inside
  the project boundary without being the boundary itself, together with all its other targets.\<close>

theorem quarantine_call_stays_inside:
  assumes "on_call_tool g tool arguments st \<noteq> on_call_tool (g\<lparr>gw_quarantine := other\<rparr>) tool arguments st"
    and "drive_boundary (gw_policy g) b"
  shows "\<exists>args ef d. settled g tool arguments (gs_world st) args ef d \<and> dc_kind d = Quarantine \<and>
    casefold tool \<in> set (cb_direct_delete (gw_capabilities g)) \<and>
    set (dc_paths d) = normal_form (gw_policy g) ` set (ef_delete ef) \<and>
    (\<forall>w \<in> set (ef_delete ef). stays_inside (gw_policy g) b False w \<and>
       casefold (normal_form (gw_policy g) w) \<noteq> casefold (po_boundary (gw_policy g))) \<and>
    (\<forall>w \<in> set (ef_write ef). stays_inside (gw_policy g) b True w)"
proof -
  obtain args ef d st' where s: "settled g tool arguments (gs_world st) args ef d"
    and ne: "apply_decision g tool (map fst arguments) args d st' \<noteq>
      apply_decision (g\<lparr>gw_quarantine := other\<rparr>) tool (map fst arguments) args d st'"
    by (rule unsettled_rejects [OF assms(1)]) simp_all
  have q: "dc_kind d = Quarantine" "casefold tool \<in> set (cb_direct_delete (gw_capabilities g))"
    using ne by (cases "dc_kind d"; simp add: apply_decision_def forward_other split: if_splits)+
  have ev: "evaluate (gw_policy g) ef = Inr d" using s by (simp add: settled_def)
  have "bounded_effects (gw_policy g) ef"
    "\<forall>w \<in> set (ef_delete ef). casefold (normal_form (gw_policy g) w) \<noteq> casefold (po_boundary (gw_policy g))"
    using evaluate_cases(2) [OF ev] q by auto
  with s q evaluate_cases(3) [OF ev q(1)] bounded_stays_inside [OF assms(2)] show ?thesis
    unfolding bounded_effects_def by blast
qed


definition sample_gateway :: "nat gateway" where
  "sample_gateway =
     \<lparr>gw_capabilities = \<lparr>cb_network_only = [], cb_direct_delete = [''delete''], cb_hidden_arguments = [], cb_hidden_keys = [],
        cb_configuration = None\<rparr>,
      gw_text = None, gw_process = None,
      gw_resolve = (\<lambda>tool args n. (Inr (if tool = ''delete'' then no_effects\<lparr>ef_delete := [''a.txt'']\<rparr>
        else no_effects\<lparr>ef_write := [''a.txt'']\<rparr>), n)),
      gw_policy = sample_policy, gw_call = (\<lambda>tool args n. (Inr (JStr ''done''), Suc n)),
      gw_observe = (\<lambda>tool args answer n. (Inr (), n)), gw_quarantine = (\<lambda>paths n. (Inr [], Suc n))\<rparr>"

lemma sample_boundary: "drive_boundary (gw_policy sample_gateway) (''C:'' @ [backslash] @ ''work'')"
proof -
  have "normalize_windows_path (po_boundary (gw_policy sample_gateway)) (po_boundary (gw_policy sample_gateway)) =
    Inr (''C:'' @ [backslash] @ ''work'')" by code_simp
  then show ?thesis by (simp add: drive_boundary_def is_sep_def)
qed

lemmas sample_call = on_call_tool_def normalized_texts_def normalized_process_def hidden_key_def hidden_arguments_def apply_decision_def
  forward_def quarantine_call_def in_gateway_def bindS_def liftE_def failS_def returnS_def record_call_def reject_def

lemma provider_call_stays_inside_witness:
  "stays_inside sample_policy (''C:'' @ [backslash] @ ''work'') True ''a.txt''"
proof -
  have d: "on_call_tool sample_gateway ''write'' [] \<lparr>gs_world = 0, gs_calls = []\<rparr> \<noteq>
    on_call_tool (sample_gateway\<lparr>gw_call := \<lambda>tool args. failS OSError\<rparr>) ''write'' [] \<lparr>gs_world = 0, gs_calls = []\<rparr>"
    by (simp add: sample_gateway_def sample_call sample_decisions)
  obtain args ef dd where s: "settled sample_gateway ''write'' [] 0 args ef dd"
    and w: "\<forall>w \<in> set (ef_write ef). stays_inside (gw_policy sample_gateway) (''C:'' @ [backslash] @ ''work'') True w"
    using provider_call_stays_inside [OF d sample_boundary] by auto
  from s have "ef = no_effects\<lparr>ef_write := [''a.txt'']\<rparr>" by (simp add: settled_def sample_gateway_def)
  with w show ?thesis by (simp add: sample_gateway_def no_effects_def)
qed

lemma quarantine_call_stays_inside_witness:
  "stays_inside sample_policy (''C:'' @ [backslash] @ ''work'') False ''a.txt''"
proof -
  have d: "on_call_tool sample_gateway ''delete'' [] \<lparr>gs_world = 0, gs_calls = []\<rparr> \<noteq>
    on_call_tool (sample_gateway\<lparr>gw_quarantine := \<lambda>paths. failS OSError\<rparr>) ''delete'' [] \<lparr>gs_world = 0, gs_calls = []\<rparr>"
    by (simp add: sample_gateway_def sample_call sample_decisions casefold_def fold_char_def)
  obtain args ef dd where s: "settled sample_gateway ''delete'' [] 0 args ef dd"
    and w: "\<forall>w \<in> set (ef_delete ef). stays_inside (gw_policy sample_gateway) (''C:'' @ [backslash] @ ''work'') False w"
    using quarantine_call_stays_inside [OF d sample_boundary] by auto
  from s have "ef = no_effects\<lparr>ef_delete := [''a.txt'']\<rparr>" by (simp add: settled_def sample_gateway_def)
  with w show ?thesis by (simp add: sample_gateway_def no_effects_def)
qed

end
