(* ===== verification/Command_Intent_Facts.thy ===== *)
theory Command_Intent_Facts
  imports Command_Intent Three_Rules_Facts
begin

text \<open>
  Facts about shell commands: the state of a shell stays well formed, the effects of a command are exactly those of the
  segments it runs, directly or through nested shells, and what the policy may let through follows from them.
\<close>

section \<open>The state of a shell\<close>

text \<open>Directories have a drive, and at most 32 of them are on the stack.\<close>

definition shell_state_ok :: "shell_state \<Rightarrow> bool" where
  "shell_state_ok st \<longleftrightarrow>
     path_drive (sh_cwd st) \<noteq> [] \<and> (\<forall>d \<in> set (sh_stack st). path_drive d \<noteq> []) \<and> length (sh_stack st) \<le> 32"

lemma normalized_has_drive: "normalize_windows_path v base = Inr p \<Longrightarrow> path_drive p \<noteq> []"
  by (auto simp: normalize_windows_path_def Let_def split: if_splits)

lemma shell_resolve_drive: "shell_resolve v cwd = Some p \<Longrightarrow> path_drive p \<noteq> []"
  by (auto simp: shell_resolve_def normalized_has_drive split: if_splits sum.splits)

lemma change_directory_ok: "shell_state_ok st \<Longrightarrow> shell_state_ok (change_directory values st)"
  using shell_resolve_drive by (auto simp: change_directory_def shell_state_ok_def Let_def split: option.split)

lemma push_directory_ok: "shell_state_ok st \<Longrightarrow> shell_state_ok (push_directory values st)"
  using shell_resolve_drive
  by (auto simp: push_directory_def shell_state_ok_def Let_def dest: in_set_dropD split: option.split)

lemma pop_directory_ok: "shell_state_ok st \<Longrightarrow> shell_state_ok (pop_directory st)"
  by (auto simp: pop_directory_def shell_state_ok_def dest: in_set_butlastD)

lemma directory_transition_ok:
  assumes "shell_state_ok st" "directory_transition text st = Some st'"
  shows "shell_state_ok st' \<and> sh_shell st' = sh_shell st \<and> sh_delayed st' = sh_delayed st"
proof -
  have "sh_shell st' = sh_shell st \<and> sh_delayed st' = sh_delayed st"
    using assms(2) by (auto simp: directory_transition_def change_directory_def push_directory_def pop_directory_def Let_def
        split: list.split_asm option.split_asm if_split_asm)
  moreover have "shell_state_ok st'"
    using assms change_directory_ok push_directory_ok pop_directory_ok
    by (auto simp: directory_transition_def Let_def split: list.split_asm if_split_asm)
  ultimately show ?thesis by blast
qed

lemma walk_segments_ok:
  assumes "shell_state_ok st"
  shows "shell_state_ok (snd (walk_segments texts st)) \<and> sh_shell (snd (walk_segments texts st)) = sh_shell st \<and>
    (\<forall>s \<in> set (fst (walk_segments texts st)). path_drive (sg_cwd s) \<noteq> [] \<and> sg_shell s = sh_shell st)"
  using assms
proof (induction texts arbitrary: st)
  case (Cons w texts)
  show ?case
  proof (cases "directory_transition w st")
    case None
    show ?thesis
    proof (cases "is_exit w")
      case True
      have "shell_state_ok (st\<lparr>sh_terminated := True\<rparr>)" using Cons.prems by (simp add: shell_state_ok_def)
      from Cons.IH [OF this] show ?thesis using None True by simp
    next
      case False
      from Cons.IH [OF Cons.prems] None False Cons.prems show ?thesis
        by (auto simp: shell_state_ok_def split: prod.splits)
    qed
  next
    case (Some st')
    from directory_transition_ok [OF Cons.prems Some] Cons.IH [of st'] Some show ?thesis by simp
  qed
qed simp

text \<open>C40: A command leaves a well-formed shell state well formed: every directory in it has a drive and the stack never
  holds more than 32; the segments run in directories with a drive and in the shell of the state.\<close>

theorem shell_state_well_formed:
  assumes "shell_state_ok st"
  shows "shell_state_ok (snd (resolve_shell_segments command st)) \<and>
    sh_shell (snd (resolve_shell_segments command st)) = sh_shell st \<and>
    (\<forall>s \<in> set (fst (resolve_shell_segments command st)). path_drive (sg_cwd s) \<noteq> [] \<and> sg_shell s = sh_shell st)"
  unfolding resolve_shell_segments_def by (rule walk_segments_ok [OF assms])

definition sample_state :: shell_state where
  "sample_state = shell_state_init (''C:'' @ [backslash] @ ''work'') ''generic''"

lemma shell_state_well_formed_witness:
  "shell_state_ok (snd (resolve_shell_segments ''pushd a && cd b; popd; ls'' sample_state))"
proof -
  have "shell_state_ok sample_state" by code_simp
  from shell_state_well_formed [OF this] show ?thesis by blast
qed

section \<open>The segments a command runs\<close>

text \<open>A segment runs directly or in a shell nested in another segment; \<open>delayed\<close> is the inherited expansion mode.\<close>

inductive runs :: "nat \<Rightarrow> string \<Rightarrow> shell_state \<Rightarrow> bool \<Rightarrow> shell_segment \<Rightarrow> bool" where
  runs_here: "s \<in> set (fst (resolve_shell_segments command st)) \<Longrightarrow> runs (Suc n) command st (sh_delayed st) s"
| runs_nested: "t \<in> set (fst (resolve_shell_segments command st)) \<Longrightarrow> nested_command (sh_delayed st) t = Some (payload, inner) \<Longrightarrow>
    runs n payload inner delayed s \<Longrightarrow> runs (Suc n) command st delayed s"

inductive_cases runs_zeroE: "runs 0 command st delayed s"
inductive_cases runs_SucE: "runs (Suc n) command st delayed s"

text \<open>What an invocation does, as a set of facts.\<close>

datatype effect_fact = Writes string | Moves string | Deletes string | Network | Deletes_Something
  | Unresolved_Write string | Unresolved_Move string | Unresolved_Delete string

definition effect_set :: "effects \<Rightarrow> effect_fact set" where
  "effect_set ef =
     Writes ` set (ef_write ef) \<union> Moves ` set (ef_entry ef) \<union> Deletes ` set (ef_delete ef) \<union>
     (if ef_network ef then {Network} else {}) \<union> (if ef_unresolved_delete ef then {Deletes_Something} else {}) \<union>
     Unresolved_Write ` set (ef_unresolved_write_paths ef) \<union> Unresolved_Move ` set (ef_unresolved_entry_paths ef) \<union>
     Unresolved_Delete ` set (ef_unresolved_delete_paths ef)"

definition effects_of :: "effects result \<Rightarrow> effect_fact set" where
  "effects_of r = (case r of Inr ef \<Rightarrow> effect_set ef | Inl _ \<Rightarrow> {})"

lemma effects_of_simps [simp]: "effects_of (Inr ef) = effect_set ef" "effects_of (Inl e) = {}"
  by (simp_all add: effects_of_def)

lemma no_effects_set [simp]: "effect_set no_effects = {}"
  by (simp add: effect_set_def no_effects_def)

lemma effect_set_iff [simp]:
  "Writes p \<in> effect_set ef \<longleftrightarrow> p \<in> set (ef_write ef)"
  "Moves p \<in> effect_set ef \<longleftrightarrow> p \<in> set (ef_entry ef)"
  "Deletes p \<in> effect_set ef \<longleftrightarrow> p \<in> set (ef_delete ef)"
  "Network \<in> effect_set ef \<longleftrightarrow> ef_network ef"
  "Deletes_Something \<in> effect_set ef \<longleftrightarrow> ef_unresolved_delete ef"
  "Unresolved_Write p \<in> effect_set ef \<longleftrightarrow> p \<in> set (ef_unresolved_write_paths ef)"
  "Unresolved_Move p \<in> effect_set ef \<longleftrightarrow> p \<in> set (ef_unresolved_entry_paths ef)"
  "Unresolved_Delete p \<in> effect_set ef \<longleftrightarrow> p \<in> set (ef_unresolved_delete_paths ef)"
  unfolding effect_set_def by (auto split: if_splits)

lemma merge_effects_set: "effect_set (merge_effects es) = (\<Union>e \<in> set es. effect_set e)"
proof (rule set_eqI)
  fix x
  show "x \<in> effect_set (merge_effects es) \<longleftrightarrow> x \<in> (\<Union>e \<in> set es. effect_set e)"
    by (cases x) (simp_all add: merge_effects_def)
qed

text \<open>What one segment contributes.\<close>

definition contribution :: "nat \<Rightarrow> environment \<Rightarrow> bool \<Rightarrow> shell_segment \<Rightarrow> effect_fact set" where
  "contribution levels en inherited segment =
     effects_of (direct_effects en inherited segment) \<union>
     (case nested_command inherited segment of
        None \<Rightarrow> {}
      | Some (payload, inner) \<Rightarrow> effects_of (resolve_levels levels en payload inner))"

lemma contribution_iff:
  "x \<in> contribution levels en inherited s \<longleftrightarrow> x \<in> effects_of (direct_effects en inherited s) \<or>
     (\<exists>payload inner. nested_command inherited s = Some (payload, inner) \<and> x \<in> effects_of (resolve_levels levels en payload inner))"
  by (cases "nested_command inherited s") (auto simp: contribution_def)

lemma fold_contributions:
  assumes "foldE (\<lambda>found segment.
         bindE (direct_effects en inherited segment) (\<lambda>direct.
           (case nested_command inherited segment of
              None \<Rightarrow> Inr (found @ [direct])
            | Some (payload, inner) \<Rightarrow>
                bindE (resolve_levels levels en payload inner) (\<lambda>nested. Inr (found @ [direct, nested])))))
         start segments = Inr found"
  shows "(\<Union>e \<in> set found. effect_set e) = (\<Union>e \<in> set start. effect_set e) \<union> (\<Union>s \<in> set segments. contribution levels en inherited s)"
    and "\<forall>s \<in> set segments. (\<exists>e. direct_effects en inherited s = Inr e) \<and>
      (\<forall>payload inner. nested_command inherited s = Some (payload, inner) \<longrightarrow> (\<exists>e. resolve_levels levels en payload inner = Inr e))"
  using assms
proof (induction segments arbitrary: start)
  case (Cons s segments)
  case 1
  then obtain e where e: "direct_effects en inherited s = Inr e" by (auto simp: bindE_def split: sum.splits)
  show ?case
  proof (cases "nested_command inherited s")
    case None
    with 1 e Cons.IH(1) [of "start @ [e]"] show ?thesis by (auto simp: contribution_def)
  next
    case (Some q)
    then obtain payload inner where q: "nested_command inherited s = Some (payload, inner)" by (cases q) auto
    with 1 e obtain m where m: "resolve_levels levels en payload inner = Inr m" by (auto simp: bindE_def split: sum.splits)
    with 1 e q Cons.IH(1) [of "start @ [e, m]"] show ?thesis by (auto simp: contribution_def)
  qed
next
  case (Cons s segments)
  case 2
  then obtain e where e: "direct_effects en inherited s = Inr e" by (auto simp: bindE_def split: sum.splits)
  show ?case
  proof (cases "nested_command inherited s")
    case None
    with 2 e Cons.IH(2) [of "start @ [e]"] show ?thesis by auto
  next
    case (Some q)
    then obtain payload inner where q: "nested_command inherited s = Some (payload, inner)" by (cases q) auto
    with 2 e obtain m where m: "resolve_levels levels en payload inner = Inr m" by (auto simp: bindE_def split: sum.splits)
    with 2 e q Cons.IH(2) [of "start @ [e, m]"] show ?thesis by auto
  qed
qed simp_all

lemma resolve_levels_collects:
  assumes "resolve_levels n en command st = Inr ef"
  shows "effect_set ef = (\<Union>(delayed, s) \<in> {(delayed, s). runs n command st delayed s}. effects_of (direct_effects en delayed s))"
    and "runs n command st delayed s \<Longrightarrow> \<exists>e. direct_effects en delayed s = Inr e"
  using assms
proof (induction n arbitrary: command st ef delayed s)
  case 0
  case 1
  then show ?case by (auto elim: runs_zeroE)
next
  case 0
  case 2
  then show ?case by (auto elim: runs_zeroE)
next
  case (Suc n)
  case 1
  let ?segments = "fst (resolve_shell_segments command st)" and ?d = "sh_delayed st"
  from 1 obtain found where f: "foldE (\<lambda>found segment.
         bindE (direct_effects en ?d segment) (\<lambda>direct.
           (case nested_command ?d segment of
              None \<Rightarrow> Inr (found @ [direct])
            | Some (payload, inner) \<Rightarrow>
                bindE (resolve_levels n en payload inner) (\<lambda>nested. Inr (found @ [direct, nested])))))
         [] ?segments = Inr found" and ef: "ef = merge_effects found"
    by (auto simp: bindE_def split: sum.splits)
  have "effect_set ef = (\<Union>s \<in> set ?segments. contribution n en ?d s)"
    using fold_contributions(1) [OF f] by (simp add: ef merge_effects_set)
  also have "\<dots> = (\<Union>(delayed, s) \<in> {(delayed, s). runs (Suc n) command st delayed s}. effects_of (direct_effects en delayed s))"
    (is "?A = ?B")
  proof (rule set_eqI)
    fix x
    have nested: "x \<in> effects_of (resolve_levels n en payload inner) \<longleftrightarrow>
        (\<exists>delayed u. runs n payload inner delayed u \<and> x \<in> effects_of (direct_effects en delayed u))"
      if t: "t \<in> set ?segments" "nested_command ?d t = Some (payload, inner)" for t payload inner
    proof -
      obtain e where e: "resolve_levels n en payload inner = Inr e" using fold_contributions(2) [OF f] t by blast
      from Suc.IH(1) [OF e] show ?thesis by (auto simp: e)
    qed
    have "x \<in> ?A \<longleftrightarrow> (\<exists>t \<in> set ?segments. x \<in> effects_of (direct_effects en ?d t) \<or>
        (\<exists>payload inner. nested_command ?d t = Some (payload, inner) \<and> x \<in> effects_of (resolve_levels n en payload inner)))"
      by (simp add: contribution_iff)
    also have "\<dots> \<longleftrightarrow> (\<exists>t \<in> set ?segments. x \<in> effects_of (direct_effects en ?d t) \<or>
        (\<exists>payload inner. nested_command ?d t = Some (payload, inner) \<and>
          (\<exists>delayed u. runs n payload inner delayed u \<and> x \<in> effects_of (direct_effects en delayed u))))"
      using nested by blast
    also have "\<dots> \<longleftrightarrow> (\<exists>delayed u. runs (Suc n) command st delayed u \<and> x \<in> effects_of (direct_effects en delayed u))"
      by (blast intro: runs_here runs_nested elim: runs_SucE)
    also have "\<dots> \<longleftrightarrow> x \<in> ?B" by blast
    finally show "x \<in> ?A \<longleftrightarrow> x \<in> ?B" .
  qed
  finally show ?case .
next
  case (Suc n)
  case 2
  let ?segments = "fst (resolve_shell_segments command st)" and ?d = "sh_delayed st"
  from 2(2) obtain found where f: "foldE (\<lambda>found segment.
         bindE (direct_effects en ?d segment) (\<lambda>direct.
           (case nested_command ?d segment of
              None \<Rightarrow> Inr (found @ [direct])
            | Some (payload, inner) \<Rightarrow>
                bindE (resolve_levels n en payload inner) (\<lambda>nested. Inr (found @ [direct, nested])))))
         [] ?segments = Inr found"
    by (auto simp: bindE_def split: sum.splits)
  from 2(1) consider (here) "s \<in> set ?segments" "delayed = ?d"
    | (nested) t payload inner where "t \<in> set ?segments" "nested_command ?d t = Some (payload, inner)" "runs n payload inner delayed s"
    by (blast elim: runs_SucE)
  then show ?case
  proof cases
    case here
    then show ?thesis using fold_contributions(2) [OF f] by blast
  next
    case nested
    then obtain e where "resolve_levels n en payload inner = Inr e" using fold_contributions(2) [OF f] by blast
    with Suc.IH(2) nested show ?thesis by blast
  qed
qed

text \<open>C37: The effects of a command are exactly those of the segments it runs, directly or through at most four levels of
  nested shells, starting in the normalized directory and the shell of the command.\<close>

theorem command_effects_collected:
  assumes "resolve_command_effects en command cwd boundary shell = Inr ef"
  shows "\<exists>start. normalize_windows_path (if cwd = [] then boundary else cwd) boundary = Inr start \<and>
    effect_set ef = (\<Union>(delayed, s) \<in> {(delayed, s).
      runs max_command_levels command (shell_state_init start (shell_from_command command shell)) delayed s}.
      effects_of (direct_effects en delayed s))"
proof -
  from assms obtain start where start: "normalize_windows_path (if cwd = [] then boundary else cwd) boundary = Inr start"
    and r: "resolve_levels max_command_levels en command (shell_state_init start (shell_from_command command shell)) = Inr ef"
    by (auto simp: resolve_command_effects_def resolve_command_recursive_def bindE_def split: sum.splits)
  from resolve_levels_collects(1) [OF r] start show ?thesis by blast
qed

section \<open>Commands and the policy\<close>

text \<open>What the policy demands of a single fact.\<close>

fun fact_bounded :: "policy \<Rightarrow> effect_fact \<Rightarrow> bool" where
  "fact_bounded p (Writes w) = bounded p True w"
| "fact_bounded p (Moves w) = bounded p False w"
| "fact_bounded p (Deletes w) = bounded p False w"
| "fact_bounded p _ = False"

lemma list_eq_Nil_iff: "xs = [] \<longleftrightarrow> (\<forall>w. w \<notin> set xs)"
  by (cases xs) auto

lemma bounded_effects_facts: "bounded_effects p ef \<longleftrightarrow> (\<forall>f \<in> effect_set ef. fact_bounded p f)"
proof
  assume b: "bounded_effects p ef"
  show "\<forall>f \<in> effect_set ef. fact_bounded p f"
  proof
    fix f
    assume "f \<in> effect_set ef"
    with b show "fact_bounded p f" by (cases f) (auto simp: bounded_effects_def)
  qed
next
  assume f: "\<forall>f \<in> effect_set ef. fact_bounded p f"
  have "\<not> fact_bounded p (Unresolved_Write w)" "\<not> fact_bounded p (Unresolved_Move w)" "\<not> fact_bounded p (Unresolved_Delete w)" for w
    by simp_all
  then have "Unresolved_Write w \<notin> effect_set ef" "Unresolved_Move w \<notin> effect_set ef" "Unresolved_Delete w \<notin> effect_set ef" for w
    using f by blast+
  then have "ef_unresolved_write_paths ef = []" "ef_unresolved_entry_paths ef = []" "ef_unresolved_delete_paths ef = []"
    by (simp_all add: list_eq_Nil_iff)
  moreover have "\<not> ef_network ef" using bspec [OF f, of Network] by auto
  moreover have "\<not> ef_unresolved_delete ef" using bspec [OF f, of Deletes_Something] by auto
  moreover have "\<forall>w \<in> set (ef_write ef). bounded p True w" using bspec [OF f, of "Writes w" for w] by auto
  moreover have "\<forall>w \<in> set (ef_entry ef). bounded p False w" using bspec [OF f, of "Moves w" for w] by auto
  moreover have "\<forall>w \<in> set (ef_delete ef). bounded p False w" using bspec [OF f, of "Deletes w" for w] by auto
  ultimately show "bounded_effects p ef" by (simp add: bounded_effects_def)
qed

text \<open>The exceptions of the classification of deletions: a request for help and words that name nothing.\<close>

definition asks_help :: "string \<Rightarrow> bool" where
  "asks_help text \<longleftrightarrow> (\<exists>flag \<in> set [''--help'', '' -h'', '' /?'', ''-whatif'']. contains flag (casefold text))"

definition names_nothing :: "string \<Rightarrow> bool" where
  "names_nothing v \<longleftrightarrow> clean_token v \<in> {[], ''-'', ''nul'', ''NUL''} \<or> starts_with ''&'' (clean_token v)"

lemma resolve_no_target: "resolve_mutation_target v cwd shell delayed = No_Target \<longleftrightarrow> names_nothing v"
  by (auto simp: resolve_mutation_target_def names_nothing_def Let_def split: sum.splits)

lemma target_cases:
  "(case t of Resolved p \<Rightarrow> [p] | _ \<Rightarrow> []) = [] \<and> (case t of Unresolved p \<Rightarrow> [p] | _ \<Rightarrow> []) = [] \<longleftrightarrow> t = No_Target"
  by (cases t) simp_all

lemma partition_empty:
  "partition_mutation_targets vs cwd shell delayed = ([], []) \<longleftrightarrow> (\<forall>v \<in> set vs. names_nothing v)"
proof -
  let ?r = "\<lambda>v. resolve_mutation_target v cwd shell delayed"
  have "partition_mutation_targets vs cwd shell delayed = ([], []) \<longleftrightarrow>
    (\<forall>v \<in> set vs. (case ?r v of Resolved p \<Rightarrow> [p] | _ \<Rightarrow> []) = [] \<and> (case ?r v of Unresolved p \<Rightarrow> [p] | _ \<Rightarrow> []) = [])"
    by (simp add: partition_mutation_targets_def Let_def ball_conj_distrib)
  then show ?thesis by (simp only: target_cases resolve_no_target)
qed

lemma segment_bounded:
  assumes "resolve_levels max_command_levels en command st = Inr ef" "bounded_effects p ef" "ef_delete ef = []"
    and "runs max_command_levels command st delayed s"
  shows "\<exists>e. direct_effects en delayed s = Inr e \<and> bounded_effects p e \<and> ef_delete e = []"
proof -
  obtain e where e: "direct_effects en delayed s = Inr e" using resolve_levels_collects(2) [OF assms(1)] assms(4) by blast
  have sub: "effect_set e \<subseteq> effect_set ef"
    using resolve_levels_collects(1) [OF assms(1)] assms(4) e by auto
  then have be: "bounded_effects p e" using assms(2) by (auto simp: bounded_effects_facts)
  have "Deletes w \<notin> effect_set e" for w using subsetD [OF sub, of "Deletes w"] assms(3) by auto
  then have "ef_delete e = []" by (cases "ef_delete e") auto
  with e be show ?thesis by blast
qed

text \<open>C38: When the policy allows the effects of a command, the effects that the classification finds in every segment run,
  through at most four nested shells, are bounded and contain no deletion, and a segment that calls a deletion program
  carries a help flag or names no target.  This is a promise about the classified effects: \<open>unseen_mutations\<close> below shows
  commands whose mutations the classification does not find.\<close>

theorem allowed_command_bounded:
  assumes "resolve_levels max_command_levels en command st = Inr ef" "evaluate p ef = Inr d" "dc_kind d = Allow"
    and "runs max_command_levels command st delayed s"
  shows "(\<exists>e. direct_effects en delayed s = Inr e \<and> bounded_effects p e \<and> ef_delete e = []) \<and>
    (program_of_tokens (segment_tokens s) \<in> set delete_programs \<longrightarrow>
      asks_help (sg_text s) \<or> (\<forall>v \<in> set (non_option_values (tl (segment_tokens s))). names_nothing v))"
proof -
  have b: "bounded_effects p ef" "ef_delete ef = []" using evaluate_cases(1) [OF assms(2)] assms(3) by auto
  obtain e where e: "direct_effects en delayed s = Inr e" and be: "bounded_effects p e" and de: "ef_delete e = []"
    using segment_bounded [OF assms(1) b assms(4)] by blast
  have "asks_help (sg_text s) \<or> (\<forall>v \<in> set (non_option_values (tl (segment_tokens s))). names_nothing v)"
    if prog: "program_of_tokens (segment_tokens s) \<in> set delete_programs"
  proof (cases "asks_help (sg_text s)")
    case False
    let ?t = "segment_tokens s"
    have "?t \<noteq> []" using prog by (auto simp: program_of_tokens_def delete_programs_def)
    have "delete_paths ?t (sg_text s) (sg_cwd s) (sg_shell s) (segment_delayed ?t delayed) =
        (ef_delete e, ef_unresolved_delete_paths e)"
      using e by (auto simp: direct_effects_def Let_def bindE_def split: sum.splits)
    then have "partition_mutation_targets (non_option_values (tl ?t)) (sg_cwd s)
        (mutation_shell (program_of_tokens ?t) (sg_shell s)) (segment_delayed ?t delayed) = ([], [])"
      using False prog \<open>?t \<noteq> []\<close> de be
      by (simp add: delete_paths_def Let_def asks_help_def bounded_effects_def)
    then show ?thesis by (simp add: partition_empty)
  qed simp
  with e be de show ?thesis by blast
qed

section \<open>Examples and what escapes the classification\<close>

definition sample_environment :: environment where
  "sample_environment =
     \<lparr>en_files = \<lparr>fs_is_dir = (\<lambda>_. False), fs_is_file = (\<lambda>_. False), fs_exists = (\<lambda>_. False), fs_read = (\<lambda>_. None),
        fs_size = (\<lambda>_. 0), fs_resolve = (\<lambda>p. p), fs_resolve_strict = (\<lambda>_. None), fs_expand = (\<lambda>p. p)\<rparr>,
      en_bracketed = (\<lambda>_. False)\<rparr>"

lemma command_effects_collected_witness:
  "\<forall>en. \<exists>start delayed s. runs max_command_levels ''cmd /c del C:/x'' (shell_state_init start ''cmd'') delayed s \<and>
     Deletes (''C:'' @ [backslash] @ ''x'') \<in> effects_of (direct_effects en delayed s)"
proof
  fix en
  have r: "resolve_command_effects en ''cmd /c del C:/x'' ''C:/work'' ''C:/work'' None =
    Inr (no_effects\<lparr>ef_delete := [''C:'' @ [backslash] @ ''x'']\<rparr>)" by code_simp
  have "shell_from_command ''cmd /c del C:/x'' None = ''cmd''" by code_simp
  with command_effects_collected [OF r] obtain start where
    e: "effect_set (no_effects\<lparr>ef_delete := [''C:'' @ [backslash] @ ''x'']\<rparr>) =
      (\<Union>(delayed, s) \<in> {(delayed, s). runs max_command_levels ''cmd /c del C:/x'' (shell_state_init start ''cmd'') delayed s}.
        effects_of (direct_effects en delayed s))" by auto
  have "Deletes (''C:'' @ [backslash] @ ''x'') \<in>
      effect_set (no_effects\<lparr>ef_delete := [''C:'' @ [backslash] @ ''x'']\<rparr>)" by simp
  then show "\<exists>start delayed s. runs max_command_levels ''cmd /c del C:/x'' (shell_state_init start ''cmd'') delayed s \<and>
     Deletes (''C:'' @ [backslash] @ ''x'') \<in> effects_of (direct_effects en delayed s)" unfolding e by blast
qed

lemma allowed_command_bounded_witness:
  "\<exists>e. direct_effects sample_environment False \<lparr>sg_text = ''touch x'', sg_cwd = ''C:/work'', sg_shell = ''generic''\<rparr> = Inr e \<and>
     bounded_effects sample_policy e"
proof -
  let ?st = "shell_state_init ''C:/work'' ''generic''" and ?s = "\<lparr>sg_text = ''touch x'', sg_cwd = ''C:/work'', sg_shell = ''generic''\<rparr>"
  have r: "resolve_levels max_command_levels sample_environment ''touch x'' ?st =
    Inr (no_effects\<lparr>ef_write := [''C:'' @ [backslash] @ ''work'' @ [backslash] @ ''x'']\<rparr>)" by code_simp
  have d: "evaluate sample_policy (no_effects\<lparr>ef_write := [''C:'' @ [backslash] @ ''work'' @ [backslash] @ ''x'']\<rparr>) =
      Inr \<lparr>dc_kind = Allow, dc_code = ''ALLOW'', dc_rule = None, dc_paths = []\<rparr>" by code_simp
  have "fst (resolve_shell_segments ''touch x'' ?st) = [?s]" by code_simp
  then have "runs (Suc 4) ''touch x'' ?st (sh_delayed ?st) ?s" by (intro runs_here) simp
  then have "runs max_command_levels ''touch x'' ?st False ?s" by (simp add: max_command_levels_def shell_state_init_def)
  from allowed_command_bounded [OF r d _ this] show ?thesis by auto
qed

text \<open>Four commands that delete or create outside the boundary have no effects at all, in every environment: a
  deletion in the fifth nested shell, a deletion whose path contains the letters of a help option, a creation whose path
  is named by its option, and a deletion after a quoted text that ends in an escape character.\<close>

lemma unseen_mutations:
  "resolve_command_effects en ''cmd /c cmd /c cmd /c cmd /c cmd /c del C:/other'' ''C:/work'' ''C:/work'' None = Inr no_effects \<and>
   resolve_command_effects en (''rm '' @ [quotation] @ ''C:/other -h'' @ [quotation]) ''C:/work'' ''C:/work'' None = Inr no_effects \<and>
   resolve_command_effects en ''New-Item -ItemType File -Path C:/other'' ''C:/work'' ''C:/work'' None = Inr no_effects \<and>
   resolve_command_effects en (''echo '' @ [apostrophe, CHR ''a'', backslash, apostrophe] @ '' ; rm C:/other'') ''C:/work'' ''C:/work'' None
     = Inr no_effects"
  by (intro conjI) code_simp+

end
