(* ===== verification/Provider_Effects_Facts.thy ===== *)
theory Provider_Effects_Facts
  imports Provider_Effects Command_Intent_Facts
begin

text \<open>
  What reaches the provider through the gateway: the file tools act inside the project boundary only, and the command
  tools run segments with bounded classified effects only; the registry of processes tracks live shells only.
\<close>

section \<open>The registry of processes\<close>

text \<open>Every process has one state, and none of the states is that of a shell that has ended.\<close>

definition tracks_live :: "process_states \<Rightarrow> bool" where
  "tracks_live states \<longleftrightarrow> distinct (map fst states) \<and> (\<forall>(pid, st) \<in> set states. \<not> sh_terminated st)"

lemma delete_live: "tracks_live states \<Longrightarrow> tracks_live (AList.delete pid states)"
proof -
  assume t: "tracks_live states"
  have "set (AList.delete pid states) \<subseteq> set states" by (auto simp: AList.delete_eq)
  with t AList.distinct_delete [of states pid] show ?thesis by (auto simp: tracks_live_def)
qed

lemma track_live: "tracks_live states \<Longrightarrow> tracks_live (track pid st states)"
proof (cases "sh_terminated st")
  case False
  assume t: "tracks_live states"
  have "set (AList.update pid st states) \<subseteq> insert (pid, st) (set states)"
    by (induction states) auto
  with t False show ?thesis by (auto simp: track_def tracks_live_def AList.distinct_update)
qed (simp add: track_def delete_live)

lemma observe_process_live:
  assumes "tracks_live states" "observe_process rs tool arguments answer states = Inr states'"
  shows "tracks_live states'"
  using assms track_live delete_live
  by (auto simp: observe_process_def observe_start_def observe_interaction_def Let_def bindE_def
      split: if_split_asm option.split_asm sum.split_asm prod.split_asm)

section \<open>The tools behind the gateway\<close>

text \<open>The paths that a call of a file tool writes, moves and deletes, tool by tool.\<close>

definition file_writes :: "string \<Rightarrow> obj \<Rightarrow> string list" where
  "file_writes tool arguments =
     (let name = casefold tool; given = (\<lambda>k. paths_of_value (field arguments k)) in
      if name \<in> {''write_file'', ''write_docx'', ''write_excel'', ''create_directory''} then given ''path''
      else if name = ''edit_block'' then given ''file_path'' @ given ''path''
      else if name = ''write_pdf'' then
        (case field arguments ''outputPath'' of JStr s \<Rightarrow> if blank s then given ''path'' else [s] | _ \<Rightarrow> given ''path'')
      else [])"

definition file_moves :: "string \<Rightarrow> obj \<Rightarrow> string list" where
  "file_moves tool arguments =
     (if casefold tool = ''move_file''
      then paths_of_value (field arguments ''source'') @ paths_of_value (field arguments ''destination'') else [])"

definition file_deletes :: "string \<Rightarrow> obj \<Rightarrow> string list" where
  "file_deletes tool arguments =
     (if casefold tool \<in> {''delete_file'', ''delete_directory'', ''remove_file'', ''remove_directory''}
      then paths_of_value (field arguments ''path'') else [])"

lemmas tool_tables = write_path_keys_def entry_path_keys_def delete_path_keys_def command_tools_def

lemma tool_effects_files:
  assumes "tool_effects rs tool arguments states = Inr ef"
  shows "set (file_writes tool arguments) \<subseteq> set (ef_write ef)" "set (file_moves tool arguments) \<subseteq> set (ef_entry ef)"
    "set (file_deletes tool arguments) \<subseteq> set (ef_delete ef)"
proof -
  note files = tool_effects_def Let_def tool_tables collect_paths_def
  show "set (file_writes tool arguments) \<subseteq> set (ef_write ef)"
    using assms
    by (auto simp: files file_writes_def filled_text_def paths_of_value_def [of "JStr s" for s]
        split: if_split_asm json.split_asm)
  show "set (file_moves tool arguments) \<subseteq> set (ef_entry ef)"
    using assms by (auto simp: files file_moves_def split: if_split_asm)
  show "set (file_deletes tool arguments) \<subseteq> set (ef_delete ef)"
    using assms by (auto simp: files file_deletes_def split: if_split_asm)
qed

lemma commander_other:
  "commander_gateway rs p texts process other quarantine =
   commander_gateway rs p texts process provider quarantine \<lparr>gw_call := \<lambda>tool arguments. in_provider (other tool arguments)\<rparr>"
  by (simp add: commander_gateway_def)

text \<open>What the gateway has established when the provider can influence a call.\<close>

lemma provider_influence:
  assumes "on_call_tool (commander_gateway rs p texts process provider quarantine) tool arguments st \<noteq>
      on_call_tool (commander_gateway rs p texts process other quarantine) tool arguments st"
  obtains args ef where
    "normalized_arguments (commander_gateway rs p texts process provider quarantine) tool arguments = Inr args"
    "tool_effects rs tool args (pw_states (gs_world st)) = Inr ef" "bounded_effects p ef" "ef_delete ef = []"
proof -
  let ?g = "commander_gateway rs p texts process provider quarantine"
  obtain args ef d st' where s: "settled ?g tool arguments (gs_world st) args ef d"
    and ne: "apply_decision ?g tool (map fst arguments) args d st' \<noteq>
      apply_decision (?g\<lparr>gw_call := \<lambda>tool arguments. in_provider (other tool arguments)\<rparr>) tool (map fst arguments) args d st'"
    by (rule unsettled_rejects [OF assms [unfolded commander_other [of rs p texts process other quarantine provider]]]) simp_all
  have "dc_kind d = Allow"
    using ne by (cases "dc_kind d") (simp_all add: apply_decision_def quarantine_call_other split: if_splits)
  moreover have "evaluate p ef = Inr d" "tool_effects rs tool args (pw_states (gs_world st)) = Inr ef"
    using s by (auto simp: settled_def commander_gateway_def)
  ultimately show ?thesis using that [of args ef] evaluate_cases(1) [of p ef d] s by (auto simp: settled_def)
qed

text \<open>C39: The provider behind the gateway, with the tools of Desktop Commander as the resolver reads them, can influence the
  call of a file tool only when every path the call writes, creates, edits or moves (as the arguments after normalization
  name it) stays inside the project boundary, links resolved, and never that of a deletion tool that is given a path: in
  every other case the call ends in the same way whatever the provider would do.\<close>

theorem file_tools_stay_inside:
  assumes "on_call_tool (commander_gateway rs p texts process provider quarantine) tool arguments st \<noteq>
      on_call_tool (commander_gateway rs p texts process other quarantine) tool arguments st"
    and "drive_boundary p b"
  shows "\<exists>args. normalized_arguments (commander_gateway rs p texts process provider quarantine) tool arguments = Inr args \<and>
    (\<forall>path \<in> set (file_writes tool args). stays_inside p b True path) \<and>
    (\<forall>path \<in> set (file_moves tool args). stays_inside p b False path) \<and> file_deletes tool args = []"
proof -
  obtain args ef where n: "normalized_arguments (commander_gateway rs p texts process provider quarantine) tool arguments = Inr args"
    and ef: "tool_effects rs tool args (pw_states (gs_world st)) = Inr ef" "bounded_effects p ef" "ef_delete ef = []"
    by (rule provider_influence [OF assms(1)])
  note files = tool_effects_files [OF ef(1)]
  have "\<forall>path \<in> set (file_writes tool args). stays_inside p b True path"
    using files(1) ef(2) bounded_stays_inside [OF assms(2)] by (auto simp: bounded_effects_def)
  moreover have "\<forall>path \<in> set (file_moves tool args). stays_inside p b False path"
    using files(2) ef(2) bounded_stays_inside [OF assms(2)] by (auto simp: bounded_effects_def)
  moreover have "file_deletes tool args = []" using files(3) ef(3) by simp
  ultimately show ?thesis using n by blast
qed

text \<open>The command of a tool call and the state of the shell it is analysed in.\<close>

definition analysed :: "resolver \<Rightarrow> string \<Rightarrow> obj \<Rightarrow> process_states \<Rightarrow> string \<Rightarrow> shell_state \<Rightarrow> bool" where
  "analysed rs tool arguments states command start \<longleftrightarrow>
     (let interacts = (casefold tool = ''interact_with_process'');
          given = command_text (if interacts then [''input'', ''command''] else [''command'', ''input'']) arguments
      in command = given \<and> command \<noteq> [] \<and>
         (case (if interacts then tracked_command arguments states else None) of
            Some (pid, _, st) \<Rightarrow>
              (\<exists>cwd. normalize_windows_path (if sh_cwd st = [] then rs_boundary rs else sh_cwd st) (rs_boundary rs) = Inr cwd \<and>
                 start = st\<lparr>sh_cwd := cwd\<rparr>)
          | None \<Rightarrow>
              (\<exists>cwd. normalize_windows_path (if start_directory rs arguments = [] then rs_boundary rs
                   else start_directory rs arguments) (rs_boundary rs) = Inr cwd \<and>
                 start = shell_state_init cwd (shell_from_command command (shell_text (field arguments ''shell''))))))"

lemma command_effects_analysed:
  assumes "command_effects rs (casefold tool) arguments states = Inr ef"
    and "command_text (if casefold tool = ''interact_with_process'' then [''input'', ''command''] else [''command'', ''input''])
      arguments = command" "command \<noteq> []"
  shows "\<exists>start. analysed rs tool arguments states command start \<and>
    resolve_levels max_command_levels (rs_environment rs) command start = Inr ef"
proof (cases "casefold tool = ''interact_with_process''")
  case True
  show ?thesis
  proof (cases "tracked_command arguments states")
    case None
    with True assms show ?thesis
      by (auto simp: command_effects_def resolve_interaction_def analysed_def Let_def bindE_def resolve_command_effects_def
          resolve_command_recursive_def split: sum.splits if_splits)
  next
    case (Some t)
    obtain pid c st where t: "t = (pid, c, st)" by (cases t)
    with Some assms(2) True have "c = command"
      by (auto simp: tracked_command_def Let_def split: option.splits if_splits)
    with True assms Some t show ?thesis
      by (auto simp: command_effects_def resolve_interaction_def analysed_def Let_def bindE_def
          resolve_command_effects_with_state_def resolve_command_recursive_def split: sum.splits if_splits)
  qed
next
  case False
  with assms show ?thesis
    by (auto simp: command_effects_def analysed_def Let_def bindE_def resolve_command_effects_def
        resolve_command_recursive_def split: sum.splits if_splits)
qed

text \<open>The provider can influence the call of a command tool only when every segment the command runs, in the shell state
  the process is known to have, through at most four nested shells, has bounded classified effects without a deletion.\<close>

theorem command_tools_run_bounded:
  assumes "on_call_tool (commander_gateway rs p texts process provider quarantine) tool arguments st \<noteq>
      on_call_tool (commander_gateway rs p texts process other quarantine) tool arguments st"
    and "casefold tool \<in> set command_tools"
  shows "\<exists>args. normalized_arguments (commander_gateway rs p texts process provider quarantine) tool arguments = Inr args \<and>
    (let command = command_text (if casefold tool = ''interact_with_process'' then [''input'', ''command'']
       else [''command'', ''input'']) args
     in command \<noteq> [] \<longrightarrow>
       (\<exists>start. analysed rs tool args (pw_states (gs_world st)) command start \<and>
          (\<forall>delayed s. runs max_command_levels command start delayed s \<longrightarrow>
             (\<exists>e. direct_effects (rs_environment rs) delayed s = Inr e \<and> bounded_effects p e \<and> ef_delete e = []))))"
proof -
  obtain args ef where n: "normalized_arguments (commander_gateway rs p texts process provider quarantine) tool arguments = Inr args"
    and ef: "tool_effects rs tool args (pw_states (gs_world st)) = Inr ef" "bounded_effects p ef" "ef_delete ef = []"
    by (rule provider_influence [OF assms(1)])
  have c: "command_effects rs (casefold tool) args (pw_states (gs_world st)) = Inr ef"
    using ef(1) assms(2) by (simp add: tool_effects_def Let_def)
  have "\<exists>e. direct_effects (rs_environment rs) delayed s = Inr e \<and> bounded_effects p e \<and> ef_delete e = []"
    if r: "resolve_levels max_command_levels (rs_environment rs) command start = Inr ef"
      and s: "runs max_command_levels command start delayed s" for command start delayed s
    using segment_bounded [OF r ef(2,3) s] .
  with n command_effects_analysed [OF c refl] show ?thesis unfolding Let_def by blast
qed

section \<open>Examples\<close>

definition sample_resolver :: resolver where
  "sample_resolver =
     \<lparr>rs_boundary = ''C:/work'', rs_state_file = ''C:/work/state.json'',
      rs_environment = sample_environment,
      rs_texts = (\<lambda>_. [])\<rparr>"

definition sample_provider :: "string \<Rightarrow> obj \<Rightarrow> (nat, json) op" where
  "sample_provider tool arguments n = (Inr (JStr ''done''), Suc n)"

definition failing_provider :: "string \<Rightarrow> obj \<Rightarrow> (nat, json) op" where
  "failing_provider tool arguments n = (Inl OSError, n)"

definition sample_commander :: "(string \<Rightarrow> obj \<Rightarrow> (nat, json) op) \<Rightarrow> nat process_world gateway" where
  "sample_commander provider =
     commander_gateway sample_resolver sample_policy None None provider (\<lambda>paths n. (Inr [], n))"

definition sample_processes :: "nat process_world gateway_state" where
  "sample_processes = \<lparr>gs_world = \<lparr>pw_states = [], pw_provider = 0\<rparr>, gs_calls = []\<rparr>"

lemma settled_call:
  assumes "normalized_arguments g tool arguments = Inr args" "casefold tool \<notin> set (cb_network_only (gw_capabilities g))"
    "\<not> hidden_key (gw_capabilities g) tool args" "\<not> hidden_arguments (gw_capabilities g) tool args"
    "gw_resolve g tool args (gs_world st) = (Inr ef, w)" "evaluate (gw_policy g) ef = Inr d"
  shows "on_call_tool g tool arguments st = apply_decision g tool (map fst arguments) args d (st\<lparr>gs_world := w\<rparr>)"
  using assms by (auto simp: on_call_tool_def normalized_arguments_def Let_def bindS_def bindE_def in_gateway_def liftE_def
      split: sum.splits)

lemma sample_influence:
  assumes "casefold tool \<noteq> ''give_feedback_to_desktop_commander''" "casefold tool \<noteq> ''set_config_value''"
    "casefold tool \<noteq> ''read_file''" "tool_effects sample_resolver tool arguments [] = Inr ef"
    "evaluate sample_policy ef = Inr \<lparr>dc_kind = Allow, dc_code = ''ALLOW'', dc_rule = None, dc_paths = []\<rparr>"
  shows "on_call_tool (sample_commander sample_provider) tool arguments sample_processes \<noteq>
    on_call_tool (sample_commander failing_provider) tool arguments sample_processes"
proof -
  let ?d = "\<lparr>dc_kind = Allow, dc_code = ''ALLOW'', dc_rule = None, dc_paths = []\<rparr>"
  have call: "on_call_tool (sample_commander provider) tool arguments sample_processes =
      forward (sample_commander provider) tool (map fst arguments) arguments ?d sample_processes" for provider
  proof -
    have c: "casefold ''set_config_value'' = ''set_config_value''" by code_simp
    have "on_call_tool (sample_commander provider) tool arguments sample_processes =
      apply_decision (sample_commander provider) tool (map fst arguments) arguments ?d (sample_processes\<lparr>gs_world := gs_world sample_processes\<rparr>)"
      by (rule settled_call [where ef = ef]) (use assms c in \<open>simp_all add: sample_commander_def commander_gateway_def
        commander_capabilities_def sample_processes_def normalized_arguments_def normalized_texts_def normalized_process_def hidden_key_def hidden_arguments_def\<close>)
    then show ?thesis by (simp add: apply_decision_def)
  qed
  have "pw_provider (gs_world (snd (forward (sample_commander failing_provider) tool keys arguments ?d sample_processes))) = 0" for keys
    by (simp add: forward_def sample_commander_def commander_gateway_def sample_processes_def in_gateway_def in_provider_def
        failing_provider_def record_call_def)
  moreover have "pw_provider (gs_world (snd (forward (sample_commander sample_provider) tool keys arguments ?d sample_processes))) = 1" for keys
    by (simp add: forward_def sample_commander_def commander_gateway_def sample_processes_def in_gateway_def in_provider_def
        sample_provider_def record_call_def observe_tool_def bindS_def returnS_def split: sum.split)
  ultimately show ?thesis unfolding call by (metis zero_neq_one)
qed

lemma file_tools_stay_inside_witness:
  "stays_inside sample_policy (''C:'' @ [backslash] @ ''work'') True ''a.txt''"
proof -
  have "tool_effects sample_resolver ''write_file'' [(''path'', JStr ''a.txt'')] [] = Inr (no_effects\<lparr>ef_write := [''a.txt'']\<rparr>)"
    by code_simp
  moreover have "casefold ''write_file'' = ''write_file''" by code_simp
  ultimately have "on_call_tool (sample_commander sample_provider) ''write_file'' [(''path'', JStr ''a.txt'')] sample_processes \<noteq>
      on_call_tool (sample_commander failing_provider) ''write_file'' [(''path'', JStr ''a.txt'')] sample_processes"
    using sample_decisions(1) by (intro sample_influence) simp_all
  note influence = this [unfolded sample_commander_def]
  have b: "drive_boundary sample_policy (''C:'' @ [backslash] @ ''work'')" using sample_boundary by (simp add: sample_gateway_def)
  have "set (file_writes ''write_file'' [(''path'', JStr ''a.txt'')]) = {''a.txt''}" by code_simp
  with file_tools_stay_inside [OF influence b] show ?thesis by (auto simp: normalized_arguments_def normalized_texts_def normalized_process_def commander_gateway_def)
qed

lemma command_tools_run_bounded_witness:
  "\<exists>start. analysed sample_resolver ''start_process'' [(''command'', JStr ''ls'')] [] ''ls'' start"
proof -
  have e: "tool_effects sample_resolver ''start_process'' [(''command'', JStr ''ls'')] [] = Inr no_effects" by code_simp
  have c: "casefold ''start_process'' = ''start_process''" by code_simp
  have d: "evaluate sample_policy no_effects = Inr \<lparr>dc_kind = Allow, dc_code = ''ALLOW'', dc_rule = None, dc_paths = []\<rparr>"
    by code_simp
  have "on_call_tool (sample_commander sample_provider) ''start_process'' [(''command'', JStr ''ls'')] sample_processes \<noteq>
      on_call_tool (sample_commander failing_provider) ''start_process'' [(''command'', JStr ''ls'')] sample_processes"
    by (rule sample_influence [OF _ _ _ e d]) (simp_all add: c)
  note influence = this [unfolded sample_commander_def]
  have "casefold ''start_process'' \<in> set command_tools" by code_simp
  from command_tools_run_bounded [OF influence this] show ?thesis
    by (auto simp: normalized_arguments_def normalized_texts_def normalized_process_def commander_gateway_def c field_def field_or_def
        sample_processes_def Let_def)
qed

end
