(* ===== verification/Spec2Isabelle.thy ===== *)
theory Spec2Isabelle
  imports Planner_Facts Provenance_Facts Work_Packet_Claims Reservation_Facts Authority_Claims Handoff_Store_Claims
    Recovery_Facts Promotion_Claims Lifecycle_Claims Promotion_Landing_Claims Provider_Effects_Facts
begin

text \<open>
  A model of the decision logic of kis-mcp, a supervised platform on which agents change repositories, with the
  theorems that say what it promises.  All paths below are relative to \<open>src/kis_mcp/\<close>.


  \<^bold>\<open>The program and its parts\<close>

  The \<^emph>\<open>coordinator\<close> (\<open>workflows/coordinator/\<close>) plans a change as a graph of tasks, admits the
  change into a journal of reservations, guards every later mutation by leases and fences, and hands the tasks out as
  work packets.  The \<^emph>\<open>once-through workflow\<close> (\<open>workflows/once_through/\<close>) takes one work item from a frozen
  handoff contract over collected evidence to a promotion, which a controller drives through ten stages until the
  change has landed.  The parts meet as follows: the planner's plan is what a packet is issued for; a packet carries
  the reservation, revision, lease and fence of the authority service and moves only when they move; the promotion
  reads the contract and the evidence of the handoff store; its checkpoint decides what the lifecycle decision says next.

  \<^item> \<open>Prelude\<close>, \<open>Numbers\<close>, \<open>Json_Text\<close>, \<open>Json_Value\<close>: the error monad and its version with a state, the Python
    string operations, decimal numbers, JSON text and values.  An exception is a value of \<open>exn\<close>; an operation
    \<open>('s, 'a) op\<close> returns a result or an exception together with the state it leaves.
  \<^item> \<open>Path_Claims\<close>, \<open>Claims\<close>: path claims, overlap and coordination (\<open>service.py\<close>).
  \<^item> \<open>Graph_Search\<close>, \<open>Components\<close>, \<open>Ready_List\<close>: the three graph algorithms the code uses (depth-first search,
    connected components, Kahn's elimination) over adjacency lists, with their reference relations.
  \<^item> \<open>Planner\<close>, \<open>Planner_Facts\<close>: requests, tasks and \<open>PlannerService.plan\<close> (\<open>models.py\<close>, \<open>planner.py\<close>).
  \<^item> \<open>Provenance\<close>, \<open>Provenance_Facts\<close>: GitHub provenance (\<open>provenance.py\<close>).
  \<^item> \<open>Work_Packets\<close>, \<open>Work_Packet_Facts\<close>, \<open>Work_Packet_Claims\<close>: \<open>WorkPacketService\<close> (\<open>planner.py\<close>); the state
    \<open>packets\<close> is the evidence directory of every packet, the recorded bindings and the world of the adapters.
  \<^item> \<open>Journal\<close>, \<open>Reservation\<close>, \<open>Reservation_Facts\<close>: the append-only journal and the admission transaction
    (\<open>service.py\<close>); the state \<open>coordinator\<close> is the journal and the world of the adapters.
  \<^item> \<open>Authority\<close>, \<open>Authority_Facts\<close>, \<open>Authority_Props\<close>, \<open>Authority_Recovery\<close>, \<open>Authority_Claims\<close>: leases, fences, amendments and recovery
    (\<open>authority.py\<close>) over the same state.
  \<^item> \<open>Handoff\<close>, \<open>Handoff_Json\<close>, \<open>Handoff_Store\<close> and its facts and claims: contracts and evidence
    (\<open>contracts.py\<close>), the store \<open>TaskHandoffStore\<close> (\<open>state.py\<close>); the state \<open>store\<close> is the port ledger and the
    files of each directory.
  \<^item> \<open>Recovery\<close>, \<open>Recovery_Facts\<close>: checkpoints and rewinds (\<open>recovery.py\<close>, the recovery tool of
    \<open>lifecycle_tools.py\<close>).
  \<^item> \<open>Evidence_Rules\<close>, \<open>Promotion_Ready\<close>: resolution of evidence, review closure, promotion readiness
    (\<open>evidence.py\<close>, \<open>review.py\<close>, \<open>service.py\<close> of the once-through workflow).
  \<^item> \<open>Promotion_Controller\<close>, \<open>Promotion_Facts\<close>, \<open>Promotion_Claims\<close>: the resumable stage loop (\<open>controller.py\<close>);
    the state \<open>promotion_state\<close> holds the checkpoint files and the world of the stages.
  \<^item> \<open>Promotion_Stages\<close>, \<open>Promotion_Link\<close>, \<open>Promotion_Landing\<close>, \<open>Promotion_Landing_Claims\<close>: the ten stages
    (\<open>promotion.py\<close>), the recording invoker of \<open>tools.py\<close> that connects them to the controller, and what the
    observations of a finished promotion say together.
  \<^item> \<open>Lifecycle\<close>, \<open>Lifecycle_Facts\<close>, \<open>Lifecycle_Claims\<close>: the lifecycle decision (\<open>lifecycle.py\<close>).

  The \<^emph>\<open>gateway\<close> stands before the tools that change files: every call is classified, judged by three rules and then
  forwarded, blocked or redirected to a quarantine.

  \<^item> \<open>Windows_Paths\<close>, \<open>Windows_Paths_Facts\<close>: the functions of \<open>ntpath\<close> that the code calls, and \<open>paths.py\<close>.
  \<^item> \<open>Three_Rules\<close>, \<open>Three_Rules_Facts\<close>: \<open>models.py\<close>, \<open>policy.py\<close> and \<open>ThreeRuleMiddleware.on_call_tool\<close>
    (\<open>middleware.py\<close>); the state \<open>gateway_state\<close> is the record of calls and the world of the provider.
  \<^item> \<open>Shell_Parser\<close>, \<open>Git_Context\<close>, \<open>Command_Intent\<close>, \<open>Command_Intent_Facts\<close>: the classification of shell commands
    (\<open>shell_parser.py\<close>, \<open>git_context.py\<close>, \<open>command_intent.py\<close>); the state \<open>shell_state\<close> is the one the code keeps of a shell.
  \<^item> \<open>Provider_Effects\<close>, \<open>Provider_Effects_Facts\<close>: what the tools of the provider do (\<open>desktop_commander.py\<close>), the shell
    states of its processes (\<open>process_state.py\<close>; the state \<open>process_world\<close> is that registry and the world of the
    provider), and the gateway they are composed into (\<open>gateway/composition.py\<close>).


  \<^bold>\<open>Interfaces\<close>

  Each interface is a locale with an interpretation on the model's own definitions: \<open>path_scope\<close> (a claim denotes a
  set of paths; interpreted as \<open>pc\<close> in \<open>Path_Claims\<close>), \<open>json_escape\<close> (an escaping that can be read back; \<open>utf8\<close> and
  \<open>ascii\<close> in \<open>Json_Text\<close>), \<open>event_log\<close> (an append succeeds and adds one entry at the end; \<open>jl\<close> in \<open>Journal\<close>),
  \<open>stage_links\<close> (an invariant of the observations that every passing stage extends; \<open>promoted\<close> in
  \<open>Promotion_Landing\<close> and \<open>stopped\<close> in \<open>Promotion_Landing_Claims\<close>).


  \<^bold>\<open>What the theorems show\<close>

  \<^item> Planning: a plan exists exactly for valid requests (\<open>plan_accepts_iff\<close>, \<open>validate_dependencies_decides\<close>), its
    scopes are exclusive or serialised by one owner, its edges are acyclic.
  \<^item> Admission: admitted changes are separate, numbered afresh, and a failure leaves a trace in the journal and no
    half-admitted change; compatibility of the active claims is an invariant.
  \<^item> Authority: every operation is a chain of steps of an abstract event machine
    (\<open>coordinator_refines_event_machine\<close>); over its reachable journals leases agree with reservations and a fence left
    behind is never accepted again; recovery settles every open transition
    and every expired lease.
  \<^item> Work packets and provenance: assignments form a chain, are moved from the current one only, are issued once;
    aggregation of provenance equals its set-theoretic specification, evidence round-trips.
  \<^item> Handoff store: the operations refine five kinds of changes of an abstract store; contracts, ports and evidence
    lineages are stable; materialisation is faithful.
  \<^item> Promotion: the checkpoint is always an ordered prefix of the stages; completed stages are not repeated; a promotion
    whose stages carry it on completes; a finished one has merged exactly the tested head and is accounted for by its receipt.
  \<^item> Recovery and lifecycle: the state round-trips, the decision follows the recorded evidence.
  \<^item> Gateway: the boundary check decides the descendant relation; neither the provider nor the quarantine can influence
    a call unless every target of it stays inside the project boundary.
  \<^item> Commands: the effects of a command are those of the segments it runs, and the classified effects of an allowed
    command are bounded; \<open>unseen_mutations\<close> shows four commands that escape the classification.
  \<^item> Provider tools: the provider can influence the call of a file tool only when its paths stay inside the boundary, and
    that of a command tool only when the classified effects of its segments are bounded.

  Theorems that exhibit a defect are stated as the code behaves: \<open>real_readiness_never_done\<close>,
  \<open>failed_completion_passes\<close>, \<open>completed_without_receipt_stuck\<close>, \<open>live_promotion_always_stale\<close>,
  \<open>recovery_tool_never_advances\<close>, and the lemmas \<open>rewind_revives_refuted_evidence\<close>, \<open>available_rewinds_not_exact\<close>,
  \<open>binding_invalidates_manual_exit\<close>, \<open>beyond_events\<close>.


  \<^bold>\<open>Bounds and termination\<close>

  Loops are structural recursions or have a proved measure; no operation needs fuel; the
  levels of nested shells and of included Git configurations are the code's own bounds.  The stage loop of the controller
  runs over the remaining stages, the port search over the range 46000 to 60999, the graph searches over the
  nodes not yet visited.  Integers are unbounded as in Python.  Sequence numbers and ordinals are written with at
  least three digits; where the code reads them back with exactly three (the packet evidence), the theorems carry the
  bound 999.


  \<^bold>\<open>What is not modelled\<close>

  \<^item> Case folding and white space are the ASCII ones; JSON numbers are integers; file names are compared exactly.
  \<^item> A lock makes an operation atomic; crashes between two writes are covered only where the code leaves a file behind.
  \<^item> Reasons of exceptions; only their class or code.  The recursion limit and errors of the file system are left out;
    the resolver that aggregation of provenance asks is a function of the claim, without a state of its own.
  \<^item> Git, GitHub, processes, clocks, SHA-256, random keys, JSON Schema and time stamps are parameters of the operations.
  \<^item> The texts found in an answer of the provider (\<open>_result_texts\<close>, a walk over objects of the server library) are a
    parameter of the registry of processes; the listing of searches and the counters of the observability are left out.
  \<^item> \<open>recent_terminal_receipts\<close> (a read-only listing), the registration of tools on the server, process identity and
    activation in the once-through workflow; the coordinator's worker, reconciliation and adapters; exact GitHub
    operations and the merge queue; work management, discovery, skills, providers, the control centre, commissioning
    and the governance scripts: they call services outside the repository or render what they answer.
\<close>

end
